(* ===== verification/Prelude.thy ===== *)
theory Prelude
  imports Main
begin

text \<open>
  Shared foundations: the collections of facts that drive the component proofs, the shape in
  which a Go function with errors and side effects is written, Go slices that may be nil, and the
  functions of the package \<^verbatim>\<open>strings\<close> the program uses.

  A Go function \<^verbatim>\<open>func f(ctx, x) (T, error)\<close> is a function of its arguments and of the world
  \<open>'w\<close> it runs in; it returns either the error (\<open>Inl\<close>) or the value (\<open>Inr\<close>), together with the
  world it leaves behind. The error type is a parameter here, so that this theory does not depend
  on the error values of the program.
\<close>

section \<open>Collections of facts\<close>

named_theorems run_simps \<open>equations that run a program on a world\<close>
named_theorems ok_simps \<open>what a successful run of a composed program says about its parts\<close>
named_theorems frame_intros \<open>rules that a program keeps a predicate on worlds\<close>
named_theorems fail_intros \<open>rules that the errors of a program satisfy a predicate\<close>

section \<open>Programs with errors and state\<close>

type_synonym ('e, 'w, 'a) prog = "'w \<Rightarrow> ('e + 'a) \<times> 'w"

definition okM :: "'a \<Rightarrow> ('e, 'w, 'a) prog" where
  "okM x w = (Inr x, w)"

definition failM :: "'e \<Rightarrow> ('e, 'w, 'a) prog" where
  "failM e w = (Inl e, w)"

text \<open>\<^verbatim>\<open>x, err := m; if err != nil { return err }; k(x)\<close>\<close>

definition tryM :: "('e, 'w, 'a) prog \<Rightarrow> ('a \<Rightarrow> ('e, 'w, 'b) prog) \<Rightarrow> ('e, 'w, 'b) prog" where
  "tryM m k w = (case m w of (Inl e, w') \<Rightarrow> (Inl e, w') | (Inr x, w') \<Rightarrow> k x w')"

text \<open>\<^verbatim>\<open>x, err := m\<close>, with both outcomes handed to the continuation.\<close>

definition runM :: "('e, 'w, 'a) prog \<Rightarrow> ('e + 'a \<Rightarrow> ('e, 'w, 'b) prog) \<Rightarrow> ('e, 'w, 'b) prog" where
  "runM m k w = (case m w of (r, w') \<Rightarrow> k r w')"

text \<open>\<^verbatim>\<open>if b { return e }; k\<close>\<close>

definition guardM :: "bool \<Rightarrow> 'e \<Rightarrow> ('e, 'w, 'a) prog \<Rightarrow> ('e, 'w, 'a) prog" where
  "guardM b e k = (if b then failM e else k)"

text \<open>Reading and writing the world.\<close>

definition getM :: "('w \<Rightarrow> 'a) \<Rightarrow> ('e, 'w, 'a) prog" where
  "getM f w = (Inr (f w), w)"

definition modM :: "('w \<Rightarrow> 'w) \<Rightarrow> ('e, 'w, unit) prog" where
  "modM f w = (Inr (), f w)"

text \<open>A pure check that returns its error as an option: \<^verbatim>\<open>if err := check(); err != nil { return err }\<close>\<close>

definition checkM :: "'e option \<Rightarrow> ('e, 'w, unit) prog" where
  "checkM r w = (case r of None \<Rightarrow> (Inr (), w) | Some e \<Rightarrow> (Inl e, w))"

text \<open>The error of a failing call is replaced by a wrapping of it.\<close>

definition mapErrM :: "('e \<Rightarrow> 'e) \<Rightarrow> ('e, 'w, 'a) prog \<Rightarrow> ('e, 'w, 'a) prog" where
  "mapErrM f m w = (case m w of (Inl e, w') \<Rightarrow> (Inl (f e), w') | (Inr x, w') \<Rightarrow> (Inr x, w'))"

subsection \<open>Running\<close>

lemma run_basic [run_simps, simp]:
  "okM x w = (Inr x, w)" "failM e w = (Inl e, w)" "getM f w = (Inr (f w), w)"
  "modM h w = (Inr (), h w)"
  by (simp_all add: okM_def failM_def getM_def modM_def)

lemma guardM_run [run_simps]: "guardM b e k w = (if b then (Inl e, w) else k w)"
  by (simp add: guardM_def)

lemma tryM_Inl [run_simps, simp]: "m w = (Inl e, w') \<Longrightarrow> tryM m k w = (Inl e, w')"
  by (simp add: tryM_def)

lemma tryM_Inr [run_simps, simp]: "m w = (Inr x, w') \<Longrightarrow> tryM m k w = k x w'"
  by (simp add: tryM_def)

lemma runM_run [run_simps, simp]: "m w = (r, w') \<Longrightarrow> runM m k w = k r w'"
  by (simp add: runM_def)

lemma checkM_run [run_simps, simp]:
  "checkM None w = (Inr (), w)" "checkM (Some e) w = (Inl e, w)"
  by (simp_all add: checkM_def)

lemma mapErrM_run [run_simps, simp]:
  "m w = (Inl e, w') \<Longrightarrow> mapErrM f m w = (Inl (f e), w')"
  "m w = (Inr x, w') \<Longrightarrow> mapErrM f m w = (Inr x, w')"
  by (simp_all add: mapErrM_def)

subsection \<open>What success says\<close>

lemma tryM_ok [ok_simps]:
  "tryM m k w = (Inr y, w'') \<longleftrightarrow> (\<exists>x w'. m w = (Inr x, w') \<and> k x w' = (Inr y, w''))"
  by (auto simp: tryM_def split: prod.splits sum.splits)

lemma guardM_ok [ok_simps]: "guardM b e k w = (Inr y, w') \<longleftrightarrow> \<not> b \<and> k w = (Inr y, w')"
  by (simp add: guardM_run)

lemma checkM_ok [ok_simps]: "checkM r w = (Inr u, w') \<longleftrightarrow> r = None \<and> w' = w"
  by (auto simp: checkM_def split: option.splits)

lemma mapErrM_ok [ok_simps]: "mapErrM f m w = (Inr x, w') \<longleftrightarrow> m w = (Inr x, w')"
  by (auto simp: mapErrM_def split: prod.splits sum.splits)

subsection \<open>What a program keeps\<close>

text \<open>\<open>keeps P m\<close>: the program \<open>m\<close> started in a world with \<open>P\<close> ends, with or without an error,
  in a world with \<open>P\<close>.\<close>

definition keeps :: "('w \<Rightarrow> bool) \<Rightarrow> ('e, 'w, 'a) prog \<Rightarrow> bool" where
  "keeps P m \<longleftrightarrow> (\<forall>w. P w \<longrightarrow> P (snd (m w)))"

lemma keepsD: "keeps P m \<Longrightarrow> m w = (r, w') \<Longrightarrow> P w \<Longrightarrow> P w'"
  unfolding keeps_def by (metis snd_conv)

lemma keepsI: "(\<And>w r w'. P w \<Longrightarrow> m w = (r, w') \<Longrightarrow> P w') \<Longrightarrow> keeps P m"
  unfolding keeps_def by (metis prod.collapse)

lemma keeps_ok [frame_intros]: "keeps P (okM x)"
  by (simp add: keeps_def)

lemma keeps_fail [frame_intros]: "keeps P (failM e)"
  by (simp add: keeps_def)

lemma keeps_get [frame_intros]: "keeps P (getM f)"
  by (simp add: keeps_def)

lemma keeps_check [frame_intros]: "keeps P (checkM r)"
  by (auto simp: keeps_def checkM_def split: option.splits)

lemma keeps_mod: "(\<And>w. P w \<Longrightarrow> P (f w)) \<Longrightarrow> keeps P (modM f)"
  by (simp add: keeps_def)

lemma keeps_try [frame_intros]: "keeps P m \<Longrightarrow> (\<And>x. keeps P (k x)) \<Longrightarrow> keeps P (tryM m k)"
  by (rule keepsI) (auto simp: tryM_def split: prod.splits sum.splits dest: keepsD)

lemma keeps_run [frame_intros]: "keeps P m \<Longrightarrow> (\<And>r. keeps P (k r)) \<Longrightarrow> keeps P (runM m k)"
  by (rule keepsI) (auto simp: runM_def split: prod.splits dest: keepsD)

lemma keeps_guard [frame_intros]: "keeps P k \<Longrightarrow> keeps P (guardM b e k)"
  by (simp add: guardM_def keeps_fail)

lemma keeps_mapErr [frame_intros]: "keeps P m \<Longrightarrow> keeps P (mapErrM f m)"
  by (rule keepsI) (auto simp: mapErrM_def split: prod.splits sum.splits dest: keepsD)

lemma keeps_if [frame_intros]: "keeps P m \<Longrightarrow> keeps P n \<Longrightarrow> keeps P (if b then m else n)"
  by simp

lemma keeps_case_option [frame_intros]:
  "keeps P m \<Longrightarrow> (\<And>x. keeps P (n x)) \<Longrightarrow> keeps P (case x of None \<Rightarrow> m | Some y \<Rightarrow> n y)"
  by (cases x) simp_all

lemma keeps_case_sum [frame_intros]:
  "(\<And>x. keeps P (m x)) \<Longrightarrow> (\<And>x. keeps P (n x)) \<Longrightarrow> keeps P (case x of Inl y \<Rightarrow> m y | Inr y \<Rightarrow> n y)"
  by (cases x) simp_all

lemma keeps_case_prod [frame_intros]:
  "(\<And>x y. keeps P (m x y)) \<Longrightarrow> keeps P (case p of (x, y) \<Rightarrow> m x y)"
  by (cases p) simp

lemma keeps_let [frame_intros]: "(\<And>x. keeps P (m x)) \<Longrightarrow> keeps P (let x = t in m x)"
  by simp

subsection \<open>With which errors a program fails\<close>

text \<open>\<open>fails_in P m\<close>: every error the program \<open>m\<close> returns satisfies \<open>P\<close>.\<close>

definition fails_in :: "('e \<Rightarrow> bool) \<Rightarrow> ('e, 'w, 'a) prog \<Rightarrow> bool" where
  "fails_in P m \<longleftrightarrow> (\<forall>w e w'. m w = (Inl e, w') \<longrightarrow> P e)"

lemma fails_inD: "fails_in P m \<Longrightarrow> m w = (Inl e, w') \<Longrightarrow> P e"
  unfolding fails_in_def by blast

lemma fails_ok [fail_intros]: "fails_in P (okM x)"
  by (simp add: fails_in_def)

lemma fails_fail [fail_intros]: "P e \<Longrightarrow> fails_in P (failM e)"
  by (simp add: fails_in_def)

lemma fails_get [fail_intros]: "fails_in P (getM f)"
  by (simp add: fails_in_def)

lemma fails_mod [fail_intros]: "fails_in P (modM f)"
  by (simp add: fails_in_def)

lemma fails_check [fail_intros]: "(\<And>e. r = Some e \<Longrightarrow> P e) \<Longrightarrow> fails_in P (checkM r)"
  by (auto simp: fails_in_def checkM_def split: option.splits)

lemma fails_try [fail_intros]: "fails_in P m \<Longrightarrow> (\<And>x. fails_in P (k x)) \<Longrightarrow> fails_in P (tryM m k)"
  unfolding fails_in_def by (auto simp: tryM_def split: prod.splits sum.splits)

lemma fails_run [fail_intros]: "(\<And>r. fails_in P (k r)) \<Longrightarrow> fails_in P (runM m k)"
  unfolding fails_in_def by (auto simp: runM_def split: prod.splits)

lemma fails_guard [fail_intros]: "(b \<Longrightarrow> P e) \<Longrightarrow> fails_in P k \<Longrightarrow> fails_in P (guardM b e k)"
  by (simp add: guardM_def fails_fail)

lemma fails_mapErr [fail_intros]: "(\<And>e. P (f e)) \<Longrightarrow> fails_in P (mapErrM f m)"
  unfolding fails_in_def by (auto simp: mapErrM_def split: prod.splits sum.splits)

lemma fails_if [fail_intros]: "(b \<Longrightarrow> fails_in P m) \<Longrightarrow> (\<not> b \<Longrightarrow> fails_in P n) \<Longrightarrow> fails_in P (if b then m else n)"
  by simp

lemma fails_case_option [fail_intros]:
  "(x = None \<Longrightarrow> fails_in P m) \<Longrightarrow> (\<And>y. x = Some y \<Longrightarrow> fails_in P (n y)) \<Longrightarrow> fails_in P (case x of None \<Rightarrow> m | Some y \<Rightarrow> n y)"
  by (cases x) simp_all

lemma fails_case_sum [fail_intros]:
  "(\<And>y. x = Inl y \<Longrightarrow> fails_in P (m y)) \<Longrightarrow> (\<And>y. x = Inr y \<Longrightarrow> fails_in P (n y)) \<Longrightarrow> fails_in P (case x of Inl y \<Rightarrow> m y | Inr y \<Rightarrow> n y)"
  by (cases x) simp_all

lemma fails_case_prod [fail_intros]:
  "(\<And>x y. p = (x, y) \<Longrightarrow> fails_in P (m x y)) \<Longrightarrow> fails_in P (case p of (x, y) \<Rightarrow> m x y)"
  by (cases p) simp

section \<open>Slices that may be nil\<close>

text \<open>\<open>None\<close> is Go's nil slice, which the program tells apart from an empty one in places.\<close>

type_synonym 'a slice = "'a list option"

definition elems :: "'a slice \<Rightarrow> 'a list" where
  "elems xs = (case xs of None \<Rightarrow> [] | Some ys \<Rightarrow> ys)"

lemma elems_simps [simp]: "elems None = []" "elems (Some ys) = ys"
  by (simp_all add: elems_def)

section \<open>The package strings\<close>

definition ascii_space :: "char \<Rightarrow> bool" where
  "ascii_space c = (c \<in> {CHR 0x09, CHR 0x0A, CHR 0x0B, CHR 0x0C, CHR 0x0D, CHR 0x20})"

text \<open>The rest of a string after one leading white-space rune (\<^verbatim>\<open>unicode.IsSpace\<close>), in UTF-8: the
  six ASCII ones and U+0085, U+00A0, U+1680, U+2000 to U+200A, U+2028, U+2029, U+202F, U+205F and
  U+3000 by their encodings. A lead byte never occurs inside another encoding, so looking at every
  byte position finds exactly the runes.\<close>

fun space_rest :: "string \<Rightarrow> string option" where
  "space_rest [] = None"
| "space_rest (c # s) =
     (if ascii_space c then Some s
      else case s of
        [] \<Rightarrow> None
      | d # s2 \<Rightarrow>
          if c = CHR 0xC2 \<and> (d = CHR 0x85 \<or> d = CHR 0xA0) then Some s2
          else case s2 of
            [] \<Rightarrow> None
          | e # s3 \<Rightarrow>
              if c = CHR 0xE1 \<and> d = CHR 0x9A \<and> e = CHR 0x80
               \<or> c = CHR 0xE2 \<and> d = CHR 0x80 \<and> (of_char e :: nat) \<in> {0x80..0x8A} \<union> {0xA8, 0xA9, 0xAF}
               \<or> c = CHR 0xE2 \<and> d = CHR 0x81 \<and> e = CHR 0x9F
               \<or> c = CHR 0xE3 \<and> d = CHR 0x80 \<and> e = CHR 0x80
              then Some s3 else None)"

lemma space_rest_length: "space_rest s = Some r \<Longrightarrow> length r < length s"
  by (cases s) (auto split: if_splits list.splits)

text \<open>\<^verbatim>\<open>strings.Fields\<close>: \<open>acc\<close> is the field being read, reversed.\<close>

function fields_from :: "string \<Rightarrow> string \<Rightarrow> string list" where
  "fields_from acc [] = (if acc = [] then [] else [rev acc])"
| "fields_from acc (c # s) =
     (case space_rest (c # s) of
        Some r \<Rightarrow> (if acc = [] then fields_from [] r else rev acc # fields_from [] r)
      | None \<Rightarrow> fields_from (c # acc) s)"
  by pat_completeness auto
termination
  by (relation "measure (\<lambda>(acc, s). length s)") (auto dest: space_rest_length simp del: space_rest.simps)

definition strings_Fields :: "string \<Rightarrow> string list" where
  "strings_Fields s = fields_from [] s"

text \<open>\<^verbatim>\<open>strings.Split\<close> at a one-character separator.\<close>

fun split_from :: "char \<Rightarrow> string \<Rightarrow> string \<Rightarrow> string list" where
  "split_from sep acc [] = [rev acc]"
| "split_from sep acc (c # s) =
     (if c = sep then rev acc # split_from sep [] s else split_from sep (c # acc) s)"

definition split_on :: "char \<Rightarrow> string \<Rightarrow> string list" where
  "split_on sep s = split_from sep [] s"

text \<open>\<^verbatim>\<open>strings.Join\<close>.\<close>

fun join :: "string \<Rightarrow> string list \<Rightarrow> string" where
  "join sep [] = ''''"
| "join sep [x] = x"
| "join sep (x # y # xs) = x @ sep @ join sep (y # xs)"


end
