(* ===== verification/Errors.thy ===== *)
theory Errors
  imports Prelude
begin

text \<open>
  The error values of the program: \<^verbatim>\<open>pkg/goidc/error.go\<close> and the functions \<^verbatim>\<open>errors.Is\<close> and
  \<^verbatim>\<open>errors.As\<close> of the standard library on them.

  A Go error is one of the package's sentinels, an OAuth error \<^verbatim>\<open>goidc.Error\<close>, a plain error, an
  error made by \<^verbatim>\<open>fmt.Errorf\<close> with the verb \<^verbatim>\<open>%w\<close>, or one of the program's wrapper types whose
  message hides a cause (\<^verbatim>\<open>dpopInternalError\<close>, \<^verbatim>\<open>jtiConsumerInternalError\<close> and the like).
  Descriptions that format run-time values keep their fixed part only.
\<close>

named_theorems const_defs \<open>the values of the string constants\<close>

section \<open>Error codes\<close>

type_synonym ErrorCode = string

definition ErrorCodeAccessDenied :: ErrorCode where [const_defs]: "ErrorCodeAccessDenied = ''access_denied''"
definition ErrorCodeInvalidClient :: ErrorCode where [const_defs]: "ErrorCodeInvalidClient = ''invalid_client''"
definition ErrorCodeInvalidGrant :: ErrorCode where [const_defs]: "ErrorCodeInvalidGrant = ''invalid_grant''"
definition ErrorCodeInvalidRequest :: ErrorCode where [const_defs]: "ErrorCodeInvalidRequest = ''invalid_request''"
definition ErrorCodeInvalidDPoPProof :: ErrorCode where [const_defs]: "ErrorCodeInvalidDPoPProof = ''invalid_dpop_proof''"
definition ErrorCodeInvalidCredentialRequest :: ErrorCode where [const_defs]: "ErrorCodeInvalidCredentialRequest = ''invalid_credential_request''"
definition ErrorCodeUnauthorizedClient :: ErrorCode where [const_defs]: "ErrorCodeUnauthorizedClient = ''unauthorized_client''"
definition ErrorCodeInvalidScope :: ErrorCode where [const_defs]: "ErrorCodeInvalidScope = ''invalid_scope''"
definition ErrorCodeInvalidAuthDetails :: ErrorCode where [const_defs]: "ErrorCodeInvalidAuthDetails = ''invalid_authorization_details''"
definition ErrorCodeUnsupportedGrantType :: ErrorCode where [const_defs]: "ErrorCodeUnsupportedGrantType = ''unsupported_grant_type''"
definition ErrorCodeInvalidRequestObject :: ErrorCode where [const_defs]: "ErrorCodeInvalidRequestObject = ''invalid_request_object''"
definition ErrorCodeInvalidToken :: ErrorCode where [const_defs]: "ErrorCodeInvalidToken = ''invalid_token''"
definition ErrorCodeUseDPoPNonce :: ErrorCode where [const_defs]: "ErrorCodeUseDPoPNonce = ''use_dpop_nonce''"
definition ErrorCodeServerError :: ErrorCode where [const_defs]: "ErrorCodeServerError = ''server_error''"
definition ErrorCodeInternalError :: ErrorCode where [const_defs]: "ErrorCodeInternalError = ''internal_error''"
definition ErrorCodeInvalidTarget :: ErrorCode where [const_defs]: "ErrorCodeInvalidTarget = ''invalid_target''"
definition ErrorCodeInvalidRedirectURI :: ErrorCode where [const_defs]: "ErrorCodeInvalidRedirectURI = ''invalid_redirect_uri''"
definition ErrorCodeInvalidClientMetadata :: ErrorCode where [const_defs]: "ErrorCodeInvalidClientMetadata = ''invalid_client_metadata''"
definition ErrorCodeRequestURINotSupported :: ErrorCode where [const_defs]: "ErrorCodeRequestURINotSupported = ''request_uri_not_supported''"
definition ErrorCodeLoginRequired :: ErrorCode where [const_defs]: "ErrorCodeLoginRequired = ''login_required''"
definition ErrorCodeAuthPending :: ErrorCode where [const_defs]: "ErrorCodeAuthPending = ''authorization_pending''"
definition ErrorCodeSlowDown :: ErrorCode where [const_defs]: "ErrorCodeSlowDown = ''slow_down''"
definition ErrorCodeExpiredToken :: ErrorCode where [const_defs]: "ErrorCodeExpiredToken = ''expired_token''"
definition ErrorCodeMissingUserCode :: ErrorCode where [const_defs]: "ErrorCodeMissingUserCode = ''missing_user_code''"
definition ErrorCodeInvalidUserCode :: ErrorCode where [const_defs]: "ErrorCodeInvalidUserCode = ''invalid_user_code''"
definition ErrorCodeInvalidBindingMessage :: ErrorCode where [const_defs]: "ErrorCodeInvalidBindingMessage = ''invalid_binding_message''"
definition ErrorCodeUnknownUserID :: ErrorCode where [const_defs]: "ErrorCodeUnknownUserID = ''unknown_user_id''"
definition ErrorCodeTransactionFailed :: ErrorCode where [const_defs]: "ErrorCodeTransactionFailed = ''transaction_failed''"
definition ErrorCodeExpiredLoginHintToken :: ErrorCode where [const_defs]: "ErrorCodeExpiredLoginHintToken = ''expired_login_hint_token''"
definition ErrorCodeInvalidTrustAnchor :: ErrorCode where [const_defs]: "ErrorCodeInvalidTrustAnchor = ''invalid_trust_anchor''"
definition ErrorCodeInvalidTrustChain :: ErrorCode where [const_defs]: "ErrorCodeInvalidTrustChain = ''invalid_trust_chain''"
definition ErrorCodeInvalidMetadata :: ErrorCode where [const_defs]: "ErrorCodeInvalidMetadata = ''invalid_metadata''"
definition ErrorCodeInvalidTransactionID :: ErrorCode where [const_defs]: "ErrorCodeInvalidTransactionID = ''invalid_transaction_id''"

section \<open>Error values\<close>

datatype go_error =
    ErrNotFound
  | ErrJTIReplay
  | ErrInvalidJTIUse
  | ErrNew string
  | ErrWrapf string go_error
  | ErrBoundary string go_error
  | Error (err_Code: ErrorCode) (err_Description: string) (err_URI: string)
      (err_statusCode: int) (err_wrapped: "go_error option")

definition NewError :: "ErrorCode \<Rightarrow> string \<Rightarrow> go_error" where
  "NewError code desc = Error code desc '''' 0 None"

definition WrapError :: "ErrorCode \<Rightarrow> string \<Rightarrow> go_error \<Rightarrow> go_error" where
  "WrapError code desc err = Error code desc '''' 0 (Some err)"

fun WithURI :: "go_error \<Rightarrow> string \<Rightarrow> go_error" where
  "WithURI (Error code desc _ status wrapped) uri = Error code desc uri status wrapped"
| "WithURI e _ = e"

fun WithStatusCode :: "go_error \<Rightarrow> int \<Rightarrow> go_error" where
  "WithStatusCode (Error code desc uri _ wrapped) status = Error code desc uri status wrapped"
| "WithStatusCode e _ = e"

text \<open>The HTTP status of an error code, and of an error that may override it.\<close>

definition ErrorCode_StatusCode :: "ErrorCode \<Rightarrow> int" where
  "ErrorCode_StatusCode c =
     (if c = ErrorCodeAccessDenied then 403
      else if c = ErrorCodeInvalidClient \<or> c = ErrorCodeInvalidToken \<or> c = ErrorCodeUnauthorizedClient then 401
      else if c = ErrorCodeServerError \<or> c = ErrorCodeInternalError then 500
      else 400)"

fun Error_StatusCode :: "go_error \<Rightarrow> int" where
  "Error_StatusCode (Error code _ _ status _) =
     (if status \<noteq> 0 then status else ErrorCode_StatusCode code)"
| "Error_StatusCode _ = 500"

text \<open>\<^verbatim>\<open>Unwrap\<close>.\<close>

fun unwrap :: "go_error \<Rightarrow> go_error option" where
  "unwrap (ErrWrapf _ e) = Some e"
| "unwrap (ErrBoundary _ e) = Some e"
| "unwrap (Error _ _ _ _ w) = w"
| "unwrap _ = None"

text \<open>\<^verbatim>\<open>errors.Is\<close>: the target occurs in the chain of wrapped errors.\<close>

fun errors_Is :: "go_error \<Rightarrow> go_error \<Rightarrow> bool" where
  "errors_Is (ErrWrapf m e) t = (ErrWrapf m e = t \<or> errors_Is e t)"
| "errors_Is (ErrBoundary m e) t = (ErrBoundary m e = t \<or> errors_Is e t)"
| "errors_Is (Error c d u s w) t =
     (Error c d u s w = t \<or> (case w of None \<Rightarrow> False | Some e \<Rightarrow> errors_Is e t))"
| "errors_Is e t = (e = t)"

text \<open>\<^verbatim>\<open>errors.As\<close> at \<^verbatim>\<open>goidc.Error\<close>: the first OAuth error of the chain.\<close>

fun errors_As :: "go_error \<Rightarrow> go_error option" where
  "errors_As (ErrWrapf _ e) = errors_As e"
| "errors_As (ErrBoundary _ e) = errors_As e"
| "errors_As (Error c d u s w) = Some (Error c d u s w)"
| "errors_As _ = None"

section \<open>Facts about error chains\<close>

lemma errors_Is_refl [simp]: "errors_Is e e"
  by (cases e) auto

lemma errors_Is_wrap [simp]:
  "errors_Is (ErrWrapf m e) ErrNotFound = errors_Is e ErrNotFound"
  "errors_Is (ErrBoundary m e) ErrNotFound = errors_Is e ErrNotFound"
  "errors_Is (WrapError c d e) ErrNotFound = errors_Is e ErrNotFound"
  "errors_Is (NewError c d) ErrNotFound = False"
  by (simp_all add: WrapError_def NewError_def)

lemma errors_As_wrap [simp]:
  "errors_As (WrapError c d e) = Some (WrapError c d e)"
  "errors_As (NewError c d) = Some (NewError c d)"
  by (simp_all add: WrapError_def NewError_def)

lemma err_Code_wrap [simp]:
  "err_Code (WrapError c d e) = c" "err_Code (NewError c d) = c"
  by (simp_all add: WrapError_def NewError_def)

lemma errors_As_is_Error: "errors_As e = Some x \<Longrightarrow> \<exists>c d u s w. x = Error c d u s w"
  by (induction e) auto

text \<open>What \<^verbatim>\<open>errors.As\<close> finds is reached by unwrapping, so it is in the chain in the sense of
  \<^verbatim>\<open>errors.Is\<close>.\<close>

lemma errors_As_Is: "errors_As e = Some x \<Longrightarrow> errors_Is e x"
  by (induction e) auto

lemma errors_Is_unwrap: "errors_Is e t \<longleftrightarrow> e = t \<or> (\<exists>e'. unwrap e = Some e' \<and> errors_Is e' t)"
  by (cases e) (auto split: option.splits)

end
