(* ===== verification/Goidc.thy ===== *)
theory Goidc
  imports Errors "HOL-Library.AList"
begin

text \<open>
  The data model of \<^verbatim>\<open>pkg/goidc\<close>: the string enumerations, JSON values, JSON Web Keys as the
  program sees them, and the structs the components exchange (grants, tokens, sessions, clients).
  Every struct is a record whose fields carry the source's names behind a short prefix
  (\<open>g_\<close> grant, \<open>t_\<close> token, \<open>as_\<close> authentication session, \<open>ap_\<close> authorization parameters,
  \<open>c_\<close> client). Go's \<^verbatim>\<open>int\<close> timestamps are \<open>int\<close>: they are seconds since 1970 plus configured
  lifetimes and stay far from the 64-bit bounds. A nil slice is \<open>None\<close> where the program tells it
  apart from an empty one.
\<close>

section \<open>Enumerations\<close>

type_synonym Profile = string

definition ProfileOpenID :: Profile where [const_defs]: "ProfileOpenID = ''openid''"
definition ProfileFAPI2 :: Profile where [const_defs]: "ProfileFAPI2 = ''fapi2''"
definition ProfileFAPI1 :: Profile where [const_defs]: "ProfileFAPI1 = ''fapi1''"

type_synonym GrantType = string

definition GrantClientCredentials :: GrantType where [const_defs]: "GrantClientCredentials = ''client_credentials''"
definition GrantAuthorizationCode :: GrantType where [const_defs]: "GrantAuthorizationCode = ''authorization_code''"
definition GrantRefreshToken :: GrantType where [const_defs]: "GrantRefreshToken = ''refresh_token''"
definition GrantImplicit :: GrantType where [const_defs]: "GrantImplicit = ''implicit''"
definition GrantJWTBearer :: GrantType where [const_defs]: "GrantJWTBearer = ''urn:ietf:params:oauth:grant-type:jwt-bearer''"
definition GrantCIBA :: GrantType where [const_defs]: "GrantCIBA = ''urn:openid:params:grant-type:ciba''"
definition GrantPreAuthorizedCode :: GrantType where [const_defs]: "GrantPreAuthorizedCode = ''urn:ietf:params:oauth:grant-type:pre-authorized_code''"
definition GrantDeviceCode :: GrantType where [const_defs]: "GrantDeviceCode = ''urn:ietf:params:oauth:grant-type:device_code''"
definition GrantTokenExchange :: GrantType where [const_defs]: "GrantTokenExchange = ''urn:ietf:params:oauth:grant-type:token-exchange''"

type_synonym ResponseType = string

definition ResponseTypeCode :: ResponseType where [const_defs]: "ResponseTypeCode = ''code''"
definition ResponseTypeIDToken :: ResponseType where [const_defs]: "ResponseTypeIDToken = ''id_token''"
definition ResponseTypeToken :: ResponseType where [const_defs]: "ResponseTypeToken = ''token''"
definition ResponseTypeCodeAndIDToken :: ResponseType where [const_defs]: "ResponseTypeCodeAndIDToken = ''code id_token''"
definition ResponseTypeCodeAndToken :: ResponseType where [const_defs]: "ResponseTypeCodeAndToken = ''code token''"
definition ResponseTypeIDTokenAndToken :: ResponseType where [const_defs]: "ResponseTypeIDTokenAndToken = ''id_token token''"
definition ResponseTypeCodeAndIDTokenAndToken :: ResponseType where [const_defs]: "ResponseTypeCodeAndIDTokenAndToken = ''code id_token token''"

type_synonym ResponseMode = string

definition ResponseModeQuery :: ResponseMode where [const_defs]: "ResponseModeQuery = ''query''"
definition ResponseModeFragment :: ResponseMode where [const_defs]: "ResponseModeFragment = ''fragment''"
definition ResponseModeFormPost :: ResponseMode where [const_defs]: "ResponseModeFormPost = ''form_post''"
definition ResponseModeQueryJWT :: ResponseMode where [const_defs]: "ResponseModeQueryJWT = ''query.jwt''"
definition ResponseModeFragmentJWT :: ResponseMode where [const_defs]: "ResponseModeFragmentJWT = ''fragment.jwt''"
definition ResponseModeFormPostJWT :: ResponseMode where [const_defs]: "ResponseModeFormPostJWT = ''form_post.jwt''"
definition ResponseModeJWT :: ResponseMode where [const_defs]: "ResponseModeJWT = ''jwt''"
definition ResponseModeJSON :: ResponseMode where [const_defs]: "ResponseModeJSON = ''json''"
definition ResponseModeJSONJWT :: ResponseMode where [const_defs]: "ResponseModeJSONJWT = ''json.jwt''"

type_synonym AuthnMethod = string

definition AuthnMethodNone :: AuthnMethod where [const_defs]: "AuthnMethodNone = ''none''"
definition AuthnMethodSecretBasic :: AuthnMethod where [const_defs]: "AuthnMethodSecretBasic = ''client_secret_basic''"
definition AuthnMethodSecretPost :: AuthnMethod where [const_defs]: "AuthnMethodSecretPost = ''client_secret_post''"
definition AuthnMethodSecretJWT :: AuthnMethod where [const_defs]: "AuthnMethodSecretJWT = ''client_secret_jwt''"
definition AuthnMethodPrivateKeyJWT :: AuthnMethod where [const_defs]: "AuthnMethodPrivateKeyJWT = ''private_key_jwt''"
definition AuthnMethodTLS :: AuthnMethod where [const_defs]: "AuthnMethodTLS = ''tls_client_auth''"
definition AuthnMethodSelfSignedTLS :: AuthnMethod where [const_defs]: "AuthnMethodSelfSignedTLS = ''self_signed_tls_client_auth''"
definition AuthnMethodAttestationJWT :: AuthnMethod where [const_defs]: "AuthnMethodAttestationJWT = ''attest_jwt_client_auth''"

type_synonym ClientAssertionType = string

definition AssertionTypeJWTBearer :: ClientAssertionType where [const_defs]: "AssertionTypeJWTBearer = ''urn:ietf:params:oauth:client-assertion-type:jwt-bearer''"

type_synonym TokenType = string

definition TokenTypeBearer :: TokenType where [const_defs]: "TokenTypeBearer = ''Bearer''"
definition TokenTypeDPoP :: TokenType where [const_defs]: "TokenTypeDPoP = ''DPoP''"
definition TokenTypeNotApplicable :: TokenType where [const_defs]: "TokenTypeNotApplicable = ''N_A''"

type_synonym CodeChallengeMethod = string

definition CodeChallengeMethodSHA256 :: CodeChallengeMethod where [const_defs]: "CodeChallengeMethodSHA256 = ''S256''"
definition CodeChallengeMethodPlain :: CodeChallengeMethod where [const_defs]: "CodeChallengeMethodPlain = ''plain''"

type_synonym SubIdentifierType = string

definition SubIdentifierPublic :: SubIdentifierType where [const_defs]: "SubIdentifierPublic = ''public''"
definition SubIdentifierPairwise :: SubIdentifierType where [const_defs]: "SubIdentifierPairwise = ''pairwise''"

type_synonym Status = string

definition StatusSuccess :: Status where [const_defs]: "StatusSuccess = ''success''"
definition StatusPending :: Status where [const_defs]: "StatusPending = ''pending''"
definition StatusFailure :: Status where [const_defs]: "StatusFailure = ''failure''"

type_synonym TokenFormat = string

definition TokenFormatJWT :: TokenFormat where [const_defs]: "TokenFormatJWT = ''jwt''"
definition TokenFormatOpaque :: TokenFormat where [const_defs]: "TokenFormatOpaque = ''opaque''"

type_synonym TokenTypeHint = string

definition TokenHintAccess :: TokenTypeHint where [const_defs]: "TokenHintAccess = ''access_token''"
definition TokenHintRefresh :: TokenTypeHint where [const_defs]: "TokenHintRefresh = ''refresh_token''"

type_synonym CIBATokenDeliveryMode = string

definition CIBADeliveryModePoll :: CIBATokenDeliveryMode where [const_defs]: "CIBADeliveryModePoll = ''poll''"
definition CIBADeliveryModePing :: CIBATokenDeliveryMode where [const_defs]: "CIBADeliveryModePing = ''ping''"
definition CIBADeliveryModePush :: CIBATokenDeliveryMode where [const_defs]: "CIBADeliveryModePush = ''push''"

type_synonym TokenTypeIdentifier = string

definition TokenTypeIdentifierJWT :: TokenTypeIdentifier where [const_defs]: "TokenTypeIdentifierJWT = ''urn:ietf:params:oauth:token-type:jwt''"
definition TokenTypeIdentifierAccessToken :: TokenTypeIdentifier where [const_defs]: "TokenTypeIdentifierAccessToken = ''urn:ietf:params:oauth:token-type:access_token''"
definition TokenTypeIdentifierRefreshToken :: TokenTypeIdentifier where [const_defs]: "TokenTypeIdentifierRefreshToken = ''urn:ietf:params:oauth:token-type:refresh_token''"
definition TokenTypeIdentifierIDToken :: TokenTypeIdentifier where [const_defs]: "TokenTypeIdentifierIDToken = ''urn:ietf:params:oauth:token-type:id_token''"
definition TokenTypeIdentifierSAML1 :: TokenTypeIdentifier where [const_defs]: "TokenTypeIdentifierSAML1 = ''urn:ietf:params:oauth:token-type:saml1''"
definition TokenTypeIdentifierSAML2 :: TokenTypeIdentifier where [const_defs]: "TokenTypeIdentifierSAML2 = ''urn:ietf:params:oauth:token-type:saml2''"

type_synonym JTIUsePurpose = string

definition JTIUsePurposeClientAssertion :: JTIUsePurpose where [const_defs]: "JTIUsePurposeClientAssertion = ''client_assertion''"
definition JTIUsePurposeDPoPProof :: JTIUsePurpose where [const_defs]: "JTIUsePurposeDPoPProof = ''dpop_proof''"
definition JTIUsePurposeRequestObject :: JTIUsePurpose where [const_defs]: "JTIUsePurposeRequestObject = ''request_object''"
definition JTIUsePurposeClientAttestationPoP :: JTIUsePurpose where [const_defs]: "JTIUsePurposeClientAttestationPoP = ''client_attestation_pop''"

type_synonym AuthDetailType = string

definition AuthDetailTypeOpenIDCredential :: AuthDetailType where [const_defs]: "AuthDetailTypeOpenIDCredential = ''openid_credential''"

type_synonym KeyUsage = string

definition KeyUsageSignature :: KeyUsage where [const_defs]: "KeyUsageSignature = ''sig''"
definition KeyUsageEncryption :: KeyUsage where [const_defs]: "KeyUsageEncryption = ''enc''"

text \<open>Names of claims.\<close>

definition ClaimTokenID :: string where [const_defs]: "ClaimTokenID = ''jti''"
definition ClaimIssuer :: string where [const_defs]: "ClaimIssuer = ''iss''"
definition ClaimSubject :: string where [const_defs]: "ClaimSubject = ''sub''"
definition ClaimAudience :: string where [const_defs]: "ClaimAudience = ''aud''"
definition ClaimClientID :: string where [const_defs]: "ClaimClientID = ''client_id''"
definition ClaimExpiry :: string where [const_defs]: "ClaimExpiry = ''exp''"
definition ClaimIssuedAt :: string where [const_defs]: "ClaimIssuedAt = ''iat''"
definition ClaimNotBefore :: string where [const_defs]: "ClaimNotBefore = ''nbf''"
definition ClaimScope :: string where [const_defs]: "ClaimScope = ''scope''"
definition ClaimNonce :: string where [const_defs]: "ClaimNonce = ''nonce''"
definition ClaimAuthDetails :: string where [const_defs]: "ClaimAuthDetails = ''authorization_details''"
definition ClaimAccessTokenHash :: string where [const_defs]: "ClaimAccessTokenHash = ''at_hash''"
definition ClaimAuthzCodeHash :: string where [const_defs]: "ClaimAuthzCodeHash = ''c_hash''"
definition ClaimStateHash :: string where [const_defs]: "ClaimStateHash = ''s_hash''"
definition ClaimRefreshTokenHash :: string where [const_defs]: "ClaimRefreshTokenHash = ''urn:openid:params:jwt:claim:rt_hash''"
definition ClaimAuthReqID :: string where [const_defs]: "ClaimAuthReqID = ''urn:openid:params:jwt:claim:auth_req_id''"
definition ClaimGrantID :: string where [const_defs]: "ClaimGrantID = ''grant_id''"
definition ClaimAct :: string where [const_defs]: "ClaimAct = ''act''"
definition ClaimConfirmation :: string where [const_defs]: "ClaimConfirmation = ''cnf''"
definition ClaimAuthTime :: string where [const_defs]: "ClaimAuthTime = ''auth_time''"
definition ClaimAMR :: string where [const_defs]: "ClaimAMR = ''amr''"
definition ClaimACR :: string where [const_defs]: "ClaimACR = ''acr''"

type_synonym SignatureAlgorithm = string
type_synonym KeyEncryptionAlgorithm = string
type_synonym ContentEncryptionAlgorithm = string

definition SigAlgNone :: SignatureAlgorithm where [const_defs]: "SigAlgNone = ''none''"
definition SigAlgHS256 :: SignatureAlgorithm where [const_defs]: "SigAlgHS256 = ''HS256''"
definition SigAlgHS384 :: SignatureAlgorithm where [const_defs]: "SigAlgHS384 = ''HS384''"
definition SigAlgHS512 :: SignatureAlgorithm where [const_defs]: "SigAlgHS512 = ''HS512''"
definition SigAlgRS256 :: SignatureAlgorithm where [const_defs]: "SigAlgRS256 = ''RS256''"
definition SigAlgRS384 :: SignatureAlgorithm where [const_defs]: "SigAlgRS384 = ''RS384''"
definition SigAlgRS512 :: SignatureAlgorithm where [const_defs]: "SigAlgRS512 = ''RS512''"
definition SigAlgES256 :: SignatureAlgorithm where [const_defs]: "SigAlgES256 = ''ES256''"
definition SigAlgES384 :: SignatureAlgorithm where [const_defs]: "SigAlgES384 = ''ES384''"
definition SigAlgES512 :: SignatureAlgorithm where [const_defs]: "SigAlgES512 = ''ES512''"
definition SigAlgPS256 :: SignatureAlgorithm where [const_defs]: "SigAlgPS256 = ''PS256''"
definition SigAlgPS384 :: SignatureAlgorithm where [const_defs]: "SigAlgPS384 = ''PS384''"
definition SigAlgPS512 :: SignatureAlgorithm where [const_defs]: "SigAlgPS512 = ''PS512''"

definition KeyEncAlgRSA15 :: KeyEncryptionAlgorithm where [const_defs]: "KeyEncAlgRSA15 = ''RSA1_5''"
definition KeyEncRSAOAEP :: KeyEncryptionAlgorithm where [const_defs]: "KeyEncRSAOAEP = ''RSA-OAEP''"
definition KeyEncRSAOAEP256 :: KeyEncryptionAlgorithm where [const_defs]: "KeyEncRSAOAEP256 = ''RSA-OAEP-256''"

type_synonym AuthorizationRequestProfile = string

definition AuthorizationRequestProfileDefault :: AuthorizationRequestProfile where [const_defs]:
  "AuthorizationRequestProfileDefault = ''''"
definition AuthorizationRequestProfileHumanConfidentialBFF :: AuthorizationRequestProfile where [const_defs]:
  "AuthorizationRequestProfileHumanConfidentialBFF = ''human_confidential_bff''"

type_synonym DPoPNonceScope = string

definition DPoPNonceScopeAuthorizationServer :: DPoPNonceScope where [const_defs]:
  "DPoPNonceScopeAuthorizationServer = ''authorization_server''"
definition DPoPNonceScopeResourceServer :: DPoPNonceScope where [const_defs]:
  "DPoPNonceScopeResourceServer = ''resource_server''"

definition ScopeOpenID_ID :: string where [const_defs]: "ScopeOpenID_ID = ''openid''"
definition ScopeOfflineAccess_ID :: string where [const_defs]: "ScopeOfflineAccess_ID = ''offline_access''"

text \<open>Predicates on the enumerations.\<close>

definition Profile_IsFAPI :: "Profile \<Rightarrow> bool" where
  "Profile_IsFAPI p = (p = ProfileFAPI1 \<or> p = ProfileFAPI2)"

definition ResponseType_Contains :: "ResponseType \<Rightarrow> ResponseType \<Rightarrow> bool" where
  "ResponseType_Contains rt responseType = (responseType \<in> set (split_on CHR '' '' rt))"

definition ResponseType_IsImplicit :: "ResponseType \<Rightarrow> bool" where
  "ResponseType_IsImplicit rt =
     (ResponseType_Contains rt ResponseTypeIDToken \<or> ResponseType_Contains rt ResponseTypeToken)"

definition ResponseMode_IsJARM :: "ResponseMode \<Rightarrow> bool" where
  "ResponseMode_IsJARM rm = (rm = ResponseModeQueryJWT \<or> rm = ResponseModeFragmentJWT \<or>
     rm = ResponseModeFormPostJWT \<or> rm = ResponseModeJWT \<or> rm = ResponseModeJSONJWT)"

definition ResponseMode_IsPlain :: "ResponseMode \<Rightarrow> bool" where
  "ResponseMode_IsPlain rm = (rm = ResponseModeQuery \<or> rm = ResponseModeFragment \<or>
     rm = ResponseModeFormPost \<or> rm = ResponseModeJSON)"

definition ResponseMode_IsQuery :: "ResponseMode \<Rightarrow> bool" where
  "ResponseMode_IsQuery rm = (rm = ResponseModeQuery \<or> rm = ResponseModeQueryJWT)"

definition ResponseMode_IsJSON :: "ResponseMode \<Rightarrow> bool" where
  "ResponseMode_IsJSON rm = (rm = ResponseModeJSON \<or> rm = ResponseModeJSONJWT)"

definition CIBA_IsNotificationMode :: "CIBATokenDeliveryMode \<Rightarrow> bool" where
  "CIBA_IsNotificationMode mode = (mode = CIBADeliveryModePing \<or> mode = CIBADeliveryModePush)"

definition CIBA_IsPollableMode :: "CIBATokenDeliveryMode \<Rightarrow> bool" where
  "CIBA_IsPollableMode mode = (mode = CIBADeliveryModePoll \<or> mode = CIBADeliveryModePing)"

section \<open>JSON values\<close>

text \<open>Values of the Go type \<^verbatim>\<open>any\<close> that reach JSON. \<open>JUnsupported\<close> stands for a value
  \<^verbatim>\<open>encoding/json\<close> refuses (a function, a channel, a NaN), \<open>JPanic\<close> for one whose marshaller
  panics.\<close>

datatype json = JNull | JBool bool | JInt int | JStr string | JArr "json list"
  | JObj "(string \<times> json) list" | JUnsupported | JPanic

type_synonym claims = "(string \<times> json) list"

text \<open>\<^verbatim>\<open>maps.Copy(dst, src)\<close>.\<close>

definition maps_Copy :: "claims \<Rightarrow> claims \<Rightarrow> claims" where
  "maps_Copy dst src = AList.merge dst src"

lemma maps_Copy_map_of [simp]: "map_of (maps_Copy dst src) = map_of dst ++ map_of src"
  by (rule ext) (simp add: maps_Copy_def merge_conv')

type_synonym AuthDetail = "(string \<times> json) list"

definition AuthDetail_Type :: "AuthDetail \<Rightarrow> AuthDetailType" where
  "AuthDetail_Type d = (case map_of d ''type'' of Some (JStr t) \<Rightarrow> t | _ \<Rightarrow> '''')"

definition AuthDetail_Locations :: "AuthDetail \<Rightarrow> string slice" where
  "AuthDetail_Locations d =
     (case map_of d ''locations'' of
        Some (JArr raw) \<Rightarrow>
          (case List.map_filter (\<lambda>x. case x of JStr s \<Rightarrow> Some s | _ \<Rightarrow> None) raw of
             [] \<Rightarrow> None | locs \<Rightarrow> Some locs)
      | _ \<Rightarrow> None)"

section \<open>Keys\<close>

text \<open>Key material as the Go types the program tells apart: the public keys of the three asymmetric
  schemes, by the values that their \<^verbatim>\<open>Equal\<close> compares, and any other key (private or symmetric).\<close>

datatype KeyMaterial = RSAPublic (rsa_N: int) (rsa_E: int) | ECDSAPublic string | Ed25519Public string
  | OtherKey string

text \<open>The fields of \<^verbatim>\<open>jose.JSONWebKey\<close> the program reads; the key may be absent (nil).\<close>

record JSONWebKey =
  jwk_KeyID :: string
  jwk_Algorithm :: string
  jwk_Use :: string
  jwk_Key :: "KeyMaterial option"
  jwk_Certificates :: "string list"
  jwk_CertificatesURL :: "string option"
  jwk_CertificateThumbprintSHA256 :: string
  jwk_CertificateThumbprintSHA1 :: string

definition zero_JSONWebKey :: JSONWebKey where
  "zero_JSONWebKey =
    \<lparr>jwk_KeyID = '''', jwk_Algorithm = '''', jwk_Use = '''', jwk_Key = None, jwk_Certificates = [],
     jwk_CertificatesURL = None, jwk_CertificateThumbprintSHA256 = '''', jwk_CertificateThumbprintSHA1 = ''''\<rparr>"

type_synonym JSONWebKeySet = "JSONWebKey list"

text \<open>\<^verbatim>\<open>JSONWebKeySet.Key\<close> and \<^verbatim>\<open>KeyByAlg\<close>.\<close>

definition JWKS_Key :: "JSONWebKeySet \<Rightarrow> string \<Rightarrow> go_error + JSONWebKey" where
  "JWKS_Key jwks kid = (case find (\<lambda>k. jwk_KeyID k = kid) jwks of
     Some k \<Rightarrow> Inr k | None \<Rightarrow> Inl (ErrNew ''could not find jwk with id''))"

definition JWKS_KeyByAlg :: "JSONWebKeySet \<Rightarrow> string \<Rightarrow> go_error + JSONWebKey" where
  "JWKS_KeyByAlg jwks alg = (case find (\<lambda>k. jwk_Algorithm k = alg) jwks of
     Some k \<Rightarrow> Inr k | None \<Rightarrow> Inl (ErrNew ''could not find jwk matching the algorithm''))"

section \<open>Structs\<close>

datatype Actor = Actor (act_Subject: string) (act_Issuer: string) (act_Actor: "Actor option")

record Scope =
  sc_ID :: string
  sc_Matches :: "string \<Rightarrow> bool"

definition NewScope :: "string \<Rightarrow> Scope" where
  "NewScope scope = \<lparr>sc_ID = scope, sc_Matches = (\<lambda>requestedScope. scope = requestedScope)\<rparr>"

record AuthorizationParameters =
  ap_RequestURI :: string
  ap_RequestObject :: string
  ap_RedirectURI :: string
  ap_ResponseMode :: ResponseMode
  ap_ResponseType :: ResponseType
  ap_Scopes :: string
  ap_State :: string
  ap_Nonce :: string
  ap_CodeChallenge :: string
  ap_CodeChallengeMethod :: CodeChallengeMethod
  ap_Prompt :: string
  ap_MaxAuthnAgeSecs :: "int option"
  ap_Display :: string
  ap_ACRValues :: string
  ap_Claims :: "json option"
  ap_AuthDetails :: "AuthDetail slice"
  ap_Resources :: "string slice"
  ap_DPoPJKT :: string
  ap_LoginHint :: string
  ap_LoginHintToken :: string
  ap_IDTokenHint :: string
  ap_ClientNotificationToken :: string
  ap_BindingMessage :: string
  ap_UserCode :: string
  ap_RequestedExpiry :: "int option"
  ap_IssuerState :: string

definition zero_AuthorizationParameters :: AuthorizationParameters where
  "zero_AuthorizationParameters =
    \<lparr>ap_RequestURI = '''', ap_RequestObject = '''', ap_RedirectURI = '''',
     ap_ResponseMode = '''', ap_ResponseType = '''', ap_Scopes = '''', ap_State = '''',
     ap_Nonce = '''', ap_CodeChallenge = '''', ap_CodeChallengeMethod = '''', ap_Prompt = '''',
     ap_MaxAuthnAgeSecs = None, ap_Display = '''', ap_ACRValues = '''', ap_Claims = None,
     ap_AuthDetails = None, ap_Resources = None, ap_DPoPJKT = '''', ap_LoginHint = '''',
     ap_LoginHintToken = '''', ap_IDTokenHint = '''', ap_ClientNotificationToken = '''',
     ap_BindingMessage = '''', ap_UserCode = '''', ap_RequestedExpiry = None,
     ap_IssuerState = ''''\<rparr>"

text \<open>\<^verbatim>\<open>goidc.Grant\<close>: what was authorized.\<close>

record Grant =
  g_ID :: string
  g_CreatedAt :: int
  g_RevokedAt :: int
  g_Subject :: string
  g_ClientID :: string
  g_Username :: string
  g_Scopes :: string
  g_AuthDetails :: "AuthDetail slice"
  g_Resources :: "string slice"
  g_RefreshToken :: string
  g_RefreshTokenExpiresAt :: int
  g_AuthParams :: AuthorizationParameters
  g_AuthCode :: string
  g_AuthCodeExpiresAt :: int
  g_AuthCodeConsumedAt :: int
  g_PreAuthCode :: string
  g_PreAuthCodeExpiresAt :: int
  g_PreAuthCodeConsumedAt :: int
  g_TransactionCode :: string
  g_AuthReqID :: string
  g_AuthReqIDExpiresAt :: int
  g_AuthReqIDConsumedAt :: int
  g_DeviceCode :: string
  g_DeviceCodeExpiresAt :: int
  g_DeviceCodeConsumedAt :: int
  g_JWKThumbprint :: string
  g_CertThumbprint :: string
  g_Actor :: "Actor option"
  g_Store :: "(string \<times> json) list"

definition zero_Grant :: Grant where
  "zero_Grant =
    \<lparr>g_ID = '''', g_CreatedAt = 0, g_RevokedAt = 0, g_Subject = '''', g_ClientID = '''',
     g_Username = '''', g_Scopes = '''', g_AuthDetails = None, g_Resources = None,
     g_RefreshToken = '''', g_RefreshTokenExpiresAt = 0,
     g_AuthParams = zero_AuthorizationParameters, g_AuthCode = '''', g_AuthCodeExpiresAt = 0,
     g_AuthCodeConsumedAt = 0, g_PreAuthCode = '''', g_PreAuthCodeExpiresAt = 0,
     g_PreAuthCodeConsumedAt = 0, g_TransactionCode = '''', g_AuthReqID = '''',
     g_AuthReqIDExpiresAt = 0, g_AuthReqIDConsumedAt = 0, g_DeviceCode = '''',
     g_DeviceCodeExpiresAt = 0, g_DeviceCodeConsumedAt = 0, g_JWKThumbprint = '''',
     g_CertThumbprint = '''', g_Actor = None, g_Store = []\<rparr>"

text \<open>\<^verbatim>\<open>goidc.Token\<close>: one issued access token.\<close>

record Token =
  t_ID :: string
  t_GrantID :: string
  t_ClientID :: string
  t_Subject :: string
  t_CreatedAt :: int
  t_ExpiresAt :: int
  t_RevokedAt :: int
  t_Format :: TokenFormat
  t_Type :: TokenType
  t_SigAlg :: SignatureAlgorithm
  t_Scopes :: string
  t_AuthDetails :: "AuthDetail slice"
  t_Resources :: "string slice"
  t_JWKThumbprint :: string
  t_CertThumbprint :: string
  t_Actor :: "Actor option"

definition zero_Token :: Token where
  "zero_Token =
    \<lparr>t_ID = '''', t_GrantID = '''', t_ClientID = '''', t_Subject = '''', t_CreatedAt = 0,
     t_ExpiresAt = 0, t_RevokedAt = 0, t_Format = '''', t_Type = '''', t_SigAlg = '''',
     t_Scopes = '''', t_AuthDetails = None, t_Resources = None, t_JWKThumbprint = '''',
     t_CertThumbprint = '''', t_Actor = None\<rparr>"

definition Token_LifetimeSecs :: "Token \<Rightarrow> int" where
  "Token_LifetimeSecs t = t_ExpiresAt t - t_CreatedAt t"

record VerifiedClientAssertionAuthority =
  vca_SnapshotRevision :: int
  vca_KeyAuthorityID :: string

text \<open>\<^verbatim>\<open>goidc.AuthnSession\<close>; the embedded \<^verbatim>\<open>AuthorizationParameters\<close> is a field of its own.\<close>

record AuthnSession =
  as_ID :: string
  as_PersistenceID :: string
  as_Status :: Status
  as_Subject :: string
  as_Username :: string
  as_ClientID :: string
  as_AuthorizationRequestProfile :: AuthorizationRequestProfile
  as_ClientAssertionAuthority :: "VerifiedClientAssertionAuthority option"
  as_PushedAuthReqID :: string
  as_AuthReqID :: string
  as_DeviceCode :: string
  as_UserCode :: string
  as_PolicyID :: string
  as_GrantedScopes :: string
  as_GrantedAuthDetails :: "AuthDetail slice"
  as_GrantedResources :: "string slice"
  as_JWKThumbprint :: string
  as_ClientCertThumbprint :: string
  as_Store :: "(string \<times> json) list"
  as_ExpiresAt :: int
  as_CreatedAt :: int
  as_IDTokenHintClaims :: "json option"
  as_VCInfo :: "(string \<times> string list) option"
  as_AuthorizationParameters :: AuthorizationParameters

definition zero_AuthnSession :: AuthnSession where
  "zero_AuthnSession =
    \<lparr>as_ID = '''', as_PersistenceID = '''', as_Status = '''', as_Subject = '''',
     as_Username = '''', as_ClientID = '''', as_AuthorizationRequestProfile = '''',
     as_ClientAssertionAuthority = None, as_PushedAuthReqID = '''', as_AuthReqID = '''',
     as_DeviceCode = '''', as_UserCode = '''', as_PolicyID = '''', as_GrantedScopes = '''',
     as_GrantedAuthDetails = None, as_GrantedResources = None, as_JWKThumbprint = '''',
     as_ClientCertThumbprint = '''', as_Store = [], as_ExpiresAt = 0, as_CreatedAt = 0,
     as_IDTokenHintClaims = None, as_VCInfo = None,
     as_AuthorizationParameters = zero_AuthorizationParameters\<rparr>"

record PrivateKeyJWTAuthorityKey =
  pak_Key :: JSONWebKey
  pak_KeyAuthorityID :: string

record PrivateKeyJWTAuthority =
  pka_SnapshotRevision :: int
  pka_Keys :: "PrivateKeyJWTAuthorityKey list"

text \<open>\<^verbatim>\<open>goidc.Client\<close> with its embedded \<^verbatim>\<open>ClientMeta\<close>. The federation data is the pair of the trust
  anchor and the trust marks.\<close>

record Client =
  c_ID :: string
  c_Secret :: string
  c_SecretExpiresAt :: int
  c_AuthorizationRequestProfile :: AuthorizationRequestProfile
  c_PrivateKeyJWTAuthority :: "PrivateKeyJWTAuthority option"
  c_RegistrationToken :: string
  c_CreatedAt :: int
  c_ExpiresAt :: int
  c_Federation :: "(string \<times> string list) option"
  c_cachedJWKS :: "JSONWebKeySet option"
  c_Name :: string
  c_ApplicationType :: string
  c_LogoURI :: string
  c_Contacts :: "string list"
  c_PolicyURI :: string
  c_TermsOfServiceURI :: string
  c_RedirectURIs :: "string list"
  c_RequestURIs :: "string list"
  c_GrantTypes :: "GrantType list"
  c_ResponseTypes :: "ResponseType list"
  c_JWKSURI :: string
  c_JWKS :: "JSONWebKeySet option"
  c_SignedJWKSURI :: string
  c_ScopeIDs :: string
  c_SubIdentifierType :: SubIdentifierType
  c_SectorIdentifierURI :: string
  c_IDTokenSigAlg :: SignatureAlgorithm
  c_IDTokenKeyEncAlg :: KeyEncryptionAlgorithm
  c_IDTokenContentEncAlg :: ContentEncryptionAlgorithm
  c_UserInfoSigAlg :: SignatureAlgorithm
  c_UserInfoKeyEncAlg :: KeyEncryptionAlgorithm
  c_UserInfoContentEncAlg :: ContentEncryptionAlgorithm
  c_JARRequired :: bool
  c_JARSigAlg :: SignatureAlgorithm
  c_JARKeyEncAlg :: KeyEncryptionAlgorithm
  c_JARContentEncAlg :: ContentEncryptionAlgorithm
  c_JARMSigAlg :: SignatureAlgorithm
  c_JARMKeyEncAlg :: KeyEncryptionAlgorithm
  c_JARMContentEncAlg :: ContentEncryptionAlgorithm
  c_TokenAuthnMethod :: AuthnMethod
  c_TokenAuthnSigAlg :: SignatureAlgorithm
  c_TokenIntrospectionAuthnMethod :: AuthnMethod
  c_TokenIntrospectionAuthnSigAlg :: SignatureAlgorithm
  c_TokenRevocationAuthnMethod :: AuthnMethod
  c_TokenRevocationAuthnSigAlg :: SignatureAlgorithm
  c_DPoPTokenBindingRequired :: bool
  c_TLSSubjectDistinguishedName :: string
  c_TLSSubjectAlternativeName :: string
  c_TLSSubjectAlternativeNameIP :: string
  c_TLSTokenBindingRequired :: bool
  c_AuthDetailTypes :: "AuthDetailType slice"
  c_DefaultMaxAgeSecs :: "int option"
  c_DefaultACRValues :: string
  c_PARRequired :: bool
  c_CIBATokenDeliveryMode :: CIBATokenDeliveryMode
  c_CIBANotificationEndpoint :: string
  c_CIBAJARSigAlg :: SignatureAlgorithm
  c_CIBAUserCodeEnabled :: bool
  c_OrganizationName :: string
  c_PostLogoutRedirectURIs :: "string list"
  c_ClientRegistrationTypes :: "string list"
  c_DisplayName :: string
  c_Description :: string
  c_Keywords :: "string list"
  c_InformationURI :: string
  c_OrganizationURI :: string
  c_CredentialOfferEndpoint :: string
  c_CustomAttributes :: "(string \<times> json) list option"

definition zero_Client :: Client where
  "zero_Client =
    \<lparr>c_ID = '''', c_Secret = '''', c_SecretExpiresAt = 0,
     c_AuthorizationRequestProfile = '''', c_PrivateKeyJWTAuthority = None,
     c_RegistrationToken = '''', c_CreatedAt = 0, c_ExpiresAt = 0, c_Federation = None, c_cachedJWKS = None,
     c_Name = '''', c_ApplicationType = '''', c_LogoURI = '''', c_Contacts = [],
     c_PolicyURI = '''', c_TermsOfServiceURI = '''', c_RedirectURIs = [], c_RequestURIs = [],
     c_GrantTypes = [], c_ResponseTypes = [], c_JWKSURI = '''', c_JWKS = None,
     c_SignedJWKSURI = '''', c_ScopeIDs = '''', c_SubIdentifierType = '''',
     c_SectorIdentifierURI = '''', c_IDTokenSigAlg = '''', c_IDTokenKeyEncAlg = '''',
     c_IDTokenContentEncAlg = '''', c_UserInfoSigAlg = '''', c_UserInfoKeyEncAlg = '''',
     c_UserInfoContentEncAlg = '''', c_JARRequired = False, c_JARSigAlg = '''',
     c_JARKeyEncAlg = '''', c_JARContentEncAlg = '''', c_JARMSigAlg = '''',
     c_JARMKeyEncAlg = '''', c_JARMContentEncAlg = '''', c_TokenAuthnMethod = '''',
     c_TokenAuthnSigAlg = '''', c_TokenIntrospectionAuthnMethod = '''',
     c_TokenIntrospectionAuthnSigAlg = '''', c_TokenRevocationAuthnMethod = '''',
     c_TokenRevocationAuthnSigAlg = '''', c_DPoPTokenBindingRequired = False,
     c_TLSSubjectDistinguishedName = '''', c_TLSSubjectAlternativeName = '''',
     c_TLSSubjectAlternativeNameIP = '''', c_TLSTokenBindingRequired = False,
     c_AuthDetailTypes = None, c_DefaultMaxAgeSecs = None, c_DefaultACRValues = '''',
     c_PARRequired = False, c_CIBATokenDeliveryMode = '''', c_CIBANotificationEndpoint = '''',
     c_CIBAJARSigAlg = '''', c_CIBAUserCodeEnabled = False, c_OrganizationName = '''',
     c_PostLogoutRedirectURIs = [], c_ClientRegistrationTypes = [], c_DisplayName = '''',
     c_Description = '''', c_Keywords = [], c_InformationURI = '''', c_OrganizationURI = '''',
     c_CredentialOfferEndpoint = '''', c_CustomAttributes = None\<rparr>"

definition IsPublic :: "Client \<Rightarrow> bool" where
  "IsPublic c = (c_TokenAuthnMethod c = AuthnMethodNone)"

definition CacheJWKS :: "Client \<Rightarrow> JSONWebKeySet option \<Rightarrow> Client" where
  "CacheJWKS c jwks = c\<lparr>c_cachedJWKS := jwks\<rparr>"

record TokenConfirmation =
  cnf_JWKThumbprint :: string
  cnf_CertThumbprint :: string

record TokenOptions =
  to_Format :: TokenFormat
  to_LifetimeSecs :: int
  to_JWTSigAlg :: SignatureAlgorithm

record LogoutSession =
  ls_ID :: string
  ls_Status :: Status
  ls_ClientID :: string
  ls_PolicyID :: string
  ls_StepID :: string
  ls_ExpiresAt :: int
  ls_CreatedAt :: int
  ls_IDTokenHintClaims :: "json option"
  ls_IDTokenHint :: string
  ls_PostLogoutRedirectURI :: string
  ls_State :: string
  ls_UILocales :: string
  ls_LogoutHint :: string

record VCTransactionCode =
  vtx_InputMode :: string
  vtx_Length :: int
  vtx_Description :: string

record VCOfferGrants =
  vog_AuthCode :: "string option"
  vog_PreAuthCode :: "(string \<times> VCTransactionCode option) option"

record VCOffer =
  vo_ID :: string
  vo_ConfigurationIDs :: "string list"
  vo_Grants :: VCOfferGrants
  vo_ExpiresAtTimestamp :: int
  vo_CreatedAtTimestamp :: int
  vo_Store :: "(string \<times> json) list"

record VCDeferral =
  vd_ID :: string
  vd_GrantID :: string
  vd_CredentialConfigurationID :: string
  vd_CredentialIdentifier :: string
  vd_ProofKeys :: "JSONWebKey list"
  vd_CreatedAt :: int
  vd_ConsumedAt :: int
  vd_Store :: "(string \<times> json) list"

record VCNotification =
  vn_ID :: string
  vn_GrantID :: string
  vn_ClientID :: string
  vn_CredentialConfigurationID :: string
  vn_CredentialIdentifier :: string
  vn_CreatedAt :: int

text \<open>The values the components hand to each other and to the configured functions.\<close>

record JTIUse =
  ju_ID :: string
  ju_Issuer :: string
  ju_Purpose :: JTIUsePurpose
  ju_ExpiresAt :: int

record VerifiedClientAssertionHeader =
  vch_Algorithm :: SignatureAlgorithm
  vch_KeyID :: string
  vch_Type :: string

record VerifiedClientAssertion =
  va_AuthenticatedClientID :: string
  va_Header :: VerifiedClientAssertionHeader
  va_Claims :: string
  va_Authority :: "VerifiedClientAssertionAuthority option"

record AccessTokenClaimsInput =
  ai_GrantType :: GrantType
  ai_AuthenticatedClientID :: string
  ai_ClientID :: string
  ai_Subject :: string
  ai_Scopes :: string
  ai_Resources :: "string slice"
  ai_Format :: TokenFormat
  ai_Type :: TokenType
  ai_SignatureAlgorithm :: SignatureAlgorithm
  ai_IssuedAt :: int
  ai_ExpiresAt :: int
  ai_DPoPJWKThumbprint :: string
  ai_CertificateThumbprint :: string
  ai_AuthorizationDetailsPresent :: bool
  ai_ActorPresent :: bool

record TokenInfo =
  ti_GrantID :: string
  ti_IsActive :: bool
  ti_Type :: TokenType
  ti_Scopes :: string
  ti_AuthDetails :: "AuthDetail slice"
  ti_ResourceAudiences :: "string slice"
  ti_ClientID :: string
  ti_Subject :: string
  ti_Username :: string
  ti_Issuer :: string
  ti_IssuedAt :: int
  ti_NotBefore :: int
  ti_ExpiresAt :: int
  ti_Confirmation :: "TokenConfirmation option"
  ti_Actor :: "Actor option"
  ti_AdditionalClaims :: claims

definition zero_TokenInfo :: TokenInfo where
  "zero_TokenInfo =
    \<lparr>ti_GrantID = '''', ti_IsActive = False, ti_Type = '''', ti_Scopes = '''', ti_AuthDetails = None,
     ti_ResourceAudiences = None, ti_ClientID = '''', ti_Subject = '''', ti_Username = '''', ti_Issuer = '''',
     ti_IssuedAt = 0, ti_NotBefore = 0, ti_ExpiresAt = 0, ti_Confirmation = None, ti_Actor = None,
     ti_AdditionalClaims = []\<rparr>"

record JWTBearerResult =
  jbr_Subject :: string
  jbr_Store :: "(string \<times> json) list"

record TokenExchangeRequest =
  ter_RequestedTokenType :: TokenTypeIdentifier
  ter_SubjectToken :: string
  ter_SubjectTokenType :: TokenTypeIdentifier
  ter_ActorToken :: string
  ter_ActorTokenType :: TokenTypeIdentifier
  ter_Audience :: "string slice"
  ter_Resource :: "string slice"

record TokenExchangeResult =
  tex_Subject :: string
  tex_Actor :: "Actor option"
  tex_Store :: "(string \<times> json) list"

text \<open>\<^verbatim>\<open>goidc.VCIssuer\<close>; of a credential configuration the identifier and the scope.\<close>

record VCConfiguration =
  vcc_ID :: string
  vcc_Scope :: string

record VCIssuer =
  vci_Issuer :: string
  vci_Configurations :: "VCConfiguration list"

definition zero_VCIssuer :: VCIssuer where
  "zero_VCIssuer = \<lparr>vci_Issuer = '''', vci_Configurations = []\<rparr>"

text \<open>\<^verbatim>\<open>TokenEndpointResult\<close>, a small integer of which the values 1 to 10 are named.\<close>

type_synonym TokenEndpointResult = nat

definition TokenEndpointResultIssued :: TokenEndpointResult where [const_defs]: "TokenEndpointResultIssued = 1"
definition TokenEndpointResultInvalidRequest :: TokenEndpointResult where [const_defs]: "TokenEndpointResultInvalidRequest = 2"
definition TokenEndpointResultInvalidClient :: TokenEndpointResult where [const_defs]: "TokenEndpointResultInvalidClient = 3"
definition TokenEndpointResultUnauthorizedClient :: TokenEndpointResult where [const_defs]: "TokenEndpointResultUnauthorizedClient = 4"
definition TokenEndpointResultInvalidScope :: TokenEndpointResult where [const_defs]: "TokenEndpointResultInvalidScope = 5"
definition TokenEndpointResultInvalidTarget :: TokenEndpointResult where [const_defs]: "TokenEndpointResultInvalidTarget = 6"
definition TokenEndpointResultInvalidDPoPProof :: TokenEndpointResult where [const_defs]: "TokenEndpointResultInvalidDPoPProof = 7"
definition TokenEndpointResultUseDPoPNonce :: TokenEndpointResult where [const_defs]: "TokenEndpointResultUseDPoPNonce = 8"
definition TokenEndpointResultServerError :: TokenEndpointResult where [const_defs]: "TokenEndpointResultServerError = 9"
definition TokenEndpointResultProtocolDenied :: TokenEndpointResult where [const_defs]: "TokenEndpointResultProtocolDenied = 10"

record TokenEndpointEvidence =
  tee_Result :: TokenEndpointResult
  tee_AuthenticatedClientID :: string

text \<open>The sealed values of the strict human flow that the token endpoint exchanges with its authority,
  \<^verbatim>\<open>pkg/goidc/human_authorization.go\<close>. A capability is its rendered value, or \<open>None\<close> when it was never sealed;
  a decision without state is \<open>None\<close>.\<close>

type_synonym HumanCapability = "string option"
type_synonym HumanAuthorizationCode = HumanCapability
type_synonym HumanRefreshToken = HumanCapability
type_synonym HumanCodeRedemptionOutcome = string

definition HumanCodeRedemptionOutcomeRedeemed :: HumanCodeRedemptionOutcome where [const_defs]:
  "HumanCodeRedemptionOutcomeRedeemed = ''redeemed''"
definition HumanCodeRedemptionOutcomeRejected :: HumanCodeRedemptionOutcome where [const_defs]:
  "HumanCodeRedemptionOutcomeRejected = ''rejected''"

record HumanCodeRedemptionInput =
  hri_authorizationCode :: HumanAuthorizationCode
  hri_codeVerifier :: string
  hri_redirectURI :: string
  hri_clientID :: string
  hri_clientAssertionAuthority :: VerifiedClientAssertionAuthority

record humanCodeRedemptionDecisionState =
  hrd_outcome :: HumanCodeRedemptionOutcome
  hrd_refreshToken :: HumanRefreshToken
  hrd_refreshTokenExpiresAt :: int
  hrd_grantID :: string
  hrd_subject :: string
  hrd_organizationID :: string
  hrd_membershipID :: string
  hrd_membershipRevision :: int
  hrd_clientID :: string
  hrd_clientAssertionAuthority :: VerifiedClientAssertionAuthority
  hrd_scopes :: "string list"
  hrd_resources :: "string list"
  hrd_nonce :: string
  hrd_authenticationTime :: int
  hrd_authenticationContext :: string
  hrd_authenticationMethods :: "string list"
  hrd_createdAt :: int
  hrd_expiresAt :: int

type_synonym HumanCodeRedemptionDecision = "humanCodeRedemptionDecisionState option"

record HumanRefreshRevocationInput =
  hrv_refreshToken :: HumanRefreshToken
  hrv_clientID :: string
  hrv_clientAssertionAuthority :: VerifiedClientAssertionAuthority

section \<open>Facts about the enumerations\<close>

lemma ResponseMode_JARM_Plain_disjoint: "\<not> (ResponseMode_IsJARM rm \<and> ResponseMode_IsPlain rm)"
  by (auto simp: ResponseMode_IsJARM_def ResponseMode_IsPlain_def const_defs)

end
