(* ===== verification/External.thy ===== *)
theory External
  imports Goidc
begin

text \<open>
  The code the program calls but does not contain. The functions of the standard library that the
  program's own checks rest on are defined here (base64 in its URL alphabet without padding, UTF-8
  validity, parsing of decimal and hexadecimal numbers, host names and ports of URLs). The JOSE library, the hash
  functions, the URL parser, JSON decoding into Go types, the clock and the request's cancellation are
  the fields of a record \<open>Lib\<close>, an argument of every definition that uses them; nothing is assumed about
  them except where a theorem says so.
\<close>

section \<open>Bytes and text\<close>

definition byte :: "char \<Rightarrow> nat" where
  "byte c = of_char c"

definition strings_Contains :: "string \<Rightarrow> char \<Rightarrow> bool" where
  "strings_Contains s c \<longleftrightarrow> c \<in> set s"

fun strings_HasPrefix :: "string \<Rightarrow> string \<Rightarrow> bool" where
  "strings_HasPrefix s [] = True"
| "strings_HasPrefix [] (p # ps) = False"
| "strings_HasPrefix (c # s) (p # ps) = (c = p \<and> strings_HasPrefix s ps)"

definition strings_HasSuffix :: "string \<Rightarrow> string \<Rightarrow> bool" where
  "strings_HasSuffix s p = strings_HasPrefix (rev s) (rev p)"

text \<open>\<^verbatim>\<open>strings.ToLower\<close> on ASCII letters; other letters are left alone here.\<close>

definition to_lower_char :: "char \<Rightarrow> char" where
  "to_lower_char c = (if 0x41 \<le> byte c \<and> byte c \<le> 0x5A then char_of (byte c + 0x20) else c)"

definition strings_ToLower :: "string \<Rightarrow> string" where
  "strings_ToLower s = map to_lower_char s"

subsection \<open>UTF-8\<close>

text \<open>\<^verbatim>\<open>utf8.Valid\<close>: the encodings of the Unicode scalar values, without overlong forms and without
  surrogates.\<close>

definition utf8_cont :: "nat \<Rightarrow> bool" where
  "utf8_cont b \<longleftrightarrow> 0x80 \<le> b \<and> b \<le> 0xBF"

fun utf8_Valid :: "nat list \<Rightarrow> bool" where
  "utf8_Valid [] = True"
| "utf8_Valid (a # s) =
     (if a < 0x80 then utf8_Valid s
      else if 0xC2 \<le> a \<and> a \<le> 0xDF then
        (case s of b # s2 \<Rightarrow> utf8_cont b \<and> utf8_Valid s2 | [] \<Rightarrow> False)
      else if 0xE0 \<le> a \<and> a \<le> 0xEF then
        (case s of b # c # s3 \<Rightarrow>
           utf8_cont b \<and> utf8_cont c \<and> (a = 0xE0 \<longrightarrow> 0xA0 \<le> b) \<and> (a = 0xED \<longrightarrow> b \<le> 0x9F) \<and> utf8_Valid s3
         | _ \<Rightarrow> False)
      else if 0xF0 \<le> a \<and> a \<le> 0xF4 then
        (case s of b # c # d # s4 \<Rightarrow>
           utf8_cont b \<and> utf8_cont c \<and> utf8_cont d \<and> (a = 0xF0 \<longrightarrow> 0x90 \<le> b) \<and> (a = 0xF4 \<longrightarrow> b \<le> 0x8F) \<and> utf8_Valid s4
         | _ \<Rightarrow> False)
      else False)"

definition utf8_ValidString :: "string \<Rightarrow> bool" where
  "utf8_ValidString s = utf8_Valid (map byte s)"

subsection \<open>Numbers\<close>

definition is_digit :: "char \<Rightarrow> bool" where
  "is_digit c \<longleftrightarrow> 0x30 \<le> byte c \<and> byte c \<le> 0x39"

fun digits_value :: "nat \<Rightarrow> string \<Rightarrow> nat" where
  "digits_value acc [] = acc"
| "digits_value acc (c # s) = digits_value (10 * acc + (byte c - 0x30)) s"

text \<open>\<^verbatim>\<open>strconv.ParseInt(s, 10, 64)\<close>: an optional sign and at least one digit, within 64 bits.\<close>

definition ParseInt64 :: "string \<Rightarrow> int option" where
  "ParseInt64 s =
     (let neg = (case s of c # _ \<Rightarrow> c = CHR ''-'' | [] \<Rightarrow> False);
          body = (case s of c # r \<Rightarrow> if c = CHR ''-'' \<or> c = CHR ''+'' then r else s | [] \<Rightarrow> []);
          v = (if neg then - int (digits_value 0 body) else int (digits_value 0 body))
      in if body = [] \<or> \<not> list_all is_digit body \<or> v < - (2 ^ 63) \<or> v > 2 ^ 63 - 1 then None else Some v)"

definition hex_digit :: "char \<Rightarrow> nat option" where
  "hex_digit c =
     (let b = byte c in
      if 0x30 \<le> b \<and> b \<le> 0x39 then Some (b - 0x30)
      else if 0x61 \<le> b \<and> b \<le> 0x66 then Some (b - 0x61 + 10)
      else if 0x41 \<le> b \<and> b \<le> 0x46 then Some (b - 0x41 + 10)
      else None)"

fun hex_value :: "nat \<Rightarrow> string \<Rightarrow> nat option" where
  "hex_value acc [] = Some acc"
| "hex_value acc (c # s) =
     (case hex_digit c of None \<Rightarrow> None | Some d \<Rightarrow> hex_value (16 * acc + d) s)"

text \<open>\<^verbatim>\<open>strconv.ParseUint(s, 16, 16)\<close>.\<close>

definition ParseUint16Hex :: "string \<Rightarrow> nat option" where
  "ParseUint16Hex s =
     (if s = [] then None else case hex_value 0 s of None \<Rightarrow> None | Some v \<Rightarrow> if v > 0xFFFF then None else Some v)"

subsection \<open>Base64 without padding, URL alphabet\<close>

definition b64_char :: "nat \<Rightarrow> char" where
  "b64_char n =
     (if n < 26 then char_of (0x41 + n) else if n < 52 then char_of (0x61 + (n - 26))
      else if n < 62 then char_of (0x30 + (n - 52)) else if n = 62 then CHR ''-'' else CHR ''_'')"

definition b64_value :: "char \<Rightarrow> nat option" where
  "b64_value c =
     (let b = byte c in
      if 0x41 \<le> b \<and> b \<le> 0x5A then Some (b - 0x41)
      else if 0x61 \<le> b \<and> b \<le> 0x7A then Some (b - 0x61 + 26)
      else if 0x30 \<le> b \<and> b \<le> 0x39 then Some (b - 0x30 + 52)
      else if c = CHR ''-'' then Some 62 else if c = CHR ''_'' then Some 63 else None)"

fun b64_encode :: "nat list \<Rightarrow> string" where
  "b64_encode [] = []"
| "b64_encode [a] = [b64_char (a div 4), b64_char (a mod 4 * 16)]"
| "b64_encode [a, b] = [b64_char (a div 4), b64_char (a mod 4 * 16 + b div 16), b64_char (b mod 16 * 4)]"
| "b64_encode (a # b # c # s) =
     b64_char (a div 4) # b64_char (a mod 4 * 16 + b div 16) # b64_char (b mod 16 * 4 + c div 64)
       # b64_char (c mod 64) # b64_encode s"

fun b64_join :: "nat list \<Rightarrow> nat list option" where
  "b64_join [] = Some []"
| "b64_join [v] = None"
| "b64_join [v, w] = Some [v * 4 + w div 16]"
| "b64_join [v, w, x] = Some [v * 4 + w div 16, w mod 16 * 16 + x div 4]"
| "b64_join (v # w # x # y # s) =
     map_option (\<lambda>r. (v * 4 + w div 16) # (w mod 16 * 16 + x div 4) # (x mod 4 * 64 + y) # r) (b64_join s)"

definition RawURLEncode :: "string \<Rightarrow> string" where
  "RawURLEncode s = b64_encode (map byte s)"

text \<open>\<^verbatim>\<open>base64.RawURLEncoding.DecodeString\<close>: carriage returns and newlines are skipped, trailing bits are not
  checked.\<close>

definition RawURLDecode :: "string \<Rightarrow> nat list option" where
  "RawURLDecode s =
     (let vs = map b64_value (filter (\<lambda>c. c \<noteq> CHR 0x0A \<and> c \<noteq> CHR 0x0D) s)
      in if None \<in> set vs then None else b64_join (map the vs))"

section \<open>URLs\<close>

text \<open>\<^verbatim>\<open>net/url.URL\<close>.\<close>

record URL =
  u_Scheme :: string
  u_Opaque :: string
  u_User :: "string option"
  u_Host :: string
  u_Path :: string
  u_RawPath :: string
  u_OmitHost :: bool
  u_ForceQuery :: bool
  u_RawQuery :: string
  u_Fragment :: string
  u_RawFragment :: string

text \<open>\<^verbatim>\<open>splitHostPort\<close> of the package \<^verbatim>\<open>net/url\<close>, behind \<^verbatim>\<open>Hostname\<close> and \<^verbatim>\<open>Port\<close>: the last colon separates a port
  when only digits follow it, and brackets around the host are dropped.\<close>

definition valid_optional_port :: "string \<Rightarrow> bool" where
  "valid_optional_port p = (case p of [] \<Rightarrow> True | c # ds \<Rightarrow> c = CHR '':'' \<and> list_all is_digit ds)"

definition split_host_port :: "string \<Rightarrow> string \<times> string" where
  "split_host_port hostPort =
     (let after = takeWhile (\<lambda>c. c \<noteq> CHR '':'') (rev hostPort);
          port = rev after;
          has = (length after < length hostPort) \<and> valid_optional_port (CHR '':'' # port);
          host = (if has then take (length hostPort - length after - 1) hostPort else hostPort);
          bare = (if strings_HasPrefix host ''['' \<and> strings_HasSuffix host '']''
                  then tl (butlast host) else host)
      in (bare, if has then port else ''''))"

definition url_Hostname :: "URL \<Rightarrow> string" where
  "url_Hostname u = fst (split_host_port (u_Host u))"

definition url_Port :: "URL \<Rightarrow> string" where
  "url_Port u = snd (split_host_port (u_Host u))"

text \<open>\<^verbatim>\<open>net.JoinHostPort\<close>.\<close>

definition JoinHostPort :: "string \<Rightarrow> string \<Rightarrow> string" where
  "JoinHostPort host port =
     (if strings_Contains host CHR '':'' then ''['' @ host @ '']:'' @ port else host @ '':'' @ port)"

section \<open>Tokens of the JOSE library\<close>

record JoseHeader =
  jh_KeyID :: string
  jh_Algorithm :: string
  jh_JSONWebKey :: "JSONWebKey option"
  jh_ExtraHeaders :: "(string \<times> json) list"

text \<open>\<^verbatim>\<open>jwt.JSONWebToken\<close>: the headers and the serialized token it was parsed from.\<close>

record JSONWebToken =
  jwt_Headers :: "JoseHeader list"
  jwt_Raw :: string

text \<open>\<^verbatim>\<open>jwt.Claims\<close>, with times in seconds.\<close>

record JWTClaims =
  jc_Issuer :: string
  jc_Subject :: string
  jc_Audience :: "string list"
  jc_Expiry :: "int option"
  jc_NotBefore :: "int option"
  jc_IssuedAt :: "int option"
  jc_ID :: string

record Expected =
  ex_Issuer :: string
  ex_Subject :: string
  ex_AnyAudience :: "string list"

definition zero_Expected :: Expected where
  "zero_Expected = \<lparr>ex_Issuer = '''', ex_Subject = '''', ex_AnyAudience = []\<rparr>"

datatype VerificationKey = VKey "KeyMaterial option" | VSecret string | VKeySet JSONWebKeySet

text \<open>A signing key: a JSON Web Key of the provider, or an external signer with its key identifier.\<close>

datatype SigningKey = SignJWK JSONWebKey | SignOpaque string string

record DPoPClaims =
  dc_HTTPMethod :: string
  dc_HTTPURI :: string
  dc_AccessTokenHash :: string
  dc_Nonce :: string

text \<open>The members \<^verbatim>\<open>iat\<close> and \<^verbatim>\<open>jti\<close> of a proof as undecoded JSON text, empty when absent.\<close>

record rawClaims =
  raw_IssuedAt :: string
  raw_ID :: string

record HTTPResponse =
  hr_StatusCode :: int
  hr_ContentLength :: int
  hr_Body :: string

section \<open>The external functions\<close>

text \<open>Functions whose results may vary take the number of the call.\<close>

record Lib =
  l_Now :: "nat \<Rightarrow> int"
  l_CtxErr :: "nat \<Rightarrow> go_error option"
  l_EncodeErr :: "nat \<Rightarrow> go_error option"
  l_ParseSigned :: "string \<Rightarrow> SignatureAlgorithm list \<Rightarrow> go_error + JSONWebToken"
  l_Verify :: "JSONWebToken \<Rightarrow> VerificationKey \<Rightarrow> go_error + string"
  l_Payload :: "JSONWebToken \<Rightarrow> string"
  l_DecodeMap :: "string \<Rightarrow> go_error + claims"
  l_DecodeClaims :: "string \<Rightarrow> go_error + JWTClaims"
  l_DecodeDPoPClaims :: "string \<Rightarrow> go_error + DPoPClaims"
  l_DecodeRawClaims :: "string \<Rightarrow> go_error + rawClaims"
  l_DecodeTokenInfo :: "string \<Rightarrow> go_error + TokenInfo"
  l_DecodeIssuer :: "string \<Rightarrow> go_error + string"
  l_DecodeConfirmation :: "string \<Rightarrow> go_error + JSONWebKey"
  l_DecodeJWKS :: "string \<Rightarrow> go_error + JSONWebKeySet"
  l_ValidateWithLeeway :: "nat \<Rightarrow> JWTClaims \<Rightarrow> Expected \<Rightarrow> int \<Rightarrow> go_error option"
  l_Valid :: "JSONWebKey \<Rightarrow> bool"
  l_IsPublic :: "JSONWebKey \<Rightarrow> bool"
  l_Thumbprint :: "JSONWebKey \<Rightarrow> go_error + string"
  l_Public :: "JSONWebKey \<Rightarrow> JSONWebKey"
  l_Sign :: "nat \<Rightarrow> claims \<Rightarrow> SignatureAlgorithm \<Rightarrow> SigningKey \<Rightarrow> string \<Rightarrow> go_error + string"
  l_Encrypt :: "nat \<Rightarrow> string \<Rightarrow> JSONWebKey \<Rightarrow> ContentEncryptionAlgorithm \<Rightarrow> go_error + string"
  l_Marshal :: "json \<Rightarrow> string"
  l_UnmarshalString :: "string \<Rightarrow> go_error + string"
  l_UnmarshalAuthDetails :: "string \<Rightarrow> go_error + AuthDetail slice"
  l_sha1 :: "string \<Rightarrow> string"
  l_sha256 :: "string \<Rightarrow> string"
  l_sha384 :: "string \<Rightarrow> string"
  l_sha512 :: "string \<Rightarrow> string"
  l_url_Parse :: "string \<Rightarrow> go_error + URL"
  l_url_String :: "URL \<Rightarrow> string"
  l_url_ParseRequestURI :: "string \<Rightarrow> go_error + URL"
  l_Random :: "nat \<Rightarrow> go_error + string"

text \<open>A library in which every call fails and the clock stands at zero, as a base for concrete
  configurations.\<close>

definition base_Lib :: Lib where
  "base_Lib =
    \<lparr>l_Now = (\<lambda>_. 0), l_CtxErr = (\<lambda>_. None), l_EncodeErr = (\<lambda>_. None),
     l_ParseSigned = (\<lambda>_ _. Inl ErrNotFound), l_Verify = (\<lambda>_ _. Inl ErrNotFound),
     l_Payload = jwt_Raw, l_DecodeMap = (\<lambda>_. Inl ErrNotFound),
     l_DecodeClaims = (\<lambda>_. Inl ErrNotFound), l_DecodeDPoPClaims = (\<lambda>_. Inl ErrNotFound),
     l_DecodeRawClaims = (\<lambda>_. Inl ErrNotFound), l_DecodeTokenInfo = (\<lambda>_. Inl ErrNotFound),
     l_DecodeIssuer = (\<lambda>_. Inl ErrNotFound), l_DecodeConfirmation = (\<lambda>_. Inl ErrNotFound),
     l_DecodeJWKS = (\<lambda>_. Inl ErrNotFound), l_ValidateWithLeeway = (\<lambda>_ _ _ _. None),
     l_Valid = (\<lambda>_. True), l_IsPublic = (\<lambda>_. True),
     l_Thumbprint = (\<lambda>_. Inl ErrNotFound), l_Public = id,
     l_Sign = (\<lambda>_ _ _ _ _. Inl ErrNotFound), l_Encrypt = (\<lambda>_ _ _ _. Inl ErrNotFound),
     l_Marshal = (\<lambda>j. ''''), l_UnmarshalString = (\<lambda>_. Inl ErrNotFound),
     l_UnmarshalAuthDetails = (\<lambda>_. Inl ErrNotFound), l_sha1 = id, l_sha256 = id, l_sha384 = id,
     l_sha512 = id, l_url_Parse = (\<lambda>_. Inl ErrNotFound), l_url_String = u_Path,
     l_url_ParseRequestURI = (\<lambda>_. Inl ErrNotFound), l_Random = (\<lambda>_. Inr (replicate 32 CHR 0x01))\<rparr>"

section \<open>Facts\<close>

lemma byte_lt [simp]: "byte c < 256"
  by (simp add: byte_def)

lemma byte_inject [simp]: "byte c = byte d \<longleftrightarrow> c = d"
  by (simp add: byte_def)

lemma byte_char_of [simp]: "n < 256 \<Longrightarrow> byte (char_of n) = n"
  by (simp add: byte_def)

lemma strings_HasPrefix_iff: "strings_HasPrefix s p \<longleftrightarrow> (\<exists>r. s = p @ r)"
  by (induction s p rule: strings_HasPrefix.induct) auto

text \<open>Decoding what was encoded returns the bytes.\<close>

lemma b64_value_char [simp]: "n < 64 \<Longrightarrow> b64_value (b64_char n) = Some n"
proof -
  assume "n < 64"
  then consider "n < 26" | "26 \<le> n" "n < 52" | "52 \<le> n" "n < 62" | "n = 62" | "n = 63"
    by linarith
  then show ?thesis
    by cases (auto simp: b64_value_def b64_char_def byte_def Let_def)
qed

lemma b64_char_not_newline: "n < 64 \<Longrightarrow> b64_char n \<noteq> CHR 0x0A \<and> b64_char n \<noteq> CHR 0x0D"
proof -
  assume "n < 64"
  moreover have "b64_value (CHR 0x0A) = None" "b64_value (CHR 0x0D) = None"
    by (simp_all add: b64_value_def byte_def Let_def)
  ultimately show ?thesis
    using b64_value_char by (metis option.distinct(1))
qed

lemma b64_encode_chars: "list_all (\<lambda>b. b < 256) s \<Longrightarrow> \<exists>vs. b64_encode s = map b64_char vs \<and> list_all (\<lambda>v. v < 64) vs \<and> b64_join vs = Some s"
proof (induction s rule: b64_encode.induct)
  case (2 a)
  then show ?case
    by (intro exI [of _ "[a div 4, a mod 4 * 16]"]) auto
next
  case (3 a b)
  then have "b div 16 < 16" "a div 4 < 64" "b < 256"
    by auto
  then show ?case
    by (intro exI [of _ "[a div 4, a mod 4 * 16 + b div 16, b mod 16 * 4]"]) auto
next
  case (4 a b c s)
  then obtain vs where vs: "b64_encode s = map b64_char vs" "list_all (\<lambda>v. v < 64) vs" "b64_join vs = Some s"
    by auto
  from 4 have "b div 16 < 16" "a div 4 < 64" "c div 64 < 4" "a < 256" "b < 256" "c < 256"
    by auto
  with vs show ?case
    by (intro exI [of _ "(a div 4) # (a mod 4 * 16 + b div 16) # (b mod 16 * 4 + c div 64) # (c mod 64) # vs"]) auto
qed auto

lemma RawURL_roundtrip: "RawURLDecode (RawURLEncode s) = Some (map byte s)"
proof -
  have "list_all (\<lambda>b. b < 256) (map byte s)"
    by (simp add: list_all_iff)
  from b64_encode_chars [OF this] obtain vs
    where vs: "b64_encode (map byte s) = map b64_char vs" "list_all (\<lambda>v. v < 64) vs" "b64_join vs = Some (map byte s)"
    by auto
  then have "filter (\<lambda>c. c \<noteq> CHR 0x0A \<and> c \<noteq> CHR 0x0D) (map b64_char vs) = map b64_char vs"
    by (intro filter_True) (auto simp: list_all_iff dest: b64_char_not_newline)
  moreover have "map b64_value (map b64_char vs) = map Some vs"
    using vs(2) by (auto simp: list_all_iff)
  ultimately have "RawURLDecode (map b64_char vs) = b64_join vs"
    unfolding RawURLDecode_def Let_def by (simp only: map_map comp_def option.sel) auto
  with vs show ?thesis by (simp add: RawURLEncode_def)
qed

end
