(* ===== verification/Managers.thy ===== *)
theory Managers
  imports Goidc
begin

text \<open>
  The storage interfaces of \<^verbatim>\<open>pkg/goidc/model.go\<close> (\<^verbatim>\<open>GrantManager\<close>, \<^verbatim>\<open>AuthManager\<close>, \<^verbatim>\<open>CIBAManager\<close>,
  \<^verbatim>\<open>DeviceAuthManager\<close>, \<^verbatim>\<open>RefreshTokenManager\<close>, \<^verbatim>\<open>OpaqueTokenManager\<close>, \<^verbatim>\<open>DCRManager\<close>, \<^verbatim>\<open>OpenIDFedManager\<close>,
  \<^verbatim>\<open>PARManager\<close>, \<^verbatim>\<open>LogoutManager\<close>) as a record of operations over an abstract store, and the contract their
  documentation states as locales.

  Every operation takes the number of the call, so that a store that answers the same question
  differently at different times is covered. The interfaces exchange pointers: an object a manager
  returned or was given may be the very object it keeps. Assigning to a field of such an object is
  written \<open>Touch\<close>: a manager that shares its objects sees the assignment at once, a manager that hands
  out copies does not.
\<close>

type_synonym ('st, 'a) store_op = "'st \<Rightarrow> (go_error + 'a) \<times> 'st"

record 'st Managers =
  m_SaveGrant :: "nat \<Rightarrow> Grant \<Rightarrow> ('st, unit) store_op"
  m_Grant :: "nat \<Rightarrow> string \<Rightarrow> ('st, Grant) store_op"
  m_Auth_SaveSession :: "nat \<Rightarrow> AuthnSession \<Rightarrow> ('st, unit) store_op"
  m_Auth_Session :: "nat \<Rightarrow> string \<Rightarrow> ('st, AuthnSession) store_op"
  m_GrantByAuthCode :: "nat \<Rightarrow> string \<Rightarrow> ('st, Grant) store_op"
  m_SessionByPushedAuthReqID :: "nat \<Rightarrow> string \<Rightarrow> ('st, AuthnSession) store_op"
  m_DCR_SaveClient :: "nat \<Rightarrow> Client \<Rightarrow> ('st, unit) store_op"
  m_DCR_Client :: "nat \<Rightarrow> string \<Rightarrow> ('st, Client) store_op"
  m_DCR_DeleteClient :: "nat \<Rightarrow> string \<Rightarrow> ('st, unit) store_op"
  m_Fed_SaveClient :: "nat \<Rightarrow> Client \<Rightarrow> ('st, unit) store_op"
  m_Fed_Client :: "nat \<Rightarrow> string \<Rightarrow> ('st, Client) store_op"
  m_GrantByRefreshToken :: "nat \<Rightarrow> string \<Rightarrow> ('st, Grant) store_op"
  m_CIBA_SaveSession :: "nat \<Rightarrow> AuthnSession \<Rightarrow> ('st, unit) store_op"
  m_CIBA_Session :: "nat \<Rightarrow> string \<Rightarrow> ('st, AuthnSession) store_op"
  m_SessionByAuthReqID :: "nat \<Rightarrow> string \<Rightarrow> ('st, AuthnSession) store_op"
  m_GrantByAuthReqID :: "nat \<Rightarrow> string \<Rightarrow> ('st, Grant) store_op"
  m_Device_SaveSession :: "nat \<Rightarrow> AuthnSession \<Rightarrow> ('st, unit) store_op"
  m_Device_Session :: "nat \<Rightarrow> string \<Rightarrow> ('st, AuthnSession) store_op"
  m_SessionByUserCode :: "nat \<Rightarrow> string \<Rightarrow> ('st, AuthnSession) store_op"
  m_SessionByDeviceCode :: "nat \<Rightarrow> string \<Rightarrow> ('st, AuthnSession) store_op"
  m_GrantByDeviceCode :: "nat \<Rightarrow> string \<Rightarrow> ('st, Grant) store_op"
  m_GrantByPreAuthCode :: "nat \<Rightarrow> string \<Rightarrow> ('st, Grant) store_op"
  m_SaveToken :: "nat \<Rightarrow> Token \<Rightarrow> ('st, unit) store_op"
  m_Token :: "nat \<Rightarrow> string \<Rightarrow> ('st, Token) store_op"
  m_TouchGrant :: "Grant \<Rightarrow> 'st \<Rightarrow> 'st"
  m_TouchSession :: "AuthnSession \<Rightarrow> 'st \<Rightarrow> 'st"
  m_TouchToken :: "Token \<Rightarrow> 'st \<Rightarrow> 'st"

section \<open>The contract of a keyed table\<close>

text \<open>\<open>finds I at key f attr\<close>: the lookup \<open>f\<close> does not change the store; what it returns is stored
  under its key and has the attribute asked for; an answer \<open>ErrNotFound\<close> means that nothing stored
  has it. Another error says nothing about the store.\<close>

definition finds ::
  "('st \<Rightarrow> bool) \<Rightarrow> ('st \<Rightarrow> string \<Rightarrow> 'v option) \<Rightarrow> ('v \<Rightarrow> string) \<Rightarrow> (nat \<Rightarrow> string \<Rightarrow> ('st, 'v) store_op)
    \<Rightarrow> ('v \<Rightarrow> string) \<Rightarrow> bool" where
  "finds I at key f attr \<longleftrightarrow>
     (\<forall>n x s r s'. I s \<longrightarrow> f n x s = (r, s') \<longrightarrow>
        s' = s \<and>
        (\<forall>v. r = Inr v \<longrightarrow> at s (key v) = Some v \<and> attr v = x) \<and>
        (\<forall>e. r = Inl e \<longrightarrow> errors_Is e ErrNotFound \<longrightarrow> (\<forall>k v. at s k = Some v \<longrightarrow> attr v \<noteq> x)))"

lemma findsD:
  assumes "finds I at key f attr" and "I s" and "f n x s = (r, s')"
  shows "s' = s" and "r = Inr v \<Longrightarrow> at s (key v) = Some v \<and> attr v = x"
    and "r = Inl e \<Longrightarrow> errors_Is e ErrNotFound \<Longrightarrow> at s k = Some u \<Longrightarrow> attr u \<noteq> x"
  using assms unfolding finds_def by blast+

text \<open>An attribute value that identifies entries.\<close>

definition unique_attr ::
  "('st \<Rightarrow> string \<Rightarrow> 'v option) \<Rightarrow> ('v \<Rightarrow> string) \<Rightarrow> string \<Rightarrow> 'st \<Rightarrow> bool" where
  "unique_attr at attr x s \<longleftrightarrow>
     (\<forall>k u k' u'. at s k = Some u \<longrightarrow> at s k' = Some u' \<longrightarrow> attr u = x \<longrightarrow> attr u' = x \<longrightarrow> k = k')"

text \<open>A table of values under their own keys. Saving may evict other entries, never the saved one.\<close>

locale keyed_table =
  fixes inv :: "'st \<Rightarrow> bool"
    and at :: "'st \<Rightarrow> string \<Rightarrow> 'v option"
    and key :: "'v \<Rightarrow> string"
    and save :: "nat \<Rightarrow> 'v \<Rightarrow> ('st, unit) store_op"
    and touch :: "'v \<Rightarrow> 'st \<Rightarrow> 'st"
  assumes at_key: "inv s \<Longrightarrow> at s k = Some v \<Longrightarrow> key v = k"
    and save_inv: "inv s \<Longrightarrow> save n v s = (r, s') \<Longrightarrow> inv s'"
    and save_at: "inv s \<Longrightarrow> save n v s = (Inr u, s') \<Longrightarrow> at s' (key v) = Some v"
    and save_other: "inv s \<Longrightarrow> save n v s = (r, s') \<Longrightarrow> k \<noteq> key v \<Longrightarrow> at s' k = at s k \<or> at s' k = None"
    and save_failed: "inv s \<Longrightarrow> save n v s = (Inl e, s') \<Longrightarrow>
          at s' (key v) = at s (key v) \<or> at s' (key v) = None \<or> at s' (key v) = Some v"
    and touch_inv: "inv s \<Longrightarrow> inv (touch v s)"
    and touch_at: "inv s \<Longrightarrow> at (touch v s) (key v) = at s (key v)
          \<or> at s (key v) \<noteq> None \<and> at (touch v s) (key v) = Some v"
    and touch_other: "inv s \<Longrightarrow> k \<noteq> key v \<Longrightarrow> at (touch v s) k = at s k"
begin

text \<open>Nothing but the saved value enters a table.\<close>

lemma save_stored:
  assumes "inv s" and "save n v s = (r, s')" and "at s' k = Some u"
  shows "u = v \<or> at s k = Some u"
proof (cases "k = key v")
  case True
  show ?thesis
  proof (cases r)
    case (Inl e)
    with assms True save_failed [of s n v e s'] show ?thesis by auto
  next
    case (Inr x)
    with assms True save_at [of s n v x s'] show ?thesis by auto
  qed
next
  case False
  with assms save_other [of s n v r s' k] show ?thesis by auto
qed

lemma touch_stored:
  assumes "inv s" and "at (touch v s) k = Some u"
  shows "u = v \<or> at s k = Some u"
  using assms touch_at [of s v] touch_other [of s k v] by (cases "k = key v") auto

text \<open>A property of all stored values is kept by saving or touching a value that has it.\<close>

lemma save_all:
  assumes "inv s" and "\<And>k u. at s k = Some u \<Longrightarrow> Q u" and "Q v" and "save n v s = (r, s')"
    and "at s' k = Some u"
  shows "Q u"
  using save_stored [OF assms(1,4,5)] assms(2,3) by auto

lemma touch_all:
  assumes "inv s" and "\<And>k u. at s k = Some u \<Longrightarrow> Q u" and "Q v" and "at (touch v s) k = Some u"
  shows "Q u"
  using touch_stored [OF assms(1,4)] assms(2,3) by auto

text \<open>An identifying attribute value stays identifying when a value is written whose attribute value
  no other key has.\<close>

lemma save_unique:
  assumes "inv s" and "unique_attr at attr x s" and "save n v s = (r, s')"
    and "attr v = x \<Longrightarrow> \<exists>u. at s (key v) = Some u \<and> attr u = x"
  shows "unique_attr at attr x s'"
  unfolding unique_attr_def
proof (intro allI impI)
  fix k u k' u'
  assume u: "at s' k = Some u" "attr u = x" and u': "at s' k' = Some u'" "attr u' = x"
  have key: "\<exists>z. at s l = Some z \<and> attr z = x" if "at s' l = Some y" "attr y = x" for l y
  proof (cases "y = v")
    case True
    with that assms(1,3) have "key v = l"
      using at_key save_inv by blast
    with that True assms(4) show ?thesis by auto
  next
    case False
    with that save_stored [OF assms(1,3)] show ?thesis by blast
  qed
  from key [OF u] key [OF u'] assms(2) show "k = k'"
    unfolding unique_attr_def by blast
qed

end

text \<open>The grant stores of a configuration: one table of grants, and every lookup the interfaces
  offer finds in it.\<close>

locale grant_managers =
  keyed_table inv at g_ID "m_SaveGrant M" "m_TouchGrant M"
  for inv :: "'st \<Rightarrow> bool" and at :: "'st \<Rightarrow> string \<Rightarrow> Grant option" and M :: "'st Managers" +
  assumes find_id: "finds inv at g_ID (m_Grant M) g_ID"
    and find_code: "finds inv at g_ID (m_GrantByAuthCode M) g_AuthCode"
    and find_refresh: "finds inv at g_ID (m_GrantByRefreshToken M) g_RefreshToken"
    and find_auth_req: "finds inv at g_ID (m_GrantByAuthReqID M) g_AuthReqID"
    and find_device: "finds inv at g_ID (m_GrantByDeviceCode M) g_DeviceCode"
    and find_pre_auth: "finds inv at g_ID (m_GrantByPreAuthCode M) g_PreAuthCode"
    and tokens_keep: "inv s \<Longrightarrow> m_SaveToken M n t s = (r, s') \<Longrightarrow> inv s' \<and> at s' = at s"
    and token_reads: "inv s \<Longrightarrow> m_Token M n i s = (q, s') \<Longrightarrow> s' = s"
    and sessions_keep: "inv s \<Longrightarrow> m_CIBA_SaveSession M n as s = (r, s') \<Longrightarrow> inv s' \<and> at s' = at s"
    and session_reads: "inv s \<Longrightarrow> m_SessionByAuthReqID M n i s = (v, s') \<Longrightarrow> s' = s"
    and device_session_reads: "inv s \<Longrightarrow> m_SessionByDeviceCode M n i s = (v, s') \<Longrightarrow> s' = s"
    and client_reads: "inv s \<Longrightarrow> m_DCR_Client M n i s = (c, s') \<Longrightarrow> inv s' \<and> at s' = at s"
    and fed_client_reads: "inv s \<Longrightarrow> m_Fed_Client M n i s = (c, s') \<Longrightarrow> inv s' \<and> at s' = at s"
    and touch_session_keeps: "inv s \<Longrightarrow> inv (m_TouchSession M as s) \<and> at (m_TouchSession M as s) = at s"
    and touch_token_keeps: "inv s \<Longrightarrow> inv (m_TouchToken M t s) \<and> at (m_TouchToken M t s) = at s"
begin

text \<open>A lookup by an identifying attribute returns the one grant that has it.\<close>

lemma find_unique:
  assumes "finds inv at g_ID f attr" and "inv s" and "unique_attr at attr x s"
    and "at s k = Some g" and "attr g = x" and "f n x s = (Inr g', s')"
  shows "g' = g"
proof -
  from findsD(2) [OF assms(1,2,6) refl] have "at s (g_ID g') = Some g'" "attr g' = x"
    by auto
  with assms(3,4,5) show ?thesis
    unfolding unique_attr_def by (metis option.inject)
qed

end

end
