(* ===== verification/Storage.thy ===== *)
theory Storage
  imports Managers "HOL-Library.Multiset"
begin

text \<open>
  The in-memory storage \<^verbatim>\<open>internal/storage/manager.go\<close>: eight maps from identifiers to objects with a
  common size limit. A Go map is an association list with distinct keys; the order in which a
  \<^verbatim>\<open>range\<close> loop visits it is not determined by the language, so every operation that iterates takes
  the order as an argument (a permutation of the keys). The mutexes make each operation atomic; an
  operation here is one such atomic step.

  The manager implements the grant contract of the theory Managers (interpretation \<open>mem\<close>).
\<close>

section \<open>Go maps\<close>

type_synonym 'v gomap = "(string \<times> 'v) list"
type_synonym map_order = "string list \<Rightarrow> string list"

text \<open>The keys in the order \<open>ord\<close> visits them; a function that does not permute the keys is no order,
  and stands for the order of the list.\<close>

definition visit :: "map_order \<Rightarrow> string list \<Rightarrow> string list" where
  "visit ord ks = (if mset (ord ks) = mset ks then ord ks else ks)"

text \<open>The entries a \<^verbatim>\<open>range\<close> loop visits, in its order.\<close>

definition range_map :: "map_order \<Rightarrow> 'v gomap \<Rightarrow> (string \<times> 'v) list" where
  "range_map ord m = List.map_filter (\<lambda>k. map_option (Pair k) (map_of m k)) (visit ord (map fst m))"

text \<open>\<^verbatim>\<open>findFirst\<close>.\<close>

fun findFirst :: "'v list \<Rightarrow> ('v \<Rightarrow> bool) \<Rightarrow> 'v option" where
  "findFirst [] condition = None"
| "findFirst (element # slice) condition =
     (if condition element then Some element else findFirst slice condition)"

text \<open>The loop of \<^verbatim>\<open>removeOldest\<close>: the oldest key so far and its creation time, 0 before the first
  entry.\<close>

fun oldest_loop :: "('v \<Rightarrow> int) \<Rightarrow> (string \<times> 'v) list \<Rightarrow> string \<Rightarrow> int \<Rightarrow> string \<times> int" where
  "oldest_loop createdAt [] oldestKey oldestCreatedAt = (oldestKey, oldestCreatedAt)"
| "oldest_loop createdAt ((key, v) # es) oldestKey oldestCreatedAt =
     (if oldestCreatedAt = 0 \<or> createdAt v < oldestCreatedAt
      then oldest_loop createdAt es key (createdAt v)
      else oldest_loop createdAt es oldestKey oldestCreatedAt)"

definition removeOldest :: "map_order \<Rightarrow> ('v \<Rightarrow> int) \<Rightarrow> 'v gomap \<Rightarrow> 'v gomap" where
  "removeOldest ord createdAt m = AList.delete (fst (oldest_loop createdAt (range_map ord m) '''' 0)) m"

text \<open>The two forms of saving: most tables evict whenever they are full, the deferrals and the
  notifications only when the key is new.\<close>

definition save_evict :: "map_order \<Rightarrow> int \<Rightarrow> ('v \<Rightarrow> int) \<Rightarrow> ('v \<Rightarrow> string) \<Rightarrow> 'v \<Rightarrow> 'v gomap \<Rightarrow> 'v gomap" where
  "save_evict ord maxSize createdAt ident v m =
     AList.update (ident v) v (if int (length m) \<ge> maxSize then removeOldest ord createdAt m else m)"

definition save_new :: "map_order \<Rightarrow> int \<Rightarrow> ('v \<Rightarrow> int) \<Rightarrow> ('v \<Rightarrow> string) \<Rightarrow> 'v \<Rightarrow> 'v gomap \<Rightarrow> 'v gomap" where
  "save_new ord maxSize createdAt ident v m =
     AList.update (ident v) v
       (if map_of m (ident v) = None \<and> int (length m) \<ge> maxSize then removeOldest ord createdAt m else m)"

definition found :: "'v option \<Rightarrow> go_error + 'v" where
  "found r = (case r of None \<Rightarrow> Inl ErrNotFound | Some v \<Rightarrow> Inr v)"

definition first_by :: "map_order \<Rightarrow> ('v \<Rightarrow> bool) \<Rightarrow> 'v gomap \<Rightarrow> go_error + 'v" where
  "first_by ord condition m = found (findFirst (map snd (range_map ord m)) condition)"

text \<open>An assignment to a field of an object the map holds: the map and the caller share it.\<close>

definition share :: "('v \<Rightarrow> string) \<Rightarrow> 'v \<Rightarrow> 'v gomap \<Rightarrow> 'v gomap" where
  "share ident v m = (if map_of m (ident v) = None then m else AList.update (ident v) v m)"

section \<open>The manager\<close>

record Manager =
  mg_Sessions :: "AuthnSession gomap"
  mg_Clients :: "Client gomap"
  mg_Grants :: "Grant gomap"
  mg_Tokens :: "Token gomap"
  mg_LogoutSessions :: "LogoutSession gomap"
  mg_Offers :: "VCOffer gomap"
  mg_Deferrals :: "VCDeferral gomap"
  mg_Notifications :: "VCNotification gomap"
  mg_maxSize :: int

definition NewManager :: "int \<Rightarrow> Manager" where
  "NewManager maxSize =
    \<lparr>mg_Sessions = [], mg_Clients = [], mg_Grants = [], mg_Tokens = [], mg_LogoutSessions = [],
     mg_Offers = [], mg_Deferrals = [], mg_Notifications = [], mg_maxSize = maxSize\<rparr>"

definition SaveSession :: "map_order \<Rightarrow> AuthnSession \<Rightarrow> (Manager, unit) store_op" where
  "SaveSession ord as m =
     (Inr (), m\<lparr>mg_Sessions := save_evict ord (mg_maxSize m) as_CreatedAt as_ID as (mg_Sessions m)\<rparr>)"

definition firstSession :: "map_order \<Rightarrow> (AuthnSession \<Rightarrow> bool) \<Rightarrow> (Manager, AuthnSession) store_op" where
  "firstSession ord condition m = (first_by ord condition (mg_Sessions m), m)"

definition Session :: "map_order \<Rightarrow> string \<Rightarrow> (Manager, AuthnSession) store_op" where
  "Session ord i = firstSession ord (\<lambda>s. as_ID s = i)"

definition SessionByDeviceCode :: "map_order \<Rightarrow> string \<Rightarrow> (Manager, AuthnSession) store_op" where
  "SessionByDeviceCode ord code = firstSession ord (\<lambda>s. as_DeviceCode s = code)"

definition SessionByPushedAuthReqID :: "map_order \<Rightarrow> string \<Rightarrow> (Manager, AuthnSession) store_op" where
  "SessionByPushedAuthReqID ord i = firstSession ord (\<lambda>s. as_PushedAuthReqID s = i)"

definition SessionByAuthReqID :: "map_order \<Rightarrow> string \<Rightarrow> (Manager, AuthnSession) store_op" where
  "SessionByAuthReqID ord i = firstSession ord (\<lambda>s. as_AuthReqID s = i)"

definition SessionByUserCode :: "map_order \<Rightarrow> string \<Rightarrow> (Manager, AuthnSession) store_op" where
  "SessionByUserCode ord code = firstSession ord (\<lambda>s. as_UserCode s = code)"

definition SaveClient :: "map_order \<Rightarrow> Client \<Rightarrow> (Manager, unit) store_op" where
  "SaveClient ord c m =
     (Inr (), m\<lparr>mg_Clients := save_evict ord (mg_maxSize m) c_CreatedAt c_ID c (mg_Clients m)\<rparr>)"

text \<open>\<^verbatim>\<open>Client\<close> clears the cached keys of a client that names a \<^verbatim>\<open>jwks_uri\<close>, in the stored object.\<close>

definition Client_by_id :: "string \<Rightarrow> (Manager, Client) store_op" where
  "Client_by_id i m =
     (case map_of (mg_Clients m) i of
        None \<Rightarrow> (Inl ErrNotFound, m)
      | Some c \<Rightarrow>
          if c_JWKSURI c \<noteq> ''''
          then (Inr (CacheJWKS c None), m\<lparr>mg_Clients := AList.update i (CacheJWKS c None) (mg_Clients m)\<rparr>)
          else (Inr c, m))"

definition DeleteClient :: "string \<Rightarrow> (Manager, unit) store_op" where
  "DeleteClient i m = (Inr (), m\<lparr>mg_Clients := AList.delete i (mg_Clients m)\<rparr>)"

definition SaveGrant :: "map_order \<Rightarrow> Grant \<Rightarrow> (Manager, unit) store_op" where
  "SaveGrant ord g m =
     (Inr (), m\<lparr>mg_Grants := save_evict ord (mg_maxSize m) g_CreatedAt g_ID g (mg_Grants m)\<rparr>)"

definition grantBy :: "map_order \<Rightarrow> (Grant \<Rightarrow> bool) \<Rightarrow> (Manager, Grant) store_op" where
  "grantBy ord condition m = (first_by ord condition (mg_Grants m), m)"

definition Grant_by_id :: "map_order \<Rightarrow> string \<Rightarrow> (Manager, Grant) store_op" where
  "Grant_by_id ord i = grantBy ord (\<lambda>g. g_ID g = i)"

definition GrantByAuthCode :: "map_order \<Rightarrow> string \<Rightarrow> (Manager, Grant) store_op" where
  "GrantByAuthCode ord code = grantBy ord (\<lambda>g. g_AuthCode g = code)"

definition GrantByPreAuthCode :: "map_order \<Rightarrow> string \<Rightarrow> (Manager, Grant) store_op" where
  "GrantByPreAuthCode ord code = grantBy ord (\<lambda>g. g_PreAuthCode g = code)"

definition GrantByRefreshToken :: "map_order \<Rightarrow> string \<Rightarrow> (Manager, Grant) store_op" where
  "GrantByRefreshToken ord tkn = grantBy ord (\<lambda>g. g_RefreshToken g = tkn)"

definition GrantByAuthReqID :: "map_order \<Rightarrow> string \<Rightarrow> (Manager, Grant) store_op" where
  "GrantByAuthReqID ord i = grantBy ord (\<lambda>g. g_AuthReqID g = i)"

definition GrantByDeviceCode :: "map_order \<Rightarrow> string \<Rightarrow> (Manager, Grant) store_op" where
  "GrantByDeviceCode ord code = grantBy ord (\<lambda>g. g_DeviceCode g = code)"

definition SaveToken :: "map_order \<Rightarrow> Token \<Rightarrow> (Manager, unit) store_op" where
  "SaveToken ord t m =
     (Inr (), m\<lparr>mg_Tokens := save_evict ord (mg_maxSize m) t_CreatedAt t_ID t (mg_Tokens m)\<rparr>)"

definition Token_by_id :: "string \<Rightarrow> (Manager, Token) store_op" where
  "Token_by_id i m = (found (map_of (mg_Tokens m) i), m)"

definition SaveLogoutSession :: "map_order \<Rightarrow> LogoutSession \<Rightarrow> (Manager, unit) store_op" where
  "SaveLogoutSession ord s m =
     (Inr (), m\<lparr>mg_LogoutSessions := save_evict ord (mg_maxSize m) ls_CreatedAt ls_ID s (mg_LogoutSessions m)\<rparr>)"

definition LogoutSession_by_id :: "map_order \<Rightarrow> string \<Rightarrow> (Manager, LogoutSession) store_op" where
  "LogoutSession_by_id ord i m = (first_by ord (\<lambda>s. ls_ID s = i) (mg_LogoutSessions m), m)"

definition SaveCredentialOffer :: "map_order \<Rightarrow> VCOffer \<Rightarrow> (Manager, unit) store_op" where
  "SaveCredentialOffer ord v m =
     (Inr (), m\<lparr>mg_Offers := save_evict ord (mg_maxSize m) vo_CreatedAtTimestamp vo_ID v (mg_Offers m)\<rparr>)"

definition CredentialOffer :: "string \<Rightarrow> (Manager, VCOffer) store_op" where
  "CredentialOffer i m = (found (map_of (mg_Offers m) i), m)"

definition SaveDeferral :: "map_order \<Rightarrow> VCDeferral \<Rightarrow> (Manager, unit) store_op" where
  "SaveDeferral ord v m =
     (Inr (), m\<lparr>mg_Deferrals := save_new ord (mg_maxSize m) vd_CreatedAt vd_ID v (mg_Deferrals m)\<rparr>)"

definition Deferral :: "string \<Rightarrow> (Manager, VCDeferral) store_op" where
  "Deferral i m = (found (map_of (mg_Deferrals m) i), m)"

definition SaveNotification :: "map_order \<Rightarrow> VCNotification \<Rightarrow> (Manager, unit) store_op" where
  "SaveNotification ord v m =
     (Inr (), m\<lparr>mg_Notifications := save_new ord (mg_maxSize m) vn_CreatedAt vn_ID v (mg_Notifications m)\<rparr>)"

definition Notification :: "string \<Rightarrow> (Manager, VCNotification) store_op" where
  "Notification i m = (found (map_of (mg_Notifications m) i), m)"

text \<open>The manager as the implementation of the interfaces; \<open>ords n\<close> is the iteration order of the
  \<open>n\<close>-th call.\<close>

definition mem_Managers :: "(nat \<Rightarrow> map_order) \<Rightarrow> Manager Managers" where
  "mem_Managers ords =
    \<lparr>m_SaveGrant = (\<lambda>n. SaveGrant (ords n)),
     m_Grant = (\<lambda>n. Grant_by_id (ords n)),
     m_Auth_SaveSession = (\<lambda>n. SaveSession (ords n)),
     m_Auth_Session = (\<lambda>n. Session (ords n)),
     m_GrantByAuthCode = (\<lambda>n. GrantByAuthCode (ords n)),
     m_SessionByPushedAuthReqID = (\<lambda>n. SessionByPushedAuthReqID (ords n)),
     m_DCR_SaveClient = (\<lambda>n. SaveClient (ords n)),
     m_DCR_Client = (\<lambda>n. Client_by_id),
     m_DCR_DeleteClient = (\<lambda>n. DeleteClient),
     m_Fed_SaveClient = (\<lambda>n. SaveClient (ords n)),
     m_Fed_Client = (\<lambda>n. Client_by_id),
     m_GrantByRefreshToken = (\<lambda>n. GrantByRefreshToken (ords n)),
     m_CIBA_SaveSession = (\<lambda>n. SaveSession (ords n)),
     m_CIBA_Session = (\<lambda>n. Session (ords n)),
     m_SessionByAuthReqID = (\<lambda>n. SessionByAuthReqID (ords n)),
     m_GrantByAuthReqID = (\<lambda>n. GrantByAuthReqID (ords n)),
     m_Device_SaveSession = (\<lambda>n. SaveSession (ords n)),
     m_Device_Session = (\<lambda>n. Session (ords n)),
     m_SessionByUserCode = (\<lambda>n. SessionByUserCode (ords n)),
     m_SessionByDeviceCode = (\<lambda>n. SessionByDeviceCode (ords n)),
     m_GrantByDeviceCode = (\<lambda>n. GrantByDeviceCode (ords n)),
     m_GrantByPreAuthCode = (\<lambda>n. GrantByPreAuthCode (ords n)),
     m_SaveToken = (\<lambda>n. SaveToken (ords n)),
     m_Token = (\<lambda>n. Token_by_id),
     m_TouchGrant = (\<lambda>g m. m\<lparr>mg_Grants := share g_ID g (mg_Grants m)\<rparr>),
     m_TouchSession = (\<lambda>as m. m\<lparr>mg_Sessions := share as_ID as (mg_Sessions m)\<rparr>),
     m_TouchToken = (\<lambda>t m. m\<lparr>mg_Tokens := share t_ID t (mg_Tokens m)\<rparr>)\<rparr>"

section \<open>Tables\<close>

text \<open>A table holds every object once, under its own identifier.\<close>

definition table_ok :: "('v \<Rightarrow> string) \<Rightarrow> 'v gomap \<Rightarrow> bool" where
  "table_ok ident m \<longleftrightarrow> distinct (map fst m) \<and> (\<forall>k v. map_of m k = Some v \<longrightarrow> ident v = k)"

lemma table_ok_Nil [simp]: "table_ok ident []"
  by (simp add: table_ok_def)

lemma table_ok_at: "table_ok ident m \<Longrightarrow> map_of m k = Some v \<Longrightarrow> ident v = k"
  by (simp add: table_ok_def)

lemma set_visit [simp]: "set (visit ord ks) = set ks"
  by (auto simp: visit_def dest: mset_eq_setD)

lemma in_range_map: "(k, v) \<in> set (range_map ord m) \<longleftrightarrow> map_of m k = Some v"
proof -
  have "k \<in> fst ` set m" if "map_of m k = Some v"
    using that by (metis domI dom_map_of_conv_image_fst)
  then show ?thesis
    by (force simp: range_map_def List.map_filter_def)
qed

lemma values_range_map: "(v :: 'v) \<in> snd ` set (range_map ord m) \<longleftrightarrow> (\<exists>k. map_of m k = Some v)"
proof -
  have "v \<in> snd ` S \<longleftrightarrow> (\<exists>k. (k, v) \<in> S)" for S :: "(string \<times> 'v) set"
    by force
  then show ?thesis by (simp only: in_range_map)
qed

lemma range_map_Nil [simp]: "range_map ord m = [] \<longleftrightarrow> m = []"
proof (cases m)
  case (Cons e es)
  then have "(fst e, snd e) \<in> set (range_map ord m)"
    by (cases e) (simp add: in_range_map)
  with Cons show ?thesis by auto
qed (auto simp: range_map_def visit_def List.map_filter_def)

lemma findFirst_Some: "findFirst xs P = Some v \<Longrightarrow> v \<in> set xs \<and> P v"
  by (induction xs) (auto split: if_splits)

lemma findFirst_None: "findFirst xs P = None \<longleftrightarrow> (\<forall>v \<in> set xs. \<not> P v)"
  by (induction xs) auto

lemma found_simps [simp]:
  "found r = Inr v \<longleftrightarrow> r = Some v" "found r = Inl e \<longleftrightarrow> r = None \<and> e = ErrNotFound"
  by (auto simp: found_def split: option.splits)

lemma first_by_Inr: "first_by ord P m = Inr v \<Longrightarrow> \<exists>k. map_of m k = Some v \<and> P v"
  unfolding first_by_def found_simps by (drule findFirst_Some) (simp add: values_range_map)

lemma first_by_Inl: "first_by ord P m = Inl e \<Longrightarrow> e = ErrNotFound \<and> (\<forall>k v. map_of m k = Some v \<longrightarrow> \<not> P v)"
  unfolding first_by_def found_simps findFirst_None set_map using values_range_map by metis

subsection \<open>Writing\<close>

lemma removeOldest_map_of:
  "map_of (removeOldest ord createdAt m) k = map_of m k \<or> map_of (removeOldest ord createdAt m) k = None"
  by (simp add: removeOldest_def delete_conv')

lemma removeOldest_ok [simp]: "table_ok ident m \<Longrightarrow> table_ok ident (removeOldest ord createdAt m)"
  by (auto simp: removeOldest_def table_ok_def delete_conv' distinct_delete split: if_splits)

lemma update_ok [simp]: "table_ok ident m \<Longrightarrow> k = ident v \<Longrightarrow> table_ok ident (AList.update k v m)"
  by (auto simp: table_ok_def update_conv' distinct_update)

lemma delete_ok [simp]: "table_ok ident m \<Longrightarrow> table_ok ident (AList.delete k m)"
  by (auto simp: table_ok_def delete_conv' distinct_delete split: if_splits)

lemma share_ok [simp]: "table_ok ident m \<Longrightarrow> table_ok ident (share ident v m)"
  by (simp add: share_def)

lemma share_map_of:
  "map_of (share ident v m) k = (if k = ident v \<and> map_of m k \<noteq> None then Some v else map_of m k)"
  by (auto simp: share_def update_conv')

lemma save_ok [simp]:
  "table_ok ident m \<Longrightarrow> table_ok ident (save_evict ord maxSize createdAt ident v m)"
  "table_ok ident m \<Longrightarrow> table_ok ident (save_new ord maxSize createdAt ident v m)"
  by (auto simp: save_evict_def save_new_def)

lemma save_same [simp]:
  "map_of (save_evict ord maxSize createdAt ident v m) (ident v) = Some v"
  "map_of (save_new ord maxSize createdAt ident v m) (ident v) = Some v"
  by (simp_all add: save_evict_def save_new_def update_conv')

lemma save_other:
  "k \<noteq> ident v \<Longrightarrow> map_of (save_evict ord maxSize createdAt ident v m) k = map_of m k
     \<or> map_of (save_evict ord maxSize createdAt ident v m) k = None"
  "k \<noteq> ident v \<Longrightarrow> map_of (save_new ord maxSize createdAt ident v m) k = map_of m k
     \<or> map_of (save_new ord maxSize createdAt ident v m) k = None"
  using removeOldest_map_of [of ord createdAt m k]
  by (auto simp: save_evict_def save_new_def update_conv')

subsection \<open>Which entry is evicted\<close>

lemma oldest_loop_key:
  "oldest_loop createdAt es k t = (k', t') \<Longrightarrow>
     (k' = k \<and> t' = t) \<or> (\<exists>v. (k', v) \<in> set es \<and> t' = createdAt v)"
  by (induction createdAt es k t rule: oldest_loop.induct) (auto split: if_splits)

lemma oldest_loop_min:
  assumes "oldest_loop createdAt es k t = (k', t')" and "\<forall>(k, v) \<in> set es. createdAt v > 0" and "t \<ge> 0"
  shows "(t > 0 \<longrightarrow> t' \<le> t) \<and> (\<forall>(k, v) \<in> set es. t' \<le> createdAt v) \<and> (es \<noteq> [] \<longrightarrow> t' > 0)
    \<and> (es = [] \<or> t > 0 \<longrightarrow> t' \<le> t)"
  using assms
proof (induction createdAt es k t rule: oldest_loop.induct)
  case (2 createdAt key v es k t)
  have pos: "createdAt v > 0" "\<forall>(k, v) \<in> set es. createdAt v > 0"
    using 2(4) by auto
  show ?case
  proof (cases "t = 0 \<or> createdAt v < t")
    case True
    with 2(1) 2(3) pos have "t' \<le> createdAt v" "\<forall>(k, v) \<in> set es. t' \<le> createdAt v"
      "es \<noteq> [] \<longrightarrow> t' > 0" "es = [] \<longrightarrow> t' = createdAt v"
      by auto
    with True pos show ?thesis by fastforce
  next
    case False
    with 2(2) 2(3) 2(5) pos have "t' \<le> t" "\<forall>(k, v) \<in> set es. t' \<le> createdAt v"
      "es \<noteq> [] \<longrightarrow> t' > 0" "es = [] \<longrightarrow> t' = t"
      by auto
    with False 2(5) pos show ?thesis by fastforce
  qed
qed simp

text \<open>With positive creation times the evicted entry is in the table and none is older.\<close>

lemma oldest_evicted:
  assumes "m \<noteq> []" and "\<And>k v. map_of m k = Some v \<Longrightarrow> createdAt v > 0"
  shows "\<exists>k v. removeOldest ord createdAt m = AList.delete k m \<and> map_of m k = Some v
    \<and> (\<forall>k' v'. map_of m k' = Some v' \<longrightarrow> createdAt v \<le> createdAt v')"
proof -
  obtain k t where kt: "oldest_loop createdAt (range_map ord m) '''' 0 = (k, t)"
    by fastforce
  have pos: "\<forall>(k, v) \<in> set (range_map ord m). createdAt v > 0"
    using assms(2) by (auto simp: in_range_map)
  from oldest_loop_min [OF kt pos] assms(1)
  have t: "t > 0" "\<forall>(k', v') \<in> set (range_map ord m). t \<le> createdAt v'"
    by auto
  with oldest_loop_key [OF kt] obtain v where "map_of m k = Some v" "t = createdAt v"
    by (auto simp: in_range_map)
  with t kt show ?thesis
    by (auto simp: removeOldest_def in_range_map intro!: exI [of _ k] exI [of _ v])
qed

lemma length_delete_present:
  "distinct (map fst m) \<Longrightarrow> map_of m k \<noteq> None \<Longrightarrow> Suc (length (AList.delete k m)) = length m"
proof (induction m)
  case (Cons e m)
  obtain a b where e: "e = (a, b)" by fastforce
  show ?case
  proof (cases "a = k")
    case True
    with Cons(2) e have "AList.delete k m = m"
      by (auto intro!: delete_id)
    with True e show ?thesis by simp
  qed (use Cons e in auto)
qed simp

lemma length_update:
  "length (AList.update k v m) = (if map_of m k = None then Suc (length m) else length m)"
  by (induction m) auto

lemma removeOldest_length:
  assumes "distinct (map fst m)" and "m \<noteq> []" and "\<And>k v. map_of m k = Some v \<Longrightarrow> createdAt v > 0"
  shows "Suc (length (removeOldest ord createdAt m)) = length m"
proof -
  obtain k v where "removeOldest ord createdAt m = AList.delete k m" "map_of m k = Some v"
    using oldest_evicted [of m createdAt ord] assms(2,3) by blast
  with length_delete_present [OF assms(1), of k] show ?thesis by simp
qed

text \<open>The size limit holds after every save when it holds before.\<close>

lemma save_bounded:
  assumes "distinct (map fst m)" and "\<And>k v. map_of m k = Some v \<Longrightarrow> createdAt v > 0"
    and "1 \<le> maxSize" and "int (length m) \<le> maxSize"
  shows "int (length (save_evict ord maxSize createdAt ident v m)) \<le> maxSize"
    and "int (length (save_new ord maxSize createdAt ident v m)) \<le> maxSize"
proof -
  let ?m = "removeOldest ord createdAt m"
  have le: "int (length (AList.update k v m')) \<le> int (length m') + 1" for k m'
    by (simp add: length_update)
  have rem: "int (length ?m) + 1 = int (length m)" if "maxSize \<le> int (length m)"
  proof -
    from that assms(3) have "m \<noteq> []" by auto
    with removeOldest_length [of m createdAt ord] assms(1,2)
    have "Suc (length ?m) = length m" by blast
    then show ?thesis by linarith
  qed
  have evict: "int (length (AList.update (ident v) v ?m)) \<le> maxSize" if "maxSize \<le> int (length m)"
    using le [of "ident v" ?m] rem [OF that] assms(4) by linarith
  show "int (length (save_evict ord maxSize createdAt ident v m)) \<le> maxSize"
    using evict le [of "ident v" m] by (simp add: save_evict_def)
  show "int (length (save_new ord maxSize createdAt ident v m)) \<le> maxSize"
    using evict length_update [of "ident v" v m] assms(4) by (auto simp: save_new_def split: if_splits)
qed

section \<open>The manager as a grant store\<close>

definition mem_inv :: "Manager \<Rightarrow> bool" where
  "mem_inv s \<longleftrightarrow> table_ok as_ID (mg_Sessions s) \<and> table_ok c_ID (mg_Clients s) \<and>
     table_ok g_ID (mg_Grants s) \<and> table_ok t_ID (mg_Tokens s) \<and> table_ok ls_ID (mg_LogoutSessions s) \<and>
     table_ok vo_ID (mg_Offers s) \<and> table_ok vd_ID (mg_Deferrals s) \<and> table_ok vn_ID (mg_Notifications s)"

definition mem_at :: "Manager \<Rightarrow> string \<Rightarrow> Grant option" where
  "mem_at s = map_of (mg_Grants s)"

lemma mem_inv_New [simp]: "mem_inv (NewManager maxSize)"
  by (simp add: mem_inv_def NewManager_def)

text \<open>Every operation of the manager keeps its tables well-formed.\<close>

lemmas save_defs = SaveSession_def SaveClient_def SaveGrant_def SaveToken_def SaveLogoutSession_def
  SaveCredentialOffer_def SaveDeferral_def SaveNotification_def DeleteClient_def

lemma mem_inv_save:
  assumes "mem_inv s"
  shows "mem_inv (snd (SaveSession ord as s))" "mem_inv (snd (SaveClient ord c s))"
    "mem_inv (snd (SaveGrant ord g s))" "mem_inv (snd (SaveToken ord t s))"
    "mem_inv (snd (SaveLogoutSession ord l s))" "mem_inv (snd (SaveCredentialOffer ord vo s))"
    "mem_inv (snd (SaveDeferral ord vd s))" "mem_inv (snd (SaveNotification ord vn s))"
    "mem_inv (snd (DeleteClient i s))"
  using assms by (simp_all add: save_defs mem_inv_def)

lemma Client_by_id_inv: "mem_inv s \<Longrightarrow> mem_inv (snd (Client_by_id i s))"
  by (auto simp: Client_by_id_def mem_inv_def CacheJWKS_def table_ok_at split: option.split)

lemma grants_kept:
  "mem_at (snd (SaveSession ord as s)) = mem_at s" "mem_at (snd (SaveToken ord t s)) = mem_at s"
  "mem_at (snd (Client_by_id i s)) = mem_at s"
  by (auto simp: mem_at_def SaveSession_def SaveToken_def Client_by_id_def split: option.split)

lemma grantBy_finds:
  "finds mem_inv mem_at g_ID (\<lambda>n i. grantBy (ords n) (\<lambda>g. attr g = i)) attr"
  unfolding finds_def grantBy_def mem_at_def
  by (auto simp: mem_inv_def dest!: first_by_Inr first_by_Inl dest: table_ok_at)

interpretation mem: grant_managers mem_inv mem_at "mem_Managers ords" for ords
proof unfold_locales
  fix s k v assume "mem_inv s" "mem_at s k = Some v"
  then show "g_ID v = k" by (auto simp: mem_inv_def mem_at_def dest: table_ok_at)
next
  fix s n v r s'
  assume s: "mem_inv s" and r: "m_SaveGrant (mem_Managers ords) n v s = (r, s')"
  from s r show "mem_inv s'"
    using mem_inv_save(3) [of s "ords n" v] by (auto simp: mem_Managers_def)
  show "mem_at s' k = mem_at s k \<or> mem_at s' k = None" if "k \<noteq> g_ID v" for k
    using r that save_other(1) [of k g_ID v "ords n" "mg_maxSize s" g_CreatedAt "mg_Grants s"]
    by (auto simp: mem_Managers_def SaveGrant_def mem_at_def)
next
  fix s n v u s' assume "m_SaveGrant (mem_Managers ords) n v s = (Inr u, s')"
  then show "mem_at s' (g_ID v) = Some v"
    by (auto simp: mem_Managers_def SaveGrant_def mem_at_def)
next
  fix s n v e s' assume "m_SaveGrant (mem_Managers ords) n v s = (Inl e, s')"
  then show "mem_at s' (g_ID v) = mem_at s (g_ID v) \<or> mem_at s' (g_ID v) = None \<or> mem_at s' (g_ID v) = Some v"
    by (auto simp: mem_Managers_def SaveGrant_def)
next
  fix s v assume s: "mem_inv s"
  from s show "mem_inv (m_TouchGrant (mem_Managers ords) v s)"
    by (auto simp: mem_Managers_def mem_inv_def)
  show "mem_at (m_TouchGrant (mem_Managers ords) v s) (g_ID v) = mem_at s (g_ID v)
      \<or> mem_at s (g_ID v) \<noteq> None \<and> mem_at (m_TouchGrant (mem_Managers ords) v s) (g_ID v) = Some v"
    by (auto simp: mem_Managers_def mem_at_def share_map_of)
  show "mem_at (m_TouchGrant (mem_Managers ords) v s) k = mem_at s k" if "k \<noteq> g_ID v" for k
    using that by (auto simp: mem_Managers_def mem_at_def share_map_of)
next
  show "finds mem_inv mem_at g_ID (m_Grant (mem_Managers ords)) g_ID"
    using grantBy_finds [of ords g_ID] by (simp add: mem_Managers_def Grant_by_id_def [abs_def])
  show "finds mem_inv mem_at g_ID (m_GrantByAuthCode (mem_Managers ords)) g_AuthCode"
    using grantBy_finds [of ords g_AuthCode] by (simp add: mem_Managers_def GrantByAuthCode_def [abs_def])
  show "finds mem_inv mem_at g_ID (m_GrantByRefreshToken (mem_Managers ords)) g_RefreshToken"
    using grantBy_finds [of ords g_RefreshToken] by (simp add: mem_Managers_def GrantByRefreshToken_def [abs_def])
  show "finds mem_inv mem_at g_ID (m_GrantByAuthReqID (mem_Managers ords)) g_AuthReqID"
    using grantBy_finds [of ords g_AuthReqID] by (simp add: mem_Managers_def GrantByAuthReqID_def [abs_def])
  show "finds mem_inv mem_at g_ID (m_GrantByDeviceCode (mem_Managers ords)) g_DeviceCode"
    using grantBy_finds [of ords g_DeviceCode] by (simp add: mem_Managers_def GrantByDeviceCode_def [abs_def])
  show "finds mem_inv mem_at g_ID (m_GrantByPreAuthCode (mem_Managers ords)) g_PreAuthCode"
    using grantBy_finds [of ords g_PreAuthCode] by (simp add: mem_Managers_def GrantByPreAuthCode_def [abs_def])
next
  fix s n t r s' assume "mem_inv s" "m_SaveToken (mem_Managers ords) n t s = (r, s')"
  then show "mem_inv s' \<and> mem_at s' = mem_at s"
    using mem_inv_save(4) [of s "ords n" t] grants_kept(2) [of "ords n" t s]
    by (auto simp: mem_Managers_def)
next
  fix s n as r s' assume "mem_inv s" "m_CIBA_SaveSession (mem_Managers ords) n as s = (r, s')"
  then show "mem_inv s' \<and> mem_at s' = mem_at s"
    using mem_inv_save(1) [of s "ords n" as] grants_kept(1) [of "ords n" as s]
    by (auto simp: mem_Managers_def)
next
  fix s n i c s' assume "mem_inv s" "m_DCR_Client (mem_Managers ords) n i s = (c, s')"
  then show "mem_inv s' \<and> mem_at s' = mem_at s"
    using Client_by_id_inv [of s i] grants_kept(3) [of i s] by (auto simp: mem_Managers_def)
next
  fix s n i c s' assume "mem_inv s" "m_Fed_Client (mem_Managers ords) n i s = (c, s')"
  then show "mem_inv s' \<and> mem_at s' = mem_at s"
    using Client_by_id_inv [of s i] grants_kept(3) [of i s] by (auto simp: mem_Managers_def)
qed (auto simp: mem_Managers_def Token_by_id_def SessionByAuthReqID_def SessionByDeviceCode_def
  firstSession_def mem_inv_def mem_at_def)

section \<open>What the storage promises\<close>

text \<open>C38: saving a grant in the in-memory storage and looking it up by its identifier returns that
  grant, whatever the order in which the map is iterated and however full the storage is; the other
  grants are kept as they were or evicted, none is altered.\<close>

theorem saved_grant_found:
  assumes "mem_inv s" and "SaveGrant ord g s = (r, s')"
  shows "r = Inr () \<and> fst (Grant_by_id ord' (g_ID g) s') = Inr g
    \<and> (\<forall>i. i \<noteq> g_ID g \<longrightarrow> mem_at s' i = mem_at s i \<or> mem_at s' i = None)"
proof -
  have s': "r = Inr ()" "m_SaveGrant (mem_Managers (\<lambda>n. ord)) 0 g s = (Inr (), s')"
    using assms(2) by (auto simp: mem_Managers_def SaveGrant_def)
  note inv' = mem.save_inv [OF assms(1) s'(2)] and at' = mem.save_at [OF assms(1) s'(2)]
  obtain q t where q: "m_Grant (mem_Managers (\<lambda>n. ord')) 0 (g_ID g) s' = (q, t)"
    by fastforce
  have "q = Inr g"
  proof (cases q)
    case (Inl e)
    then have "errors_Is e ErrNotFound"
      using q by (auto simp: mem_Managers_def Grant_by_id_def grantBy_def dest: first_by_Inl)
    with findsD(3) [OF mem.find_id inv' q Inl this at'] show ?thesis by simp
  next
    case (Inr g')
    with findsD(2) [OF mem.find_id inv' q Inr] at' show ?thesis by auto
  qed
  with q s'(1) mem.save_other [OF assms(1) s'(2)] show ?thesis
    by (auto simp: mem_Managers_def)
qed

theorem saved_grant_found_witness:
  "fst (Grant_by_id id ''g2'' (snd (SaveGrant rev (zero_Grant\<lparr>g_ID := ''g2'', g_CreatedAt := 7\<rparr>)
     ((NewManager 1)\<lparr>mg_Grants := [(''g1'', zero_Grant\<lparr>g_ID := ''g1'', g_CreatedAt := 5\<rparr>)]\<rparr>))))
   = Inr (zero_Grant\<lparr>g_ID := ''g2'', g_CreatedAt := 7\<rparr>)"
proof -
  let ?s = "(NewManager 1)\<lparr>mg_Grants := [(''g1'', zero_Grant\<lparr>g_ID := ''g1'', g_CreatedAt := 5\<rparr>)]\<rparr>"
  let ?g = "zero_Grant\<lparr>g_ID := ''g2'', g_CreatedAt := 7\<rparr>"
  have "mem_inv ?s"
    by (auto simp: mem_inv_def NewManager_def table_ok_def split: if_splits)
  from saved_grant_found [OF this, of rev ?g _ _ id, OF prod.collapse [symmetric]]
  show ?thesis by simp
qed

text \<open>The states of a manager: created empty and changed by its operations and by assignments to
  the objects it shares, all with positive creation times.\<close>

inductive mem_reach :: "int \<Rightarrow> Manager \<Rightarrow> bool" for maxSize :: int where
  new: "mem_reach maxSize (NewManager maxSize)"
| session: "mem_reach maxSize s \<Longrightarrow> as_CreatedAt as > 0 \<Longrightarrow> mem_reach maxSize (snd (SaveSession ord as s))"
| client: "mem_reach maxSize s \<Longrightarrow> c_CreatedAt c > 0 \<Longrightarrow> mem_reach maxSize (snd (SaveClient ord c s))"
| client_read: "mem_reach maxSize s \<Longrightarrow> mem_reach maxSize (snd (Client_by_id i s))"
| client_delete: "mem_reach maxSize s \<Longrightarrow> mem_reach maxSize (snd (DeleteClient i s))"
| grant: "mem_reach maxSize s \<Longrightarrow> g_CreatedAt g > 0 \<Longrightarrow> mem_reach maxSize (snd (SaveGrant ord g s))"
| token: "mem_reach maxSize s \<Longrightarrow> t_CreatedAt t > 0 \<Longrightarrow> mem_reach maxSize (snd (SaveToken ord t s))"
| logout: "mem_reach maxSize s \<Longrightarrow> ls_CreatedAt l > 0 \<Longrightarrow> mem_reach maxSize (snd (SaveLogoutSession ord l s))"
| offer: "mem_reach maxSize s \<Longrightarrow> vo_CreatedAtTimestamp vo > 0 \<Longrightarrow> mem_reach maxSize (snd (SaveCredentialOffer ord vo s))"
| deferral: "mem_reach maxSize s \<Longrightarrow> vd_CreatedAt vd > 0 \<Longrightarrow> mem_reach maxSize (snd (SaveDeferral ord vd s))"
| notification: "mem_reach maxSize s \<Longrightarrow> vn_CreatedAt vn > 0 \<Longrightarrow> mem_reach maxSize (snd (SaveNotification ord vn s))"
| touch_grant: "mem_reach maxSize s \<Longrightarrow> g_CreatedAt g > 0 \<Longrightarrow> mem_reach maxSize (m_TouchGrant (mem_Managers ords) g s)"
| touch_session: "mem_reach maxSize s \<Longrightarrow> as_CreatedAt as > 0 \<Longrightarrow> mem_reach maxSize (m_TouchSession (mem_Managers ords) as s)"
| touch_token: "mem_reach maxSize s \<Longrightarrow> t_CreatedAt t > 0 \<Longrightarrow> mem_reach maxSize (m_TouchToken (mem_Managers ords) t s)"

text \<open>A table within its limit, whose entries have positive creation times.\<close>

definition sized :: "int \<Rightarrow> ('v \<Rightarrow> string) \<Rightarrow> ('v \<Rightarrow> int) \<Rightarrow> 'v gomap \<Rightarrow> bool" where
  "sized maxSize ident createdAt m \<longleftrightarrow> table_ok ident m \<and> int (length m) \<le> maxSize \<and>
     (\<forall>k v. map_of m k = Some v \<longrightarrow> createdAt v > 0)"

lemma sized_Nil: "0 \<le> maxSize \<Longrightarrow> sized maxSize ident createdAt []"
  by (simp add: sized_def)

lemma sized_save:
  assumes "sized maxSize ident createdAt m" and "1 \<le> maxSize" and "createdAt v > 0"
  shows "sized maxSize ident createdAt (save_evict ord maxSize createdAt ident v m)"
    and "sized maxSize ident createdAt (save_new ord maxSize createdAt ident v m)"
proof -
  have m: "table_ok ident m" "distinct (map fst m)" "int (length m) \<le> maxSize"
      "\<And>k v. map_of m k = Some v \<Longrightarrow> createdAt v > 0"
    using assms(1) by (auto simp: sized_def table_ok_def)
  have "map_of m' k = Some u \<Longrightarrow> createdAt u > 0"
    if "\<And>k. k \<noteq> ident v \<Longrightarrow> map_of m' k = map_of m k \<or> map_of m' k = None" "map_of m' (ident v) = Some v"
    for m' k u
    using that(1) [of k] that(2) m(4) [of k u] assms(3) by (cases "k = ident v") auto
  note pos = this [of "save_evict ord maxSize createdAt ident v m", OF save_other(1) save_same(1)]
    this [of "save_new ord maxSize createdAt ident v m", OF save_other(2) save_same(2)]
  show "sized maxSize ident createdAt (save_evict ord maxSize createdAt ident v m)"
    using save_bounded(1) [OF m(2) m(4) assms(2) m(3)] m(1) pos(1) by (simp add: sized_def)
  show "sized maxSize ident createdAt (save_new ord maxSize createdAt ident v m)"
    using save_bounded(2) [OF m(2) m(4) assms(2) m(3)] m(1) pos(2) by (simp add: sized_def)
qed

lemma sized_share: "sized maxSize ident createdAt m \<Longrightarrow> createdAt v > 0 \<Longrightarrow> sized maxSize ident createdAt (share ident v m)"
  by (auto simp: sized_def share_def length_update update_conv' split: if_splits)

lemma sized_delete: "sized maxSize ident createdAt m \<Longrightarrow> sized maxSize ident createdAt (AList.delete k m)"
  using length_delete_le [of k m] by (auto simp: sized_def delete_conv' split: if_splits)

lemma sized_overwrite:
  "sized maxSize ident createdAt m \<Longrightarrow> map_of m k = Some u \<Longrightarrow> ident v = k \<Longrightarrow> createdAt v = createdAt u
   \<Longrightarrow> sized maxSize ident createdAt (AList.update k v m)"
  by (auto simp: sized_def length_update update_conv')

definition mem_sized :: "int \<Rightarrow> Manager \<Rightarrow> bool" where
  "mem_sized maxSize s \<longleftrightarrow> mg_maxSize s = maxSize \<and>
     sized maxSize as_ID as_CreatedAt (mg_Sessions s) \<and> sized maxSize c_ID c_CreatedAt (mg_Clients s) \<and>
     sized maxSize g_ID g_CreatedAt (mg_Grants s) \<and> sized maxSize t_ID t_CreatedAt (mg_Tokens s) \<and>
     sized maxSize ls_ID ls_CreatedAt (mg_LogoutSessions s) \<and> sized maxSize vo_ID vo_CreatedAtTimestamp (mg_Offers s) \<and>
     sized maxSize vd_ID vd_CreatedAt (mg_Deferrals s) \<and> sized maxSize vn_ID vn_CreatedAt (mg_Notifications s)"

lemma Client_by_id_sized: "mem_sized maxSize s \<Longrightarrow> mem_sized maxSize (snd (Client_by_id i s))"
proof -
  assume s: "mem_sized maxSize s"
  then have "sized maxSize c_ID c_CreatedAt (AList.update i (CacheJWKS c None) (mg_Clients s))"
    if "map_of (mg_Clients s) i = Some c" for c
    using that by (intro sized_overwrite [where u = c])
      (auto simp: mem_sized_def sized_def CacheJWKS_def table_ok_at)
  with s show ?thesis by (auto simp: Client_by_id_def mem_sized_def split: option.split)
qed

lemma mem_reach_sized: "mem_reach maxSize s \<Longrightarrow> 1 \<le> maxSize \<Longrightarrow> mem_sized maxSize s"
proof (induction rule: mem_reach.induct)
  case new
  then show ?case by (simp add: mem_sized_def NewManager_def sized_Nil)
next
  case (client_read s i)
  then show ?case by (simp add: Client_by_id_sized)
qed (simp_all add: mem_sized_def save_defs sized_save sized_delete sized_share mem_Managers_def)



text \<open>Saving a grant in a full in-memory storage evicts exactly one grant, and none of those
  stored was created before it; in a storage that is not full nothing is evicted.\<close>

theorem save_evicts_oldest:
  assumes "mem_reach maxSize s" and "1 \<le> maxSize" and "SaveGrant ord g s = (r, s')"
  shows "if int (length (mg_Grants s)) < maxSize then mem_at s' = (mem_at s)(g_ID g \<mapsto> g)
    else \<exists>i old. mem_at s i = Some old \<and> (\<forall>j g'. mem_at s j = Some g' \<longrightarrow> g_CreatedAt old \<le> g_CreatedAt g')
      \<and> mem_at s' = (mem_at s)(i := None, g_ID g \<mapsto> g)"
proof -
  let ?m = "mg_Grants s"
  from mem_reach_sized [OF assms(1,2)] have m: "mg_maxSize s = maxSize" "sized maxSize g_ID g_CreatedAt ?m"
    by (simp_all add: mem_sized_def)
  have s': "mg_Grants s' = save_evict ord maxSize g_CreatedAt g_ID g ?m"
    using assms(3) m(1) by (auto simp: SaveGrant_def)
  show ?thesis
  proof (cases "int (length ?m) < maxSize")
    case True
    with s' show ?thesis by (simp add: mem_at_def save_evict_def update_conv')
  next
    case False
    with assms(2) have "?m \<noteq> []" by auto
    with oldest_evicted [of ?m g_CreatedAt ord] m(2) obtain i old
      where "removeOldest ord g_CreatedAt ?m = AList.delete i ?m" "map_of ?m i = Some old"
        "\<forall>j g'. map_of ?m j = Some g' \<longrightarrow> g_CreatedAt old \<le> g_CreatedAt g'"
      unfolding sized_def by blast
    with s' False show ?thesis
      by (auto simp: mem_at_def save_evict_def update_conv' delete_conv')
  qed
qed

theorem save_evicts_oldest_witness:
  "mem_at (snd (SaveGrant rev (zero_Grant\<lparr>g_ID := ''b'', g_CreatedAt := 2\<rparr>)
     (snd (SaveGrant rev (zero_Grant\<lparr>g_ID := ''a'', g_CreatedAt := 1\<rparr>) (NewManager 1))))) ''a'' = None"
proof -
  let ?s = "snd (SaveGrant rev (zero_Grant\<lparr>g_ID := ''a'', g_CreatedAt := 1\<rparr>) (NewManager 1))"
  have r: "mem_reach 1 ?s"
    by (intro mem_reach.grant mem_reach.new) simp
  have at: "mem_at ?s = [''a'' \<mapsto> zero_Grant\<lparr>g_ID := ''a'', g_CreatedAt := 1\<rparr>]" "length (mg_Grants ?s) = 1"
    by (simp_all add: SaveGrant_def NewManager_def save_evict_def mem_at_def)
  from save_evicts_oldest [OF r _ prod.collapse [symmetric], of rev "zero_Grant\<lparr>g_ID := ''b'', g_CreatedAt := 2\<rparr>"] at
  show ?thesis by (auto split: if_splits)
qed

text \<open>C40: in a full in-memory storage an update of a stored grant drops another grant: when one
  grant is older than every other one and the saved grant is a stored one, the oldest is lost although
  the table would not have grown.\<close>

theorem update_drops_other_grant:
  assumes "mem_reach maxSize s" and "1 \<le> maxSize" and "int (length (mg_Grants s)) = maxSize"
    and "mem_at s (g_ID g) \<noteq> None" and "mem_at s i = Some old" and "i \<noteq> g_ID g"
    and "\<forall>j g'. mem_at s j = Some g' \<longrightarrow> j \<noteq> i \<longrightarrow> g_CreatedAt old < g_CreatedAt g'"
  shows "mem_at (snd (SaveGrant ord g s)) i = None
    \<and> int (length (mg_Grants (snd (SaveGrant ord g s)))) = maxSize - 1"
proof -
  let ?m = "mg_Grants s"
  from mem_reach_sized [OF assms(1,2)] have m: "mg_maxSize s = maxSize" "sized maxSize g_ID g_CreatedAt ?m"
    by (simp_all add: mem_sized_def)
  from assms(2,3) have "?m \<noteq> []" by auto
  with oldest_evicted [of ?m g_CreatedAt ord] m(2) obtain k v
    where kv: "removeOldest ord g_CreatedAt ?m = AList.delete k ?m" "map_of ?m k = Some v"
      "\<forall>j g'. map_of ?m j = Some g' \<longrightarrow> g_CreatedAt v \<le> g_CreatedAt g'"
    unfolding sized_def by blast
  from kv(2,3) assms(5,7) have k: "k = i"
    by (metis linorder_not_le mem_at_def)
  have s': "mg_Grants (snd (SaveGrant ord g s)) = AList.update (g_ID g) g (AList.delete i ?m)"
    using assms(3) m(1) kv(1) k by (simp add: SaveGrant_def save_evict_def)
  have len: "Suc (length (AList.delete i ?m)) = length ?m"
    using m(2) kv(2) k by (intro length_delete_present) (auto simp: sized_def table_ok_def)
  have "map_of (AList.delete i ?m) (g_ID g) \<noteq> None"
    using assms(4,6) by (simp add: mem_at_def delete_conv')
  then have "length (mg_Grants (snd (SaveGrant ord g s))) = length (AList.delete i ?m)"
    using s' by (auto simp: length_update)
  with len assms(3,6) s' show ?thesis
    by (auto simp: mem_at_def update_conv' delete_conv')
qed

theorem update_drops_other_grant_witness:
  "mem_at (snd (SaveGrant rev (zero_Grant\<lparr>g_ID := ''b'', g_CreatedAt := 2, g_Subject := ''alice''\<rparr>)
     (snd (SaveGrant rev (zero_Grant\<lparr>g_ID := ''b'', g_CreatedAt := 2\<rparr>)
     (snd (SaveGrant rev (zero_Grant\<lparr>g_ID := ''a'', g_CreatedAt := 1\<rparr>) (NewManager 2))))))) ''a'' = None"
proof -
  let ?a = "zero_Grant\<lparr>g_ID := ''a'', g_CreatedAt := 1\<rparr>"
  let ?b = "zero_Grant\<lparr>g_ID := ''b'', g_CreatedAt := 2\<rparr>"
  let ?s = "snd (SaveGrant rev ?b (snd (SaveGrant rev ?a (NewManager 2))))"
  have r: "mem_reach 2 ?s"
    by (intro mem_reach.grant mem_reach.new) simp_all
  have "mg_Grants ?s = [(''a'', ?a), (''b'', ?b)]"
    by (simp add: SaveGrant_def NewManager_def save_evict_def)
  then have at: "mem_at ?s = [''b'' \<mapsto> ?b, ''a'' \<mapsto> ?a]" "length (mg_Grants ?s) = 2"
    by (simp_all add: mem_at_def)
  from update_drops_other_grant [OF r, of "?b\<lparr>g_Subject := ''alice''\<rparr>" "''a''" ?a rev] at
  show ?thesis by simp
qed

end
