(* ===== verification/Context.thy ===== *)
theory Context
  imports External Storage
begin

text \<open>
  The request context \<^verbatim>\<open>internal/oidc\<close>: the provider's configuration, the world a request runs in, the
  operations of \<^verbatim>\<open>oidc.Context\<close> that have logic of their own, and the two pieces of request-local state, the
  authority of a client assertion and the evidence of a token request.

  The configured functions are fields of \<open>Configuration\<close>. They take the number of the call, so that a
  function may answer differently each time; a function that receives pointers returns the changed
  objects where the program lets it change them (\<^verbatim>\<open>HandleGrant\<close>, \<^verbatim>\<open>HandleToken\<close>, \<^verbatim>\<open>TokenOptions\<close>). Functions the
  provider always sets are total, optional ones are \<open>option\<close>s; a panicking callback is \<open>None\<close>.
\<close>

section \<open>Request\<close>

text \<open>What the program reads of \<^verbatim>\<open>http.Request\<close>: header fields and form values by name. A header or form
  parameter that is absent has no values.\<close>

record Request =
  rq_Method :: string
  rq_RequestURI :: string
  rq_Header :: "string \<Rightarrow> string list"
  rq_PostForm :: "(string \<times> string list) list"
  rq_ParseErr :: "go_error option"
  rq_FormParseFailed :: bool
  rq_BasicAuth :: "(string \<times> string) option"
  rq_RawQuery :: string
  rq_ForceQuery :: bool
  rq_PeerCertificates :: bool

definition zero_Request :: Request where
  "zero_Request =
    \<lparr>rq_Method = ''POST'', rq_RequestURI = '''', rq_Header = (\<lambda>_. []), rq_PostForm = [], rq_ParseErr = None,
     rq_FormParseFailed = False, rq_BasicAuth = None, rq_RawQuery = '''', rq_ForceQuery = False, rq_PeerCertificates = False\<rparr>"

definition PostForm_values :: "Request \<Rightarrow> string \<Rightarrow> string slice" where
  "PostForm_values r name = map_of (rq_PostForm r) name"

definition PostFormValue :: "Request \<Rightarrow> string \<Rightarrow> string" where
  "PostFormValue r name = (case map_of (rq_PostForm r) name of Some (v # _) \<Rightarrow> v | _ \<Rightarrow> '''')"

definition Header_Get :: "Request \<Rightarrow> string \<Rightarrow> string" where
  "Header_Get r name = (case rq_Header r name of v # _ \<Rightarrow> v | [] \<Rightarrow> '''')"

record Certificate =
  cert_Raw :: string
  cert_PublicKey :: "KeyMaterial option"
  cert_Subject :: string
  cert_DNSNames :: "string list"

section \<open>Configuration\<close>

record DPoPNonceManager =
  nm_IssueNonce :: "nat \<Rightarrow> DPoPNonceScope \<Rightarrow> go_error + string"
  nm_ValidateNonce :: "nat \<Rightarrow> DPoPNonceScope \<Rightarrow> string \<Rightarrow> go_error + string"

record AttestationIssuer =
  ati_Issuer :: string
  ati_JWKSURI :: string
  ati_JWKSFunc :: "nat \<Rightarrow> go_error + JSONWebKeySet"
  ati_SigAlgs :: "SignatureAlgorithm list"

record PreAuthCodeResult =
  pcr_Subject :: string
  pcr_ConfigurationIDs :: "(string \<times> string list) list"

text \<open>The two operations of \<^verbatim>\<open>goidc.HumanAuthorizationAuthority\<close> the token endpoint calls.\<close>

record HumanAuthorizationAuthority =
  ha_RedeemAuthorizationCode :: "nat \<Rightarrow> HumanCodeRedemptionInput \<Rightarrow> (go_error + HumanCodeRedemptionDecision) option"
  ha_RevokeRefreshToken :: "nat \<Rightarrow> HumanRefreshRevocationInput \<Rightarrow> go_error option option"

record 'st Configuration =
  cf_Managers :: "'st Managers"
  cf_Profile :: Profile
  cf_Host :: string
  cf_LegacyAuthorizationCodeEnabled :: bool
  cf_HumanConfidentialBFFAuthorizationEnabled :: bool
  cf_HumanAccessTokenLifetimeSecs :: int
  cf_OpaqueTokenEnabled :: bool
  cf_JWKSFunc :: "nat \<Rightarrow> go_error + JSONWebKeySet"
  cf_SignerFunc :: "(nat \<Rightarrow> SignatureAlgorithm \<Rightarrow> go_error + (string \<times> string)) option"
  cf_HandleGrantFunc :: "nat \<Rightarrow> GrantType \<Rightarrow> Grant \<Rightarrow> go_error option \<times> Grant"
  cf_HandleTokenFunc :: "nat \<Rightarrow> Token \<Rightarrow> Grant \<Rightarrow> go_error option \<times> Token \<times> Grant"
  cf_IDTokenClaimsFunc :: "nat \<Rightarrow> Grant \<Rightarrow> claims"
  cf_UserInfoClaimsFunc :: "nat \<Rightarrow> Grant \<Rightarrow> claims"
  cf_TokenClaimsFunc :: "nat \<Rightarrow> Token \<Rightarrow> Grant \<Rightarrow> claims"
  cf_AccessTokenClaimsFunc :: "(nat \<Rightarrow> AccessTokenClaimsInput \<Rightarrow> (go_error + claims) option) option"
  cf_AccessTokenGrantIDClaimDisabled :: bool
  cf_TokenEndpointEvidenceFunc :: bool
  cf_Scopes :: "Scope list"
  cf_GrantTypes :: "GrantType list"
  cf_ResponseTypes :: "ResponseType list"
  cf_ResponseModes :: "ResponseMode list"
  cf_GrantIDFunc :: "nat \<Rightarrow> string"
  cf_ACRs :: "string list"
  cf_SubIdentifierTypeDefault :: SubIdentifierType
  cf_SubIdentifierTypes :: "SubIdentifierType list"
  cf_PairwiseSubjectFunc :: "nat \<Rightarrow> string \<Rightarrow> Client \<Rightarrow> string"
  cf_StaticClients :: "Client list"
  cf_ResolveClientFunc :: "(nat \<Rightarrow> string \<Rightarrow> go_error + Client option) option"
  cf_AuthnMethods :: "AuthnMethod list"
  cf_AuthnMethodPrivateKeyJWTSigAlgs :: "SignatureAlgorithm list"
  cf_AuthnMethodSecretJWTSigAlgs :: "SignatureAlgorithm list"
  cf_AuthnMethodAttestationJWTIssuers :: "AttestationIssuer list"
  cf_AttestationHTTPGet :: "nat \<Rightarrow> string \<Rightarrow> go_error + HTTPResponse"
  cf_TokenEndpoint :: string
  cf_OpaqueTokenFunc :: "nat \<Rightarrow> Grant \<Rightarrow> string"
  cf_TokenOptionsFunc :: "nat \<Rightarrow> Grant \<Rightarrow> Client \<Rightarrow> TokenOptions \<times> Grant \<times> Client"
  cf_VerifyClientSecretFunc :: "nat \<Rightarrow> string \<Rightarrow> string \<Rightarrow> go_error option"
  cf_TokenBindingRequired :: bool
  cf_EndpointPrefix :: string
  cf_IDTokenDefaultSigAlg :: SignatureAlgorithm
  cf_IDTokenSigAlgs :: "SignatureAlgorithm list"
  cf_IDTokenEncEnabled :: bool
  cf_IDTokenContentEncAlgs :: "ContentEncryptionAlgorithm list"
  cf_IDTokenLifetimeSecs :: int
  cf_JWTLifetimeSecs :: int
  cf_JWTLeewayTimeSecs :: int
  cf_JWTIDFunc :: "nat \<Rightarrow> string"
  cf_DCREnabled :: bool
  cf_TokenIntrospectionIsClientAllowedFunc :: "nat \<Rightarrow> Client \<Rightarrow> TokenInfo \<Rightarrow> bool"
  cf_TokenRevocationIsClientAllowedFunc :: "nat \<Rightarrow> Client \<Rightarrow> bool"
  cf_TokenRevocationRevokeGrantOnAccessTokenEnabled :: bool
  cf_LegacyRefreshTokenGrantEnabled :: bool
  cf_RefreshTokenFunc :: "nat \<Rightarrow> string"
  cf_RefreshTokenShouldIssueFunc :: "nat \<Rightarrow> Client \<Rightarrow> Grant \<Rightarrow> bool"
  cf_RefreshTokenRotationEnabled :: bool
  cf_RefreshTokenLifetimeSecs :: int
  cf_CIBATokenDeliveryModes :: "CIBATokenDeliveryMode list"
  cf_CIBAHTTPDo :: "nat \<Rightarrow> string \<Rightarrow> string \<Rightarrow> json \<Rightarrow> go_error + int"
  cf_MTLSEnabled :: bool
  cf_MTLSHost :: string
  cf_MTLSTokenBindingEnabled :: bool
  cf_MTLSTokenBindingRequired :: bool
  cf_ClientCertFunc :: "nat \<Rightarrow> go_error + Certificate"
  cf_DPoPEnabled :: bool
  cf_DPoPRequired :: bool
  cf_DPoPStrictHTU :: bool
  cf_DPoPSigAlgs :: "SignatureAlgorithm list"
  cf_DPoPNonceManager :: "DPoPNonceManager option"
  cf_PKCEEnabled :: bool
  cf_PKCEDefaultChallengeMethod :: CodeChallengeMethod
  cf_RAREnabled :: bool
  cf_RARDetailTypes :: "AuthDetailType list"
  cf_RARValidateDetailFunc :: "nat \<Rightarrow> AuthDetail \<Rightarrow> go_error option"
  cf_RARCompareDetailsFunc :: "nat \<Rightarrow> AuthDetail slice \<Rightarrow> AuthDetail slice \<Rightarrow> go_error option"
  cf_ResourceIndicatorsEnabled :: bool
  cf_ResourceIndicatorsRequired :: bool
  cf_ResourceIndicators :: "string list"
  cf_HTTPGet :: "nat \<Rightarrow> string \<Rightarrow> go_error + HTTPResponse"
  cf_ConsumeJTIFunc :: "nat \<Rightarrow> string \<Rightarrow> go_error option"
  cf_ConsumeJTIUseFunc :: "(nat \<Rightarrow> JTIUse \<Rightarrow> go_error option) option"
  cf_PrivateKeyJWTAssertionPolicyFunc :: "(nat \<Rightarrow> VerifiedClientAssertion \<Rightarrow> go_error option option) option"
  cf_JWTBearerClientAuthnRequired :: bool
  cf_JWTBearerHandleAssertionFunc :: "nat \<Rightarrow> string \<Rightarrow> go_error + JWTBearerResult"
  cf_ErrorURI :: string
  cf_OpenIDFedEnabled :: bool
  cf_OpenIDFedSigAlgs :: "SignatureAlgorithm list"
  cf_OpenIDFedEntityJWKSFunc :: "(nat \<Rightarrow> string \<Rightarrow> go_error + JSONWebKeySet) option"
  cf_VCIEnabled :: bool
  cf_VCIIssuers :: "VCIssuer list"
  cf_VCISelfHost :: string
  cf_VCISelfPreAuthCodeGrantEnabled :: bool
  cf_VCIExternalPreAuthCodeGrantEnabled :: bool
  cf_VCIExternalPreAuthCodeHandleFunc :: "nat \<Rightarrow> string \<Rightarrow> string \<Rightarrow> string \<Rightarrow> go_error + PreAuthCodeResult"
  cf_VCIPreAuthCodeAnonymousAccessEnabled :: bool
  cf_TokenExchangeClientAuthnRequired :: bool
  cf_TokenExchangeHandleFunc :: "nat \<Rightarrow> TokenExchangeRequest \<Rightarrow> go_error + TokenExchangeResult"
  cf_HumanAuthorizationAuthority :: "HumanAuthorizationAuthority option"

text \<open>A configuration with nothing enabled over given managers, as a base for concrete ones.\<close>

definition base_Configuration :: "'st Managers \<Rightarrow> 'st Configuration" where
  "base_Configuration M =
    \<lparr>cf_Managers = M, cf_Profile = '''', cf_Host = '''', cf_LegacyAuthorizationCodeEnabled = False,
     cf_HumanConfidentialBFFAuthorizationEnabled = False, cf_HumanAccessTokenLifetimeSecs = 0,
     cf_OpaqueTokenEnabled = False, cf_JWKSFunc = (\<lambda>_. Inl ErrNotFound), cf_SignerFunc = None,
     cf_HandleGrantFunc = (\<lambda>n t g. (None, g)), cf_HandleTokenFunc = (\<lambda>n t g. (None, t, g)),
     cf_IDTokenClaimsFunc = (\<lambda>_ _. []), cf_UserInfoClaimsFunc = (\<lambda>_ _. []),
     cf_TokenClaimsFunc = (\<lambda>_ _ _. []), cf_AccessTokenClaimsFunc = None,
     cf_AccessTokenGrantIDClaimDisabled = False, cf_TokenEndpointEvidenceFunc = False, cf_Scopes = [],
     cf_GrantTypes = [], cf_ResponseTypes = [], cf_ResponseModes = [],
     cf_GrantIDFunc = (\<lambda>n. ''g'' @ replicate n CHR ''1''), cf_ACRs = [],
     cf_SubIdentifierTypeDefault = '''', cf_SubIdentifierTypes = [],
     cf_PairwiseSubjectFunc = (\<lambda>n s c. s), cf_StaticClients = [], cf_ResolveClientFunc = None,
     cf_AuthnMethods = [], cf_AuthnMethodPrivateKeyJWTSigAlgs = [], cf_AuthnMethodSecretJWTSigAlgs = [],
     cf_AuthnMethodAttestationJWTIssuers = [], cf_AttestationHTTPGet = (\<lambda>_ _. Inl ErrNotFound),
     cf_TokenEndpoint = '''', cf_OpaqueTokenFunc = (\<lambda>_ _. ''''),
     cf_TokenOptionsFunc = (\<lambda>n g c. (\<lparr>to_Format = TokenFormatJWT, to_LifetimeSecs = 60, to_JWTSigAlg = SigAlgPS256\<rparr>, g, c)),
     cf_VerifyClientSecretFunc = (\<lambda>_ _ _. None), cf_TokenBindingRequired = False,
     cf_EndpointPrefix = '''', cf_IDTokenDefaultSigAlg = '''', cf_IDTokenSigAlgs = [],
     cf_IDTokenEncEnabled = False, cf_IDTokenContentEncAlgs = [], cf_IDTokenLifetimeSecs = 0,
     cf_JWTLifetimeSecs = 0, cf_JWTLeewayTimeSecs = 0, cf_JWTIDFunc = (\<lambda>_. ''''),
     cf_DCREnabled = False, cf_TokenIntrospectionIsClientAllowedFunc = (\<lambda>_ _ _. True),
     cf_TokenRevocationIsClientAllowedFunc = (\<lambda>_ _. True),
     cf_TokenRevocationRevokeGrantOnAccessTokenEnabled = False, cf_LegacyRefreshTokenGrantEnabled = False,
     cf_RefreshTokenFunc = (\<lambda>_. ''''), cf_RefreshTokenShouldIssueFunc = (\<lambda>_ _ _. True),
     cf_RefreshTokenRotationEnabled = False, cf_RefreshTokenLifetimeSecs = 0, cf_CIBATokenDeliveryModes = [],
     cf_CIBAHTTPDo = (\<lambda>_ _ _ _. Inl ErrNotFound), cf_MTLSEnabled = False, cf_MTLSHost = '''',
     cf_MTLSTokenBindingEnabled = False, cf_MTLSTokenBindingRequired = False,
     cf_ClientCertFunc = (\<lambda>_. Inl ErrNotFound), cf_DPoPEnabled = False, cf_DPoPRequired = False,
     cf_DPoPStrictHTU = False, cf_DPoPSigAlgs = [], cf_DPoPNonceManager = None, cf_PKCEEnabled = False,
     cf_PKCEDefaultChallengeMethod = '''', cf_RAREnabled = False, cf_RARDetailTypes = [],
     cf_RARValidateDetailFunc = (\<lambda>_ _. None), cf_RARCompareDetailsFunc = (\<lambda>_ _ _. None),
     cf_ResourceIndicatorsEnabled = False, cf_ResourceIndicatorsRequired = False, cf_ResourceIndicators = [],
     cf_HTTPGet = (\<lambda>_ _. Inl ErrNotFound), cf_ConsumeJTIFunc = (\<lambda>_ _. None),
     cf_ConsumeJTIUseFunc = None, cf_PrivateKeyJWTAssertionPolicyFunc = None,
     cf_JWTBearerClientAuthnRequired = False,
     cf_JWTBearerHandleAssertionFunc = (\<lambda>n a. Inl ErrNotFound), cf_ErrorURI = '''',
     cf_OpenIDFedEnabled = False, cf_OpenIDFedSigAlgs = [], cf_OpenIDFedEntityJWKSFunc = None,
     cf_VCIEnabled = False, cf_VCIIssuers = [], cf_VCISelfHost = '''',
     cf_VCISelfPreAuthCodeGrantEnabled = False, cf_VCIExternalPreAuthCodeGrantEnabled = False,
     cf_VCIExternalPreAuthCodeHandleFunc = (\<lambda>_ _ _ _. Inl ErrNotFound),
     cf_VCIPreAuthCodeAnonymousAccessEnabled = False, cf_TokenExchangeClientAuthnRequired = False,
     cf_TokenExchangeHandleFunc = (\<lambda>_ _. Inl ErrNotFound), cf_HumanAuthorizationAuthority = None\<rparr>"

text \<open>\<^verbatim>\<open>oidc.Context\<close>: configuration, library, request, and whether there is a response writer.\<close>

record 'st Context =
  cx :: "'st Configuration"
  cx_Lib :: Lib
  cx_Request :: Request
  cx_Response :: bool

definition base_Context :: "'st Managers \<Rightarrow> 'st Context" where
  "base_Context M = \<lparr>cx = base_Configuration M, cx_Lib = base_Lib, cx_Request = zero_Request, cx_Response = True\<rparr>"

section \<open>World\<close>

text \<open>The request-local state, allocated per request.\<close>

record clientAssertionAuthorityState =
  cas_authenticatedClientID :: string
  cas_authority :: "VerifiedClientAssertionAuthority option"
  cas_recorded :: bool
  cas_invalid :: bool

record tokenEndpointEvidenceState =
  evs_authenticatedClientID :: string
  evs_attributionInvalid :: bool
  evs_emitted :: bool

text \<open>The world of a request: the store, the number of external calls so far, the header fields and the
  bodies written to the response, the notifications sent, the evidence handed to the callback, and the grant
  object the request holds a pointer to. The object may be shared with the store: then an assignment to one of
  its fields may be visible there.\<close>

record 'st World =
  w_store :: 'st
  w_calls :: nat
  w_Header :: "(string \<times> string list) list"
  w_written :: "(int \<times> json option) list"
  w_posts :: "(string \<times> string \<times> json) list"
  w_clientAssertionState :: "clientAssertionAuthorityState option"
  w_tokenEndpointEvidence :: "tokenEndpointEvidenceState option"
  w_evidence :: "TokenEndpointEvidence list"
  w_handled :: "go_error list"
  w_grant :: Grant
  w_grantShared :: bool

definition start_World :: "'st \<Rightarrow> nat \<Rightarrow> 'st World" where
  "start_World s n =
    \<lparr>w_store = s, w_calls = n, w_Header = [], w_written = [], w_posts = [], w_clientAssertionState = None,
     w_tokenEndpointEvidence = None, w_evidence = [], w_handled = [], w_grant = zero_Grant, w_grantShared = False\<rparr>"

type_synonym ('st, 'a) M = "(go_error, 'st World, 'a) prog"

text \<open>One external call, with its number.\<close>

definition callM :: "(nat \<Rightarrow> 'a) \<Rightarrow> ('st, 'a) M" where
  "callM f w = (Inr (f (w_calls w)), w\<lparr>w_calls := Suc (w_calls w)\<rparr>)"

definition callE :: "(nat \<Rightarrow> go_error + 'a) \<Rightarrow> ('st, 'a) M" where
  "callE f w = (f (w_calls w), w\<lparr>w_calls := Suc (w_calls w)\<rparr>)"

definition callO :: "(nat \<Rightarrow> go_error option) \<Rightarrow> ('st, unit) M" where
  "callO f w = (case f (w_calls w) of None \<Rightarrow> Inr () | Some e \<Rightarrow> Inl e, w\<lparr>w_calls := Suc (w_calls w)\<rparr>)"

text \<open>One call of a storage manager.\<close>

definition storeM :: "(nat \<Rightarrow> ('st, 'a) store_op) \<Rightarrow> ('st, 'a) M" where
  "storeM f w =
     (case f (w_calls w) (w_store w) of (r, s) \<Rightarrow> (r, w\<lparr>w_calls := Suc (w_calls w), w_store := s\<rparr>))"

text \<open>An assignment to a field of an object that a manager may share.\<close>

definition touchM :: "('st \<Rightarrow> 'st) \<Rightarrow> ('st, unit) M" where
  "touchM f = modM (\<lambda>w. w\<lparr>w_store := f (w_store w)\<rparr>)"

text \<open>The grant object of the request. It is new, or was returned by a lookup; saving it shares it. The identifier
  of a stored object does not change.\<close>

definition freshGrant :: "Grant \<Rightarrow> ('st, unit) M" where
  "freshGrant g = modM (\<lambda>w. w\<lparr>w_grant := g, w_grantShared := False\<rparr>)"

definition loadGrant :: "(nat \<Rightarrow> ('st, Grant) store_op) \<Rightarrow> ('st, Grant) M" where
  "loadGrant f = tryM (storeM f) (\<lambda>g. tryM (modM (\<lambda>w. w\<lparr>w_grant := g, w_grantShared := True\<rparr>)) (\<lambda>_. okM g))"

definition assignGrant :: "'st Context \<Rightarrow> (Grant \<Rightarrow> Grant) \<Rightarrow> ('st, unit) M" where
  "assignGrant ctx f =
     modM (\<lambda>w. if w_grantShared w
               then let g = (f (w_grant w))\<lparr>g_ID := g_ID (w_grant w)\<rparr>
                    in w\<lparr>w_grant := g, w_store := m_TouchGrant (cf_Managers (cx ctx)) g (w_store w)\<rparr>
               else w\<lparr>w_grant := f (w_grant w)\<rparr>)"

definition ctx_SaveGrant :: "'st Context \<Rightarrow> ('st, unit) M" where
  "ctx_SaveGrant ctx =
     tryM (getM w_grant) (\<lambda>g.
     tryM (modM (\<lambda>w. w\<lparr>w_grantShared := True\<rparr>)) (\<lambda>_.
     storeM (\<lambda>n. m_SaveGrant (cf_Managers (cx ctx)) n g)))"

text \<open>The configured functions that receive the grant object and may change it.\<close>

definition HandleGrant :: "'st Context \<Rightarrow> GrantType \<Rightarrow> ('st, unit) M" where
  "HandleGrant ctx grantType =
     tryM (getM w_grant) (\<lambda>g.
     tryM (callM (\<lambda>n. cf_HandleGrantFunc (cx ctx) n grantType g)) (\<lambda>(e, g').
     tryM (assignGrant ctx (\<lambda>_. g')) (\<lambda>_. checkM e)))"

definition HandleToken :: "'st Context \<Rightarrow> Token \<Rightarrow> ('st, Token) M" where
  "HandleToken ctx tkn =
     tryM (getM w_grant) (\<lambda>g.
     tryM (callM (\<lambda>n. cf_HandleTokenFunc (cx ctx) n tkn g)) (\<lambda>(e, tkn', g').
     tryM (assignGrant ctx (\<lambda>_. g')) (\<lambda>_. tryM (checkM e) (\<lambda>_. okM tkn'))))"

definition TokenOptions_of :: "'st Context \<Rightarrow> Client \<Rightarrow> ('st, TokenOptions \<times> Client) M" where
  "TokenOptions_of ctx c =
     tryM (getM w_grant) (\<lambda>g.
     tryM (callM (\<lambda>n. cf_TokenOptionsFunc (cx ctx) n g c)) (\<lambda>(opts, g', c').
     tryM (assignGrant ctx (\<lambda>_. g')) (\<lambda>_. okM (opts, c'))))"

text \<open>A call whose failure is handed on as a value.\<close>

definition attemptM :: "('st, 'a) M \<Rightarrow> ('st, go_error + 'a) M" where
  "attemptM m = runM m okM"

section \<open>Time and cancellation\<close>

definition second :: int where
  "second = 1000000000"

definition Now :: "'st Context \<Rightarrow> ('st, int) M" where
  "Now ctx = callM (l_Now (cx_Lib ctx))"

definition TimestampNow :: "'st Context \<Rightarrow> ('st, int) M" where
  "TimestampNow ctx = callM (\<lambda>n. l_Now (cx_Lib ctx) n div second)"

text \<open>\<^verbatim>\<open>ctx.Err()\<close>.\<close>

definition ctx_Err :: "'st Context \<Rightarrow> ('st, go_error option) M" where
  "ctx_Err ctx = callM (l_CtxErr (cx_Lib ctx))"

text \<open>\<^verbatim>\<open>int(d.Seconds())\<close> for a difference of times in nanoseconds: the difference saturates at 64 bits, the
  seconds are truncated towards zero. The \<^verbatim>\<open>float64\<close> in between is taken to be exact, which it is for whole seconds
  and, below about a hundred days, always after truncation.\<close>

definition whole_seconds :: "int \<Rightarrow> int" where
  "whole_seconds d =
     (let c = max (- (2 ^ 63)) (min (2 ^ 63 - 1) d) in if c \<ge> 0 then c div second else - ((- c) div second))"

section \<open>Identity of the provider\<close>

definition Issuer :: "'st Context \<Rightarrow> string" where
  "Issuer ctx = cf_Host (cx ctx)"

definition BaseURL :: "'st Context \<Rightarrow> string" where
  "BaseURL ctx = Issuer ctx @ cf_EndpointPrefix (cx ctx)"

definition MTLSBaseURL :: "'st Context \<Rightarrow> string" where
  "MTLSBaseURL ctx = cf_MTLSHost (cx ctx) @ cf_EndpointPrefix (cx ctx)"

definition TokenURL :: "'st Context \<Rightarrow> string" where
  "TokenURL ctx = BaseURL ctx @ cf_TokenEndpoint (cx ctx)"

definition TokenMTLSURL :: "'st Context \<Rightarrow> string" where
  "TokenMTLSURL ctx = MTLSBaseURL ctx @ cf_TokenEndpoint (cx ctx)"

definition RequestURL :: "'st Context \<Rightarrow> string" where
  "RequestURL ctx = Issuer ctx @ rq_RequestURI (cx_Request ctx)"

definition RequestMTLSURL :: "'st Context \<Rightarrow> string" where
  "RequestMTLSURL ctx = cf_MTLSHost (cx ctx) @ rq_RequestURI (cx_Request ctx)"

text \<open>\<^verbatim>\<open>ctx.Scope\<close>: the first configured scope that matches.\<close>

definition Scope_of :: "'st Context \<Rightarrow> string \<Rightarrow> Scope option" where
  "Scope_of ctx s = find (\<lambda>scope. sc_Matches scope s) (cf_Scopes (cx ctx))"

definition VCIssuer_of :: "'st Context \<Rightarrow> string \<Rightarrow> VCIssuer option" where
  "VCIssuer_of ctx iss = find (\<lambda>issuer. vci_Issuer issuer = iss) (cf_VCIIssuers (cx ctx))"

definition TokenAuthnSigAlgs :: "'st Context \<Rightarrow> SignatureAlgorithm list" where
  "TokenAuthnSigAlgs ctx =
     (if AuthnMethodPrivateKeyJWT \<in> set (cf_AuthnMethods (cx ctx)) then cf_AuthnMethodPrivateKeyJWTSigAlgs (cx ctx) else []) @
     (if AuthnMethodSecretJWT \<in> set (cf_AuthnMethods (cx ctx)) then cf_AuthnMethodSecretJWTSigAlgs (cx ctx) else [])"

text \<open>Header and Authorization of the request.\<close>

definition Header :: "'st Context \<Rightarrow> string \<Rightarrow> string option" where
  "Header ctx name = (let value = Header_Get (cx_Request ctx) name in if value = '''' then None else Some value)"

definition AuthorizationToken :: "'st Context \<Rightarrow> (string \<times> TokenType) option" where
  "AuthorizationToken ctx =
     (case Header ctx ''Authorization'' of
        None \<Rightarrow> None
      | Some tokenHeader \<Rightarrow>
          (case strings_Fields tokenHeader of [typ, tkn] \<Rightarrow> Some (tkn, typ) | _ \<Rightarrow> None))"

definition BearerToken :: "'st Context \<Rightarrow> string option" where
  "BearerToken ctx =
     (case AuthorizationToken ctx of
        None \<Rightarrow> None
      | Some (tkn, tokenType) \<Rightarrow> if tokenType \<noteq> TokenTypeBearer then None else Some tkn)"

text \<open>\<^verbatim>\<open>ctx.MediaType\<close>: the part before the first semicolon, trimmed and in lower case.\<close>

definition trim_left :: "string \<Rightarrow> string" where
  "trim_left = dropWhile ascii_space"

definition MediaType :: "'st Context \<Rightarrow> string" where
  "MediaType ctx =
     (let ct = hd (split_on CHR '';'' (Header_Get (cx_Request ctx) ''Content-Type''))
      in strings_ToLower (rev (trim_left (rev (trim_left ct)))))"

section \<open>Reservation of JWT identifiers\<close>

definition ConsumeJTIUse :: "'st Context \<Rightarrow> JTIUse \<Rightarrow> ('st, unit) M" where
  "ConsumeJTIUse ctx use =
     (case cf_ConsumeJTIUseFunc (cx ctx) of
        Some f \<Rightarrow> callO (\<lambda>n. f n use)
      | None \<Rightarrow> callO (\<lambda>n. cf_ConsumeJTIFunc (cx ctx) n (ju_ID use)))"

definition UsesTypedJTIConsumer :: "'st Context \<Rightarrow> bool" where
  "UsesTypedJTIConsumer ctx = (cf_ConsumeJTIUseFunc (cx ctx) \<noteq> None)"

definition reserve_result :: "bool \<Rightarrow> ErrorCode \<Rightarrow> string \<Rightarrow> go_error \<Rightarrow> go_error option" where
  "reserve_result typed replayCode replayDescription err =
     (if typed then
        (if errors_Is err ErrInvalidJTIUse \<or> errors_Is err ErrJTIReplay
         then Some (WrapError replayCode replayDescription err)
         else Some (WrapError ErrorCodeServerError ''server error'' (ErrBoundary ''JTI reservation failed'' err)))
      else if errors_Is err ErrNotFound then None
      else Some (WrapError replayCode replayDescription err))"

definition ReserveJTI :: "'st Context \<Rightarrow> JTIUse \<Rightarrow> ErrorCode \<Rightarrow> string \<Rightarrow> ('st, unit) M" where
  "ReserveJTI ctx use replayCode replayDescription =
     runM (ConsumeJTIUse ctx use) (\<lambda>r. case r of
        Inr u \<Rightarrow> okM ()
      | Inl err \<Rightarrow> checkM (reserve_result (UsesTypedJTIConsumer ctx) replayCode replayDescription err))"

section \<open>Assertion policy and claims callback\<close>

definition privateKeyJWTAssertionPolicyServerError :: "go_error \<Rightarrow> go_error" where
  "privateKeyJWTAssertionPolicyServerError cause = WrapError ErrorCodeServerError ''server error'' cause"

text \<open>Fail when the request was cancelled, with the cancellation wrapped.\<close>

definition unless_cancelled :: "'st Context \<Rightarrow> (go_error \<Rightarrow> go_error) \<Rightarrow> ('st, unit) M" where
  "unless_cancelled ctx wrap =
     tryM (ctx_Err ctx) (\<lambda>e. checkM (map_option wrap e))"

definition ApplyPrivateKeyJWTAssertionPolicy :: "'st Context \<Rightarrow> VerifiedClientAssertion \<Rightarrow> ('st, unit) M" where
  "ApplyPrivateKeyJWTAssertionPolicy ctx assertion =
     (case cf_PrivateKeyJWTAssertionPolicyFunc (cx ctx) of
        None \<Rightarrow> okM ()
      | Some f \<Rightarrow>
          tryM (unless_cancelled ctx privateKeyJWTAssertionPolicyServerError) (\<lambda>_.
          tryM (callM (\<lambda>n. f n assertion)) (\<lambda>r. case r of
             None \<Rightarrow> failM (privateKeyJWTAssertionPolicyServerError (ErrNew ''private key JWT assertion policy panicked''))
           | Some callbackErr \<Rightarrow>
               tryM (unless_cancelled ctx privateKeyJWTAssertionPolicyServerError) (\<lambda>_. checkM callbackErr))))"

definition UsesAccessTokenClaims :: "'st Context \<Rightarrow> bool" where
  "UsesAccessTokenClaims ctx = (cf_AccessTokenClaimsFunc (cx ctx) \<noteq> None)"

definition accessTokenClaimsInternalError :: "go_error \<Rightarrow> go_error" where
  "accessTokenClaimsInternalError cause =
     WrapError ErrorCodeServerError ''server error'' (ErrBoundary ''access token claims unavailable'' cause)"

text \<open>Calling the absent function is a nil dereference, which the deferred recovery turns into the same error
  as a panic of the callback.\<close>

definition AccessTokenClaims :: "'st Context \<Rightarrow> AccessTokenClaimsInput \<Rightarrow> ('st, claims) M" where
  "AccessTokenClaims ctx input =
     tryM (unless_cancelled ctx accessTokenClaimsInternalError) (\<lambda>_.
     tryM (callM (\<lambda>n. case cf_AccessTokenClaimsFunc (cx ctx) of None \<Rightarrow> None | Some f \<Rightarrow> f n input)) (\<lambda>r. case r of
        None \<Rightarrow> failM (accessTokenClaimsInternalError (ErrNew ''access token claims callback panicked''))
      | Some (Inl err) \<Rightarrow> failM (accessTokenClaimsInternalError err)
      | Some (Inr claims) \<Rightarrow>
          tryM (unless_cancelled ctx accessTokenClaimsInternalError) (\<lambda>_. okM claims)))"

section \<open>Authority of the client assertion\<close>

definition fresh_authority_state :: clientAssertionAuthorityState where
  "fresh_authority_state =
     \<lparr>cas_authenticatedClientID = '''', cas_authority = None, cas_recorded = False, cas_invalid = False\<rparr>"

definition BeginClientAssertionAuthentication :: "('st, unit) M" where
  "BeginClientAssertionAuthentication = modM (\<lambda>w. w\<lparr>w_clientAssertionState := Some fresh_authority_state\<rparr>)"

text \<open>The body of \<^verbatim>\<open>RecordClientAssertionAuthority\<close> on the allocated state.\<close>

definition record_authority ::
  "string \<Rightarrow> VerifiedClientAssertionAuthority \<Rightarrow> clientAssertionAuthorityState \<Rightarrow> clientAssertionAuthorityState" where
  "record_authority authenticatedClientID captured st =
     (if cas_invalid st then st
      else if cas_recorded st then
        (if cas_authority st = None \<or> cas_authenticatedClientID st \<noteq> authenticatedClientID
            \<or> cas_authority st \<noteq> Some captured
         then st\<lparr>cas_authenticatedClientID := '''', cas_authority := None, cas_invalid := True\<rparr>
         else st)
      else st\<lparr>cas_authenticatedClientID := authenticatedClientID, cas_authority := Some captured, cas_recorded := True\<rparr>)"

definition RecordClientAssertionAuthority ::
  "string \<Rightarrow> VerifiedClientAssertionAuthority option \<Rightarrow> ('st, unit) M" where
  "RecordClientAssertionAuthority authenticatedClientID authority =
     modM (\<lambda>w. case (w_clientAssertionState w, authority) of
        (Some st, Some a) \<Rightarrow> w\<lparr>w_clientAssertionState := Some (record_authority authenticatedClientID a st)\<rparr>
      | _ \<Rightarrow> w)"

definition expects_authority :: "Client \<Rightarrow> bool" where
  "expects_authority client \<longleftrightarrow>
     c_TokenAuthnMethod client = AuthnMethodPrivateKeyJWT \<and> c_PrivateKeyJWTAuthority client \<noteq> None"

definition not_captured :: go_error where
  "not_captured = ErrNew ''private_key_jwt authority evidence was not captured for client authentication''"

definition authority_evidence ::
  "clientAssertionAuthorityState option \<Rightarrow> Client \<Rightarrow> go_error + VerifiedClientAssertionAuthority option" where
  "authority_evidence state client =
     (case state of
        None \<Rightarrow> if expects_authority client then Inl not_captured else Inr None
      | Some st \<Rightarrow>
          if cas_invalid st then Inl (ErrNew ''private_key_jwt authority evidence is conflicting'')
          else (case cas_authority st of
             None \<Rightarrow> if expects_authority client then Inl not_captured else Inr None
           | Some a \<Rightarrow>
               if \<not> expects_authority client \<or> cas_authenticatedClientID st \<noteq> c_ID client
               then Inl (ErrNew ''private_key_jwt authority evidence conflicts with the authenticated client'')
               else if vca_SnapshotRevision a \<le> 0 \<or> vca_KeyAuthorityID a = ''''
               then Inl (ErrNew ''private_key_jwt authority evidence is invalid'')
               else Inr (Some a)))"

definition ClientAssertionAuthority :: "Client \<Rightarrow> ('st, VerifiedClientAssertionAuthority option) M" where
  "ClientAssertionAuthority client w = (authority_evidence (w_clientAssertionState w) client, w)"

section \<open>Evidence of the token endpoint\<close>

definition BeginTokenEndpointEvidence :: "'st Context \<Rightarrow> ('st, unit) M" where
  "BeginTokenEndpointEvidence ctx =
     modM (\<lambda>w. if cf_TokenEndpointEvidenceFunc (cx ctx)
               then w\<lparr>w_tokenEndpointEvidence :=
                  Some \<lparr>evs_authenticatedClientID = '''', evs_attributionInvalid = False, evs_emitted = False\<rparr>\<rparr>
               else w)"

definition mark_authenticated :: "string \<Rightarrow> tokenEndpointEvidenceState \<Rightarrow> tokenEndpointEvidenceState" where
  "mark_authenticated i st =
     (if evs_emitted st \<or> evs_attributionInvalid st then st
      else if i = '''' then st\<lparr>evs_authenticatedClientID := '''', evs_attributionInvalid := True\<rparr>
      else if evs_authenticatedClientID st = '''' then st\<lparr>evs_authenticatedClientID := i\<rparr>
      else if evs_authenticatedClientID st \<noteq> i then st\<lparr>evs_authenticatedClientID := '''', evs_attributionInvalid := True\<rparr>
      else st)"

definition MarkTokenEndpointClientAuthenticated :: "string \<Rightarrow> ('st, unit) M" where
  "MarkTokenEndpointClientAuthenticated i =
     modM (\<lambda>w. w\<lparr>w_tokenEndpointEvidence := map_option (mark_authenticated i) (w_tokenEndpointEvidence w)\<rparr>)"

definition validTokenEndpointResult :: "TokenEndpointResult \<Rightarrow> bool" where
  "validTokenEndpointResult result \<longleftrightarrow> result \<in>
     {TokenEndpointResultIssued, TokenEndpointResultInvalidRequest, TokenEndpointResultInvalidClient,
      TokenEndpointResultUnauthorizedClient, TokenEndpointResultInvalidScope, TokenEndpointResultInvalidTarget,
      TokenEndpointResultInvalidDPoPProof, TokenEndpointResultUseDPoPNonce, TokenEndpointResultServerError,
      TokenEndpointResultProtocolDenied}"

definition EmitTokenEndpointEvidence :: "'st Context \<Rightarrow> TokenEndpointResult \<Rightarrow> ('st, unit) M" where
  "EmitTokenEndpointEvidence ctx result =
     modM (\<lambda>w. case w_tokenEndpointEvidence w of
        None \<Rightarrow> w
      | Some st \<Rightarrow>
          if \<not> cf_TokenEndpointEvidenceFunc (cx ctx) \<or> evs_emitted st then w
          else w\<lparr>w_tokenEndpointEvidence := Some (st\<lparr>evs_emitted := True\<rparr>),
                 w_evidence := w_evidence w @
                   [\<lparr>tee_Result = (if validTokenEndpointResult result then result else TokenEndpointResultServerError),
                     tee_AuthenticatedClientID =
                       (if evs_attributionInvalid st then '''' else evs_authenticatedClientID st)\<rparr>]\<rparr>)"

section \<open>Hashes and keys\<close>

text \<open>\<^verbatim>\<open>internal/hashutil\<close>.\<close>

definition Thumbprint :: "Lib \<Rightarrow> string \<Rightarrow> string" where
  "Thumbprint lib s = RawURLEncode (l_sha256 lib s)"

definition HashAlg :: "Lib \<Rightarrow> SignatureAlgorithm \<Rightarrow> (string \<Rightarrow> string) \<times> nat" where
  "HashAlg lib alg =
     (if alg \<in> {SigAlgRS512, SigAlgES512, SigAlgPS512, SigAlgHS512} then (l_sha512 lib, 64)
      else if alg \<in> {SigAlgRS384, SigAlgES384, SigAlgPS384, SigAlgHS384} then (l_sha384 lib, 48)
      else (l_sha256 lib, 32))"

definition HalfHash :: "Lib \<Rightarrow> string \<Rightarrow> SignatureAlgorithm \<Rightarrow> string" where
  "HalfHash lib claim alg = (case HashAlg lib alg of (h, sz) \<Rightarrow> RawURLEncode (take (sz div 2) (h claim)))"

text \<open>\<^verbatim>\<open>internal/joseutil\<close>.\<close>

definition KeyUsage_of :: "JSONWebKey \<Rightarrow> KeyUsage" where
  "KeyUsage_of key =
     (if jwk_Use key \<noteq> '''' then jwk_Use key
      else if jwk_Algorithm key \<in>
        {SigAlgRS256, SigAlgRS384, SigAlgRS512, SigAlgES256, SigAlgES384, SigAlgES512, SigAlgPS256, SigAlgPS384,
         SigAlgPS512, SigAlgHS256, SigAlgHS384, SigAlgHS512} then KeyUsageSignature
      else if jwk_Algorithm key \<in> {KeyEncAlgRSA15, KeyEncRSAOAEP, KeyEncRSAOAEP256} then KeyUsageEncryption
      else '''')"

definition Unsigned :: "Lib \<Rightarrow> claims \<Rightarrow> string option \<Rightarrow> string" where
  "Unsigned lib claims typ =
     (let header = JObj [(''alg'', JStr SigAlgNone), (''typ'', JStr (case typ of None \<Rightarrow> ''JWT'' | Some t \<Rightarrow> t))]
      in RawURLEncode (l_Marshal lib header) @ ''.'' @ RawURLEncode (l_Marshal lib (JObj claims)) @ ''.'')"

text \<open>A word character or a hyphen, and the shapes of a compact JWS and of an unsigned JWT.\<close>

definition word_char :: "char \<Rightarrow> bool" where
  "word_char c \<longleftrightarrow> (let b = byte c in (0x30 \<le> b \<and> b \<le> 0x39) \<or> (0x41 \<le> b \<and> b \<le> 0x5A) \<or> (0x61 \<le> b \<and> b \<le> 0x7A) \<or>
     c = CHR ''_'' \<or> c = CHR ''-'')"

definition IsJWS :: "string \<Rightarrow> bool" where
  "IsJWS tkn \<longleftrightarrow> (let parts = split_on CHR ''.'' tkn in length parts = 3 \<and> list_all (\<lambda>p. p \<noteq> [] \<and> list_all word_char p) parts)"

text \<open>The keys of the provider.\<close>

definition JWKS_of :: "'st Context \<Rightarrow> ('st, JSONWebKeySet) M" where
  "JWKS_of ctx = callE (cf_JWKSFunc (cx ctx))"

definition SigAlgs :: "'st Context \<Rightarrow> ('st, SignatureAlgorithm list) M" where
  "SigAlgs ctx =
     tryM (JWKS_of ctx) (\<lambda>jwks. okM (map jwk_Algorithm (filter (\<lambda>jwk. KeyUsage_of jwk = KeyUsageSignature) jwks)))"

definition liftE :: "go_error + 'a \<Rightarrow> ('st, 'a) M" where
  "liftE r = (case r of Inl e \<Rightarrow> failM e | Inr x \<Rightarrow> okM x)"

definition JWK :: "'st Context \<Rightarrow> string \<Rightarrow> ('st, JSONWebKey) M" where
  "JWK ctx kid = tryM (JWKS_of ctx) (\<lambda>jwks. liftE (JWKS_Key jwks kid))"

definition PublicJWK :: "'st Context \<Rightarrow> string \<Rightarrow> ('st, JSONWebKey) M" where
  "PublicJWK ctx kid = tryM (JWK ctx kid) (\<lambda>key. okM (l_Public (cx_Lib ctx) key))"

definition JWKByAlg_of :: "'st Context \<Rightarrow> SignatureAlgorithm \<Rightarrow> ('st, JSONWebKey) M" where
  "JWKByAlg_of ctx alg = tryM (JWKS_of ctx) (\<lambda>jwks. liftE (JWKS_KeyByAlg jwks alg))"

definition Sign :: "'st Context \<Rightarrow> claims \<Rightarrow> SignatureAlgorithm \<Rightarrow> string option \<Rightarrow> ('st, string) M" where
  "Sign ctx claims alg typ =
     (let t = (case typ of None \<Rightarrow> ''JWT'' | Some t \<Rightarrow> t) in
      if alg = SigAlgNone then okM (Unsigned (cx_Lib ctx) claims typ)
      else case cf_SignerFunc (cx ctx) of
        None \<Rightarrow>
          tryM (mapErrM (ErrWrapf ''could not load the signing jwk'') (JWKByAlg_of ctx alg)) (\<lambda>jwk.
          callE (\<lambda>n. l_Sign (cx_Lib ctx) n claims alg (SignJWK jwk) t))
      | Some f \<Rightarrow>
          tryM (mapErrM (ErrWrapf ''could not load the signer'') (callE (\<lambda>n. f n alg))) (\<lambda>(keyID, key).
          callE (\<lambda>n. l_Sign (cx_Lib ctx) n claims alg (SignOpaque keyID key) t)))"

section \<open>Writing the response\<close>

definition set_header :: "string \<Rightarrow> string \<Rightarrow> ('st, unit) M" where
  "set_header name value = modM (\<lambda>w. w\<lparr>w_Header := AList.update name [value] (w_Header w)\<rparr>)"

definition add_header :: "string \<Rightarrow> string \<Rightarrow> ('st, unit) M" where
  "add_header name value =
     modM (\<lambda>w. w\<lparr>w_Header := AList.update name
        ((case map_of (w_Header w) name of None \<Rightarrow> [] | Some vs \<Rightarrow> vs) @ [value]) (w_Header w)\<rparr>)"

definition WriteHeader :: "int \<Rightarrow> json option \<Rightarrow> ('st, unit) M" where
  "WriteHeader status body = modM (\<lambda>w. w\<lparr>w_written := w_written w @ [(status, body)]\<rparr>)"

text \<open>\<^verbatim>\<open>ctx.Write\<close>: nothing is written after cancellation; an encoding error leaves the status without a
  body.\<close>

definition Write :: "'st Context \<Rightarrow> json \<Rightarrow> int \<Rightarrow> ('st, unit) M" where
  "Write ctx obj status =
     tryM (unless_cancelled ctx id) (\<lambda>_.
     tryM (set_header ''Content-Type'' ''application/json'') (\<lambda>_.
     tryM (callM (l_EncodeErr (cx_Lib ctx))) (\<lambda>e. case e of
        Some err \<Rightarrow> tryM (WriteHeader status None) (\<lambda>_. failM err)
      | None \<Rightarrow> WriteHeader status (Some obj))))"

definition omitempty :: "string \<Rightarrow> string \<Rightarrow> (string \<times> json) list" where
  "omitempty name value = (if value = '''' then [] else [(name, JStr value)])"

definition error_json :: "go_error \<Rightarrow> json" where
  "error_json e =
     JObj (omitempty ''error'' (err_Code e) @ omitempty ''error_description'' (err_Description e) @
           omitempty ''error_uri'' (err_URI e))"

definition public_error :: "'st Context \<Rightarrow> go_error \<Rightarrow> go_error" where
  "public_error ctx err =
     WithURI (case errors_As err of Some e \<Rightarrow> e | None \<Rightarrow> NewError ErrorCodeInternalError ''internal error'')
       (cf_ErrorURI (cx ctx))"

text \<open>\<^verbatim>\<open>ctx.HandleError\<close>: the configured observer is told the error; it returns nothing.\<close>

definition HandleError :: "go_error \<Rightarrow> ('st, unit) M" where
  "HandleError err = modM (\<lambda>w. w\<lparr>w_handled := w_handled w @ [err]\<rparr>)"

definition writeError :: "'st Context \<Rightarrow> go_error \<Rightarrow> ('st, unit) M" where
  "writeError ctx err =
     tryM (HandleError err) (\<lambda>_.
     runM (Write ctx (error_json (public_error ctx err)) (Error_StatusCode (public_error ctx err))) (\<lambda>r. case r of
        Inr u \<Rightarrow> okM ()
      | Inl e \<Rightarrow> tryM (WriteHeader 500 None) (\<lambda>_. failM e)))"

section \<open>Running external calls\<close>

lemma call_run [run_simps, simp]:
  "callM f w = (Inr (f (w_calls w)), w\<lparr>w_calls := Suc (w_calls w)\<rparr>)"
  "callE g w = (g (w_calls w), w\<lparr>w_calls := Suc (w_calls w)\<rparr>)"
  by (simp_all add: callM_def callE_def)

lemma callO_ok [ok_simps]: "callO f w = (Inr u, w') \<longleftrightarrow> f (w_calls w) = None \<and> w' = w\<lparr>w_calls := Suc (w_calls w)\<rparr>"
  by (auto simp: callO_def split: option.splits)

lemma callE_ok [ok_simps]: "callE f w = (Inr x, w') \<longleftrightarrow> f (w_calls w) = Inr x \<and> w' = w\<lparr>w_calls := Suc (w_calls w)\<rparr>"
  by auto

lemma liftE_ok [ok_simps]: "liftE r w = (Inr x, w') \<longleftrightarrow> r = Inr x \<and> w' = w"
  by (auto simp: liftE_def split: sum.splits)

lemma storeM_ok [ok_simps]:
  "storeM f w = (r, w') \<longleftrightarrow>
     (\<exists>s. f (w_calls w) (w_store w) = (r, s) \<and> w' = w\<lparr>w_calls := Suc (w_calls w), w_store := s\<rparr>)"
  by (auto simp: storeM_def split: prod.splits)

lemma touchM_run [run_simps, simp]: "touchM f w = (Inr (), w\<lparr>w_store := f (w_store w)\<rparr>)"
  by (simp add: touchM_def)

lemma attemptM_run [run_simps, simp]: "attemptM m w = (Inr (fst (m w)), snd (m w))"
  by (simp add: attemptM_def runM_def split: prod.split)

lemma unless_cancelled_ok [ok_simps]:
  "unless_cancelled ctx wrap w = (Inr u, w') \<longleftrightarrow>
     l_CtxErr (cx_Lib ctx) (w_calls w) = None \<and> w' = w\<lparr>w_calls := Suc (w_calls w)\<rparr>"
  by (auto simp: unless_cancelled_def ctx_Err_def ok_simps)

text \<open>Predicates that speak of the store, the grant object and a lower bound on the number of calls are kept by
  everything that is neither a call of a manager nor an assignment to the grant object. What a request writes out
  (its responses, the errors it reports, its evidence) may be mentioned too, where nothing is written out.\<close>

definition outputs :: "'st World \<Rightarrow> (int \<times> json option) list \<times> TokenEndpointEvidence list \<times> go_error list \<times> bool option" where
  "outputs w = (w_written w, w_evidence w, w_handled w, map_option evs_emitted (w_tokenEndpointEvidence w))"

definition stable :: "('st World \<Rightarrow> bool) \<Rightarrow> bool" where
  "stable P \<longleftrightarrow> (\<forall>w w'. P w \<longrightarrow> w_store w' = w_store w \<longrightarrow> w_grant w' = w_grant w \<longrightarrow> w_grantShared w' = w_grantShared w
     \<longrightarrow> w_calls w \<le> w_calls w' \<longrightarrow> outputs w' = outputs w \<longrightarrow> P w')"

definition inner :: "('st World \<Rightarrow> bool) \<Rightarrow> bool" where
  "inner P \<longleftrightarrow> (\<forall>w w'. P w \<longrightarrow> w_store w' = w_store w \<longrightarrow> w_grant w' = w_grant w \<longrightarrow> w_grantShared w' = w_grantShared w
     \<longrightarrow> w_calls w \<le> w_calls w' \<longrightarrow> P w')"

lemma inner_stable: "inner P \<Longrightarrow> stable P"
  unfolding inner_def stable_def by blast

lemma stable_store [frame_intros]: "stable (\<lambda>w. Q (w_store w) (w_grant w) (w_grantShared w))"
  by (simp add: stable_def)

lemma inner_calls [frame_intros]: "inner (\<lambda>w. n \<le> w_calls w)"
  by (auto simp: inner_def)

lemmas stable_calls [frame_intros] = inner_calls [THEN inner_stable]

lemma stable_conj [frame_intros]: "stable P \<Longrightarrow> stable Q \<Longrightarrow> stable (\<lambda>w. P w \<and> Q w)"
  unfolding stable_def by blast

lemma stable_keeps: "stable P \<Longrightarrow> (\<And>w. w_store (snd (m w)) = w_store w \<and> w_grant (snd (m w)) = w_grant w \<and> w_grantShared (snd (m w)) = w_grantShared w
      \<and> w_calls w \<le> w_calls (snd (m w)) \<and> outputs (snd (m w)) = outputs w) \<Longrightarrow> keeps P m"
  unfolding stable_def keeps_def by blast

lemma inner_keeps: "inner P \<Longrightarrow> (\<And>w. w_store (snd (m w)) = w_store w \<and> w_grant (snd (m w)) = w_grant w \<and> w_grantShared (snd (m w)) = w_grantShared w
      \<and> w_calls w \<le> w_calls (snd (m w))) \<Longrightarrow> keeps P m"
  unfolding inner_def keeps_def by blast

text \<open>What writes to the grant object keeps a lower bound on the number of calls.\<close>

lemma calls_assignGrant [frame_intros]: "keeps (\<lambda>w. m \<le> w_calls w) (assignGrant ctx f)"
  by (rule keepsI) (auto simp: assignGrant_def Let_def split: if_splits)

lemma keeps_callM [frame_intros]: "stable P \<Longrightarrow> keeps P (callM f)"
  by (rule stable_keeps) (simp_all add: outputs_def)

lemma keeps_callE [frame_intros]: "stable P \<Longrightarrow> keeps P (callE f)"
  by (rule stable_keeps) (simp_all add: outputs_def)

lemma keeps_callO [frame_intros]: "stable P \<Longrightarrow> keeps P (callO f)"
  by (rule stable_keeps) (simp_all add: callO_def outputs_def)

lemma keeps_liftE [frame_intros]: "keeps P (liftE r)"
  by (auto simp: liftE_def keeps_def split: sum.splits)

lemma keeps_attempt [frame_intros]: "keeps P m \<Longrightarrow> keeps P (attemptM m)"
  unfolding attemptM_def by (intro frame_intros)

lemma keeps_unless_cancelled [frame_intros]: "stable P \<Longrightarrow> keeps P (unless_cancelled ctx wrap)"
  unfolding unless_cancelled_def ctx_Err_def by (intro frame_intros)

lemma keeps_Now [frame_intros]:
  "stable P \<Longrightarrow> keeps P (Now ctx)" "stable P \<Longrightarrow> keeps P (TimestampNow ctx)"
  "stable P \<Longrightarrow> keeps P (ctx_Err ctx)"
  unfolding Now_def TimestampNow_def ctx_Err_def by (intro frame_intros; assumption)+

lemma keeps_ReserveJTI [frame_intros]: "stable P \<Longrightarrow> keeps P (ReserveJTI ctx use c d)"
  unfolding ReserveJTI_def ConsumeJTIUse_def by (intro frame_intros)

lemma keeps_policy [frame_intros]: "stable P \<Longrightarrow> keeps P (ApplyPrivateKeyJWTAssertionPolicy ctx a)"
  unfolding ApplyPrivateKeyJWTAssertionPolicy_def by (intro frame_intros)

lemma keeps_AccessTokenClaims [frame_intros]: "stable P \<Longrightarrow> keeps P (AccessTokenClaims ctx i)"
  unfolding AccessTokenClaims_def by (intro frame_intros)

lemma keeps_request_state [frame_intros]:
  "stable P \<Longrightarrow> keeps P (RecordClientAssertionAuthority i a)"
  "stable P \<Longrightarrow> keeps P BeginClientAssertionAuthentication"
  "stable P \<Longrightarrow> keeps P (MarkTokenEndpointClientAuthenticated i)"
  by (erule stable_keeps, auto simp: RecordClientAssertionAuthority_def BeginClientAssertionAuthentication_def
      MarkTokenEndpointClientAuthenticated_def mark_authenticated_def outputs_def option.map_comp comp_def
      intro!: option.map_cong0 split: option.splits)+

lemma keeps_evidence [frame_intros]:
  "inner P \<Longrightarrow> keeps P (BeginTokenEndpointEvidence ctx)" "inner P \<Longrightarrow> keeps P (EmitTokenEndpointEvidence ctx res)"
  by (erule inner_keeps, auto simp: BeginTokenEndpointEvidence_def EmitTokenEndpointEvidence_def split: option.splits)+

lemma keeps_authority [frame_intros]: "keeps P (ClientAssertionAuthority c)"
  by (simp add: keeps_def ClientAssertionAuthority_def)

lemma keeps_keys [frame_intros]:
  "stable P \<Longrightarrow> keeps P (JWKS_of ctx)" "stable P \<Longrightarrow> keeps P (SigAlgs ctx)"
  "stable P \<Longrightarrow> keeps P (JWK ctx kid)" "stable P \<Longrightarrow> keeps P (PublicJWK ctx kid)"
  "stable P \<Longrightarrow> keeps P (JWKByAlg_of ctx alg)"
  unfolding JWKS_of_def SigAlgs_def JWK_def PublicJWK_def JWKByAlg_of_def by (intro frame_intros; assumption)+

lemma keeps_Sign [frame_intros]: "stable P \<Longrightarrow> keeps P (Sign ctx claims alg typ)"
  unfolding Sign_def Let_def by (intro frame_intros)

lemma keeps_headers [frame_intros]:
  "stable P \<Longrightarrow> keeps P (set_header k v)" "stable P \<Longrightarrow> keeps P (add_header k v)"
  by (erule stable_keeps, simp add: set_header_def add_header_def outputs_def)+

lemma keeps_output [frame_intros]: "inner P \<Longrightarrow> keeps P (WriteHeader s b)" "inner P \<Longrightarrow> keeps P (HandleError e)"
  by (erule inner_keeps, simp add: WriteHeader_def HandleError_def)+

lemma keeps_Write [frame_intros]:
  "inner P \<Longrightarrow> keeps P (Write ctx obj s)" "inner P \<Longrightarrow> keeps P (writeError ctx e)"
  unfolding Write_def writeError_def by (intro frame_intros; (erule inner_stable)?; assumption?)+

section \<open>Errors of the context operations\<close>

lemma fails_callM [fail_intros]: "fails_in P (callM f)"
  by (simp add: fails_in_def)

lemma fails_Now [fail_intros]: "fails_in P (Now ctx)" "fails_in P (TimestampNow ctx)" "fails_in P (ctx_Err ctx)"
  unfolding Now_def TimestampNow_def ctx_Err_def by (intro fail_intros)+

lemma fails_touch [fail_intros]: "fails_in P (touchM f)"
  unfolding touchM_def by (intro fail_intros)

lemma fails_headers [fail_intros]:
  "fails_in P (set_header k v)" "fails_in P (add_header k v)" "fails_in P (WriteHeader s b)"
  unfolding set_header_def add_header_def WriteHeader_def by (intro fail_intros)+

lemma fails_request_state [fail_intros]:
  "fails_in P (RecordClientAssertionAuthority i a)" "fails_in P BeginClientAssertionAuthentication"
  "fails_in P (MarkTokenEndpointClientAuthenticated i)"
  unfolding RecordClientAssertionAuthority_def BeginClientAssertionAuthentication_def
    MarkTokenEndpointClientAuthenticated_def by (intro fail_intros)+

text \<open>An OAuth error with one of the given codes.\<close>

definition code_in :: "ErrorCode set \<Rightarrow> go_error \<Rightarrow> bool" where
  "code_in cs e \<longleftrightarrow> (\<exists>x. errors_As e = Some x \<and> err_Code x \<in> cs)"

lemma code_in_wrap [simp]: "code_in cs (WrapError c d e) \<longleftrightarrow> c \<in> cs" "code_in cs (NewError c d) \<longleftrightarrow> c \<in> cs"
  by (simp_all add: code_in_def)

lemma code_in_status [simp]: "code_in cs (WithStatusCode (NewError c d) s) \<longleftrightarrow> c \<in> cs"
  "code_in cs (WithStatusCode (WrapError c d e) s) \<longleftrightarrow> c \<in> cs"
  by (simp_all add: code_in_def NewError_def WrapError_def)

lemma fails_unless_cancelled [fail_intros]: "(\<And>e. P (wrap e)) \<Longrightarrow> fails_in P (unless_cancelled ctx wrap)"
  unfolding unless_cancelled_def by (auto intro!: fail_intros)

text \<open>A failed reservation is the given rejection or a server error.\<close>

lemma fails_ReserveJTI [fail_intros]:
  "c \<in> cs \<Longrightarrow> ErrorCodeServerError \<in> cs \<Longrightarrow> fails_in (code_in cs) (ReserveJTI ctx use c d)"
  unfolding ReserveJTI_def by (intro fail_intros) (auto simp: reserve_result_def split: if_splits)

section \<open>Authority evidence over a request\<close>

lemma record_authority_invalid: "cas_invalid st \<Longrightarrow> fold (\<lambda>(i, a). record_authority i a) rs st = st"
  by (induction rs) (auto simp: record_authority_def)

lemma record_authority_again:
  assumes "cas_recorded st" "\<not> cas_invalid st" "cas_authority st = Some a" "cas_authenticatedClientID st = i"
  shows "fold (\<lambda>(i, a). record_authority i a) rs st =
    (if set rs \<subseteq> {(i, a)} then st else st\<lparr>cas_authenticatedClientID := '''', cas_authority := None, cas_invalid := True\<rparr>)"
  using assms
proof (induction rs)
  case (Cons r rs)
  obtain j b where r: "r = (j, b)" by fastforce
  show ?case
  proof (cases "j = i \<and> b = a")
    case True
    with Cons r show ?thesis by (simp add: record_authority_def)
  next
    case False
    let ?bad = "st\<lparr>cas_authenticatedClientID := '''', cas_authority := None, cas_invalid := True\<rparr>"
    have "record_authority j b st = ?bad"
      using False Cons.prems by (auto simp: record_authority_def)
    with False r record_authority_invalid [of ?bad rs] show ?thesis by auto
  qed
qed simp

text \<open>The authority evidence a request hands out is what private-key authentication recorded, and
  nothing else: after any sequence of recordings the evidence names an authority exactly when the client
  is one that authenticates with an authority snapshot, at least one recording was made, all of them named
  that client and that authority, and the authority is well-formed. One conflicting recording withdraws the
  evidence for the rest of the request.\<close>

theorem authority_evidence_exact:
  "authority_evidence (Some (fold (\<lambda>(i, a). record_authority i a) rs fresh_authority_state)) client = Inr (Some a)
   \<longleftrightarrow> expects_authority client \<and> set rs = {(c_ID client, a)}
       \<and> vca_SnapshotRevision a > 0 \<and> vca_KeyAuthorityID a \<noteq> ''''"
proof (cases rs)
  case Nil
  then show ?thesis by (auto simp: authority_evidence_def fresh_authority_state_def)
next
  case (Cons r rs')
  obtain i b where r: "r = (i, b)" by fastforce
  let ?st = "record_authority i b fresh_authority_state"
  have st: "cas_recorded ?st" "\<not> cas_invalid ?st" "cas_authority ?st = Some b" "cas_authenticatedClientID ?st = i"
    by (auto simp: record_authority_def fresh_authority_state_def)
  show ?thesis
  proof (cases "set rs' \<subseteq> {(i, b)}")
    case True
    then have "fold (\<lambda>(i, a). record_authority i a) rs fresh_authority_state = ?st"
      using record_authority_again [OF st, of rs'] Cons r by simp
    moreover from True Cons r have "set rs = {(i, b)}" by auto
    ultimately show ?thesis
      using st by (auto simp: authority_evidence_def)
  next
    case False
    then have "cas_invalid (fold (\<lambda>(i, a). record_authority i a) rs fresh_authority_state)"
      using record_authority_again [OF st, of rs'] Cons r by simp
    moreover from False Cons r have "set rs \<noteq> {(c_ID client, a)}" by auto
    ultimately show ?thesis by (auto simp: authority_evidence_def)
  qed
qed

section \<open>Evidence over a request\<close>

text \<open>The events of a token request that its evidence state sees.\<close>

datatype evidence_event = Mark string | Emit TokenEndpointResult

definition evidence_step :: "'st Context \<Rightarrow> evidence_event \<Rightarrow> 'st World \<Rightarrow> 'st World" where
  "evidence_step ctx e w =
     (case e of Mark i \<Rightarrow> snd (MarkTokenEndpointClientAuthenticated i w)
      | Emit r \<Rightarrow> snd (EmitTokenEndpointEvidence ctx r w))"

lemma mark_stuck: "evs_attributionInvalid st \<Longrightarrow> fold mark_authenticated js st = st"
  by (induction js) (auto simp: mark_authenticated_def)

lemma mark_authenticated_run:
  assumes "\<not> evs_emitted st" "\<not> evs_attributionInvalid st" "evs_authenticatedClientID st = i" "i \<noteq> ''''"
  shows "fold mark_authenticated is st =
    (if set is \<subseteq> {i} then st else st\<lparr>evs_authenticatedClientID := '''', evs_attributionInvalid := True\<rparr>)"
  using assms
proof (induction "is")
  case (Cons j js)
  let ?bad = "st\<lparr>evs_authenticatedClientID := '''', evs_attributionInvalid := True\<rparr>"
  have "mark_authenticated j st = (if j = i then st else ?bad)"
    using Cons.prems by (simp add: mark_authenticated_def)
  with Cons mark_stuck [of ?bad js] show ?case by auto
qed simp

lemma mark_authenticated_fresh:
  assumes "\<not> evs_emitted st" "\<not> evs_attributionInvalid st" "evs_authenticatedClientID st = ''''"
  shows "(if evs_attributionInvalid (fold mark_authenticated is st) then ''''
          else evs_authenticatedClientID (fold mark_authenticated is st))
    = (if \<exists>i. set is = {i} then hd is else '''')"
proof (cases "is")
  case (Cons i js)
  show ?thesis
  proof (cases "i = ''''")
    case True
    let ?bad = "st\<lparr>evs_authenticatedClientID := '''', evs_attributionInvalid := True\<rparr>"
    from True assms have "mark_authenticated i st = ?bad"
      by (simp add: mark_authenticated_def)
    with True Cons mark_stuck [of ?bad js] show ?thesis by auto
  next
    case False
    with assms have "mark_authenticated i st = st\<lparr>evs_authenticatedClientID := i\<rparr>"
      by (simp add: mark_authenticated_def)
    with mark_authenticated_run [of "st\<lparr>evs_authenticatedClientID := i\<rparr>" i js] assms False Cons show ?thesis
      by auto
  qed
qed (use assms in auto)

lemma mark_fold:
  "w_tokenEndpointEvidence w = Some st \<Longrightarrow>
   fold (evidence_step ctx) (map Mark is) w = w\<lparr>w_tokenEndpointEvidence := Some (fold mark_authenticated is st)\<rparr>"
  by (induction "is" arbitrary: w st) (auto simp: evidence_step_def MarkTokenEndpointClientAuthenticated_def)

lemma emitted_stuck:
  "w_tokenEndpointEvidence w = Some st \<Longrightarrow> evs_emitted st \<Longrightarrow> fold (evidence_step ctx) es w = w"
proof (induction es)
  case (Cons e es)
  have "w\<lparr>w_tokenEndpointEvidence := Some st\<rparr> = w"
    using Cons.prems(1) by (metis World.surjective World.update_convs(7) World.select_convs(7))
  with Cons.prems have "evidence_step ctx e w = w"
    by (cases e) (auto simp: evidence_step_def MarkTokenEndpointClientAuthenticated_def mark_authenticated_def
        EmitTokenEndpointEvidence_def)
  with Cons show ?case by simp
qed simp

text \<open>a token request reports exactly one piece of evidence, however often reporting is attempted and
  whatever is marked afterwards: the first result reported, with the identity of the authenticated client
  when all identities marked before it agree, and without any identity when none was marked or two differ.\<close>

theorem evidence_reported_once:
  assumes "cf_TokenEndpointEvidenceFunc (cx ctx)" and "w_evidence w = []"
  shows "w_evidence (fold (evidence_step ctx) (map Mark is @ Emit r # es) (snd (BeginTokenEndpointEvidence ctx w)))
    = [\<lparr>tee_Result = (if validTokenEndpointResult r then r else TokenEndpointResultServerError),
        tee_AuthenticatedClientID = (if \<exists>i. set is = {i} then hd is else '''')\<rparr>]"
proof -
  let ?st = "\<lparr>evs_authenticatedClientID = '''', evs_attributionInvalid = False, evs_emitted = False\<rparr>"
  let ?w = "w\<lparr>w_tokenEndpointEvidence := Some ?st\<rparr>"
  let ?m = "fold mark_authenticated is ?st"
  have "evs_emitted ?m = False"
  proof -
    have "evs_emitted (fold mark_authenticated is st) = evs_emitted st" for st
      by (induction "is" arbitrary: st) (auto simp: mark_authenticated_def)
    then show ?thesis by simp
  qed
  moreover have "snd (BeginTokenEndpointEvidence ctx w) = ?w"
    using assms(1) by (simp add: BeginTokenEndpointEvidence_def)
  ultimately show ?thesis
    using mark_fold [of ?w ?st ctx "is"] assms mark_authenticated_fresh [of ?st "is"]
    by (simp add: evidence_step_def EmitTokenEndpointEvidence_def emitted_stuck)
qed

theorem evidence_reported_once_witness:
  "w_evidence (fold (evidence_step ((base_Context (mem_Managers (\<lambda>_. id)))\<lparr>cx := (base_Configuration (mem_Managers (\<lambda>_. id)))\<lparr>cf_TokenEndpointEvidenceFunc := True\<rparr>\<rparr>))
     [Mark ''c1'', Mark ''c1'', Emit TokenEndpointResultIssued, Mark ''c2'', Emit TokenEndpointResultServerError]
     (snd (BeginTokenEndpointEvidence ((base_Context (mem_Managers (\<lambda>_. id)))\<lparr>cx := (base_Configuration (mem_Managers (\<lambda>_. id)))\<lparr>cf_TokenEndpointEvidenceFunc := True\<rparr>\<rparr>)
        (start_World (NewManager 1) 0))))
   = [\<lparr>tee_Result = TokenEndpointResultIssued, tee_AuthenticatedClientID = ''c1''\<rparr>]"
  using evidence_reported_once [of "(base_Context (mem_Managers (\<lambda>_. id)))\<lparr>cx := (base_Configuration (mem_Managers (\<lambda>_. id)))\<lparr>cf_TokenEndpointEvidenceFunc := True\<rparr>\<rparr>"
      "start_World (NewManager 1) 0" "[''c1'', ''c1'']" TokenEndpointResultIssued "[Mark ''c2'', Emit TokenEndpointResultServerError]"]
  by (simp add: start_World_def validTokenEndpointResult_def)

end
