(* ===== verification/HumanValues.thy ===== *)
theory HumanValues
  imports Context
begin

text \<open>
  The sealed values of the strict human flow, \<^verbatim>\<open>pkg/goidc/human_authorization.go\<close>: the grammar of capabilities, the
  validity of the inputs handed to the authority and of the decisions it returns, and the panic-safe call of
  the authority in \<^verbatim>\<open>internal/oidc/context.go\<close>. The regular expressions are written out.

  Times are 64-bit in the source; the differences computed are of positive values and cannot wrap around.
\<close>

section \<open>Character classes and patterns\<close>

definition lower_or_digit :: "char \<Rightarrow> bool" where
  "lower_or_digit c \<longleftrightarrow> (let b = byte c in (0x61 \<le> b \<and> b \<le> 0x7A) \<or> (0x30 \<le> b \<and> b \<le> 0x39))"

definition lower_letter :: "char \<Rightarrow> bool" where
  "lower_letter c \<longleftrightarrow> (let b = byte c in 0x61 \<le> b \<and> b \<le> 0x7A)"

definition alnum :: "char \<Rightarrow> bool" where
  "alnum c \<longleftrightarrow> (let b = byte c in (0x61 \<le> b \<and> b \<le> 0x7A) \<or> (0x41 \<le> b \<and> b \<le> 0x5A) \<or> (0x30 \<le> b \<and> b \<le> 0x39))"

text \<open>The expression \<^verbatim>\<open>^F[R]{lo,hi}$\<close> with a first class and a class for the rest.\<close>

definition matches :: "(char \<Rightarrow> bool) \<Rightarrow> (char \<Rightarrow> bool) \<Rightarrow> nat \<Rightarrow> nat \<Rightarrow> string \<Rightarrow> bool" where
  "matches first rest lo hi s =
     (case s of [] \<Rightarrow> False | c # cs \<Rightarrow> first c \<and> list_all rest cs \<and> lo \<le> length cs \<and> length cs \<le> hi)"

definition humanAuthorizationUnreserved :: "char \<Rightarrow> bool" where
  "humanAuthorizationUnreserved c \<longleftrightarrow> alnum c \<or> c = CHR ''-'' \<or> c = CHR ''.'' \<or> c = CHR ''_'' \<or> c = CHR ''~''"

definition humanAuthorizationClientIDPattern :: "string \<Rightarrow> bool" where
  "humanAuthorizationClientIDPattern = matches alnum humanAuthorizationUnreserved 0 127"

definition humanAuthorizationHandlePattern :: "string \<Rightarrow> bool" where
  "humanAuthorizationHandlePattern = matches alnum humanAuthorizationUnreserved 15 127"

definition humanAuthorizationKeyIDPattern :: "string \<Rightarrow> bool" where
  "humanAuthorizationKeyIDPattern = matches alnum humanAuthorizationUnreserved 0 127"

definition scope_char :: "char \<Rightarrow> bool" where
  "scope_char c \<longleftrightarrow> lower_or_digit c \<or> c = CHR ''.'' \<or> c = CHR ''_'' \<or> c = CHR '':'' \<or> c = CHR ''-''"

definition humanAuthorizationScopePattern :: "string \<Rightarrow> bool" where
  "humanAuthorizationScopePattern = matches lower_letter scope_char 0 127"

definition humanAuthorizationAssurancePattern :: "string \<Rightarrow> bool" where
  "humanAuthorizationAssurancePattern =
     matches alnum (\<lambda>c. alnum c \<or> c = CHR ''.'' \<or> c = CHR ''_'' \<or> c = CHR '':'' \<or> c = CHR ''/'' \<or> c = CHR ''-'') 0 127"

definition humanAuthorizationMethodPattern :: "string \<Rightarrow> bool" where
  "humanAuthorizationMethodPattern = matches lower_letter scope_char 0 63"

definition host_label :: "string \<Rightarrow> bool" where
  "host_label l \<longleftrightarrow> l \<noteq> [] \<and> length l \<le> 63 \<and> lower_or_digit (hd l) \<and> lower_or_digit (last l)
     \<and> list_all (\<lambda>c. lower_or_digit c \<or> c = CHR ''-'') l"

definition humanAuthorizationHostPattern :: "string \<Rightarrow> bool" where
  "humanAuthorizationHostPattern s \<longleftrightarrow>
     (let labels = split_on CHR ''.'' s in length labels \<ge> 2 \<and> list_all host_label labels)"

definition humanAuthorizationPathPattern :: "string \<Rightarrow> bool" where
  "humanAuthorizationPathPattern s =
     (case s of [] \<Rightarrow> False
      | c # cs \<Rightarrow> c = CHR ''/'' \<and> list_all (\<lambda>c. humanAuthorizationUnreserved c \<or> c = CHR ''/'') cs)"

text \<open>\<^verbatim>\<open>net.ParseIP\<close> on a host without a colon: four decimal octets without leading zeros. A host with a colon, an
  IPv6 address, is refused by the host pattern.\<close>

definition is_IPv4 :: "string \<Rightarrow> bool" where
  "is_IPv4 s \<longleftrightarrow>
     (let parts = split_on CHR ''.'' s in length parts = 4
      \<and> list_all (\<lambda>p. p \<noteq> [] \<and> length p \<le> 3 \<and> list_all is_digit p \<and> (length p > 1 \<longrightarrow> hd p \<noteq> CHR ''0'') \<and> digits_value 0 p \<le> 255) parts)"

fun contains_double_slash :: "string \<Rightarrow> bool" where
  "contains_double_slash (a # b # s) = (a = CHR ''/'' \<and> b = CHR ''/'' \<or> contains_double_slash (b # s))"
| "contains_double_slash _ = False"

text \<open>Comparison of strings by bytes.\<close>

fun string_less :: "string \<Rightarrow> string \<Rightarrow> bool" where
  "string_less _ [] = False"
| "string_less [] (y # ys) = True"
| "string_less (x # xs) (y # ys) = (byte x < byte y \<or> x = y \<and> string_less xs ys)"

fun strictly_increasing :: "string list \<Rightarrow> bool" where
  "strictly_increasing (a # b # r) = (string_less a b \<and> strictly_increasing (b # r))"
| "strictly_increasing _ = True"

section \<open>Validity of the parts\<close>

definition humanCapabilityPayloadBytes :: nat where "humanCapabilityPayloadBytes = 43"
definition humanAuthorizationCodePrefix :: string where "humanAuthorizationCodePrefix = ''d0_hac_1_''"
definition humanRefreshCapabilityPrefix :: string where "humanRefreshCapabilityPrefix = ''d0_hrt_1_''"
definition maxHumanRefreshTokenLifetime :: int where "maxHumanRefreshTokenLifetime = 24 * 60 * 60"

text \<open>\<^verbatim>\<open>validHumanBase64URL256\<close>: strict decoding also refuses stray trailing bits, which re-encoding would not
  reproduce.\<close>

definition validHumanBase64URL256 :: "string \<Rightarrow> bool" where
  "validHumanBase64URL256 value \<longleftrightarrow>
     length value = humanCapabilityPayloadBytes \<and>
     (case RawURLDecode value of
        None \<Rightarrow> False
      | Some decoded \<Rightarrow> length decoded = 32 \<and> b64_encode decoded = value \<and> list_ex (\<lambda>b. b \<noteq> 0) decoded)"

definition validHumanCapability :: "string \<Rightarrow> string \<Rightarrow> bool" where
  "validHumanCapability value prefix \<longleftrightarrow>
     length value = length prefix + humanCapabilityPayloadBytes \<and> strings_HasPrefix value prefix
     \<and> validHumanBase64URL256 (drop (length prefix) value)"

definition newHumanCapabilityState :: "string \<Rightarrow> string \<Rightarrow> HumanCapability" where
  "newHumanCapabilityState value prefix = (if validHumanCapability value prefix then Some value else None)"

definition validHumanCapabilityState :: "HumanCapability \<Rightarrow> string \<Rightarrow> bool" where
  "validHumanCapabilityState state prefix = (case state of None \<Rightarrow> False | Some value \<Rightarrow> validHumanCapability value prefix)"

definition renderHumanCapability :: "HumanCapability \<Rightarrow> string \<Rightarrow> string option" where
  "renderHumanCapability state prefix = (if validHumanCapabilityState state prefix then state else None)"

definition NewHumanAuthorizationCode :: "string \<Rightarrow> HumanAuthorizationCode" where
  "NewHumanAuthorizationCode value = newHumanCapabilityState value humanAuthorizationCodePrefix"

definition HumanAuthorizationCode_Valid :: "HumanAuthorizationCode \<Rightarrow> bool" where
  "HumanAuthorizationCode_Valid value = validHumanCapabilityState value humanAuthorizationCodePrefix"

definition NewHumanRefreshToken :: "string \<Rightarrow> HumanRefreshToken" where
  "NewHumanRefreshToken value = newHumanCapabilityState value humanRefreshCapabilityPrefix"

definition HumanRefreshToken_Valid :: "HumanRefreshToken \<Rightarrow> bool" where
  "HumanRefreshToken_Valid value = validHumanCapabilityState value humanRefreshCapabilityPrefix"

definition HumanRefreshToken_Render :: "HumanRefreshToken \<Rightarrow> string option" where
  "HumanRefreshToken_Render value = renderHumanCapability value humanRefreshCapabilityPrefix"

definition validHumanRefreshTokenExpiry :: "int \<Rightarrow> int \<Rightarrow> bool" where
  "validHumanRefreshTokenExpiry createdAt refreshTokenExpiresAt \<longleftrightarrow>
     createdAt > 0 \<and> refreshTokenExpiresAt > createdAt \<and> refreshTokenExpiresAt - createdAt \<le> maxHumanRefreshTokenLifetime"

definition validHumanClientID :: "string \<Rightarrow> bool" where
  "validHumanClientID value = humanAuthorizationClientIDPattern value"

definition validHumanClientAssertionAuthority :: "VerifiedClientAssertionAuthority \<Rightarrow> bool" where
  "validHumanClientAssertionAuthority authority \<longleftrightarrow>
     vca_SnapshotRevision authority > 0 \<and> humanAuthorizationKeyIDPattern (vca_KeyAuthorityID authority)"

definition validHumanOpaqueParameter :: "string \<Rightarrow> bool" where
  "validHumanOpaqueParameter value \<longleftrightarrow>
     16 \<le> length value \<and> length value \<le> 512 \<and> list_all (\<lambda>c. 0x21 \<le> byte c \<and> byte c \<le> 0x7E) value"

definition validHumanCodeVerifier :: "string \<Rightarrow> bool" where
  "validHumanCodeVerifier value \<longleftrightarrow> 43 \<le> length value \<and> length value \<le> 128 \<and> list_all humanAuthorizationUnreserved value"

definition validHumanStringSet :: "string list \<Rightarrow> nat \<Rightarrow> (string \<Rightarrow> bool) \<Rightarrow> bool" where
  "validHumanStringSet values maximum validate \<longleftrightarrow>
     1 \<le> length values \<and> length values \<le> maximum \<and> list_all validate values \<and> strictly_increasing values"

definition humanASCII :: "string \<Rightarrow> bool" where
  "humanASCII value = list_all (\<lambda>c. byte c \<le> 0x7F) value"

definition validHumanAbsoluteHTTPSURI :: "Lib \<Rightarrow> string \<Rightarrow> bool" where
  "validHumanAbsoluteHTTPSURI lib value \<longleftrightarrow>
     value \<noteq> '''' \<and> length value \<le> 512 \<and> \<not> strings_Contains value CHR ''*'' \<and> humanASCII value \<and>
     (case l_url_ParseRequestURI lib value of
        Inl err \<Rightarrow> False
      | Inr parsed \<Rightarrow>
          u_Scheme parsed = ''https'' \<and> u_Host parsed \<noteq> '''' \<and> u_User parsed = None \<and> u_Fragment parsed = ''''
          \<and> u_RawFragment parsed = '''' \<and> u_Opaque parsed = '''' \<and> u_RawPath parsed = '''' \<and> \<not> u_ForceQuery parsed
          \<and> u_RawQuery parsed = '''' \<and> l_url_String lib parsed = value \<and> u_Host parsed = strings_ToLower (u_Host parsed)
          \<and> url_Port parsed = '''' \<and> \<not> is_IPv4 (url_Hostname parsed) \<and> humanAuthorizationHostPattern (url_Hostname parsed)
          \<and> url_Hostname parsed = u_Host parsed \<and> humanAuthorizationPathPattern (u_Path parsed)
          \<and> \<not> contains_double_slash (u_Path parsed)
          \<and> list_all (\<lambda>segment. segment \<noteq> ''.'' \<and> segment \<noteq> ''..'') (split_on CHR ''/'' (u_Path parsed)))"

section \<open>Inputs and decisions\<close>

definition HumanCodeRedemptionInput_Valid :: "Lib \<Rightarrow> HumanCodeRedemptionInput \<Rightarrow> bool" where
  "HumanCodeRedemptionInput_Valid lib input \<longleftrightarrow>
     HumanAuthorizationCode_Valid (hri_authorizationCode input) \<and> validHumanCodeVerifier (hri_codeVerifier input)
     \<and> validHumanAbsoluteHTTPSURI lib (hri_redirectURI input) \<and> validHumanClientID (hri_clientID input)
     \<and> validHumanClientAssertionAuthority (hri_clientAssertionAuthority input)"

definition NewHumanCodeRedemptionInput :: "Lib \<Rightarrow> HumanCodeRedemptionInput \<Rightarrow> HumanCodeRedemptionInput option" where
  "NewHumanCodeRedemptionInput lib input = (if HumanCodeRedemptionInput_Valid lib input then Some input else None)"

definition HumanRefreshRevocationInput_Valid :: "HumanRefreshRevocationInput \<Rightarrow> bool" where
  "HumanRefreshRevocationInput_Valid input \<longleftrightarrow>
     HumanRefreshToken_Valid (hrv_refreshToken input) \<and> validHumanClientID (hrv_clientID input)
     \<and> validHumanClientAssertionAuthority (hrv_clientAssertionAuthority input)"

definition NewHumanRefreshRevocationInput :: "HumanRefreshRevocationInput \<Rightarrow> HumanRefreshRevocationInput option" where
  "NewHumanRefreshRevocationInput input = (if HumanRefreshRevocationInput_Valid input then Some input else None)"

definition rejected_state :: "humanCodeRedemptionDecisionState \<Rightarrow> bool" where
  "rejected_state state \<longleftrightarrow>
     \<not> HumanRefreshToken_Valid (hrd_refreshToken state) \<and> hrd_refreshTokenExpiresAt state = 0 \<and> hrd_grantID state = ''''
     \<and> hrd_subject state = '''' \<and> hrd_organizationID state = '''' \<and> hrd_membershipID state = ''''
     \<and> hrd_membershipRevision state = 0 \<and> hrd_clientID state = ''''
     \<and> hrd_clientAssertionAuthority state = \<lparr>vca_SnapshotRevision = 0, vca_KeyAuthorityID = ''''\<rparr>
     \<and> hrd_scopes state = [] \<and> hrd_resources state = [] \<and> hrd_nonce state = '''' \<and> hrd_authenticationTime state = 0
     \<and> hrd_authenticationContext state = '''' \<and> hrd_authenticationMethods state = [] \<and> hrd_createdAt state = 0
     \<and> hrd_expiresAt state = 0"

definition redeemed_state :: "Lib \<Rightarrow> humanCodeRedemptionDecisionState \<Rightarrow> bool" where
  "redeemed_state lib state \<longleftrightarrow>
     hrd_outcome state = HumanCodeRedemptionOutcomeRedeemed \<and> humanAuthorizationHandlePattern (hrd_grantID state)
     \<and> validHumanOpaqueParameter (hrd_subject state) \<and> validHumanClientID (hrd_clientID state)
     \<and> humanAuthorizationHandlePattern (hrd_organizationID state) \<and> humanAuthorizationHandlePattern (hrd_membershipID state)
     \<and> hrd_membershipRevision state > 0 \<and> validHumanClientAssertionAuthority (hrd_clientAssertionAuthority state)
     \<and> validHumanStringSet (hrd_scopes state) 32 humanAuthorizationScopePattern
     \<and> ScopeOpenID_ID \<in> set (hrd_scopes state)
     \<and> validHumanStringSet (hrd_resources state) 8 (validHumanAbsoluteHTTPSURI lib)
     \<and> validHumanOpaqueParameter (hrd_nonce state) \<and> hrd_authenticationTime state > 0
     \<and> hrd_authenticationTime state \<le> hrd_createdAt state
     \<and> humanAuthorizationAssurancePattern (hrd_authenticationContext state)
     \<and> validHumanStringSet (hrd_authenticationMethods state) 8 humanAuthorizationMethodPattern
     \<and> hrd_createdAt state > 0 \<and> hrd_expiresAt state > hrd_createdAt state
     \<and> hrd_expiresAt state - hrd_createdAt state \<le> 600
     \<and> (if ScopeOfflineAccess_ID \<in> set (hrd_scopes state)
        then HumanRefreshToken_Valid (hrd_refreshToken state)
          \<and> validHumanRefreshTokenExpiry (hrd_createdAt state) (hrd_refreshTokenExpiresAt state)
        else \<not> HumanRefreshToken_Valid (hrd_refreshToken state) \<and> hrd_refreshTokenExpiresAt state = 0)"

definition HumanCodeRedemptionDecision_Valid :: "Lib \<Rightarrow> HumanCodeRedemptionDecision \<Rightarrow> bool" where
  "HumanCodeRedemptionDecision_Valid lib decision =
     (case decision of
        None \<Rightarrow> False
      | Some state \<Rightarrow>
          if hrd_outcome state = HumanCodeRedemptionOutcomeRejected then rejected_state state else redeemed_state lib state)"

section \<open>Calling the authority\<close>

definition humanAuthorizationAuthorityServerError :: go_error where
  "humanAuthorizationAuthorityServerError =
     WrapError ErrorCodeServerError ''server error'' (ErrNew ''human authorization authority failed'')"

definition callHumanAuthorizationAuthority ::
  "'st Context \<Rightarrow> bool \<Rightarrow> (HumanAuthorizationAuthority \<Rightarrow> nat \<Rightarrow> (go_error + 'o) option) \<Rightarrow> ('o \<Rightarrow> bool) \<Rightarrow> ('st, 'o) M" where
  "callHumanAuthorizationAuthority ctx inputValid invoke acceptable =
     (let failed = humanAuthorizationAuthorityServerError in
      case (if inputValid then cf_HumanAuthorizationAuthority (cx ctx) else None) of
        None \<Rightarrow> failM failed
      | Some authority \<Rightarrow>
          tryM (unless_cancelled ctx (\<lambda>_. failed)) (\<lambda>_.
          tryM (callM (invoke authority)) (\<lambda>r. case r of
             None \<Rightarrow> failM failed
           | Some (Inl callbackErr) \<Rightarrow> failM failed
           | Some (Inr output) \<Rightarrow>
               tryM (unless_cancelled ctx (\<lambda>_. failed)) (\<lambda>_.
               guardM (\<not> acceptable output) failed (okM output)))))"

definition HumanRedeemAuthorizationCode ::
  "'st Context \<Rightarrow> HumanCodeRedemptionInput \<Rightarrow> ('st, HumanCodeRedemptionDecision) M" where
  "HumanRedeemAuthorizationCode ctx input =
     callHumanAuthorizationAuthority ctx (HumanCodeRedemptionInput_Valid (cx_Lib ctx) input)
       (\<lambda>authority n. ha_RedeemAuthorizationCode authority n input)
       (\<lambda>decision. HumanCodeRedemptionDecision_Valid (cx_Lib ctx) decision \<and>
          (case decision of None \<Rightarrow> False | Some state \<Rightarrow>
             hrd_outcome state = HumanCodeRedemptionOutcomeRejected
             \<or> hrd_clientID state = hri_clientID input \<and> hrd_clientAssertionAuthority state = hri_clientAssertionAuthority input))"

definition HumanRevokeRefreshToken :: "'st Context \<Rightarrow> HumanRefreshRevocationInput \<Rightarrow> ('st, unit) M" where
  "HumanRevokeRefreshToken ctx input =
     callHumanAuthorizationAuthority ctx (HumanRefreshRevocationInput_Valid input)
       (\<lambda>authority n. map_option (\<lambda>e. case e of None \<Rightarrow> Inr () | Some err \<Rightarrow> Inl err) (ha_RevokeRefreshToken authority n input))
       (\<lambda>_. True)"

section \<open>Facts\<close>

lemma keeps_callHuman [frame_intros]: "stable P \<Longrightarrow> keeps P (callHumanAuthorizationAuthority ctx v f a)"
  unfolding callHumanAuthorizationAuthority_def Let_def by (intro frame_intros)

lemma keeps_HumanAuthority [frame_intros]:
  "stable P \<Longrightarrow> keeps P (HumanRedeemAuthorizationCode ctx i)" "stable P \<Longrightarrow> keeps P (HumanRevokeRefreshToken ctx j)"
  unfolding HumanRedeemAuthorizationCode_def HumanRevokeRefreshToken_def by (intro frame_intros; assumption)+

lemma callHuman_ok:
  "callHumanAuthorizationAuthority ctx v f a w = (Inr x, w') \<Longrightarrow>
     v \<and> a x \<and> (\<exists>h. cf_HumanAuthorizationAuthority (cx ctx) = Some h \<and> f h (Suc (w_calls w)) = Some (Inr x))"
  unfolding callHumanAuthorizationAuthority_def Let_def
  by (auto simp: ok_simps split: option.splits sum.splits if_splits)

lemma HumanRedeem_ok:
  assumes "HumanRedeemAuthorizationCode ctx input w = (Inr decision, w')"
  shows "\<exists>h state. cf_HumanAuthorizationAuthority (cx ctx) = Some h \<and> decision = Some state
    \<and> ha_RedeemAuthorizationCode h (Suc (w_calls w)) input = Some (Inr decision)
    \<and> (if hrd_outcome state = HumanCodeRedemptionOutcomeRejected then rejected_state state
       else redeemed_state (cx_Lib ctx) state \<and> hrd_clientID state = hri_clientID input
         \<and> hrd_clientAssertionAuthority state = hri_clientAssertionAuthority input)"
  using callHuman_ok [OF assms [unfolded HumanRedeemAuthorizationCode_def]]
  by (auto simp: HumanCodeRedemptionDecision_Valid_def split: option.splits if_splits)

section \<open>The grammar of capabilities\<close>

lemma b64_encode_length: "length (b64_encode xs) = (4 * length xs + 2) div 3"
  by (induction xs rule: b64_encode.induct) auto

lemma b64_join_bytes: "b64_join vs = Some bs \<Longrightarrow> list_all (\<lambda>v. v < 64) vs \<Longrightarrow> list_all (\<lambda>b. b < 256) bs"
proof (induction vs arbitrary: bs rule: b64_join.induct)
  case (3 v w)
  then show ?case by auto
next
  case (4 v w x)
  then show ?case by auto
next
  case (5 v w x y s)
  then obtain r where r: "b64_join s = Some r" "bs = (v * 4 + w div 16) # (w mod 16 * 16 + x div 4) # (x mod 4 * 64 + y) # r"
    by auto
  from 5 r(1) have "list_all (\<lambda>b. b < 256) r" by auto
  moreover have "w mod 16 * 16 + x div 4 < 256" "x mod 4 * 64 + y < 256" "v * 4 + w div 16 < 256"
    using "5.prems"(2) by simp_all linarith+
  ultimately show ?case using r(2) by simp
qed auto

lemma byte_zero: "byte c = 0 \<longleftrightarrow> c = CHR 0x00"
proof -
  have "byte (CHR 0x00) = 0" by (simp add: byte_def)
  then show ?thesis by (metis byte_inject)
qed

lemma b64_value_lt: "b64_value c = Some v \<Longrightarrow> v < 64"
  by (auto simp: b64_value_def Let_def split: if_splits)

lemma RawURLDecode_bytes: "RawURLDecode s = Some bs \<Longrightarrow> list_all (\<lambda>b. b < 256) bs"
proof -
  assume d: "RawURLDecode s = Some bs"
  define vs where "vs = map b64_value (filter (\<lambda>c. c \<noteq> CHR 0x0A \<and> c \<noteq> CHR 0x0D) s)"
  from d have n: "None \<notin> set vs" and j: "b64_join (map the vs) = Some bs"
    unfolding RawURLDecode_def Let_def vs_def by (auto split: if_splits)
  have "list_all (\<lambda>v. v < 64) (map the vs)"
    unfolding list_all_iff
  proof
    fix x assume "x \<in> set (map the vs)"
    then obtain y where y: "y \<in> set vs" "x = the y" by auto
    with n obtain v where "y = Some v" by (cases y) auto
    moreover from y(1) obtain c where "y = b64_value c" unfolding vs_def by auto
    ultimately show "x < 64" using y(2) b64_value_lt by simp
  qed
  with b64_join_bytes [OF j] show ?thesis .
qed


end
