(* ===== verification/Dpop.thy ===== *)
theory Dpop
  imports Context
begin

text \<open>
  Validation of DPoP proofs, \<^verbatim>\<open>internal/dpop/util.go\<close>: the checks on the proof's header and claims, the
  parsing of its raw JSON members, the normalisation of target URIs, the server-provided nonces and the
  reservation of the proof's identifier. 64-bit arithmetic on times is written out.
\<close>

section \<open>Options and errors\<close>

record 'st ValidationOptions =
  vo_AccessToken :: string
  vo_JWKThumbprint :: string
  vo_NonceScope :: DPoPNonceScope
  vo_TokenEndpoint :: bool
  vo_OnProofValidated :: "('st, unit) M option"

definition maxDPoPJWTIDBytes :: nat where "maxDPoPJWTIDBytes = 512"
definition maxDPoPNonceBytes :: nat where "maxDPoPNonceBytes = 512"
definition maxJSONSafeInteger :: int where "maxJSONSafeInteger = 2 ^ 53 - 1"

definition invalidProofCode :: "bool \<Rightarrow> ErrorCode \<Rightarrow> string \<Rightarrow> ErrorCode \<times> string" where
  "invalidProofCode tokenEndpoint fallbackCode fallbackDescription =
     (if tokenEndpoint then (ErrorCodeInvalidDPoPProof, ''invalid DPoP proof'') else (fallbackCode, fallbackDescription))"

definition invalidProofError :: "bool \<Rightarrow> ErrorCode \<Rightarrow> string \<Rightarrow> go_error \<Rightarrow> go_error" where
  "invalidProofError tokenEndpoint fallbackCode fallbackDescription cause =
     (case invalidProofCode tokenEndpoint fallbackCode fallbackDescription of
        (code, description) \<Rightarrow> WrapError code description cause)"

definition dpopServerError :: "go_error \<Rightarrow> go_error" where
  "dpopServerError cause =
     WrapError ErrorCodeServerError ''server error'' (ErrBoundary ''DPoP state operation failed'' cause)"

section \<open>The proof in the request\<close>

text \<open>The header \<^verbatim>\<open>DPoP\<close> of the request: exactly one value counts.\<close>

definition DPoP_JWT :: "'st Context \<Rightarrow> string option" where
  "DPoP_JWT ctx = (case rq_Header (cx_Request ctx) ''DPoP'' of [jwt] \<Rightarrow> Some jwt | _ \<Rightarrow> None)"

definition HasJWT :: "'st Context \<Rightarrow> bool" where
  "HasJWT ctx = (rq_Header (cx_Request ctx) ''DPoP'' \<noteq> [])"

text \<open>\<^verbatim>\<open>JWKThumbprint\<close>; a token without a key in its first header, on which the code would panic, has none.\<close>

definition JWKThumbprint :: "Lib \<Rightarrow> string \<Rightarrow> SignatureAlgorithm list \<Rightarrow> string" where
  "JWKThumbprint lib dpopJWT algs =
     (case l_ParseSigned lib dpopJWT algs of
        Inl err \<Rightarrow> ''''
      | Inr parsed \<Rightarrow>
          (case jwt_Headers parsed of
             [] \<Rightarrow> ''''
           | h # _ \<Rightarrow>
               (case jh_JSONWebKey h of
                  None \<Rightarrow> ''''
                | Some jwk \<Rightarrow> (case l_Thumbprint lib jwk of Inl err \<Rightarrow> '''' | Inr jkt \<Rightarrow> RawURLEncode jkt))))"

section \<open>Raw claims\<close>

definition integerJSONNumber :: "string \<Rightarrow> go_error + int" where
  "integerJSONNumber raw =
     (case raw of
        [] \<Rightarrow> Inl (ErrNew ''missing number'')
      | c # rest \<Rightarrow>
          (let body = (if c = CHR ''-'' then rest else raw) in
           if body = [] then Inl (ErrNew ''invalid integer'')
           else if \<not> list_all is_digit body then Inl (ErrNew ''non-integer number'')
           else case ParseInt64 raw of
             None \<Rightarrow> Inl (ErrNew ''number is outside the JSON safe integer range'')
           | Some value \<Rightarrow>
               if value < - maxJSONSafeInteger \<or> value > maxJSONSafeInteger
               then Inl (ErrNew ''number is outside the JSON safe integer range'')
               else Inr value))"

text \<open>The scan of \<^verbatim>\<open>hasWellFormedJSONSurrogates\<close> over the text between the quotation marks; the index of the
  code's loop is the position of the remaining text.\<close>

function surrogate_scan :: "string \<Rightarrow> bool" where
  "surrogate_scan [] = True"
| "surrogate_scan (c # s) =
     (if c \<noteq> CHR 0x5C then surrogate_scan s
      else case s of
        [] \<Rightarrow> False
      | d # s2 \<Rightarrow>
          if d \<noteq> CHR ''u'' then surrogate_scan s2
          else if length s2 < 4 then False
          else case ParseUint16Hex (take 4 s2) of
            None \<Rightarrow> False
          | Some codeUnit \<Rightarrow>
              if 0xd800 \<le> codeUnit \<and> codeUnit \<le> 0xdbff then
                (if length (drop 4 s2) < 6 \<or> drop 4 s2 ! 0 \<noteq> CHR 0x5C \<or> drop 4 s2 ! 1 \<noteq> CHR ''u'' then False
                 else case ParseUint16Hex (take 4 (drop 6 s2)) of
                   None \<Rightarrow> False
                 | Some lowSurrogate \<Rightarrow>
                     if lowSurrogate < 0xdc00 \<or> lowSurrogate > 0xdfff then False
                     else surrogate_scan (drop 10 s2))
              else if 0xdc00 \<le> codeUnit \<and> codeUnit \<le> 0xdfff then False
              else surrogate_scan (drop 4 s2))"
  by pat_completeness auto
termination by (relation "measure length") auto

definition hasWellFormedJSONSurrogates :: "string \<Rightarrow> bool" where
  "hasWellFormedJSONSurrogates raw =
     (if length raw < 2 \<or> hd raw \<noteq> CHR 0x22 \<or> last raw \<noteq> CHR 0x22 then False
      else surrogate_scan (butlast (tl raw)))"

definition validateRawClaims :: "Lib \<Rightarrow> string \<Rightarrow> rawClaims \<Rightarrow> go_error + int \<times> string" where
  "validateRawClaims lib dpopJWT raw =
     (let parts = split_on CHR ''.'' dpopJWT in
      if length parts \<noteq> 3 then Inl (ErrNew ''the DPoP proof must use compact JWS serialization'')
      else if (case RawURLDecode (parts ! 1) of None \<Rightarrow> True | Some payload \<Rightarrow> \<not> utf8_Valid payload)
      then Inl (ErrNew ''the DPoP proof claims must be valid UTF-8 JSON'')
      else case integerJSONNumber (raw_IssuedAt raw) of
        Inl err \<Rightarrow> Inl (ErrNew ''the DPoP proof iat claim must be an integer NumericDate'')
      | Inr issuedAt \<Rightarrow>
          if raw_ID raw = [] \<or> \<not> utf8_ValidString (raw_ID raw) \<or> \<not> hasWellFormedJSONSurrogates (raw_ID raw)
          then Inl (ErrNew ''the DPoP proof jti claim must be a valid UTF-8 string'')
          else case l_UnmarshalString lib (raw_ID raw) of
            Inl err \<Rightarrow> Inl (ErrNew ''the DPoP proof jti claim is required and must be a string'')
          | Inr jti \<Rightarrow>
              if jti = '''' then Inl (ErrNew ''the DPoP proof jti claim is required and must be a string'')
              else if \<not> utf8_ValidString jti \<or> length jti > maxDPoPJWTIDBytes
              then Inl (ErrNew ''the DPoP proof jti claim must be valid UTF-8 and at most 512 bytes'')
              else Inr (issuedAt, jti))"

section \<open>Acceptance window\<close>

text \<open>Go's \<^verbatim>\<open>int64\<close>: results of additions and subtractions wrap around.\<close>

definition i64 :: "int \<Rightarrow> int" where
  "i64 x = (x + 2 ^ 63) mod 2 ^ 64 - 2 ^ 63"

definition MaxInt64 :: int where "MaxInt64 = 2 ^ 63 - 1"

text \<open>The end of the acceptance window of a proof, in nanoseconds.\<close>

definition reservationExpiry :: "'st Context \<Rightarrow> int \<Rightarrow> go_error + int" where
  "reservationExpiry ctx issuedAt =
     (let lifetime = i64 (cf_JWTLifetimeSecs (cx ctx)); leeway = i64 (cf_JWTLeewayTimeSecs (cx ctx)) in
      if lifetime < 0 \<or> leeway < 0 \<or> lifetime > i64 (MaxInt64 - leeway)
      then Inl (ErrNew ''invalid DPoP lifetime configuration'')
      else let validity = i64 (lifetime + leeway) in
        if issuedAt > i64 (MaxInt64 - validity)
        then Inl (ErrNew ''DPoP reservation expiry overflows NumericDate'')
        else Inr (i64 (issuedAt + validity) * second))"

section \<open>Target URIs\<close>

definition normalizeHTU :: "Lib \<Rightarrow> string \<Rightarrow> go_error + string" where
  "normalizeHTU lib raw =
     (case l_url_Parse lib raw of
        Inl err \<Rightarrow> Inl (ErrNew ''invalid DPoP target URI'')
      | Inr parsed \<Rightarrow>
          if u_Scheme parsed = '''' \<or> u_Host parsed = '''' \<or> u_Opaque parsed \<noteq> '''' \<or> u_User parsed \<noteq> None
          then Inl (ErrNew ''invalid DPoP target URI'')
          else if strings_HasSuffix (u_Host parsed) '':'' then Inl (ErrNew ''invalid empty DPoP target URI port'')
          else
            let scheme = strings_ToLower (u_Scheme parsed);
                hostname = strings_ToLower (url_Hostname parsed) in
            if hostname = '''' then Inl (ErrNew ''invalid DPoP target URI host'')
            else
              let port = (if (scheme = ''http'' \<and> url_Port parsed = ''80'') \<or> (scheme = ''https'' \<and> url_Port parsed = ''443'')
                          then '''' else url_Port parsed);
                  host = (if port \<noteq> '''' then JoinHostPort hostname port
                          else if strings_Contains hostname CHR '':'' then ''['' @ hostname @ '']''
                          else hostname)
              in Inr (l_url_String lib (parsed\<lparr>u_Scheme := scheme, u_Host := host,
                   u_Path := (if u_Path parsed = '''' then ''/'' else u_Path parsed)\<rparr>)))"

definition normalizeRequestHTU :: "Lib \<Rightarrow> string \<Rightarrow> go_error + string" where
  "normalizeRequestHTU lib raw =
     (case l_url_Parse lib raw of
        Inl err \<Rightarrow> Inl (ErrNew ''invalid DPoP target URI'')
      | Inr parsed \<Rightarrow>
          normalizeHTU lib (l_url_String lib
            (parsed\<lparr>u_RawQuery := '''', u_ForceQuery := False, u_Fragment := '''', u_RawFragment := ''''\<rparr>)))"

definition normalizeProofHTU :: "Lib \<Rightarrow> string \<Rightarrow> bool \<Rightarrow> go_error + string" where
  "normalizeProofHTU lib raw strict =
     (if strict \<and> (strings_Contains raw CHR ''?'' \<or> strings_Contains raw CHR ''#'')
      then Inl (ErrNew ''the DPoP htu claim must not contain a query or fragment'')
      else normalizeRequestHTU lib raw)"

fun normalize_all :: "Lib \<Rightarrow> string list \<Rightarrow> go_error + string list" where
  "normalize_all lib [] = Inr []"
| "normalize_all lib (a # as) =
     (case normalizeRequestHTU lib a of
        Inl err \<Rightarrow> Inl (ErrNew ''the configured DPoP request URI is invalid'')
      | Inr u \<Rightarrow> (case normalize_all lib as of Inl e \<Rightarrow> Inl e | Inr us \<Rightarrow> Inr (u # us)))"

definition target_URIs :: "'st Context \<Rightarrow> string list" where
  "target_URIs ctx =
     (BaseURL ctx @ rq_RequestURI (cx_Request ctx)) #
     (if cf_MTLSEnabled (cx ctx) then [MTLSBaseURL ctx @ rq_RequestURI (cx_Request ctx)] else [])"

section \<open>Nonces\<close>

definition nonce_char :: "char \<Rightarrow> bool" where
  "nonce_char c \<longleftrightarrow> byte c = 0x21 \<or> (0x23 \<le> byte c \<and> byte c \<le> 0x5b) \<or> (0x5d \<le> byte c \<and> byte c \<le> 0x7e)"

definition validNonce :: "string \<Rightarrow> bool" where
  "validNonce nonce = (if nonce = '''' \<or> length nonce > maxDPoPNonceBytes then False else list_all nonce_char nonce)"

definition setNonceHeader :: "string \<Rightarrow> ('st, unit) M" where
  "setNonceHeader nonce =
     guardM (\<not> validNonce nonce) (ErrNew ''DPoP nonce manager issued an invalid DPoP nonce'')
       (tryM (set_header ''DPoP-Nonce'' nonce) (\<lambda>_. set_header ''Cache-Control'' ''no-store''))"

definition issueNonce :: "DPoPNonceManager \<Rightarrow> DPoPNonceScope \<Rightarrow> ('st, string) M" where
  "issueNonce m scope =
     tryM (mapErrM dpopServerError (callE (\<lambda>n. nm_IssueNonce m n scope))) (\<lambda>nonce.
     tryM (mapErrM dpopServerError (setNonceHeader nonce)) (\<lambda>_. okM nonce))"

definition quoted :: "string \<Rightarrow> string" where
  "quoted s = CHR 0x22 # s @ [CHR 0x22]"

text \<open>\<^verbatim>\<open>nonceChallenge\<close> always returns an error: the challenge, or the failure to issue a nonce.\<close>

definition nonceChallenge :: "'st Context \<Rightarrow> DPoPNonceManager \<Rightarrow> DPoPNonceScope \<Rightarrow> ('st, 'a) M" where
  "nonceChallenge ctx m scope =
     tryM (issueNonce m scope) (\<lambda>_.
       if scope = DPoPNonceScopeResourceServer then
         (let description = ''resource server requires a fresh nonce in the DPoP proof'';
              algs = cf_DPoPSigAlgs (cx ctx);
              challenge = ''DPoP error='' @ quoted ErrorCodeUseDPoPNonce @ '', error_description='' @ quoted description @
                (if algs = [] then '''' else '', algs='' @ quoted (join '' '' algs))
          in tryM (add_header ''WWW-Authenticate'' challenge) (\<lambda>_.
             failM (WithStatusCode (NewError ErrorCodeUseDPoPNonce description) 401)))
       else failM (WithStatusCode
         (NewError ErrorCodeUseDPoPNonce ''authorization server requires a fresh nonce in the DPoP proof'') 400))"

definition validateNonce :: "'st Context \<Rightarrow> DPoPNonceManager \<Rightarrow> DPoPNonceScope \<Rightarrow> string \<Rightarrow> ('st, string) M" where
  "validateNonce ctx m scope nonce =
     guardM (scope \<noteq> DPoPNonceScopeAuthorizationServer \<and> scope \<noteq> DPoPNonceScopeResourceServer)
       (dpopServerError (ErrNew ''invalid DPoP nonce scope'')) (
     guardM (\<not> cx_Response ctx) (dpopServerError (ErrNew ''cannot use DPoP nonces without a response writer'')) (
     if \<not> validNonce nonce then nonceChallenge ctx m scope
     else runM (callE (\<lambda>n. nm_ValidateNonce m n scope nonce)) (\<lambda>r. case r of
        Inl err \<Rightarrow> if errors_Is err ErrNotFound then nonceChallenge ctx m scope else failM (dpopServerError err)
      | Inr nextNonce \<Rightarrow>
          if nextNonce = '''' then okM ''''
          else guardM (\<not> validNonce nextNonce)
            (dpopServerError (ErrNew ''DPoP nonce manager returned an invalid next nonce'')) (okM nextNonce))))"

section \<open>Validation of a proof\<close>

definition proof_claims ::
  "Lib \<Rightarrow> JSONWebToken \<Rightarrow> JSONWebKey \<Rightarrow> go_error + JWTClaims \<times> DPoPClaims \<times> rawClaims" where
  "proof_claims lib parsed jwk =
     (case l_Verify lib parsed (VKey (jwk_Key jwk)) of
        Inl err \<Rightarrow> Inl err
      | Inr p \<Rightarrow>
          (case l_DecodeClaims lib p of
             Inl err \<Rightarrow> Inl err
           | Inr claims \<Rightarrow>
               (case l_DecodeDPoPClaims lib p of
                  Inl err \<Rightarrow> Inl err
                | Inr dpopClaims \<Rightarrow>
                    (case l_DecodeRawClaims lib p of Inl err \<Rightarrow> Inl err | Inr raw \<Rightarrow> Inr (claims, dpopClaims, raw)))))"

text \<open>The header of a proof: exactly one, of the proof's type, with a valid public key.\<close>

definition proof_key :: "Lib \<Rightarrow> JSONWebToken \<Rightarrow> go_error + JSONWebKey" where
  "proof_key lib parsed =
     (case jwt_Headers parsed of
        [h] \<Rightarrow>
          if map_of (jh_ExtraHeaders h) ''typ'' \<noteq> Some (JStr ''dpop+jwt'') then Inl (ErrNew ''the typ header must be dpop+jwt'')
          else (case jh_JSONWebKey h of
             None \<Rightarrow> Inl (ErrNew ''the jwk header must contain a valid public key'')
           | Some jwk \<Rightarrow>
               if \<not> l_Valid lib jwk \<or> \<not> l_IsPublic lib jwk
               then Inl (ErrNew ''the jwk header must contain a valid public key'') else Inr jwk)
      | _ \<Rightarrow> Inl (ErrNew ''the DPoP proof must contain exactly one JOSE header''))"

definition next_nonce :: "'st Context \<Rightarrow> 'st ValidationOptions \<Rightarrow> string \<Rightarrow> ('st, string) M" where
  "next_nonce ctx opts nonce =
     (case cf_DPoPNonceManager (cx ctx) of
        None \<Rightarrow> okM ''''
      | Some m \<Rightarrow>
          guardM (vo_NonceScope opts = '''')
            (dpopServerError (ErrNew ''a DPoP nonce scope is required when nonce validation is enabled''))
            (validateNonce ctx m (vo_NonceScope opts) nonce))"

definition ValidateJWT :: "'st Context \<Rightarrow> string \<Rightarrow> 'st ValidationOptions \<Rightarrow> ('st, unit) M" where
  "ValidateJWT ctx dpopJWT opts =
     (let lib = cx_Lib ctx;
          invalid = invalidProofError (vo_TokenEndpoint opts) ErrorCodeInvalidRequest ''invalid DPoP proof'' in
      tryM (mapErrM invalid (liftE (l_ParseSigned lib dpopJWT (cf_DPoPSigAlgs (cx ctx))))) (\<lambda>parsed.
      tryM (mapErrM invalid (liftE (proof_key lib parsed))) (\<lambda>jwk.
      tryM (mapErrM invalid (liftE (proof_claims lib parsed jwk))) (\<lambda>(claims, dpopClaims, raw).
      tryM (mapErrM invalid (liftE (validateRawClaims lib dpopJWT raw))) (\<lambda>(issuedAt, jti).
      tryM (mapErrM dpopServerError (liftE (reservationExpiry ctx issuedAt))) (\<lambda>acceptedUntil.
      tryM (Now ctx) (\<lambda>now.
      guardM (\<not> now < acceptedUntil)
        (invalidProofError (vo_TokenEndpoint opts) ErrorCodeUnauthorizedClient ''unauthorized client''
          (ErrNew ''the DPoP proof issuance time is invalid'')) (
      guardM (dc_HTTPMethod dpopClaims \<noteq> rq_Method (cx_Request ctx))
        (invalid (ErrNew ''the htm claim does not match the request method'')) (
      tryM (mapErrM invalid (liftE (normalizeProofHTU lib (dc_HTTPURI dpopClaims) (cf_DPoPStrictHTU (cx ctx))))) (\<lambda>httpURI.
      tryM (mapErrM dpopServerError (liftE (normalize_all lib (target_URIs ctx)))) (\<lambda>auds.
      guardM (httpURI \<notin> set auds) (invalid (ErrNew ''the htu claim does not match the request URI'')) (
      guardM (vo_AccessToken opts \<noteq> '''' \<and> dc_AccessTokenHash dpopClaims \<noteq> Thumbprint lib (vo_AccessToken opts))
        (invalid (ErrNew ''the ath claim does not match the access token'')) (
      guardM (vo_JWKThumbprint opts \<noteq> '''' \<and> JWKThumbprint lib dpopJWT (cf_DPoPSigAlgs (cx ctx)) \<noteq> vo_JWKThumbprint opts)
        (invalid (ErrNew ''the DPoP key thumbprint does not match the expected binding'')) (
      tryM (mapErrM invalid (callO (\<lambda>n. l_ValidateWithLeeway lib n claims zero_Expected
              (cf_JWTLeewayTimeSecs (cx ctx) * second)))) (\<lambda>_.
      tryM (next_nonce ctx opts (dc_Nonce dpopClaims)) (\<lambda>nextNonce.
      tryM (mapErrM invalid (liftE (l_Thumbprint lib jwk))) (\<lambda>thumbprint.
      tryM (case vo_OnProofValidated opts of None \<Rightarrow> okM () | Some f \<Rightarrow> f) (\<lambda>_.
      (case invalidProofCode (vo_TokenEndpoint opts) ErrorCodeInvalidRequest ''invalid DPoP proof'' of
         (replayCode, replayDescription) \<Rightarrow>
      tryM (ReserveJTI ctx \<lparr>ju_ID = jti, ju_Issuer = RawURLEncode thumbprint, ju_Purpose = JTIUsePurposeDPoPProof,
              ju_ExpiresAt = acceptedUntil\<rparr> replayCode replayDescription) (\<lambda>_.
      if nextNonce \<noteq> '''' then mapErrM dpopServerError (setNonceHeader nextNonce) else okM ()))))))))))))))))))))"

section \<open>Raw claims\<close>

lemma is_digit_not_sign: "is_digit c \<Longrightarrow> c \<noteq> CHR ''-'' \<and> c \<noteq> CHR ''+''"
  by (auto simp: is_digit_def byte_def)

lemma ParseInt64_digits:
  assumes "ds \<noteq> []" and "list_all is_digit ds"
  shows "ParseInt64 ds = (if int (digits_value 0 ds) > 2 ^ 63 - 1 then None else Some (int (digits_value 0 ds)))"
proof -
  obtain c cs where ds: "ds = c # cs" using assms(1) by (cases ds) auto
  with assms(2) have "c \<noteq> CHR ''-''" "c \<noteq> CHR ''+''"
    using is_digit_not_sign by auto
  with ds assms show ?thesis by (auto simp: ParseInt64_def Let_def)
qed

lemma ParseInt64_minus:
  assumes "ds \<noteq> []" and "list_all is_digit ds"
  shows "ParseInt64 (CHR ''-'' # ds) =
    (if - int (digits_value 0 ds) < - (2 ^ 63) then None else Some (- int (digits_value 0 ds)))"
  using assms by (auto simp: ParseInt64_def Let_def)

text \<open>The parser of the proof's issuance time accepts exactly the decimal integers of the JSON safe
  range, with or without a minus sign, and returns their value; fractions, exponents, signs and anything
  beyond 53 bits are refused.\<close>

theorem integerJSONNumber_exact:
  "integerJSONNumber raw = Inr v \<longleftrightarrow>
     \<bar>v\<bar> \<le> 2 ^ 53 - 1 \<and> (\<exists>ds. ds \<noteq> [] \<and> list_all is_digit ds \<and>
       (raw = ds \<and> v = int (digits_value 0 ds) \<or> raw = CHR ''-'' # ds \<and> v = - int (digits_value 0 ds)))"
  (is "?l \<longleftrightarrow> ?r")
proof
  assume ?l
  then obtain c rest where raw: "raw = c # rest"
    by (cases raw) (auto simp: integerJSONNumber_def)
  show ?r
  proof (cases "c = CHR ''-''")
    case True
    with \<open>?l\<close> raw have b: "rest \<noteq> []" "list_all is_digit rest"
      by (auto simp: integerJSONNumber_def Let_def split: if_splits)
    from \<open>?l\<close> raw True show ?r
      using ParseInt64_minus [OF b] b
      by (auto simp: integerJSONNumber_def Let_def maxJSONSafeInteger_def intro!: exI [of _ rest] split: if_splits)
  next
    case False
    with \<open>?l\<close> raw have b: "raw \<noteq> []" "list_all is_digit raw"
      by (auto simp: integerJSONNumber_def Let_def split: if_splits)
    from \<open>?l\<close> raw False show ?r
      using ParseInt64_digits [OF b] b
      by (auto simp: integerJSONNumber_def Let_def maxJSONSafeInteger_def intro!: exI [of _ raw] split: if_splits)
  qed
next
  assume ?r
  then obtain ds where ds: "ds \<noteq> []" "list_all is_digit ds" "\<bar>v\<bar> \<le> 2 ^ 53 - 1"
    and raw: "raw = ds \<and> v = int (digits_value 0 ds) \<or> raw = CHR ''-'' # ds \<and> v = - int (digits_value 0 ds)"
    by blast
  have "hd ds \<noteq> CHR ''-''"
    using ds is_digit_not_sign by (cases ds) auto
  with raw ds ParseInt64_digits [OF ds(1,2)] ParseInt64_minus [OF ds(1,2)] show ?l
    by (cases ds) (auto simp: integerJSONNumber_def Let_def maxJSONSafeInteger_def)
qed

subsection \<open>Escapes\<close>

text \<open>The texts whose escapes denote Unicode scalar values: plain characters, short escapes, and four-digit
  escapes that are no surrogates or a high surrogate followed by a low one.\<close>

definition hex4 :: "string \<Rightarrow> nat option" where
  "hex4 h = (if length h = 4 then ParseUint16Hex h else None)"

inductive json_text :: "string \<Rightarrow> bool" where
  text_end: "json_text []"
| text_plain: "c \<noteq> CHR 0x5C \<Longrightarrow> json_text s \<Longrightarrow> json_text (c # s)"
| text_short: "c \<noteq> CHR ''u'' \<Longrightarrow> json_text s \<Longrightarrow> json_text (CHR 0x5C # c # s)"
| text_scalar: "hex4 h = Some u \<Longrightarrow> u < 0xd800 \<or> u > 0xdfff \<Longrightarrow> json_text s \<Longrightarrow> json_text (CHR 0x5C # CHR ''u'' # h @ s)"
| text_pair: "hex4 h = Some u \<Longrightarrow> 0xd800 \<le> u \<Longrightarrow> u \<le> 0xdbff \<Longrightarrow> hex4 l = Some v \<Longrightarrow> 0xdc00 \<le> v \<Longrightarrow> v \<le> 0xdfff \<Longrightarrow>
    json_text s \<Longrightarrow> json_text (CHR 0x5C # CHR ''u'' # h @ CHR 0x5C # CHR ''u'' # l @ s)"

lemma hex4_length: "hex4 h = Some u \<Longrightarrow> length h = 4 \<and> ParseUint16Hex h = Some u"
  by (auto simp: hex4_def split: if_splits)

lemma json_text_scans: "json_text s \<Longrightarrow> surrogate_scan s"
proof (induction rule: json_text.induct)
  case (text_scalar h u s)
  from hex4_length [OF text_scalar(1)] text_scalar show ?case by auto
next
  case (text_pair h u l v s)
  from hex4_length [OF text_pair(1)] hex4_length [OF text_pair(4)] have
    "length h = 4" "ParseUint16Hex h = Some u" "length l = 4" "ParseUint16Hex l = Some v"
    by auto
  with text_pair show ?case
    by (auto simp: nth_append)
qed auto

lemma scans_json_text: "surrogate_scan s \<Longrightarrow> json_text s"
proof (induction s rule: surrogate_scan.induct)
  case (2 c s)
  show ?case
  proof (cases "c = CHR 0x5C")
    case False
    with 2 show ?thesis by (auto intro: text_plain)
  next
    case True
    with 2(5) obtain d s2 where s: "s = d # s2"
      by (cases s) auto
    show ?thesis
    proof (cases "d = CHR ''u''")
      case False
      with 2(2) 2(5) True s show ?thesis by (auto intro: text_short)
    next
      case u: True
      with 2(5) True s obtain k where len: "\<not> length s2 < 4" and k: "ParseUint16Hex (take 4 s2) = Some k"
        by (auto split: if_splits option.splits)
      then have h: "hex4 (take 4 s2) = Some k" by (simp add: hex4_def)
      show ?thesis
      proof (cases "0xd800 \<le> k \<and> k \<le> 0xdbff")
        case False
        with 2(5) True s u len k have "k < 0xd800 \<or> k > 0xdfff" "surrogate_scan (drop 4 s2)"
          by (auto split: if_splits)
        with 2(4) [OF _ s _ len k] True u False have "json_text (drop 4 s2)" by auto
        with h \<open>k < 0xd800 \<or> k > 0xdfff\<close> have "json_text (CHR 0x5C # CHR ''u'' # take 4 s2 @ drop 4 s2)"
          by (rule text_scalar)
        with True s u show ?thesis by simp
      next
        case hi: True
        let ?t = "drop 4 s2"
        from 2(5) True s u len k hi obtain l where
          t: "\<not> (length ?t < 6 \<or> ?t ! 0 \<noteq> CHR 0x5C \<or> ?t ! 1 \<noteq> CHR ''u'')"
          and l: "ParseUint16Hex (take 4 (drop 6 s2)) = Some l" "\<not> (l < 0xdc00 \<or> l > 0xdfff)"
          and rest: "surrogate_scan (drop 10 s2)"
          by (auto split: if_splits option.splits)
        with 2(3) [OF _ s _ len k hi t l] True u have "json_text (drop 10 s2)" by auto
        moreover have "hex4 (take 4 (drop 6 s2)) = Some l"
          using l t by (auto simp: hex4_def)
        ultimately have "json_text (CHR 0x5C # CHR ''u'' # take 4 s2 @ CHR 0x5C # CHR ''u'' # take 4 (drop 6 s2) @ drop 10 s2)"
          using h hi l(2) by (intro text_pair) auto
        moreover have "?t = CHR 0x5C # CHR ''u'' # take 4 (drop 6 s2) @ drop 10 s2"
        proof -
          from t have "?t = ?t ! 0 # ?t ! 1 # drop 2 ?t"
            by (cases ?t; cases "tl ?t") (auto simp: drop_Suc)
          moreover have "drop 2 ?t = drop 6 s2" by simp
          moreover have "drop 6 s2 = take 4 (drop 6 s2) @ drop 10 s2"
            using append_take_drop_id [of 4 "drop 6 s2"] by simp
          ultimately show ?thesis
            using t by metis
        qed
        ultimately show ?thesis
          using True s u by (metis append_take_drop_id)
      qed
    qed
  qed
qed (rule text_end)

text \<open>The scan for broken surrogates accepts exactly the quoted texts whose escapes denote Unicode scalar
  values: every four-digit escape is complete and either no surrogate or half of a high-low pair.\<close>

theorem surrogates_exact:
  "hasWellFormedJSONSurrogates raw \<longleftrightarrow> (\<exists>s. raw = CHR 0x22 # s @ [CHR 0x22] \<and> json_text s)"
proof
  assume r: "hasWellFormedJSONSurrogates raw"
  then have len: "\<not> length raw < 2" and q: "hd raw = CHR 0x22" "last raw = CHR 0x22"
    and scan: "surrogate_scan (butlast (tl raw))"
    by (auto simp: hasWellFormedJSONSurrogates_def split: if_splits)
  from len obtain c d s where raw: "raw = c # d # s"
    by (cases raw; cases "tl raw") auto
  with q have "raw = CHR 0x22 # butlast (tl raw) @ [CHR 0x22]"
    by (metis append_butlast_last_id last_ConsR list.distinct(1) list.sel(1,3))
  with scan scans_json_text show "\<exists>s. raw = CHR 0x22 # s @ [CHR 0x22] \<and> json_text s"
    by blast
next
  assume "\<exists>s. raw = CHR 0x22 # s @ [CHR 0x22] \<and> json_text s"
  then show "hasWellFormedJSONSurrogates raw"
    using json_text_scans by (auto simp: hasWellFormedJSONSurrogates_def butlast_append)
qed

section \<open>Acceptance window\<close>

lemma i64_id: "- (2 ^ 63) \<le> x \<Longrightarrow> x \<le> 2 ^ 63 - 1 \<Longrightarrow> i64 x = x"
  by (simp add: i64_def)



section \<open>Frames and errors\<close>

lemma keeps_nonces [frame_intros]:
  "stable P \<Longrightarrow> keeps P (setNonceHeader nonce)" "stable P \<Longrightarrow> keeps P (issueNonce m scope)"
  "stable P \<Longrightarrow> keeps P (nonceChallenge ctx m scope)" "stable P \<Longrightarrow> keeps P (validateNonce ctx m scope nonce)"
  "stable P \<Longrightarrow> keeps P (next_nonce ctx opts nonce)"
  unfolding setNonceHeader_def issueNonce_def nonceChallenge_def validateNonce_def next_nonce_def Let_def
  by (intro frame_intros; assumption)+

lemma keeps_ValidateJWT [frame_intros]:
  "stable P \<Longrightarrow> (\<And>f. vo_OnProofValidated opts = Some f \<Longrightarrow> keeps P f) \<Longrightarrow> keeps P (ValidateJWT ctx dpopJWT opts)"
  unfolding ValidateJWT_def Let_def by (cases "vo_OnProofValidated opts") (auto intro!: frame_intros)

lemma invalidProofError_code [simp]:
  "code_in cs (invalidProofError te c d e) \<longleftrightarrow> (if te then ErrorCodeInvalidDPoPProof else c) \<in> cs"
  by (simp add: invalidProofError_def invalidProofCode_def)

lemma dpopServerError_code [simp]: "code_in cs (dpopServerError e) \<longleftrightarrow> ErrorCodeServerError \<in> cs"
  by (simp add: dpopServerError_def)

lemma fails_next_nonce:
  "{ErrorCodeServerError, ErrorCodeUseDPoPNonce} \<subseteq> cs \<Longrightarrow> fails_in (code_in cs) (next_nonce ctx opts nonce)"
  unfolding next_nonce_def validateNonce_def nonceChallenge_def issueNonce_def Let_def
  by (intro fail_intros) auto


section \<open>What an accepted proof guarantees\<close>

text \<open>The reservation of an identifier was accepted at call \<open>k\<close>.\<close>

definition jti_accepted :: "'st Context \<Rightarrow> nat \<Rightarrow> JTIUse \<Rightarrow> bool" where
  "jti_accepted ctx k use =
     (case cf_ConsumeJTIUseFunc (cx ctx) of
        Some f \<Rightarrow> f k use = None
      | None \<Rightarrow> (case cf_ConsumeJTIFunc (cx ctx) k (ju_ID use) of None \<Rightarrow> True | Some e \<Rightarrow> errors_Is e ErrNotFound))"

lemma ReserveJTI_ok:
  "ReserveJTI ctx use c d w = (Inr u, w') \<Longrightarrow> jti_accepted ctx (w_calls w) use \<and> w' = w\<lparr>w_calls := Suc (w_calls w)\<rparr>"
  by (auto simp: ReserveJTI_def ConsumeJTIUse_def jti_accepted_def runM_def callO_def reserve_result_def
      UsesTypedJTIConsumer_def checkM_def split: option.splits if_splits)

lemma proof_key_ok:
  "proof_key lib parsed = Inr jwk \<longleftrightarrow>
     (\<exists>h. jwt_Headers parsed = [h] \<and> map_of (jh_ExtraHeaders h) ''typ'' = Some (JStr ''dpop+jwt'')
        \<and> jh_JSONWebKey h = Some jwk \<and> l_Valid lib jwk \<and> l_IsPublic lib jwk)"
  by (auto simp: proof_key_def split: list.splits option.splits if_splits)

lemma validateRawClaims_ok:
  "validateRawClaims lib dpopJWT raw = Inr (issuedAt, jti) \<Longrightarrow>
     integerJSONNumber (raw_IssuedAt raw) = Inr issuedAt \<and> l_UnmarshalString lib (raw_ID raw) = Inr jti
     \<and> jti \<noteq> '''' \<and> length jti \<le> maxDPoPJWTIDBytes \<and> utf8_ValidString jti"
  by (auto simp: validateRawClaims_def Let_def split: if_splits sum.splits)

lemma normalize_all_ok: "normalize_all lib as = Inr us \<Longrightarrow> u \<in> set us \<Longrightarrow> \<exists>a \<in> set as. normalizeRequestHTU lib a = Inr u"
  by (induction as arbitrary: us) (auto split: sum.splits)

text \<open>The facts about one proof that do not depend on the state of the world.\<close>

definition sound_proof ::
  "'st Context \<Rightarrow> string \<Rightarrow> 'st ValidationOptions \<Rightarrow> JSONWebKey \<Rightarrow> int \<Rightarrow> string \<Rightarrow> bool" where
  "sound_proof ctx dpopJWT opts jwk issuedAt jti \<longleftrightarrow>
     (\<exists>parsed claims dpopClaims raw a.
        l_ParseSigned (cx_Lib ctx) dpopJWT (cf_DPoPSigAlgs (cx ctx)) = Inr parsed
        \<and> proof_key (cx_Lib ctx) parsed = Inr jwk
        \<and> proof_claims (cx_Lib ctx) parsed jwk = Inr (claims, dpopClaims, raw)
        \<and> validateRawClaims (cx_Lib ctx) dpopJWT raw = Inr (issuedAt, jti)
        \<and> dc_HTTPMethod dpopClaims = rq_Method (cx_Request ctx)
        \<and> a \<in> set (target_URIs ctx)
        \<and> normalizeProofHTU (cx_Lib ctx) (dc_HTTPURI dpopClaims) (cf_DPoPStrictHTU (cx ctx)) = normalizeRequestHTU (cx_Lib ctx) a
        \<and> (vo_AccessToken opts = '''' \<or> dc_AccessTokenHash dpopClaims = Thumbprint (cx_Lib ctx) (vo_AccessToken opts))
        \<and> (vo_JWKThumbprint opts = '''' \<or> JWKThumbprint (cx_Lib ctx) dpopJWT (cf_DPoPSigAlgs (cx ctx)) = vo_JWKThumbprint opts))"

lemma ValidateJWT_accepts:
  assumes run: "ValidateJWT ctx dpopJWT opts w = (Inr u, w')"
    and hook: "\<And>f n. vo_OnProofValidated opts = Some f \<Longrightarrow> keeps (\<lambda>w. n \<le> w_calls w) f"
  shows "\<exists>jwk issuedAt jti acceptedUntil thumbprint k.
    sound_proof ctx dpopJWT opts jwk issuedAt jti
    \<and> reservationExpiry ctx issuedAt = Inr acceptedUntil \<and> l_Now (cx_Lib ctx) (w_calls w) < acceptedUntil
    \<and> l_Thumbprint (cx_Lib ctx) jwk = Inr thumbprint
    \<and> w_calls w \<le> k \<and> k < w_calls w'
    \<and> jti_accepted ctx k \<lparr>ju_ID = jti, ju_Issuer = RawURLEncode thumbprint, ju_Purpose = JTIUsePurposeDPoPProof,
        ju_ExpiresAt = acceptedUntil\<rparr>"
proof -
  let ?lib = "cx_Lib ctx"
  let ?m = "case vo_OnProofValidated opts of None \<Rightarrow> okM () | Some f \<Rightarrow> f"
  obtain replay desc where code: "invalidProofCode (vo_TokenEndpoint opts) ErrorCodeInvalidRequest ''invalid DPoP proof'' = (replay, desc)"
    by fastforce
  obtain parsed jwk claims dpopClaims raw issuedAt jti acceptedUntil httpURI auds nextNonce thumbprint w1 w2 w3 where
    p: "l_ParseSigned ?lib dpopJWT (cf_DPoPSigAlgs (cx ctx)) = Inr parsed" "proof_key ?lib parsed = Inr jwk"
      "proof_claims ?lib parsed jwk = Inr (claims, dpopClaims, raw)"
      "validateRawClaims ?lib dpopJWT raw = Inr (issuedAt, jti)" "reservationExpiry ctx issuedAt = Inr acceptedUntil"
      "l_Now ?lib (w_calls w) < acceptedUntil" "dc_HTTPMethod dpopClaims = rq_Method (cx_Request ctx)"
      "normalizeProofHTU ?lib (dc_HTTPURI dpopClaims) (cf_DPoPStrictHTU (cx ctx)) = Inr httpURI"
      "normalize_all ?lib (target_URIs ctx) = Inr auds" "httpURI \<in> set auds"
      "vo_AccessToken opts \<noteq> '''' \<longrightarrow> dc_AccessTokenHash dpopClaims = Thumbprint ?lib (vo_AccessToken opts)"
      "vo_JWKThumbprint opts \<noteq> '''' \<longrightarrow> JWKThumbprint ?lib dpopJWT (cf_DPoPSigAlgs (cx ctx)) = vo_JWKThumbprint opts"
      "l_Thumbprint ?lib jwk = Inr thumbprint"
    and n: "next_nonce ctx opts (dc_Nonce dpopClaims) (w\<lparr>w_calls := Suc (Suc (w_calls w))\<rparr>) = (Inr nextNonce, w1)"
    and m: "?m w1 = (Inr (), w2)"
    and r: "ReserveJTI ctx \<lparr>ju_ID = jti, ju_Issuer = RawURLEncode thumbprint, ju_Purpose = JTIUsePurposeDPoPProof,
        ju_ExpiresAt = acceptedUntil\<rparr> replay desc w2 = (Inr (), w3)"
    and h: "(if nextNonce \<noteq> '''' then mapErrM dpopServerError (setNonceHeader nextNonce) else okM ()) w3 = (Inr u, w')"
    using run unfolding ValidateJWT_def Let_def
    by (auto simp: ok_simps Now_def code)
  have le: "w_calls w \<le> w_calls w1"
    using keepsD [OF keeps_nonces(5) [OF stable_calls [of "w_calls w"]] n] by simp
  have le2: "w_calls w1 \<le> w_calls w2"
    using m hook [of _ "w_calls w1"] by (auto split: option.splits dest: keepsD)
  have le3: "w_calls w3 \<le> w_calls w'"
    using h keepsD [OF keeps_nonces(1) [OF stable_calls [of "w_calls w3"]]] by (auto simp: ok_simps split: if_splits)
  obtain a where "a \<in> set (target_URIs ctx)" "normalizeRequestHTU ?lib a = Inr httpURI"
    using normalize_all_ok [OF p(9,10)] by blast
  then have "sound_proof ctx dpopJWT opts jwk issuedAt jti"
    unfolding sound_proof_def using p by (metis (no_types, lifting))
  with p ReserveJTI_ok [OF r] le le2 le3 show ?thesis
    by (intro exI [of _ jwk] exI [of _ issuedAt] exI [of _ jti] exI [of _ acceptedUntil] exI [of _ thumbprint]
        exI [of _ "w_calls w2"]) auto
qed


lemma sound_proof_unique:
  "sound_proof ctx dpopJWT opts jwk t jti \<Longrightarrow> sound_proof ctx' dpopJWT opts' jwk' t' jti' \<Longrightarrow>
   cx_Lib ctx' = cx_Lib ctx \<Longrightarrow> cx ctx' = cx ctx \<Longrightarrow> jwk' = jwk \<and> t' = t \<and> jti' = jti"
  unfolding sound_proof_def by auto

text \<open>C15: a DPoP proof accepted once is refused from then on, in whatever request it is presented again and
  for whatever purpose it is validated, when the configured consumer of identifiers keeps its contract of
  not accepting the same identifier of the same issuer twice.\<close>

theorem proof_not_replayable:
  assumes "cf_ConsumeJTIUseFunc (cx ctx) = Some f"
    and contract: "\<forall>k k' use use'. k < k' \<longrightarrow> f k use = None \<longrightarrow> ju_ID use' = ju_ID use \<longrightarrow> ju_Issuer use' = ju_Issuer use
      \<longrightarrow> ju_Purpose use' = ju_Purpose use \<longrightarrow> f k' use' \<noteq> None"
    and "vo_OnProofValidated opts \<in> {None, Some (MarkTokenEndpointClientAuthenticated i)}"
    and "vo_OnProofValidated opts' \<in> {None, Some (MarkTokenEndpointClientAuthenticated i')}"
    and "ValidateJWT ctx dpopJWT opts w = (Inr u, w')"
    and "cx_Lib ctx' = cx_Lib ctx" "cx ctx' = cx ctx" "w_calls w' \<le> w_calls v"
  shows "\<exists>e v'. ValidateJWT ctx' dpopJWT opts' v = (Inl e, v')"
proof (cases "ValidateJWT ctx' dpopJWT opts' v")
  case (Pair r v')
  show ?thesis
  proof (cases r)
    case (Inr u')
    have h: "\<And>f n. vo_OnProofValidated opts = Some f \<Longrightarrow> keeps (\<lambda>w. n \<le> w_calls w) f"
      and h': "\<And>f n. vo_OnProofValidated opts' = Some f \<Longrightarrow> keeps (\<lambda>w. n \<le> w_calls w) f"
      using assms(3,4) by (auto intro: keeps_request_state stable_calls)
    obtain jwk t jti ex th k where a: "sound_proof ctx dpopJWT opts jwk t jti" "l_Thumbprint (cx_Lib ctx) jwk = Inr th"
      "k < w_calls w'" "jti_accepted ctx k \<lparr>ju_ID = jti, ju_Issuer = RawURLEncode th, ju_Purpose = JTIUsePurposeDPoPProof,
        ju_ExpiresAt = ex\<rparr>"
      using ValidateJWT_accepts [OF assms(5) h] by blast
    obtain jwk' t' jti' ex' th' k' where b: "sound_proof ctx' dpopJWT opts' jwk' t' jti'" "l_Thumbprint (cx_Lib ctx') jwk' = Inr th'"
      "w_calls v \<le> k'" "jti_accepted ctx' k' \<lparr>ju_ID = jti', ju_Issuer = RawURLEncode th', ju_Purpose = JTIUsePurposeDPoPProof,
        ju_ExpiresAt = ex'\<rparr>"
      using ValidateJWT_accepts [OF Pair [unfolded Inr] h'] by blast
    have "jwk' = jwk" "jti' = jti"
      using sound_proof_unique [OF a(1) b(1)] assms(6,7) by auto
    moreover from a(3) b(3) assms(8) have "k < k'" by linarith
    ultimately show ?thesis
      using a b assms(1,6,7) contract [rule_format, OF \<open>k < k'\<close>, of "\<lparr>ju_ID = jti, ju_Issuer = RawURLEncode th,
          ju_Purpose = JTIUsePurposeDPoPProof, ju_ExpiresAt = ex\<rparr>" "\<lparr>ju_ID = jti, ju_Issuer = RawURLEncode th',
          ju_Purpose = JTIUsePurposeDPoPProof, ju_ExpiresAt = ex'\<rparr>"]
      by (auto simp: jti_accepted_def)
  qed (use Pair in auto)
qed

subsection \<open>A concrete proof\<close>

text \<open>A library that recognises one proof, and a request that presents it.\<close>

definition sample_Lib :: Lib where
  "sample_Lib = base_Lib\<lparr>
     l_ParseSigned := (\<lambda>s algs. Inr \<lparr>jwt_Headers = [\<lparr>jh_KeyID = '''', jh_Algorithm = SigAlgPS256,
        jh_JSONWebKey = Some zero_JSONWebKey, jh_ExtraHeaders = [(''typ'', JStr ''dpop+jwt'')]\<rparr>], jwt_Raw = s\<rparr>),
     l_Verify := (\<lambda>t k. Inr ''a''),
     l_DecodeClaims := (\<lambda>p. Inr \<lparr>jc_Issuer = '''', jc_Subject = '''', jc_Audience = [], jc_Expiry = None,
        jc_NotBefore = None, jc_IssuedAt = Some 5, jc_ID = ''x''\<rparr>),
     l_DecodeDPoPClaims := (\<lambda>p. Inr \<lparr>dc_HTTPMethod = ''POST'', dc_HTTPURI = ''https://op/token'',
        dc_AccessTokenHash = '''', dc_Nonce = ''''\<rparr>),
     l_DecodeRawClaims := (\<lambda>p. Inr \<lparr>raw_IssuedAt = ''5'', raw_ID = [CHR 0x22, CHR ''x'', CHR 0x22]\<rparr>),
     l_UnmarshalString := (\<lambda>s. Inr ''x''),
     l_Thumbprint := (\<lambda>k. Inr ''k''),
     l_url_Parse := (\<lambda>s. Inr \<lparr>u_Scheme = ''https'', u_Opaque = '''', u_User = None, u_Host = ''op'', u_Path = s,
        u_RawPath = '''', u_OmitHost = False, u_ForceQuery = False, u_RawQuery = '''', u_Fragment = '''', u_RawFragment = ''''\<rparr>)\<rparr>"

definition sample_consumer :: "nat \<Rightarrow> JTIUse \<Rightarrow> go_error option" where
  "sample_consumer k use = (if k = 2 then None else Some ErrJTIReplay)"

definition sample_Context :: "Manager Context" where
  "sample_Context =
    \<lparr>cx = (base_Configuration (mem_Managers (\<lambda>_. id)))\<lparr>cf_Host := ''https://op'', cf_ConsumeJTIUseFunc := Some sample_consumer\<rparr>,
     cx_Lib = sample_Lib, cx_Request = zero_Request\<lparr>rq_RequestURI := ''/token''\<rparr>, cx_Response = True\<rparr>"

definition sample_opts :: "Manager ValidationOptions" where
  "sample_opts = \<lparr>vo_AccessToken = '''', vo_JWKThumbprint = '''', vo_NonceScope = DPoPNonceScopeAuthorizationServer,
     vo_TokenEndpoint = True, vo_OnProofValidated = None\<rparr>"

lemma sample_accepted:
  "ValidateJWT sample_Context ''h.YQ.s'' sample_opts (start_World (NewManager 1) 0) = (Inr (), start_World (NewManager 1) 3)"
  by code_simp

lemma sample_refused:
  "ValidateJWT sample_Context ''h.YQ.s'' sample_opts (start_World (NewManager 1) 3)
    = (Inl (WrapError ErrorCodeInvalidDPoPProof ''invalid DPoP proof'' ErrJTIReplay), start_World (NewManager 1) 6)"
  by code_simp


theorem proof_not_replayable_witness:
  "\<exists>e v'. ValidateJWT sample_Context ''h.YQ.s'' sample_opts (start_World (NewManager 1) 7) = (Inl e, v')"
  by (rule proof_not_replayable [of sample_Context sample_consumer sample_opts "''c''" sample_opts "''c''" "''h.YQ.s''"
        "start_World (NewManager 1) 0" "()" "start_World (NewManager 1) 3"])
    (use sample_accepted in \<open>auto simp: sample_Context_def sample_consumer_def sample_opts_def start_World_def split: if_splits\<close>)


end
