(* ===== verification/ClientAuthn.thy ===== *)
theory ClientAuthn
  imports Dpop
begin

text \<open>
  Identification and authentication of clients, \<^verbatim>\<open>internal/client/util.go\<close> and \<^verbatim>\<open>internal/client/authn.go\<close>: which
  client a request names, how its keys are found, and the seven ways it can prove its identity.

  The key set a client object caches is a field of the client. A request passes the client on from step to
  step with the cache as the request left it; what a later request finds in the cache is whatever its
  configuration or store returns.
\<close>

section \<open>Clients\<close>

definition IsURL :: "Lib \<Rightarrow> string \<Rightarrow> bool" where
  "IsURL lib str =
     (case l_url_ParseRequestURI lib str of Inl e \<Rightarrow> False | Inr u \<Rightarrow> u_Scheme u \<noteq> '''' \<and> u_Host u \<noteq> '''')"

text \<open>\<^verbatim>\<open>client.Client\<close>.\<close>

definition Client_of :: "'st Context \<Rightarrow> string \<Rightarrow> ('st, Client) M" where
  "Client_of ctx i =
     (case find (\<lambda>c. c_ID c = i) (cf_StaticClients (cx ctx)) of
        Some c \<Rightarrow> okM c
      | None \<Rightarrow>
          (case cf_ResolveClientFunc (cx ctx) of
             Some f \<Rightarrow>
               tryM (callE (\<lambda>n. f n i)) (\<lambda>r. case r of
                  None \<Rightarrow> failM (ErrNew ''client resolver returned a nil client'')
                | Some c \<Rightarrow> guardM (c_ID c \<noteq> i) (ErrNew ''client resolver returned client for another id'') (okM c))
           | None \<Rightarrow>
               if cf_OpenIDFedEnabled (cx ctx) \<and> IsURL (cx_Lib ctx) i
               then storeM (\<lambda>n. m_Fed_Client (cf_Managers (cx ctx)) n i)
               else if cf_DCREnabled (cx ctx) then storeM (\<lambda>n. m_DCR_Client (cf_Managers (cx ctx)) n i)
               else failM ErrNotFound))"

subsection \<open>The keys of a client\<close>

definition maxResponseByteSize :: int where
  "maxResponseByteSize = 1000000"

definition invalid_metadata :: "go_error \<Rightarrow> go_error" where
  "invalid_metadata = WrapError ErrorCodeInvalidClientMetadata ''invalid client metadata''"

text \<open>The source compares pointers. A client that did not come from the list of static clients was looked up
  because no static client has its identifier, so comparing identifiers gives the same answer.\<close>

definition clientJWKSCacheEnabled :: "'st Context \<Rightarrow> Client \<Rightarrow> bool" where
  "clientJWKSCacheEnabled ctx c =
     (cf_ResolveClientFunc (cx ctx) = None \<or> c_ID c \<in> c_ID ` set (cf_StaticClients (cx ctx)))"

text \<open>A response whose body cannot be read counts as a failed request: both end in the same error.\<close>

definition fetchJWKS :: "'st Context \<Rightarrow> Client \<Rightarrow> ('st, JSONWebKeySet) M" where
  "fetchJWKS ctx c =
     tryM (mapErrM invalid_metadata (callE (\<lambda>n. cf_HTTPGet (cx ctx) n (c_JWKSURI c)))) (\<lambda>resp.
     guardM (hr_StatusCode resp \<noteq> 200) (invalid_metadata (ErrNew ''fetching the client jwks returned status'')) (
     guardM (hr_ContentLength resp > maxResponseByteSize) (invalid_metadata (ErrNew ''client jwks exceeds max size'')) (
     mapErrM invalid_metadata (liftE (l_DecodeJWKS (cx_Lib ctx) (take (nat maxResponseByteSize + 1) (hr_Body resp)))))))"

definition fetchSignedJWKS :: "'st Context \<Rightarrow> Client \<Rightarrow> ('st, JSONWebKeySet) M" where
  "fetchSignedJWKS ctx c =
     tryM (mapErrM invalid_metadata (callE (\<lambda>n. case cf_OpenIDFedEntityJWKSFunc (cx ctx) of
         None \<Rightarrow> Inl ErrNotFound | Some f \<Rightarrow> f n (c_ID c)))) (\<lambda>entityJWKS.
     tryM (mapErrM invalid_metadata (callE (\<lambda>n. cf_HTTPGet (cx ctx) n (c_SignedJWKSURI c)))) (\<lambda>resp.
     guardM (hr_StatusCode resp \<noteq> 200) (invalid_metadata (ErrNew ''fetching the client signed jwks returned status'')) (
     guardM (hr_ContentLength resp > maxResponseByteSize) (invalid_metadata (ErrNew ''client signed jwks exceeds max size'')) (
     let signedJWKS = take (nat maxResponseByteSize + 1) (hr_Body resp) in
     guardM (int (length signedJWKS) > maxResponseByteSize) (invalid_metadata (ErrNew ''client signed jwks exceeds max size'')) (
     tryM (mapErrM invalid_metadata (liftE (l_ParseSigned (cx_Lib ctx) signedJWKS (cf_OpenIDFedSigAlgs (cx ctx))))) (\<lambda>parsedJWT.
     tryM (mapErrM invalid_metadata (liftE (l_Verify (cx_Lib ctx) parsedJWT (VKeySet entityJWKS)))) (\<lambda>payload.
     mapErrM invalid_metadata (liftE (l_DecodeJWKS (cx_Lib ctx) payload)))))))))"

text \<open>\<^verbatim>\<open>JWKS\<close> returns the key set and the client with its cache.\<close>

definition JWKS :: "'st Context \<Rightarrow> Client \<Rightarrow> ('st, JSONWebKeySet \<times> Client) M" where
  "JWKS ctx c =
     (let cacheEnabled = clientJWKSCacheEnabled ctx c;
          cached = (\<lambda>jwks. (jwks, if cacheEnabled then CacheJWKS c (Some jwks) else c)) in
      case (if cacheEnabled then c_cachedJWKS c else None) of
        Some jwks \<Rightarrow> okM (jwks, c)
      | None \<Rightarrow>
          if c_SignedJWKSURI c \<noteq> '''' then
            guardM (\<not> cf_OpenIDFedEnabled (cx ctx) \<or> cf_OpenIDFedEntityJWKSFunc (cx ctx) = None)
              (ErrNew ''signed_jwks_uri requires OpenID Federation'') (
            tryM (fetchSignedJWKS ctx c) (\<lambda>jwks. okM (cached jwks)))
          else if c_JWKSURI c \<noteq> '''' then tryM (fetchJWKS ctx c) (\<lambda>jwks. okM (cached jwks))
          else (case c_JWKS c of
             None \<Rightarrow> failM (ErrNew ''the client jwks was informed neither by value nor by reference'')
           | Some jwks \<Rightarrow> okM (jwks, c)))"

definition JWKByKeyID :: "'st Context \<Rightarrow> Client \<Rightarrow> string \<Rightarrow> ('st, JSONWebKey \<times> Client) M" where
  "JWKByKeyID ctx c keyID =
     tryM (mapErrM (ErrWrapf ''could not find the jwk by key id'') (JWKS ctx c)) (\<lambda>(jwks, c').
     tryM (liftE (JWKS_Key jwks keyID)) (\<lambda>key. okM (key, c')))"

definition JWKByAlg :: "'st Context \<Rightarrow> Client \<Rightarrow> string \<Rightarrow> ('st, JSONWebKey \<times> Client) M" where
  "JWKByAlg ctx c alg =
     tryM (mapErrM (ErrWrapf ''could not find the jwk by algorithm'') (JWKS ctx c)) (\<lambda>(jwks, c').
     case find (\<lambda>jwk. jwk_Algorithm jwk = alg) jwks of
       Some jwk \<Rightarrow> okM (jwk, c')
     | None \<Rightarrow> failM (ErrNew ''invalid key algorithm''))"

definition JWKMatchingHeader :: "'st Context \<Rightarrow> Client \<Rightarrow> JoseHeader \<Rightarrow> ('st, JSONWebKey \<times> Client) M" where
  "JWKMatchingHeader ctx c header =
     (if jh_KeyID header \<noteq> '''' then
        mapErrM (ErrWrapf ''could not find the jwk that matches the kid header'') (JWKByKeyID ctx c (jh_KeyID header))
      else mapErrM (ErrWrapf ''could not find the jwk that matches the alg header'') (JWKByAlg ctx c (jh_Algorithm header)))"

section \<open>Which client the request names\<close>

definition formPostParamID :: string where "formPostParamID = ''client_id''"
definition formPostParamSecret :: string where "formPostParamSecret = ''client_secret''"
definition formPostParamAssertion :: string where "formPostParamAssertion = ''client_assertion''"
definition formPostParamAssertionType :: string where "formPostParamAssertionType = ''client_assertion_type''"
definition headerAttestion :: string where "headerAttestion = ''OAuth-Client-Attestation''"
definition headerAttestionPoP :: string where "headerAttestionPoP = ''OAuth-Client-Attestation-PoP''"

definition allAsymmetricAlgs :: "SignatureAlgorithm list" where
  "allAsymmetricAlgs =
     [SigAlgRS256, SigAlgRS384, SigAlgRS512, SigAlgES256, SigAlgES384, SigAlgES512, SigAlgPS256, SigAlgPS384, SigAlgPS512]"

datatype AuthnContext = AuthnContextToken | AuthnContextPAR | AuthnContextDeviceAuth | AuthnContextCIBA
  | AuthnContextTokenIntrospection | AuthnContextTokenRevocation

definition invalid_client :: "go_error \<Rightarrow> go_error" where
  "invalid_client = WrapError ErrorCodeInvalidClient ''invalid client''"

definition ErrClientNotIdentified :: go_error where
  "ErrClientNotIdentified = NewError ErrorCodeInvalidClient ''could not identify the client''"

text \<open>The string claim of a token that is parsed but not verified.\<close>

definition unverified_claim :: "Lib \<Rightarrow> string \<Rightarrow> SignatureAlgorithm list \<Rightarrow> string \<Rightarrow> go_error + string" where
  "unverified_claim lib jws algs claim =
     (case l_ParseSigned lib jws algs of
        Inl err \<Rightarrow> Inl (invalid_client err)
      | Inr parsed \<Rightarrow>
          (case l_DecodeMap lib (l_Payload lib parsed) of
             Inl err \<Rightarrow> Inl (invalid_client err)
           | Inr claims \<Rightarrow>
               (case map_of claims claim of
                  None \<Rightarrow> Inl (invalid_client (ErrNew ''the claim is required''))
                | Some (JStr i) \<Rightarrow> Inr i
                | Some _ \<Rightarrow> Inl (invalid_client (ErrNew ''the claim must be a string'')))))"

definition nonempty :: "string \<Rightarrow> string list" where
  "nonempty s = (if s = '''' then [] else [s])"

definition request_ids :: "'st Context \<Rightarrow> go_error + string list" where
  "request_ids ctx =
     (let r = cx_Request ctx; assertion = PostFormValue r formPostParamAssertion;
          form = nonempty (PostFormValue r formPostParamID) @
                 nonempty (case rq_BasicAuth r of None \<Rightarrow> '''' | Some (i, _) \<Rightarrow> i) in
      case (if assertion = '''' then Inr []
            else map_sum id (\<lambda>i. [i]) (unverified_claim (cx_Lib ctx) assertion (TokenAuthnSigAlgs ctx) ClaimIssuer)) of
        Inl err \<Rightarrow> Inl err
      | Inr assertionID \<Rightarrow>
          (case Header ctx headerAttestion of
             None \<Rightarrow> Inr (form @ assertionID)
           | Some attestation \<Rightarrow>
               (case unverified_claim (cx_Lib ctx) attestation allAsymmetricAlgs ClaimSubject of
                  Inl err \<Rightarrow> Inl err
                | Inr i \<Rightarrow> Inr (form @ assertionID @ [i]))))"

definition ExtractID :: "'st Context \<Rightarrow> go_error + string" where
  "ExtractID ctx =
     (case request_ids ctx of
        Inl err \<Rightarrow> Inl err
      | Inr [] \<Rightarrow> Inl ErrClientNotIdentified
      | Inr (i # rest) \<Rightarrow>
          if list_all (\<lambda>j. j = i) rest then Inr i
          else Inl (invalid_client (ErrNew ''the request contains conflicting client identifiers'')))"

section \<open>Authentication with a secret\<close>

text \<open>\<^verbatim>\<open>c.SecretExpiresAt != 0 && timeutil.TimestampNow() >= c.SecretExpiresAt\<close>.\<close>

definition secret_expiry :: "'st Context \<Rightarrow> Client \<Rightarrow> ('st, unit) M" where
  "secret_expiry ctx c =
     (if c_SecretExpiresAt c \<noteq> 0 then
        tryM (TimestampNow ctx) (\<lambda>now. guardM (now \<ge> c_SecretExpiresAt c) (invalid_client (ErrNew ''client_secret is expired'')) (okM ()))
      else okM ())"

definition authenticateSecretPost :: "'st Context \<Rightarrow> Client \<Rightarrow> ('st, unit) M" where
  "authenticateSecretPost ctx c =
     guardM (c_ID c \<noteq> PostFormValue (cx_Request ctx) formPostParamID)
       (invalid_client (ErrNew ''the client_id does not match the authenticated client'')) (
     let secret = PostFormValue (cx_Request ctx) formPostParamSecret in
     guardM (secret = '''') (invalid_client (ErrNew ''client_secret is required'')) (
     tryM (mapErrM (WrapError ErrorCodeInvalidClient ''invalid client secret'')
            (callO (\<lambda>n. cf_VerifyClientSecretFunc (cx ctx) n (c_Secret c) secret))) (\<lambda>_.
     secret_expiry ctx c)))"

definition authenticateSecretBasic :: "'st Context \<Rightarrow> Client \<Rightarrow> ('st, unit) M" where
  "authenticateSecretBasic ctx c =
     (case rq_BasicAuth (cx_Request ctx) of
        None \<Rightarrow> failM (invalid_client (ErrNew ''client basic authentication is required''))
      | Some (i, secret) \<Rightarrow>
          guardM (c_ID c \<noteq> i) (invalid_client (ErrNew ''the client_id does not match the authenticated client'')) (
          tryM (mapErrM (WrapError ErrorCodeInvalidClient ''invalid client secret'')
                 (callO (\<lambda>n. cf_VerifyClientSecretFunc (cx ctx) n (c_Secret c) secret))) (\<lambda>_.
          secret_expiry ctx c)))"

section \<open>Authentication with an assertion\<close>

definition authnSigAlgs :: "Client \<Rightarrow> AuthnContext \<Rightarrow> SignatureAlgorithm list \<Rightarrow> SignatureAlgorithm list" where
  "authnSigAlgs c authnCtx algs =
     (let clientAlg = (case authnCtx of
            AuthnContextTokenIntrospection \<Rightarrow> c_TokenIntrospectionAuthnSigAlg c
          | AuthnContextTokenRevocation \<Rightarrow> c_TokenRevocationAuthnSigAlg c
          | _ \<Rightarrow> c_TokenAuthnSigAlg c)
      in if clientAlg \<noteq> '''' \<and> clientAlg \<in> set algs then [clientAlg] else algs)"

definition assertion_of :: "'st Context \<Rightarrow> go_error + string" where
  "assertion_of ctx =
     (let assertion = PostFormValue (cx_Request ctx) formPostParamAssertion in
      if PostFormValue (cx_Request ctx) formPostParamAssertionType \<noteq> AssertionTypeJWTBearer
      then Inl (invalid_client (ErrNew ''client_assertion_type must be urn:ietf:params:oauth:client-assertion-type:jwt-bearer''))
      else if assertion = '''' then Inl (invalid_client (ErrNew ''client_assertion is required''))
      else Inr assertion)"

definition assertion_audiences :: "'st Context \<Rightarrow> string list" where
  "assertion_audiences ctx =
     Issuer ctx #
     (if cf_Profile (cx ctx) \<noteq> ProfileFAPI2 then
        [TokenURL ctx, RequestURL ctx] @ (if cf_MTLSEnabled (cx ctx) then [TokenMTLSURL ctx, RequestMTLSURL ctx] else [])
      else [])"

definition areClaimsValid :: "'st Context \<Rightarrow> JWTClaims \<Rightarrow> Client \<Rightarrow> ('st, unit) M" where
  "areClaimsValid ctx claims client =
     (case jc_Expiry claims of
        None \<Rightarrow> failM (invalid_client (ErrNew ''the exp claim is required in the client assertion''))
      | Some expiry \<Rightarrow>
          guardM (jc_ID claims = '''') (invalid_client (ErrNew ''the jti claim is required in the client assertion'')) (
          guardM (cf_Profile (cx ctx) = ProfileFAPI2 \<and> length (jc_Audience claims) \<noteq> 1)
            (invalid_client (ErrNew ''the audience claim is invalid'')) (
          tryM (Now ctx) (\<lambda>now.
          guardM (whole_seconds (expiry * second - now) > cf_JWTLifetimeSecs (cx ctx))
            (invalid_client (ErrNew ''the client assertion lifetime exceeds the allowed maximum'')) (
          mapErrM invalid_client (callO (\<lambda>n. l_ValidateWithLeeway (cx_Lib ctx) n claims
             \<lparr>ex_Issuer = c_ID client, ex_Subject = c_ID client, ex_AnyAudience = assertion_audiences ctx\<rparr>
             (cf_JWTLeewayTimeSecs (cx ctx) * second))))))))"

text \<open>The expiry is present: \<^verbatim>\<open>areClaimsValid\<close> ran before.\<close>

definition consumeClientAssertionJTI :: "'st Context \<Rightarrow> Client \<Rightarrow> JWTClaims \<Rightarrow> AuthnContext \<Rightarrow> ('st, unit) M" where
  "consumeClientAssertionJTI ctx c claims authnCtx =
     tryM (if authnCtx = AuthnContextToken then MarkTokenEndpointClientAuthenticated (c_ID c) else okM ()) (\<lambda>_.
     ReserveJTI ctx
       \<lparr>ju_ID = jc_ID claims, ju_Issuer = jc_Issuer claims, ju_Purpose = JTIUsePurposeClientAssertion,
        ju_ExpiresAt = (case jc_Expiry claims of None \<Rightarrow> 0 | Some e \<Rightarrow> e * second) + cf_JWTLeewayTimeSecs (cx ctx) * second\<rparr>
       ErrorCodeInvalidClient ''invalid client'')"

definition authenticateSecretJWT :: "'st Context \<Rightarrow> Client \<Rightarrow> AuthnContext \<Rightarrow> ('st, unit) M" where
  "authenticateSecretJWT ctx c authnCtx =
     tryM (liftE (assertion_of ctx)) (\<lambda>assertion.
     let sigAlgs = authnSigAlgs c authnCtx (cf_AuthnMethodSecretJWTSigAlgs (cx ctx)) in
     tryM (mapErrM invalid_client (liftE (l_ParseSigned (cx_Lib ctx) assertion sigAlgs))) (\<lambda>parsedAssertion.
     tryM (mapErrM invalid_client (liftE (l_Verify (cx_Lib ctx) parsedAssertion (VSecret (c_Secret c))))) (\<lambda>payload.
     tryM (mapErrM invalid_client (liftE (l_DecodeClaims (cx_Lib ctx) payload))) (\<lambda>claims.
     tryM (secret_expiry ctx c) (\<lambda>_.
     tryM (areClaimsValid ctx claims c) (\<lambda>_.
     consumeClientAssertionJTI ctx c claims authnCtx))))))"

subsection \<open>Private keys\<close>

record privateKeyJWTAuthorityBinding =
  pkb_snapshotRevision :: int
  pkb_keyAuthorityID :: string

definition verifiedClientAssertionAuthority ::
  "privateKeyJWTAuthorityBinding option \<Rightarrow> VerifiedClientAssertionAuthority option" where
  "verifiedClientAssertionAuthority =
     map_option (\<lambda>b. \<lparr>vca_SnapshotRevision = pkb_snapshotRevision b, vca_KeyAuthorityID = pkb_keyAuthorityID b\<rparr>)"

text \<open>The loop that checks the keys of an authority snapshot. The arguments \<open>ids\<close>, \<open>thumbs\<close> and \<open>kids\<close> are the
  authority identifiers, key thumbprints and JOSE key identifiers seen so far.\<close>

fun check_authority_keys ::
  "Lib \<Rightarrow> SignatureAlgorithm list \<Rightarrow> string list \<Rightarrow> string list \<Rightarrow> string list \<Rightarrow> PrivateKeyJWTAuthorityKey list
    \<Rightarrow> go_error option" where
  "check_authority_keys lib algs ids thumbs kids [] = None"
| "check_authority_keys lib algs ids thumbs kids (a # rest) =
     (let key = pak_Key a in
      if pak_KeyAuthorityID a = '''' then Some (ErrNew ''a private_key_jwt authority key has an empty authority ID'')
      else if pak_KeyAuthorityID a \<in> set ids
      then Some (ErrNew ''the private_key_jwt authority snapshot contains duplicate authority key IDs'')
      else if \<not> l_Valid lib key then Some (ErrNew ''the private_key_jwt authority snapshot contains an invalid key'')
      else if \<not> l_IsPublic lib key
      then Some (ErrNew ''the private_key_jwt authority snapshot must contain only asymmetric public keys'')
      else case l_Thumbprint lib key of
        Inl err \<Rightarrow> Some (ErrWrapf ''could not identify a private_key_jwt authority public key'' err)
      | Inr thumbprint \<Rightarrow>
          if thumbprint \<in> set thumbs
          then Some (ErrNew ''the private_key_jwt authority snapshot contains duplicate public key material'')
          else if jwk_Use key \<noteq> KeyUsageSignature
          then Some (ErrNew ''the private_key_jwt authority snapshot must contain only signature keys'')
          else if jwk_Algorithm key \<notin> set algs
          then Some (ErrNew ''the private_key_jwt authority snapshot contains a key with a disallowed algorithm'')
          else if jwk_KeyID key = '''' then Some (ErrNew ''a private_key_jwt authority key has an empty JOSE key ID'')
          else if jwk_KeyID key \<in> set kids
          then Some (ErrNew ''the private_key_jwt authority snapshot contains duplicate JOSE key IDs'')
          else check_authority_keys lib algs (pak_KeyAuthorityID a # ids) (thumbprint # thumbs) (jwk_KeyID key # kids) rest)"

definition header_matches :: "JoseHeader \<Rightarrow> PrivateKeyJWTAuthorityKey \<Rightarrow> bool" where
  "header_matches header a =
     (jwk_Algorithm (pak_Key a) = jh_Algorithm header
      \<and> \<not> (jh_KeyID header \<noteq> '''' \<and> jwk_KeyID (pak_Key a) \<noteq> jh_KeyID header))"

text \<open>The selection from an authority snapshot.\<close>

definition authority_key ::
  "Lib \<Rightarrow> PrivateKeyJWTAuthority \<Rightarrow> JoseHeader \<Rightarrow> SignatureAlgorithm list
    \<Rightarrow> go_error + JSONWebKey \<times> privateKeyJWTAuthorityBinding" where
  "authority_key lib authority header allowedAlgorithms =
     (if pka_SnapshotRevision authority \<le> 0
      then Inl (ErrNew ''the private_key_jwt authority snapshot revision must be positive'')
      else if pka_Keys authority = []
      then Inl (ErrNew ''the private_key_jwt authority snapshot contains no verification keys'')
      else case check_authority_keys lib allowedAlgorithms [] [] [] (pka_Keys authority) of
        Some err \<Rightarrow> Inl err
      | None \<Rightarrow>
          (case filter (header_matches header) (pka_Keys authority) of
             [] \<Rightarrow> Inl (ErrNew ''no private_key_jwt authority key matches the assertion header'')
           | [matched] \<Rightarrow>
               Inr (pak_Key matched, \<lparr>pkb_snapshotRevision = pka_SnapshotRevision authority,
                                      pkb_keyAuthorityID = pak_KeyAuthorityID matched\<rparr>)
           | _ \<Rightarrow> Inl (ErrNew ''the private_key_jwt assertion header matches multiple authority keys'')))"

definition privateKeyJWTVerificationKey ::
  "'st Context \<Rightarrow> Client \<Rightarrow> JoseHeader \<Rightarrow> SignatureAlgorithm list
    \<Rightarrow> ('st, JSONWebKey \<times> privateKeyJWTAuthorityBinding option \<times> Client) M" where
  "privateKeyJWTVerificationKey ctx c header allowedAlgorithms =
     (case c_PrivateKeyJWTAuthority c of
        None \<Rightarrow> tryM (JWKMatchingHeader ctx c header) (\<lambda>(key, c'). okM (key, None, c'))
      | Some authority \<Rightarrow>
          tryM (liftE (authority_key (cx_Lib ctx) authority header allowedAlgorithms)) (\<lambda>(key, b). okM (key, Some b, c)))"

definition isClientAuthenticationServerError :: "go_error \<Rightarrow> bool" where
  "isClientAuthenticationServerError err =
     (case errors_As err of
        None \<Rightarrow> False
      | Some e \<Rightarrow> err_Code e = ErrorCodeServerError \<or> err_Code e = ErrorCodeInternalError)"

definition unless_server_error :: "go_error \<Rightarrow> go_error" where
  "unless_server_error err = (if isClientAuthenticationServerError err then err else invalid_client err)"

definition header_typ :: "JoseHeader \<Rightarrow> string" where
  "header_typ header = (case map_of (jh_ExtraHeaders header) ''typ'' of Some (JStr t) \<Rightarrow> t | _ \<Rightarrow> '''')"

definition authenticatePrivateKeyJWT :: "'st Context \<Rightarrow> Client \<Rightarrow> AuthnContext \<Rightarrow> ('st, Client) M" where
  "authenticatePrivateKeyJWT ctx c authnCtx =
     tryM (liftE (assertion_of ctx)) (\<lambda>assertion.
     let sigAlgs = authnSigAlgs c authnCtx (cf_AuthnMethodPrivateKeyJWTSigAlgs (cx ctx)) in
     tryM (mapErrM invalid_client (liftE (l_ParseSigned (cx_Lib ctx) assertion sigAlgs))) (\<lambda>parsedAssertion.
     case jwt_Headers parsedAssertion of
       [header] \<Rightarrow>
         tryM (mapErrM invalid_client (privateKeyJWTVerificationKey ctx c header sigAlgs)) (\<lambda>(jwk, authority, c').
         guardM (\<not> l_IsPublic (cx_Lib ctx) jwk) (invalid_client (ErrNew ''the client assertion key must be public'')) (
         tryM (mapErrM invalid_client (liftE (l_Verify (cx_Lib ctx) parsedAssertion (VKey (jwk_Key jwk))))) (\<lambda>rawClaims.
         tryM (mapErrM invalid_client (liftE (l_DecodeClaims (cx_Lib ctx) rawClaims))) (\<lambda>claims.
         tryM (areClaimsValid ctx claims c) (\<lambda>_.
         tryM (mapErrM unless_server_error (ApplyPrivateKeyJWTAssertionPolicy ctx
            \<lparr>va_AuthenticatedClientID = c_ID c,
             va_Header = \<lparr>vch_Algorithm = jh_Algorithm header, vch_KeyID = jh_KeyID header, vch_Type = header_typ header\<rparr>,
             va_Claims = rawClaims, va_Authority = verifiedClientAssertionAuthority authority\<rparr>)) (\<lambda>_.
         tryM (consumeClientAssertionJTI ctx c claims authnCtx) (\<lambda>_.
         tryM (unless_cancelled ctx (WrapError ErrorCodeServerError ''server error'')) (\<lambda>_.
         tryM (RecordClientAssertionAuthority (c_ID c) (verifiedClientAssertionAuthority authority)) (\<lambda>_.
         okM c')))))))))
     | _ \<Rightarrow> failM (invalid_client (ErrNew ''the client assertion must contain exactly one JOSE header''))))"

section \<open>Authentication with a certificate\<close>

text \<open>\<^verbatim>\<open>comparePublicKeys\<close>: any non-nil value is a \<^verbatim>\<open>crypto.PublicKey\<close>; only the three public key types compare.\<close>

definition comparePublicKeys :: "KeyMaterial option \<Rightarrow> KeyMaterial option \<Rightarrow> bool" where
  "comparePublicKeys k1 k2 =
     (case (k1, k2) of
        (Some (Ed25519Public a), Some key2) \<Rightarrow> key2 = Ed25519Public a
      | (Some (ECDSAPublic a), Some key2) \<Rightarrow> key2 = ECDSAPublic a
      | (Some (RSAPublic n e), Some key2) \<Rightarrow> key2 = RSAPublic n e
      | _ \<Rightarrow> False)"

definition authenticateSelfSignedTLSCert :: "'st Context \<Rightarrow> Client \<Rightarrow> ('st, Client) M" where
  "authenticateSelfSignedTLSCert ctx c =
     guardM (c_ID c \<noteq> PostFormValue (cx_Request ctx) formPostParamID)
       (invalid_client (ErrNew ''the client_id does not match the authenticated client'')) (
     tryM (mapErrM invalid_client (callE (cf_ClientCertFunc (cx ctx)))) (\<lambda>cert.
     tryM (mapErrM (ErrWrapf ''could not load the client JWKS'') (JWKS ctx c)) (\<lambda>(jwks, c').
     case find (\<lambda>key. jwk_CertificateThumbprintSHA256 key = l_sha256 (cx_Lib ctx) (cert_Raw cert)
                    \<or> jwk_CertificateThumbprintSHA1 key = l_sha1 (cx_Lib ctx) (cert_Raw cert)) jwks of
       None \<Rightarrow> failM (invalid_client (ErrNew ''no client JWK matches the presented client certificate''))
     | Some jwk \<Rightarrow>
         guardM (\<not> comparePublicKeys (jwk_Key jwk) (cert_PublicKey cert))
           (invalid_client (ErrNew ''the public key in the client certificate does not match the client JWKS'')) (okM c'))))"

definition authenticateTLSCert :: "'st Context \<Rightarrow> Client \<Rightarrow> ('st, unit) M" where
  "authenticateTLSCert ctx c =
     guardM (c_ID c \<noteq> PostFormValue (cx_Request ctx) formPostParamID)
       (invalid_client (ErrNew ''the client_id does not match the authenticated client'')) (
     tryM (mapErrM invalid_client (callE (cf_ClientCertFunc (cx ctx)))) (\<lambda>cert.
     if c_TLSSubjectDistinguishedName c \<noteq> '''' then
       guardM (c_TLSSubjectDistinguishedName c \<noteq> cert_Subject cert)
         (invalid_client (ErrNew ''the client certificate subject distinguished name does not match'')) (okM ())
     else if c_TLSSubjectAlternativeName c \<noteq> '''' then
       guardM (c_TLSSubjectAlternativeName c \<notin> set (cert_DNSNames cert))
         (invalid_client (ErrNew ''the client certificate subject alternative name does not match'')) (okM ())
     else failM (invalid_client (ErrNew ''the client is missing TLS authentication metadata''))))"

section \<open>Authentication with an attestation\<close>

text \<open>The one attestation of the request and its trusted issuer.\<close>

definition attestation_issuer :: "'st Context \<Rightarrow> go_error + string \<times> AttestationIssuer" where
  "attestation_issuer ctx =
     (case rq_Header (cx_Request ctx) headerAttestion of
        [attestationJWS] \<Rightarrow>
          (case l_ParseSigned (cx_Lib ctx) attestationJWS allAsymmetricAlgs of
             Inl err \<Rightarrow> Inl (invalid_client (ErrWrapf ''could not parse attestation'' err))
           | Inr parsed \<Rightarrow>
               (case l_DecodeIssuer (cx_Lib ctx) (l_Payload (cx_Lib ctx) parsed) of
                  Inl err \<Rightarrow> Inl (invalid_client err)
                | Inr iss \<Rightarrow>
                    (case find (\<lambda>i. ati_Issuer i = iss) (cf_AuthnMethodAttestationJWTIssuers (cx ctx)) of
                       None \<Rightarrow> Inl (invalid_client (ErrNew ''unknown attestation issuer''))
                     | Some issuer \<Rightarrow> Inr (attestationJWS, issuer))))
      | _ \<Rightarrow> Inl (invalid_client (ErrNew ''there must be precisely one OAuth-Client-Attestation header'')))"

definition attestation_issuer_JWKS :: "'st Context \<Rightarrow> AttestationIssuer \<Rightarrow> ('st, JSONWebKeySet) M" where
  "attestation_issuer_JWKS ctx issuer =
     (if ati_JWKSURI issuer \<noteq> '''' then
        tryM (mapErrM (\<lambda>e. invalid_client (ErrWrapf ''could not fetch attestation issuer JWKS'' e))
               (callE (\<lambda>n. cf_AttestationHTTPGet (cx ctx) n (ati_JWKSURI issuer)))) (\<lambda>resp.
        guardM (hr_StatusCode resp \<noteq> 200) (invalid_client (ErrNew ''fetching attestation issuer JWKS returned status'')) (
        guardM (hr_ContentLength resp > maxResponseByteSize)
          (invalid_client (ErrNew ''attestation issuer JWKS exceeds max size'')) (
        mapErrM (\<lambda>e. invalid_client (ErrWrapf ''could not decode attestation issuer JWKS'' e))
          (liftE (l_DecodeJWKS (cx_Lib ctx) (take (nat maxResponseByteSize + 1) (hr_Body resp)))))))
      else mapErrM (ErrWrapf ''could not fetch attestation issuer JWKS'') (callE (ati_JWKSFunc issuer)))"

text \<open>Type and key of the attestation, parsed again with the algorithms of its issuer.\<close>

definition attestation_key ::
  "Lib \<Rightarrow> string \<Rightarrow> AttestationIssuer \<Rightarrow> JSONWebKeySet \<Rightarrow> go_error + JSONWebToken \<times> JSONWebKey" where
  "attestation_key lib attestationJWS issuer issuerJWKS =
     (let sigAlgs = (if ati_SigAlgs issuer \<noteq> [] then ati_SigAlgs issuer
                     else filter (\<lambda>alg. alg \<in> set allAsymmetricAlgs) (map jwk_Algorithm issuerJWKS)) in
      case l_ParseSigned lib attestationJWS sigAlgs of
        Inl err \<Rightarrow> Inl (invalid_client (ErrWrapf ''could not parse attestation'' err))
      | Inr parsed \<Rightarrow>
          (case jwt_Headers parsed of
             [h] \<Rightarrow>
               if map_of (jh_ExtraHeaders h) ''typ'' \<noteq> Some (JStr ''oauth-client-attestation+jwt'')
               then Inl (invalid_client (ErrNew ''invalid client attestation type header''))
               else (case (if jh_KeyID h \<noteq> '''' then JWKS_Key issuerJWKS (jh_KeyID h)
                           else JWKS_KeyByAlg issuerJWKS (jh_Algorithm h)) of
                  Inl err \<Rightarrow> Inl (invalid_client (ErrWrapf ''could not find attestation issuer key'' err))
                | Inr jwk \<Rightarrow>
                    if \<not> l_IsPublic lib jwk then Inl (invalid_client (ErrNew ''the attestation issuer key must be public''))
                    else Inr (parsed, jwk))
           | _ \<Rightarrow> Inl (invalid_client (ErrNew ''the client attestation must have exactly one JOSE header''))))"

text \<open>The verified attestation is for this client, is not too long-lived and names a confirmation key.\<close>

definition attestation_confirmation ::
  "'st Context \<Rightarrow> Client \<Rightarrow> AttestationIssuer \<Rightarrow> JSONWebToken \<Rightarrow> JSONWebKey \<Rightarrow> ('st, JSONWebKey) M" where
  "attestation_confirmation ctx c issuer parsed issuerJWK =
     (let unverified = (\<lambda>e. invalid_client (ErrWrapf ''could not verify attestation signature'' e)) in
      tryM (mapErrM unverified (liftE (l_Verify (cx_Lib ctx) parsed (VKey (jwk_Key issuerJWK))))) (\<lambda>payload.
      tryM (mapErrM unverified (liftE (l_DecodeClaims (cx_Lib ctx) payload))) (\<lambda>claims.
      tryM (mapErrM unverified (liftE (l_DecodeConfirmation (cx_Lib ctx) payload))) (\<lambda>cnfJWK.
      case jc_Expiry claims of
        None \<Rightarrow> failM (invalid_client (ErrNew ''the exp claim is required in the client attestation''))
      | Some expiry \<Rightarrow>
          tryM (Now ctx) (\<lambda>now.
          guardM (whole_seconds (expiry * second - now) > cf_JWTLifetimeSecs (cx ctx))
            (invalid_client (ErrNew ''the client attestation lifetime exceeds the allowed maximum'')) (
          guardM (jc_Subject claims \<noteq> c_ID c)
            (invalid_client (ErrNew ''the attestation sub claim does not match the client ID'')) (
          tryM (mapErrM invalid_client (callO (\<lambda>n. l_ValidateWithLeeway (cx_Lib ctx) n claims
             (zero_Expected\<lparr>ex_Issuer := ati_Issuer issuer\<rparr>) (cf_JWTLeewayTimeSecs (cx ctx) * second)))) (\<lambda>_.
          guardM (\<not> l_Valid (cx_Lib ctx) cnfJWK \<or> \<not> l_IsPublic (cx_Lib ctx) cnfJWK)
            (invalid_client (ErrNew ''the attestation cnf.jwk must be a valid public key'')) (okM cnfJWK)))))))))"

text \<open>A DPoP proof in place of the attestation's own proof of possession: only its key is compared here, the
  proof is validated by the endpoint.\<close>

definition attestation_DPoP :: "'st Context \<Rightarrow> AuthnContext \<Rightarrow> JSONWebKey \<Rightarrow> go_error option" where
  "attestation_DPoP ctx authnCtx cnfJWK =
     (if \<not> cf_DPoPEnabled (cx ctx) \<or> (authnCtx \<noteq> AuthnContextToken \<and> authnCtx \<noteq> AuthnContextPAR)
      then Some (invalid_client (ErrNew ''OAuth-Client-Attestation-PoP header is missing''))
      else case DPoP_JWT ctx of
        None \<Rightarrow> Some (invalid_client (ErrNew ''OAuth-Client-Attestation-PoP or DPoP header is required''))
      | Some dpopJWT \<Rightarrow>
          (case l_ParseSigned (cx_Lib ctx) dpopJWT (cf_DPoPSigAlgs (cx ctx)) of
             Inl err \<Rightarrow> Some (invalid_client (ErrWrapf ''could not parse DPoP proof'' err))
           | Inr parsedDPoP \<Rightarrow>
               (case jwt_Headers parsedDPoP of
                  [] \<Rightarrow> Some (invalid_client (ErrNew ''the DPoP key is missing''))
                | h # _ \<Rightarrow>
                    (case jh_JSONWebKey h of
                       None \<Rightarrow> Some (invalid_client (ErrNew ''the DPoP key is missing''))
                     | Some jwk \<Rightarrow>
                         if \<not> comparePublicKeys (jwk_Key jwk) (jwk_Key cnfJWK)
                         then Some (invalid_client (ErrNew ''the DPoP key does not match the attestation confirmation jwk''))
                         else None))))"

definition attestation_PoP_claims :: "Lib \<Rightarrow> string \<Rightarrow> JSONWebKey \<Rightarrow> go_error + JWTClaims" where
  "attestation_PoP_claims lib attestationPopJWS cnfJWK =
     (case l_ParseSigned lib attestationPopJWS allAsymmetricAlgs of
        Inl err \<Rightarrow> Inl (invalid_client (ErrWrapf ''could not parse attestation PoP'' err))
      | Inr parsedPoP \<Rightarrow>
          (case jwt_Headers parsedPoP of
             [h] \<Rightarrow>
               if map_of (jh_ExtraHeaders h) ''typ'' \<noteq> Some (JStr ''oauth-client-attestation-pop+jwt'')
               then Inl (invalid_client (ErrNew ''invalid attestation PoP type header''))
               else (case l_Verify lib parsedPoP (VKey (jwk_Key cnfJWK)) of
                  Inl err \<Rightarrow> Inl (invalid_client (ErrWrapf ''could not verify attestation PoP signature'' err))
                | Inr payload \<Rightarrow>
                    map_sum (\<lambda>err. invalid_client (ErrWrapf ''could not verify attestation PoP signature'' err)) id
                      (l_DecodeClaims lib payload))
           | _ \<Rightarrow> Inl (invalid_client (ErrNew ''the attestation PoP must have exactly one JOSE header''))))"

definition attestation_PoP :: "'st Context \<Rightarrow> Client \<Rightarrow> AuthnContext \<Rightarrow> string \<Rightarrow> JSONWebKey \<Rightarrow> ('st, unit) M" where
  "attestation_PoP ctx c authnCtx attestationPopJWS cnfJWK =
     (let bad_time = invalid_client (ErrNew ''the attestation PoP issuance time is invalid'') in
      tryM (liftE (attestation_PoP_claims (cx_Lib ctx) attestationPopJWS cnfJWK)) (\<lambda>popClaims.
      case jc_Expiry popClaims of
        None \<Rightarrow> failM (invalid_client (ErrNew ''the exp claim is required in the attestation PoP''))
      | Some expiry \<Rightarrow>
          tryM (case jc_IssuedAt popClaims of
              None \<Rightarrow> failM bad_time
            | Some issuedAt \<Rightarrow> tryM (Now ctx) (\<lambda>now.
                guardM (whole_seconds (now - issuedAt * second) > cf_JWTLifetimeSecs (cx ctx)) bad_time (okM ()))) (\<lambda>_.
          guardM (jc_ID popClaims = '''') (invalid_client (ErrNew ''the jti claim is required in the attestation PoP'')) (
          tryM (mapErrM invalid_client (callO (\<lambda>n. l_ValidateWithLeeway (cx_Lib ctx) n popClaims
             \<lparr>ex_Issuer = c_ID c, ex_Subject = '''', ex_AnyAudience = [Issuer ctx]\<rparr> (cf_JWTLeewayTimeSecs (cx ctx) * second)))) (\<lambda>_.
          tryM (if authnCtx = AuthnContextToken then MarkTokenEndpointClientAuthenticated (c_ID c) else okM ()) (\<lambda>_.
          ReserveJTI ctx
            \<lparr>ju_ID = jc_ID popClaims, ju_Issuer = jc_Issuer popClaims, ju_Purpose = JTIUsePurposeClientAttestationPoP,
             ju_ExpiresAt = expiry * second + cf_JWTLeewayTimeSecs (cx ctx) * second\<rparr>
            ErrorCodeInvalidClient ''invalid client''))))))"

definition authenticateAttestationJWT :: "'st Context \<Rightarrow> Client \<Rightarrow> AuthnContext \<Rightarrow> ('st, unit) M" where
  "authenticateAttestationJWT ctx c authnCtx =
     tryM (liftE (attestation_issuer ctx)) (\<lambda>(attestationJWS, issuer).
     tryM (attestation_issuer_JWKS ctx issuer) (\<lambda>issuerJWKS.
     tryM (liftE (attestation_key (cx_Lib ctx) attestationJWS issuer issuerJWKS)) (\<lambda>(parsed, issuerJWK).
     tryM (attestation_confirmation ctx c issuer parsed issuerJWK) (\<lambda>cnfJWK.
     case rq_Header (cx_Request ctx) headerAttestionPoP of
       [] \<Rightarrow> checkM (attestation_DPoP ctx authnCtx cnfJWK)
     | [attestationPopJWS] \<Rightarrow> attestation_PoP ctx c authnCtx attestationPopJWS cnfJWK
     | _ \<Rightarrow> failM (invalid_client (ErrNew ''there must be precisely one OAuth-Client-Attestation-PoP header''))))))"

section \<open>Authentication\<close>

text \<open>\<^verbatim>\<open>Authenticate\<close> returns the client, whose cached keys it may have set.\<close>

definition Authenticate :: "'st Context \<Rightarrow> Client \<Rightarrow> AuthnContext \<Rightarrow> ('st, Client) M" where
  "Authenticate ctx c authnCtx =
     (let unsupported = invalid_client (ErrNew ''the client's authentication method is not supported'');
          m = c_TokenAuthnMethod c; same = (\<lambda>p. tryM p (\<lambda>_. okM c)) in
      guardM (m \<notin> set (cf_AuthnMethods (cx ctx))) unsupported (
      if m = AuthnMethodNone then okM c
      else if m = AuthnMethodSecretPost then same (authenticateSecretPost ctx c)
      else if m = AuthnMethodSecretBasic then same (authenticateSecretBasic ctx c)
      else if m = AuthnMethodPrivateKeyJWT then authenticatePrivateKeyJWT ctx c authnCtx
      else if m = AuthnMethodSecretJWT then same (authenticateSecretJWT ctx c authnCtx)
      else if m = AuthnMethodSelfSignedTLS then authenticateSelfSignedTLSCert ctx c
      else if m = AuthnMethodTLS then same (authenticateTLSCert ctx c)
      else if m = AuthnMethodAttestationJWT then same (authenticateAttestationJWT ctx c authnCtx)
      else failM unsupported))"

definition UsesAttestationDPoP :: "'st Context \<Rightarrow> Client \<Rightarrow> bool" where
  "UsesAttestationDPoP ctx c =
     (c_TokenAuthnMethod c = AuthnMethodAttestationJWT
      \<and> rq_Header (cx_Request ctx) headerAttestionPoP = [] \<and> DPoP_JWT ctx \<noteq> None)"

definition clientResolutionServerError :: "go_error \<Rightarrow> go_error" where
  "clientResolutionServerError cause =
     WrapError ErrorCodeServerError ''server error'' (ErrBoundary ''client resolution failed'' cause)"

definition Authenticated :: "'st Context \<Rightarrow> AuthnContext \<Rightarrow> ('st, Client) M" where
  "Authenticated ctx authnCtx =
     tryM (mapErrM invalid_client (liftE (ExtractID ctx))) (\<lambda>i.
     tryM (mapErrM (\<lambda>e. if errors_Is e ErrNotFound then invalid_client e else clientResolutionServerError e)
            (Client_of ctx i)) (\<lambda>c.
     tryM (mapErrM unless_server_error (Authenticate ctx c authnCtx)) (\<lambda>c'.
     tryM (if authnCtx = AuthnContextToken \<and> c_TokenAuthnMethod c' \<noteq> AuthnMethodNone \<and> \<not> UsesAttestationDPoP ctx c'
           then MarkTokenEndpointClientAuthenticated (c_ID c') else okM ()) (\<lambda>_.
     okM c'))))"

section \<open>Frames\<close>

lemma keeps_calls_storeM [frame_intros]: "keeps (\<lambda>w. m \<le> w_calls w) (storeM f)"
  by (rule keepsI) (auto simp: storeM_def split: prod.splits)

text \<open>A client lookup keeps what the two stores of clients keep.\<close>

definition client_reads :: "'st Context \<Rightarrow> ('st World \<Rightarrow> bool) \<Rightarrow> bool" where
  "client_reads ctx P \<longleftrightarrow>
     (\<forall>i. keeps P (storeM (\<lambda>n. m_Fed_Client (cf_Managers (cx ctx)) n i))
        \<and> keeps P (storeM (\<lambda>n. m_DCR_Client (cf_Managers (cx ctx)) n i)))"

lemma client_reads_calls [frame_intros]: "client_reads ctx (\<lambda>w. m \<le> w_calls w)"
  unfolding client_reads_def by (auto intro: frame_intros)

lemma keeps_Client_of [frame_intros]: "stable P \<Longrightarrow> client_reads ctx P \<Longrightarrow> keeps P (Client_of ctx i)"
  unfolding Client_of_def client_reads_def by (auto intro!: frame_intros)

lemma keeps_client_keys [frame_intros]:
  "stable P \<Longrightarrow> keeps P (fetchJWKS ctx c)" "stable P \<Longrightarrow> keeps P (fetchSignedJWKS ctx c)"
  unfolding fetchJWKS_def fetchSignedJWKS_def Let_def by (intro frame_intros; assumption)+

lemma keeps_JWKS [frame_intros]: "stable P \<Longrightarrow> keeps P (JWKS ctx c)"
  unfolding JWKS_def Let_def by (intro frame_intros; assumption)+

lemma keeps_client_key [frame_intros]:
  "stable P \<Longrightarrow> keeps P (JWKByKeyID ctx c i)" "stable P \<Longrightarrow> keeps P (JWKByAlg ctx c alg)"
  unfolding JWKByKeyID_def JWKByAlg_def by (intro frame_intros; assumption)+

lemma keeps_assertion_parts [frame_intros]:
  "stable P \<Longrightarrow> keeps P (secret_expiry ctx c)" "stable P \<Longrightarrow> keeps P (areClaimsValid ctx claims c)"
  "stable P \<Longrightarrow> keeps P (consumeClientAssertionJTI ctx c claims a)"
  "stable P \<Longrightarrow> keeps P (privateKeyJWTVerificationKey ctx c h algs)"
  unfolding secret_expiry_def areClaimsValid_def consumeClientAssertionJTI_def privateKeyJWTVerificationKey_def
    JWKMatchingHeader_def
  by (intro frame_intros; assumption)+

lemma keeps_case_single [frame_intros]:
  "keeps P n \<Longrightarrow> (\<And>x. keeps P (m x)) \<Longrightarrow> keeps P l \<Longrightarrow> keeps P (case xs of [] \<Rightarrow> n | [x] \<Rightarrow> m x | _ \<Rightarrow> l)"
  by (auto split: list.splits)

lemma keeps_attestation [frame_intros]:
  "stable P \<Longrightarrow> keeps P (attestation_issuer_JWKS ctx i)" "stable P \<Longrightarrow> keeps P (attestation_confirmation ctx c i t k)"
  "stable P \<Longrightarrow> keeps P (attestation_PoP ctx c a s k)"
  unfolding attestation_issuer_JWKS_def attestation_confirmation_def attestation_PoP_def Let_def
  by (intro frame_intros; assumption)+

lemma keeps_methods [frame_intros]:
  "stable P \<Longrightarrow> keeps P (authenticateSecretPost ctx c)" "stable P \<Longrightarrow> keeps P (authenticateSecretBasic ctx c)"
  "stable P \<Longrightarrow> keeps P (authenticateSecretJWT ctx c a)" "stable P \<Longrightarrow> keeps P (authenticatePrivateKeyJWT ctx c a)"
  "stable P \<Longrightarrow> keeps P (authenticateSelfSignedTLSCert ctx c)" "stable P \<Longrightarrow> keeps P (authenticateTLSCert ctx c)"
  "stable P \<Longrightarrow> keeps P (authenticateAttestationJWT ctx c a)"
  unfolding authenticateSecretPost_def authenticateSecretBasic_def authenticateSecretJWT_def authenticatePrivateKeyJWT_def
    authenticateSelfSignedTLSCert_def authenticateTLSCert_def authenticateAttestationJWT_def Let_def
  by (intro frame_intros; assumption)+

lemma keeps_Authenticate [frame_intros]: "stable P \<Longrightarrow> keeps P (Authenticate ctx c a)"
  unfolding Authenticate_def Let_def by (intro frame_intros)

lemma keeps_Authenticated [frame_intros]: "stable P \<Longrightarrow> client_reads ctx P \<Longrightarrow> keeps P (Authenticated ctx a)"
  unfolding Authenticated_def by (intro frame_intros)

section \<open>The identified client\<close>

lemma request_ids_ok:
  assumes "request_ids ctx = Inr ids"
  shows "set ids = {i. (i = PostFormValue (cx_Request ctx) formPostParamID \<and> i \<noteq> '''')
      \<or> (\<exists>p. rq_BasicAuth (cx_Request ctx) = Some (i, p) \<and> i \<noteq> '''')
      \<or> (PostFormValue (cx_Request ctx) formPostParamAssertion \<noteq> ''''
          \<and> unverified_claim (cx_Lib ctx) (PostFormValue (cx_Request ctx) formPostParamAssertion) (TokenAuthnSigAlgs ctx) ClaimIssuer = Inr i)
      \<or> (\<exists>att. Header ctx headerAttestion = Some att \<and> unverified_claim (cx_Lib ctx) att allAsymmetricAlgs ClaimSubject = Inr i)}"
proof -
  let ?a = "unverified_claim (cx_Lib ctx) (PostFormValue (cx_Request ctx) formPostParamAssertion) (TokenAuthnSigAlgs ctx) ClaimIssuer"
  let ?f = "nonempty (PostFormValue (cx_Request ctx) formPostParamID) @
      nonempty (case rq_BasicAuth (cx_Request ctx) of None \<Rightarrow> '''' | Some (i, _) \<Rightarrow> i)"
  have f: "set ?f = {i. i = PostFormValue (cx_Request ctx) formPostParamID \<and> i \<noteq> ''''}
      \<union> {i. \<exists>p. rq_BasicAuth (cx_Request ctx) = Some (i, p) \<and> i \<noteq> ''''}"
    by (auto simp: nonempty_def split: option.splits if_splits)
  obtain as where as: "(if PostFormValue (cx_Request ctx) formPostParamAssertion = '''' then Inr [] else map_sum id (\<lambda>i. [i]) ?a) = Inr as"
    and ids: "ids = ?f @ as @ (case Header ctx headerAttestion of None \<Rightarrow> [] | Some att \<Rightarrow>
        [projr (unverified_claim (cx_Lib ctx) att allAsymmetricAlgs ClaimSubject)])"
    and att: "\<And>att. Header ctx headerAttestion = Some att \<Longrightarrow>
        \<exists>i. unverified_claim (cx_Lib ctx) att allAsymmetricAlgs ClaimSubject = Inr i"
    using assms unfolding request_ids_def Let_def by (auto split: sum.splits option.splits)
  have "set as = {i. PostFormValue (cx_Request ctx) formPostParamAssertion \<noteq> '''' \<and> ?a = Inr i}"
    using as by (cases ?a) (auto split: if_splits)
  moreover have "set (case Header ctx headerAttestion of None \<Rightarrow> [] | Some att \<Rightarrow>
      [projr (unverified_claim (cx_Lib ctx) att allAsymmetricAlgs ClaimSubject)])
    = {i. \<exists>att. Header ctx headerAttestion = Some att \<and> unverified_claim (cx_Lib ctx) att allAsymmetricAlgs ClaimSubject = Inr i}"
    using att by (cases "Header ctx headerAttestion") fastforce+
  ultimately show ?thesis
    using f unfolding ids set_append by blast
qed

text \<open>The identifier extracted from a request is the only one the request contains: every place that names
  a client (the form field, the basic authentication, the issuer of a client assertion, the subject of a
  client attestation) names this one, and at least one does.\<close>

theorem ExtractID_consistent:
  assumes "ExtractID ctx = Inr i"
  shows "{j. (j = PostFormValue (cx_Request ctx) formPostParamID \<and> j \<noteq> '''')
      \<or> (\<exists>p. rq_BasicAuth (cx_Request ctx) = Some (j, p) \<and> j \<noteq> '''')
      \<or> (PostFormValue (cx_Request ctx) formPostParamAssertion \<noteq> ''''
          \<and> unverified_claim (cx_Lib ctx) (PostFormValue (cx_Request ctx) formPostParamAssertion) (TokenAuthnSigAlgs ctx) ClaimIssuer = Inr j)
      \<or> (\<exists>att. Header ctx headerAttestion = Some att \<and> unverified_claim (cx_Lib ctx) att allAsymmetricAlgs ClaimSubject = Inr j)} = {i}"
proof -
  obtain rest where "request_ids ctx = Inr (i # rest)" "list_all (\<lambda>j. j = i) rest"
    using assms by (auto simp: ExtractID_def split: sum.splits list.splits if_splits)
  then show ?thesis
    using request_ids_ok [of ctx "i # rest"] by (auto simp: list_all_iff)
qed

theorem ExtractID_consistent_witness:
  "rq_BasicAuth (zero_Request\<lparr>rq_PostForm := [(''client_id'', [''c1''])], rq_BasicAuth := Some (''c1'', ''s'')\<rparr>) = Some (''c1'', ''s'')
   \<and> ExtractID ((base_Context (mem_Managers (\<lambda>_. id)))\<lparr>cx_Request := zero_Request\<lparr>rq_PostForm := [(''client_id'', [''c1''])], rq_BasicAuth := Some (''c1'', ''s'')\<rparr>\<rparr>) = Inr ''c1''"
proof -
  let ?ctx = "(base_Context (mem_Managers (\<lambda>_. id)))\<lparr>cx_Request := zero_Request\<lparr>rq_PostForm := [(''client_id'', [''c1''])], rq_BasicAuth := Some (''c1'', ''s'')\<rparr>\<rparr>"
  have e: "ExtractID ?ctx = Inr ''c1''" by code_simp
  have "''c1'' \<in> {''c1''}"
    unfolding ExtractID_consistent [OF e, symmetric] by (simp add: zero_Request_def)
  with e show ?thesis by simp
qed

section \<open>Keys of an authority snapshot\<close>

definition usable_key :: "Lib \<Rightarrow> SignatureAlgorithm list \<Rightarrow> PrivateKeyJWTAuthorityKey \<Rightarrow> bool" where
  "usable_key lib algs a \<longleftrightarrow>
     pak_KeyAuthorityID a \<noteq> '''' \<and> l_Valid lib (pak_Key a) \<and> l_IsPublic lib (pak_Key a)
     \<and> isl (l_Thumbprint lib (pak_Key a)) = False
     \<and> jwk_Use (pak_Key a) = KeyUsageSignature \<and> jwk_Algorithm (pak_Key a) \<in> set algs \<and> jwk_KeyID (pak_Key a) \<noteq> ''''"

lemma distinct_singleton: "distinct xs \<Longrightarrow> set xs = {m} \<Longrightarrow> xs = [m]"
  by (cases xs; cases "tl xs") (auto simp: subset_singleton_iff)

lemma check_authority_keys_iff:
  "check_authority_keys lib algs ids thumbs kids ks = None \<longleftrightarrow>
     list_all (usable_key lib algs) ks
     \<and> distinct (map pak_KeyAuthorityID ks) \<and> set (map pak_KeyAuthorityID ks) \<inter> set ids = {}
     \<and> distinct (map (\<lambda>a. projr (l_Thumbprint lib (pak_Key a))) ks)
     \<and> set (map (\<lambda>a. projr (l_Thumbprint lib (pak_Key a))) ks) \<inter> set thumbs = {}
     \<and> distinct (map (\<lambda>a. jwk_KeyID (pak_Key a)) ks) \<and> set (map (\<lambda>a. jwk_KeyID (pak_Key a)) ks) \<inter> set kids = {}"
proof (induction ks arbitrary: ids thumbs kids)
  case (Cons a ks)
  show ?case
    by (cases "l_Thumbprint lib (pak_Key a)") (auto simp: Let_def usable_key_def Cons.IH)
qed simp

text \<open>A key is selected from an authority snapshot exactly when the snapshot has a positive revision, all its
  keys are usable public signature keys of an allowed algorithm, no two of them share an authority
  identifier, a thumbprint or a JOSE key identifier, and precisely one of them matches the header of the assertion;
  that key is the one selected, bound to its authority identifier and the revision.\<close>

theorem authority_key_exact:
  "authority_key lib authority header algs = Inr (key, b) \<longleftrightarrow>
     pka_SnapshotRevision authority > 0
     \<and> list_all (usable_key lib algs) (pka_Keys authority)
     \<and> distinct (map pak_KeyAuthorityID (pka_Keys authority))
     \<and> distinct (map (\<lambda>a. projr (l_Thumbprint lib (pak_Key a))) (pka_Keys authority))
     \<and> distinct (map (\<lambda>a. jwk_KeyID (pak_Key a)) (pka_Keys authority))
     \<and> (\<exists>m. {a \<in> set (pka_Keys authority). header_matches header a} = {m} \<and> key = pak_Key m
          \<and> b = \<lparr>pkb_snapshotRevision = pka_SnapshotRevision authority, pkb_keyAuthorityID = pak_KeyAuthorityID m\<rparr>)"
proof -
  let ?ks = "pka_Keys authority"
  have one: "filter Q ?ks = [m] \<longleftrightarrow> {a \<in> set ?ks. Q a} = {m}" if "distinct ?ks" for Q m
  proof
    assume "filter Q ?ks = [m]"
    then have "set (filter Q ?ks) = {m}" by simp
    then show "{a \<in> set ?ks. Q a} = {m}" by simp
  qed (use distinct_singleton [of "filter Q ?ks" m] that in simp)
  have d: "distinct ?ks" if "distinct (map pak_KeyAuthorityID ?ks)"
    using that by (simp add: distinct_map)
  have "authority_key lib authority header algs = Inr (key, b) \<longleftrightarrow>
     pka_SnapshotRevision authority > 0 \<and> ?ks \<noteq> [] \<and> check_authority_keys lib algs [] [] [] ?ks = None
     \<and> (\<exists>m. filter (header_matches header) ?ks = [m] \<and> key = pak_Key m
          \<and> b = \<lparr>pkb_snapshotRevision = pka_SnapshotRevision authority, pkb_keyAuthorityID = pak_KeyAuthorityID m\<rparr>)"
    unfolding authority_key_def by (auto split: option.splits list.splits)
  then show ?thesis
    using one d unfolding check_authority_keys_iff by auto
qed

section \<open>Errors of authentication\<close>

lemma invalid_client_code [simp]: "code_in cs (invalid_client e) \<longleftrightarrow> ErrorCodeInvalidClient \<in> cs"
  by (simp add: invalid_client_def)

lemma unless_server_error_code:
  "code_in {ErrorCodeInvalidClient, ErrorCodeServerError, ErrorCodeInternalError} (unless_server_error e)"
  by (auto simp: unless_server_error_def isClientAuthenticationServerError_def invalid_client_def code_in_def split: option.splits)

lemma fails_Authenticated [fail_intros]:
  "fails_in (code_in {ErrorCodeInvalidClient, ErrorCodeServerError, ErrorCodeInternalError}) (Authenticated ctx authnCtx)"
  unfolding Authenticated_def
  by (intro fail_intros) (auto simp: clientResolutionServerError_def unless_server_error_code)

text \<open>C35: a client that cannot be authenticated is refused with \<^verbatim>\<open>invalid_client\<close>, and only a failure of the
  provider itself (its store, its resolver, its assertion policy) is reported as a server error; no other
  error leaves the authentication.\<close>

theorem authentication_errors:
  assumes "Authenticated ctx authnCtx w = (Inl e, w')"
  shows "\<exists>x. errors_As e = Some x \<and> err_Code x \<in> {ErrorCodeInvalidClient, ErrorCodeServerError, ErrorCodeInternalError}"
  using fails_inD [OF fails_Authenticated assms] by (simp add: code_in_def)

theorem authentication_errors_witness:
  "\<exists>e x. fst (Authenticated (base_Context (mem_Managers (\<lambda>_. id))) AuthnContextToken (start_World (NewManager 1) 0)) = Inl e
     \<and> errors_As e = Some x \<and> err_Code x \<in> {ErrorCodeInvalidClient, ErrorCodeServerError, ErrorCodeInternalError}"
proof -
  have "Authenticated (base_Context (mem_Managers (\<lambda>_. id))) AuthnContextToken (start_World (NewManager 1) 0)
    = (Inl (invalid_client ErrClientNotIdentified), start_World (NewManager 1) 0)"
    by code_simp
  from authentication_errors [OF this] this show ?thesis by simp
qed

section \<open>What an accepted assertion guarantees\<close>

text \<open>The claims of the assertion of the request, verified with the given key.\<close>

definition verified_assertion :: "'st Context \<Rightarrow> Client \<Rightarrow> AuthnContext \<Rightarrow> JoseHeader \<Rightarrow> JSONWebKey \<Rightarrow> JWTClaims \<Rightarrow> bool" where
  "verified_assertion ctx c authnCtx header jwk claims \<longleftrightarrow>
     (\<exists>s t p. assertion_of ctx = Inr s
        \<and> l_ParseSigned (cx_Lib ctx) s (authnSigAlgs c authnCtx (cf_AuthnMethodPrivateKeyJWTSigAlgs (cx ctx))) = Inr t
        \<and> jwt_Headers t = [header] \<and> l_IsPublic (cx_Lib ctx) jwk
        \<and> l_Verify (cx_Lib ctx) t (VKey (jwk_Key jwk)) = Inr p \<and> l_DecodeClaims (cx_Lib ctx) p = Inr claims)"

text \<open>The key is the one the client's authority snapshot selects, or one of the client's own key set.\<close>

definition key_of_client :: "'st Context \<Rightarrow> Client \<Rightarrow> AuthnContext \<Rightarrow> JoseHeader \<Rightarrow> JSONWebKey \<Rightarrow> nat \<Rightarrow> bool" where
  "key_of_client ctx c authnCtx header jwk n \<longleftrightarrow>
     (case c_PrivateKeyJWTAuthority c of
        Some authority \<Rightarrow> \<exists>b. authority_key (cx_Lib ctx) authority header
           (authnSigAlgs c authnCtx (cf_AuthnMethodPrivateKeyJWTSigAlgs (cx ctx))) = Inr (jwk, b)
      | None \<Rightarrow> \<exists>w jwks c' w'. w_calls w = n \<and> JWKS ctx c w = (Inr (jwks, c'), w') \<and> jwk \<in> set jwks)"

lemma find_SomeD: "find P xs = Some x \<Longrightarrow> x \<in> set xs \<and> P x"
  by (auto simp: find_Some_iff)

lemma case_single_ok:
  "(case xs of [] \<Rightarrow> failM e | [x] \<Rightarrow> m x | x # y # ys \<Rightarrow> failM e') w = (Inr z, w') \<longleftrightarrow> (\<exists>x. xs = [x] \<and> m x w = (Inr z, w'))"
  by (auto split: list.splits)

lemma case_option_ok:
  "(case x of None \<Rightarrow> failM e | Some y \<Rightarrow> m y) w = (Inr z, w') \<longleftrightarrow> (\<exists>y. x = Some y \<and> m y w = (Inr z, w'))"
  by (auto split: option.splits)

lemma JWKS_Key_ok: "JWKS_Key jwks kid = Inr k \<longleftrightarrow> find (\<lambda>k. jwk_KeyID k = kid) jwks = Some k"
  by (auto simp: JWKS_Key_def split: option.splits)

lemma JWKMatchingHeader_ok:
  "JWKMatchingHeader ctx c header w = (Inr (jwk, c'), w') \<Longrightarrow>
     \<exists>jwks w''. JWKS ctx c w = (Inr (jwks, c'), w'') \<and> jwk \<in> set jwks"
  unfolding JWKMatchingHeader_def JWKByKeyID_def JWKByAlg_def
  by (fastforce simp: ok_simps case_option_ok JWKS_Key_ok split: if_splits dest!: find_SomeD)

lemma areClaimsValid_ok:
  "areClaimsValid ctx claims c w = (Inr u, w') \<Longrightarrow>
     (\<exists>e. jc_Expiry claims = Some e \<and> whole_seconds (e * second - l_Now (cx_Lib ctx) (w_calls w)) \<le> cf_JWTLifetimeSecs (cx ctx))
     \<and> jc_ID claims \<noteq> '''' \<and> w' = w\<lparr>w_calls := w_calls w + 2\<rparr>
     \<and> l_ValidateWithLeeway (cx_Lib ctx) (Suc (w_calls w)) claims
         \<lparr>ex_Issuer = c_ID c, ex_Subject = c_ID c, ex_AnyAudience = assertion_audiences ctx\<rparr> (cf_JWTLeewayTimeSecs (cx ctx) * second) = None"
  unfolding areClaimsValid_def Now_def by (auto simp: ok_simps split: option.splits)

lemma consumeClientAssertionJTI_ok:
  assumes "consumeClientAssertionJTI ctx c claims a w = (Inr u, w')"
  shows "\<exists>ex. jti_accepted ctx (w_calls w) \<lparr>ju_ID = jc_ID claims, ju_Issuer = jc_Issuer claims,
      ju_Purpose = JTIUsePurposeClientAssertion, ju_ExpiresAt = ex\<rparr> \<and> w_calls w' = Suc (w_calls w)"
  using assms unfolding consumeClientAssertionJTI_def
  by (auto simp: ok_simps MarkTokenEndpointClientAuthenticated_def dest!: ReserveJTI_ok split: if_splits)

lemma private_key_accepts:
  assumes "authenticatePrivateKeyJWT ctx c authnCtx w = (Inr c', w')"
  shows "\<exists>header jwk claims ex k.
     verified_assertion ctx c authnCtx header jwk claims \<and> key_of_client ctx c authnCtx header jwk (w_calls w)
     \<and> l_ValidateWithLeeway (cx_Lib ctx) (Suc k) claims
         \<lparr>ex_Issuer = c_ID c, ex_Subject = c_ID c, ex_AnyAudience = assertion_audiences ctx\<rparr> (cf_JWTLeewayTimeSecs (cx ctx) * second) = None
     \<and> jc_ID claims \<noteq> ''''
     \<and> (\<exists>n. w_calls w \<le> n \<and> n < w_calls w' \<and> jti_accepted ctx n \<lparr>ju_ID = jc_ID claims, ju_Issuer = jc_Issuer claims,
          ju_Purpose = JTIUsePurposeClientAssertion, ju_ExpiresAt = ex\<rparr>)"
proof -
  let ?lib = "cx_Lib ctx"
  let ?algs = "authnSigAlgs c authnCtx (cf_AuthnMethodPrivateKeyJWTSigAlgs (cx ctx))"
  obtain s t header jwk au p claims w1 w2 w3 w4 w5 where
    p: "assertion_of ctx = Inr s" "l_ParseSigned ?lib s ?algs = Inr t" "jwt_Headers t = [header]" "l_IsPublic ?lib jwk"
      "l_Verify ?lib t (VKey (jwk_Key jwk)) = Inr p" "l_DecodeClaims ?lib p = Inr claims"
    and k: "privateKeyJWTVerificationKey ctx c header ?algs w = (Inr (jwk, au, c'), w1)"
    and v: "areClaimsValid ctx claims c w1 = (Inr (), w2)"
    and pol: "ApplyPrivateKeyJWTAssertionPolicy ctx
            \<lparr>va_AuthenticatedClientID = c_ID c,
             va_Header = \<lparr>vch_Algorithm = jh_Algorithm header, vch_KeyID = jh_KeyID header, vch_Type = header_typ header\<rparr>,
             va_Claims = p, va_Authority = verifiedClientAssertionAuthority au\<rparr> w2 = (Inr (), w3)"
    and j: "consumeClientAssertionJTI ctx c claims authnCtx w3 = (Inr (), w4)"
    and rec: "RecordClientAssertionAuthority (c_ID c) (verifiedClientAssertionAuthority au) (w4\<lparr>w_calls := Suc (w_calls w4)\<rparr>) = (Inr (), w')"
    using assms unfolding authenticatePrivateKeyJWT_def Let_def
    by (auto simp: ok_simps case_single_ok)
  have r: "w_calls w4 \<le> w_calls w'"
    using keepsD [OF keeps_request_state(1) [OF stable_calls [of "w_calls w4"]] rec] by simp
  have key: "key_of_client ctx c authnCtx header jwk (w_calls w)"
    using k unfolding privateKeyJWTVerificationKey_def key_of_client_def
    by (auto simp: ok_simps split: option.splits dest!: JWKMatchingHeader_ok)
  have le: "w_calls w \<le> w_calls w1" "w_calls w2 \<le> w_calls w3"
    using keepsD [OF keeps_assertion_parts(4) [OF stable_calls [of "w_calls w"]] k]
      keepsD [OF keeps_policy [OF stable_calls [of "w_calls w2"]] pol] by simp_all
  obtain ex where acc: "jti_accepted ctx (w_calls w3) \<lparr>ju_ID = jc_ID claims, ju_Issuer = jc_Issuer claims,
      ju_Purpose = JTIUsePurposeClientAssertion, ju_ExpiresAt = ex\<rparr>" "w_calls w4 = Suc (w_calls w3)"
    using consumeClientAssertionJTI_ok [OF j] by blast
  note vs = areClaimsValid_ok [OF v]
  have "verified_assertion ctx c authnCtx header jwk claims"
    unfolding verified_assertion_def using p by blast
  with key acc vs le r show ?thesis
    by (intro exI [of _ header] exI [of _ jwk] exI [of _ claims] exI [of _ ex] exI [of _ "w_calls w1"] conjI
        exI [of _ "w_calls w3"]) auto
qed

text \<open>C18: a client authenticated with \<^verbatim>\<open>private_key_jwt\<close> presented an assertion that was parsed with an allowed
  algorithm, has one header, was verified with a public key that its authority snapshot selects or that is in its own key set,
  was validated as issued by the client about itself for this provider, carries an identifier, and had
  that identifier reserved during the authentication.\<close>

theorem private_key_assertion_sound:
  assumes "Authenticate ctx c authnCtx w = (Inr c', w')" and "c_TokenAuthnMethod c = AuthnMethodPrivateKeyJWT"
  shows "\<exists>header jwk claims ex k.
     verified_assertion ctx c authnCtx header jwk claims \<and> key_of_client ctx c authnCtx header jwk (w_calls w)
     \<and> l_ValidateWithLeeway (cx_Lib ctx) (Suc k) claims
         \<lparr>ex_Issuer = c_ID c, ex_Subject = c_ID c, ex_AnyAudience = assertion_audiences ctx\<rparr> (cf_JWTLeewayTimeSecs (cx ctx) * second) = None
     \<and> jc_ID claims \<noteq> ''''
     \<and> (\<exists>n. w_calls w \<le> n \<and> n < w_calls w' \<and> jti_accepted ctx n \<lparr>ju_ID = jc_ID claims, ju_Issuer = jc_Issuer claims,
          ju_Purpose = JTIUsePurposeClientAssertion, ju_ExpiresAt = ex\<rparr>)"
  using assms by (intro private_key_accepts) (auto simp: Authenticate_def ok_simps const_defs)

text \<open>C21: a client assertion accepted once is refused from then on, for every client and at every endpoint, when the
  configured consumer of identifiers does not accept the same identifier of the same issuer twice. Of the
  token library this uses that verification returns the payload of the token and that parsing does not depend on the
  allowed algorithms when it succeeds.\<close>

theorem assertion_not_replayable:
  assumes "cf_ConsumeJTIUseFunc (cx ctx) = Some f"
    and contract: "\<forall>k k' use use'. k < k' \<longrightarrow> f k use = None \<longrightarrow> ju_ID use' = ju_ID use \<longrightarrow> ju_Issuer use' = ju_Issuer use
      \<longrightarrow> ju_Purpose use' = ju_Purpose use \<longrightarrow> f k' use' \<noteq> None"
    and payload: "\<forall>t k p. l_Verify (cx_Lib ctx) t k = Inr p \<longrightarrow> p = l_Payload (cx_Lib ctx) t"
    and parse: "\<forall>s a b t t'. l_ParseSigned (cx_Lib ctx) s a = Inr t \<longrightarrow> l_ParseSigned (cx_Lib ctx) s b = Inr t' \<longrightarrow> t' = t"
    and "authenticatePrivateKeyJWT ctx c a w = (Inr c1, w')"
    and "cx_Lib ctx' = cx_Lib ctx" "cx ctx' = cx ctx" "assertion_of ctx' = assertion_of ctx" "w_calls w' \<le> w_calls v"
  shows "\<exists>e v'. authenticatePrivateKeyJWT ctx' c' a' v = (Inl e, v')"
proof (cases "authenticatePrivateKeyJWT ctx' c' a' v")
  case (Pair r v')
  show ?thesis
  proof (cases r)
    case (Inr c2)
    obtain h jwk claims ex k where x: "verified_assertion ctx c a h jwk claims" "k < w_calls w'"
      "jti_accepted ctx k \<lparr>ju_ID = jc_ID claims, ju_Issuer = jc_Issuer claims, ju_Purpose = JTIUsePurposeClientAssertion, ju_ExpiresAt = ex\<rparr>"
      using private_key_accepts [OF assms(5)] by blast
    obtain h' jwk' claims' ex' k' where y: "verified_assertion ctx' c' a' h' jwk' claims'" "w_calls v \<le> k'"
      "jti_accepted ctx' k' \<lparr>ju_ID = jc_ID claims', ju_Issuer = jc_Issuer claims', ju_Purpose = JTIUsePurposeClientAssertion, ju_ExpiresAt = ex'\<rparr>"
      using private_key_accepts [OF Pair [unfolded Inr]] by blast
    have "claims' = claims"
      using x(1) y(1) assms(6,7,8) payload parse unfolding verified_assertion_def by (metis Inr_inject)
    moreover from x(2) y(2) assms(9) have "k < k'" by linarith
    ultimately show ?thesis
      using x(3) y(3) assms(1,7) contract [rule_format, OF \<open>k < k'\<close>, of "\<lparr>ju_ID = jc_ID claims, ju_Issuer = jc_Issuer claims,
          ju_Purpose = JTIUsePurposeClientAssertion, ju_ExpiresAt = ex\<rparr>" "\<lparr>ju_ID = jc_ID claims, ju_Issuer = jc_Issuer claims,
          ju_Purpose = JTIUsePurposeClientAssertion, ju_ExpiresAt = ex'\<rparr>"]
      by (auto simp: jti_accepted_def)
  qed (use Pair in auto)
qed

subsection \<open>A concrete client\<close>

definition sample_client :: Client where
  "sample_client = zero_Client\<lparr>c_ID := ''c1'', c_TokenAuthnMethod := AuthnMethodPrivateKeyJWT,
     c_JWKS := Some [zero_JSONWebKey\<lparr>jwk_Algorithm := SigAlgPS256\<rparr>]\<rparr>"

definition assertion_Context :: "Manager Context" where
  "assertion_Context = sample_Context\<lparr>
     cx := (cx sample_Context)\<lparr>cf_AuthnMethods := [AuthnMethodPrivateKeyJWT], cf_StaticClients := [sample_client], cf_JWTLifetimeSecs := 60\<rparr>,
     cx_Lib := sample_Lib\<lparr>l_Payload := (\<lambda>t. ''a''),
       l_ParseSigned := (\<lambda>s algs. Inr \<lparr>jwt_Headers = [\<lparr>jh_KeyID = '''', jh_Algorithm = SigAlgPS256,
          jh_JSONWebKey = None, jh_ExtraHeaders = []\<rparr>], jwt_Raw = s\<rparr>),
       l_DecodeClaims := (\<lambda>p. Inr \<lparr>jc_Issuer = ''c1'', jc_Subject = ''c1'', jc_Audience = [''https://op''], jc_Expiry = Some 5,
          jc_NotBefore = None, jc_IssuedAt = Some 5, jc_ID = ''x''\<rparr>),
       l_DecodeMap := (\<lambda>p. Inr [(''iss'', JStr ''c1'')])\<rparr>,
     cx_Request := zero_Request\<lparr>rq_PostForm := [(''client_assertion'', [''h.YQ.s'']),
       (''client_assertion_type'', [AssertionTypeJWTBearer])]\<rparr>\<rparr>"

lemma assertion_accepted:
  "authenticatePrivateKeyJWT assertion_Context sample_client AuthnContextToken (start_World (NewManager 1) 0)
    = (Inr sample_client, start_World (NewManager 1) 4)"
  "Authenticate assertion_Context sample_client AuthnContextToken (start_World (NewManager 1) 0)
    = (Inr sample_client, start_World (NewManager 1) 4)"
  by code_simp+

theorem private_key_assertion_sound_witness:
  "\<exists>header jwk claims. verified_assertion assertion_Context sample_client AuthnContextToken header jwk claims \<and> jc_ID claims \<noteq> ''''"
  using private_key_assertion_sound [OF assertion_accepted(2)] by (auto simp: sample_client_def)

theorem assertion_not_replayable_witness:
  "\<exists>e v'. authenticatePrivateKeyJWT assertion_Context sample_client AuthnContextPAR (start_World (NewManager 1) 7) = (Inl e, v')"
  by (rule assertion_not_replayable [of assertion_Context sample_consumer sample_client AuthnContextToken
        "start_World (NewManager 1) 0" sample_client "start_World (NewManager 1) 4"])
    (use assertion_accepted in \<open>auto simp: assertion_Context_def sample_Context_def sample_Lib_def sample_consumer_def start_World_def split: if_splits\<close>)

end
