(* ===== verification/VcUtil.thy ===== *)
theory VcUtil
  imports Context
begin

text \<open>
  Resolution of the credential issuer and the credential configurations a request asks for,
  \<^verbatim>\<open>internal/vc/util/resolve.go\<close>. Three kinds of signals name them: authorization details, scopes and
  resources; they must agree on one issuer.

  The configuration identifiers are returned in the order in which they were found; the source returns
  them in the iteration order of a map.
\<close>

record VCRequest =
  vr_Scopes :: string
  vr_Details :: "AuthDetail slice"
  vr_Resources :: "string slice"

definition invalid_details :: "string \<Rightarrow> go_error" where
  "invalid_details m = WrapError ErrorCodeInvalidAuthDetails ''invalid authorization details'' (ErrNew m)"

text \<open>One authorization detail of the type \<^verbatim>\<open>openid_credential\<close>: the issuer it settles and its configuration.\<close>

definition detail_location :: "'st Context \<Rightarrow> VCIssuer \<Rightarrow> AuthDetail \<Rightarrow> go_error + VCIssuer" where
  "detail_location ctx issuer detail =
     (case elems (AuthDetail_Locations detail) of
        [] \<Rightarrow>
          if length (cf_VCIIssuers (cx ctx)) > 1
          then Inl (invalid_details ''the credential issuer could not be determined from the authorization details'')
          else Inr issuer
      | [loc] \<Rightarrow>
          (case (if vci_Issuer issuer = '''' then VCIssuer_of ctx loc else Some issuer) of
             None \<Rightarrow> Inl (invalid_details ''the authorization detail references an unknown credential issuer'')
           | Some iss \<Rightarrow>
               if loc \<noteq> vci_Issuer iss
               then Inl (invalid_details ''all openid_credential authorization details must reference the same issuer'')
               else Inr iss)
      | _ \<Rightarrow> Inl (invalid_details ''openid_credential authorization details must contain at most one location''))"

definition resolve_detail :: "'st Context \<Rightarrow> VCIssuer \<Rightarrow> AuthDetail \<Rightarrow> go_error + VCIssuer \<times> string" where
  "resolve_detail ctx issuer detail =
     (case map_of detail ''credential_configuration_id'' of
        None \<Rightarrow> Inl (invalid_details ''credential_configuration_id is required for openid_credential'')
      | Some (JStr credID) \<Rightarrow>
          (case detail_location ctx issuer detail of
             Inl err \<Rightarrow> Inl err
           | Inr iss \<Rightarrow>
               if credID \<notin> vcc_ID ` set (vci_Configurations iss)
               then Inl (invalid_details ''the authorization detail references an unknown credential configuration'')
               else Inr (iss, credID))
      | Some _ \<Rightarrow> Inl (invalid_details ''credential_configuration_id for openid_credential must be a string''))"

primrec resolve_details ::
  "'st Context \<Rightarrow> AuthDetail list \<Rightarrow> VCIssuer \<Rightarrow> string list \<Rightarrow> go_error + VCIssuer \<times> string list" where
  "resolve_details ctx [] issuer ids = Inr (issuer, ids)"
| "resolve_details ctx (detail # rest) issuer ids =
     (if AuthDetail_Type detail \<noteq> AuthDetailTypeOpenIDCredential then resolve_details ctx rest issuer ids
      else case resolve_detail ctx issuer detail of
        Inl err \<Rightarrow> Inl err
      | Inr (iss, credID) \<Rightarrow> resolve_details ctx rest iss (ids @ [credID]))"
text \<open>The pairs of issuer and configuration whose scope a request names, in the order of the source's nested loops.\<close>

definition scope_hits :: "'st Context \<Rightarrow> string \<Rightarrow> (VCIssuer \<times> VCConfiguration) list" where
  "scope_hits ctx scopes =
     concat (map (\<lambda>s. concat (map (\<lambda>iss. map (Pair iss) (filter (\<lambda>config. vcc_Scope config \<noteq> '''' \<and> vcc_Scope config = s)
        (vci_Configurations iss))) (cf_VCIIssuers (cx ctx)))) (strings_Fields scopes))"

primrec resolve_scopes ::
  "(VCIssuer \<times> VCConfiguration) list \<Rightarrow> VCIssuer \<Rightarrow> string list \<Rightarrow> go_error + VCIssuer \<times> string list" where
  "resolve_scopes [] issuer ids = Inr (issuer, ids)"
| "resolve_scopes (hit # rest) issuer ids =
     (let issuer' = (if vci_Issuer issuer = '''' then fst hit else issuer) in
      if vci_Issuer (fst hit) \<noteq> vci_Issuer issuer'
      then Inl (WrapError ErrorCodeInvalidScope ''invalid scope'' (ErrNew ''the requested VC scopes resolve to different issuers''))
      else resolve_scopes rest issuer' (ids @ [vcc_ID (snd hit)]))"
primrec resolve_resources :: "VCIssuer list \<Rightarrow> VCIssuer \<Rightarrow> go_error + VCIssuer" where
  "resolve_resources [] issuer = Inr issuer"
| "resolve_resources (iss # rest) issuer =
     (let issuer' = (if vci_Issuer issuer = '''' then iss else issuer) in
      if vci_Issuer iss \<noteq> vci_Issuer issuer'
      then Inl (WrapError ErrorCodeInvalidScope ''invalid scope'' (ErrNew ''the requested VC signals resolve to different issuers''))
      else resolve_resources rest issuer')"

definition Resolve :: "'st Context \<Rightarrow> VCRequest \<Rightarrow> go_error + VCIssuer \<times> string list" where
  "Resolve ctx req =
     (let start = (case cf_VCIIssuers (cx ctx) of [iss] \<Rightarrow> iss | _ \<Rightarrow> zero_VCIssuer) in
      case (if cf_RAREnabled (cx ctx) then resolve_details ctx (elems (vr_Details req)) start [] else Inr (start, [])) of
        Inl err \<Rightarrow> Inl err
      | Inr (settled, detailIDs) \<Rightarrow>
          (case resolve_scopes (scope_hits ctx (vr_Scopes req)) settled detailIDs of
             Inl err \<Rightarrow> Inl err
           | Inr (issuer, ids) \<Rightarrow>
               (case (if cf_ResourceIndicatorsEnabled (cx ctx)
                      then resolve_resources (List.map_filter (VCIssuer_of ctx) (elems (vr_Resources req))) issuer
                      else Inr issuer) of
                  Inl err \<Rightarrow> Inl err
                | Inr final \<Rightarrow> if ids = [] then Inr (zero_VCIssuer, []) else Inr (final, remdups ids))))"

section \<open>All signals name one issuer\<close>

text \<open>The accumulator: no issuer settled and nothing found, or a configured issuer with configurations of its own.\<close>

definition acc_ok :: "'st Context \<Rightarrow> VCIssuer \<Rightarrow> string list \<Rightarrow> bool" where
  "acc_ok ctx issuer ids \<longleftrightarrow>
     (if vci_Issuer issuer = '''' then ids = [] \<and> vci_Configurations issuer = []
      else issuer \<in> set (cf_VCIIssuers (cx ctx)) \<and> set ids \<subseteq> vcc_ID ` set (vci_Configurations issuer))"
definition issuers_ok :: "'st Context \<Rightarrow> bool" where
  "issuers_ok ctx \<longleftrightarrow> '''' \<notin> vci_Issuer ` set (cf_VCIIssuers (cx ctx)) \<and> distinct (map vci_Issuer (cf_VCIIssuers (cx ctx)))"

lemma issuers_ok_inj:
  "issuers_ok ctx \<Longrightarrow> i \<in> set (cf_VCIIssuers (cx ctx)) \<Longrightarrow> j \<in> set (cf_VCIIssuers (cx ctx)) \<Longrightarrow> vci_Issuer i = vci_Issuer j \<Longrightarrow> i = j"
  unfolding issuers_ok_def by (auto simp: distinct_map inj_on_def)

lemma VCIssuer_of_SomeD:
  "VCIssuer_of ctx s = Some i \<Longrightarrow> i \<in> set (cf_VCIIssuers (cx ctx)) \<and> vci_Issuer i = s"
  by (auto simp: VCIssuer_of_def find_Some_iff)

lemma resolve_detail_ok:
  assumes "issuers_ok ctx" and "acc_ok ctx issuer ids" and "resolve_detail ctx issuer d = Inr (iss, i)"
  shows "acc_ok ctx iss (ids @ [i])"
proof -
  have loc: "detail_location ctx issuer d = Inr iss" and i: "i \<in> vcc_ID ` set (vci_Configurations iss)"
    using assms(3) by (auto simp: resolve_detail_def split: option.splits json.splits sum.splits if_splits)
  then have "iss = issuer \<or> vci_Issuer issuer = '''' \<and> iss \<in> set (cf_VCIIssuers (cx ctx))"
    unfolding detail_location_def by (auto split: list.splits if_splits option.splits dest: VCIssuer_of_SomeD)
  with i assms(1,2) show ?thesis
    by (auto simp: acc_ok_def issuers_ok_def image_iff split: if_splits)
qed

lemma resolve_details_ok:
  "issuers_ok ctx \<Longrightarrow> acc_ok ctx issuer ids \<Longrightarrow> resolve_details ctx ds issuer ids = Inr (iss, ids') \<Longrightarrow> acc_ok ctx iss ids'"
proof (induction ds arbitrary: issuer ids)
  case (Cons d ds)
  show ?case
  proof (cases "AuthDetail_Type d = AuthDetailTypeOpenIDCredential")
    case True
    with Cons.prems(3) obtain j i where r: "resolve_detail ctx issuer d = Inr (j, i)"
      "resolve_details ctx ds j (ids @ [i]) = Inr (iss, ids')"
      by (auto split: sum.splits)
    from Cons.IH [OF Cons.prems(1) resolve_detail_ok [OF Cons.prems(1,2) r(1)] r(2)] show ?thesis .
  qed (use Cons in auto)
qed simp
lemma scope_hits_ok:
  "(iss, config) \<in> set (scope_hits ctx scopes) \<Longrightarrow> iss \<in> set (cf_VCIIssuers (cx ctx)) \<and> config \<in> set (vci_Configurations iss)"
  by (auto simp: scope_hits_def)

lemma resolve_scopes_ok:
  assumes "issuers_ok ctx" and "\<And>i c. (i, c) \<in> set hits \<Longrightarrow> i \<in> set (cf_VCIIssuers (cx ctx)) \<and> c \<in> set (vci_Configurations i)"
    and "acc_ok ctx issuer ids" and "resolve_scopes hits issuer ids = Inr (iss, ids')"
  shows "acc_ok ctx iss ids' \<and> (vci_Issuer issuer \<noteq> '''' \<longrightarrow> iss = issuer) \<and> fst ` set hits \<subseteq> {iss}"
  using assms(2,3,4)
proof (induction hits arbitrary: issuer ids)
  case (Cons hit rest)
  obtain i c where hit: "hit = (i, c)" by fastforce
  let ?issuer = "if vci_Issuer issuer = '''' then i else issuer"
  have m: "i \<in> set (cf_VCIIssuers (cx ctx))" "c \<in> set (vci_Configurations i)"
    using Cons.prems(1) hit by auto
  from Cons.prems(3) have same: "vci_Issuer i = vci_Issuer ?issuer" and r: "resolve_scopes rest ?issuer (ids @ [vcc_ID c]) = Inr (iss, ids')"
    by (auto simp: Let_def hit split: if_splits)
  have eq: "?issuer = i"
    using same m(1) Cons.prems(2) issuers_ok_inj [OF assms(1)] by (auto simp: acc_ok_def split: if_splits)
  have ne: "vci_Issuer i \<noteq> ''''" using m(1) assms(1) by (auto simp: issuers_ok_def image_iff)
  have acc: "acc_ok ctx ?issuer (ids @ [vcc_ID c])"
    using Cons.prems(2) m ne eq by (auto simp: acc_ok_def split: if_splits)
  have "acc_ok ctx iss ids' \<and> (vci_Issuer ?issuer \<noteq> '''' \<longrightarrow> iss = ?issuer) \<and> fst ` set rest \<subseteq> {iss}"
    by (rule Cons.IH [OF _ acc r]) (rule Cons.prems(1), simp)
  with eq ne hit show ?case by (auto split: if_splits)
qed auto
lemma resolve_resources_ok:
  assumes "issuers_ok ctx" and "set is \<subseteq> set (cf_VCIIssuers (cx ctx))"
    and "issuer \<in> set (cf_VCIIssuers (cx ctx))" and "resolve_resources is issuer = Inr final"
  shows "final = issuer \<and> set is \<subseteq> {issuer}"
  using assms(2,4)
proof (induction "is")
  case (Cons i is')
  have "vci_Issuer issuer \<noteq> ''''" using assms(1,3) by (auto simp: issuers_ok_def image_iff)
  with Cons.prems have "vci_Issuer i = vci_Issuer issuer" "resolve_resources is' issuer = Inr final"
    by (auto simp: Let_def split: if_splits)
  with Cons issuers_ok_inj [OF assms(1) _ assms(3)] show ?case by auto
qed simp

text \<open>When the configured credential issuers have distinct non-empty names, a resolved request names exactly one
  of them: every configuration found belongs to the returned issuer, and no scope and no resource of the
  request names another.\<close>

theorem Resolve_one_issuer:
  assumes "issuers_ok ctx" and "Resolve ctx req = Inr (issuer, ids)" and "ids \<noteq> []"
  shows "issuer \<in> set (cf_VCIIssuers (cx ctx)) \<and> set ids \<subseteq> vcc_ID ` set (vci_Configurations issuer)
    \<and> fst ` set (scope_hits ctx (vr_Scopes req)) \<subseteq> {issuer}
    \<and> (cf_ResourceIndicatorsEnabled (cx ctx) \<longrightarrow> set (List.map_filter (VCIssuer_of ctx) (elems (vr_Resources req))) \<subseteq> {issuer})"
proof -
  let ?start = "case cf_VCIIssuers (cx ctx) of [iss] \<Rightarrow> iss | _ \<Rightarrow> zero_VCIssuer"
  let ?rs = "List.map_filter (VCIssuer_of ctx) (elems (vr_Resources req))"
  obtain j ys iss xs where
    d: "(if cf_RAREnabled (cx ctx) then resolve_details ctx (elems (vr_Details req)) ?start [] else Inr (?start, [])) = Inr (j, ys)"
    and s: "resolve_scopes (scope_hits ctx (vr_Scopes req)) j ys = Inr (iss, xs)"
    and r: "(if cf_ResourceIndicatorsEnabled (cx ctx) then resolve_resources ?rs iss else Inr iss) = Inr issuer"
    and xs: "xs \<noteq> []" "ids = remdups xs"
    using assms(2,3) unfolding Resolve_def Let_def by (auto split: sum.splits prod.splits if_splits)
  have "acc_ok ctx ?start []"
    using assms(1) by (auto simp: acc_ok_def zero_VCIssuer_def issuers_ok_def split: list.splits)
  then have "acc_ok ctx j ys"
    using d resolve_details_ok [OF assms(1)] by (auto split: if_splits)
  with resolve_scopes_ok [OF assms(1) scope_hits_ok _ s] have
    a: "acc_ok ctx iss xs" "fst ` set (scope_hits ctx (vr_Scopes req)) \<subseteq> {iss}" by auto
  then have m: "iss \<in> set (cf_VCIIssuers (cx ctx))" "set xs \<subseteq> vcc_ID ` set (vci_Configurations iss)"
    using xs(1) by (auto simp: acc_ok_def split: if_splits)
  have rs: "set ?rs \<subseteq> set (cf_VCIIssuers (cx ctx))"
    by (auto simp: List.map_filter_def dest: VCIssuer_of_SomeD)
  have "issuer = iss \<and> (cf_ResourceIndicatorsEnabled (cx ctx) \<longrightarrow> set ?rs \<subseteq> {iss})"
    using r resolve_resources_ok [OF assms(1) rs m(1)] by (auto split: if_splits)
  with m a(2) xs(2) show ?thesis by auto
qed
definition sample_issuers :: "VCIssuer list" where
  "sample_issuers =
    [\<lparr>vci_Issuer = ''i1'', vci_Configurations = [\<lparr>vcc_ID = ''a'', vcc_Scope = ''sa''\<rparr>]\<rparr>,
     \<lparr>vci_Issuer = ''i2'', vci_Configurations = [\<lparr>vcc_ID = ''b'', vcc_Scope = ''sb''\<rparr>]\<rparr>]"

definition vc_Context :: "Manager Context" where
  "vc_Context = (base_Context (mem_Managers (\<lambda>_. id)))\<lparr>cx := (base_Configuration (mem_Managers (\<lambda>_. id)))\<lparr>cf_VCIIssuers := sample_issuers\<rparr>\<rparr>"

theorem Resolve_one_issuer_witness:
  "Resolve vc_Context \<lparr>vr_Scopes = ''openid sb'', vr_Details = None, vr_Resources = None\<rparr> = Inr (sample_issuers ! 1, [''b''])
   \<and> [''b''] \<noteq> [] \<and> set [''b''] \<subseteq> vcc_ID ` set (vci_Configurations (sample_issuers ! 1))"
proof -
  have r: "Resolve vc_Context \<lparr>vr_Scopes = ''openid sb'', vr_Details = None, vr_Resources = None\<rparr> = Inr (sample_issuers ! 1, [''b''])"
    by code_simp
  have "issuers_ok vc_Context"
    by (simp add: issuers_ok_def vc_Context_def sample_issuers_def)
  from Resolve_one_issuer [OF this r] r show ?thesis by simp
qed

end
