(* ===== verification/TokenRequest.thy ===== *)
theory TokenRequest
  imports ClientAuthn VcUtil
begin

text \<open>
  The token request and what every grant type checks of it: \<^verbatim>\<open>internal/token/model.go\<close>, \<^verbatim>\<open>validation.go\<close> and
  \<^verbatim>\<open>pop.go\<close>. Binding of tokens to a DPoP key or a certificate, proof of possession, scopes, resources,
  authorization details and PKCE.
\<close>

section \<open>Requests and responses\<close>

record request =
  rt_parseErr :: "go_error option"
  rt_grantType :: GrantType
  rt_scopes :: string
  rt_code :: string
  rt_redirectURI :: string
  rt_refreshToken :: string
  rt_codeVerifier :: string
  rt_resources :: "string slice"
  rt_authDetails :: "AuthDetail slice"
  rt_assertion :: string
  rt_authReqID :: string
  rt_preAuthCode :: string
  rt_txCode :: string
  rt_deviceCode :: string
  rt_audience :: "string slice"
  rt_requestedTokenType :: TokenTypeIdentifier
  rt_subjectToken :: string
  rt_subjectTokenType :: TokenTypeIdentifier
  rt_actorToken :: string
  rt_actorTokenType :: TokenTypeIdentifier

definition newRequest :: "Lib \<Rightarrow> Request \<Rightarrow> request" where
  "newRequest lib r =
    \<lparr>rt_parseErr = rq_ParseErr r, rt_grantType = PostFormValue r ''grant_type'', rt_scopes = PostFormValue r ''scope'',
     rt_code = PostFormValue r ''code'', rt_redirectURI = PostFormValue r ''redirect_uri'',
     rt_refreshToken = PostFormValue r ''refresh_token'', rt_codeVerifier = PostFormValue r ''code_verifier'',
     rt_resources = PostForm_values r ''resource'',
     rt_authDetails =
       (let authDetails = PostFormValue r ''authorization_details'' in
        if authDetails = '''' then None
        else case l_UnmarshalAuthDetails lib authDetails of Inl err \<Rightarrow> None | Inr ds \<Rightarrow> ds),
     rt_assertion = PostFormValue r ''assertion'', rt_authReqID = PostFormValue r ''auth_req_id'',
     rt_preAuthCode = PostFormValue r ''pre-authorized_code'', rt_txCode = PostFormValue r ''tx_code'',
     rt_deviceCode = PostFormValue r ''device_code'', rt_audience = PostForm_values r ''audience'',
     rt_requestedTokenType = PostFormValue r ''requested_token_type'',
     rt_subjectToken = PostFormValue r ''subject_token'', rt_subjectTokenType = PostFormValue r ''subject_token_type'',
     rt_actorToken = PostFormValue r ''actor_token'', rt_actorTokenType = PostFormValue r ''actor_token_type''\<rparr>"

record response =
  rs_AccessToken :: string
  rs_IDToken :: string
  rs_RefreshToken :: string
  rs_RefreshTokenExpiresIn :: int
  rs_ExpiresIn :: int
  rs_TokenType :: TokenType
  rs_Scopes :: string
  rs_AuthorizationDetails :: "AuthDetail slice"
  rs_Resources :: "string slice"
  rs_IssuedTokenType :: TokenTypeIdentifier
  rs_noStore :: bool

definition zero_response :: response where
  "zero_response =
    \<lparr>rs_AccessToken = '''', rs_IDToken = '''', rs_RefreshToken = '''', rs_RefreshTokenExpiresIn = 0, rs_ExpiresIn = 0,
     rs_TokenType = '''', rs_Scopes = '''', rs_AuthorizationDetails = None, rs_Resources = None, rs_IssuedTokenType = '''',
     rs_noStore = False\<rparr>"

record queryRequest =
  qr_parseErr :: "go_error option"
  qr_token :: string
  qr_tokenTypeHint :: TokenTypeHint

definition newQueryRequest :: "Request \<Rightarrow> queryRequest" where
  "newQueryRequest req =
    \<lparr>qr_parseErr = rq_ParseErr req, qr_token = PostFormValue req ''token'', qr_tokenTypeHint = PostFormValue req ''token_type_hint''\<rparr>"

section \<open>Binding of tokens\<close>

record bindindValidationOptions =
  bo_tlsRequired :: bool
  bo_tlsCertThumbprint :: string
  bo_dpopRequired :: bool
  bo_dpopJWKThumbprint :: string

definition zero_binding :: bindindValidationOptions where
  "zero_binding = \<lparr>bo_tlsRequired = False, bo_tlsCertThumbprint = '''', bo_dpopRequired = False, bo_dpopJWKThumbprint = ''''\<rparr>"

definition invalid_request :: "go_error \<Rightarrow> go_error" where
  "invalid_request = WrapError ErrorCodeInvalidRequest ''invalid request''"

definition invalid_proof :: "string \<Rightarrow> go_error" where
  "invalid_proof m = WrapError ErrorCodeInvalidDPoPProof ''invalid DPoP proof'' (ErrNew m)"

definition validateBindingDPoP :: "'st Context \<Rightarrow> Client \<Rightarrow> bindindValidationOptions \<Rightarrow> ('st, unit) M" where
  "validateBindingDPoP ctx c opts =
     (if \<not> cf_DPoPEnabled (cx ctx) then
        guardM (bo_dpopRequired opts \<or> bo_dpopJWKThumbprint opts \<noteq> '''')
          (invalid_request (ErrNew ''the request requires DPoP token binding, but DPoP support is disabled'')) (okM ())
      else case DPoP_JWT ctx of
        None \<Rightarrow>
          guardM (HasJWT ctx) (invalid_proof ''the token request must contain at most one DPoP header field value'') (
          guardM (cf_DPoPRequired (cx ctx) \<or> c_DPoPTokenBindingRequired c \<or> bo_dpopRequired opts)
            (invalid_proof ''a DPoP proof is required for this token request'') (okM ()))
      | Some dpopJWT \<Rightarrow>
          ValidateJWT ctx dpopJWT
            \<lparr>vo_AccessToken = '''', vo_JWKThumbprint = bo_dpopJWKThumbprint opts,
             vo_NonceScope = DPoPNonceScopeAuthorizationServer, vo_TokenEndpoint = True,
             vo_OnProofValidated =
               (if UsesAttestationDPoP ctx c then Some (MarkTokenEndpointClientAuthenticated (c_ID c)) else None)\<rparr>)"

definition validateBindingTLS :: "'st Context \<Rightarrow> Client \<Rightarrow> bindindValidationOptions \<Rightarrow> ('st, unit) M" where
  "validateBindingTLS ctx c opts =
     (if \<not> cf_MTLSTokenBindingEnabled (cx ctx) then
        guardM (bo_tlsRequired opts \<or> bo_tlsCertThumbprint opts \<noteq> '''')
          (invalid_request (ErrNew ''the request requires mutual TLS token binding, but mutual TLS token binding support is disabled'')) (okM ())
      else
        tryM (attemptM (callE (cf_ClientCertFunc (cx ctx)))) (\<lambda>r. case r of
          Inl err \<Rightarrow>
            guardM (cf_MTLSTokenBindingRequired (cx ctx) \<or> c_TLSTokenBindingRequired c \<or> bo_tlsRequired opts)
              (invalid_request err) (okM ())
        | Inr cert \<Rightarrow>
            guardM (bo_tlsCertThumbprint opts \<noteq> '''' \<and> bo_tlsCertThumbprint opts \<noteq> Thumbprint (cx_Lib ctx) (cert_Raw cert))
              (invalid_request (ErrNew ''the presented client certificate does not match the token binding thumbprint'')) (okM ())))"

definition validateBindingRequirement :: "'st Context \<Rightarrow> ('st, unit) M" where
  "validateBindingRequirement ctx =
     (if \<not> cf_TokenBindingRequired (cx ctx) then okM ()
      else
        let dpopBound = cf_DPoPEnabled (cx ctx) \<and> DPoP_JWT ctx \<noteq> None in
        tryM (if cf_MTLSTokenBindingEnabled (cx ctx)
              then tryM (attemptM (callE (cf_ClientCertFunc (cx ctx)))) (\<lambda>r. okM (\<not> isl r)) else okM False) (\<lambda>tlsBound.
        guardM (\<not> (dpopBound \<or> tlsBound)) (invalid_request (ErrNew ''token binding is required with either dpop or mutual TLS'')) (okM ())))"

text \<open>\<^verbatim>\<open>ValidateBinding\<close>; nil options are the zero options.\<close>

definition ValidateBinding :: "'st Context \<Rightarrow> Client \<Rightarrow> bindindValidationOptions \<Rightarrow> ('st, unit) M" where
  "ValidateBinding ctx c opts =
     tryM (validateBindingDPoP ctx c opts) (\<lambda>_.
     tryM (validateBindingTLS ctx c opts) (\<lambda>_.
     validateBindingRequirement ctx))"

text \<open>The binding options that repeat the binding of a grant.\<close>

definition grant_binding :: "Grant \<Rightarrow> bindindValidationOptions" where
  "grant_binding grant =
    \<lparr>bo_tlsRequired = (g_CertThumbprint grant \<noteq> ''''), bo_tlsCertThumbprint = g_CertThumbprint grant,
     bo_dpopRequired = (g_JWKThumbprint grant \<noteq> ''''), bo_dpopJWKThumbprint = g_JWKThumbprint grant\<rparr>"

section \<open>Proof of possession\<close>

definition validateDPoPWithNonceScope ::
  "'st Context \<Rightarrow> string \<Rightarrow> TokenConfirmation \<Rightarrow> DPoPNonceScope \<Rightarrow> ('st, unit) M" where
  "validateDPoPWithNonceScope ctx token confirmation nonceScope =
     (let refused = (\<lambda>m. if nonceScope = DPoPNonceScopeAuthorizationServer then invalid_proof m
                         else WrapError ErrorCodeUnauthorizedClient ''unauthorized client'' (ErrNew m)) in
      if cnf_JWKThumbprint confirmation = '''' then okM ()
      else if \<not> cf_DPoPEnabled (cx ctx) then failM (refused ''the token is bound to DPoP, but DPoP support is disabled'')
      else case DPoP_JWT ctx of
        None \<Rightarrow> failM (refused ''a DPoP proof is required for this token'')
      | Some dpopJWT \<Rightarrow>
          ValidateJWT ctx dpopJWT
            \<lparr>vo_AccessToken = token, vo_JWKThumbprint = cnf_JWKThumbprint confirmation, vo_NonceScope = nonceScope,
             vo_TokenEndpoint = (nonceScope = DPoPNonceScopeAuthorizationServer), vo_OnProofValidated = None\<rparr>)"

definition validateDPoP :: "'st Context \<Rightarrow> string \<Rightarrow> TokenConfirmation \<Rightarrow> ('st, unit) M" where
  "validateDPoP ctx token confirmation = validateDPoPWithNonceScope ctx token confirmation DPoPNonceScopeResourceServer"

definition validateTLSPoP :: "'st Context \<Rightarrow> TokenConfirmation \<Rightarrow> ('st, unit) M" where
  "validateTLSPoP ctx confirmation =
     (let invalid_token = WrapError ErrorCodeInvalidToken ''invalid token'' in
      if cnf_CertThumbprint confirmation = '''' then okM ()
      else if \<not> cf_MTLSTokenBindingEnabled (cx ctx)
      then failM (invalid_token (ErrNew ''the token is bound to mutual TLS, but mutual TLS token binding support is disabled''))
      else
        tryM (mapErrM invalid_token (callE (cf_ClientCertFunc (cx ctx)))) (\<lambda>clientCert.
        guardM (cnf_CertThumbprint confirmation \<noteq> Thumbprint (cx_Lib ctx) (cert_Raw clientCert))
          (invalid_token (ErrNew ''the client certificate does not match the token binding thumbprint'')) (okM ())))"

definition validatePoP_in :: "'st Context \<Rightarrow> string \<Rightarrow> TokenConfirmation \<Rightarrow> DPoPNonceScope \<Rightarrow> ('st, unit) M" where
  "validatePoP_in ctx token cnf nonceScope =
     tryM (validateDPoPWithNonceScope ctx token cnf nonceScope) (\<lambda>_. validateTLSPoP ctx cnf)"

definition ValidatePoP :: "'st Context \<Rightarrow> string \<Rightarrow> TokenConfirmation \<Rightarrow> ('st, unit) M" where
  "ValidatePoP ctx token cnf = validatePoP_in ctx token cnf DPoPNonceScopeResourceServer"

definition dpopThumbprint :: "'st Context \<Rightarrow> string" where
  "dpopThumbprint ctx =
     (if \<not> cf_DPoPEnabled (cx ctx) then ''''
      else case DPoP_JWT ctx of None \<Rightarrow> '''' | Some dpopJWT \<Rightarrow> JWKThumbprint (cx_Lib ctx) dpopJWT (cf_DPoPSigAlgs (cx ctx)))"

definition tlsThumbprint :: "'st Context \<Rightarrow> ('st, string) M" where
  "tlsThumbprint ctx =
     (if \<not> cf_MTLSTokenBindingEnabled (cx ctx) then okM ''''
      else tryM (attemptM (callE (cf_ClientCertFunc (cx ctx)))) (\<lambda>r. case r of
          Inl err \<Rightarrow> okM '''' | Inr clientCert \<Rightarrow> okM (Thumbprint (cx_Lib ctx) (cert_Raw clientCert))))"

section \<open>Resources, authorization details, scopes\<close>

definition invalid_target :: "string \<Rightarrow> go_error" where
  "invalid_target m = WrapError ErrorCodeInvalidTarget ''invalid target'' (ErrNew m)"

text \<open>The options of the three validations are the granted values, or none.\<close>

primrec check_resources :: "'st Context \<Rightarrow> string slice option \<Rightarrow> string list \<Rightarrow> go_error option" where
  "check_resources ctx opts [] = None"
| "check_resources ctx opts (r # rest) =
     (if r \<notin> set (cf_ResourceIndicators (cx ctx)) then Some (invalid_target ''resource is not configured by the server'')
      else if opts \<noteq> None \<and> r \<notin> set (elems (the opts)) then Some (invalid_target ''resource was not granted for this authorization'')
      else check_resources ctx opts rest)"

definition validateResources :: "'st Context \<Rightarrow> request \<Rightarrow> string slice option \<Rightarrow> go_error option" where
  "validateResources ctx req opts =
     (if \<not> cf_ResourceIndicatorsEnabled (cx ctx) then None else check_resources ctx opts (elems (rt_resources req)))"

definition invalid_auth_details :: "go_error \<Rightarrow> go_error" where
  "invalid_auth_details = WrapError ErrorCodeInvalidAuthDetails ''invalid authorization details''"

primrec check_details :: "'st Context \<Rightarrow> Client \<Rightarrow> AuthDetail list \<Rightarrow> ('st, unit) M" where
  "check_details ctx c [] = okM ()"
| "check_details ctx c (detail # rest) =
     guardM (AuthDetail_Type detail \<notin> set (cf_RARDetailTypes (cx ctx)))
       (invalid_auth_details (ErrNew ''authorization detail type is not supported'')) (
     guardM (c_AuthDetailTypes c \<noteq> None \<and> AuthDetail_Type detail \<notin> set (elems (c_AuthDetailTypes c)))
       (invalid_auth_details (ErrNew ''authorization detail type is not allowed for the client'')) (
     tryM (mapErrM invalid_auth_details (callO (\<lambda>n. cf_RARValidateDetailFunc (cx ctx) n detail))) (\<lambda>_.
     check_details ctx c rest)))"

definition validateAuthDetails ::
  "'st Context \<Rightarrow> request \<Rightarrow> Client \<Rightarrow> AuthDetail slice option \<Rightarrow> ('st, unit) M" where
  "validateAuthDetails ctx req c opts =
     (if \<not> cf_RAREnabled (cx ctx) \<or> rt_authDetails req = None then okM ()
      else
        tryM (check_details ctx c (elems (rt_authDetails req))) (\<lambda>_.
        case opts of
          None \<Rightarrow> okM ()
        | Some granted \<Rightarrow>
            mapErrM invalid_auth_details (callO (\<lambda>n. cf_RARCompareDetailsFunc (cx ctx) n (rt_authDetails req) granted))))"

definition invalid_scope :: "string \<Rightarrow> go_error" where
  "invalid_scope m = WrapError ErrorCodeInvalidScope ''invalid scope'' (ErrNew m)"

primrec check_scopes :: "'st Context \<Rightarrow> Client \<Rightarrow> string option \<Rightarrow> string list \<Rightarrow> go_error option" where
  "check_scopes ctx c opts [] = None"
| "check_scopes ctx c opts (s # rest) =
     (case Scope_of ctx s of
        None \<Rightarrow> Some (invalid_scope ''scope does not match any available scope'')
      | Some scope \<Rightarrow>
          if sc_ID scope \<notin> set (strings_Fields (c_ScopeIDs c)) then Some (invalid_scope ''scope is not allowed for the client'')
          else if opts \<noteq> None \<and> s \<notin> set (strings_Fields (the opts)) then Some (invalid_scope ''scope is not granted'')
          else check_scopes ctx c opts rest)"

definition validateScopes :: "'st Context \<Rightarrow> request \<Rightarrow> Client \<Rightarrow> string option \<Rightarrow> go_error option" where
  "validateScopes ctx req c opts =
     (if rt_scopes req = '''' then None else check_scopes ctx c opts (strings_Fields (rt_scopes req)))"

definition validateVerifiableCredentials :: "'st Context \<Rightarrow> Grant \<Rightarrow> go_error option" where
  "validateVerifiableCredentials ctx grant =
     (if \<not> cf_VCIEnabled (cx ctx) then None
      else case Resolve ctx \<lparr>vr_Scopes = g_Scopes grant, vr_Details = g_AuthDetails grant, vr_Resources = g_Resources grant\<rparr> of
        Inl err \<Rightarrow> Some err
      | Inr _ \<Rightarrow> None)"

definition ContainsOpenID :: "string \<Rightarrow> bool" where
  "ContainsOpenID scopes = (ScopeOpenID_ID \<in> set (strings_Fields scopes))"

definition ContainsOfflineAccess :: "string \<Rightarrow> bool" where
  "ContainsOfflineAccess scopes = (ScopeOfflineAccess_ID \<in> set (strings_Fields scopes))"

section \<open>PKCE\<close>

definition validatePKCE :: "'st Context \<Rightarrow> request \<Rightarrow> Grant \<Rightarrow> go_error option" where
  "validatePKCE ctx req grant =
     (let bad = (\<lambda>m. Some (WrapError ErrorCodeInvalidGrant ''invalid code_verifier'' (ErrNew m)));
          verifier = rt_codeVerifier req; challenge = ap_CodeChallenge (g_AuthParams grant);
          method = (if ap_CodeChallengeMethod (g_AuthParams grant) = '''' then cf_PKCEDefaultChallengeMethod (cx ctx)
                    else ap_CodeChallengeMethod (g_AuthParams grant)) in
      if challenge = '''' then
        (if \<not> cf_PKCEEnabled (cx ctx) then None
         else if verifier \<noteq> '''' then bad ''code_verifier was informed in the request, but no code_challenge was provided previously''
         else None)
      else if length verifier < 43 \<or> length verifier > 128 then bad ''code_verifier length is outside the allowed range''
      else if method = CodeChallengeMethodPlain then
        (if verifier \<noteq> challenge then bad ''the code_verifier does not match the plain code_challenge'' else None)
      else if method = CodeChallengeMethodSHA256 then
        (if Thumbprint (cx_Lib ctx) verifier \<noteq> challenge
         then bad ''the code_verifier does not match the SHA-256 code_challenge'' else None)
      else bad ''pkce method is not supported'')"

section \<open>Frames\<close>

lemma keeps_check_details [frame_intros]: "stable P \<Longrightarrow> keeps P (check_details ctx c ds)"
  by (induction ds) (auto intro!: frame_intros)

lemma keeps_validateBindingDPoP [frame_intros]: "stable P \<Longrightarrow> keeps P (validateBindingDPoP ctx c opts)"
  unfolding validateBindingDPoP_def by (auto intro!: frame_intros split: if_splits)

lemma keeps_validations [frame_intros]:
  "stable P \<Longrightarrow> keeps P (validateBindingTLS ctx c opts)" "stable P \<Longrightarrow> keeps P (validateBindingRequirement ctx)"
  "stable P \<Longrightarrow> keeps P (tlsThumbprint ctx)" "stable P \<Longrightarrow> keeps P (validateAuthDetails ctx req c gr)"
  "stable P \<Longrightarrow> keeps P (validateTLSPoP ctx cnf)"
  unfolding validateBindingTLS_def validateBindingRequirement_def tlsThumbprint_def
    validateAuthDetails_def validateTLSPoP_def Let_def
  by (intro frame_intros; assumption)+

lemma keeps_validateDPoP [frame_intros]: "stable P \<Longrightarrow> keeps P (validateDPoPWithNonceScope ctx t cnf s)"
  unfolding validateDPoPWithNonceScope_def Let_def by (auto intro!: frame_intros)

lemma keeps_PoP [frame_intros]:
  "stable P \<Longrightarrow> keeps P (ValidateBinding ctx c opts)" "stable P \<Longrightarrow> keeps P (validatePoP_in ctx t cnf s)"
  "stable P \<Longrightarrow> keeps P (ValidatePoP ctx t cnf)"
  unfolding ValidateBinding_def ValidatePoP_def validatePoP_in_def by (intro frame_intros; assumption)+

section \<open>What the validations accept\<close>

definition scope_allowed :: "'st Context \<Rightarrow> Client \<Rightarrow> string option \<Rightarrow> string \<Rightarrow> bool" where
  "scope_allowed ctx c granted s \<longleftrightarrow>
     (\<exists>scope. Scope_of ctx s = Some scope \<and> sc_ID scope \<in> set (strings_Fields (c_ScopeIDs c)))
     \<and> (case granted of None \<Rightarrow> True | Some g \<Rightarrow> s \<in> set (strings_Fields g))"

lemma check_scopes_iff: "check_scopes ctx c granted ss = None \<longleftrightarrow> list_all (scope_allowed ctx c granted) ss"
  by (induction ss) (auto simp: scope_allowed_def split: option.splits)

lemma fields_from_Nil [simp]: "strings_Fields '''' = []"
  by (simp add: strings_Fields_def)

text \<open>The scopes of a token request are accepted exactly when each of them is configured, allowed for the
  client and, when the request builds on an earlier grant, contained in the granted scopes.\<close>

theorem validateScopes_exact:
  "validateScopes ctx req c granted = None \<longleftrightarrow> list_all (scope_allowed ctx c granted) (strings_Fields (rt_scopes req))"
  by (simp add: validateScopes_def check_scopes_iff)

lemma check_resources_iff:
  "check_resources ctx granted rs = None \<longleftrightarrow>
     list_all (\<lambda>r. r \<in> set (cf_ResourceIndicators (cx ctx)) \<and> (case granted of None \<Rightarrow> True | Some g \<Rightarrow> r \<in> set (elems g))) rs"
  by (induction rs) (auto split: option.splits)


section \<open>Holder of the key\<close>

text \<open>The request carries one proof, and it is sound for the token and bound to the key.\<close>

definition proves_key :: "'st Context \<Rightarrow> string \<Rightarrow> string \<Rightarrow> bool" where
  "proves_key ctx token jkt \<longleftrightarrow>
     (\<exists>s opts jwk t jti. DPoP_JWT ctx = Some s \<and> sound_proof ctx s opts jwk t jti
        \<and> vo_AccessToken opts = token \<and> vo_JWKThumbprint opts = jkt
        \<and> JWKThumbprint (cx_Lib ctx) s (cf_DPoPSigAlgs (cx ctx)) = jkt)"

definition proves_cert :: "'st Context \<Rightarrow> nat \<Rightarrow> string \<Rightarrow> bool" where
  "proves_cert ctx n x5t \<longleftrightarrow> (\<exists>cert. cf_ClientCertFunc (cx ctx) n = Inr cert \<and> Thumbprint (cx_Lib ctx) (cert_Raw cert) = x5t)"

lemma ValidateJWT_proves:
  assumes "ValidateJWT ctx s opts w = (Inr u, w')" and "DPoP_JWT ctx = Some s"
    and "vo_OnProofValidated opts = None \<or> (\<exists>i. vo_OnProofValidated opts = Some (MarkTokenEndpointClientAuthenticated i))"
    and "vo_JWKThumbprint opts \<noteq> ''''"
  shows "proves_key ctx (vo_AccessToken opts) (vo_JWKThumbprint opts)"
proof -
  have "\<And>f n. vo_OnProofValidated opts = Some f \<Longrightarrow> keeps (\<lambda>w. n \<le> w_calls w) f"
    using assms(3) by (auto intro: keeps_request_state stable_calls)
  from ValidateJWT_accepts [OF assms(1) this] obtain jwk t jti where p: "sound_proof ctx s opts jwk t jti"
    by blast
  with assms(4) have "JWKThumbprint (cx_Lib ctx) s (cf_DPoPSigAlgs (cx ctx)) = vo_JWKThumbprint opts"
    by (auto simp: sound_proof_def)
  with p assms(2) show ?thesis unfolding proves_key_def by blast
qed

lemma validateDPoP_ok:
  "validateDPoPWithNonceScope ctx token cnf sc w = (Inr u, w') \<Longrightarrow> cnf_JWKThumbprint cnf \<noteq> '''' \<Longrightarrow>
     cf_DPoPEnabled (cx ctx) \<and> proves_key ctx token (cnf_JWKThumbprint cnf)"
  unfolding validateDPoPWithNonceScope_def Let_def
  by (auto split: if_splits option.splits dest!: ValidateJWT_proves)

lemma validateTLSPoP_ok:
  "validateTLSPoP ctx cnf w = (Inr u, w') \<Longrightarrow> cnf_CertThumbprint cnf \<noteq> '''' \<Longrightarrow>
     cf_MTLSTokenBindingEnabled (cx ctx) \<and> proves_cert ctx (w_calls w) (cnf_CertThumbprint cnf)"
  unfolding validateTLSPoP_def Let_def proves_cert_def by (auto simp: ok_simps split: if_splits)

text \<open>C27: a token bound to a DPoP key or to a client certificate is accepted only from the holder: the request
  carries one sound DPoP proof for the bound key and for this token, and the client certificate presented has
  the bound thumbprint.\<close>

theorem possession_required:
  assumes "ValidatePoP ctx token cnf w = (Inr u, w')"
  shows "(cnf_JWKThumbprint cnf \<noteq> '''' \<longrightarrow> cf_DPoPEnabled (cx ctx) \<and> proves_key ctx token (cnf_JWKThumbprint cnf))
    \<and> (cnf_CertThumbprint cnf \<noteq> '''' \<longrightarrow> cf_MTLSTokenBindingEnabled (cx ctx)
         \<and> (\<exists>n \<ge> w_calls w. proves_cert ctx n (cnf_CertThumbprint cnf)))"
proof -
  obtain w1 where d: "validateDPoPWithNonceScope ctx token cnf DPoPNonceScopeResourceServer w = (Inr (), w1)"
    and t: "validateTLSPoP ctx cnf w1 = (Inr u, w')"
    using assms unfolding ValidatePoP_def validatePoP_in_def by (auto simp: ok_simps)
  have "w_calls w \<le> w_calls w1"
    using keepsD [OF keeps_validateDPoP [OF stable_calls] d] by simp
  with validateDPoP_ok [OF d] validateTLSPoP_ok [OF t] show ?thesis by blast
qed

text \<open>After the binding checks of a grant, the thumbprints derived from the request are those of the grant.\<close>

lemma validateBindingDPoP_ok:
  assumes "validateBindingDPoP ctx c opts w = (Inr u, w')" and "bo_dpopJWKThumbprint opts \<noteq> ''''" and "bo_dpopRequired opts"
  shows "dpopThumbprint ctx = bo_dpopJWKThumbprint opts \<and> proves_key ctx '''' (bo_dpopJWKThumbprint opts)"
proof -
  obtain s where s: "DPoP_JWT ctx = Some s" "cf_DPoPEnabled (cx ctx)"
    using assms unfolding validateBindingDPoP_def by (auto simp: ok_simps split: if_splits option.splits)
  let ?o = "\<lparr>vo_AccessToken = '''', vo_JWKThumbprint = bo_dpopJWKThumbprint opts,
             vo_NonceScope = DPoPNonceScopeAuthorizationServer, vo_TokenEndpoint = True,
             vo_OnProofValidated =
               (if UsesAttestationDPoP ctx c then Some (MarkTokenEndpointClientAuthenticated (c_ID c)) else None)\<rparr>"
  have "ValidateJWT ctx s ?o w = (Inr u, w')"
    using assms(1) s unfolding validateBindingDPoP_def by simp
  from ValidateJWT_proves [OF this s(1)] assms(2) have "proves_key ctx '''' (bo_dpopJWKThumbprint opts)"
    by (cases "UsesAttestationDPoP ctx c") auto
  then show ?thesis using s by (auto simp: proves_key_def dpopThumbprint_def)
qed

definition bound_Context :: "Manager Context" where
  "bound_Context = sample_Context\<lparr>
     cx := (cx sample_Context)\<lparr>cf_DPoPEnabled := True\<rparr>,
     cx_Request := (cx_Request sample_Context)\<lparr>rq_Header := (\<lambda>h. if h = ''DPoP'' then [''h.YQ.s''] else [])\<rparr>\<rparr>"

theorem possession_required_witness:
  "proves_key bound_Context '''' ''aw''"
proof -
  have "ValidatePoP bound_Context '''' \<lparr>cnf_JWKThumbprint = ''aw'', cnf_CertThumbprint = ''''\<rparr> (start_World (NewManager 1) 0)
    = (Inr (), start_World (NewManager 1) 3)"
    by code_simp
  from possession_required [OF this] show ?thesis by simp
qed

end
