(* ===== verification/HumanToken.thy ===== *)
theory HumanToken
  imports HumanValues TokenRequest
begin

text \<open>
  The strict human flow at the token endpoint, \<^verbatim>\<open>internal/token/human_authorization.go\<close>: which clients and which
  request forms are admitted, the redemption of a code at the authority, the checks on its decision, and the
  two tokens that are signed.

  A nil request or configuration does not occur in the model, and the deferred recovery from panics has no
  counterpart beyond the panicking callbacks of the authority.
\<close>

section \<open>Errors\<close>

definition humanAuthorizationInvalidRequest :: go_error where
  "humanAuthorizationInvalidRequest =
     WrapError ErrorCodeInvalidRequest ''invalid request'' (ErrNew ''strict human token request is not admitted'')"

definition humanAuthorizationInvalidGrant :: go_error where
  "humanAuthorizationInvalidGrant =
     WrapError ErrorCodeInvalidGrant ''invalid grant'' (ErrNew ''human authorization code was not redeemed'')"

definition humanRefreshInvalidGrant :: go_error where
  "humanRefreshInvalidGrant =
     WrapError ErrorCodeInvalidGrant ''invalid grant'' (ErrNew ''human refresh token was not rotated'')"

definition humanAuthorizationServerError :: go_error where
  "humanAuthorizationServerError =
     WrapError ErrorCodeServerError ''server error'' (ErrNew ''human authorization token issuance failed'')"

section \<open>Admitted clients\<close>

definition humanTokenMaximumClientName :: nat where "humanTokenMaximumClientName = 128"
definition humanTokenMaximumRedirects :: nat where "humanTokenMaximumRedirects = 16"
definition humanTokenMaximumScopes :: nat where "humanTokenMaximumScopes = 32"
definition humanTokenMaximumKeys :: nat where "humanTokenMaximumKeys = 16"
definition humanTokenMaximumRSABits :: nat where "humanTokenMaximumRSABits = 4096"
definition humanTokenMaximumIDLifetime :: int where "humanTokenMaximumIDLifetime = 600"
definition humanTokenMaximumRefreshLife :: int where "humanTokenMaximumRefreshLife = 24 * 60 * 60"
definition humanTokenFormParameterCount :: nat where "humanTokenFormParameterCount = 7"
definition humanOrganizationIDClaim :: string where "humanOrganizationIDClaim = ''https://d0.eu/claims/organization_id''"
definition humanMembershipIDClaim :: string where "humanMembershipIDClaim = ''https://d0.eu/claims/membership_id''"
definition humanMembershipRevisionClaim :: string where "humanMembershipRevisionClaim = ''https://d0.eu/claims/membership_revision''"

definition isHumanAuthorizationCode :: "string \<Rightarrow> bool" where
  "isHumanAuthorizationCode value = strings_HasPrefix value humanAuthorizationCodePrefix"

definition isHumanRefreshToken :: "string \<Rightarrow> bool" where
  "isHumanRefreshToken value = strings_HasPrefix value humanRefreshCapabilityPrefix"

text \<open>\<^verbatim>\<open>strings.TrimSpace(value) == value\<close> for valid UTF-8: no white space at either end.\<close>

definition trimmed :: "string \<Rightarrow> bool" where
  "trimmed value \<longleftrightarrow>
     space_rest value = None
     \<and> list_all (\<lambda>n. space_rest (drop (length value - n) value) \<noteq> Some []) [1, 2, 3]"

definition validHumanTokenClientName :: "string \<Rightarrow> bool" where
  "validHumanTokenClientName value \<longleftrightarrow>
     value = '''' \<or> length value \<le> humanTokenMaximumClientName \<and> utf8_ValidString value \<and> trimmed value
       \<and> \<not> strings_Contains value (CHR 0x00)"

definition humanTokenClientMetadataIsClosed :: "Client \<Rightarrow> bool" where
  "humanTokenClientMetadataIsClosed c \<longleftrightarrow>
     c_Secret c = '''' \<and> c_SecretExpiresAt c = 0 \<and> c_RegistrationToken c = '''' \<and> c_CreatedAt c = 0 \<and> c_ExpiresAt c = 0
     \<and> c_Federation c = None \<and> c_LogoURI c = '''' \<and> c_Contacts c = [] \<and> c_PolicyURI c = '''' \<and> c_TermsOfServiceURI c = ''''
     \<and> c_RequestURIs c = [] \<and> c_JWKSURI c = '''' \<and> c_JWKS c = None \<and> c_SignedJWKSURI c = '''' \<and> c_cachedJWKS c = None
     \<and> c_SectorIdentifierURI c = '''' \<and> c_IDTokenKeyEncAlg c = '''' \<and> c_IDTokenContentEncAlg c = ''''
     \<and> c_UserInfoSigAlg c = '''' \<and> c_UserInfoKeyEncAlg c = '''' \<and> c_UserInfoContentEncAlg c = ''''
     \<and> \<not> c_JARRequired c \<and> c_JARSigAlg c = '''' \<and> c_JARKeyEncAlg c = '''' \<and> c_JARContentEncAlg c = ''''
     \<and> c_JARMSigAlg c = '''' \<and> c_JARMKeyEncAlg c = '''' \<and> c_JARMContentEncAlg c = ''''
     \<and> c_TokenIntrospectionAuthnMethod c = '''' \<and> c_TokenIntrospectionAuthnSigAlg c = ''''
     \<and> c_TokenRevocationAuthnMethod c = '''' \<and> c_TokenRevocationAuthnSigAlg c = '''' \<and> \<not> c_DPoPTokenBindingRequired c
     \<and> c_TLSSubjectDistinguishedName c = '''' \<and> c_TLSSubjectAlternativeName c = '''' \<and> c_TLSSubjectAlternativeNameIP c = ''''
     \<and> \<not> c_TLSTokenBindingRequired c \<and> elems (c_AuthDetailTypes c) = [] \<and> c_DefaultMaxAgeSecs c = None
     \<and> c_DefaultACRValues c = '''' \<and> c_CIBATokenDeliveryMode c = '''' \<and> c_CIBANotificationEndpoint c = ''''
     \<and> c_CIBAJARSigAlg c = '''' \<and> \<not> c_CIBAUserCodeEnabled c \<and> c_PostLogoutRedirectURIs c = []
     \<and> c_ClientRegistrationTypes c = [] \<and> c_OrganizationName c = '''' \<and> c_DisplayName c = '''' \<and> c_Description c = ''''
     \<and> c_Keywords c = [] \<and> c_InformationURI c = '''' \<and> c_OrganizationURI c = '''' \<and> c_CredentialOfferEndpoint c = ''''
     \<and> c_CustomAttributes c = None"

text \<open>The package repeats the URI check of the public values.\<close>

definition validHumanTokenAbsoluteHTTPSURI :: "Lib \<Rightarrow> string \<Rightarrow> bool" where
  "validHumanTokenAbsoluteHTTPSURI lib value = validHumanAbsoluteHTTPSURI lib value"

definition validHumanTokenRedirects :: "Lib \<Rightarrow> string list \<Rightarrow> bool" where
  "validHumanTokenRedirects lib redirects \<longleftrightarrow>
     1 \<le> length redirects \<and> length redirects \<le> humanTokenMaximumRedirects
     \<and> list_all (validHumanTokenAbsoluteHTTPSURI lib) redirects \<and> strictly_increasing redirects
     \<and> list_all (\<lambda>r. case (l_url_Parse lib r, l_url_Parse lib (hd redirects)) of
          (Inr u, Inr u0) \<Rightarrow> url_Hostname u = url_Hostname u0 | _ \<Rightarrow> False) redirects"

definition validHumanTokenScopeSet :: "string \<Rightarrow> bool" where
  "validHumanTokenScopeSet value \<longleftrightarrow>
     (let values = split_on CHR '' '' value in
      value \<noteq> '''' \<and> 1 \<le> length values \<and> length values \<le> humanTokenMaximumScopes
      \<and> list_all humanAuthorizationScopePattern values \<and> strictly_increasing values \<and> ScopeOpenID_ID \<in> set values)"

definition humanTokenJWKKeyIDPattern :: "string \<Rightarrow> bool" where
  "humanTokenJWKKeyIDPattern s \<longleftrightarrow> 1 \<le> length s \<and> length s \<le> 128 \<and> list_all (\<lambda>c. alnum c \<or> c = CHR ''_'' \<or> c = CHR ''-'') s"

text \<open>One key of an authority snapshot: an RSA public key of 2048 to 4096 bits with the usual exponent and nothing
  attached.\<close>

definition human_authority_key :: "Lib \<Rightarrow> PrivateKeyJWTAuthorityKey \<Rightarrow> bool" where
  "human_authority_key lib a \<longleftrightarrow>
     (let key = pak_Key a in
      humanAuthorizationKeyIDPattern (pak_KeyAuthorityID a) \<and> humanTokenJWKKeyIDPattern (jwk_KeyID key)
      \<and> jwk_Algorithm key = SigAlgPS256 \<and> jwk_Use key = KeyUsageSignature \<and> l_Valid lib key \<and> l_IsPublic lib key
      \<and> (case jwk_Key key of Some (RSAPublic n e) \<Rightarrow> n > 0 \<and> 2 ^ 2047 \<le> n \<and> n < 2 ^ humanTokenMaximumRSABits \<and> odd n \<and> e = 65537
         | _ \<Rightarrow> False)
      \<and> jwk_Certificates key = [] \<and> jwk_CertificatesURL key = None \<and> jwk_CertificateThumbprintSHA1 key = ''''
      \<and> jwk_CertificateThumbprintSHA256 key = '''' \<and> \<not> isl (l_Thumbprint lib key))"

definition validHumanTokenPrivateKeyAuthority :: "Lib \<Rightarrow> PrivateKeyJWTAuthority option \<Rightarrow> bool" where
  "validHumanTokenPrivateKeyAuthority lib authority =
     (case authority of
        None \<Rightarrow> False
      | Some au \<Rightarrow>
          pka_SnapshotRevision au \<ge> 1 \<and> 1 \<le> length (pka_Keys au) \<and> length (pka_Keys au) \<le> humanTokenMaximumKeys
          \<and> list_all (human_authority_key lib) (pka_Keys au)
          \<and> strictly_increasing (map (\<lambda>a. jwk_KeyID (pak_Key a)) (pka_Keys au))
          \<and> distinct (map (\<lambda>a. jwk_KeyID (pak_Key a)) (pka_Keys au)) \<and> distinct (map pak_KeyAuthorityID (pka_Keys au))
          \<and> distinct (map (\<lambda>a. projr (l_Thumbprint lib (pak_Key a))) (pka_Keys au)))"

definition validHumanTokenClient :: "Lib \<Rightarrow> Client \<Rightarrow> bool" where
  "validHumanTokenClient lib client \<longleftrightarrow>
     c_AuthorizationRequestProfile client = AuthorizationRequestProfileHumanConfidentialBFF
     \<and> humanAuthorizationClientIDPattern (c_ID client) \<and> validHumanTokenClientName (c_Name client)
     \<and> c_ApplicationType client = ''web'' \<and> c_SubIdentifierType client = SubIdentifierPairwise
     \<and> c_IDTokenSigAlg client = SigAlgPS256 \<and> c_TokenAuthnMethod client = AuthnMethodPrivateKeyJWT
     \<and> c_TokenAuthnSigAlg client = SigAlgPS256 \<and> humanTokenClientMetadataIsClosed client
     \<and> c_GrantTypes client = [GrantAuthorizationCode, GrantRefreshToken] \<and> c_ResponseTypes client = [ResponseTypeCode]
     \<and> validHumanTokenRedirects lib (c_RedirectURIs client) \<and> validHumanTokenScopeSet (c_ScopeIDs client)
     \<and> validHumanTokenPrivateKeyAuthority lib (c_PrivateKeyJWTAuthority client)"

text \<open>\<^verbatim>\<open>isolateHumanTokenClient\<close>: the detached copy has the same content.\<close>

definition isolateHumanTokenClient :: "Lib \<Rightarrow> Client \<Rightarrow> Client option" where
  "isolateHumanTokenClient lib source = (if validHumanTokenClient lib source then Some source else None)"

section \<open>Policy\<close>

record humanTokenIssuancePolicy =
  hp_issuer :: string
  hp_accessTokenLifetimeSeconds :: int
  hp_idTokenLifetimeSeconds :: int
  hp_authorityClockSkewSeconds :: int
  hp_scopeIDs :: "string list"
  hp_authenticationContexts :: "string list"
  hp_resourceIndicatorsEnabled :: bool
  hp_resourceIndicators :: "string list"

definition HumanAuthorizationMaximumClockSkewSeconds :: int where
  "HumanAuthorizationMaximumClockSkewSeconds = 60"

definition HumanAuthorizationClockSkewSeconds :: "int \<Rightarrow> int option" where
  "HumanAuthorizationClockSkewSeconds seconds =
     (if seconds < 0 \<or> seconds > HumanAuthorizationMaximumClockSkewSeconds then None else Some seconds)"

definition humanTokenPolicy :: "'st Context \<Rightarrow> Client \<Rightarrow> humanTokenIssuancePolicy option" where
  "humanTokenPolicy ctx client =
     (let cfg = cx ctx in
      case HumanAuthorizationClockSkewSeconds (cf_JWTLeewayTimeSecs cfg) of
        None \<Rightarrow> None
      | Some skew \<Rightarrow>
          if \<not> cf_HumanConfidentialBFFAuthorizationEnabled cfg \<or> cf_HumanAuthorizationAuthority cfg = None
            \<or> cf_HumanAccessTokenLifetimeSecs cfg < 1 \<or> cf_HumanAccessTokenLifetimeSecs cfg > 600
            \<or> cf_IDTokenLifetimeSecs cfg < 1 \<or> cf_IDTokenLifetimeSecs cfg > humanTokenMaximumIDLifetime \<or> Issuer ctx = ''''
            \<or> GrantAuthorizationCode \<notin> set (cf_GrantTypes cfg) \<or> GrantRefreshToken \<notin> set (cf_GrantTypes cfg)
            \<or> ResponseTypeCode \<notin> set (cf_ResponseTypes cfg) \<or> SubIdentifierPairwise \<notin> set (cf_SubIdentifierTypes cfg)
            \<or> SigAlgPS256 \<notin> set (cf_IDTokenSigAlgs cfg) \<or> AuthnMethodPrivateKeyJWT \<notin> set (cf_AuthnMethods cfg)
            \<or> SigAlgPS256 \<notin> set (cf_AuthnMethodPrivateKeyJWTSigAlgs cfg) \<or> \<not> validHumanTokenClient (cx_Lib ctx) client
            \<or> \<not> list_all (\<lambda>i. case Scope_of ctx i of None \<Rightarrow> False | Some scope \<Rightarrow> sc_ID scope = i) (split_on CHR '' '' (c_ScopeIDs client))
          then None
          else Some
            \<lparr>hp_issuer = Issuer ctx, hp_accessTokenLifetimeSeconds = cf_HumanAccessTokenLifetimeSecs cfg,
             hp_idTokenLifetimeSeconds = cf_IDTokenLifetimeSecs cfg, hp_authorityClockSkewSeconds = skew,
             hp_scopeIDs = split_on CHR '' '' (c_ScopeIDs client), hp_authenticationContexts = cf_ACRs cfg,
             hp_resourceIndicatorsEnabled = cf_ResourceIndicatorsEnabled cfg, hp_resourceIndicators = cf_ResourceIndicators cfg\<rparr>)"

definition humanTokenAuthorityMatchesClient :: "VerifiedClientAssertionAuthority option \<Rightarrow> Client \<Rightarrow> bool" where
  "humanTokenAuthorityMatchesClient authority client =
     (case (authority, c_PrivateKeyJWTAuthority client) of
        (Some a, Some au) \<Rightarrow>
          vca_SnapshotRevision a = pka_SnapshotRevision au \<and> humanAuthorizationKeyIDPattern (vca_KeyAuthorityID a)
          \<and> vca_KeyAuthorityID a \<in> pak_KeyAuthorityID ` set (pka_Keys au)
      | _ \<Rightarrow> False)"

section \<open>Admitted forms\<close>

definition humanTokenFormParameter :: "string \<Rightarrow> bool" where
  "humanTokenFormParameter name \<longleftrightarrow> name \<in>
     {''grant_type'', ''code'', ''redirect_uri'', ''code_verifier'', ''client_id'', ''client_assertion'', ''client_assertion_type''}"

definition humanRefreshTokenFormParameter :: "string \<Rightarrow> bool" where
  "humanRefreshTokenFormParameter name \<longleftrightarrow> name \<in>
     {''grant_type'', ''refresh_token'', ''client_id'', ''client_assertion'', ''client_assertion_type''}"

definition humanRefreshRevocationFormParameter :: "string \<Rightarrow> bool" where
  "humanRefreshRevocationFormParameter name \<longleftrightarrow> name \<in>
     {''token'', ''token_type_hint'', ''client_id'', ''client_assertion'', ''client_assertion_type''}"

text \<open>What the three forms share: a plain form post over a connection without a client certificate, no
  credentials in header fields, and the given number of parameters, each admitted and sent once.\<close>

definition strict_form :: "Request \<Rightarrow> go_error option \<Rightarrow> nat \<Rightarrow> (string \<Rightarrow> bool) \<Rightarrow> bool" where
  "strict_form request parseErr parameterCount parameter \<longleftrightarrow>
     parseErr = None \<and> rq_Method request = ''POST'' \<and> rq_RawQuery request = '''' \<and> \<not> rq_ForceQuery request
     \<and> rq_Header request ''Content-Type'' = [''application/x-www-form-urlencoded''] \<and> \<not> rq_PeerCertificates request
     \<and> length (rq_PostForm request) = parameterCount
     \<and> list_all (\<lambda>h. rq_Header request h = []) [''Authorization'', ''DPoP'', ''OAuth-Client-Attestation'', ''OAuth-Client-Attestation-PoP'']
     \<and> list_all (\<lambda>(name, values). parameter name \<and> length values = 1) (rq_PostForm request)"

definition strict_client :: "Request \<Rightarrow> string \<Rightarrow> bool" where
  "strict_client request clientID \<longleftrightarrow>
     PostFormValue request ''client_id'' = clientID \<and> PostFormValue request ''client_assertion'' \<noteq> ''''
     \<and> PostFormValue request ''client_assertion_type'' = AssertionTypeJWTBearer"

definition validHumanTokenForm :: "Request \<Rightarrow> request \<Rightarrow> string \<Rightarrow> bool" where
  "validHumanTokenForm request req clientID \<longleftrightarrow>
     strict_form request (rt_parseErr req) humanTokenFormParameterCount humanTokenFormParameter
     \<and> rt_grantType req = GrantAuthorizationCode \<and> rt_grantType req = PostFormValue request ''grant_type''
     \<and> rt_code req \<noteq> '''' \<and> rt_code req = PostFormValue request ''code''
     \<and> rt_redirectURI req \<noteq> '''' \<and> rt_redirectURI req = PostFormValue request ''redirect_uri''
     \<and> rt_codeVerifier req \<noteq> '''' \<and> rt_codeVerifier req = PostFormValue request ''code_verifier''
     \<and> strict_client request clientID"

definition validHumanRefreshTokenForm :: "Request \<Rightarrow> request \<Rightarrow> string \<Rightarrow> bool" where
  "validHumanRefreshTokenForm request req clientID \<longleftrightarrow>
     strict_form request (rt_parseErr req) 5 humanRefreshTokenFormParameter
     \<and> rt_grantType req = GrantRefreshToken \<and> rt_grantType req = PostFormValue request ''grant_type''
     \<and> rt_refreshToken req \<noteq> '''' \<and> rt_refreshToken req = PostFormValue request ''refresh_token''
     \<and> strict_client request clientID"

definition validHumanRefreshRevocationForm :: "Request \<Rightarrow> queryRequest \<Rightarrow> string \<Rightarrow> bool" where
  "validHumanRefreshRevocationForm request req clientID \<longleftrightarrow>
     strict_form request (qr_parseErr req) 5 humanRefreshRevocationFormParameter
     \<and> qr_token req \<noteq> '''' \<and> qr_token req = PostFormValue request ''token''
     \<and> qr_tokenTypeHint req = TokenHintRefresh \<and> qr_tokenTypeHint req = PostFormValue request ''token_type_hint''
     \<and> strict_client request clientID"

section \<open>Time windows\<close>

definition validHumanAuthorityClockSkew :: "int \<Rightarrow> bool" where
  "validHumanAuthorityClockSkew skew \<longleftrightarrow> 0 \<le> skew \<and> skew \<le> HumanAuthorizationMaximumClockSkewSeconds"

definition humanAuthorityTimestampNotExpired :: "int \<Rightarrow> int \<Rightarrow> int \<Rightarrow> bool" where
  "humanAuthorityTimestampNotExpired expiresAt now skew \<longleftrightarrow>
     validHumanAuthorityClockSkew skew \<and> expiresAt \<ge> 1 \<and> now \<ge> 1 \<and> (expiresAt > now \<or> skew > 0 \<and> now - expiresAt \<le> skew)"

definition validHumanAuthorityDecisionWindow :: "int \<Rightarrow> int \<Rightarrow> int \<Rightarrow> int \<Rightarrow> bool" where
  "validHumanAuthorityDecisionWindow createdAt expiresAt now skew \<longleftrightarrow>
     validHumanAuthorityClockSkew skew \<and> createdAt \<ge> 1 \<and> expiresAt > createdAt \<and> now \<ge> 1
     \<and> \<not> (createdAt > now \<and> createdAt - now > skew) \<and> humanAuthorityTimestampNotExpired expiresAt now skew"

definition humanRefreshTokenRemainingLifetime :: "int \<Rightarrow> int \<Rightarrow> int \<Rightarrow> int option" where
  "humanRefreshTokenRemainingLifetime expiresAt now skew =
     (if \<not> validHumanAuthorityClockSkew skew \<or> expiresAt < 1 \<or> now < 1 then None
      else if expiresAt \<le> now then (if skew = 0 \<or> now - expiresAt > skew then None else Some 1)
      else Some (min (expiresAt - now) humanTokenMaximumRefreshLife))"

definition humanRefreshTokenResponse :: "HumanRefreshToken \<Rightarrow> bool \<Rightarrow> int \<Rightarrow> int \<Rightarrow> int \<Rightarrow> (string \<times> int) option" where
  "humanRefreshTokenResponse capability present expiresAt now skew =
     (if \<not> validHumanAuthorityClockSkew skew then None
      else if \<not> present then
        (if HumanRefreshToken_Valid capability \<or> expiresAt \<noteq> 0 then None else Some ('''', 0))
      else
        (case humanRefreshTokenRemainingLifetime expiresAt now skew of
           None \<Rightarrow> None
         | Some remaining \<Rightarrow>
             (case HumanRefreshToken_Render capability of None \<Rightarrow> None | Some rendered \<Rightarrow> Some (rendered, remaining))))"

definition humanTokenSortedSubset :: "string list \<Rightarrow> string list \<Rightarrow> bool" where
  "humanTokenSortedSubset values allowed = list_all (\<lambda>value. value \<in> set allowed) values"

text \<open>\<^verbatim>\<open>decision.RefreshToken()\<close> reports a refresh token exactly when it is valid.\<close>

definition validRedeemedHumanAuthorization ::
  "Lib \<Rightarrow> humanCodeRedemptionDecisionState \<Rightarrow> Client \<Rightarrow> humanTokenIssuancePolicy \<Rightarrow> int \<Rightarrow> bool" where
  "validRedeemedHumanAuthorization lib decision client policy now \<longleftrightarrow>
     (let skew = hp_authorityClockSkewSeconds policy; offline = (ScopeOfflineAccess_ID \<in> set (hrd_scopes decision));
          refresh = HumanRefreshToken_Valid (hrd_refreshToken decision) in
      HumanCodeRedemptionDecision_Valid lib (Some decision) \<and> hrd_outcome decision = HumanCodeRedemptionOutcomeRedeemed
      \<and> hrd_clientID decision = c_ID client
      \<and> (offline \<and> refresh \<and> humanAuthorityTimestampNotExpired (hrd_refreshTokenExpiresAt decision) now skew
         \<or> \<not> offline \<and> \<not> refresh \<and> hrd_refreshTokenExpiresAt decision = 0)
      \<and> humanTokenSortedSubset (hrd_scopes decision) (split_on CHR '' '' (c_ScopeIDs client))
      \<and> humanTokenSortedSubset (hrd_scopes decision) (hp_scopeIDs policy)
      \<and> hrd_resources decision \<noteq> [] \<and> hp_resourceIndicatorsEnabled policy
      \<and> humanTokenSortedSubset (hrd_resources decision) (hp_resourceIndicators policy)
      \<and> hrd_authenticationContext decision \<in> set (hp_authenticationContexts policy)
      \<and> validHumanAuthorityDecisionWindow (hrd_createdAt decision) (hrd_expiresAt decision) now skew)"

section \<open>Issuance\<close>

record humanAccessTokenFacts =
  hf_grantID :: string
  hf_subject :: string
  hf_organizationID :: string
  hf_membershipID :: string
  hf_membershipRevision :: int
  hf_clientID :: string
  hf_scopes :: "string list"
  hf_resources :: "string list"

definition newHumanJWTID :: "'st Context \<Rightarrow> ('st, string) M" where
  "newHumanJWTID ctx = tryM (callE (l_Random (cx_Lib ctx))) (\<lambda>entropy. okM (RawURLEncode entropy))"

text \<open>Signing that also fails when the request was cancelled meanwhile.\<close>

definition strict_sign :: "'st Context \<Rightarrow> claims \<Rightarrow> string \<Rightarrow> go_error \<Rightarrow> ('st, string) M" where
  "strict_sign ctx claims typ err =
     tryM (mapErrM (\<lambda>_. err) (Sign ctx claims SigAlgPS256 (Some typ))) (\<lambda>t.
     tryM (unless_cancelled ctx (\<lambda>_. err)) (\<lambda>_. okM t))"

definition human_access_claims :: "humanTokenIssuancePolicy \<Rightarrow> humanAccessTokenFacts \<Rightarrow> string \<Rightarrow> int \<Rightarrow> claims" where
  "human_access_claims policy facts jti now =
     [(ClaimTokenID, JStr jti), (ClaimIssuer, JStr (hp_issuer policy)), (ClaimSubject, JStr (hf_subject facts)),
      (ClaimAudience, JArr (map JStr (hf_resources facts))), (ClaimClientID, JStr (hf_clientID facts)),
      (ClaimScope, JStr (join '' '' (hf_scopes facts))), (ClaimGrantID, JStr (hf_grantID facts)),
      (ClaimIssuedAt, JInt now), (ClaimExpiry, JInt (now + hp_accessTokenLifetimeSeconds policy)),
      (humanOrganizationIDClaim, JStr (hf_organizationID facts)), (humanMembershipIDClaim, JStr (hf_membershipID facts)),
      (humanMembershipRevisionClaim, JInt (hf_membershipRevision facts))]"

definition issueHumanAccessToken ::
  "'st Context \<Rightarrow> humanTokenIssuancePolicy \<Rightarrow> humanAccessTokenFacts \<Rightarrow> int \<Rightarrow> ('st, string) M" where
  "issueHumanAccessToken ctx policy facts now =
     tryM (newHumanJWTID ctx) (\<lambda>accessTokenID.
     strict_sign ctx (human_access_claims policy facts accessTokenID now) ''at+jwt''
       (ErrNew ''strict human access-token signing failed''))"

definition addHumanIDTokenNonce :: "claims \<Rightarrow> string \<Rightarrow> claims" where
  "addHumanIDTokenNonce claims nonce = (if nonce \<noteq> '''' then AList.update ClaimNonce (JStr nonce) claims else claims)"

definition human_id_claims :: "humanTokenIssuancePolicy \<Rightarrow> humanCodeRedemptionDecisionState \<Rightarrow> int \<Rightarrow> claims" where
  "human_id_claims policy decision now =
     addHumanIDTokenNonce
       [(ClaimIssuer, JStr (hp_issuer policy)), (ClaimSubject, JStr (hrd_subject decision)),
        (ClaimAudience, JStr (hrd_clientID decision)), (ClaimIssuedAt, JInt now),
        (ClaimExpiry, JInt (now + hp_idTokenLifetimeSeconds policy)),
        (ClaimAuthTime, JInt (hrd_authenticationTime decision)), (ClaimACR, JStr (hrd_authenticationContext decision)),
        (ClaimAMR, JArr (map JStr (hrd_authenticationMethods decision))),
        (humanOrganizationIDClaim, JStr (hrd_organizationID decision)),
        (humanMembershipIDClaim, JStr (hrd_membershipID decision)),
        (humanMembershipRevisionClaim, JInt (hrd_membershipRevision decision))]
       (hrd_nonce decision)"

definition decision_facts :: "humanCodeRedemptionDecisionState \<Rightarrow> humanAccessTokenFacts" where
  "decision_facts d =
    \<lparr>hf_grantID = hrd_grantID d, hf_subject = hrd_subject d, hf_organizationID = hrd_organizationID d,
     hf_membershipID = hrd_membershipID d, hf_membershipRevision = hrd_membershipRevision d,
     hf_clientID = hrd_clientID d, hf_scopes = hrd_scopes d, hf_resources = hrd_resources d\<rparr>"

text \<open>The part of the flow after the authority has redeemed the code.\<close>

definition issue_redeemed ::
  "'st Context \<Rightarrow> humanTokenIssuancePolicy \<Rightarrow> Client \<Rightarrow> humanCodeRedemptionDecisionState \<Rightarrow> ('st, response) M" where
  "issue_redeemed ctx policy client d =
     (let failed = humanAuthorizationServerError in
      tryM (TimestampNow ctx) (\<lambda>now.
      guardM (\<not> validRedeemedHumanAuthorization (cx_Lib ctx) d client policy now) failed (
      tryM (mapErrM (\<lambda>_. failed) (issueHumanAccessToken ctx policy (decision_facts d) now)) (\<lambda>accessToken.
      case humanRefreshTokenResponse (hrd_refreshToken d) (HumanRefreshToken_Valid (hrd_refreshToken d))
             (hrd_refreshTokenExpiresAt d) now (hp_authorityClockSkewSeconds policy) of
        None \<Rightarrow> failM failed
      | Some (refreshToken, refreshTokenExpiresIn) \<Rightarrow>
          tryM (strict_sign ctx (human_id_claims policy d now) ''JWT'' failed) (\<lambda>idToken.
          okM (zero_response\<lparr>rs_AccessToken := accessToken, rs_IDToken := idToken, rs_RefreshToken := refreshToken,
            rs_RefreshTokenExpiresIn := refreshTokenExpiresIn, rs_ExpiresIn := hp_accessTokenLifetimeSeconds policy,
            rs_TokenType := TokenTypeBearer, rs_Scopes := join '' '' (hrd_scopes d),
            rs_Resources := Some (hrd_resources d), rs_noStore := True\<rparr>))))))"

definition generateHumanAuthorizationCodeToken :: "'st Context \<Rightarrow> request \<Rightarrow> Client \<Rightarrow> ('st, response) M" where
  "generateHumanAuthorizationCodeToken ctx req client =
     (let failed = humanAuthorizationServerError in
      case humanTokenPolicy ctx client of
        None \<Rightarrow> failM failed
      | Some policy \<Rightarrow>
          guardM (\<not> validHumanTokenForm (cx_Request ctx) req (c_ID client)) humanAuthorizationInvalidRequest (
          tryM (mapErrM (\<lambda>_. failed) (ClientAssertionAuthority client)) (\<lambda>authority.
          guardM (\<not> humanTokenAuthorityMatchesClient authority client) failed (
          case NewHumanAuthorizationCode (rt_code req) of
            None \<Rightarrow> failM humanAuthorizationInvalidGrant
          | Some code \<Rightarrow>
              (case NewHumanCodeRedemptionInput (cx_Lib ctx)
                  \<lparr>hri_authorizationCode = Some code, hri_codeVerifier = rt_codeVerifier req,
                   hri_redirectURI = rt_redirectURI req, hri_clientID = c_ID client,
                   hri_clientAssertionAuthority = the authority\<rparr> of
                 None \<Rightarrow> failM humanAuthorizationInvalidGrant
               | Some input \<Rightarrow>
                   tryM (mapErrM (\<lambda>_. failed) (HumanRedeemAuthorizationCode ctx input)) (\<lambda>decision.
                   case decision of
                     None \<Rightarrow> failM failed
                   | Some d \<Rightarrow>
                       guardM (hrd_outcome d = HumanCodeRedemptionOutcomeRejected) humanAuthorizationInvalidGrant (
                       guardM (rt_redirectURI req \<notin> set (c_RedirectURIs client)) humanAuthorizationInvalidGrant (
                       issue_redeemed ctx policy client d))))))))"

section \<open>Frames\<close>

lemma keeps_strict_issuance [frame_intros]:
  "stable P \<Longrightarrow> keeps P (strict_sign ctx claims typ err)" "stable P \<Longrightarrow> keeps P (newHumanJWTID ctx)"
  unfolding strict_sign_def newHumanJWTID_def by (intro frame_intros; assumption)+

lemma keeps_issueHumanAccessToken [frame_intros]: "stable P \<Longrightarrow> keeps P (issueHumanAccessToken ctx policy facts now)"
  unfolding issueHumanAccessToken_def by (intro frame_intros; assumption)+

lemma keeps_issue_redeemed [frame_intros]: "stable P \<Longrightarrow> keeps P (issue_redeemed ctx policy c d)"
  unfolding issue_redeemed_def Let_def by (intro frame_intros; assumption)+

lemma keeps_human_code [frame_intros]: "stable P \<Longrightarrow> keeps P (generateHumanAuthorizationCodeToken ctx req c)"
  unfolding generateHumanAuthorizationCodeToken_def Let_def by (intro frame_intros; assumption)+

end
