(* ===== verification/Issuance.thy ===== *)
theory Issuance
  imports TokenRequest
begin

text \<open>
  Grants, access tokens and ID tokens: \<^verbatim>\<open>newGrant\<close> of \<^verbatim>\<open>internal/token/model.go\<close>, and \<^verbatim>\<open>Issue\<close>, the projection of
  additional claims and \<^verbatim>\<open>MakeIDToken\<close> of \<^verbatim>\<open>internal/token/token.go\<close>. The grant is the grant object of the
  world; claims are the members of the JSON object that is signed.
\<close>

section \<open>New grants\<close>

record GrantOptions =
  go_Type :: GrantType
  go_Subject :: string
  go_Username :: string
  go_ClientID :: string
  go_Scopes :: string
  go_AuthDetails :: "AuthDetail slice"
  go_Resources :: "string slice"
  go_Nonce :: string
  go_AuthCode :: string
  go_AuthCodeExpiresAt :: int
  go_PreAuthCode :: string
  go_DeviceCode :: string
  go_DeviceCodeExpiresAt :: int
  go_AuthReqID :: string
  go_AuthReqIDExpiresAt :: int
  go_AuthReqIDConsumedAt :: int
  go_JWKThumbprint :: string
  go_ClientCertThumbprint :: string
  go_Actor :: "Actor option"
  go_AuthParams :: AuthorizationParameters
  go_Store :: "(string \<times> json) list"

definition zero_GrantOptions :: GrantOptions where
  "zero_GrantOptions =
    \<lparr>go_Type = '''', go_Subject = '''', go_Username = '''', go_ClientID = '''', go_Scopes = '''', go_AuthDetails = None,
     go_Resources = None, go_Nonce = '''', go_AuthCode = '''', go_AuthCodeExpiresAt = 0, go_PreAuthCode = '''', go_DeviceCode = '''',
     go_DeviceCodeExpiresAt = 0, go_AuthReqID = '''', go_AuthReqIDExpiresAt = 0, go_AuthReqIDConsumedAt = 0,
     go_JWKThumbprint = '''', go_ClientCertThumbprint = '''', go_Actor = None,
     go_AuthParams = zero_AuthorizationParameters, go_Store = []\<rparr>"

text \<open>The struct literal of \<^verbatim>\<open>newGrant\<close> with the two conditional fields.\<close>

definition grant_of_options :: "'st Context \<Rightarrow> GrantOptions \<Rightarrow> string \<Rightarrow> int \<Rightarrow> Grant" where
  "grant_of_options ctx opts i now = zero_Grant
    \<lparr>g_ID := i, g_AuthCode := go_AuthCode opts, g_AuthCodeExpiresAt := go_AuthCodeExpiresAt opts,
     g_PreAuthCode := go_PreAuthCode opts, g_DeviceCode := go_DeviceCode opts,
     g_DeviceCodeExpiresAt := go_DeviceCodeExpiresAt opts, g_AuthReqID := go_AuthReqID opts,
     g_AuthReqIDExpiresAt := go_AuthReqIDExpiresAt opts, g_AuthReqIDConsumedAt := go_AuthReqIDConsumedAt opts,
     g_Subject := go_Subject opts, g_Username := go_Username opts, g_ClientID := go_ClientID opts,
     g_Actor := go_Actor opts, g_Scopes := go_Scopes opts, g_Store := go_Store opts,
     g_JWKThumbprint := go_JWKThumbprint opts, g_CertThumbprint := go_ClientCertThumbprint opts,
     g_AuthParams := go_AuthParams opts, g_CreatedAt := now,
     g_AuthDetails := (if cf_RAREnabled (cx ctx) then go_AuthDetails opts else None),
     g_Resources := (if cf_ResourceIndicatorsEnabled (cx ctx) then go_Resources opts else None)\<rparr>"

definition newGrant :: "'st Context \<Rightarrow> Client \<Rightarrow> GrantOptions \<Rightarrow> ('st, unit) M" where
  "newGrant ctx c opts =
     tryM (callM (cf_GrantIDFunc (cx ctx))) (\<lambda>i.
     tryM (TimestampNow ctx) (\<lambda>now.
     tryM (freshGrant (grant_of_options ctx opts i now)) (\<lambda>_.
     tryM (HandleGrant ctx (go_Type opts)) (\<lambda>_.
     tryM (getM w_grant) (\<lambda>grant.
     tryM (if GrantRefreshToken \<in> set (cf_GrantTypes (cx ctx)) \<and> GrantRefreshToken \<in> set (c_GrantTypes c)
           then callM (\<lambda>n. cf_RefreshTokenShouldIssueFunc (cx ctx) n c grant) else okM False) (\<lambda>should.
     if should \<and> go_Subject opts \<noteq> c_ID c then
       tryM (callM (cf_RefreshTokenFunc (cx ctx))) (\<lambda>refreshToken.
       tryM (assignGrant ctx (\<lambda>g. g\<lparr>g_RefreshToken := refreshToken\<rparr>)) (\<lambda>_.
       if cf_RefreshTokenLifetimeSecs (cx ctx) \<noteq> 0 then
         tryM (TimestampNow ctx) (\<lambda>now.
         assignGrant ctx (\<lambda>g. g\<lparr>g_RefreshTokenExpiresAt := now + cf_RefreshTokenLifetimeSecs (cx ctx)\<rparr>))
       else okM ()))
     else okM ()))))))"

definition NewGrant :: "'st Context \<Rightarrow> Client \<Rightarrow> GrantOptions \<Rightarrow> ('st, unit) M" where
  "NewGrant ctx c opts = tryM (newGrant ctx c opts) (\<lambda>_. ctx_SaveGrant ctx)"

section \<open>Additional claims\<close>

record IssuanceOptions =
  io_Scopes :: string
  io_AuthDetails :: "AuthDetail slice"
  io_Resources :: "string slice"
  io_grantType :: GrantType
  io_authenticatedClientID :: string
  io_persistGrantBeforeSigning :: bool

definition zero_IssuanceOptions :: IssuanceOptions where
  "zero_IssuanceOptions =
    \<lparr>io_Scopes = '''', io_AuthDetails = None, io_Resources = None, io_grantType = '''',
     io_authenticatedClientID = '''', io_persistGrantBeforeSigning = False\<rparr>"

definition accessTokenEngineOwnedClaims :: "string list" where
  "accessTokenEngineOwnedClaims =
     [ClaimIssuer, ClaimSubject, ClaimAudience, ClaimExpiry, ClaimNotBefore, ClaimIssuedAt, ClaimTokenID, ClaimClientID,
      ClaimScope, ''cnf'', ClaimAct, ClaimAuthDetails, ClaimGrantID]"

definition idTokenEngineOwnedClaims :: "string list" where
  "idTokenEngineOwnedClaims =
     [ClaimIssuer, ClaimSubject, ClaimAudience, ClaimExpiry, ClaimIssuedAt, ClaimNonce, ClaimAccessTokenHash,
      ClaimAuthzCodeHash, ClaimStateHash, ClaimRefreshTokenHash, ClaimAuthReqID]"

definition accessTokenClaimsValidationError :: "go_error \<Rightarrow> go_error" where
  "accessTokenClaimsValidationError cause =
     WrapError ErrorCodeServerError ''server error'' (ErrBoundary ''access token claims unavailable'' cause)"

text \<open>Whether marshalling a value panics, or meets a value that JSON cannot express. When a value has both
  faults the source reports the one it meets first; the two errors differ in their cause only.\<close>

fun json_panics :: "json \<Rightarrow> bool" where
  "json_panics JPanic = True"
| "json_panics (JArr xs) = list_ex json_panics xs"
| "json_panics (JObj kvs) = list_ex (\<lambda>kv. json_panics (snd kv)) kvs"
| "json_panics _ = False"

fun json_unsupported :: "json \<Rightarrow> bool" where
  "json_unsupported JUnsupported = True"
| "json_unsupported (JArr xs) = list_ex json_unsupported xs"
| "json_unsupported (JObj kvs) = list_ex (\<lambda>kv. json_unsupported (snd kv)) kvs"
| "json_unsupported _ = False"

text \<open>\<^verbatim>\<open>validatedAccessTokenClaims\<close>: the clone through JSON has the same members.\<close>

definition validatedAccessTokenClaims :: "'st Context \<Rightarrow> claims \<Rightarrow> claims \<Rightarrow> ('st, claims) M" where
  "validatedAccessTokenClaims ctx additional core =
     guardM (json_panics (JObj additional))
       (accessTokenClaimsValidationError (ErrNew ''access token claims serialization panicked'')) (
     guardM (json_unsupported (JObj additional)) (accessTokenClaimsValidationError (ErrNew ''json: unsupported value'')) (
     guardM (list_ex (\<lambda>(claim, _). claim \<in> set accessTokenEngineOwnedClaims) additional)
       (accessTokenClaimsValidationError (ErrNew ''access token claim collides with an engine-owned claim'')) (
     guardM (list_ex (\<lambda>(claim, _). claim \<in> fst ` set core) additional)
       (accessTokenClaimsValidationError (ErrNew ''access token claim collides with a core claim'')) (
     tryM (unless_cancelled ctx accessTokenClaimsValidationError) (\<lambda>_. okM additional)))))"

definition projectAccessTokenClaims ::
  "'st Context \<Rightarrow> GrantType \<Rightarrow> string \<Rightarrow> Client \<Rightarrow> Token \<Rightarrow> Grant \<Rightarrow> string \<Rightarrow> claims \<Rightarrow> ('st, claims) M" where
  "projectAccessTokenClaims ctx grantType authenticatedClientID client tkn grant serializedSubject core =
     guardM (grantType \<noteq> GrantClientCredentials \<or> authenticatedClientID = '''' \<or> c_ID client \<noteq> authenticatedClientID
         \<or> g_ClientID grant \<noteq> authenticatedClientID \<or> t_ClientID tkn \<noteq> authenticatedClientID
         \<or> g_Subject grant \<noteq> authenticatedClientID \<or> t_Subject tkn \<noteq> authenticatedClientID
         \<or> serializedSubject \<noteq> authenticatedClientID \<or> g_Scopes grant \<noteq> t_Scopes tkn
         \<or> elems (g_Resources grant) \<noteq> elems (t_Resources tkn) \<or> g_JWKThumbprint grant \<noteq> t_JWKThumbprint tkn
         \<or> g_CertThumbprint grant \<noteq> t_CertThumbprint tkn)
       (accessTokenClaimsValidationError (ErrNew ''incoherent access token claim input'')) (
     tryM (AccessTokenClaims ctx
       \<lparr>ai_GrantType = grantType, ai_AuthenticatedClientID = authenticatedClientID, ai_ClientID = t_ClientID tkn,
        ai_Subject = serializedSubject, ai_Scopes = t_Scopes tkn, ai_Resources = t_Resources tkn,
        ai_Format = t_Format tkn, ai_Type = t_Type tkn, ai_SignatureAlgorithm = t_SigAlg tkn,
        ai_IssuedAt = t_CreatedAt tkn, ai_ExpiresAt = t_ExpiresAt tkn, ai_DPoPJWKThumbprint = t_JWKThumbprint tkn,
        ai_CertificateThumbprint = t_CertThumbprint tkn,
        ai_AuthorizationDetailsPresent = (t_AuthDetails tkn \<noteq> None), ai_ActorPresent = (t_Actor tkn \<noteq> None)\<rparr>) (\<lambda>additional.
     validatedAccessTokenClaims ctx additional core))"

section \<open>Access tokens\<close>

fun actor_json :: "Actor \<Rightarrow> json" where
  "actor_json (Actor sub iss act) =
     JObj (omitempty ''sub'' sub @ omitempty ''iss'' iss @ (case act of None \<Rightarrow> [] | Some a \<Rightarrow> [(''act'', actor_json a)]))"

text \<open>\<^verbatim>\<open>Audiences.MarshalJSON\<close>: a single audience is a string.\<close>

definition audiences_json :: "string list \<Rightarrow> json" where
  "audiences_json auds = (case auds of [a] \<Rightarrow> JStr a | _ \<Rightarrow> JArr (map JStr auds))"

definition sub_identifier_type :: "'st Context \<Rightarrow> Client \<Rightarrow> SubIdentifierType" where
  "sub_identifier_type ctx c =
     (if c_SubIdentifierType c \<noteq> '''' \<and> c_SubIdentifierType c \<in> set (cf_SubIdentifierTypes (cx ctx))
      then c_SubIdentifierType c else cf_SubIdentifierTypeDefault (cx ctx))"

text \<open>The token of a grant before it has an identifier.\<close>

definition token_of_grant :: "'st Context \<Rightarrow> Grant \<Rightarrow> TokenOptions \<Rightarrow> IssuanceOptions \<Rightarrow> int \<Rightarrow> Token" where
  "token_of_grant ctx grant tknOpts opts now = zero_Token
    \<lparr>t_GrantID := g_ID grant, t_Subject := g_Subject grant, t_ClientID := g_ClientID grant,
     t_Scopes := (if io_Scopes opts \<noteq> '''' then io_Scopes opts else g_Scopes grant),
     t_AuthDetails := (if cf_RAREnabled (cx ctx) \<and> io_AuthDetails opts \<noteq> None then io_AuthDetails opts else g_AuthDetails grant),
     t_Resources := (if cf_ResourceIndicatorsEnabled (cx ctx) \<and> io_Resources opts \<noteq> None then io_Resources opts else g_Resources grant),
     t_JWKThumbprint := g_JWKThumbprint grant, t_CertThumbprint := g_CertThumbprint grant, t_Actor := g_Actor grant,
     t_CreatedAt := now, t_ExpiresAt := now + to_LifetimeSecs tknOpts, t_Format := to_Format tknOpts,
     t_SigAlg := to_JWTSigAlg tknOpts,
     t_Type := (if g_JWKThumbprint grant \<noteq> '''' then TokenTypeDPoP else TokenTypeBearer)\<rparr>"

definition core_claims :: "'st Context \<Rightarrow> Token \<Rightarrow> string \<Rightarrow> string \<Rightarrow> claims" where
  "core_claims ctx tkn grantID sub =
     [(ClaimTokenID, JStr (t_ID tkn)), (ClaimIssuer, JStr (Issuer ctx)), (ClaimSubject, JStr sub),
      (ClaimScope, JStr (t_Scopes tkn)), (ClaimIssuedAt, JInt (t_CreatedAt tkn)), (ClaimExpiry, JInt (t_ExpiresAt tkn))] @
     (if cf_AccessTokenGrantIDClaimDisabled (cx ctx) then [] else [(ClaimGrantID, JStr grantID)]) @
     omitempty ClaimClientID (t_ClientID tkn) @
     (case t_AuthDetails tkn of None \<Rightarrow> [] | Some ds \<Rightarrow> [(ClaimAuthDetails, JArr (map JObj ds))]) @
     (case t_Resources tkn of None \<Rightarrow> []
      | Some rs \<Rightarrow> [(ClaimAudience, if UsesAccessTokenClaims ctx then JArr (map JStr rs) else audiences_json rs)]) @
     (case t_Actor tkn of None \<Rightarrow> [] | Some a \<Rightarrow> [(ClaimAct, actor_json a)]) @
     (let confirmation = omitempty ''jkt'' (t_JWKThumbprint tkn) @ omitempty ''x5t#S256'' (t_CertThumbprint tkn)
      in if confirmation = [] then [] else [(''cnf'', JObj confirmation)])"

record accessTokenGrantSnapshot =
  sn_clientID :: string
  sn_subject :: string
  sn_scopes :: string
  sn_resources :: "string list"
  sn_jwkThumbprint :: string
  sn_certThumbprint :: string

definition snapshotAccessTokenGrant :: "Grant \<Rightarrow> accessTokenGrantSnapshot" where
  "snapshotAccessTokenGrant grant =
    \<lparr>sn_clientID = g_ClientID grant, sn_subject = g_Subject grant, sn_scopes = g_Scopes grant,
     sn_resources = elems (g_Resources grant), sn_jwkThumbprint = g_JWKThumbprint grant, sn_certThumbprint = g_CertThumbprint grant\<rparr>"

definition snapshot_matches :: "accessTokenGrantSnapshot \<Rightarrow> Grant \<Rightarrow> bool" where
  "snapshot_matches snapshot grant =
     (sn_clientID snapshot = g_ClientID grant \<and> sn_subject snapshot = g_Subject grant \<and> sn_scopes snapshot = g_Scopes grant
      \<and> sn_resources snapshot = elems (g_Resources grant) \<and> sn_jwkThumbprint snapshot = g_JWKThumbprint grant
      \<and> sn_certThumbprint snapshot = g_CertThumbprint grant)"

text \<open>The claims of a JWT access token, with the additional ones.\<close>

definition access_token_claims :: "'st Context \<Rightarrow> Client \<Rightarrow> IssuanceOptions \<Rightarrow> Token \<Rightarrow> Grant \<Rightarrow> ('st, claims) M" where
  "access_token_claims ctx c opts tkn grant =
     tryM (if sub_identifier_type ctx c = SubIdentifierPairwise \<and> g_Subject grant \<noteq> g_ClientID grant
           then callM (\<lambda>n. cf_PairwiseSubjectFunc (cx ctx) n (g_Subject grant) c) else okM (t_Subject tkn)) (\<lambda>sub.
     let core = core_claims ctx tkn (g_ID grant) sub in
     if UsesAccessTokenClaims ctx then
       tryM (projectAccessTokenClaims ctx (io_grantType opts) (io_authenticatedClientID opts) c tkn grant sub core) (\<lambda>additional.
       okM (maps_Copy core additional))
     else
       tryM (callM (\<lambda>n. cf_TokenClaimsFunc (cx ctx) n tkn grant)) (\<lambda>more.
       okM (if cf_AccessTokenGrantIDClaimDisabled (cx ctx) then filter (\<lambda>(k, _). k \<noteq> ClaimGrantID) (maps_Copy core more)
            else maps_Copy core more)))"

text \<open>\<^verbatim>\<open>Issue\<close>; nil options are the zero options. The token, its serialization and the client are returned, the grant
  object is left in the world.\<close>

definition Issue :: "'st Context \<Rightarrow> Client \<Rightarrow> IssuanceOptions \<Rightarrow> ('st, Token \<times> string \<times> Client) M" where
  "Issue ctx c opts =
     tryM (getM w_grant) (\<lambda>grant0.
     let typed = UsesAccessTokenClaims ctx; refused = (\<lambda>m. accessTokenClaimsValidationError (ErrNew m)) in
     guardM (typed \<and> (io_grantType opts \<noteq> GrantClientCredentials \<or> io_authenticatedClientID opts = ''''))
       (refused ''invalid access token claims issuance context'') (
     guardM (typed \<and> (g_ClientID grant0 \<noteq> io_authenticatedClientID opts \<or> g_Subject grant0 \<noteq> io_authenticatedClientID opts
               \<or> c_ID c \<noteq> io_authenticatedClientID opts)) (refused ''incoherent authenticated client identity'') (
     tryM (TokenOptions_of ctx c) (\<lambda>(tknOpts, c').
     tryM (getM w_grant) (\<lambda>grant.
     guardM (typed \<and> (\<not> snapshot_matches (snapshotAccessTokenGrant grant0) grant \<or> c_ID c' \<noteq> io_authenticatedClientID opts))
       (refused ''issuance callback mutated authenticated grant facts'') (
     guardM (typed \<and> to_Format tknOpts \<noteq> TokenFormatJWT) (refused ''fallible access token claims require JWT tokens'') (
     guardM (\<not> cf_OpaqueTokenEnabled (cx ctx) \<and> to_Format tknOpts = TokenFormatOpaque) (ErrNew ''opaque tokens are not enabled'') (
     tryM (TimestampNow ctx) (\<lambda>now.
     let tkn0 = token_of_grant ctx grant tknOpts opts now in
     tryM (if to_Format tknOpts = TokenFormatOpaque then
             tryM (callM (\<lambda>n. cf_OpaqueTokenFunc (cx ctx) n grant)) (\<lambda>i. okM (tkn0\<lparr>t_ID := i\<rparr>, i, []))
           else if to_Format tknOpts = TokenFormatJWT then
             tryM (callM (cf_JWTIDFunc (cx ctx))) (\<lambda>i.
             tryM (access_token_claims ctx c' opts (tkn0\<lparr>t_ID := i\<rparr>) grant) (\<lambda>claims.
             okM (tkn0\<lparr>t_ID := i\<rparr>, '''', claims)))
           else okM (tkn0, '''', [])) (\<lambda>(tkn, value, claims).
     tryM (if io_persistGrantBeforeSigning opts then ctx_SaveGrant ctx else okM ()) (\<lambda>_.
     tryM (if t_Format tkn = TokenFormatJWT
           then mapErrM (ErrWrapf ''could not sign the access token'') (Sign ctx claims (t_SigAlg tkn) (Some ''at+jwt''))
           else okM value) (\<lambda>tokenValue.
     tryM (HandleToken ctx tkn) (\<lambda>tkn'.
     tryM (if t_Format tkn' = TokenFormatOpaque
           then storeM (\<lambda>n. m_SaveToken (cf_Managers (cx ctx)) n tkn') else okM ()) (\<lambda>_.
     okM (tkn', tokenValue, c')))))))))))))))"

section \<open>ID tokens\<close>

record IDTokenOptions =
  id_Subject :: string
  id_Nonce :: string
  id_AccessToken :: string
  id_AuthorizationCode :: string
  id_State :: string
  id_RefreshToken :: string
  id_AuthReqID :: string
  id_Claims :: claims

definition zero_IDTokenOptions :: IDTokenOptions where
  "zero_IDTokenOptions =
    \<lparr>id_Subject = '''', id_Nonce = '''', id_AccessToken = '''', id_AuthorizationCode = '''', id_State = '''',
     id_RefreshToken = '''', id_AuthReqID = '''', id_Claims = []\<rparr>"

definition id_token_alg :: "'st Context \<Rightarrow> Client \<Rightarrow> SignatureAlgorithm" where
  "id_token_alg ctx c =
     (if c_IDTokenSigAlg c \<noteq> '''' \<and> c_IDTokenSigAlg c \<in> set (cf_IDTokenSigAlgs (cx ctx))
      then c_IDTokenSigAlg c else cf_IDTokenDefaultSigAlg (cx ctx))"

text \<open>The claims the provider itself puts into an ID token.\<close>

definition id_token_core :: "'st Context \<Rightarrow> Client \<Rightarrow> IDTokenOptions \<Rightarrow> string \<Rightarrow> int \<Rightarrow> claims" where
  "id_token_core ctx c opts sub now =
     (let alg = id_token_alg ctx c;
          hashed = (\<lambda>name value. if alg \<noteq> SigAlgNone \<and> value \<noteq> '''' then [(name, JStr (HalfHash (cx_Lib ctx) value alg))] else []) in
      [(ClaimSubject, JStr sub), (ClaimIssuer, JStr (Issuer ctx)), (ClaimIssuedAt, JInt now),
       (ClaimExpiry, JInt (now + cf_IDTokenLifetimeSecs (cx ctx)))] @
      omitempty ClaimAudience (c_ID c) @
      hashed ClaimAccessTokenHash (id_AccessToken opts) @ hashed ClaimAuthzCodeHash (id_AuthorizationCode opts) @
      hashed ClaimStateHash (id_State opts) @ hashed ClaimRefreshTokenHash (id_RefreshToken opts) @
      omitempty ClaimNonce (id_Nonce opts) @ omitempty ClaimAuthReqID (id_AuthReqID opts))"

text \<open>\<^verbatim>\<open>MakeIDToken\<close>. The configuration has a content encryption algorithm when encryption is enabled; without one
  the source indexes an empty slice.\<close>

definition MakeIDToken :: "'st Context \<Rightarrow> Client \<Rightarrow> IDTokenOptions \<Rightarrow> ('st, string) M" where
  "MakeIDToken ctx c opts =
     guardM (list_ex (\<lambda>(claim, _). claim \<in> set idTokenEngineOwnedClaims) (id_Claims opts))
       (WrapError ErrorCodeServerError ''server error'' (ErrNew ''ID token claim collides with an engine-owned claim'')) (
     tryM (if sub_identifier_type ctx c = SubIdentifierPairwise
           then callM (\<lambda>n. cf_PairwiseSubjectFunc (cx ctx) n (id_Subject opts) c) else okM (id_Subject opts)) (\<lambda>sub.
     tryM (TimestampNow ctx) (\<lambda>now.
     tryM (mapErrM (ErrWrapf ''could not sign the id token'')
        (Sign ctx (maps_Copy (id_token_core ctx c opts sub now) (id_Claims opts)) (id_token_alg ctx c) None)) (\<lambda>idToken.
     if \<not> cf_IDTokenEncEnabled (cx ctx) \<or> c_IDTokenKeyEncAlg c = '''' then okM idToken
     else
       tryM (mapErrM (ErrWrapf ''could not resolve an encryption key for the id token'')
          (JWKByAlg ctx c (c_IDTokenKeyEncAlg c))) (\<lambda>(jwk, c').
       case cf_IDTokenContentEncAlgs (cx ctx) of
         [] \<Rightarrow> failM (ErrNew ''runtime error: index out of range'')
       | first # _ \<Rightarrow>
           mapErrM (ErrWrapf ''could not encrypt the id token'')
             (callE (\<lambda>n. l_Encrypt (cx_Lib ctx) n idToken jwk
                (if c_IDTokenContentEncAlg c \<noteq> '''' \<and> c_IDTokenContentEncAlg c \<in> set (cf_IDTokenContentEncAlgs (cx ctx))
                 then c_IDTokenContentEncAlg c else first))))))))"

section \<open>Frames\<close>

lemma calls_grant_object [frame_intros]:
  "keeps (\<lambda>w. m \<le> w_calls w) (freshGrant g)" "keeps (\<lambda>w. m \<le> w_calls w) (loadGrant f)"
  "keeps (\<lambda>w. m \<le> w_calls w) (ctx_SaveGrant ctx)" "keeps (\<lambda>w. m \<le> w_calls w) (HandleGrant ctx t)"
  "keeps (\<lambda>w. m \<le> w_calls w) (HandleToken ctx tkn)" "keeps (\<lambda>w. m \<le> w_calls w) (TokenOptions_of ctx c)"
  unfolding freshGrant_def loadGrant_def ctx_SaveGrant_def HandleGrant_def HandleToken_def TokenOptions_of_def
  by (intro frame_intros keeps_mod; simp)+

lemma keeps_claims [frame_intros]:
  "stable P \<Longrightarrow> keeps P (validatedAccessTokenClaims ctx a core)"
  "stable P \<Longrightarrow> keeps P (projectAccessTokenClaims ctx gt i c tkn g s core)"
  unfolding projectAccessTokenClaims_def validatedAccessTokenClaims_def by (intro frame_intros; assumption)+

lemma keeps_access_token_claims [frame_intros]: "stable P \<Longrightarrow> keeps P (access_token_claims ctx c opts tkn g)"
  unfolding access_token_claims_def Let_def by (intro frame_intros; assumption)+

lemma keeps_MakeIDToken [frame_intros]: "stable P \<Longrightarrow> keeps P (MakeIDToken ctx c opts)"
  unfolding MakeIDToken_def by (intro frame_intros) (auto split: list.splits intro!: frame_intros)

text \<open>A predicate on all grants: those stored and the one the request works on.\<close>

definition grants_ok ::
  "('st \<Rightarrow> bool) \<Rightarrow> ('st \<Rightarrow> string \<Rightarrow> Grant option) \<Rightarrow> (Grant \<Rightarrow> bool) \<Rightarrow> 'st World \<Rightarrow> bool" where
  "grants_ok I at Q w \<longleftrightarrow> I (w_store w) \<and> (\<forall>k g. at (w_store w) k = Some g \<longrightarrow> Q g) \<and> Q (w_grant w)"

lemma inner_grants_ok [frame_intros]: "inner (grants_ok I at Q)"
  unfolding inner_def grants_ok_def by simp

lemmas stable_grants_ok [frame_intros] = inner_grants_ok [THEN inner_stable]

text \<open>The configured functions keep \<open>Q\<close>, whatever they change besides.\<close>

definition hooks_keep :: "'st Context \<Rightarrow> (Grant \<Rightarrow> bool) \<Rightarrow> bool" where
  "hooks_keep ctx Q \<longleftrightarrow>
     (\<forall>g n t tkn c g' h. Q g \<longrightarrow>
        (g' = snd (cf_HandleGrantFunc (cx ctx) n t g) \<or> g' = snd (snd (cf_HandleTokenFunc (cx ctx) n tkn g))
          \<or> g' = fst (snd (cf_TokenOptionsFunc (cx ctx) n g c))) \<longrightarrow>
        h \<in> {g', g'\<lparr>g_ID := g_ID g\<rparr>} \<longrightarrow> Q h)"

text \<open>\<open>Q\<close> survives every assignment the token endpoint makes to a grant: new token bindings, a new refresh token,
  marking a code as consumed, revoking. New grants without an authorization code satisfy it.\<close>

definition progressive :: "'st Context \<Rightarrow> (Grant \<Rightarrow> bool) \<Rightarrow> bool" where
  "progressive ctx Q \<longleftrightarrow> hooks_keep ctx Q
     \<and> (\<forall>g x. Q g \<longrightarrow> Q (g\<lparr>g_JWKThumbprint := x\<rparr>) \<and> Q (g\<lparr>g_CertThumbprint := x\<rparr>) \<and> Q (g\<lparr>g_RefreshToken := x\<rparr>))
     \<and> (\<forall>g t. Q g \<longrightarrow> Q (g\<lparr>g_RefreshTokenExpiresAt := t\<rparr>))
     \<and> (\<forall>g n. Q g \<longrightarrow> (let t = l_Now (cx_Lib ctx) n div second in
          Q (g\<lparr>g_AuthCodeConsumedAt := t\<rparr>) \<and> Q (g\<lparr>g_PreAuthCodeConsumedAt := t\<rparr>) \<and> Q (g\<lparr>g_AuthReqIDConsumedAt := t\<rparr>)
          \<and> Q (g\<lparr>g_DeviceCodeConsumedAt := t\<rparr>) \<and> Q (g\<lparr>g_RevokedAt := t\<rparr>)))
     \<and> (\<forall>opts n now. go_AuthCode opts = '''' \<longrightarrow> Q (grant_of_options ctx opts (cf_GrantIDFunc (cx ctx) n) now))"

lemma progressive_hooks:
  "progressive ctx Q \<Longrightarrow> hooks_keep ctx Q"
  by (simp add: progressive_def)

lemma progressive_field:
  assumes "progressive ctx Q" and "Q g"
  shows "Q (g\<lparr>g_JWKThumbprint := x\<rparr>)" "Q (g\<lparr>g_CertThumbprint := x\<rparr>)" "Q (g\<lparr>g_RefreshToken := x\<rparr>)"
    "Q (g\<lparr>g_RefreshTokenExpiresAt := t\<rparr>)"
    "Q (g\<lparr>g_AuthCodeConsumedAt := l_Now (cx_Lib ctx) n div second\<rparr>)"
    "Q (g\<lparr>g_PreAuthCodeConsumedAt := l_Now (cx_Lib ctx) n div second\<rparr>)"
    "Q (g\<lparr>g_AuthReqIDConsumedAt := l_Now (cx_Lib ctx) n div second\<rparr>)"
    "Q (g\<lparr>g_DeviceCodeConsumedAt := l_Now (cx_Lib ctx) n div second\<rparr>)"
    "Q (g\<lparr>g_RevokedAt := l_Now (cx_Lib ctx) n div second\<rparr>)"
  using assms unfolding progressive_def Let_def by blast+

lemma progressive_new:
  "progressive ctx Q \<Longrightarrow> go_AuthCode opts = '''' \<Longrightarrow> Q (grant_of_options ctx opts (cf_GrantIDFunc (cx ctx) n) now)"
  unfolding progressive_def by blast

lemma keeps_bind_get: "(\<And>x w. P w \<Longrightarrow> x = f w \<Longrightarrow> P (snd (k x w))) \<Longrightarrow> keeps P (tryM (getM f) k)"
  by (auto simp: keeps_def tryM_def)

text \<open>A program that reads the clock may use that the time it gets is a time of the clock.\<close>

lemma keeps_TimestampNow:
  "stable P \<Longrightarrow> (\<And>n. keeps P (k (l_Now (cx_Lib ctx) n div second))) \<Longrightarrow> keeps P (tryM (TimestampNow ctx) k)"
  unfolding keeps_def stable_def TimestampNow_def outputs_def by (auto simp: tryM_def)

lemma keeps_call_value: "stable P \<Longrightarrow> (\<And>n. keeps P (k (f n))) \<Longrightarrow> keeps P (tryM (callM f) k)"
  unfolding keeps_def stable_def outputs_def by (auto simp: tryM_def)

lemma tryM_assign: "tryM (assignGrant ctx f) k w = k () (snd (assignGrant ctx f w))"
  by (simp add: assignGrant_def tryM_def)

lemma tryM_simple: "tryM (getM h) k w = k (h w) w" "tryM (callM p) k w = k (p (w_calls w)) (w\<lparr>w_calls := Suc (w_calls w)\<rparr>)"
  by (simp_all add: tryM_def)

context grant_managers
begin

lemma assign_ok:
  assumes "cf_Managers (cx ctx) = M" and w: "grants_ok inv at Q w"
    and q: "Q (f (w_grant w))" "Q ((f (w_grant w))\<lparr>g_ID := g_ID (w_grant w)\<rparr>)"
  shows "grants_ok inv at Q (snd (assignGrant ctx f w))"
proof -
  let ?g = "(f (w_grant w))\<lparr>g_ID := g_ID (w_grant w)\<rparr>"
  have "\<And>k u. at (m_TouchGrant M ?g (w_store w)) k = Some u \<Longrightarrow> Q u"
    using touch_all [of "w_store w" Q ?g] w q(2) unfolding grants_ok_def by blast
  with w q touch_inv [of "w_store w" ?g] assms(1) show ?thesis
    by (auto simp: assignGrant_def grants_ok_def Let_def)
qed
lemma keeps_assign_field:
  assumes "cf_Managers (cx ctx) = M" and "\<And>g. Q g \<Longrightarrow> Q (f g)" and "\<And>g. g_ID (f g) = g_ID g"
  shows "keeps (grants_ok inv at Q) (assignGrant ctx f)"
  unfolding keeps_def
proof (intro allI impI)
  fix w assume w: "grants_ok inv at Q w"
  then have "Q (f (w_grant w))" using assms(2) by (simp add: grants_ok_def)
  moreover have "(f (w_grant w))\<lparr>g_ID := g_ID (w_grant w)\<rparr> = f (w_grant w)"
    using assms(3) [of "w_grant w"] by (cases "f (w_grant w)") auto
  ultimately show "grants_ok inv at Q (snd (assignGrant ctx f w))"
    using assign_ok [OF assms(1) w] by simp
qed
lemma keeps_SaveGrant [frame_intros]:
  assumes "cf_Managers (cx ctx) = M"
  shows "keeps (grants_ok inv at Q) (ctx_SaveGrant ctx)"
proof (rule keepsI)
  fix w r w'
  assume w: "grants_ok inv at Q w" and r: "ctx_SaveGrant ctx w = (r, w')"
  obtain s where s: "m_SaveGrant M (w_calls w) (w_grant w) (w_store w) = (r, s)" "w_store w' = s" "w_grant w' = w_grant w"
    using r assms by (auto simp: ctx_SaveGrant_def tryM_def storeM_ok)
  have "\<And>k u. at s k = Some u \<Longrightarrow> Q u"
    using save_all [OF _ _ _ s(1)] w unfolding grants_ok_def by blast
  with s w save_inv [OF _ s(1)] show "grants_ok inv at Q w'"
    by (auto simp: grants_ok_def)
qed

lemma keeps_SaveToken [frame_intros]: "keeps (grants_ok inv at Q) (storeM (\<lambda>n. m_SaveToken M n tkn))"
  by (rule keepsI) (auto simp: grants_ok_def storeM_ok dest: tokens_keep)

lemma assign_after_call:
  assumes "cf_Managers (cx ctx) = M" and "grants_ok inv at Q w" and "Q g" and "Q (g\<lparr>g_ID := g_ID (w_grant w)\<rparr>)"
  shows "grants_ok inv at Q (snd (assignGrant ctx (\<lambda>_. g) (w\<lparr>w_calls := n\<rparr>)))"
  using assms by (intro assign_ok) (simp_all add: grants_ok_def)

lemma keeps_hooks [frame_intros]:
  assumes "cf_Managers (cx ctx) = M" and "hooks_keep ctx Q"
  shows "keeps (grants_ok inv at Q) (HandleGrant ctx t)" "keeps (grants_ok inv at Q) (HandleToken ctx tkn)"
    "keeps (grants_ok inv at Q) (TokenOptions_of ctx c)"
proof -
  note hk = assms(2) [unfolded hooks_keep_def, rule_format]
  show "keeps (grants_ok inv at Q) (HandleGrant ctx t)"
    unfolding keeps_def HandleGrant_def
  proof (intro allI impI)
    fix w assume w: "grants_ok inv at Q w"
    obtain e g' where F: "cf_HandleGrantFunc (cx ctx) (w_calls w) t (w_grant w) = (e, g')" by fastforce
    from w F hk [of "w_grant w" g' "w_calls w" t] have "grants_ok inv at Q (snd (assignGrant ctx (\<lambda>_. g') (w\<lparr>w_calls := Suc (w_calls w)\<rparr>)))"
      by (intro assign_after_call [OF assms(1) w]) (auto simp: grants_ok_def)
    with F show "grants_ok inv at Q (snd (tryM (getM w_grant) (\<lambda>g. tryM (callM (\<lambda>n. cf_HandleGrantFunc (cx ctx) n t g))
        (\<lambda>(e, g'). tryM (assignGrant ctx (\<lambda>_. g')) (\<lambda>_. checkM e))) w))"
      by (simp add: tryM_simple tryM_assign) (simp add: tryM_def checkM_def split: option.split)
  qed
  show "keeps (grants_ok inv at Q) (HandleToken ctx tkn)"
    unfolding keeps_def HandleToken_def
  proof (intro allI impI)
    fix w assume w: "grants_ok inv at Q w"
    obtain e tk g' where F: "cf_HandleTokenFunc (cx ctx) (w_calls w) tkn (w_grant w) = (e, tk, g')" by (metis prod_cases3)
    from w F hk [of "w_grant w" g' "w_calls w" _ tkn] have "grants_ok inv at Q (snd (assignGrant ctx (\<lambda>_. g') (w\<lparr>w_calls := Suc (w_calls w)\<rparr>)))"
      by (intro assign_after_call [OF assms(1) w]) (auto simp: grants_ok_def)
    with F show "grants_ok inv at Q (snd (tryM (getM w_grant) (\<lambda>g. tryM (callM (\<lambda>n. cf_HandleTokenFunc (cx ctx) n tkn g))
        (\<lambda>(e, tkn', g'). tryM (assignGrant ctx (\<lambda>_. g')) (\<lambda>_. tryM (checkM e) (\<lambda>_. okM tkn')))) w))"
      by (simp add: tryM_simple tryM_assign) (simp add: tryM_def checkM_def split: option.split)
  qed
  show "keeps (grants_ok inv at Q) (TokenOptions_of ctx c)"
    unfolding keeps_def TokenOptions_of_def
  proof (intro allI impI)
    fix w assume w: "grants_ok inv at Q w"
    obtain o' g' c' where F: "cf_TokenOptionsFunc (cx ctx) (w_calls w) (w_grant w) c = (o', g', c')" by (metis prod_cases3)
    from w F hk [of "w_grant w" g' "w_calls w" _ _ c] have "grants_ok inv at Q (snd (assignGrant ctx (\<lambda>_. g') (w\<lparr>w_calls := Suc (w_calls w)\<rparr>)))"
      by (intro assign_after_call [OF assms(1) w]) (auto simp: grants_ok_def)
    with F show "grants_ok inv at Q (snd (tryM (getM w_grant) (\<lambda>g. tryM (callM (\<lambda>n. cf_TokenOptionsFunc (cx ctx) n g c))
        (\<lambda>(opts, g', c'). tryM (assignGrant ctx (\<lambda>_. g')) (\<lambda>_. okM (opts, c')))) w))"
      by (simp add: tryM_simple tryM_assign)
  qed
qed

lemma keeps_newGrant [frame_intros]:
  assumes "cf_Managers (cx ctx) = M" and "progressive ctx Q" and "go_AuthCode opts = ''''"
  shows "keeps (grants_ok inv at Q) (newGrant ctx c opts)" "keeps (grants_ok inv at Q) (NewGrant ctx c opts)"
proof -
  show *: "keeps (grants_ok inv at Q) (newGrant ctx c opts)"
    unfolding newGrant_def
    by (intro keeps_call_value keeps_TimestampNow keeps_try keeps_if keeps_get keeps_callM keeps_ok stable_grants_ok
        keeps_hooks keeps_assign_field assms progressive_hooks [OF assms(2)] progressive_field [OF assms(2)])
      (auto simp: freshGrant_def grants_ok_def progressive_new [OF assms(2,3)] intro: keeps_mod)
  show "keeps (grants_ok inv at Q) (NewGrant ctx c opts)"
    unfolding NewGrant_def by (intro frame_intros * assms)
qed

lemma keeps_Issue [frame_intros]:
  assumes "cf_Managers (cx ctx) = M" and "hooks_keep ctx Q"
  shows "keeps (grants_ok inv at Q) (Issue ctx c opts)"
  unfolding Issue_def Let_def assms(1) by (intro frame_intros assms)
end

section \<open>Claims the provider owns\<close>

lemma map_of_core_over:
  assumes "\<not> list_ex (\<lambda>(claim, _). claim \<in> K) added" and "k \<in> K"
  shows "map_of (maps_Copy core added) k = map_of core k"
proof -
  have "k \<notin> fst ` set added"
    using assms by (auto simp: list_ex_iff)
  then have "map_of added k = None" by (simp add: map_of_eq_None_iff)
  then show ?thesis by (simp add: map_add_def)
qed

text \<open>C32: the protocol claims of an ID token are the provider's own: whatever the configured claims function adds,
  the claims that are signed agree with the provider's on the issuer, subject, audience, lifetime, nonce and
  the hashes, and the token is that signature, or its encryption.\<close>

theorem id_token_protocol_claims:
  assumes "MakeIDToken ctx c opts w = (Inr t, w')"
  shows "\<exists>sub now claims idToken w1 w2. Sign ctx claims (id_token_alg ctx c) None w1 = (Inr idToken, w2)
    \<and> (\<forall>k \<in> set idTokenEngineOwnedClaims. map_of claims k = map_of (id_token_core ctx c opts sub now) k)
    \<and> (if cf_IDTokenEncEnabled (cx ctx) \<and> c_IDTokenKeyEncAlg c \<noteq> ''''
       then \<exists>n jwk enc. l_Encrypt (cx_Lib ctx) n idToken jwk enc = Inr t else t = idToken)"
proof -
  obtain sub w1 where own: "\<not> list_ex (\<lambda>(claim, _). claim \<in> set idTokenEngineOwnedClaims) (id_Claims opts)"
    and rest: "tryM (TimestampNow ctx) (\<lambda>now.
     tryM (mapErrM (ErrWrapf ''could not sign the id token'')
        (Sign ctx (maps_Copy (id_token_core ctx c opts sub now) (id_Claims opts)) (id_token_alg ctx c) None)) (\<lambda>idToken.
     if \<not> cf_IDTokenEncEnabled (cx ctx) \<or> c_IDTokenKeyEncAlg c = '''' then okM idToken
     else
       tryM (mapErrM (ErrWrapf ''could not resolve an encryption key for the id token'')
          (JWKByAlg ctx c (c_IDTokenKeyEncAlg c))) (\<lambda>(jwk, c').
       case cf_IDTokenContentEncAlgs (cx ctx) of
         [] \<Rightarrow> failM (ErrNew ''runtime error: index out of range'')
       | first # _ \<Rightarrow>
           mapErrM (ErrWrapf ''could not encrypt the id token'')
             (callE (\<lambda>n. l_Encrypt (cx_Lib ctx) n idToken jwk
                (if c_IDTokenContentEncAlg c \<noteq> '''' \<and> c_IDTokenContentEncAlg c \<in> set (cf_IDTokenContentEncAlgs (cx ctx))
                 then c_IDTokenContentEncAlg c else first)))))) w1 = (Inr t, w')"
    using assms unfolding MakeIDToken_def guardM_ok tryM_ok by blast
  obtain now w2 idToken w3 where s: "Sign ctx (maps_Copy (id_token_core ctx c opts sub now) (id_Claims opts)) (id_token_alg ctx c) None w2 = (Inr idToken, w3)"
    and r: "(if \<not> cf_IDTokenEncEnabled (cx ctx) \<or> c_IDTokenKeyEncAlg c = '''' then okM idToken
     else
       tryM (mapErrM (ErrWrapf ''could not resolve an encryption key for the id token'')
          (JWKByAlg ctx c (c_IDTokenKeyEncAlg c))) (\<lambda>(jwk, c').
       case cf_IDTokenContentEncAlgs (cx ctx) of
         [] \<Rightarrow> failM (ErrNew ''runtime error: index out of range'')
       | first # _ \<Rightarrow>
           mapErrM (ErrWrapf ''could not encrypt the id token'')
             (callE (\<lambda>n. l_Encrypt (cx_Lib ctx) n idToken jwk
                (if c_IDTokenContentEncAlg c \<noteq> '''' \<and> c_IDTokenContentEncAlg c \<in> set (cf_IDTokenContentEncAlgs (cx ctx))
                 then c_IDTokenContentEncAlg c else first))))) w3 = (Inr t, w')"
    using rest unfolding tryM_ok mapErrM_ok by blast
  have e: "if cf_IDTokenEncEnabled (cx ctx) \<and> c_IDTokenKeyEncAlg c \<noteq> ''''
       then \<exists>n jwk enc. l_Encrypt (cx_Lib ctx) n idToken jwk enc = Inr t else t = idToken"
    using r by (cases "cf_IDTokenContentEncAlgs (cx ctx)"; auto simp: ok_simps simp del: call_run(2); blast)
  have "\<forall>k \<in> set idTokenEngineOwnedClaims. map_of (maps_Copy (id_token_core ctx c opts sub now) (id_Claims opts)) k
    = map_of (id_token_core ctx c opts sub now) k"
    using map_of_core_over [OF own] by blast
  with s e show ?thesis by blast
qed


subsection \<open>Concrete tokens\<close>

definition signing_Context :: "Manager Context" where
  "signing_Context = (base_Context (mem_Managers (\<lambda>_. id)))\<lparr>
     cx := (base_Configuration (mem_Managers (\<lambda>_. id)))\<lparr>cf_Host := ''https://op'', cf_JWKSFunc := (\<lambda>_. Inr [zero_JSONWebKey\<lparr>jwk_Algorithm := SigAlgPS256\<rparr>]),
       cf_IDTokenDefaultSigAlg := SigAlgPS256, cf_AccessTokenClaimsFunc := Some (\<lambda>n i. Some (Inr [(''tier'', JStr ''gold'')]))\<rparr>,
     cx_Lib := base_Lib\<lparr>l_Sign := (\<lambda>n claims alg k t. Inr ''signed'')\<rparr>\<rparr>"

theorem id_token_protocol_claims_witness:
  "\<exists>sub now claims w1 w2. Sign signing_Context claims SigAlgPS256 None w1 = (Inr ''signed'', w2)
     \<and> map_of claims ClaimIssuer = Some (JStr ''https://op'') \<and> map_of claims ClaimSubject = Some (JStr sub)"
proof -
  have "MakeIDToken signing_Context zero_Client (zero_IDTokenOptions\<lparr>id_Subject := ''u'', id_Claims := [(''name'', JStr ''Ann'')]\<rparr>)
      (start_World (NewManager 1) 0) = (Inr ''signed'', start_World (NewManager 1) 3)"
    by code_simp
  note made = this
  have alg: "id_token_alg signing_Context zero_Client = SigAlgPS256"
    and enc: "(cf_IDTokenEncEnabled (cx signing_Context) \<and> c_IDTokenKeyEncAlg zero_Client \<noteq> '''') = False"
    by code_simp+
  from id_token_protocol_claims [OF made] obtain sub now claims idToken w1 w2 where
    s: "Sign signing_Context claims SigAlgPS256 None w1 = (Inr idToken, w2)" "idToken = ''signed''"
    and k: "\<forall>k \<in> set idTokenEngineOwnedClaims. map_of claims k = map_of (id_token_core signing_Context zero_Client
      (zero_IDTokenOptions\<lparr>id_Subject := ''u'', id_Claims := [(''name'', JStr ''Ann'')]\<rparr>) sub now) k"
    unfolding alg enc if_False by blast
  have "map_of claims ClaimIssuer = Some (JStr ''https://op'')" "map_of claims ClaimSubject = Some (JStr sub)"
    using k by (auto simp: idTokenEngineOwnedClaims_def id_token_core_def Let_def signing_Context_def Issuer_def const_defs)
  with s show ?thesis by blast
qed


end
