(* ===== verification/CodeGrants.thy ===== *)
theory CodeGrants
  imports HumanToken Issuance
begin

text \<open>
  The grant types that redeem a one-time code for the tokens of a stored grant: \<^verbatim>\<open>internal/token/auth_code.go\<close>,
  \<^verbatim>\<open>device.go\<close>, the token request of \<^verbatim>\<open>ciba.go\<close> and \<^verbatim>\<open>pre_auth_code.go\<close>.

  Three of them share one shape, an inner function whose failure revokes the grant: \<open>or_revoke\<close>. What the inner
  functions do after their checks, consuming the code, saving the grant and issuing tokens, is \<open>redeem\<close>.
\<close>

section \<open>Responses\<close>

definition invalid_grant :: "string \<Rightarrow> go_error" where
  "invalid_grant m = WrapError ErrorCodeInvalidGrant ''invalid grant'' (ErrNew m)"

definition unauthorized_client :: "string \<Rightarrow> go_error" where
  "unauthorized_client m = WrapError ErrorCodeUnauthorizedClient ''unauthorized client'' (ErrNew m)"

text \<open>The fields of a response that come from the issued token.\<close>

definition token_response :: "Token \<Rightarrow> string \<Rightarrow> response" where
  "token_response tkn tokenValue = zero_response
    \<lparr>rs_AccessToken := tokenValue, rs_ExpiresIn := Token_LifetimeSecs tkn, rs_TokenType := t_Type tkn,
     rs_Scopes := t_Scopes tkn, rs_AuthorizationDetails := t_AuthDetails tkn, rs_Resources := t_Resources tkn\<rparr>"

text \<open>The ID token of a grant, when the scopes of the access token contain \<^verbatim>\<open>openid\<close>.\<close>

definition grant_id_token :: "'st Context \<Rightarrow> Client \<Rightarrow> string \<Rightarrow> ('st, string) M" where
  "grant_id_token ctx c msg =
     tryM (getM w_grant) (\<lambda>grant.
     tryM (callM (\<lambda>n. cf_IDTokenClaimsFunc (cx ctx) n grant)) (\<lambda>claims.
     mapErrM (ErrWrapf msg)
       (MakeIDToken ctx c (zero_IDTokenOptions\<lparr>id_Subject := g_Subject grant,
          id_Nonce := ap_Nonce (g_AuthParams grant), id_Claims := claims\<rparr>))))"

definition with_id_token :: "'st Context \<Rightarrow> Client \<Rightarrow> Token \<Rightarrow> string \<Rightarrow> response \<Rightarrow> ('st, response) M" where
  "with_id_token ctx c tkn msg resp =
     (if ContainsOpenID (t_Scopes tkn)
      then tryM (grant_id_token ctx c msg) (\<lambda>idToken. okM (resp\<lparr>rs_IDToken := idToken\<rparr>))
      else okM resp)"

definition requested_options :: "request \<Rightarrow> IssuanceOptions" where
  "requested_options req =
     zero_IssuanceOptions\<lparr>io_Scopes := rt_scopes req, io_AuthDetails := rt_authDetails req, io_Resources := rt_resources req\<rparr>"

text \<open>Issue an access token for the grant object, and the ID token where asked for.\<close>

definition issue_response :: "'st Context \<Rightarrow> Client \<Rightarrow> IssuanceOptions \<Rightarrow> string \<Rightarrow> ('st, response) M" where
  "issue_response ctx c opts msg =
     tryM (Issue ctx c opts) (\<lambda>(tkn, tokenValue, c').
     tryM (getM w_grant) (\<lambda>grant.
     with_id_token ctx c' tkn msg ((token_response tkn tokenValue)\<lparr>rs_RefreshToken := g_RefreshToken grant\<rparr>)))"

section \<open>Redemption\<close>

text \<open>Bind the grant to the keys of the request, mark its code as consumed and save it.\<close>

definition consume :: "'st Context \<Rightarrow> (int \<Rightarrow> Grant \<Rightarrow> Grant) \<Rightarrow> ('st, unit) M" where
  "consume ctx mark =
     tryM (assignGrant ctx (\<lambda>g. g\<lparr>g_JWKThumbprint := dpopThumbprint ctx\<rparr>)) (\<lambda>_.
     tryM (tlsThumbprint ctx) (\<lambda>x5t.
     tryM (assignGrant ctx (\<lambda>g. g\<lparr>g_CertThumbprint := x5t\<rparr>)) (\<lambda>_.
     tryM (TimestampNow ctx) (\<lambda>now.
     tryM (assignGrant ctx (mark now)) (\<lambda>_.
     ctx_SaveGrant ctx)))))"

definition redeem ::
  "'st Context \<Rightarrow> Client \<Rightarrow> IssuanceOptions \<Rightarrow> (int \<Rightarrow> Grant \<Rightarrow> Grant) \<Rightarrow> string \<Rightarrow> ('st, response) M" where
  "redeem ctx c opts mark msg = tryM (consume ctx mark) (\<lambda>_. issue_response ctx c opts msg)"

text \<open>\<^verbatim>\<open>resp, err := func() {...}(); if err != nil { revoke the grant and return err }\<close>\<close>

definition or_revoke :: "'st Context \<Rightarrow> ('st, response) M \<Rightarrow> ('st, response) M" where
  "or_revoke ctx m =
     runM m (\<lambda>r. case r of
        Inr resp \<Rightarrow> okM resp
      | Inl err \<Rightarrow>
          tryM (TimestampNow ctx) (\<lambda>now.
          tryM (assignGrant ctx (\<lambda>g. g\<lparr>g_RevokedAt := now\<rparr>)) (\<lambda>_.
          tryM (mapErrM (ErrWrapf ''could not revoke grant'') (ctx_SaveGrant ctx)) (\<lambda>_.
          failM err))))"

text \<open>The checks of the requested resources, authorization details and scopes against those of the grant, in the
  order of the authorization code, device and CIBA grants.\<close>

definition validate_requested :: "'st Context \<Rightarrow> request \<Rightarrow> Client \<Rightarrow> Grant \<Rightarrow> ('st, unit) M" where
  "validate_requested ctx req c grant =
     tryM (checkM (validateResources ctx req (Some (g_Resources grant)))) (\<lambda>_.
     tryM (validateAuthDetails ctx req c (Some (g_AuthDetails grant))) (\<lambda>_.
     checkM (validateScopes ctx req c (Some (g_Scopes grant)))))"

section \<open>Authorization code\<close>

text \<open>The checks of the inner function of \<^verbatim>\<open>generateAuthCodeToken\<close>, and the whole of it.\<close>

definition checkAuthCode :: "'st Context \<Rightarrow> request \<Rightarrow> Client \<Rightarrow> Grant \<Rightarrow> ('st, unit) M" where
  "checkAuthCode ctx req c grant =
     guardM (g_AuthCodeConsumedAt grant \<noteq> 0) (invalid_grant ''the authorization code has already been redeemed'') (
     guardM (GrantAuthorizationCode \<notin> set (c_GrantTypes c))
       (unauthorized_client ''the client is not allowed to use the authorization_code grant type'') (
     guardM (c_ID c \<noteq> g_ClientID grant) (invalid_grant ''the authorization code belongs to a different client'') (
     tryM (TimestampNow ctx) (\<lambda>now.
     guardM (now \<ge> g_AuthCodeExpiresAt grant) (invalid_grant ''the authorization code has expired'') (
     tryM (ValidateBinding ctx c (grant_binding grant)) (\<lambda>_.
     guardM (rt_redirectURI req \<noteq> ap_RedirectURI (g_AuthParams grant))
       (invalid_grant ''the redirect_uri does not match the authorization code'') (
     tryM (checkM (validatePKCE ctx req grant)) (\<lambda>_.
     tryM (checkM (validateResources ctx req (Some (g_Resources grant)))) (\<lambda>_.
     tryM (validateAuthDetails ctx req c (Some (g_AuthDetails grant))) (\<lambda>_.
     tryM (checkM (validateVerifiableCredentials ctx grant)) (\<lambda>_.
     checkM (validateScopes ctx req c (Some (g_Scopes grant))))))))))))))"

definition redeemAuthCode :: "'st Context \<Rightarrow> request \<Rightarrow> Client \<Rightarrow> Grant \<Rightarrow> ('st, response) M" where
  "redeemAuthCode ctx req c grant =
     tryM (checkAuthCode ctx req c grant) (\<lambda>_.
     redeem ctx c (requested_options req) (\<lambda>now g. g\<lparr>g_AuthCodeConsumedAt := now\<rparr>)
       ''could not generate id token for the authorization code grant'')"

text \<open>The part of \<^verbatim>\<open>generateAuthCodeToken\<close> after the client is known to be one of the ordinary flow.\<close>

definition legacyAuthCodeToken :: "'st Context \<Rightarrow> request \<Rightarrow> Client \<Rightarrow> ('st, response) M" where
  "legacyAuthCodeToken ctx req c =
     guardM (rt_code req = '''') (invalid_request (ErrNew ''code is required'')) (
     tryM (mapErrM (\<lambda>err. if \<not> errors_Is err ErrNotFound then ErrWrapf ''could not load the grant by auth code'' err
                          else WrapError ErrorCodeInvalidGrant ''invalid grant'' err)
        (loadGrant (\<lambda>n. m_GrantByAuthCode (cf_Managers (cx ctx)) n (rt_code req)))) (\<lambda>grant.
     guardM (g_RevokedAt grant \<noteq> 0) (WrapError ErrorCodeExpiredToken ''invalid grant'' (ErrNew ''grant was revoked'')) (
     or_revoke ctx (redeemAuthCode ctx req c grant))))"

definition generateAuthCodeToken :: "'st Context \<Rightarrow> request \<Rightarrow> ('st, response) M" where
  "generateAuthCodeToken ctx req =
     tryM BeginClientAssertionAuthentication (\<lambda>_.
     tryM (Authenticated ctx AuthnContextToken) (\<lambda>c.
     if c_AuthorizationRequestProfile c = AuthorizationRequestProfileHumanConfidentialBFF then
       (case isolateHumanTokenClient (cx_Lib ctx) c of
          None \<Rightarrow> failM humanAuthorizationServerError
        | Some isolatedClient \<Rightarrow> generateHumanAuthorizationCodeToken ctx req isolatedClient)
     else
       guardM (c_AuthorizationRequestProfile c \<noteq> AuthorizationRequestProfileDefault) humanAuthorizationServerError (
       guardM (\<not> cf_LegacyAuthorizationCodeEnabled (cx ctx))
         (if GrantAuthorizationCode \<notin> set (c_GrantTypes c)
          then unauthorized_client ''the client is not allowed to use the authorization_code grant type''
          else humanAuthorizationServerError) (
       guardM (cf_HumanConfidentialBFFAuthorizationEnabled (cx ctx) \<and> isHumanAuthorizationCode (rt_code req))
         humanAuthorizationInvalidGrant (
       legacyAuthCodeToken ctx req c)))))"

section \<open>Device code\<close>

text \<open>The answer while there is no grant yet: the state of the pending session.\<close>

definition device_pending :: "'st Context \<Rightarrow> request \<Rightarrow> Client \<Rightarrow> ('st, 'a) M" where
  "device_pending ctx req c =
     tryM (mapErrM (\<lambda>sessionErr. if \<not> errors_Is sessionErr ErrNotFound then ErrWrapf ''could not load authn session'' sessionErr
             else invalid_grant ''no grant or pending device session was found for the device code'')
        (storeM (\<lambda>n. m_SessionByDeviceCode (cf_Managers (cx ctx)) n (rt_deviceCode req)))) (\<lambda>as.
     guardM (as_ClientID as \<noteq> c_ID c) (invalid_grant ''authn session was not issued for this client'') (
     tryM (TimestampNow ctx) (\<lambda>now.
     guardM (now \<ge> as_ExpiresAt as)
       (WrapError ErrorCodeExpiredToken ''device code expired'' (ErrNew ''grant was not found and the pending device session has expired'')) (
     guardM (as_Status as = StatusFailure)
       (WrapError ErrorCodeAccessDenied ''access denied'' (ErrNew ''the authentication session was denied'')) (
     failM (WrapError ErrorCodeAuthPending ''authentication pending''
       (ErrNew ''grant was not found and the pending device session is still awaiting approval'')))))))"

definition checkDeviceCode :: "'st Context \<Rightarrow> request \<Rightarrow> Client \<Rightarrow> Grant \<Rightarrow> ('st, unit) M" where
  "checkDeviceCode ctx req c grant =
     tryM (TimestampNow ctx) (\<lambda>now.
     guardM (now \<ge> g_DeviceCodeExpiresAt grant)
       (WrapError ErrorCodeExpiredToken ''device code expired'' (ErrNew ''the device code lifetime has elapsed'')) (
     guardM (g_DeviceCodeConsumedAt grant \<noteq> 0) (invalid_grant ''the device code has already been redeemed'') (
     guardM (GrantDeviceCode \<notin> set (c_GrantTypes c))
       (unauthorized_client ''the client is not allowed to use the device_code grant type'') (
     guardM (c_ID c \<noteq> g_ClientID grant) (invalid_grant ''the device code belongs to a different client'') (
     validate_requested ctx req c grant)))))"

definition redeemDeviceCode :: "'st Context \<Rightarrow> request \<Rightarrow> Client \<Rightarrow> Grant \<Rightarrow> ('st, response) M" where
  "redeemDeviceCode ctx req c grant =
     tryM (checkDeviceCode ctx req c grant) (\<lambda>_.
     redeem ctx c (requested_options req) (\<lambda>now g. g\<lparr>g_DeviceCodeConsumedAt := now\<rparr>)
       ''could not generate id token for the device code grant'')"

definition generateDeviceCodeToken :: "'st Context \<Rightarrow> request \<Rightarrow> ('st, response) M" where
  "generateDeviceCodeToken ctx req =
     guardM (rt_deviceCode req = '''') (invalid_request (ErrNew ''device_code is required'')) (
     tryM (Authenticated ctx AuthnContextToken) (\<lambda>c.
     tryM (ValidateBinding ctx c zero_binding) (\<lambda>_.
     tryM (attemptM (loadGrant (\<lambda>n. m_GrantByDeviceCode (cf_Managers (cx ctx)) n (rt_deviceCode req)))) (\<lambda>r. case r of
        Inl err \<Rightarrow>
          guardM (\<not> errors_Is err ErrNotFound)
            (WrapError ErrorCodeInvalidGrant ''invalid grant'' (ErrWrapf ''could not load the grant by device code'' err)) (
          device_pending ctx req c)
      | Inr grant \<Rightarrow>
          guardM (g_RevokedAt grant \<noteq> 0) (WrapError ErrorCodeExpiredToken ''invalid grant'' (ErrNew ''grant was revoked'')) (
          or_revoke ctx (redeemDeviceCode ctx req c grant))))))"

section \<open>CIBA\<close>

definition ciba_pending :: "'st Context \<Rightarrow> request \<Rightarrow> Client \<Rightarrow> ('st, 'a) M" where
  "ciba_pending ctx req c =
     tryM (mapErrM (\<lambda>sessionErr. if \<not> errors_Is sessionErr ErrNotFound then ErrWrapf ''could not load authn session'' sessionErr
             else WrapError ErrorCodeInvalidGrant ''invalid auth_req_id''
               (ErrNew ''no grant or pending CIBA session was found for the auth_req_id''))
        (storeM (\<lambda>n. m_SessionByAuthReqID (cf_Managers (cx ctx)) n (rt_authReqID req)))) (\<lambda>as.
     guardM (as_ClientID as \<noteq> c_ID c) (invalid_grant ''authn session was not issued for this client'') (
     tryM (TimestampNow ctx) (\<lambda>now.
     guardM (now \<ge> as_ExpiresAt as)
       (WrapError ErrorCodeExpiredToken ''auth_req_id expired'' (ErrNew ''grant was not found and the pending CIBA session has expired'')) (
     guardM (as_Status as = StatusFailure)
       (WithStatusCode (WrapError ErrorCodeAccessDenied ''access denied'' (ErrNew ''the authentication session was denied'')) 400) (
     failM (WrapError ErrorCodeAuthPending ''authentication pending''
       (ErrNew ''grant was not found and the pending CIBA session is still awaiting approval'')))))))"

definition checkAuthReqID :: "'st Context \<Rightarrow> request \<Rightarrow> Client \<Rightarrow> Grant \<Rightarrow> ('st, unit) M" where
  "checkAuthReqID ctx req c grant =
     (let invalid_id = (\<lambda>m. WrapError ErrorCodeInvalidGrant ''invalid auth_req_id'' (ErrNew m)) in
      tryM (TimestampNow ctx) (\<lambda>now.
      guardM (now \<ge> g_AuthReqIDExpiresAt grant)
        (WrapError ErrorCodeExpiredToken ''auth_req_id expired'' (ErrNew ''the auth_req_id lifetime has elapsed'')) (
      guardM (g_AuthReqIDConsumedAt grant \<noteq> 0) (invalid_id ''the auth_req_id has already been redeemed'') (
      guardM (GrantCIBA \<notin> set (c_GrantTypes c))
        (unauthorized_client ''the client is not allowed to use the CIBA grant type'') (
      guardM (c_CIBATokenDeliveryMode c = CIBADeliveryModePush)
        (unauthorized_client ''the client uses push delivery mode and cannot poll the token endpoint'') (
      guardM (c_ID c \<noteq> g_ClientID grant) (invalid_id ''the auth_req_id belongs to a different client'') (
      validate_requested ctx req c grant)))))))"

definition redeemAuthReqID :: "'st Context \<Rightarrow> request \<Rightarrow> Client \<Rightarrow> Grant \<Rightarrow> ('st, response) M" where
  "redeemAuthReqID ctx req c grant =
     tryM (checkAuthReqID ctx req c grant) (\<lambda>_.
     redeem ctx c (requested_options req) (\<lambda>now g. g\<lparr>g_AuthReqIDConsumedAt := now\<rparr>)
       ''could not generate id token for the ciba grant'')"

definition generateCIBAToken :: "'st Context \<Rightarrow> request \<Rightarrow> ('st, response) M" where
  "generateCIBAToken ctx req =
     tryM (mapErrM (ErrWrapf ''invalid client authentication'') (Authenticated ctx AuthnContextToken)) (\<lambda>c.
     guardM (rt_authReqID req = '''') (NewError ErrorCodeInvalidRequest ''auth_req_id is required'') (
     tryM (ValidateBinding ctx c zero_binding) (\<lambda>_.
     tryM (attemptM (loadGrant (\<lambda>n. m_GrantByAuthReqID (cf_Managers (cx ctx)) n (rt_authReqID req)))) (\<lambda>r. case r of
        Inl err \<Rightarrow>
          guardM (\<not> errors_Is err ErrNotFound) (ErrWrapf ''could not load ciba grant'' err) (ciba_pending ctx req c)
      | Inr grant \<Rightarrow>
          guardM (g_RevokedAt grant \<noteq> 0) (WrapError ErrorCodeExpiredToken ''invalid grant'' (ErrNew ''grant was revoked'')) (
          or_revoke ctx (redeemAuthReqID ctx req c grant))))))"

section \<open>Pre-authorized code\<close>

text \<open>The client of a request whose sender may stay unidentified: the authenticated client, or the given stand-in
  when identification is all that failed and is not required.\<close>

definition client_or :: "'st Context \<Rightarrow> bool \<Rightarrow> Client \<Rightarrow> ('st, Client) M" where
  "client_or ctx required standIn =
     tryM (attemptM (Authenticated ctx AuthnContextToken)) (\<lambda>r. case r of
        Inr c \<Rightarrow> okM c
      | Inl err \<Rightarrow> guardM (required \<or> \<not> errors_Is err ErrClientNotIdentified) err (okM standIn))"

definition anonymous_client :: "GrantType \<Rightarrow> string list \<Rightarrow> Client" where
  "anonymous_client grantType scopeIDs = zero_Client\<lparr>c_GrantTypes := [grantType], c_ScopeIDs := join '' '' scopeIDs\<rparr>"

definition credential_scopes :: "'st Context \<Rightarrow> string list" where
  "credential_scopes ctx =
     filter (\<lambda>s. s \<noteq> '''') (concat (map (\<lambda>iss. map vcc_Scope (vci_Configurations iss)) (cf_VCIIssuers (cx ctx))))"

text \<open>The branch for codes of the provider's own credential issuer.\<close>

definition redeemPreAuthCode :: "'st Context \<Rightarrow> request \<Rightarrow> Client \<Rightarrow> ('st, unit) M" where
  "redeemPreAuthCode ctx req c =
     tryM (mapErrM (\<lambda>err. if \<not> errors_Is err ErrNotFound then ErrWrapf ''could not load the grant by pre-authorized code'' err
             else WrapError ErrorCodeInvalidGrant ''invalid grant'' err)
        (loadGrant (\<lambda>n. m_GrantByPreAuthCode (cf_Managers (cx ctx)) n (rt_preAuthCode req)))) (\<lambda>g.
     guardM (g_RevokedAt g \<noteq> 0) (invalid_grant ''grant was revoked'') (
     guardM (g_PreAuthCodeConsumedAt g \<noteq> 0) (invalid_grant ''the pre-authorized code has already been redeemed'') (
     tryM (TimestampNow ctx) (\<lambda>now.
     guardM (now \<ge> g_PreAuthCodeExpiresAt g) (invalid_grant ''the pre-authorized code has expired'') (
     guardM (g_TransactionCode g \<noteq> '''' \<and> g_TransactionCode g \<noteq> rt_txCode req) (invalid_grant ''invalid transaction code'') (
     guardM (g_ClientID g \<noteq> '''' \<and> g_ClientID g \<noteq> c_ID c)
       (invalid_grant ''the pre-authorized code belongs to a different client'') (
     tryM (ValidateBinding ctx c (grant_binding g)) (\<lambda>_.
     tryM (checkM (validateScopes ctx req c (Some (g_Scopes g)))) (\<lambda>_.
     tryM (checkM (validateResources ctx req (Some (g_Resources g)))) (\<lambda>_.
     tryM (validateAuthDetails ctx req c (Some (g_AuthDetails g))) (\<lambda>_.
     tryM (checkM (validateVerifiableCredentials ctx g)) (\<lambda>_.
     consume ctx (\<lambda>now g. g\<lparr>g_PreAuthCodeConsumedAt := now\<rparr>)))))))))))))"

text \<open>The branch for codes of an external credential issuer: what the handler authorized bounds the details and
  scopes of the request. \<^verbatim>\<open>result.ConfigurationIDs\<close> is a map; its keys are checked in map order, all with the same
  error up to the name in its message.\<close>

primrec identify_details ::
  "(string \<times> string list) list \<Rightarrow> AuthDetail list \<Rightarrow> go_error + AuthDetail list" where
  "identify_details ids [] = Inr []"
| "identify_details ids (detail # rest) =
     (if AuthDetail_Type detail \<noteq> AuthDetailTypeOpenIDCredential
      then Inl (invalid_auth_details (ErrNew ''only openid_credential authorization details are allowed in the pre-authorized code grant''))
      else
        let credID = (case map_of detail ''credential_configuration_id'' of Some (JStr s) \<Rightarrow> s | _ \<Rightarrow> '''') in
        case map_of ids credID of
          None \<Rightarrow> Inl (invalid_request (ErrNew (''the requested credential_configuration_id was not returned by the pre-authorized code handler: '' @ credID)))
        | Some credIDs \<Rightarrow>
            (case identify_details ids rest of
               Inl e \<Rightarrow> Inl e
             | Inr ds \<Rightarrow> Inr (AList.update ''credential_identifiers'' (JArr (map JStr credIDs)) detail # ds)))"

definition scope_authorized :: "(string \<times> string list) list \<Rightarrow> VCIssuer \<Rightarrow> string \<Rightarrow> bool" where
  "scope_authorized ids issuer scope =
     list_ex (\<lambda>config. map_of ids (vcc_ID config) \<noteq> None \<and> vcc_Scope config = scope) (vci_Configurations issuer)"

definition externalPreAuthCode :: "'st Context \<Rightarrow> request \<Rightarrow> Client \<Rightarrow> VCIssuer \<Rightarrow> ('st, unit) M" where
  "externalPreAuthCode ctx req c issuer =
     guardM (\<not> cf_VCIExternalPreAuthCodeGrantEnabled (cx ctx))
       (invalid_grant ''external credential issuers do not support the pre-authorized code grant'') (
     tryM (ValidateBinding ctx c zero_binding) (\<lambda>_.
     tryM (callE (\<lambda>n. cf_VCIExternalPreAuthCodeHandleFunc (cx ctx) n (rt_preAuthCode req) (vci_Issuer issuer) (rt_txCode req))) (\<lambda>result.
     let ids = pcr_ConfigurationIDs result in
     guardM (list_ex (\<lambda>(i, _). \<not> list_ex (\<lambda>config. vcc_ID config = i) (vci_Configurations issuer)) ids)
       (invalid_request (ErrNew ''the pre-authorized code handler returned an unknown credential_configuration_id: '')) (
     tryM (liftE (identify_details ids (elems (rt_authDetails req)))) (\<lambda>details.
     guardM (list_ex (\<lambda>scope. \<not> scope_authorized ids issuer scope) (strings_Fields (rt_scopes req)))
       (invalid_scope ''the requested scope was not authorized by the pre-authorized code: '') (
     tryM (tlsThumbprint ctx) (\<lambda>x5t.
     NewGrant ctx c (zero_GrantOptions\<lparr>go_Type := GrantPreAuthorizedCode, go_PreAuthCode := rt_preAuthCode req,
       go_Subject := pcr_Subject result, go_ClientID := c_ID c, go_Scopes := rt_scopes req,
       go_AuthDetails := (if details = [] then None else Some details), go_Resources := rt_resources req,
       go_JWKThumbprint := dpopThumbprint ctx, go_ClientCertThumbprint := x5t\<rparr>))))))))"

definition generatePreAuthCodeToken :: "'st Context \<Rightarrow> request \<Rightarrow> ('st, response) M" where
  "generatePreAuthCodeToken ctx req =
     guardM (rt_preAuthCode req = '''') (invalid_request (ErrNew ''pre-authorized_code is required'')) (
     tryM (client_or ctx (\<not> cf_VCIPreAuthCodeAnonymousAccessEnabled (cx ctx))
        (anonymous_client GrantPreAuthorizedCode (credential_scopes ctx))) (\<lambda>c.
     guardM (GrantPreAuthorizedCode \<notin> set (c_GrantTypes c))
       (unauthorized_client ''the client is not allowed to use the urn:ietf:params:oauth:grant-type:pre-authorized_code grant type'') (
     tryM (checkM (validateScopes ctx req c None)) (\<lambda>_.
     tryM (checkM (validateResources ctx req None)) (\<lambda>_.
     tryM (validateAuthDetails ctx req c None) (\<lambda>_.
     tryM (liftE (Resolve ctx \<lparr>vr_Scopes = rt_scopes req, vr_Details = rt_authDetails req, vr_Resources = rt_resources req\<rparr>)) (\<lambda>(issuer, _).
     tryM (if cf_VCISelfPreAuthCodeGrantEnabled (cx ctx) \<and> vci_Issuer issuer = cf_VCISelfHost (cx ctx)
           then redeemPreAuthCode ctx req c else externalPreAuthCode ctx req c issuer) (\<lambda>_.
     tryM (Issue ctx c zero_IssuanceOptions) (\<lambda>(tkn, tokenValue, _).
     tryM (getM w_grant) (\<lambda>grant.
     okM ((token_response tkn tokenValue)\<lparr>rs_RefreshToken := g_RefreshToken grant\<rparr>)))))))))))"

section \<open>Frames\<close>

lemma keeps_id_token [frame_intros]:
  "stable P \<Longrightarrow> keeps P (grant_id_token ctx c msg)" "stable P \<Longrightarrow> keeps P (with_id_token ctx c tkn msg resp)"
  unfolding with_id_token_def grant_id_token_def by (intro frame_intros; assumption)+

lemma keeps_requested [frame_intros]: "stable P \<Longrightarrow> keeps P (validate_requested ctx req c grant)"
  unfolding validate_requested_def by (intro frame_intros; assumption)+

lemma keeps_code_checks [frame_intros]:
  "stable P \<Longrightarrow> keeps P (checkAuthCode ctx req c grant)" "stable P \<Longrightarrow> keeps P (checkDeviceCode ctx req c grant)"
  "stable P \<Longrightarrow> keeps P (checkAuthReqID ctx req c grant)"
  unfolding checkAuthCode_def checkDeviceCode_def checkAuthReqID_def Let_def by (intro frame_intros; assumption)+

lemma keeps_client_or [frame_intros]: "stable P \<Longrightarrow> client_reads ctx P \<Longrightarrow> keeps P (client_or ctx r c)"
  unfolding client_or_def by (intro frame_intros; assumption)+

context grant_managers
begin

lemma client_reads_ok [frame_intros]: "cf_Managers (cx ctx) = M \<Longrightarrow> client_reads ctx (grants_ok inv at Q)"
  unfolding client_reads_def keeps_def grants_ok_def
  by (auto simp: storeM_def split: prod.splits dest: client_reads fed_client_reads)

text \<open>A lookup leaves the store as it is; the object found is one of the store.\<close>

lemma loadGrant_found:
  assumes "finds inv at g_ID f attr" and "inv (w_store w)" and "loadGrant (\<lambda>n. f n x) w = (Inr g, w')"
  shows "w_store w' = w_store w" "w_grant w' = g" "w_grantShared w'" "at (w_store w) (g_ID g) = Some g" "attr g = x"
proof -
  obtain s where s: "f (w_calls w) x (w_store w) = (Inr g, s)"
    and w': "w' = w\<lparr>w_calls := Suc (w_calls w), w_store := s, w_grant := g, w_grantShared := True\<rparr>"
    using assms(3) by (auto simp: loadGrant_def tryM_ok storeM_ok)
  from findsD [OF assms(1,2) s] w' show "w_store w' = w_store w" "w_grant w' = g" "w_grantShared w'"
      "at (w_store w) (g_ID g) = Some g" "attr g = x"
    by auto
qed

lemma keeps_loadGrant:
  assumes "finds inv at g_ID f attr"
  shows "keeps (grants_ok inv at Q) (loadGrant (\<lambda>n. f n x))"
proof (rule keepsI)
  fix w r w'
  assume w: "grants_ok inv at Q w" and r: "loadGrant (\<lambda>n. f n x) w = (r, w')"
  show "grants_ok inv at Q w'"
  proof (cases r)
    case (Inl e)
    then obtain s where s: "f (w_calls w) x (w_store w) = (Inl e, s)" "w' = w\<lparr>w_calls := Suc (w_calls w), w_store := s\<rparr>"
      using r by (auto simp: loadGrant_def tryM_def storeM_def split: prod.splits sum.splits)
    from w findsD(1) [OF assms _ s(1)] have "s = w_store w" by (simp add: grants_ok_def)
    with s w show ?thesis by (simp add: grants_ok_def)
  next
    case (Inr g)
    with loadGrant_found [OF assms _ r [unfolded Inr]] w show ?thesis by (auto simp: grants_ok_def)
  qed
qed

lemmas keeps_lookups [frame_intros] =
  keeps_loadGrant [OF find_id] keeps_loadGrant [OF find_code] keeps_loadGrant [OF find_refresh]
  keeps_loadGrant [OF find_auth_req] keeps_loadGrant [OF find_device] keeps_loadGrant [OF find_pre_auth]

lemma keeps_read:
  assumes "\<And>n s r s'. inv s \<Longrightarrow> f n s = (r, s') \<Longrightarrow> s' = s"
  shows "keeps (grants_ok inv at Q) (storeM f)"
proof (rule keepsI)
  fix w r w'
  assume w: "grants_ok inv at Q w" and "storeM f w = (r, w')"
  then obtain s where s: "f (w_calls w) (w_store w) = (r, s)" "w' = w\<lparr>w_calls := Suc (w_calls w), w_store := s\<rparr>"
    by (auto simp: storeM_ok)
  from w assms [OF _ s(1)] have "s = w_store w" by (simp add: grants_ok_def)
  with s w show "grants_ok inv at Q w'" by (simp add: grants_ok_def)
qed

lemma keeps_reads [frame_intros]:
  "keeps (grants_ok inv at Q) (storeM (\<lambda>n. m_Token M n i))"
  "keeps (grants_ok inv at Q) (storeM (\<lambda>n. m_SessionByDeviceCode M n i))"
  "keeps (grants_ok inv at Q) (storeM (\<lambda>n. m_SessionByAuthReqID M n i))"
  by (rule keeps_read, erule (1) token_reads device_session_reads session_reads)+

lemma keeps_consume [frame_intros]:
  assumes "cf_Managers (cx ctx) = M" and "progressive ctx Q"
    and "\<And>g n. Q g \<Longrightarrow> Q (mark (l_Now (cx_Lib ctx) n div second) g)" and "\<And>t g. g_ID (mark t g) = g_ID g"
  shows "keeps (grants_ok inv at Q) (consume ctx mark)"
  unfolding consume_def
  by (intro keeps_TimestampNow keeps_try keeps_assign_field keeps_SaveGrant stable_grants_ok keeps_validations assms
      progressive_field [OF assms(2)]) (simp_all add: assms)

lemma keeps_issue_response [frame_intros]:
  "cf_Managers (cx ctx) = M \<Longrightarrow> hooks_keep ctx Q \<Longrightarrow> keeps (grants_ok inv at Q) (issue_response ctx c opts msg)"
  unfolding issue_response_def by (intro frame_intros)

lemma keeps_redeem:
  assumes "cf_Managers (cx ctx) = M" and "progressive ctx Q"
    and "\<And>g n. Q g \<Longrightarrow> Q (mark (l_Now (cx_Lib ctx) n div second) g)" and "\<And>t g. g_ID (mark t g) = g_ID g"
  shows "keeps (grants_ok inv at Q) (redeem ctx c opts mark msg)"
  unfolding redeem_def by (intro frame_intros assms progressive_hooks [OF assms(2)])

lemma keeps_or_revoke [frame_intros]:
  assumes "cf_Managers (cx ctx) = M" and "progressive ctx Q" and "keeps (grants_ok inv at Q) m"
  shows "keeps (grants_ok inv at Q) (or_revoke ctx m)"
  unfolding or_revoke_def
  by (intro keeps_run keeps_case_sum keeps_ok keeps_fail keeps_TimestampNow keeps_try keeps_assign_field keeps_mapErr
      keeps_SaveGrant stable_grants_ok assms progressive_field [OF assms(2)]) simp_all

lemma keeps_redemptions [frame_intros]:
  assumes "cf_Managers (cx ctx) = M" and "progressive ctx Q"
  shows "keeps (grants_ok inv at Q) (redeemAuthCode ctx req c grant)"
    "keeps (grants_ok inv at Q) (redeemDeviceCode ctx req c grant)"
    "keeps (grants_ok inv at Q) (redeemAuthReqID ctx req c grant)"
  unfolding redeemAuthCode_def redeemDeviceCode_def redeemAuthReqID_def Let_def
  by (intro keeps_redeem frame_intros assms progressive_field [OF assms(2)]; simp)+

lemma keeps_pending [frame_intros]:
  assumes "cf_Managers (cx ctx) = M"
  shows "keeps (grants_ok inv at Q) (device_pending ctx req c)" "keeps (grants_ok inv at Q) (ciba_pending ctx req c)"
  unfolding device_pending_def ciba_pending_def assms by (intro frame_intros)+

lemma keeps_pre_auth [frame_intros]:
  assumes "cf_Managers (cx ctx) = M" and "progressive ctx Q"
  shows "keeps (grants_ok inv at Q) (redeemPreAuthCode ctx req c)"
    "keeps (grants_ok inv at Q) (externalPreAuthCode ctx req c issuer)"
  unfolding redeemPreAuthCode_def externalPreAuthCode_def Let_def assms(1)
  by (intro frame_intros assms progressive_field [OF assms(2)]; simp add: zero_GrantOptions_def)+

lemma keeps_code_grants [frame_intros]:
  assumes "cf_Managers (cx ctx) = M" and "progressive ctx Q"
  shows "keeps (grants_ok inv at Q) (legacyAuthCodeToken ctx req c)" 
    "keeps (grants_ok inv at Q) (generateDeviceCodeToken ctx req)"
    "keeps (grants_ok inv at Q) (generateCIBAToken ctx req)"
    "keeps (grants_ok inv at Q) (generatePreAuthCodeToken ctx req)"
  unfolding legacyAuthCodeToken_def generateDeviceCodeToken_def generateCIBAToken_def generatePreAuthCodeToken_def assms(1)
  by (intro frame_intros assms progressive_hooks [OF assms(2)])+

lemma keeps_auth_code [frame_intros]:
  assumes "cf_Managers (cx ctx) = M" and "progressive ctx Q"
  shows "keeps (grants_ok inv at Q) (generateAuthCodeToken ctx req)"
  unfolding generateAuthCodeToken_def by (intro frame_intros assms)

end

section \<open>The grant being redeemed\<close>

text \<open>The request holds the object of the grant \<open>i\<close>, and every other grant satisfies \<open>Q\<close>. No assignment and no
  configured function takes the object away, so this needs no assumption on them.\<close>

definition holds ::
  "('st \<Rightarrow> bool) \<Rightarrow> ('st \<Rightarrow> string \<Rightarrow> Grant option) \<Rightarrow> string \<Rightarrow> (Grant \<Rightarrow> bool) \<Rightarrow> 'st World \<Rightarrow> bool" where
  "holds I at i Q w \<longleftrightarrow> I (w_store w) \<and> (\<forall>k g. at (w_store w) k = Some g \<longrightarrow> k = i \<or> Q g)
     \<and> g_ID (w_grant w) = i \<and> w_grantShared w"

lemma stable_holds [frame_intros]: "stable (holds I at i Q)"
  unfolding stable_def holds_def by simp

definition clock_set :: "'st Context \<Rightarrow> bool" where
  "clock_set ctx \<longleftrightarrow> (\<forall>n. l_Now (cx_Lib ctx) n div second \<noteq> 0)"

context grant_managers
begin

lemma holds_assign [frame_intros]:
  assumes "cf_Managers (cx ctx) = M"
  shows "keeps (holds inv at i Q) (assignGrant ctx f)"
  unfolding keeps_def
proof (intro allI impI)
  fix w assume w: "holds inv at i Q w"
  let ?g = "(f (w_grant w))\<lparr>g_ID := g_ID (w_grant w)\<rparr>"
  from w have "g_ID ?g = i" by (simp add: holds_def)
  with w have "at (m_TouchGrant M ?g (w_store w)) k = Some g \<Longrightarrow> k = i \<or> Q g" for k g
    using touch_other [of "w_store w" k ?g] by (cases "k = i") (auto simp: holds_def)
  with w touch_inv [of "w_store w" ?g] assms show "holds inv at i Q (snd (assignGrant ctx f w))"
    by (auto simp: assignGrant_def holds_def Let_def)
qed

lemma holds_save [frame_intros]:
  assumes "cf_Managers (cx ctx) = M"
  shows "keeps (holds inv at i Q) (ctx_SaveGrant ctx)"
proof (rule keepsI)
  fix w r w'
  assume w: "holds inv at i Q w" and r: "ctx_SaveGrant ctx w = (r, w')"
  obtain s where s: "m_SaveGrant M (w_calls w) (w_grant w) (w_store w) = (r, s)"
    and w': "w_store w' = s" "w_grant w' = w_grant w" "w_grantShared w'"
    using r assms by (auto simp: ctx_SaveGrant_def tryM_def storeM_ok)
  have i: "inv (w_store w)" "g_ID (w_grant w) = i" using w by (auto simp: holds_def)
  have "k = i \<or> Q g" if "at s k = Some g" for k g
    using save_other [OF i(1) s, of k] w i that unfolding holds_def by (metis option.distinct(1))
  with w' w save_inv [OF i(1) s] show "holds inv at i Q w'" by (auto simp: holds_def)
qed

lemma holds_SaveToken [frame_intros]: "keeps (holds inv at i Q) (storeM (\<lambda>n. m_SaveToken M n tkn))"
proof (rule keepsI)
  fix w r w'
  assume w: "holds inv at i Q w" and "storeM (\<lambda>n. m_SaveToken M n tkn) w = (r, w')"
  then obtain s where s: "m_SaveToken M (w_calls w) tkn (w_store w) = (r, s)" "w' = w\<lparr>w_calls := Suc (w_calls w), w_store := s\<rparr>"
    by (auto simp: storeM_ok)
  from w tokens_keep [OF _ s(1)] have "inv s" "at s = at (w_store w)" by (simp_all add: holds_def)
  with s w show "holds inv at i Q w'" by (simp add: holds_def)
qed

lemma holds_hooks [frame_intros]:
  assumes "cf_Managers (cx ctx) = M"
  shows "keeps (holds inv at i Q) (HandleGrant ctx t)" "keeps (holds inv at i Q) (HandleToken ctx tkn)"
    "keeps (holds inv at i Q) (TokenOptions_of ctx c)"
  unfolding HandleGrant_def HandleToken_def TokenOptions_of_def by (intro frame_intros assms)+

lemma holds_issue [frame_intros]:
  assumes "cf_Managers (cx ctx) = M"
  shows "keeps (holds inv at i Q) (Issue ctx c opts)" "keeps (holds inv at i Q) (issue_response ctx c opts msg)"
    "keeps (holds inv at i Q) (consume ctx mark)" "keeps (holds inv at i Q) (redeem ctx c opts mark msg)"
  unfolding redeem_def issue_response_def consume_def Issue_def Let_def assms by (intro frame_intros assms)+

lemma holds_redemptions [frame_intros]:
  assumes "cf_Managers (cx ctx) = M"
  shows "keeps (holds inv at i Q) (redeemAuthCode ctx req c grant)"
    "keeps (holds inv at i Q) (redeemDeviceCode ctx req c grant)" "keeps (holds inv at i Q) (redeemAuthReqID ctx req c grant)"
  unfolding redeemAuthCode_def redeemDeviceCode_def redeemAuthReqID_def Let_def by (intro frame_intros assms)+

text \<open>A successful save writes the object: then all grants satisfy what the object and the others do.\<close>

lemma save_establishes:
  assumes "cf_Managers (cx ctx) = M" and w: "holds inv at i Q w" and "Q (w_grant w)" and r: "ctx_SaveGrant ctx w = (Inr u, w')"
  shows "grants_ok inv at Q w'" and "at (w_store w') i = Some (w_grant w)"
proof -
  obtain s where s: "m_SaveGrant M (w_calls w) (w_grant w) (w_store w) = (Inr (), s)"
    and w': "w_store w' = s" "w_grant w' = w_grant w"
    using r assms(1) by (auto simp: ctx_SaveGrant_def tryM_def storeM_ok)
  have i: "inv (w_store w)" "g_ID (w_grant w) = i" using w by (auto simp: holds_def)
  show at: "at (w_store w') i = Some (w_grant w)" using save_at [OF i(1) s] i w' by simp
  have "Q g" if "at s k = Some g" for k g
  proof (cases "k = i")
    case True
    with that at w' assms(3) show ?thesis by simp
  next
    case False
    with that save_other [OF i(1) s, of k] i w show ?thesis unfolding holds_def by (metis option.distinct(1))
  qed
  with w' assms(3) save_inv [OF i(1) s] show "grants_ok inv at Q w'" by (auto simp: grants_ok_def)
qed

lemma holds_loaded:
  assumes "finds inv at g_ID f attr" and "inv (w_store w)" and "unique_attr at attr x (w_store w)"
    and "loadGrant (\<lambda>n. f n x) w = (Inr g, w')" and "\<And>h. attr h \<noteq> x \<Longrightarrow> Q h"
  shows "holds inv at (g_ID g) Q w'"
proof -
  note l = loadGrant_found [OF assms(1,2,4)]
  have "at (w_store w) k = Some h \<Longrightarrow> k = g_ID g \<or> Q h" for k h
    using l(4,5) assms(3,5) unfolding unique_attr_def by metis
  with l assms(2) show ?thesis by (auto simp: holds_def)
qed

text \<open>A request that fails after \<open>or_revoke\<close> was entered leaves the grant revoked, unless saving it failed.\<close>

lemma or_revoke_fails:
  assumes "cf_Managers (cx ctx) = M" and "clock_set ctx" and w: "holds inv at i (\<lambda>_. True) w"
    and m: "keeps (holds inv at i (\<lambda>_. True)) m" and r: "or_revoke ctx m w = (Inl e, w')"
    and "\<nexists>e'. e = ErrWrapf ''could not revoke grant'' e'"
  shows "\<exists>h. at (w_store w') i = Some h \<and> g_RevokedAt h \<noteq> 0"
proof -
  obtain err w1 where m1: "m w = (Inl err, w1)"
    and rest: "tryM (TimestampNow ctx) (\<lambda>now. tryM (assignGrant ctx (\<lambda>g. g\<lparr>g_RevokedAt := now\<rparr>)) (\<lambda>_.
       tryM (mapErrM (ErrWrapf ''could not revoke grant'') (ctx_SaveGrant ctx)) (\<lambda>_. failM err))) w1 = (Inl e :: go_error + response, w')"
    using r unfolding or_revoke_def runM_def by (cases "m w"; cases "fst (m w)") auto
  let ?now = "l_Now (cx_Lib ctx) (w_calls w1) div second"
  define w2 where "w2 = snd (assignGrant ctx (\<lambda>g. g\<lparr>g_RevokedAt := ?now\<rparr>) (w1\<lparr>w_calls := Suc (w_calls w1)\<rparr>))"
  have h1: "holds inv at i (\<lambda>_. True) w1" using keepsD [OF m m1 w] .
  then have "holds inv at i (\<lambda>_. True) (w1\<lparr>w_calls := Suc (w_calls w1)\<rparr>)" by (simp add: holds_def)
  then have h2: "holds inv at i (\<lambda>_. True) w2"
    using holds_assign [OF assms(1)] unfolding w2_def keeps_def by blast
  have g2: "g_RevokedAt (w_grant w2) = ?now" unfolding w2_def assignGrant_def by (simp add: Let_def)
  have "tryM (mapErrM (ErrWrapf ''could not revoke grant'') (ctx_SaveGrant ctx)) (\<lambda>_. failM err) w2 = (Inl e :: go_error + response, w')"
    using rest by (simp add: TimestampNow_def tryM_simple tryM_assign w2_def)
  with assms(6) obtain u where "ctx_SaveGrant ctx w2 = (Inr u, w')"
    by (auto simp: tryM_def mapErrM_def split: prod.splits sum.splits)
  from save_establishes(2) [OF assms(1) h2 _ this] g2 assms(2) show ?thesis
    by (auto simp: clock_set_def)
qed

end

section \<open>Who gets tokens for an authorization code\<close>

lemma ValidateBinding_ok:
  assumes "ValidateBinding ctx c (grant_binding g) w = (Inr u, w')" and "g_JWKThumbprint g \<noteq> ''''"
  shows "proves_key ctx '''' (g_JWKThumbprint g)"
proof -
  obtain w1 where "validateBindingDPoP ctx c (grant_binding g) w = (Inr (), w1)"
    using assms(1) unfolding ValidateBinding_def by (auto simp: tryM_ok)
  from validateBindingDPoP_ok [OF this] assms(2) show ?thesis by (simp add: grant_binding_def)
qed

text \<open>What has been checked when an authorization code is redeemed: the code is unused and unexpired, it belongs to
  the client, the redirect URI and the code verifier match, nothing beyond the grant is requested, and the
  holder of the bound key asks.\<close>

definition code_checked :: "'st Context \<Rightarrow> request \<Rightarrow> Client \<Rightarrow> nat \<Rightarrow> Grant \<Rightarrow> bool" where
  "code_checked ctx req c m g \<longleftrightarrow>
     g_AuthCodeConsumedAt g = 0 \<and> GrantAuthorizationCode \<in> set (c_GrantTypes c) \<and> c_ID c = g_ClientID g
     \<and> (\<exists>n\<ge>m. l_Now (cx_Lib ctx) n div second < g_AuthCodeExpiresAt g)
     \<and> rt_redirectURI req = ap_RedirectURI (g_AuthParams g) \<and> validatePKCE ctx req g = None
     \<and> list_all (scope_allowed ctx c (Some (g_Scopes g))) (strings_Fields (rt_scopes req))
     \<and> (cf_ResourceIndicatorsEnabled (cx ctx) \<longrightarrow> set (elems (rt_resources req)) \<subseteq> set (elems (g_Resources g)))
     \<and> (g_JWKThumbprint g \<noteq> '''' \<longrightarrow> proves_key ctx '''' (g_JWKThumbprint g))"

lemma checkAuthCode_ok:
  assumes "checkAuthCode ctx req c g w = (Inr u, w')"
  shows "code_checked ctx req c (w_calls w) g"
proof -
  have "validateResources ctx req (Some (g_Resources g)) = None \<Longrightarrow> cf_ResourceIndicatorsEnabled (cx ctx) \<Longrightarrow>
      set (elems (rt_resources req)) \<subseteq> set (elems (g_Resources g))"
    by (auto simp: validateResources_def check_resources_iff list_all_iff)
  with assms ValidateBinding_ok [of ctx c g] show ?thesis
    unfolding checkAuthCode_def code_checked_def
    by (auto simp: ok_simps TimestampNow_def validateScopes_def check_scopes_iff split: if_splits)
qed

text \<open>For a code without the prefix of the strict human flow, only the ordinary flow can succeed.\<close>

lemma generateHuman_prefix:
  assumes "generateHumanAuthorizationCodeToken ctx req c w = (Inr resp, w')"
  shows "isHumanAuthorizationCode (rt_code req)"
proof -
  have "NewHumanAuthorizationCode (rt_code req) \<noteq> None"
    using assms unfolding generateHumanAuthorizationCodeToken_def Let_def
    by (auto simp: ok_simps split: option.splits)
  then show ?thesis
    by (simp add: NewHumanAuthorizationCode_def newHumanCapabilityState_def validHumanCapability_def isHumanAuthorizationCode_def
        split: if_splits)
qed

lemma generateAuthCodeToken_ok:
  assumes "generateAuthCodeToken ctx req w = (Inr resp, w')" and "\<not> isHumanAuthorizationCode (rt_code req)"
  obtains c w1 where "Authenticated ctx AuthnContextToken (snd (BeginClientAssertionAuthentication w)) = (Inr c, w1)"
    and "c_AuthorizationRequestProfile c = AuthorizationRequestProfileDefault"
    and "legacyAuthCodeToken ctx req c w1 = (Inr resp, w')"
  using assms unfolding generateAuthCodeToken_def BeginClientAssertionAuthentication_def
  by (auto simp: ok_simps split: if_splits option.splits dest: generateHuman_prefix)

lemma legacyAuthCodeToken_ok:
  assumes "legacyAuthCodeToken ctx req c w = (Inr resp, w')"
  obtains g w1 where "loadGrant (\<lambda>n. m_GrantByAuthCode (cf_Managers (cx ctx)) n (rt_code req)) w = (Inr g, w1)"
    and "rt_code req \<noteq> ''''" "g_RevokedAt g = 0" "redeemAuthCode ctx req c g w1 = (Inr resp, w')"
proof -
  obtain g w1 where "rt_code req \<noteq> ''''" "g_RevokedAt g = 0"
    "loadGrant (\<lambda>n. m_GrantByAuthCode (cf_Managers (cx ctx)) n (rt_code req)) w = (Inr g, w1)"
    and r: "or_revoke ctx (redeemAuthCode ctx req c g) w1 = (Inr resp, w')"
    using assms unfolding legacyAuthCodeToken_def guardM_ok tryM_ok mapErrM_ok by blast
  moreover have "redeemAuthCode ctx req c g w1 = (Inr resp, w')"
    using r unfolding or_revoke_def runM_def by (auto simp: tryM_ok split: prod.splits sum.splits)
  ultimately show ?thesis using that by blast
qed

text \<open>The grants of a code are all used up: consumed or revoked.\<close>

definition spent :: "string \<Rightarrow> Grant \<Rightarrow> bool" where
  "spent code g \<longleftrightarrow> (g_AuthCode g = code \<longrightarrow> g_AuthCodeConsumedAt g \<noteq> 0 \<or> g_RevokedAt g \<noteq> 0)"

context grant_managers
begin

lemma client_reads_at [frame_intros]:
  "cf_Managers (cx ctx) = M \<Longrightarrow> client_reads ctx (\<lambda>w. inv (w_store w) \<and> at (w_store w) = A)"
  unfolding client_reads_def keeps_def
  by (auto simp: storeM_def split: prod.splits dest: client_reads fed_client_reads)

text \<open>Authentication does not change the grants.\<close>

lemma Authenticated_at:
  assumes "cf_Managers (cx ctx) = M" and "Authenticated ctx a w = (r, w')" and "inv (w_store w)"
  shows "inv (w_store w')" and "at (w_store w') = at (w_store w)"
proof -
  have "stable (\<lambda>w'. inv (w_store w') \<and> at (w_store w') = at (w_store w))" by (simp add: stable_def)
  from keepsD [OF keeps_Authenticated [OF this client_reads_at [OF assms(1)]] assms(2)] assms(3)
  show "inv (w_store w')" "at (w_store w') = at (w_store w)" by simp_all
qed

lemma consume_establishes:
  assumes "cf_Managers (cx ctx) = M" and "consume ctx mark w = (Inr u, w')" and "holds inv at i Q w"
    and "\<And>n g. Q (mark (l_Now (cx_Lib ctx) n div second) g)" and "\<And>t g. g_ID (mark t g) = g_ID g"
  shows "grants_ok inv at Q w'"
proof -
  obtain w3 x where w3: "keeps (holds inv at i Q) (assignGrant ctx x)" "holds inv at i Q w3"
    and rest: "tryM (TimestampNow ctx) (\<lambda>now. tryM (assignGrant ctx (mark now)) (\<lambda>_. ctx_SaveGrant ctx)) w3 = (Inr u, w')"
  proof -
    obtain w1 w2 x5t w3 where s: "assignGrant ctx (\<lambda>g. g\<lparr>g_JWKThumbprint := dpopThumbprint ctx\<rparr>) w = (Inr (), w1)"
      "tlsThumbprint ctx w1 = (Inr x5t, w2)" "assignGrant ctx (\<lambda>g. g\<lparr>g_CertThumbprint := x5t\<rparr>) w2 = (Inr (), w3)"
      and r: "tryM (TimestampNow ctx) (\<lambda>now. tryM (assignGrant ctx (mark now)) (\<lambda>_. ctx_SaveGrant ctx)) w3 = (Inr u, w')"
      using assms(2) unfolding consume_def tryM_ok [of "assignGrant _ _"] tryM_ok [of "tlsThumbprint _"] by auto
    note k = holds_assign [OF assms(1), of i Q]
    have "holds inv at i Q w1" using keepsD [OF k s(1) assms(3)] .
    then have "holds inv at i Q w2" using keepsD [OF keeps_validations(3) [OF stable_holds] s(2)] by blast
    then have "holds inv at i Q w3" using keepsD [OF k s(3)] by blast
    with k r that show ?thesis by blast
  qed
  let ?now = "l_Now (cx_Lib ctx) (w_calls w3) div second"
  define w4 where "w4 = snd (assignGrant ctx (mark ?now) (w3\<lparr>w_calls := Suc (w_calls w3)\<rparr>))"
  have "holds inv at i Q (w3\<lparr>w_calls := Suc (w_calls w3)\<rparr>)" using w3(2) by (simp add: holds_def)
  then have h: "holds inv at i Q w4" using holds_assign [OF assms(1)] unfolding w4_def keeps_def by blast
  have "(mark ?now g)\<lparr>g_ID := g_ID g\<rparr> = mark ?now g" for g
    using assms(5) [of ?now g] by (cases "mark ?now g") auto
  then have "w_grant w4 = mark ?now (w_grant w3)" unfolding w4_def assignGrant_def by (simp add: Let_def)
  then have "Q (w_grant w4)" using assms(4) by simp
  moreover have "ctx_SaveGrant ctx w4 = (Inr u, w')"
    using rest by (simp add: TimestampNow_def tryM_simple tryM_assign w4_def)
  ultimately show ?thesis using save_establishes(1) [OF assms(1) h] by blast
qed

text \<open>After a success, every grant with the code is spent.\<close>

lemma code_redeemed_spent:
  assumes "cf_Managers (cx ctx) = M" and "clock_set ctx" and "hooks_keep ctx (spent (rt_code req))"
    and "inv (w_store w)" and "unique_attr at g_AuthCode (rt_code req) (w_store w)"
    and "legacyAuthCodeToken ctx req c w = (Inr resp, w')"
  shows "grants_ok inv at (spent (rt_code req)) w'"
proof -
  let ?Q = "spent (rt_code req)"
  obtain g w1 where l: "loadGrant (\<lambda>n. m_GrantByAuthCode M n (rt_code req)) w = (Inr g, w1)"
    and r: "redeemAuthCode ctx req c g w1 = (Inr resp, w')"
    using legacyAuthCodeToken_ok [OF assms(6)] assms(1) by metis
  have h1: "holds inv at (g_ID g) ?Q w1"
    using holds_loaded [OF find_code assms(4,5) l, of ?Q] by (auto simp: spent_def)
  obtain w2 w3 where s: "checkAuthCode ctx req c g w1 = (Inr (), w2)"
      "consume ctx (\<lambda>now g. g\<lparr>g_AuthCodeConsumedAt := now\<rparr>) w2 = (Inr (), w3)"
      "issue_response ctx c (requested_options req) ''could not generate id token for the authorization code grant'' w3 = (Inr resp, w')"
    using r unfolding redeemAuthCode_def redeem_def by (auto simp: tryM_ok)
  have "holds inv at (g_ID g) ?Q w2" using keepsD [OF keeps_code_checks(1) [OF stable_holds] s(1) h1] .
  from consume_establishes [OF assms(1) s(2) this] assms(2) have "grants_ok inv at ?Q w3"
    by (simp add: spent_def clock_set_def)
  then show ?thesis using keepsD [OF keeps_issue_response [OF assms(1,3)] s(3)] by blast
qed

end



subsection \<open>A concrete redemption\<close>

definition code_client :: Client where
  "code_client = zero_Client\<lparr>c_ID := ''c1'', c_TokenAuthnMethod := AuthnMethodNone,
     c_GrantTypes := [GrantAuthorizationCode, GrantRefreshToken], c_ScopeIDs := ''a b''\<rparr>"

definition code_grant :: Grant where
  "code_grant = zero_Grant\<lparr>g_ID := ''g'', g_AuthCode := ''k'', g_AuthCodeExpiresAt := 200, g_ClientID := ''c1'',
     g_Subject := ''u'', g_Scopes := ''a b'', g_RefreshToken := ''r''\<rparr>"

definition code_store :: Manager where
  "code_store = snd (SaveGrant id code_grant (NewManager 5))"

definition code_Context :: "Manager Context" where
  "code_Context = (base_Context (mem_Managers (\<lambda>_. id)))\<lparr>
     cx := (base_Configuration (mem_Managers (\<lambda>_. id)))\<lparr>cf_Host := ''https://op'', cf_LegacyAuthorizationCodeEnabled := True,
       cf_GrantTypes := [GrantAuthorizationCode, GrantRefreshToken], cf_AuthnMethods := [AuthnMethodNone],
       cf_StaticClients := [code_client], cf_JWKSFunc := (\<lambda>_. Inr [zero_JSONWebKey\<lparr>jwk_Algorithm := SigAlgPS256\<rparr>])\<rparr>,
     cx_Lib := base_Lib\<lparr>l_Now := (\<lambda>_. 100 * second), l_Sign := (\<lambda>n claims alg k t. Inr ''signed'')\<rparr>,
     cx_Request := zero_Request\<lparr>rq_PostForm := [(''client_id'', [''c1'']), (''grant_type'', [GrantAuthorizationCode]), (''code'', [''k''])]\<rparr>\<rparr>"

definition code_request :: request where
  "code_request = newRequest base_Lib (cx_Request code_Context)"

text \<open>The worlds of the run: after authentication, with the grant loaded, checked and consumed.\<close>

definition code_World :: "Manager World" where
  "code_World = (start_World code_store 0)\<lparr>w_clientAssertionState := Some fresh_authority_state\<rparr>"

definition code_World1 :: "Manager World" where
  "code_World1 = code_World\<lparr>w_calls := 1, w_grant := code_grant, w_grantShared := True\<rparr>"

definition code_World2 :: "Manager World" where
  "code_World2 = snd (checkAuthCode code_Context code_request code_client code_grant code_World1)"

definition code_World3 :: "Manager World" where
  "code_World3 = snd (consume code_Context (\<lambda>now g. g\<lparr>g_AuthCodeConsumedAt := now\<rparr>) code_World2)"

definition code_token :: Token where
  "code_token = zero_Token\<lparr>t_GrantID := ''g'', t_ClientID := ''c1'', t_Subject := ''u'', t_CreatedAt := 100, t_ExpiresAt := 160,
     t_Format := TokenFormatJWT, t_Type := TokenTypeBearer, t_SigAlg := SigAlgPS256, t_Scopes := ''a b''\<rparr>"

definition code_World4 :: "Manager World" where
  "code_World4 = snd (Issue code_Context code_client (requested_options code_request) code_World3)"

lemma code_run_parts:
  "Authenticated code_Context AuthnContextToken code_World = (Inr code_client, code_World)"
  "loadGrant (\<lambda>n. m_GrantByAuthCode (cf_Managers (cx code_Context)) n (rt_code code_request)) code_World = (Inr code_grant, code_World1)"
  "fst (checkAuthCode code_Context code_request code_client code_grant code_World1) = Inr ()"
  "fst (consume code_Context (\<lambda>now g. g\<lparr>g_AuthCodeConsumedAt := now\<rparr>) code_World2) = Inr ()"
  "fst (Issue code_Context code_client (requested_options code_request) code_World3) = Inr (code_token, ''signed'', code_client)"
  by code_simp+

lemma code_final: "mem_at (w_store code_World4) ''g'' = Some (code_grant\<lparr>g_AuthCodeConsumedAt := 100\<rparr>)"
  "w_grant code_World4 = code_grant\<lparr>g_AuthCodeConsumedAt := 100\<rparr>"
  by code_simp+

lemma code_flags:
  "rt_code code_request = ''k''" "g_RevokedAt code_grant = 0" "ContainsOpenID (t_Scopes code_token) = False"
  "c_AuthorizationRequestProfile code_client = AuthorizationRequestProfileDefault" "AuthorizationRequestProfileDefault = ''''"
  "cf_LegacyAuthorizationCodeEnabled (cx code_Context)" "\<not> cf_HumanConfidentialBFFAuthorizationEnabled (cx code_Context)"
  "snd (BeginClientAssertionAuthentication (start_World code_store 0)) = code_World"
  "'''' \<noteq> AuthorizationRequestProfileHumanConfidentialBFF" "\<not> isHumanAuthorizationCode ''k''"
  by code_simp+

lemma code_store_inv: "mem_inv code_store"
  using mem.save_inv [of "NewManager 5" "\<lambda>_. id" 0 code_grant "fst (SaveGrant id code_grant (NewManager 5))" code_store]
  by (simp add: code_store_def mem_Managers_def)

lemma code_steps:
  "checkAuthCode code_Context code_request code_client code_grant code_World1 = (Inr (), code_World2)"
  "consume code_Context (\<lambda>now g. g\<lparr>g_AuthCodeConsumedAt := now\<rparr>) code_World2 = (Inr (), code_World3)"
  "Issue code_Context code_client (requested_options code_request) code_World3 = (Inr (code_token, ''signed'', code_client), code_World4)"
  using code_run_parts(3-5) unfolding code_World2_def code_World3_def code_World4_def by (auto simp: prod_eq_iff)

lemma code_redeem_run:
  "redeemAuthCode code_Context code_request code_client code_grant code_World1
    = (Inr ((token_response code_token ''signed'')\<lparr>rs_RefreshToken := ''r''\<rparr>), code_World4)"
  by (simp add: redeemAuthCode_def redeem_def issue_response_def code_steps tryM_simple with_id_token_def code_flags code_final)
    (simp add: code_grant_def)

lemma code_run:
  "generateAuthCodeToken code_Context code_request (start_World code_store 0)
    = (Inr ((token_response code_token ''signed'')\<lparr>rs_RefreshToken := ''r''\<rparr>), code_World4)"
proof -
  have "legacyAuthCodeToken code_Context code_request code_client code_World
    = (Inr ((token_response code_token ''signed'')\<lparr>rs_RefreshToken := ''r''\<rparr>), code_World4)"
    unfolding legacyAuthCodeToken_def
    by (simp add: guardM_run code_run_parts code_redeem_run or_revoke_def) (simp add: code_flags)
  moreover have "BeginClientAssertionAuthentication (start_World code_store 0) = (Inr (), code_World)"
    using code_flags(8) by (simp add: BeginClientAssertionAuthentication_def)
  ultimately show ?thesis
    unfolding generateAuthCodeToken_def
    by (simp add: code_run_parts guardM_run) (simp add: code_flags)
qed


text \<open>The same code presented with another redirect URI.\<close>

definition stray_request :: request where
  "stray_request = code_request\<lparr>rt_redirectURI := ''https://elsewhere''\<rparr>"

lemma stray_check:
  "checkAuthCode code_Context stray_request code_client code_grant code_World1
    = (Inl (invalid_grant ''the redirect_uri does not match the authorization code''), code_World1\<lparr>w_calls := 2\<rparr>)"
  by code_simp

definition stray_World :: "Manager World" where
  "stray_World = snd (assignGrant code_Context (\<lambda>g. g\<lparr>g_RevokedAt := 100\<rparr>) (code_World1\<lparr>w_calls := 3\<rparr>))"

lemma stray_save: "fst (ctx_SaveGrant code_Context stray_World) = Inr ()"
  by code_simp

lemma stray_run:
  "or_revoke code_Context (redeemAuthCode code_Context stray_request code_client code_grant) code_World1
    = (Inl (invalid_grant ''the redirect_uri does not match the authorization code''), snd (ctx_SaveGrant code_Context stray_World))"
proof -
  have "l_Now (cx_Lib code_Context) 2 div second = 100" by code_simp
  moreover have "ctx_SaveGrant code_Context stray_World = (Inr (), snd (ctx_SaveGrant code_Context stray_World))"
    using stray_save by (simp add: prod_eq_iff)
  ultimately show ?thesis
    by (simp add: or_revoke_def redeemAuthCode_def stray_check TimestampNow_def tryM_simple tryM_assign stray_World_def [symmetric])
qed


end
