(* ===== verification/Grants.thy ===== *)
theory Grants
  imports CodeGrants
begin

text \<open>
  The remaining grant types of the token endpoint and the dispatch over all of them: \<^verbatim>\<open>internal/token/refresh_token.go\<close>,
  \<^verbatim>\<open>client_credentials.go\<close>, \<^verbatim>\<open>jwt_bearer.go\<close>, \<^verbatim>\<open>exchange.go\<close> and \<^verbatim>\<open>generateToken\<close> of \<^verbatim>\<open>token.go\<close>.
\<close>

section \<open>Refresh token\<close>

definition grant_confirmation :: "Grant \<Rightarrow> TokenConfirmation" where
  "grant_confirmation grant = \<lparr>cnf_JWKThumbprint = g_JWKThumbprint grant, cnf_CertThumbprint = g_CertThumbprint grant\<rparr>"

definition validateRefreshTokenBinding :: "'st Context \<Rightarrow> Client \<Rightarrow> TokenConfirmation \<Rightarrow> ('st, unit) M" where
  "validateRefreshTokenBinding ctx c cnf =
     (if IsPublic c then okM ()
      else
        tryM (if cnf_JWKThumbprint cnf \<noteq> '''' \<or> UsesAttestationDPoP ctx c
              then validateBindingDPoP ctx c (zero_binding\<lparr>bo_dpopRequired := True\<rparr>) else okM ()) (\<lambda>_.
        if cnf_CertThumbprint cnf \<noteq> ''''
        then validateBindingTLS ctx c (zero_binding\<lparr>bo_tlsRequired := True, bo_tlsCertThumbprint := cnf_CertThumbprint cnf\<rparr>)
        else okM ()))"

definition validateRefreshTokenPoP :: "'st Context \<Rightarrow> Client \<Rightarrow> TokenConfirmation \<Rightarrow> ('st, unit) M" where
  "validateRefreshTokenPoP ctx c cnf =
     (if \<not> IsPublic c then okM () else validatePoP_in ctx '''' cnf DPoPNonceScopeAuthorizationServer)"

text \<open>The checks on the grant of a refresh token.\<close>

definition check_refresh_grant :: "'st Context \<Rightarrow> request \<Rightarrow> Client \<Rightarrow> Grant \<Rightarrow> ('st, unit) M" where
  "check_refresh_grant ctx req c grant =
     guardM (GrantRefreshToken \<notin> set (c_GrantTypes c))
       (unauthorized_client ''the client is not allowed to use the refresh_token grant type'') (
     guardM (c_ID c \<noteq> g_ClientID grant) (invalid_grant ''the refresh token belongs to another client'') (
     guardM (g_RevokedAt grant \<noteq> 0) (invalid_grant ''the grant associated to the refresh token was revoked'') (
     tryM (if g_RefreshTokenExpiresAt grant \<noteq> 0
           then tryM (TimestampNow ctx) (\<lambda>now.
             guardM (now \<ge> g_RefreshTokenExpiresAt grant) (invalid_grant ''the refresh token expired'') (okM ()))
           else okM ()) (\<lambda>_.
     tryM (validateRefreshTokenBinding ctx c (grant_confirmation grant)) (\<lambda>_.
     tryM (validateRefreshTokenPoP ctx c (grant_confirmation grant)) (\<lambda>_.
     tryM (checkM (validateScopes ctx req c (Some (g_Scopes grant)))) (\<lambda>_.
     tryM (checkM (validateResources ctx req (Some (g_Resources grant)))) (\<lambda>_.
     validateAuthDetails ctx req c (Some (g_AuthDetails grant))))))))))"

text \<open>Rotation, when enabled; the result is the refresh token of the response.\<close>

definition rotate :: "'st Context \<Rightarrow> ('st, string) M" where
  "rotate ctx =
     (if \<not> cf_RefreshTokenRotationEnabled (cx ctx) then okM ''''
      else
        tryM (callM (cf_RefreshTokenFunc (cx ctx))) (\<lambda>refreshToken.
        tryM (assignGrant ctx (\<lambda>g. g\<lparr>g_RefreshToken := refreshToken\<rparr>)) (\<lambda>_.
        tryM (if cf_RefreshTokenLifetimeSecs (cx ctx) \<noteq> 0
              then tryM (TimestampNow ctx) (\<lambda>now.
                assignGrant ctx (\<lambda>g. g\<lparr>g_RefreshTokenExpiresAt := now + cf_RefreshTokenLifetimeSecs (cx ctx)\<rparr>))
              else assignGrant ctx (\<lambda>g. g\<lparr>g_RefreshTokenExpiresAt := 0\<rparr>)) (\<lambda>_.
        okM refreshToken))))"

text \<open>The thumbprints of a bound grant are derived again from the request.\<close>

definition rebind :: "'st Context \<Rightarrow> ('st, unit) M" where
  "rebind ctx =
     tryM (getM w_grant) (\<lambda>grant.
     tryM (if g_JWKThumbprint grant \<noteq> ''''
           then assignGrant ctx (\<lambda>g. g\<lparr>g_JWKThumbprint := dpopThumbprint ctx\<rparr>) else okM ()) (\<lambda>_.
     if g_CertThumbprint grant \<noteq> ''''
     then tryM (tlsThumbprint ctx) (\<lambda>x5t. assignGrant ctx (\<lambda>g. g\<lparr>g_CertThumbprint := x5t\<rparr>)) else okM ()))"

definition generateLegacyRefreshToken :: "'st Context \<Rightarrow> request \<Rightarrow> Client \<Rightarrow> ('st, response) M" where
  "generateLegacyRefreshToken ctx req c =
     guardM (cf_HumanConfidentialBFFAuthorizationEnabled (cx ctx) \<and> \<not> cf_LegacyRefreshTokenGrantEnabled (cx ctx))
       humanAuthorizationServerError (
     tryM (mapErrM (\<lambda>err. WrapError ErrorCodeInvalidGrant ''invalid grant'' (ErrWrapf ''could not load the grant by refresh token'' err))
        (loadGrant (\<lambda>n. m_GrantByRefreshToken (cf_Managers (cx ctx)) n (rt_refreshToken req)))) (\<lambda>grant.
     tryM (check_refresh_grant ctx req c grant) (\<lambda>_.
     tryM (rotate ctx) (\<lambda>refreshToken.
     tryM (rebind ctx) (\<lambda>_.
     tryM (mapErrM (ErrWrapf ''could not handle grant'') (HandleGrant ctx GrantRefreshToken)) (\<lambda>_.
     tryM (ctx_SaveGrant ctx) (\<lambda>_.
     tryM (Issue ctx c (requested_options req)) (\<lambda>(tkn, tokenValue, c').
     with_id_token ctx c' tkn ''could not generate id token during refresh token grant''
       ((token_response tkn tokenValue)\<lparr>rs_RefreshToken := refreshToken\<rparr>)))))))))"

definition generateRefreshToken :: "'st Context \<Rightarrow> request \<Rightarrow> ('st, response) M" where
  "generateRefreshToken ctx req =
     guardM (rt_refreshToken req = '''') (invalid_request (ErrNew ''refresh_token is required'')) (
     guardM (cf_HumanConfidentialBFFAuthorizationEnabled (cx ctx) \<and> isHumanRefreshToken (rt_refreshToken req)
         \<and> \<not> validHumanRefreshTokenForm (cx_Request ctx) req (PostFormValue (cx_Request ctx) ''client_id''))
       humanAuthorizationInvalidRequest (
     tryM BeginClientAssertionAuthentication (\<lambda>_.
     tryM (Authenticated ctx AuthnContextToken) (\<lambda>c.
     if c_AuthorizationRequestProfile c = AuthorizationRequestProfileHumanConfidentialBFF then failM humanRefreshInvalidGrant
     else if c_AuthorizationRequestProfile c = AuthorizationRequestProfileDefault then
       guardM (cf_HumanConfidentialBFFAuthorizationEnabled (cx ctx) \<and> isHumanRefreshToken (rt_refreshToken req))
         humanRefreshInvalidGrant (generateLegacyRefreshToken ctx req c)
     else failM humanAuthorizationServerError))))"

section \<open>Client credentials\<close>

text \<open>The requested scopes without \<^verbatim>\<open>openid\<close>.\<close>

definition drop_openid :: "string \<Rightarrow> string" where
  "drop_openid scopes = join '' '' (filter (\<lambda>s. s \<noteq> ScopeOpenID_ID) (split_on CHR '' '' scopes))"

definition generateClientCredentialsToken :: "'st Context \<Rightarrow> request \<Rightarrow> ('st, response) M" where
  "generateClientCredentialsToken ctx req =
     tryM (Authenticated ctx AuthnContextToken) (\<lambda>c.
     guardM (GrantClientCredentials \<notin> set (c_GrantTypes c))
       (unauthorized_client ''the client is not allowed to use the client_credentials grant type'') (
     tryM (ValidateBinding ctx c zero_binding) (\<lambda>_.
     tryM (checkM (validateScopes ctx req c None)) (\<lambda>_.
     guardM (cf_ResourceIndicatorsEnabled (cx ctx) \<and> cf_ResourceIndicatorsRequired (cx ctx) \<and> rt_resources req = None)
       (invalid_target ''the resource parameter is required'') (
     tryM (checkM (validateResources ctx req None)) (\<lambda>_.
     tryM (validateAuthDetails ctx req c None) (\<lambda>_.
     tryM (tlsThumbprint ctx) (\<lambda>x5t.
     let opts = zero_GrantOptions\<lparr>go_Type := GrantClientCredentials, go_Subject := c_ID c, go_ClientID := c_ID c,
           go_Scopes := drop_openid (rt_scopes req), go_AuthDetails := rt_authDetails req, go_Resources := rt_resources req,
           go_JWKThumbprint := dpopThumbprint ctx, go_ClientCertThumbprint := x5t\<rparr> in
     tryM (if UsesAccessTokenClaims ctx then newGrant ctx c opts else NewGrant ctx c opts) (\<lambda>_.
     tryM (Issue ctx c
        (if UsesAccessTokenClaims ctx
         then zero_IssuanceOptions\<lparr>io_grantType := GrantClientCredentials, io_authenticatedClientID := c_ID c,
                io_persistGrantBeforeSigning := True\<rparr>
         else zero_IssuanceOptions)) (\<lambda>(tkn, tokenValue, _).
     okM (token_response tkn tokenValue)))))))))))"

section \<open>JWT bearer\<close>

text \<open>The scopes of the stand-in for an unidentified client: all configured ones.\<close>

definition all_scopes :: "'st Context \<Rightarrow> string list" where
  "all_scopes ctx = map sc_ID (cf_Scopes (cx ctx))"

definition generateJWTBearerToken :: "'st Context \<Rightarrow> request \<Rightarrow> ('st, response) M" where
  "generateJWTBearerToken ctx req =
     tryM (client_or ctx (cf_JWTBearerClientAuthnRequired (cx ctx)) (anonymous_client GrantJWTBearer (all_scopes ctx))) (\<lambda>c.
     guardM (GrantJWTBearer \<notin> set (cf_GrantTypes (cx ctx))) (NewError ErrorCodeUnsupportedGrantType ''unsupported grant type'') (
     guardM (GrantJWTBearer \<notin> set (c_GrantTypes c))
       (unauthorized_client ''the client is not allowed to use the urn:ietf:params:oauth:grant-type:jwt-bearer grant type'') (
     tryM (ValidateBinding ctx c zero_binding) (\<lambda>_.
     guardM (rt_assertion req = '''') (WrapError ErrorCodeInvalidGrant ''invalid assertion'' (ErrNew ''assertion is required'')) (
     tryM (checkM (validateScopes ctx req c None)) (\<lambda>_.
     tryM (checkM (validateResources ctx req None)) (\<lambda>_.
     tryM (validateAuthDetails ctx req c None) (\<lambda>_.
     tryM (mapErrM (WrapError ErrorCodeInvalidGrant ''invalid assertion'')
        (callE (\<lambda>n. cf_JWTBearerHandleAssertionFunc (cx ctx) n (rt_assertion req)))) (\<lambda>result.
     tryM (tlsThumbprint ctx) (\<lambda>x5t.
     tryM (NewGrant ctx c (zero_GrantOptions\<lparr>go_Type := GrantJWTBearer, go_Subject := jbr_Subject result, go_Store := jbr_Store result,
        go_ClientID := c_ID c, go_Scopes := rt_scopes req, go_AuthDetails := rt_authDetails req, go_Resources := rt_resources req,
        go_JWKThumbprint := dpopThumbprint ctx, go_ClientCertThumbprint := x5t\<rparr>)) (\<lambda>_.
     issue_response ctx c zero_IssuanceOptions ''could not generate id token for the jwt bearer grant'')))))))))))"

section \<open>Token exchange\<close>

definition validTokenTypes :: "TokenTypeIdentifier list" where
  "validTokenTypes =
     [TokenTypeIdentifierJWT, TokenTypeIdentifierAccessToken, TokenTypeIdentifierRefreshToken, TokenTypeIdentifierIDToken,
      TokenTypeIdentifierSAML1, TokenTypeIdentifierSAML2]"

definition issuableTokenTypes :: "TokenTypeIdentifier list" where
  "issuableTokenTypes = [TokenTypeIdentifierAccessToken, TokenTypeIdentifierRefreshToken, TokenTypeIdentifierIDToken]"

text \<open>The answer by the requested token type.\<close>

definition exchange_response :: "'st Context \<Rightarrow> request \<Rightarrow> Client \<Rightarrow> ('st, response) M" where
  "exchange_response ctx req c =
     (if rt_requestedTokenType req = TokenTypeIdentifierIDToken then
        tryM (grant_id_token ctx c ''could not generate id token for the token exchange grant'') (\<lambda>idToken.
        okM (zero_response\<lparr>rs_AccessToken := idToken, rs_IssuedTokenType := TokenTypeIdentifierIDToken,
          rs_ExpiresIn := cf_IDTokenLifetimeSecs (cx ctx), rs_TokenType := TokenTypeNotApplicable\<rparr>))
      else if rt_requestedTokenType req = TokenTypeIdentifierRefreshToken then
        tryM (getM w_grant) (\<lambda>grant.
        okM (zero_response\<lparr>rs_AccessToken := g_RefreshToken grant, rs_IssuedTokenType := TokenTypeIdentifierRefreshToken,
          rs_ExpiresIn := cf_RefreshTokenLifetimeSecs (cx ctx), rs_TokenType := TokenTypeNotApplicable,
          rs_Scopes := g_Scopes grant, rs_AuthorizationDetails := g_AuthDetails grant, rs_Resources := g_Resources grant\<rparr>))
      else
        tryM (Issue ctx c zero_IssuanceOptions) (\<lambda>(tkn, tokenValue, _).
        okM ((token_response tkn tokenValue)\<lparr>rs_IssuedTokenType := TokenTypeIdentifierAccessToken\<rparr>)))"

definition generateExchangeToken :: "'st Context \<Rightarrow> request \<Rightarrow> ('st, response) M" where
  "generateExchangeToken ctx req =
     tryM (client_or ctx (cf_TokenExchangeClientAuthnRequired (cx ctx)) (anonymous_client GrantTokenExchange (all_scopes ctx))) (\<lambda>c.
     guardM (GrantTokenExchange \<notin> set (c_GrantTypes c))
       (unauthorized_client ''the client is not allowed to use the urn:ietf:params:oauth:grant-type:token-exchange grant type'') (
     tryM (ValidateBinding ctx c zero_binding) (\<lambda>_.
     tryM (checkM (validateScopes ctx req c None)) (\<lambda>_.
     tryM (checkM (validateResources ctx req None)) (\<lambda>_.
     tryM (validateAuthDetails ctx req c None) (\<lambda>_.
     guardM (rt_subjectToken req = '''') (invalid_request (ErrNew ''subject_token is required'')) (
     guardM (rt_subjectTokenType req \<notin> set validTokenTypes)
       (invalid_request (ErrNew ''subject_token_type is required and must be a valid token type identifier'')) (
     guardM (rt_actorToken req \<noteq> '''' \<and> rt_actorTokenType req \<notin> set validTokenTypes)
       (invalid_request (ErrNew ''actor_token_type is required when actor_token is present and must be a valid token type identifier'')) (
     guardM (rt_requestedTokenType req \<noteq> '''' \<and> rt_requestedTokenType req \<notin> set issuableTokenTypes)
       (invalid_request (ErrNew ''requested_token_type must be a token type that can be issued'')) (
     tryM (mapErrM (ErrWrapf ''could not handle token exchange'')
        (callE (\<lambda>n. cf_TokenExchangeHandleFunc (cx ctx) n
          \<lparr>ter_RequestedTokenType = rt_requestedTokenType req, ter_SubjectToken = rt_subjectToken req,
           ter_SubjectTokenType = rt_subjectTokenType req, ter_ActorToken = rt_actorToken req,
           ter_ActorTokenType = rt_actorTokenType req, ter_Audience = rt_audience req, ter_Resource = rt_resources req\<rparr>))) (\<lambda>result.
     tryM (tlsThumbprint ctx) (\<lambda>x5t.
     tryM (NewGrant ctx c (zero_GrantOptions\<lparr>go_Type := GrantTokenExchange, go_Subject := tex_Subject result,
        go_Actor := tex_Actor result, go_Store := tex_Store result, go_ClientID := c_ID c, go_Scopes := rt_scopes req,
        go_AuthDetails := rt_authDetails req, go_Resources := rt_resources req, go_JWKThumbprint := dpopThumbprint ctx,
        go_ClientCertThumbprint := x5t\<rparr>)) (\<lambda>_.
     exchange_response ctx req c)))))))))))))"

section \<open>Dispatch\<close>

definition generateToken :: "'st Context \<Rightarrow> request \<Rightarrow> ('st, response) M" where
  "generateToken ctx req =
     (let t = rt_grantType req; unsupported = NewError ErrorCodeUnsupportedGrantType ''unsupported grant type'' in
      guardM (t \<notin> set (cf_GrantTypes (cx ctx))) unsupported (
      if t = GrantClientCredentials then generateClientCredentialsToken ctx req
      else if t = GrantAuthorizationCode then generateAuthCodeToken ctx req
      else if t = GrantRefreshToken then generateRefreshToken ctx req
      else if t = GrantJWTBearer then generateJWTBearerToken ctx req
      else if t = GrantCIBA then generateCIBAToken ctx req
      else if t = GrantPreAuthorizedCode then generatePreAuthCodeToken ctx req
      else if t = GrantDeviceCode then generateDeviceCodeToken ctx req
      else if t = GrantTokenExchange then generateExchangeToken ctx req
      else failM unsupported))"

section \<open>Frames\<close>

lemma keeps_refresh_checks [frame_intros]:
  "stable P \<Longrightarrow> keeps P (validateRefreshTokenBinding ctx c cnf)" "stable P \<Longrightarrow> keeps P (validateRefreshTokenPoP ctx c cnf)"
  unfolding validateRefreshTokenBinding_def validateRefreshTokenPoP_def by (intro frame_intros; assumption)+

lemma keeps_check_refresh_grant [frame_intros]: "stable P \<Longrightarrow> keeps P (check_refresh_grant ctx req c grant)"
  unfolding check_refresh_grant_def by (intro frame_intros; assumption)+

context grant_managers
begin

lemma keeps_rotation [frame_intros]:
  assumes "cf_Managers (cx ctx) = M" and "progressive ctx Q"
  shows "keeps (grants_ok inv at Q) (rotate ctx)" "keeps (grants_ok inv at Q) (rebind ctx)"
  unfolding rotate_def rebind_def
  by (intro frame_intros keeps_assign_field assms progressive_field [OF assms(2)]; simp)+

lemma keeps_exchange_response [frame_intros]:
  "cf_Managers (cx ctx) = M \<Longrightarrow> hooks_keep ctx Q \<Longrightarrow> keeps (grants_ok inv at Q) (exchange_response ctx req c)"
  unfolding exchange_response_def by (intro frame_intros)

lemma keeps_other_grants [frame_intros]:
  assumes "cf_Managers (cx ctx) = M" and "progressive ctx Q"
  shows "keeps (grants_ok inv at Q) (generateLegacyRefreshToken ctx req c)"
    "keeps (grants_ok inv at Q) (generateClientCredentialsToken ctx req)"
    "keeps (grants_ok inv at Q) (generateJWTBearerToken ctx req)"
    "keeps (grants_ok inv at Q) (generateExchangeToken ctx req)"
  unfolding generateLegacyRefreshToken_def generateClientCredentialsToken_def generateJWTBearerToken_def
    generateExchangeToken_def assms(1) Let_def
  by (intro frame_intros assms progressive_hooks [OF assms(2)]; simp add: zero_GrantOptions_def)+

text \<open>Every grant type keeps what is progressive.\<close>

lemma keeps_generateToken [frame_intros]:
  assumes "cf_Managers (cx ctx) = M" and "progressive ctx Q"
  shows "keeps (grants_ok inv at Q) (generateToken ctx req)"
  unfolding generateToken_def generateRefreshToken_def Let_def by (intro frame_intros assms)

end

end
