(* ===== verification/Ciba.thy ===== *)
theory Ciba
  imports Grants
begin

text \<open>
  Rendering of token responses as JSON (\<^verbatim>\<open>response\<close>, \<^verbatim>\<open>strictHumanResponse\<close>, \<^verbatim>\<open>cibaResponse\<close> of \<^verbatim>\<open>internal/token/model.go\<close>),
  and the resolution of a CIBA request by the application: \<^verbatim>\<open>GrantCIBARequest\<close>, \<^verbatim>\<open>DenyCIBARequest\<close> and
  \<^verbatim>\<open>sendClientNotification\<close> of \<^verbatim>\<open>internal/token/ciba.go\<close>. The notifications sent are recorded in the world.
\<close>

section \<open>Responses as JSON\<close>

definition omitzero :: "string \<Rightarrow> int \<Rightarrow> (string \<times> json) list" where
  "omitzero name value = (if value = 0 then [] else [(name, JInt value)])"

definition omitnil :: "string \<Rightarrow> ('a list \<Rightarrow> json) \<Rightarrow> 'a slice \<Rightarrow> (string \<times> json) list" where
  "omitnil name render values = (if elems values = [] then [] else [(name, render (elems values))])"

definition response_members :: "response \<Rightarrow> (string \<times> json) list" where
  "response_members r =
     omitempty ''access_token'' (rs_AccessToken r) @ omitempty ''id_token'' (rs_IDToken r) @
     omitempty ''refresh_token'' (rs_RefreshToken r) @ omitzero ''refresh_token_expires_in'' (rs_RefreshTokenExpiresIn r) @
     omitzero ''expires_in'' (rs_ExpiresIn r) @ omitempty ''token_type'' (rs_TokenType r) @ omitempty ''scope'' (rs_Scopes r) @
     omitnil ''authorization_details'' (\<lambda>ds. JArr (map JObj ds)) (rs_AuthorizationDetails r) @
     omitnil ''resources'' audiences_json (rs_Resources r) @ omitempty ''issued_token_type'' (rs_IssuedTokenType r)"

definition newStrictHumanResponse :: "response \<Rightarrow> (string \<times> json) list" where
  "newStrictHumanResponse r =
     omitempty ''access_token'' (rs_AccessToken r) @ omitempty ''id_token'' (rs_IDToken r) @
     omitempty ''refresh_token'' (rs_RefreshToken r) @ omitzero ''refresh_token_expires_in'' (rs_RefreshTokenExpiresIn r) @
     omitzero ''expires_in'' (rs_ExpiresIn r) @ omitempty ''token_type'' (rs_TokenType r) @ omitempty ''scope'' (rs_Scopes r) @
     omitnil ''resources'' (\<lambda>rs. JArr (map JStr rs)) (rs_Resources r)"

definition ciba_json :: "string \<Rightarrow> response \<Rightarrow> json" where
  "ciba_json authReqID r = JObj (omitempty ''auth_req_id'' authReqID @ response_members r)"

section \<open>Notifications\<close>

definition sendClientNotification :: "'st Context \<Rightarrow> Client \<Rightarrow> AuthnSession \<Rightarrow> json \<Rightarrow> ('st, unit) M" where
  "sendClientNotification ctx client session resp =
     (let endpoint = c_CIBANotificationEndpoint client;
          token = ap_ClientNotificationToken (as_AuthorizationParameters session) in
      tryM (mapErrM (ErrWrapf ''could not create request'') (liftE (l_url_Parse (cx_Lib ctx) endpoint))) (\<lambda>_.
      tryM (modM (\<lambda>w. w\<lparr>w_posts := w_posts w @ [(endpoint, ''Bearer '' @ token, resp)]\<rparr>)) (\<lambda>_.
      tryM (callE (\<lambda>n. cf_CIBAHTTPDo (cx ctx) n endpoint (''Bearer '' @ token) resp)) (\<lambda>status.
      guardM (status \<notin> {204, 200}) (ErrNew ''sending notification resulted in an unexpected status'') (okM ())))))"

text \<open>\<^verbatim>\<open>as.Status = ...\<close> and save.\<close>

definition resolve_session :: "'st Context \<Rightarrow> AuthnSession \<Rightarrow> Status \<Rightarrow> ('st, unit) M" where
  "resolve_session ctx as status =
     (let as' = as\<lparr>as_Status := status\<rparr> in
      tryM (touchM (m_TouchSession (cf_Managers (cx ctx)) as')) (\<lambda>_.
      mapErrM (ErrWrapf ''could not save authn session'') (storeM (\<lambda>n. m_CIBA_SaveSession (cf_Managers (cx ctx)) n as'))))"

section \<open>Denial\<close>

definition DenyCIBARequest :: "'st Context \<Rightarrow> string \<Rightarrow> go_error \<Rightarrow> ('st, unit) M" where
  "DenyCIBARequest ctx authReqID goidcErr =
     tryM (storeM (\<lambda>n. m_SessionByAuthReqID (cf_Managers (cx ctx)) n authReqID)) (\<lambda>as.
     tryM (resolve_session ctx as StatusFailure) (\<lambda>_.
     tryM (Client_of ctx (as_ClientID as)) (\<lambda>c.
     if c_CIBATokenDeliveryMode c = CIBADeliveryModePoll then okM ()
     else if c_CIBATokenDeliveryMode c = CIBADeliveryModePing
     then sendClientNotification ctx c as (JObj (omitempty ''auth_req_id'' (as_AuthReqID as)))
     else sendClientNotification ctx c as
       (JObj (omitempty ''auth_req_id'' (as_AuthReqID as) @ omitempty ''error'' (err_Code goidcErr) @
          omitempty ''error_description'' (err_Description goidcErr) @ omitempty ''error_uri'' (err_URI goidcErr))))))"

section \<open>Approval\<close>

text \<open>The grant of an approved request.\<close>

definition ciba_grant_options :: "AuthnSession \<Rightarrow> int \<Rightarrow> GrantOptions" where
  "ciba_grant_options as consumedAt = zero_GrantOptions
    \<lparr>go_Type := GrantCIBA, go_Subject := as_Subject as, go_Username := as_Username as, go_AuthReqID := as_AuthReqID as,
     go_AuthReqIDExpiresAt := as_ExpiresAt as, go_AuthReqIDConsumedAt := consumedAt, go_ClientID := as_ClientID as,
     go_Scopes := as_GrantedScopes as, go_AuthDetails := as_GrantedAuthDetails as, go_Resources := as_GrantedResources as,
     go_JWKThumbprint := as_JWKThumbprint as, go_ClientCertThumbprint := as_ClientCertThumbprint as,
     go_AuthParams := as_AuthorizationParameters as, go_Store := as_Store as\<rparr>"

text \<open>The tokens delivered with the notification.\<close>

definition push_tokens :: "'st Context \<Rightarrow> Client \<Rightarrow> AuthnSession \<Rightarrow> ('st, unit) M" where
  "push_tokens ctx c as =
     tryM (getM w_grant) (\<lambda>grant0.
     tryM (mapErrM (ErrWrapf ''could not generate access token for the ciba grant'') (Issue ctx c zero_IssuanceOptions)) (\<lambda>(tkn, tokenValue, c').
     tryM (getM w_grant) (\<lambda>grant.
     let resp = (token_response tkn tokenValue)\<lparr>rs_RefreshToken := g_RefreshToken grant\<rparr>;
         push = c_CIBATokenDeliveryMode c' = CIBADeliveryModePush in
     tryM (if ContainsOpenID (t_Scopes tkn) then
             tryM (callM (\<lambda>n. cf_IDTokenClaimsFunc (cx ctx) n grant)) (\<lambda>claims.
             tryM (mapErrM (ErrWrapf ''could not generate id token for the ciba grant'')
               (MakeIDToken ctx c' (zero_IDTokenOptions\<lparr>id_Subject := g_Subject grant,
                  id_Nonce := ap_Nonce (g_AuthParams grant), id_Claims := claims,
                  id_AuthReqID := (if push then g_AuthReqID grant else ''''),
                  id_RefreshToken := (if push then g_RefreshToken grant else '''')\<rparr>))) (\<lambda>idToken.
             okM (resp\<lparr>rs_IDToken := idToken\<rparr>)))
           else okM resp) (\<lambda>resp'.
     sendClientNotification ctx c' as (ciba_json (g_AuthReqID grant0) resp')))))"

definition GrantCIBARequest :: "'st Context \<Rightarrow> string \<Rightarrow> ('st, unit) M" where
  "GrantCIBARequest ctx authReqID =
     tryM (attemptM (storeM (\<lambda>n. m_GrantByAuthReqID (cf_Managers (cx ctx)) n authReqID))) (\<lambda>r. case r of
        Inr g \<Rightarrow> failM (ErrNew ''a grant for the auth_req_id already exists'')
      | Inl err \<Rightarrow>
          guardM (\<not> errors_Is err ErrNotFound) (ErrWrapf ''could not fetch grant'' err) (
          tryM (storeM (\<lambda>n. m_SessionByAuthReqID (cf_Managers (cx ctx)) n authReqID)) (\<lambda>as.
          tryM (TimestampNow ctx) (\<lambda>now.
          if now \<ge> as_ExpiresAt as then DenyCIBARequest ctx authReqID (NewError ErrorCodeExpiredToken ''auth_req_id expired'')
          else
            tryM (Client_of ctx (as_ClientID as)) (\<lambda>c.
            guardM (c_CIBATokenDeliveryMode c \<notin> set (cf_CIBATokenDeliveryModes (cx ctx)))
              (ErrNew ''client delivery mode is not supported'') (
            tryM (if c_CIBATokenDeliveryMode c \<noteq> CIBADeliveryModePush then okM 0 else TimestampNow ctx) (\<lambda>consumedAt.
            tryM (NewGrant ctx c (ciba_grant_options as consumedAt)) (\<lambda>_.
            tryM (resolve_session ctx as StatusSuccess) (\<lambda>_.
            if c_CIBATokenDeliveryMode c = CIBADeliveryModePoll then okM ()
            else if c_CIBATokenDeliveryMode c = CIBADeliveryModePing then
              tryM (getM w_grant) (\<lambda>grant. sendClientNotification ctx c as (ciba_json (g_AuthReqID grant) zero_response))
            else push_tokens ctx c as)))))))))"

section \<open>Frames\<close>

lemma keeps_notification [frame_intros]: "stable P \<Longrightarrow> keeps P (sendClientNotification ctx c as resp)"
  unfolding sendClientNotification_def Let_def
  by (intro frame_intros; simp?) (auto simp: outputs_def intro: stable_keeps)

context grant_managers
begin

lemma keeps_other_tables:
  assumes "\<And>n s r s'. inv s \<Longrightarrow> f n s = (r, s') \<Longrightarrow> inv s' \<and> at s' = at s"
  shows "keeps (grants_ok inv at Q) (storeM f)"
proof (rule keepsI)
  fix w r w'
  assume w: "grants_ok inv at Q w" and "storeM f w = (r, w')"
  then obtain s where s: "f (w_calls w) (w_store w) = (r, s)" "w' = w\<lparr>w_calls := Suc (w_calls w), w_store := s\<rparr>"
    by (auto simp: storeM_ok)
  from w assms [OF _ s(1)] have "inv s" "at s = at (w_store w)" by (simp_all add: grants_ok_def)
  with s w show "grants_ok inv at Q w'" by (simp add: grants_ok_def)
qed

lemma keeps_touch_others [frame_intros]:
  "keeps (grants_ok inv at Q) (touchM (m_TouchSession M as))" "keeps (grants_ok inv at Q) (touchM (m_TouchToken M t))"
  unfolding touchM_def by (rule keeps_mod, simp add: grants_ok_def touch_session_keeps touch_token_keeps)+

lemma keeps_session_writes [frame_intros]: "keeps (grants_ok inv at Q) (storeM (\<lambda>n. m_CIBA_SaveSession M n as))"
  by (rule keeps_other_tables) (erule (1) sessions_keep)

lemma keeps_by_auth_req [frame_intros]: "keeps (grants_ok inv at Q) (storeM (\<lambda>n. m_GrantByAuthReqID M n i))"
  using findsD(1) [OF find_auth_req] by (intro keeps_read)

lemma keeps_ciba [frame_intros]:
  assumes "cf_Managers (cx ctx) = M"
  shows "keeps (grants_ok inv at Q) (resolve_session ctx as status)" "keeps (grants_ok inv at Q) (DenyCIBARequest ctx i e)"
  unfolding DenyCIBARequest_def resolve_session_def Let_def assms by (intro frame_intros assms)+

lemma keeps_GrantCIBARequest [frame_intros]:
  assumes "cf_Managers (cx ctx) = M" and "progressive ctx Q"
  shows "keeps (grants_ok inv at Q) (GrantCIBARequest ctx i)"
  unfolding GrantCIBARequest_def push_tokens_def Let_def assms(1)
  by (intro frame_intros assms progressive_hooks [OF assms(2)]) (simp_all add: ciba_grant_options_def zero_GrantOptions_def)
end

end
