(* ===== verification/Introspection.thy ===== *)
theory Introspection
  imports Ciba
begin

text \<open>
  Introspection and revocation of tokens: \<^verbatim>\<open>internal/token/introspection.go\<close> and \<^verbatim>\<open>internal/token/revoke.go\<close>. Both start
  from the value of a token, which is a signed access token, an opaque access token or a refresh token.
\<close>

section \<open>Signed access tokens\<close>

text \<open>The information of a signed access token of this provider; none when the token is not acceptable. The
  check is the same in both files.\<close>

definition verified_info :: "'st Context \<Rightarrow> JSONWebToken \<Rightarrow> JSONWebKey \<Rightarrow> ('st, TokenInfo option) M" where
  "verified_info ctx parsedToken publicKey =
     (case l_Verify (cx_Lib ctx) parsedToken (VKey (jwk_Key publicKey)) of
        Inl err \<Rightarrow> okM None
      | Inr payload \<Rightarrow>
          (case (l_DecodeClaims (cx_Lib ctx) payload, l_DecodeTokenInfo (cx_Lib ctx) payload) of
             (Inr claims, Inr info) \<Rightarrow>
               tryM (callM (\<lambda>n. l_ValidateWithLeeway (cx_Lib ctx) n claims (zero_Expected\<lparr>ex_Issuer := Issuer ctx\<rparr>)
                  (cf_JWTLeewayTimeSecs (cx ctx) * second))) (\<lambda>err.
               okM (if err = None then Some info else None))
           | _ \<Rightarrow> okM None))"

definition signed_token_info :: "'st Context \<Rightarrow> string \<Rightarrow> ('st, TokenInfo option) M" where
  "signed_token_info ctx tkn =
     tryM (mapErrM (ErrWrapf ''could not fetch signature algorithms'') (SigAlgs ctx)) (\<lambda>algs.
     case l_ParseSigned (cx_Lib ctx) tkn algs of
       Inl err \<Rightarrow> okM None
     | Inr parsedToken \<Rightarrow>
         (case jwt_Headers parsedToken of
            [header] \<Rightarrow>
              if jh_KeyID header = '''' then okM None
              else tryM (attemptM (PublicJWK ctx (jh_KeyID header))) (\<lambda>r. case r of
                 Inl err \<Rightarrow> okM None
               | Inr publicKey \<Rightarrow>
                   if jwk_Use publicKey \<noteq> KeyUsageSignature then okM None else verified_info ctx parsedToken publicKey)
          | _ \<Rightarrow> okM None))"

section \<open>Introspection\<close>

definition inactive :: "TokenInfo \<times> Grant option" where
  "inactive = (zero_TokenInfo, None)"

definition subject :: "'st Context \<Rightarrow> Grant \<Rightarrow> Client option \<Rightarrow> ('st, string) M" where
  "subject ctx grant c =
     (let sub = g_Subject grant in
      case (if sub = g_ClientID grant then None else c) of
        None \<Rightarrow> okM sub
      | Some c \<Rightarrow>
          if sub_identifier_type ctx c \<noteq> SubIdentifierPairwise then okM sub
          else callM (\<lambda>n. cf_PairwiseSubjectFunc (cx ctx) n sub c))"

definition confirmation_of :: "string \<Rightarrow> string \<Rightarrow> TokenConfirmation option" where
  "confirmation_of jkt x5t =
     (if jkt \<noteq> '''' \<or> x5t \<noteq> '''' then Some \<lparr>cnf_JWKThumbprint = jkt, cnf_CertThumbprint = x5t\<rparr> else None)"

definition introspect_signed :: "'st Context \<Rightarrow> TokenInfo \<Rightarrow> Client option \<Rightarrow> ('st, TokenInfo \<times> Grant option) M" where
  "introspect_signed ctx info c =
     tryM (attemptM (storeM (\<lambda>n. m_Grant (cf_Managers (cx ctx)) n (ti_GrantID info)))) (\<lambda>r. case r of
        Inl err \<Rightarrow>
          if errors_Is err ErrNotFound then okM inactive
          else failM (ErrWrapf ''could not fetch the grant for token introspection'' err)
      | Inr grant \<Rightarrow>
          if g_RevokedAt grant \<noteq> 0 then okM inactive
          else tryM (subject ctx grant c) (\<lambda>sub.
            okM (info\<lparr>ti_IsActive := True, ti_Subject := sub, ti_Username := g_Username grant,
              ti_Type := (case ti_Confirmation info of
                 Some cnf \<Rightarrow> if cnf_JWKThumbprint cnf \<noteq> '''' then TokenTypeDPoP else TokenTypeBearer
               | None \<Rightarrow> TokenTypeBearer)\<rparr>, Some grant)))"

text \<open>The first inner function of \<^verbatim>\<open>Introspect\<close>.\<close>

definition introspect_opaque :: "'st Context \<Rightarrow> string \<Rightarrow> Client option \<Rightarrow> ('st, TokenInfo \<times> Grant option) M" where
  "introspect_opaque ctx tkn c =
     guardM (\<not> cf_OpaqueTokenEnabled (cx ctx)) ErrNotFound (
     tryM (mapErrM (ErrWrapf ''could not fetch the token for introspection'')
        (storeM (\<lambda>n. m_Token (cf_Managers (cx ctx)) n tkn))) (\<lambda>token.
     tryM (TimestampNow ctx) (\<lambda>now.
     if now \<ge> t_ExpiresAt token then okM inactive
     else if t_RevokedAt token \<noteq> 0 then okM inactive
     else
       tryM (mapErrM (ErrWrapf ''could not fetch the grant for token introspection'')
          (storeM (\<lambda>n. m_Grant (cf_Managers (cx ctx)) n (t_GrantID token)))) (\<lambda>grant.
       if g_RevokedAt grant \<noteq> 0 then okM inactive
       else
         tryM (subject ctx grant c) (\<lambda>sub.
         tryM (callM (\<lambda>n. cf_TokenClaimsFunc (cx ctx) n token grant)) (\<lambda>additional.
         okM (\<lparr>ti_GrantID = t_GrantID token, ti_IsActive = True, ti_Type = t_Type token, ti_Scopes = t_Scopes token,
           ti_AuthDetails = t_AuthDetails token, ti_ResourceAudiences = t_Resources token, ti_ClientID = t_ClientID token,
           ti_Subject = sub, ti_Username = g_Username grant, ti_Issuer = Issuer ctx, ti_IssuedAt = t_CreatedAt token,
           ti_NotBefore = t_CreatedAt token, ti_ExpiresAt = t_ExpiresAt token,
           ti_Confirmation = confirmation_of (t_JWKThumbprint token) (t_CertThumbprint token), ti_Actor = t_Actor token,
           ti_AdditionalClaims = additional\<rparr>, Some grant)))))))"

text \<open>The second inner function of \<^verbatim>\<open>Introspect\<close>.\<close>

definition introspect_refresh :: "'st Context \<Rightarrow> string \<Rightarrow> Client option \<Rightarrow> ('st, TokenInfo \<times> Grant option) M" where
  "introspect_refresh ctx tkn c =
     tryM (mapErrM (ErrWrapf ''could not fetch the refresh token grant for introspection'')
        (storeM (\<lambda>n. m_GrantByRefreshToken (cf_Managers (cx ctx)) n tkn))) (\<lambda>grant.
     if g_RevokedAt grant \<noteq> 0 then okM inactive
     else
       tryM (if g_RefreshTokenExpiresAt grant \<noteq> 0
             then tryM (TimestampNow ctx) (\<lambda>now. okM (now \<ge> g_RefreshTokenExpiresAt grant)) else okM False) (\<lambda>expired.
       if expired then okM inactive
       else
         tryM (subject ctx grant c) (\<lambda>sub.
         okM (\<lparr>ti_GrantID = g_ID grant, ti_IsActive = True, ti_Type = TokenTypeBearer, ti_Scopes = g_Scopes grant,
           ti_AuthDetails = g_AuthDetails grant, ti_ResourceAudiences = g_Resources grant, ti_ClientID = g_ClientID grant,
           ti_Subject = sub, ti_Username = '''', ti_Issuer = Issuer ctx, ti_IssuedAt = g_CreatedAt grant,
           ti_NotBefore = g_CreatedAt grant, ti_ExpiresAt = g_RefreshTokenExpiresAt grant,
           ti_Confirmation = confirmation_of (g_JWKThumbprint grant) (g_CertThumbprint grant), ti_Actor = None,
           ti_AdditionalClaims = []\<rparr>, Some grant))))"

definition Introspect :: "'st Context \<Rightarrow> string \<Rightarrow> Client option \<Rightarrow> ('st, TokenInfo \<times> Grant option) M" where
  "Introspect ctx tkn c =
     (if IsJWS tkn then
        tryM (signed_token_info ctx tkn) (\<lambda>info. case info of
           None \<Rightarrow> okM inactive | Some info \<Rightarrow> introspect_signed ctx info c)
      else
        tryM (attemptM (introspect_opaque ctx tkn c)) (\<lambda>r. case r of
           Inr result \<Rightarrow> okM result
         | Inl err \<Rightarrow>
             if \<not> errors_Is err ErrNotFound then failM err
             else if GrantRefreshToken \<notin> set (cf_GrantTypes (cx ctx)) then okM inactive
             else
               tryM (attemptM (introspect_refresh ctx tkn c)) (\<lambda>r. case r of
                  Inr result \<Rightarrow> okM result
                | Inl err \<Rightarrow> if errors_Is err ErrNotFound then okM inactive else failM err)))"

definition introspect :: "'st Context \<Rightarrow> queryRequest \<Rightarrow> ('st, TokenInfo) M" where
  "introspect ctx req =
     tryM (Authenticated ctx AuthnContextTokenIntrospection) (\<lambda>c.
     guardM (qr_token req = '''') (invalid_request (ErrNew ''token is required'')) (
     tryM (Introspect ctx (qr_token req) (Some c)) (\<lambda>(info, _).
     tryM (if ti_IsActive info then callM (\<lambda>n. cf_TokenIntrospectionIsClientAllowedFunc (cx ctx) n c info) else okM True) (\<lambda>allowed.
     guardM (\<not> allowed) (WrapError ErrorCodeAccessDenied ''access denied'' (ErrNew ''the client is not allowed to introspect this token'')) (
     okM info)))))"

section \<open>Revocation\<close>

definition other_client :: go_error where
  "other_client = WrapError ErrorCodeAccessDenied ''access denied'' (ErrNew ''the token belongs to a different client'')"

definition foreign :: "Client option \<Rightarrow> string \<Rightarrow> bool" where
  "foreign c clientID = (case c of None \<Rightarrow> False | Some c \<Rightarrow> c_ID c \<noteq> clientID)"

text \<open>\<^verbatim>\<open>grant.RevokedAt = timeutil.TimestampNow()\<close> and save.\<close>

definition revoke_grant :: "'st Context \<Rightarrow> ('st, unit) M" where
  "revoke_grant ctx =
     tryM (TimestampNow ctx) (\<lambda>now.
     tryM (assignGrant ctx (\<lambda>g. g\<lparr>g_RevokedAt := now\<rparr>)) (\<lambda>_.
     mapErrM (ErrWrapf ''could not save grant'') (ctx_SaveGrant ctx)))"

definition revoke_signed :: "'st Context \<Rightarrow> TokenInfo \<Rightarrow> Client option \<Rightarrow> ('st, unit) M" where
  "revoke_signed ctx info c =
     guardM (foreign c (ti_ClientID info)) other_client (
     tryM (attemptM (loadGrant (\<lambda>n. m_Grant (cf_Managers (cx ctx)) n (ti_GrantID info)))) (\<lambda>r. case r of
        Inl err \<Rightarrow>
          if errors_Is err ErrNotFound then okM () else failM (ErrWrapf ''could not fetch the grant for token revocation'' err)
      | Inr grant \<Rightarrow> if g_RevokedAt grant \<noteq> 0 then okM () else revoke_grant ctx))"

definition revoke_opaque :: "'st Context \<Rightarrow> string \<Rightarrow> Client option \<Rightarrow> ('st, unit) M" where
  "revoke_opaque ctx tkn c =
     guardM (\<not> cf_OpaqueTokenEnabled (cx ctx)) ErrNotFound (
     tryM (mapErrM (ErrWrapf ''could not fetch token'') (storeM (\<lambda>n. m_Token (cf_Managers (cx ctx)) n tkn))) (\<lambda>token.
     tryM (TimestampNow ctx) (\<lambda>now.
     if now \<ge> t_ExpiresAt token \<or> t_RevokedAt token \<noteq> 0 then okM ()
     else
       guardM (foreign c (t_ClientID token)) other_client (
       if \<not> cf_TokenRevocationRevokeGrantOnAccessTokenEnabled (cx ctx) then
         tryM (TimestampNow ctx) (\<lambda>now.
         let token = token\<lparr>t_RevokedAt := now\<rparr> in
         tryM (touchM (m_TouchToken (cf_Managers (cx ctx)) token)) (\<lambda>_.
         mapErrM (ErrWrapf ''could not revoke token'') (storeM (\<lambda>n. m_SaveToken (cf_Managers (cx ctx)) n token))))
       else
         tryM (mapErrM (ErrWrapf ''could not fetch grant'')
            (loadGrant (\<lambda>n. m_Grant (cf_Managers (cx ctx)) n (t_GrantID token)))) (\<lambda>grant.
         revoke_grant ctx)))))"

definition revoke_refresh :: "'st Context \<Rightarrow> string \<Rightarrow> Client option \<Rightarrow> ('st, unit) M" where
  "revoke_refresh ctx tkn c =
     tryM (mapErrM (ErrWrapf ''could not fetch grant by refresh token'')
        (loadGrant (\<lambda>n. m_GrantByRefreshToken (cf_Managers (cx ctx)) n tkn))) (\<lambda>grant.
     tryM (if g_RefreshTokenExpiresAt grant \<noteq> 0
           then tryM (TimestampNow ctx) (\<lambda>now. okM (now \<ge> g_RefreshTokenExpiresAt grant)) else okM False) (\<lambda>expired.
     if expired then okM ()
     else if g_RevokedAt grant \<noteq> 0 then okM ()
     else guardM (foreign c (g_ClientID grant)) other_client (revoke_grant ctx)))"

definition Revoke :: "'st Context \<Rightarrow> string \<Rightarrow> Client option \<Rightarrow> ('st, unit) M" where
  "Revoke ctx tkn c =
     (if IsJWS tkn then
        if \<not> cf_TokenRevocationRevokeGrantOnAccessTokenEnabled (cx ctx) then okM ()
        else tryM (signed_token_info ctx tkn) (\<lambda>info. case info of
           None \<Rightarrow> okM () | Some info \<Rightarrow> revoke_signed ctx info c)
      else
        tryM (attemptM (revoke_opaque ctx tkn c)) (\<lambda>r. case r of
           Inr u \<Rightarrow> okM ()
         | Inl err \<Rightarrow>
             if \<not> errors_Is err ErrNotFound then failM err
             else if GrantRefreshToken \<notin> set (cf_GrantTypes (cx ctx)) then okM ()
             else
               tryM (attemptM (revoke_refresh ctx tkn c)) (\<lambda>r. case r of
                  Inr u \<Rightarrow> okM ()
                | Inl err \<Rightarrow> if errors_Is err ErrNotFound then okM () else failM err)))"

text \<open>Revocation of a human refresh token, decided by the authority.\<close>

definition revokeHumanRefreshToken :: "'st Context \<Rightarrow> queryRequest \<Rightarrow> Client \<Rightarrow> ('st, unit) M" where
  "revokeHumanRefreshToken ctx req client =
     (let failed = humanAuthorizationServerError in
      guardM (\<not> validHumanRefreshRevocationForm (cx_Request ctx) req (c_ID client)) humanAuthorizationInvalidRequest (
      case NewHumanRefreshToken (qr_token req) of
        None \<Rightarrow> okM ()
      | Some refreshToken \<Rightarrow>
          tryM (mapErrM (\<lambda>_. failed) (ClientAssertionAuthority client)) (\<lambda>authority.
          guardM (\<not> humanTokenAuthorityMatchesClient authority client) failed (
          case NewHumanRefreshRevocationInput
              \<lparr>hrv_refreshToken = Some refreshToken, hrv_clientID = c_ID client, hrv_clientAssertionAuthority = the authority\<rparr> of
            None \<Rightarrow> failM failed
          | Some input \<Rightarrow> mapErrM (\<lambda>_. failed) (HumanRevokeRefreshToken ctx input)))))"

definition revoke :: "'st Context \<Rightarrow> queryRequest \<Rightarrow> ('st, unit) M" where
  "revoke ctx req =
     guardM (qr_token req = '''') (invalid_request (ErrNew ''token is required'')) (
     guardM (cf_HumanConfidentialBFFAuthorizationEnabled (cx ctx) \<and> isHumanRefreshToken (qr_token req)
         \<and> \<not> validHumanRefreshRevocationForm (cx_Request ctx) req (PostFormValue (cx_Request ctx) ''client_id''))
       humanAuthorizationInvalidRequest (
     tryM BeginClientAssertionAuthentication (\<lambda>_.
     tryM (Authenticated ctx AuthnContextTokenRevocation) (\<lambda>c.
     if c_AuthorizationRequestProfile c = AuthorizationRequestProfileHumanConfidentialBFF then
       (case isolateHumanTokenClient (cx_Lib ctx) c of
          None \<Rightarrow> failM humanAuthorizationServerError
        | Some isolatedClient \<Rightarrow> revokeHumanRefreshToken ctx req isolatedClient)
     else if c_AuthorizationRequestProfile c = AuthorizationRequestProfileDefault then
       (if cf_HumanConfidentialBFFAuthorizationEnabled (cx ctx) \<and> isHumanRefreshToken (qr_token req) then okM ()
        else
          tryM (callM (\<lambda>n. cf_TokenRevocationIsClientAllowedFunc (cx ctx) n c)) (\<lambda>allowed.
          guardM (\<not> allowed)
            (WrapError ErrorCodeAccessDenied ''access denied'' (ErrNew ''the client is not allowed to use the revocation endpoint'')) (
          Revoke ctx (qr_token req) (Some c))))
     else failM humanAuthorizationServerError))))"

section \<open>Frames\<close>

lemma keeps_signed_info [frame_intros]:
  "stable P \<Longrightarrow> keeps P (verified_info ctx t k)" "stable P \<Longrightarrow> keeps P (subject ctx g c)"
  unfolding verified_info_def subject_def Let_def by (auto intro!: frame_intros split: sum.splits)

lemma keeps_signed_token_info [frame_intros]: "stable P \<Longrightarrow> keeps P (signed_token_info ctx tkn)"
  unfolding signed_token_info_def by (intro frame_intros; assumption)+

lemma keeps_revokeHuman [frame_intros]: "stable P \<Longrightarrow> keeps P (revokeHumanRefreshToken ctx req c)"
  unfolding revokeHumanRefreshToken_def Let_def by (intro frame_intros; assumption)+

context grant_managers
begin

lemma keeps_grant_reads [frame_intros]:
  "keeps (grants_ok inv at Q) (storeM (\<lambda>n. m_Grant M n i))"
  "keeps (grants_ok inv at Q) (storeM (\<lambda>n. m_GrantByRefreshToken M n i))"
  using findsD(1) [OF find_id] findsD(1) [OF find_refresh] by (intro keeps_read; blast)+

lemma keeps_Introspect [frame_intros]:
  assumes "cf_Managers (cx ctx) = M"
  shows "keeps (grants_ok inv at Q) (Introspect ctx tkn c)" "keeps (grants_ok inv at Q) (introspect ctx req)"
  unfolding introspect_def Introspect_def introspect_signed_def introspect_opaque_def introspect_refresh_def assms
  by (intro frame_intros assms)+

lemma keeps_revoke_grant [frame_intros]:
  assumes "cf_Managers (cx ctx) = M" and "progressive ctx Q"
  shows "keeps (grants_ok inv at Q) (revoke_grant ctx)"
  unfolding revoke_grant_def
  by (intro keeps_TimestampNow keeps_try keeps_assign_field keeps_mapErr keeps_SaveGrant stable_grants_ok assms
      progressive_field [OF assms(2)]) simp_all

lemma keeps_revoke [frame_intros]:
  assumes "cf_Managers (cx ctx) = M" and "progressive ctx Q"
  shows "keeps (grants_ok inv at Q) (Revoke ctx tkn c)" "keeps (grants_ok inv at Q) (revoke ctx req)"
  unfolding revoke_def Revoke_def revoke_signed_def revoke_opaque_def revoke_refresh_def assms(1) Let_def
  by (intro frame_intros assms)+

end

end
