(* ===== verification/TokenEndpoint.thy ===== *)
theory TokenEndpoint
  imports Introspection
begin

text \<open>
  The HTTP handlers of the token package, \<^verbatim>\<open>internal/token/api.go\<close>, and the classification of errors for the evidence of
  a token request, \<^verbatim>\<open>evidence.go\<close>. A handler returns nothing: what it did is in the world it leaves, the
  response written, the evidence reported and the store.

  The limit on the size of the form and the parsing before the middlewares are summarised by the request
  (\<open>rq_FormParseFailed\<close>); the recovery of a panicking callback is modelled where the callback is called.
\<close>

section \<open>Classification of errors\<close>

definition tokenEndpointResultFromError :: "go_error option \<Rightarrow> TokenEndpointResult" where
  "tokenEndpointResultFromError err =
     (case err of
        None \<Rightarrow> TokenEndpointResultIssued
      | Some e \<Rightarrow>
          (case errors_As e of
             None \<Rightarrow> TokenEndpointResultServerError
           | Some oidcErr \<Rightarrow>
               let code = err_Code oidcErr in
               if code = ErrorCodeInvalidRequest then TokenEndpointResultInvalidRequest
               else if code = ErrorCodeInvalidClient then TokenEndpointResultInvalidClient
               else if code = ErrorCodeUnauthorizedClient then TokenEndpointResultUnauthorizedClient
               else if code = ErrorCodeInvalidScope then TokenEndpointResultInvalidScope
               else if code = ErrorCodeInvalidTarget then TokenEndpointResultInvalidTarget
               else if code = ErrorCodeInvalidDPoPProof then TokenEndpointResultInvalidDPoPProof
               else if code = ErrorCodeUseDPoPNonce then TokenEndpointResultUseDPoPNonce
               else if code = ErrorCodeServerError \<or> code = ErrorCodeInternalError then TokenEndpointResultServerError
               else TokenEndpointResultProtocolDenied))"

section \<open>The token endpoint\<close>

definition bad_media_type :: "'st Context \<Rightarrow> bool" where
  "bad_media_type ctx \<longleftrightarrow> MediaType ctx \<noteq> '''' \<and> MediaType ctx \<noteq> ''application/x-www-form-urlencoded''"

definition bad_media_error :: go_error where
  "bad_media_error = invalid_request (ErrNew ''content type must be application/x-www-form-urlencoded'')"

definition writeTokenResponse :: "'st Context \<Rightarrow> response \<Rightarrow> ('st, unit) M" where
  "writeTokenResponse ctx tokenResp =
     (if rs_noStore tokenResp then
        tryM (set_header ''Cache-Control'' ''no-store'') (\<lambda>_.
        tryM (set_header ''Pragma'' ''no-cache'') (\<lambda>_.
        Write ctx (JObj (newStrictHumanResponse tokenResp)) 200))
      else Write ctx (JObj (response_members tokenResp)) 200)"

text \<open>Answer with an error; the result is the one to report.\<close>

definition answer_error :: "'st Context \<Rightarrow> go_error \<Rightarrow> ('st, TokenEndpointResult) M" where
  "answer_error ctx err =
     tryM (ctx_Err ctx) (\<lambda>cancelled.
     if cancelled \<noteq> None then okM TokenEndpointResultServerError
     else tryM (attemptM (writeError ctx err)) (\<lambda>r.
       okM (if isl r then TokenEndpointResultServerError else tokenEndpointResultFromError (Some err))))"

text \<open>An \<^verbatim>\<open>unauthorized_client\<close> error is answered with status 400.\<close>

definition token_error :: "go_error \<Rightarrow> go_error" where
  "token_error err =
     (case errors_As err of
        Some oidcErr \<Rightarrow> if err_Code oidcErr = ErrorCodeUnauthorizedClient then WithStatusCode oidcErr 400 else err
      | None \<Rightarrow> err)"

definition answer_token :: "'st Context \<Rightarrow> response \<Rightarrow> ('st, TokenEndpointResult) M" where
  "answer_token ctx tokenResp =
     tryM (ctx_Err ctx) (\<lambda>cancelled.
     if cancelled \<noteq> None then okM TokenEndpointResultServerError
     else
       tryM (attemptM (writeTokenResponse ctx tokenResp)) (\<lambda>r. case r of
          Inr u \<Rightarrow> okM TokenEndpointResultIssued
        | Inl err \<Rightarrow>
            tryM (ctx_Err ctx) (\<lambda>cancelled.
            tryM (if cancelled = None then tryM (attemptM (writeError ctx err)) (\<lambda>_. okM ()) else okM ()) (\<lambda>_.
            okM TokenEndpointResultServerError))))"

text \<open>The body of \<^verbatim>\<open>handleCreate\<close> with the result its deferred function reports.\<close>

definition create_result :: "'st Context \<Rightarrow> ('st, TokenEndpointResult) M" where
  "create_result ctx =
     (if rq_FormParseFailed (cx_Request ctx) then answer_error ctx (NewError ErrorCodeInvalidRequest ''invalid request'')
      else if bad_media_type ctx then answer_error ctx bad_media_error
      else
        tryM (attemptM (generateToken ctx (newRequest (cx_Lib ctx) (cx_Request ctx)))) (\<lambda>r. case r of
           Inl err \<Rightarrow> answer_error ctx (token_error err)
         | Inr tokenResp \<Rightarrow> answer_token ctx tokenResp))"

definition handleCreate :: "'st Context \<Rightarrow> ('st, unit) M" where
  "handleCreate ctx =
     tryM (BeginTokenEndpointEvidence ctx) (\<lambda>_.
     tryM (create_result ctx) (\<lambda>result.
     EmitTokenEndpointEvidence ctx result))"

section \<open>Introspection and revocation\<close>

text \<open>\<^verbatim>\<open>TokenInfo.MarshalJSON\<close>: an inactive token says nothing else; the grant is not disclosed.\<close>

definition TokenInfo_json :: "TokenInfo \<Rightarrow> json" where
  "TokenInfo_json ti =
     (if \<not> ti_IsActive ti then JObj [(''active'', JBool False)]
      else JObj (maps_Copy
        ((''active'', JBool True) # omitempty ''token_type'' (ti_Type ti) @ omitempty ''scope'' (ti_Scopes ti) @
         omitnil ''authorization_details'' (\<lambda>ds. JArr (map JObj ds)) (ti_AuthDetails ti) @
         omitnil ''aud'' audiences_json (ti_ResourceAudiences ti) @ omitempty ''client_id'' (ti_ClientID ti) @
         omitempty ''sub'' (ti_Subject ti) @ omitempty ''username'' (ti_Username ti) @ omitempty ''iss'' (ti_Issuer ti) @
         omitzero ''iat'' (ti_IssuedAt ti) @ omitzero ''nbf'' (ti_NotBefore ti) @ omitzero ''exp'' (ti_ExpiresAt ti) @
         (case ti_Confirmation ti of None \<Rightarrow> []
          | Some cnf \<Rightarrow> [(''cnf'', JObj (omitempty ''jkt'' (cnf_JWKThumbprint cnf) @ omitempty ''x5t#S256'' (cnf_CertThumbprint cnf)))]) @
         (case ti_Actor ti of None \<Rightarrow> [] | Some a \<Rightarrow> [(''act'', actor_json a)]))
        (ti_AdditionalClaims ti)))"

definition WriteError :: "'st Context \<Rightarrow> go_error \<Rightarrow> ('st, unit) M" where
  "WriteError ctx err = tryM (attemptM (writeError ctx err)) (\<lambda>_. okM ())"

definition WriteStatus :: "'st Context \<Rightarrow> int \<Rightarrow> ('st, unit) M" where
  "WriteStatus ctx status = tryM (ctx_Err ctx) (\<lambda>cancelled. if cancelled \<noteq> None then okM () else WriteHeader status None)"

definition handleIntrospection :: "'st Context \<Rightarrow> ('st, unit) M" where
  "handleIntrospection ctx =
     (if bad_media_type ctx then WriteError ctx bad_media_error
      else
        tryM (attemptM (introspect ctx (newQueryRequest (cx_Request ctx)))) (\<lambda>r. case r of
           Inl err \<Rightarrow> WriteError ctx err
         | Inr tokenInfo \<Rightarrow>
             tryM (attemptM (Write ctx (TokenInfo_json tokenInfo) 200)) (\<lambda>r. case r of
                Inl err \<Rightarrow> WriteError ctx err | Inr u \<Rightarrow> okM ())))"

definition handleRevocation :: "'st Context \<Rightarrow> ('st, unit) M" where
  "handleRevocation ctx =
     tryM (set_header ''Cache-Control'' ''no-store'') (\<lambda>_.
     tryM (set_header ''Pragma'' ''no-cache'') (\<lambda>_.
     if rq_FormParseFailed (cx_Request ctx) then WriteError ctx (NewError ErrorCodeInvalidRequest ''invalid request'')
     else if bad_media_type ctx then WriteError ctx bad_media_error
     else
       tryM (attemptM (revoke ctx (newQueryRequest (cx_Request ctx)))) (\<lambda>r. case r of
          Inl err \<Rightarrow> WriteError ctx err
        | Inr u \<Rightarrow> WriteStatus ctx 200)))"

section \<open>Frames\<close>

lemma keeps_answers [frame_intros]:
  "inner P \<Longrightarrow> keeps P (writeTokenResponse ctx resp)" "inner P \<Longrightarrow> keeps P (answer_error ctx err)"
  "inner P \<Longrightarrow> keeps P (WriteError ctx err)" "inner P \<Longrightarrow> keeps P (WriteStatus ctx s)"
  unfolding writeTokenResponse_def answer_error_def WriteError_def WriteStatus_def
  by (intro frame_intros; (erule inner_stable)?; assumption?)+

lemma keeps_answer_token [frame_intros]: "inner P \<Longrightarrow> keeps P (answer_token ctx resp)"
  unfolding answer_token_def by (intro frame_intros; (erule inner_stable)?; assumption?)+

context grant_managers
begin

lemma keeps_handlers [frame_intros]:
  assumes "cf_Managers (cx ctx) = M" and "progressive ctx Q"
  shows "keeps (grants_ok inv at Q) (handleCreate ctx)" "keeps (grants_ok inv at Q) (handleIntrospection ctx)"
    "keeps (grants_ok inv at Q) (handleRevocation ctx)"
  unfolding handleCreate_def create_result_def handleIntrospection_def handleRevocation_def
  by (intro frame_intros assms)+

end

end
