(* ===== verification/Serving.thy ===== *)
theory Serving
  imports TokenEndpoint
begin

text \<open>
  The token, introspection and revocation endpoints as a running service: which output a token request produces,
  and what holds across any sequence of requests served one after the other, each starting with a fresh request
  state over the store its predecessors left.
\<close>

section \<open>What a request writes out\<close>

text \<open>A predicate on the outputs alone.\<close>

definition mute :: "('st World \<Rightarrow> bool) \<Rightarrow> bool" where
  "mute P \<longleftrightarrow> (\<forall>w w'. P w \<longrightarrow> outputs w' = outputs w \<longrightarrow> P w')"

lemma mute_stable: "mute P \<Longrightarrow> stable P"
  unfolding mute_def stable_def by blast

lemma mute_keeps: "mute P \<Longrightarrow> (\<And>w. outputs (snd (m w)) = outputs w) \<Longrightarrow> keeps P m"
  unfolding mute_def keeps_def by blast

lemma mute_outputs: "mute (\<lambda>w. outputs w = v)"
  by (simp add: mute_def)

text \<open>Up to its answer, the token endpoint writes nothing out.\<close>

named_theorems mute_intros

lemmas mute_frame [mute_intros] = mute_stable frame_intros

lemma mute_store [mute_intros]:
  "mute P \<Longrightarrow> keeps P (storeM f)" "mute P \<Longrightarrow> keeps P (touchM h)" "mute P \<Longrightarrow> keeps P (freshGrant g)"
  "mute P \<Longrightarrow> keeps P (assignGrant ctx k)"
  by (erule mute_keeps, simp add: storeM_def touchM_def freshGrant_def assignGrant_def outputs_def Let_def split: prod.split)+

lemma mute_client_reads [mute_intros]: "mute P \<Longrightarrow> client_reads ctx P"
  unfolding client_reads_def by (intro conjI allI mute_store)

lemma mute_mod: "mute P \<Longrightarrow> (\<And>w. outputs (f w) = outputs w) \<Longrightarrow> keeps P (modM f)"
  by (rule mute_keeps) simp_all

lemma mute_grant_object [mute_intros]:
  "mute P \<Longrightarrow> keeps P (loadGrant f)" "mute P \<Longrightarrow> keeps P (ctx_SaveGrant ctx)" "mute P \<Longrightarrow> keeps P (HandleGrant ctx t)"
  "mute P \<Longrightarrow> keeps P (HandleToken ctx tkn)" "mute P \<Longrightarrow> keeps P (TokenOptions_of ctx c)"
  unfolding loadGrant_def ctx_SaveGrant_def HandleGrant_def HandleToken_def TokenOptions_of_def
  by (intro mute_intros mute_mod; simp add: outputs_def)+

lemma mute_issuance [mute_intros]:
  "mute P \<Longrightarrow> keeps P (newGrant ctx c opts)" "mute P \<Longrightarrow> keeps P (Issue ctx c opts')"
  unfolding newGrant_def Issue_def Let_def by (intro mute_intros; assumption)+

lemma mute_NewGrant [mute_intros]: "mute P \<Longrightarrow> keeps P (NewGrant ctx c opts)"
  unfolding NewGrant_def by (intro mute_intros; assumption)+

lemma mute_redemption [mute_intros]:
  "mute P \<Longrightarrow> keeps P (consume ctx mark)" "mute P \<Longrightarrow> keeps P (issue_response ctx c opts msg)"
  unfolding consume_def issue_response_def by (intro mute_intros; assumption)+

lemma mute_redeem [mute_intros]: "mute P \<Longrightarrow> keeps P (redeem ctx c opts mark msg)"
  unfolding redeem_def by (intro mute_intros; assumption)+

lemma mute_or_revoke [mute_intros]: "mute P \<Longrightarrow> keeps P m \<Longrightarrow> keeps P (or_revoke ctx m)"
  unfolding or_revoke_def by (intro mute_intros; assumption)+

lemma mute_code_grants [mute_intros]:
  "mute P \<Longrightarrow> keeps P (legacyAuthCodeToken ctx req c)" "mute P \<Longrightarrow> keeps P (generateDeviceCodeToken ctx req)"
  "mute P \<Longrightarrow> keeps P (generateCIBAToken ctx req)" "mute P \<Longrightarrow> keeps P (generatePreAuthCodeToken ctx req)"
  unfolding legacyAuthCodeToken_def generateDeviceCodeToken_def generateCIBAToken_def generatePreAuthCodeToken_def
    redeemAuthCode_def redeemDeviceCode_def redeemAuthReqID_def device_pending_def ciba_pending_def redeemPreAuthCode_def
    externalPreAuthCode_def client_or_def Let_def
  by (intro mute_intros; assumption)+

lemma mute_grants [mute_intros]:
  "mute P \<Longrightarrow> keeps P (generateAuthCodeToken ctx req)" "mute P \<Longrightarrow> keeps P (generateRefreshToken ctx req)"
  "mute P \<Longrightarrow> keeps P (generateClientCredentialsToken ctx req)" "mute P \<Longrightarrow> keeps P (generateJWTBearerToken ctx req)"
  "mute P \<Longrightarrow> keeps P (generateExchangeToken ctx req)"
  unfolding generateAuthCodeToken_def generateRefreshToken_def generateLegacyRefreshToken_def rotate_def rebind_def
    generateClientCredentialsToken_def generateJWTBearerToken_def generateExchangeToken_def exchange_response_def
    client_or_def Let_def
  by (intro mute_intros; assumption)+

lemma mute_generateToken [mute_intros]: "mute P \<Longrightarrow> keeps P (generateToken ctx req)"
  unfolding generateToken_def Let_def by (intro mute_intros; assumption)+

section \<open>The answer and the evidence of a token request\<close>

text \<open>Nothing has been written out yet, and the evidence of the request has not been reported.\<close>

definition unanswered :: "'st World \<Rightarrow> bool" where
  "unanswered w \<longleftrightarrow> w_written w = [] \<and> w_evidence w = [] \<and> map_option evs_emitted (w_tokenEndpointEvidence w) = Some False"

lemma mute_unanswered: "mute unanswered"
  by (simp add: mute_def unanswered_def outputs_def)

definition token_body :: "response \<Rightarrow> json" where
  "token_body resp = JObj (if rs_noStore resp then newStrictHumanResponse resp else response_members resp)"

text \<open>The response written out and the result to be reported for it: tokens and their issuance; one error and its
  class; or nothing but errors and fragments, reported as a server error.\<close>

definition accounted :: "'st Context \<Rightarrow> (response \<Rightarrow> bool) \<Rightarrow> TokenEndpointResult \<Rightarrow> (int \<times> json option) list \<Rightarrow> bool" where
  "accounted ctx tokens result written \<longleftrightarrow>
     (\<exists>resp. tokens resp \<and> result = TokenEndpointResultIssued \<and> written = [(200, Some (token_body resp))])
     \<or> (\<exists>err. result = tokenEndpointResultFromError (Some err)
          \<and> written = [(Error_StatusCode (public_error ctx err), Some (error_json (public_error ctx err)))])
     \<or> (result = TokenEndpointResultServerError \<and> (\<forall>(st, body) \<in> set written. body = None \<or> (\<exists>e. body = Some (error_json e))))"

lemmas output_defs = Write_def writeError_def HandleError_def WriteHeader_def unless_cancelled_def ctx_Err_def set_header_def
  tryM_def runM_def guardM_def

lemma Write_outcome:
  assumes "Write ctx obj st w = (r, w')"
  shows "w_evidence w' = w_evidence w" "w_tokenEndpointEvidence w' = w_tokenEndpointEvidence w"
    "r = Inr u \<Longrightarrow> w_written w' = w_written w @ [(st, Some obj)]"
    "r = Inl e \<Longrightarrow> w_written w' = w_written w \<or> w_written w' = w_written w @ [(st, None)]"
  using assms unfolding output_defs
  by (cases "l_CtxErr (cx_Lib ctx) (w_calls w)"; cases "l_EncodeErr (cx_Lib ctx) (Suc (w_calls w))"; force)+

lemma writeError_outcome:
  assumes "writeError ctx err w = (r, w')"
  shows "w_evidence w' = w_evidence w" "w_tokenEndpointEvidence w' = w_tokenEndpointEvidence w"
    "r = Inr u \<Longrightarrow> w_written w' = w_written w @ [(Error_StatusCode (public_error ctx err), Some (error_json (public_error ctx err)))]"
    "r = Inl e \<Longrightarrow> \<exists>xs. w_written w' = w_written w @ xs \<and> (\<forall>x \<in> set xs. snd x = None)"
proof -
  let ?pe = "public_error ctx err"
  let ?v = "w\<lparr>w_handled := w_handled w @ [err]\<rparr>"
  obtain r1 w1 where wr: "Write ctx (error_json ?pe) (Error_StatusCode ?pe) ?v = (r1, w1)"
    by fastforce
  have r: "case r1 of Inr u \<Rightarrow> r = Inr () \<and> w' = w1 | Inl e \<Rightarrow> r = Inl e \<and> w' = w1\<lparr>w_written := w_written w1 @ [(500, None)]\<rparr>"
    using assms wr unfolding writeError_def
    by (cases r1) (auto simp: HandleError_def WriteHeader_def tryM_def runM_def)
  note o = Write_outcome [OF wr, simplified]
  from r o(1,2) show "w_evidence w' = w_evidence w" "w_tokenEndpointEvidence w' = w_tokenEndpointEvidence w"
    by (auto split: sum.splits)
  from r o(3) show "w_written w' = w_written w @ [(Error_StatusCode ?pe, Some (error_json ?pe))]" if "r = Inr u"
    using that by (auto split: sum.splits)
  from r o(4) show "\<exists>xs. w_written w' = w_written w @ xs \<and> (\<forall>x \<in> set xs. snd x = None)" if "r = Inl e"
    using that by (cases r1) auto
qed

text \<open>An answer with an error, and an answer with tokens.\<close>

lemma answer_error_accounted:
  assumes "answer_error ctx err w = (r, w')" and "unanswered w"
  obtains result where "r = Inr result" "accounted ctx T result (w_written w')"
    "w_evidence w' = []" "map_option evs_emitted (w_tokenEndpointEvidence w') = Some False"
proof -
  let ?v = "w\<lparr>w_calls := Suc (w_calls w)\<rparr>"
  obtain r1 w1 where e: "writeError ctx err ?v = (r1, w1)" by fastforce
  have w: "w_written ?v = []" "w_evidence ?v = []" "map_option evs_emitted (w_tokenEndpointEvidence ?v) = Some False"
    using assms(2) by (simp_all add: unanswered_def)
  note o = writeError_outcome [OF e]
  have "(r = Inr TokenEndpointResultServerError \<and> w' = ?v) \<or>
      (r = Inr (if isl r1 then TokenEndpointResultServerError else tokenEndpointResultFromError (Some err)) \<and> w' = w1)"
    using assms(1) e unfolding answer_error_def ctx_Err_def by (auto simp: tryM_simple split: if_splits)
  then show ?thesis
  proof
    assume "r = Inr TokenEndpointResultServerError \<and> w' = ?v"
    with w that show ?thesis by (simp add: accounted_def)
  next
    assume a: "r = Inr (if isl r1 then TokenEndpointResultServerError else tokenEndpointResultFromError (Some err)) \<and> w' = w1"
    have "accounted ctx T (if isl r1 then TokenEndpointResultServerError else tokenEndpointResultFromError (Some err)) (w_written w1)"
    proof (cases r1)
      case (Inl x)
      with o(4) w show ?thesis by (fastforce simp: accounted_def)
    next
      case (Inr x)
      with o(3) w show ?thesis by (auto simp: accounted_def)
    qed
    with a that o(1,2) w show ?thesis by simp
  qed
qed

lemma writeTokenResponse_outcome:
  assumes "writeTokenResponse ctx resp w = (r, w')"
  shows "w_evidence w' = w_evidence w" "w_tokenEndpointEvidence w' = w_tokenEndpointEvidence w"
    "r = Inr u \<Longrightarrow> w_written w' = w_written w @ [(200, Some (token_body resp))]"
    "r = Inl e \<Longrightarrow> \<exists>xs. w_written w' = w_written w @ xs \<and> (\<forall>x \<in> set xs. snd x = None)"
proof -
  obtain v where v: "Write ctx (token_body resp) 200 v = (r, w')" "w_written v = w_written w" "w_evidence v = w_evidence w"
      "w_tokenEndpointEvidence v = w_tokenEndpointEvidence w"
    using assms unfolding writeTokenResponse_def token_body_def
    by (cases "rs_noStore resp") (auto simp: set_header_def tryM_def)
  note o = Write_outcome [OF v(1)]
  show "w_evidence w' = w_evidence w" "w_tokenEndpointEvidence w' = w_tokenEndpointEvidence w" using o v by simp_all
  show "w_written w' = w_written w @ [(200, Some (token_body resp))]" if "r = Inr u" using o(3) v that by simp
  show "\<exists>xs. w_written w' = w_written w @ xs \<and> (\<forall>x \<in> set xs. snd x = None)" if "r = Inl e" using o(4) v that by auto
qed

lemma error_tail_accounted:
  assumes "xs = [] @ ys" and "\<forall>y \<in> set ys. snd y = None" and "zs = xs \<or> (\<exists>ws. zs = xs @ ws \<and> (\<forall>x \<in> set ws. snd x = None \<or> (\<exists>e. snd x = Some (error_json e))))"
  shows "accounted ctx T TokenEndpointResultServerError zs"
  using assms by (fastforce simp: accounted_def)

lemma answer_token_accounted:
  assumes "answer_token ctx resp w = (r, w')" and "unanswered w" and "T resp"
  obtains result where "r = Inr result" "accounted ctx T result (w_written w')"
    "w_evidence w' = []" "map_option evs_emitted (w_tokenEndpointEvidence w') = Some False"
proof -
  let ?v = "w\<lparr>w_calls := Suc (w_calls w)\<rparr>"
  obtain r1 w1 where t: "writeTokenResponse ctx resp ?v = (r1, w1)" by fastforce
  have w: "w_written ?v = []" "w_evidence ?v = []" "map_option evs_emitted (w_tokenEndpointEvidence ?v) = Some False"
    using assms(2) by (simp_all add: unanswered_def)
  note o = writeTokenResponse_outcome [OF t]
  let ?v2 = "w1\<lparr>w_calls := Suc (w_calls w1)\<rparr>"
  consider "r = Inr TokenEndpointResultServerError" "w' = ?v" | x where "r1 = Inr x" "r = Inr TokenEndpointResultIssued" "w' = w1"
    | x where "r1 = Inl x" "r = Inr TokenEndpointResultServerError" "w' = ?v2 \<or> w' = snd (writeError ctx x ?v2)"
    using assms(1) t unfolding answer_token_def ctx_Err_def
    by (cases r1) (auto simp: tryM_simple split: if_splits)
  then show ?thesis
  proof cases
    case 1
    with w that show ?thesis by (simp add: accounted_def)
  next
    case 2
    with o w assms(3) that show ?thesis by (auto simp: accounted_def)
  next
    case 3
    obtain r2 w2 where e: "writeError ctx x ?v2 = (r2, w2)" by fastforce
    note p = writeError_outcome [OF e]
    obtain ys where ys: "w_written w1 = [] @ ys" "\<forall>y \<in> set ys. snd y = None" using o(4) 3(1) w by auto
    have "\<exists>ws. w_written w2 = w_written w1 @ ws \<and> (\<forall>x \<in> set ws. snd x = None \<or> (\<exists>e. snd x = Some (error_json e)))"
    proof (cases r2)
      case (Inl y)
      with p(4) show ?thesis by fastforce
    next
      case (Inr y)
      with p(3) show ?thesis by auto
    qed
    with 3(3) e have "w_written w' = w_written w1 \<or> (\<exists>ws. w_written w' = w_written w1 @ ws \<and> (\<forall>x \<in> set ws. snd x = None \<or> (\<exists>e. snd x = Some (error_json e))))"
      by auto
    from error_tail_accounted [OF ys this, of ctx T] that 3 e p(1,2) o(1,2) w show ?thesis by auto
  qed
qed

lemma create_result_accounted:
  assumes "create_result ctx w = (r, w')" and "unanswered w"
  obtains result where "r = Inr result" "w_evidence w' = []" "map_option evs_emitted (w_tokenEndpointEvidence w') = Some False"
    "accounted ctx (\<lambda>resp. \<exists>w1. generateToken ctx (newRequest (cx_Lib ctx) (cx_Request ctx)) w = (Inr resp, w1)) result (w_written w')"
proof -
  let ?T = "\<lambda>resp. \<exists>w1. generateToken ctx (newRequest (cx_Lib ctx) (cx_Request ctx)) w = (Inr resp, w1)"
  obtain g w1 where g: "generateToken ctx (newRequest (cx_Lib ctx) (cx_Request ctx)) w = (g, w1)" by fastforce
  have u: "unanswered w1" using keepsD [OF mute_generateToken [OF mute_unanswered] g assms(2)] .
  consider err v where "answer_error ctx err v = (r, w')" "unanswered v"
    | resp where "answer_token ctx resp w1 = (r, w')" "?T resp"
    using assms g u unfolding create_result_def by (cases g) (auto simp: tryM_def split: if_splits)
  then show ?thesis
  proof cases
    case 1
    from answer_error_accounted [OF this, of ?T] that show ?thesis by blast
  next
    case 2
    from answer_token_accounted [OF 2(1) u, of ?T, OF 2(2)] that show ?thesis by blast
  qed
qed

text \<open>C16: every token request is accounted for exactly once and truthfully: whatever happens while it is served, one
  piece of evidence is reported. It says that tokens were issued only when the response is a single success with the
  tokens that the request obtained, and it names the class of an error only when that error is the response; in all
  other cases it reports a server error, and nothing but errors and empty responses have been written out.\<close>

theorem evidence_matches_response:
  assumes "cf_TokenEndpointEvidenceFunc (cx ctx)" and "handleCreate ctx (start_World s n) = (r, w')"
  shows "r = Inr () \<and> (\<exists>ev. w_evidence w' = [ev] \<and>
    accounted ctx (\<lambda>resp. \<exists>w0 w1. w_store w0 = s \<and> generateToken ctx (newRequest (cx_Lib ctx) (cx_Request ctx)) w0 = (Inr resp, w1))
      (tee_Result ev) (w_written w'))"
proof -
  let ?w0 = "snd (BeginTokenEndpointEvidence ctx (start_World s n))"
  have u: "unanswered ?w0" "w_store ?w0 = s"
    using assms(1) by (simp_all add: BeginTokenEndpointEvidence_def start_World_def unanswered_def)
  obtain r1 w1 where c: "create_result ctx ?w0 = (r1, w1)" by fastforce
  from create_result_accounted [OF c u(1)] obtain result where result: "r1 = Inr result" "w_evidence w1 = []"
    "map_option evs_emitted (w_tokenEndpointEvidence w1) = Some False"
    "accounted ctx (\<lambda>resp. \<exists>w1. generateToken ctx (newRequest (cx_Lib ctx) (cx_Request ctx)) ?w0 = (Inr resp, w1)) result (w_written w1)"
    by metis
  have valid: "validTokenEndpointResult result"
    using result(4) by (auto simp: accounted_def tokenEndpointResultFromError_def validTokenEndpointResult_def Let_def split: option.splits)
  have "(r, w') = EmitTokenEndpointEvidence ctx result w1"
    using assms(2) c result(1) unfolding handleCreate_def by (simp add: tryM_def BeginTokenEndpointEvidence_def)
  with assms(1) result(2,3) valid have "r = Inr ()" "\<exists>i. w_evidence w' = [\<lparr>tee_Result = result, tee_AuthenticatedClientID = i\<rparr>]"
    "w_written w' = w_written w1"
    by (auto simp: EmitTokenEndpointEvidence_def)
  with result(4) u(2) show ?thesis unfolding accounted_def by fastforce
qed

definition silent_Context :: "Manager Context" where
  "silent_Context = (base_Context (mem_Managers (\<lambda>_. id)))\<lparr>
     cx := (base_Configuration (mem_Managers (\<lambda>_. id)))\<lparr>cf_TokenEndpointEvidenceFunc := True\<rparr>,
     cx_Request := zero_Request\<lparr>rq_PostForm := [(''grant_type'', [''password''])]\<rparr>\<rparr>"

theorem evidence_matches_response_witness:
  "\<exists>ev. w_evidence (snd (handleCreate silent_Context (start_World (NewManager 5) 0))) = [ev]
    \<and> accounted silent_Context (\<lambda>resp. \<exists>w0 w1. w_store w0 = NewManager 5
        \<and> generateToken silent_Context (newRequest (cx_Lib silent_Context) (cx_Request silent_Context)) w0 = (Inr resp, w1))
      (tee_Result ev) (w_written (snd (handleCreate silent_Context (start_World (NewManager 5) 0))))"
  using evidence_matches_response [of silent_Context "NewManager 5" 0
    "fst (handleCreate silent_Context (start_World (NewManager 5) 0))" "snd (handleCreate silent_Context (start_World (NewManager 5) 0))"]
  by (simp add: silent_Context_def)

section \<open>Requests served one after the other\<close>

text \<open>The operations a running provider serves on its grants: the three endpoints, and the decisions on backchannel
  requests that the deployment reports.\<close>

definition endpoints :: "'st Context \<Rightarrow> ('st, unit) M set" where
  "endpoints ctx = {handleCreate ctx, handleIntrospection ctx, handleRevocation ctx}
     \<union> range (GrantCIBARequest ctx) \<union> {DenyCIBARequest ctx i e | i e. True}"

text \<open>Requests differ in their content and response writer, not in the configuration and the libraries.\<close>

inductive serves :: "'st Context \<Rightarrow> 'st \<times> nat \<Rightarrow> 'st \<times> nat \<Rightarrow> bool" for ctx :: "'st Context" where
  idle: "serves ctx s s"
| step: "serves ctx s (t, n) \<Longrightarrow> h \<in> endpoints (ctx\<lparr>cx_Request := req, cx_Response := resp\<rparr>) \<Longrightarrow>
    h (start_World t n) = (r, w) \<Longrightarrow> serves ctx s (w_store w, w_calls w)"

inductive_cases serves_stepE: "serves ctx s s'"

text \<open>A progressive predicate of all stored grants is kept while requests are served.\<close>

lemma progressive_request [simp]: "progressive (ctx\<lparr>cx_Request := req, cx_Response := resp\<rparr>) Q = progressive ctx Q"
  by (simp add: progressive_def hooks_keep_def grant_of_options_def)

definition stored_all :: "('st \<Rightarrow> bool) \<Rightarrow> ('st \<Rightarrow> string \<Rightarrow> Grant option) \<Rightarrow> (Grant \<Rightarrow> bool) \<Rightarrow> 'st \<Rightarrow> bool" where
  "stored_all I at Q s \<longleftrightarrow> I s \<and> (\<forall>k g. at s k = Some g \<longrightarrow> Q g)"

context grant_managers
begin

lemma keeps_endpoints:
  assumes "cf_Managers (cx ctx) = M" and "progressive ctx Q" and "h \<in> endpoints ctx"
  shows "keeps (grants_ok inv at Q) h"
  using assms(3) keeps_handlers [OF assms(1,2)] keeps_GrantCIBARequest [OF assms(1,2)] keeps_ciba(2) [OF assms(1)]
  unfolding endpoints_def by blast

lemma serves_keeps:
  assumes "serves ctx s s'" and "cf_Managers (cx ctx) = M" and "progressive ctx Q" and "Q zero_Grant"
    and "stored_all inv at Q (fst s)"
  shows "stored_all inv at Q (fst s')"
  using assms(1,5)
proof induction
  case (step s t n h resp req r w)
  then have start: "grants_ok inv at Q (start_World t n)"
    using assms(4) by (simp add: grants_ok_def start_World_def stored_all_def)
  have "cf_Managers (cx (ctx\<lparr>cx_Request := req, cx_Response := resp\<rparr>)) = M" using assms(2) by simp
  from keeps_endpoints [OF this _ step.hyps(2)] have "keeps (grants_ok inv at Q) h" using assms(3) by simp
  from keepsD [OF this step.hyps(3) start] have "grants_ok inv at Q w" .
  then show ?case by (simp add: grants_ok_def stored_all_def)
qed simp

end

subsection \<open>An authorization code is used once\<close>

lemma progressive_spent:
  assumes "hooks_keep ctx (spent code)" and "clock_set ctx" and "code \<noteq> ''''"
  shows "progressive ctx (spent code)"
  using assms unfolding progressive_def
  by (auto simp: spent_def clock_set_def Let_def grant_of_options_def zero_Grant_def)

context grant_managers
begin

text \<open>Before a code is redeemed its grant is not spent, afterwards every grant of the code is.\<close>

lemma code_success:
  assumes "cf_Managers (cx ctx) = M" and "inv (w_store w)" and "\<not> isHumanAuthorizationCode (rt_code req)"
    and "generateAuthCodeToken ctx req w = (Inr resp, w')"
  shows "\<exists>k g. at (w_store w) k = Some g \<and> \<not> spent (rt_code req) g" and "rt_code req \<noteq> ''''"
    and "clock_set ctx \<Longrightarrow> hooks_keep ctx (spent (rt_code req)) \<Longrightarrow> unique_attr at g_AuthCode (rt_code req) (w_store w) \<Longrightarrow>
      stored_all inv at (spent (rt_code req)) (w_store w')"
proof -
  let ?w0 = "snd (BeginClientAssertionAuthentication w)"
  have b: "w_store ?w0 = w_store w" by (simp add: BeginClientAssertionAuthentication_def)
  obtain c w1 where c: "Authenticated ctx AuthnContextToken ?w0 = (Inr c, w1)" "legacyAuthCodeToken ctx req c w1 = (Inr resp, w')"
    using generateAuthCodeToken_ok [OF assms(4,3)] by blast
  have at1: "inv (w_store w1)" "at (w_store w1) = at (w_store w)"
    using Authenticated_at [OF assms(1) c(1)] assms(2) b by simp_all
  obtain g w2 where g: "loadGrant (\<lambda>n. m_GrantByAuthCode M n (rt_code req)) w1 = (Inr g, w2)" "rt_code req \<noteq> ''''"
    "g_RevokedAt g = 0" "redeemAuthCode ctx req c g w2 = (Inr resp, w')"
    using legacyAuthCodeToken_ok [OF c(2)] assms(1) by metis
  then show "rt_code req \<noteq> ''''" by simp
  have "code_checked ctx req c (w_calls w2) g"
    using g(4) checkAuthCode_ok [of ctx req c g w2] unfolding redeemAuthCode_def tryM_ok by blast
  with g(3) loadGrant_found(4,5) [OF find_code at1(1) g(1)] at1(2)
  show "\<exists>k g. at (w_store w) k = Some g \<and> \<not> spent (rt_code req) g"
    by (intro exI [of _ "g_ID g"] exI [of _ g]) (simp add: spent_def code_checked_def)
  assume "clock_set ctx" and "hooks_keep ctx (spent (rt_code req))" and "unique_attr at g_AuthCode (rt_code req) (w_store w)"
  with code_redeemed_spent [OF assms(1) _ _ at1(1) _ c(2)] at1(2) show "stored_all inv at (spent (rt_code req)) (w_store w')"
    by (simp add: unique_attr_def grants_ok_def stored_all_def)
qed

end

text \<open>C1: an authorization code yields tokens at most once: after a success, whatever requests are served in between, every
  further request with the code fails, at whatever time, from whatever client and with whatever parameters. This rests
  on the contract of the grant store, on a clock that is not at the epoch, on the code naming at most one grant when
  it is first redeemed, and on configured functions that do not undo the consumption of the code.\<close>

theorem auth_code_single_use:
  assumes "grant_managers I at M" and "cf_Managers (cx ctx) = M" and "clock_set ctx" and "hooks_keep ctx (spent (rt_code req))"
    and "\<not> isHumanAuthorizationCode (rt_code req)" and "I s" and "unique_attr at g_AuthCode (rt_code req) s"
    and "generateAuthCodeToken ctx req (start_World s n) = (Inr resp, w)"
    and "serves ctx (w_store w, w_calls w) (t, m)" and "rt_code req' = rt_code req"
  shows "\<exists>e w'. generateAuthCodeToken (ctx\<lparr>cx_Request := r, cx_Response := b\<rparr>) req' (start_World t m) = (Inl e, w')"
proof -
  let ?Q = "spent (rt_code req)"
  have s: "w_store (start_World s n) = s" "w_store (start_World t m) = t" by (simp_all add: start_World_def)
  note first = grant_managers.code_success [OF assms(1,2) _ assms(5,8), unfolded s, OF assms(6)]
  have "progressive ctx ?Q" using progressive_spent [OF assms(4,3) first(2)] .
  moreover have "?Q zero_Grant" using first(2) by (simp add: spent_def zero_Grant_def)
  ultimately have t: "stored_all I at ?Q t"
    using grant_managers.serves_keeps [OF assms(1,9,2)] first(3) [OF assms(3,4,7)] by simp
  have "False" if "generateAuthCodeToken (ctx\<lparr>cx_Request := r, cx_Response := b\<rparr>) req' (start_World t m) = (Inr x, w')" for x w'
    using grant_managers.code_success(1) [OF assms(1) _ _ _ that] t assms(2,5,10) s(2)
    unfolding stored_all_def by fastforce
  then show ?thesis by (cases "generateAuthCodeToken (ctx\<lparr>cx_Request := r, cx_Response := b\<rparr>) req' (start_World t m)") (metis sum.exhaust)
qed

text \<open>The redeemed code of the sample run, presented again after an introspection request.\<close>

definition served_World :: "Manager World" where
  "served_World = snd (handleIntrospection code_Context (start_World (w_store code_World4) (w_calls code_World4)))"

lemma code_hooks: "hooks_keep code_Context Q \<longleftrightarrow> (\<forall>g h. Q g \<longrightarrow> h = g \<longrightarrow> Q h)"
  by (auto simp: hooks_keep_def code_Context_def base_Configuration_def)

lemma code_unique: "unique_attr mem_at g_AuthCode ''k'' code_store"
proof -
  have "mg_Grants code_store = [(''g'', code_grant)]"
    by code_simp
  then show ?thesis by (auto simp: unique_attr_def mem_at_def split: if_splits)
qed

theorem auth_code_single_use_witness:
  "\<exists>e w'. generateAuthCodeToken code_Context code_request (start_World (w_store served_World) (w_calls served_World)) = (Inl e, w')"
proof -
  have m: "cf_Managers (cx code_Context) = mem_Managers (\<lambda>_. id)" by (simp add: code_Context_def base_Configuration_def)
  have c: "clock_set code_Context" by (simp add: clock_set_def code_Context_def second_def)
  let ?h = "handleIntrospection code_Context"
  have run: "?h (start_World (w_store code_World4) (w_calls code_World4)) = (fst (?h (start_World (w_store code_World4) (w_calls code_World4))), served_World)"
    by (simp add: served_World_def)
  have "?h \<in> endpoints (code_Context\<lparr>cx_Request := cx_Request code_Context, cx_Response := cx_Response code_Context\<rparr>)"
    by (simp add: endpoints_def)
  from serves.step [OF serves.idle this run]
  have "serves code_Context (w_store code_World4, w_calls code_World4) (w_store served_World, w_calls served_World)" .
  then show ?thesis
    using auth_code_single_use [OF mem.grant_managers_axioms m c _ _ code_store_inv _ code_run,
      of "w_store served_World" "w_calls served_World" code_request "cx_Response code_Context" "cx_Request code_Context"]
    by (simp add: code_hooks code_unique code_flags)
qed

subsection \<open>Introspection and refresh need an unrevoked grant\<close>

lemma storeM_found:
  assumes "finds I at key f attr" and "I (w_store w)" and "storeM (\<lambda>n. f n x) w = (Inr v, w')"
  shows "at (w_store w) (key v) = Some v" and "attr v = x" and "w_store w' = w_store w"
  using assms(3) findsD [OF assms(1,2), of "w_calls w" x "Inr v"] by (auto simp: storeM_ok)

lemma subject_keeps_store: "subject ctx g c w = (r, w') \<Longrightarrow> w_store w' = w_store w"
  using keepsD [OF keeps_signed_info(2) [of "\<lambda>v. w_store v = w_store w" ctx g c]] by (simp add: stable_def)

definition expired_at :: "'st Context \<Rightarrow> int \<Rightarrow> nat \<Rightarrow> bool" where
  "expired_at ctx t n \<longleftrightarrow> l_Now (cx_Lib ctx) n div second \<ge> t"

context grant_managers
begin

lemma introspect_signed_active:
  assumes "cf_Managers (cx ctx) = M" and "inv (w_store w)" and "introspect_signed ctx i c w = (Inr (info, g), w')" and "ti_IsActive info"
  shows "\<exists>g'. g = Some g' \<and> at (w_store w) (ti_GrantID info) = Some g' \<and> g_RevokedAt g' = 0"
proof -
  obtain q w1 where q: "storeM (\<lambda>n. m_Grant M n (ti_GrantID i)) w = (q, w1)" by fastforce
  with assms obtain g' where g': "q = Inr g'" "g_RevokedAt g' = 0" "g = Some g'" "ti_GrantID info = ti_GrantID i"
    unfolding introspect_signed_def
    by (cases q) (auto simp: ok_simps inactive_def zero_TokenInfo_def split: if_splits)
  with storeM_found [OF find_id assms(2) q [unfolded g'(1)]] show ?thesis by simp
qed

lemma introspect_opaque_active:
  assumes "cf_Managers (cx ctx) = M" and "inv (w_store w)" and "introspect_opaque ctx tkn c w = (Inr (info, g), w')" and "ti_IsActive info"
  shows "\<exists>g' token n. g = Some g' \<and> at (w_store w) (ti_GrantID info) = Some g' \<and> g_RevokedAt g' = 0
    \<and> fst (m_Token M n tkn (w_store w)) = Inr token \<and> t_RevokedAt token = 0 \<and> \<not> expired_at ctx (t_ExpiresAt token) (Suc n)"
proof -
  obtain token w1 where token: "storeM (\<lambda>n. m_Token M n tkn) w = (Inr token, w1)"
    and rest: "tryM (TimestampNow ctx) (\<lambda>now. if now \<ge> t_ExpiresAt token then okM inactive
     else if t_RevokedAt token \<noteq> 0 then okM inactive
     else tryM (mapErrM (ErrWrapf ''could not fetch the grant for token introspection'')
          (storeM (\<lambda>n. m_Grant M n (t_GrantID token)))) (\<lambda>grant.
       if g_RevokedAt grant \<noteq> 0 then okM inactive
       else tryM (subject ctx grant c) (\<lambda>sub.
         tryM (callM (\<lambda>n. cf_TokenClaimsFunc (cx ctx) n token grant)) (\<lambda>additional.
         okM (\<lparr>ti_GrantID = t_GrantID token, ti_IsActive = True, ti_Type = t_Type token, ti_Scopes = t_Scopes token,
           ti_AuthDetails = t_AuthDetails token, ti_ResourceAudiences = t_Resources token, ti_ClientID = t_ClientID token,
           ti_Subject = sub, ti_Username = g_Username grant, ti_Issuer = Issuer ctx, ti_IssuedAt = t_CreatedAt token,
           ti_NotBefore = t_CreatedAt token, ti_ExpiresAt = t_ExpiresAt token,
           ti_Confirmation = confirmation_of (t_JWKThumbprint token) (t_CertThumbprint token), ti_Actor = t_Actor token,
           ti_AdditionalClaims = additional\<rparr>, Some grant))))) w1 = (Inr (info, g), w')"
    using assms(1,3) unfolding introspect_opaque_def by (auto simp: guardM_ok tryM_ok mapErrM_ok)
  have w1: "w_store w1 = w_store w" "fst (m_Token M (w_calls w) tkn (w_store w)) = Inr token" "w_calls w1 = Suc (w_calls w)"
    using token token_reads [OF assms(2)] by (auto simp: storeM_ok)
  obtain g' w2 where g': "storeM (\<lambda>n. m_Grant M n (t_GrantID token)) (w1\<lparr>w_calls := Suc (w_calls w1)\<rparr>) = (Inr g', w2)"
    "g_RevokedAt g' = 0" "g = Some g'" "ti_GrantID info = t_GrantID token" "t_RevokedAt token = 0"
    "\<not> l_Now (cx_Lib ctx) (w_calls w1) div second \<ge> t_ExpiresAt token"
    using rest assms(4) unfolding TimestampNow_def
    by (auto simp: tryM_simple ok_simps inactive_def zero_TokenInfo_def simp del: storeM_ok split: if_splits)
  have "inv (w_store (w1\<lparr>w_calls := Suc (w_calls w1)\<rparr>))" using assms(2) w1 by simp
  from storeM_found [OF find_id this g'(1)] w1 g' show ?thesis
    by (intro exI [of _ g'] exI [of _ token] exI [of _ "w_calls w"]) (simp add: expired_at_def)
qed

lemma introspect_refresh_active:
  assumes "cf_Managers (cx ctx) = M" and "inv (w_store w)" and "introspect_refresh ctx tkn c w = (Inr (info, g), w')" and "ti_IsActive info"
  shows "\<exists>g' n. g = Some g' \<and> at (w_store w) (ti_GrantID info) = Some g' \<and> g_RevokedAt g' = 0 \<and> g_RefreshToken g' = tkn
    \<and> (g_RefreshTokenExpiresAt g' \<noteq> 0 \<longrightarrow> \<not> expired_at ctx (g_RefreshTokenExpiresAt g') n)"
proof -
  obtain g' w1 where g': "storeM (\<lambda>n. m_GrantByRefreshToken M n tkn) w = (Inr g', w1)" "g_RevokedAt g' = 0" "g = Some g'"
    "ti_GrantID info = g_ID g'" "g_RefreshTokenExpiresAt g' \<noteq> 0 \<longrightarrow> \<not> l_Now (cx_Lib ctx) (w_calls w1) div second \<ge> g_RefreshTokenExpiresAt g'"
    using assms(1,3,4) unfolding introspect_refresh_def TimestampNow_def
    by (auto simp: tryM_simple tryM_ok mapErrM_ok inactive_def zero_TokenInfo_def split: if_splits)
  with storeM_found [OF find_refresh assms(2) g'(1)] show ?thesis by (auto simp: expired_at_def)
qed

end

text \<open>What an active token rests on: an unrevoked stored grant, and for a token that is not signed an unrevoked, unexpired
  stored token or the current, unexpired refresh token of that grant.\<close>

definition alive :: "'st Context \<Rightarrow> string \<Rightarrow> 'st \<Rightarrow> Grant \<Rightarrow> bool" where
  "alive ctx tkn s g \<longleftrightarrow> g_RevokedAt g = 0 \<and> (IsJWS tkn
     \<or> (\<exists>n token. fst (m_Token (cf_Managers (cx ctx)) n tkn s) = Inr token \<and> t_RevokedAt token = 0 \<and> \<not> expired_at ctx (t_ExpiresAt token) (Suc n))
     \<or> (\<exists>n. g_RefreshToken g = tkn \<and> (g_RefreshTokenExpiresAt g \<noteq> 0 \<longrightarrow> \<not> expired_at ctx (g_RefreshTokenExpiresAt g) n)))"

lemma stable_same_store [frame_intros]: "stable (\<lambda>v. w_store v = s)"
  by (simp add: stable_def)

lemma keeps_same_store: "(\<And>n r s'. f n s = (r, s') \<Longrightarrow> s' = s) \<Longrightarrow> keeps (\<lambda>v. w_store v = s) (storeM f)"
  by (rule keepsI) (auto simp: storeM_ok)

context grant_managers
begin

lemma introspection_reads:
  assumes "inv s" and "cf_Managers (cx ctx) = M"
  shows "keeps (\<lambda>v. w_store v = s) (introspect_opaque ctx tkn c)" "keeps (\<lambda>v. w_store v = s) (signed_token_info ctx tkn)"
proof -
  have "keeps (\<lambda>v. w_store v = s) (storeM (\<lambda>n. m_Token M n tkn))" "keeps (\<lambda>v. w_store v = s) (storeM (\<lambda>n. m_Grant M n i))" for tkn i
    using token_reads [OF assms(1)] findsD(1) [OF find_id assms(1)] by (intro keeps_same_store; blast)+
  then show "keeps (\<lambda>v. w_store v = s) (introspect_opaque ctx tkn c)"
    unfolding introspect_opaque_def assms(2) by (intro frame_intros)
  show "keeps (\<lambda>v. w_store v = s) (signed_token_info ctx tkn)" by (intro frame_intros)
qed

lemma Introspect_active:
  assumes "cf_Managers (cx ctx) = M" and "inv (w_store w)" and "Introspect ctx tkn c w = (Inr (info, g), w')" and "ti_IsActive info"
  shows "\<exists>g'. g = Some g' \<and> at (w_store w) (ti_GrantID info) = Some g' \<and> alive ctx tkn (w_store w) g'"
proof (cases "IsJWS tkn")
  case True
  obtain i w1 where i: "signed_token_info ctx tkn w = (Inr (Some i), w1)" "introspect_signed ctx i c w1 = (Inr (info, g), w')"
    using assms(3,4) True unfolding Introspect_def
    by (auto simp: tryM_ok inactive_def zero_TokenInfo_def split: option.splits)
  have "w_store w1 = w_store w" using keepsD [OF introspection_reads(2) [OF assms(2,1)] i(1)] by simp
  with introspect_signed_active [OF assms(1) _ i(2) assms(4)] assms(2) True show ?thesis by (auto simp: alive_def)
next
  case False
  obtain q w1 where q: "introspect_opaque ctx tkn c w = (q, w1)" by fastforce
  have w1: "w_store w1 = w_store w" using keepsD [OF introspection_reads(1) [OF assms(2,1)] q] by simp
  show ?thesis
  proof (cases q)
    case (Inr x)
    with assms(3) False q have "introspect_opaque ctx tkn c w = (Inr (info, g), w')"
      unfolding Introspect_def by (auto simp: tryM_ok)
    from introspect_opaque_active [OF assms(1,2) this assms(4)] show ?thesis unfolding alive_def assms(1) by blast
  next
    case (Inl e)
    with assms(3,4) False q have "fst (introspect_refresh ctx tkn c w1) = Inr (info, g)"
      unfolding Introspect_def by (auto simp: tryM_ok inactive_def zero_TokenInfo_def split: if_splits sum.splits)
    then have "introspect_refresh ctx tkn c w1 = (Inr (info, g), snd (introspect_refresh ctx tkn c w1))" by (simp add: prod_eq_iff)
    from introspect_refresh_active [OF assms(1) _ this assms(4)] w1 assms(2) show ?thesis unfolding alive_def by auto
  qed
qed

end

text \<open>What has been checked when a refresh token is redeemed.\<close>

definition refresh_checked :: "'st Context \<Rightarrow> request \<Rightarrow> Client \<Rightarrow> Grant \<Rightarrow> bool" where
  "refresh_checked ctx req c g \<longleftrightarrow>
     GrantRefreshToken \<in> set (c_GrantTypes c) \<and> c_ID c = g_ClientID g \<and> g_RevokedAt g = 0
     \<and> (\<exists>n. g_RefreshTokenExpiresAt g \<noteq> 0 \<longrightarrow> \<not> expired_at ctx (g_RefreshTokenExpiresAt g) n)
     \<and> list_all (scope_allowed ctx c (Some (g_Scopes g))) (strings_Fields (rt_scopes req))
     \<and> (cf_ResourceIndicatorsEnabled (cx ctx) \<longrightarrow> set (elems (rt_resources req)) \<subseteq> set (elems (g_Resources g)))
     \<and> (IsPublic c \<longrightarrow> g_JWKThumbprint g \<noteq> '''' \<longrightarrow> cf_DPoPEnabled (cx ctx) \<and> proves_key ctx '''' (g_JWKThumbprint g))"

lemma validateRefreshTokenPoP_ok:
  assumes "validateRefreshTokenPoP ctx c (grant_confirmation g) w = (Inr u, w')" and "IsPublic c" and "g_JWKThumbprint g \<noteq> ''''"
  shows "cf_DPoPEnabled (cx ctx) \<and> proves_key ctx '''' (g_JWKThumbprint g)"
proof -
  obtain w1 where "validateDPoPWithNonceScope ctx '''' (grant_confirmation g) DPoPNonceScopeAuthorizationServer w = (Inr (), w1)"
    using assms(1,2) unfolding validateRefreshTokenPoP_def validatePoP_in_def by (auto simp: tryM_ok)
  from validateDPoP_ok [OF this] assms(3) show ?thesis by (simp add: grant_confirmation_def)
qed

lemma check_refresh_grant_ok:
  assumes "check_refresh_grant ctx req c g w = (Inr u, w')"
  shows "refresh_checked ctx req c g"
proof -
  have r: "validateResources ctx req (Some (g_Resources g)) = None \<Longrightarrow> cf_ResourceIndicatorsEnabled (cx ctx) \<Longrightarrow>
      set (elems (rt_resources req)) \<subseteq> set (elems (g_Resources g))"
    by (auto simp: validateResources_def check_resources_iff list_all_iff)
  with assms show ?thesis
    unfolding check_refresh_grant_def refresh_checked_def
    by (auto simp: ok_simps TimestampNow_def expired_at_def validateScopes_def check_scopes_iff
        dest: validateRefreshTokenPoP_ok split: if_splits)
qed

context grant_managers
begin

lemma refresh_success:
  assumes "cf_Managers (cx ctx) = M" and "inv (w_store w)" and "generateRefreshToken ctx req w = (Inr resp, w')"
  shows "\<exists>c w1 w2 g. Authenticated ctx AuthnContextToken w1 = (Inr c, w2)
    \<and> at (w_store w) (g_ID g) = Some g \<and> g_RefreshToken g = rt_refreshToken req \<and> rt_refreshToken req \<noteq> ''''
    \<and> refresh_checked ctx req c g"
proof -
  let ?w0 = "snd (BeginClientAssertionAuthentication w)"
  have b: "w_store ?w0 = w_store w" by (simp add: BeginClientAssertionAuthentication_def)
  obtain c w1 where c: "Authenticated ctx AuthnContextToken ?w0 = (Inr c, w1)" "rt_refreshToken req \<noteq> ''''"
    "generateLegacyRefreshToken ctx req c w1 = (Inr resp, w')"
    using assms(3) unfolding generateRefreshToken_def BeginClientAssertionAuthentication_def
    by (auto simp: ok_simps split: if_splits)
  have at1: "inv (w_store w1)" "at (w_store w1) = at (w_store w)"
    using Authenticated_at [OF assms(1) c(1)] assms(2) b by simp_all
  obtain g w2 w3 where g: "loadGrant (\<lambda>n. m_GrantByRefreshToken M n (rt_refreshToken req)) w1 = (Inr g, w2)"
    "check_refresh_grant ctx req c g w2 = (Inr (), w3)"
    using c(3) assms(1) unfolding generateLegacyRefreshToken_def guardM_ok tryM_ok mapErrM_ok by auto
  from loadGrant_found(4,5) [OF find_refresh at1(1) g(1)] at1(2) c check_refresh_grant_ok [OF g(2)] show ?thesis by auto
qed

end

text \<open>C19: a refresh token is honoured only for the authenticated client it belongs to, while its grant is stored, unrevoked
  and unexpired, for no more scopes and resources than were granted; a public client whose grant is bound to a
  DPoP key must prove that it holds the key.\<close>

theorem refresh_success_sound:
  assumes "grant_managers I at M" and "cf_Managers (cx ctx) = M" and "I (w_store w)" and "generateRefreshToken ctx req w = (Inr resp, w')"
  shows "\<exists>c w1 w2 g. Authenticated ctx AuthnContextToken w1 = (Inr c, w2)
    \<and> at (w_store w) (g_ID g) = Some g \<and> g_RefreshToken g = rt_refreshToken req \<and> rt_refreshToken req \<noteq> ''''
    \<and> refresh_checked ctx req c g"
  using grant_managers.refresh_success [OF assms] .


subsection \<open>Revocation is final\<close>

definition dead :: "string \<Rightarrow> Grant \<Rightarrow> bool" where
  "dead i g \<longleftrightarrow> (g_ID g = i \<longrightarrow> g_RevokedAt g \<noteq> 0)"

lemma progressive_dead:
  assumes "hooks_keep ctx (dead i)" and "clock_set ctx" and "\<forall>n. cf_GrantIDFunc (cx ctx) n \<noteq> i"
  shows "progressive ctx (dead i)"
  using assms unfolding progressive_def by (auto simp: dead_def clock_set_def Let_def grant_of_options_def zero_Grant_def)

text \<open>C4: once a grant is revoked it stays revoked, whatever requests are served: from then on no token is reported active
  on its account and no refresh token is honoured on its account. This rests on the contract of the grant store, a
  clock that is not at the epoch, identifiers of new grants that are not the revoked one, and configured functions that do
  not undo a revocation.\<close>

theorem revocation_is_final:
  assumes "grant_managers I at M" and "cf_Managers (cx ctx) = M" and "clock_set ctx" and "hooks_keep ctx (dead i)"
    and "\<forall>n. cf_GrantIDFunc (cx ctx) n \<noteq> i" and "i \<noteq> ''''" and "I s" and "at s i = Some g" and "g_RevokedAt g \<noteq> 0"
    and "serves ctx (s, n) (t, m)"
  shows "(\<forall>tkn c info g' w'. Introspect (ctx\<lparr>cx_Request := r, cx_Response := b\<rparr>) tkn c (start_World t m) = (Inr (info, g'), w')
      \<longrightarrow> ti_IsActive info \<longrightarrow> ti_GrantID info \<noteq> i)
    \<and> (\<forall>req resp w'. generateRefreshToken (ctx\<lparr>cx_Request := r, cx_Response := b\<rparr>) req (start_World t m) = (Inr resp, w')
      \<longrightarrow> (\<exists>h. at t (g_ID h) = Some h \<and> g_RefreshToken h = rt_refreshToken req \<and> g_ID h \<noteq> i))"
proof -
  let ?ctx = "ctx\<lparr>cx_Request := r, cx_Response := b\<rparr>"
  note key = keyed_table.at_key [OF grant_managers.axioms(1) [OF assms(1)]]
  have "stored_all I at (dead i) s" using assms(7-9) key by (auto simp: stored_all_def dead_def)
  moreover have "dead i zero_Grant" using assms(6) by (simp add: dead_def zero_Grant_def)
  ultimately have t: "stored_all I at (dead i) t"
    using grant_managers.serves_keeps [OF assms(1,10,2) progressive_dead [OF assms(4,3,5)]] by simp
  then have s: "I (w_store (start_World t m))" "w_store (start_World t m) = t" by (simp_all add: start_World_def stored_all_def)
  have m: "cf_Managers (cx ?ctx) = M" using assms(2) by simp
  have "ti_GrantID info \<noteq> i" if "Introspect ?ctx tkn c (start_World t m) = (Inr (info, g'), w')" "ti_IsActive info" for tkn c info g' w'
    using grant_managers.Introspect_active [OF assms(1) m s(1) that] t s(2) key by (auto simp: stored_all_def dead_def alive_def)
  moreover have "\<exists>h. at t (g_ID h) = Some h \<and> g_RefreshToken h = rt_refreshToken req \<and> g_ID h \<noteq> i"
    if "generateRefreshToken ?ctx req (start_World t m) = (Inr resp, w')" for req resp w'
    using grant_managers.refresh_success [OF assms(1) m s(1) that] t s(2) unfolding stored_all_def dead_def refresh_checked_def by metis
  ultimately show ?thesis by blast
qed

subsection \<open>The sample grant\<close>

text \<open>Its refresh token is active, and can be redeemed.\<close>

definition refresh_request :: request where
  "refresh_request = newRequest base_Lib (zero_Request\<lparr>rq_PostForm := [(''client_id'', [''c1'']), (''grant_type'', [GrantRefreshToken]), (''refresh_token'', [''r''])]\<rparr>)"

lemma sample_active: "map_sum id (\<lambda>(info, g). (ti_IsActive info, ti_GrantID info, g)) (fst (Introspect code_Context ''r'' None (start_World code_store 0)))
   = Inr (True, ''g'', Some code_grant)"
  by code_simp

definition refresh_World :: "Manager World" where
  "refresh_World = snd (check_refresh_grant code_Context refresh_request code_client code_grant code_World1)"

text \<open>Rotation is off, so the grant is saved unchanged.\<close>

definition refresh_writes :: "(Manager, unit) M" where
  "refresh_writes = tryM (rebind code_Context) (\<lambda>_.
     tryM (mapErrM (ErrWrapf ''could not handle grant'') (HandleGrant code_Context GrantRefreshToken)) (\<lambda>_. ctx_SaveGrant code_Context))"

definition refresh_World2 :: "Manager World" where
  "refresh_World2 = snd (refresh_writes refresh_World)"

definition refresh_issued :: "Token \<times> string \<times> Client" where
  "refresh_issued = projr (fst (Issue code_Context code_client (requested_options refresh_request) refresh_World2))"

lemma sample_refresh_parts:
  "fst (check_refresh_grant code_Context refresh_request code_client code_grant code_World1) = Inr ()"
  "loadGrant (\<lambda>n. m_GrantByRefreshToken (cf_Managers (cx code_Context)) n (rt_refreshToken refresh_request)) code_World = (Inr code_grant, code_World1)"
  "fst (refresh_writes refresh_World) = Inr ()"
  "isl (fst (Issue code_Context code_client (requested_options refresh_request) refresh_World2)) = False"
  "ContainsOpenID (t_Scopes (fst refresh_issued)) = False" "cf_RefreshTokenRotationEnabled (cx code_Context) = False"
  "rt_refreshToken refresh_request = ''r''" "isHumanRefreshToken ''r'' = False"
  by code_simp+

lemma sample_refresh: "\<exists>resp w'. generateRefreshToken code_Context refresh_request (start_World code_store 0) = (Inr resp, w')"
proof -
  have c: "check_refresh_grant code_Context refresh_request code_client code_grant code_World1 = (Inr (), refresh_World)"
    and ws: "refresh_writes refresh_World = (Inr (), refresh_World2)"
    using sample_refresh_parts(1,3) by (auto simp: refresh_World_def refresh_World2_def prod_eq_iff)
  obtain w3 where i: "Issue code_Context code_client (requested_options refresh_request) refresh_World2 = (Inr refresh_issued, w3)"
    using sample_refresh_parts(4) unfolding refresh_issued_def
    by (metis prod.collapse sum.collapse(2))
  have "rotate code_Context refresh_World = (Inr '''', refresh_World)" by (simp add: rotate_def sample_refresh_parts(6))
  moreover obtain tkn v c' where q: "refresh_issued = (tkn, v, c')" by (cases refresh_issued)
  ultimately have "\<exists>resp w'. generateLegacyRefreshToken code_Context refresh_request code_client code_World = (Inr resp, w')"
    using ws sample_refresh_parts(5) unfolding generateLegacyRefreshToken_def refresh_writes_def
    by (auto simp: ok_simps sample_refresh_parts(2) c code_flags(6,7) with_id_token_def i [unfolded q] q simp del: storeM_ok)
      (metis (no_types, lifting))
  moreover have "BeginClientAssertionAuthentication (start_World code_store 0) = (Inr (), code_World)"
    using code_flags(8) by (simp add: BeginClientAssertionAuthentication_def)
  ultimately show ?thesis
    unfolding generateRefreshToken_def by (simp add: guardM_run code_run_parts(1) sample_refresh_parts(7,8) code_flags)
qed

lemma code_managers: "cf_Managers (cx code_Context) = mem_Managers (\<lambda>_. id)" "clock_set code_Context"
  by (simp_all add: code_Context_def base_Configuration_def clock_set_def second_def)

theorem refresh_success_sound_witness:
  "\<exists>c g. mem_at code_store (g_ID g) = Some g \<and> g_RefreshToken g = ''r'' \<and> refresh_checked code_Context refresh_request c g"
proof -
  obtain resp w' where "generateRefreshToken code_Context refresh_request (start_World code_store 0) = (Inr resp, w')"
    using sample_refresh by blast
  from refresh_success_sound [OF mem.grant_managers_axioms code_managers(1) _ this] show ?thesis
    by (simp add: start_World_def code_store_inv sample_refresh_parts(7)) blast
qed


text \<open>The sample grant revoked, and a request served afterwards.\<close>

definition revoked_store :: Manager where
  "revoked_store = snd (SaveGrant id (code_grant\<lparr>g_ID := ''old'', g_RevokedAt := 7\<rparr>) (NewManager 5))"

theorem revocation_is_final_witness:
  "\<not> (\<exists>tkn c info g' w'. Introspect code_Context tkn c (start_World revoked_store 3) = (Inr (info, g'), w')
     \<and> ti_IsActive info \<and> ti_GrantID info = ''old'')"
proof -
  have inv: "mem_inv revoked_store"
    using mem.save_inv [of "NewManager 5" "\<lambda>_. id" 0 "code_grant\<lparr>g_ID := ''old'', g_RevokedAt := 7\<rparr>" "fst (SaveGrant id (code_grant\<lparr>g_ID := ''old'', g_RevokedAt := 7\<rparr>) (NewManager 5))" revoked_store]
    by (simp add: revoked_store_def mem_Managers_def)
  have at: "mem_at revoked_store ''old'' = Some (code_grant\<lparr>g_ID := ''old'', g_RevokedAt := 7\<rparr>)" by code_simp
  have fresh: "\<forall>n. cf_GrantIDFunc (cx code_Context) n \<noteq> ''old''" by (simp add: code_Context_def base_Configuration_def)
  show ?thesis
    using revocation_is_final [OF mem.grant_managers_axioms code_managers _ fresh _ inv at _ serves.idle,
        of "cx_Response code_Context" "cx_Request code_Context" 3]
    by (simp add: code_hooks) blast
qed

end
