(* ===== verification/MetadataOperators.thy ===== *)
theory MetadataOperators
  imports Goidc
begin

text \<open>
  The operators of federation metadata policies, \<^verbatim>\<open>internal/federation/operator.go\<close>. The source is generic in the type
  of the metadata parameter and inspects values by reflection; here a parameter value is a JSON value together with its Go
  type, because the zero value, the kind and the hashability depend on the type: a nil slice and a nil pointer
  are \<^const>\<open>JNull\<close>. Go maps with keys of an interface type panic for keys that are slices or maps and compare
  pointers by address; both show in the results below. Error messages are written without the quotes around operator names.
\<close>

section \<open>Values and their types\<close>

text \<open>The types at which the program instantiates the operators: strings (also named ones), booleans, slices of strings,
  pointers, and \<^verbatim>\<open>any\<close>.\<close>

datatype gotype = TString | TBool | TSlice | TPointer | TAny

fun zero_of :: "gotype \<Rightarrow> json" where
  "zero_of TString = JStr ''''"
| "zero_of TBool = JBool False"
| "zero_of TSlice = JNull"
| "zero_of TPointer = JNull"
| "zero_of TAny = JNull"

datatype op_error = OpError string | OpPanic

definition bindE :: "'e + 'a \<Rightarrow> ('a \<Rightarrow> 'e + 'b) \<Rightarrow> 'e + 'b" where
  "bindE r k = (case r of Inl e \<Rightarrow> Inl e | Inr x \<Rightarrow> k x)"

definition guardE :: "bool \<Rightarrow> string \<Rightarrow> op_error + unit" where
  "guardE b msg = (if b then Inl (OpError msg) else Inr ())"

definition isSlice :: "gotype \<Rightarrow> json \<Rightarrow> bool" where
  "isSlice t v \<longleftrightarrow> t = TSlice \<or> t = TAny \<and> (case v of JArr _ \<Rightarrow> True | _ \<Rightarrow> False)"

definition elements :: "json \<Rightarrow> json list" where
  "elements v = (case v of JArr xs \<Rightarrow> xs | _ \<Rightarrow> [])"

text \<open>The static type of the elements of a slice of type \<open>t\<close>.\<close>

definition elem_type :: "gotype \<Rightarrow> gotype" where
  "elem_type t = (if t = TAny then TAny else TString)"

definition hashable :: "gotype \<Rightarrow> json \<Rightarrow> bool" where
  "hashable t v \<longleftrightarrow> t \<noteq> TSlice \<and> (t = TAny \<longrightarrow> (case v of JArr _ \<Rightarrow> False | JObj _ \<Rightarrow> False | _ \<Rightarrow> True))"

text \<open>Whether two values decoded separately are the same key of a map.\<close>

definition same_key :: "gotype \<Rightarrow> json \<Rightarrow> json \<Rightarrow> bool" where
  "same_key t v w \<longleftrightarrow> (if t = TPointer then v = JNull \<and> w = JNull else v = w)"

section \<open>Slices\<close>

text \<open>One loop of \<^verbatim>\<open>mergeSlices\<close>: the result so far holds exactly the keys seen.\<close>

fun add_unique :: "gotype \<Rightarrow> json list \<Rightarrow> json list \<Rightarrow> op_error + json list" where
  "add_unique t res [] = Inr res"
| "add_unique t res (x # xs) =
     (if \<not> hashable t x then Inl OpPanic
      else if list_ex (\<lambda>y. same_key t y x) res then add_unique t res xs
      else add_unique t (res @ [x]) xs)"

definition mergeSlices :: "gotype \<Rightarrow> json \<Rightarrow> json \<Rightarrow> op_error + json" where
  "mergeSlices t slice1 slice2 =
     (if \<not> isSlice t slice1 \<or> \<not> isSlice t slice2 then Inl (OpError ''mergeSlices: both arguments must be slices'')
      else
        bindE (add_unique (elem_type t) [] (elements slice1)) (\<lambda>result.
        bindE (add_unique (elem_type t) result (elements slice2)) (\<lambda>result.
        Inr (JArr result))))"

fun common :: "gotype \<Rightarrow> json list \<Rightarrow> json list \<Rightarrow> op_error + json list" where
  "common t xs [] = Inr []"
| "common t xs (y # ys) =
     (if \<not> hashable t y then Inl OpPanic
      else bindE (common t xs ys) (\<lambda>zs. Inr (if list_ex (\<lambda>x. same_key t x y) xs then y # zs else zs)))"

text \<open>The two loops of \<^verbatim>\<open>intersectSlices\<close> over slices with elements of type \<open>t\<close>.\<close>

definition intersect :: "gotype \<Rightarrow> json list \<Rightarrow> json list \<Rightarrow> op_error + json list" where
  "intersect t xs ys = (if \<not> list_all (hashable t) xs then Inl OpPanic else common t xs ys)"

text \<open>At type \<open>t\<close>; an empty intersection is the zero value.\<close>

definition intersectSlices :: "gotype \<Rightarrow> json \<Rightarrow> json \<Rightarrow> op_error + json" where
  "intersectSlices t slice1 slice2 =
     (if \<not> isSlice t slice1 \<or> \<not> isSlice t slice2 then Inl (OpError ''intersectSlices: both arguments must be slices'')
      else bindE (intersect (elem_type t) (elements slice1) (elements slice2)) (\<lambda>result.
        Inr (if result = [] then zero_of t else JArr result)))"

fun all_in :: "gotype \<Rightarrow> json list \<Rightarrow> json list \<Rightarrow> op_error + bool" where
  "all_in t keys [] = Inr True"
| "all_in t keys (x # xs) =
     (if \<not> hashable t x then Inl OpPanic
      else if list_ex (\<lambda>y. same_key t y x) keys then all_in t keys xs else Inr False)"

definition isSubset :: "gotype \<Rightarrow> json \<Rightarrow> json \<Rightarrow> op_error + bool" where
  "isSubset t small big =
     (if \<not> isSlice t small \<or> \<not> isSlice t big then Inr False
      else if \<not> list_all (hashable (elem_type t)) (elements big) then Inl OpPanic
      else all_in (elem_type t) (elements big) (elements small))"

definition isSuperset :: "gotype \<Rightarrow> json \<Rightarrow> json \<Rightarrow> op_error + bool" where
  "isSuperset t big small = isSubset t small big"

definition deepContains :: "json list \<Rightarrow> json \<Rightarrow> bool" where
  "deepContains s e = list_ex (\<lambda>se. se = e) s"

definition compareSlices :: "gotype \<Rightarrow> json \<Rightarrow> json \<Rightarrow> op_error + bool" where
  "compareSlices t x y =
     (if length (elements x) \<noteq> length (elements y) then Inr False
      else if \<not> list_all (hashable (elem_type t)) (elements x) then Inl OpPanic
      else all_in (elem_type t) (elements x) (elements y))"

definition compare :: "gotype \<Rightarrow> json \<Rightarrow> json \<Rightarrow> op_error + bool" where
  "compare t x y = (if isSlice t x \<and> isSlice t y then compareSlices t x y else Inr (x = y))"

section \<open>Operators\<close>

record metadataOperators =
  mo_Value :: "json option"
  mo_Add :: json
  mo_Default :: json
  mo_OneOf :: "json list option"
  mo_SubsetOf :: json
  mo_SupersetOf :: json
  mo_Essential :: bool

text \<open>The operators of a parameter the policy does not mention.\<close>

definition no_operators :: "gotype \<Rightarrow> metadataOperators" where
  "no_operators t = \<lparr>mo_Value = None, mo_Add = zero_of t, mo_Default = zero_of t, mo_OneOf = None, mo_SubsetOf = zero_of t,
     mo_SupersetOf = zero_of t, mo_Essential = False\<rparr>"

definition isValueSet :: "metadataOperators \<Rightarrow> bool" where
  "isValueSet ops \<longleftrightarrow> mo_Value ops \<noteq> None"

definition isAddSet :: "gotype \<Rightarrow> metadataOperators \<Rightarrow> bool" where
  "isAddSet t ops \<longleftrightarrow> mo_Add ops \<noteq> zero_of t"

definition isDefaultSet :: "gotype \<Rightarrow> metadataOperators \<Rightarrow> bool" where
  "isDefaultSet t ops \<longleftrightarrow> mo_Default ops \<noteq> zero_of t"

definition isOneOfSet :: "metadataOperators \<Rightarrow> bool" where
  "isOneOfSet ops \<longleftrightarrow> mo_OneOf ops \<noteq> None"

definition isSubsetOfSet :: "gotype \<Rightarrow> metadataOperators \<Rightarrow> bool" where
  "isSubsetOfSet t ops \<longleftrightarrow> mo_SubsetOf ops \<noteq> zero_of t"

definition isSupersetOfSet :: "gotype \<Rightarrow> metadataOperators \<Rightarrow> bool" where
  "isSupersetOfSet t ops \<longleftrightarrow> mo_SupersetOf ops \<noteq> zero_of t"

subsection \<open>Validation\<close>

text \<open>\<^verbatim>\<open>if set && !check { return error }\<close>, where the check may panic.\<close>

definition demand :: "bool \<Rightarrow> op_error + bool \<Rightarrow> string \<Rightarrow> op_error + unit" where
  "demand present check msg = (if present then bindE check (\<lambda>b. guardE (\<not> b) msg) else Inr ())"

definition validateEssential :: "metadataOperators \<Rightarrow> op_error + unit" where
  "validateEssential ops = Inr ()"

definition validateSupersetOf :: "gotype \<Rightarrow> metadataOperators \<Rightarrow> op_error + unit" where
  "validateSupersetOf t ops =
     (if \<not> isSupersetOfSet t ops then Inr ()
      else guardE (\<not> isSlice t (mo_SupersetOf ops)) ''operator superset_of must be an array'')"

definition validateSubsetOf :: "gotype \<Rightarrow> metadataOperators \<Rightarrow> op_error + unit" where
  "validateSubsetOf t ops =
     (if \<not> isSubsetOfSet t ops then Inr ()
      else
        bindE (guardE (\<not> isSlice t (mo_SubsetOf ops)) ''operator subset_of must be an array'') (\<lambda>_.
        demand (isSupersetOfSet t ops) (isSuperset t (mo_SubsetOf ops) (mo_SupersetOf ops))
          ''operator subset_of must be a superset of superset_of''))"

definition validateOneOf :: "gotype \<Rightarrow> metadataOperators \<Rightarrow> op_error + unit" where
  "validateOneOf t ops =
     (if \<not> isOneOfSet ops then Inr ()
      else guardE (isSubsetOfSet t ops \<or> isSupersetOfSet t ops)
        ''operator one_of cannot be combined with subset_of or superset_of'')"

definition validateDefault :: "gotype \<Rightarrow> metadataOperators \<Rightarrow> op_error + unit" where
  "validateDefault t ops =
     (if \<not> isDefaultSet t ops then Inr ()
      else
        bindE (guardE (case mo_OneOf ops of None \<Rightarrow> False | Some xs \<Rightarrow> \<not> deepContains xs (mo_Default ops))
          ''operator default must be among the values of one_of'') (\<lambda>_.
        bindE (demand (isSubsetOfSet t ops) (isSubset t (mo_Default ops) (mo_SubsetOf ops))
          ''operator default must be a subset of subset_of'') (\<lambda>_.
        demand (isSupersetOfSet t ops) (isSuperset t (mo_Default ops) (mo_SupersetOf ops))
          ''operator default must be a superset of superset_of'')))"

definition validateAdd :: "gotype \<Rightarrow> metadataOperators \<Rightarrow> op_error + unit" where
  "validateAdd t ops =
     (if \<not> isAddSet t ops then Inr ()
      else
        bindE (guardE (\<not> isSlice t (mo_Add ops)) ''operator add must be an array'') (\<lambda>_.
        bindE (guardE (isOneOfSet ops) ''operator add cannot be combined with one_of'') (\<lambda>_.
        bindE (demand (isSubsetOfSet t ops) (isSubset t (mo_Add ops) (mo_SubsetOf ops))
          ''operator add must be a subset of subset_of'') (\<lambda>_.
        demand (isSupersetOfSet t ops) (isSuperset t (mo_Add ops) (mo_SupersetOf ops))
          ''operator add must be a superset of superset_of''))))"

definition validateValue :: "gotype \<Rightarrow> metadataOperators \<Rightarrow> op_error + unit" where
  "validateValue t ops =
     (if \<not> isValueSet ops then Inr ()
      else guardE (isAddSet t ops \<or> isDefaultSet t ops \<or> isOneOfSet ops \<or> isSubsetOfSet t ops \<or> isSupersetOfSet t ops)
        ''operator value cannot be combined with other operators than essential'')"

definition Validate :: "gotype \<Rightarrow> metadataOperators \<Rightarrow> op_error + unit" where
  "Validate t ops =
     bindE (validateEssential ops) (\<lambda>_.
     bindE (validateSupersetOf t ops) (\<lambda>_.
     bindE (validateSubsetOf t ops) (\<lambda>_.
     bindE (validateOneOf t ops) (\<lambda>_.
     bindE (validateDefault t ops) (\<lambda>_.
     bindE (validateAdd t ops) (\<lambda>_.
     validateValue t ops))))))"

subsection \<open>Application\<close>

definition applyValue :: "metadataOperators \<Rightarrow> json \<Rightarrow> op_error + json" where
  "applyValue ops v = (case mo_Value ops of None \<Rightarrow> Inr v | Some x \<Rightarrow> Inr x)"

definition applyAdd :: "gotype \<Rightarrow> metadataOperators \<Rightarrow> json \<Rightarrow> op_error + json" where
  "applyAdd t ops v =
     (if \<not> isAddSet t ops then Inr v
      else case mergeSlices t v (mo_Add ops) of
        Inl OpPanic \<Rightarrow> Inl OpPanic
      | Inl (OpError _) \<Rightarrow> Inl (OpError ''could not apply operator add'')
      | Inr x \<Rightarrow> Inr x)"

definition applyDefault :: "gotype \<Rightarrow> metadataOperators \<Rightarrow> json \<Rightarrow> op_error + json" where
  "applyDefault t ops v = (if \<not> isDefaultSet t ops then Inr v else if v = zero_of t then Inr (mo_Default ops) else Inr v)"

definition applyOneOf :: "metadataOperators \<Rightarrow> json \<Rightarrow> op_error + json" where
  "applyOneOf ops v =
     (case mo_OneOf ops of
        None \<Rightarrow> Inr v
      | Some xs \<Rightarrow> if \<not> deepContains xs v then Inl (OpError ''value is not one of the values in one_of'') else Inr v)"

definition applySubsetOf :: "gotype \<Rightarrow> metadataOperators \<Rightarrow> json \<Rightarrow> op_error + json" where
  "applySubsetOf t ops v =
     (if \<not> isSubsetOfSet t ops then Inr v
      else bindE (isSubset t v (mo_SubsetOf ops)) (\<lambda>b.
        if \<not> b then Inl (OpError ''value is not a subset of the values in subset_of'') else Inr v))"

definition applySupersetOf :: "gotype \<Rightarrow> metadataOperators \<Rightarrow> json \<Rightarrow> op_error + json" where
  "applySupersetOf t ops v =
     (if \<not> isSupersetOfSet t ops then Inr v
      else bindE (isSuperset t v (mo_SupersetOf ops)) (\<lambda>b.
        if \<not> b then Inl (OpError ''value is not a superset of the values in superset_of'') else Inr v))"

definition applyEssential :: "gotype \<Rightarrow> metadataOperators \<Rightarrow> json \<Rightarrow> op_error + json" where
  "applyEssential t ops v =
     (if \<not> mo_Essential ops then Inr v
      else if v = zero_of t then Inl (OpError ''value is essential but is not present'') else Inr v)"

definition Apply :: "gotype \<Rightarrow> metadataOperators \<Rightarrow> json \<Rightarrow> op_error + json" where
  "Apply t ops v =
     bindE (applyValue ops v) (\<lambda>v.
     bindE (applyAdd t ops v) (\<lambda>v.
     bindE (applyDefault t ops v) (\<lambda>v.
     bindE (applyOneOf ops v) (\<lambda>v.
     bindE (applySubsetOf t ops v) (\<lambda>v.
     bindE (applySupersetOf t ops v) (\<lambda>v.
     applyEssential t ops v))))))"

subsection \<open>Merging\<close>

definition mergeValue :: "gotype \<Rightarrow> metadataOperators \<Rightarrow> metadataOperators \<Rightarrow> op_error + json option" where
  "mergeValue t high low =
     (case mo_Value high of
        None \<Rightarrow> Inr (mo_Value low)
      | Some x \<Rightarrow>
          (case mo_Value low of
             None \<Rightarrow> Inr (mo_Value high)
           | Some y \<Rightarrow> bindE (compare t x y) (\<lambda>b.
               if \<not> b then Inl (OpError ''cannot merge operator value with mismatch'') else Inr (mo_Value high))))"

definition mergeAdd :: "gotype \<Rightarrow> metadataOperators \<Rightarrow> metadataOperators \<Rightarrow> op_error + json" where
  "mergeAdd t high low =
     (if \<not> isAddSet t high then Inr (mo_Add low)
      else if \<not> isAddSet t low then Inr (mo_Add high)
      else case mergeSlices t (mo_Add high) (mo_Add low) of
        Inl OpPanic \<Rightarrow> Inl OpPanic
      | Inl (OpError _) \<Rightarrow> Inl (OpError ''could not merge operator add'')
      | Inr x \<Rightarrow> Inr x)"

definition mergeDefault :: "gotype \<Rightarrow> metadataOperators \<Rightarrow> metadataOperators \<Rightarrow> op_error + json" where
  "mergeDefault t high low =
     (if \<not> isDefaultSet t high then Inr (mo_Default low)
      else if \<not> isDefaultSet t low then Inr (mo_Default high)
      else bindE (compare t (mo_Default high) (mo_Default low)) (\<lambda>b.
        if \<not> b then Inl (OpError ''cannot merge operator default with mismatch'') else Inr (mo_Default high)))"

text \<open>The two slices have elements of the parameter's own type, so for slice parameters the elements are no map keys.\<close>

definition mergeOneOf :: "gotype \<Rightarrow> metadataOperators \<Rightarrow> metadataOperators \<Rightarrow> op_error + json list option" where
  "mergeOneOf t high low =
     (case mo_OneOf high of
        None \<Rightarrow> Inr (mo_OneOf low)
      | Some xs \<Rightarrow>
          (case mo_OneOf low of
             None \<Rightarrow> Inr (mo_OneOf high)
           | Some ys \<Rightarrow> bindE (intersect t xs ys) (\<lambda>oneOf.
               if oneOf = [] then Inl (OpError ''cannot merge operator one_of'') else Inr (Some oneOf))))"

definition mergeSubsetOf :: "gotype \<Rightarrow> metadataOperators \<Rightarrow> metadataOperators \<Rightarrow> op_error + json" where
  "mergeSubsetOf t high low =
     (if \<not> isSubsetOfSet t high then Inr (mo_SubsetOf low)
      else if \<not> isSubsetOfSet t low then Inr (mo_SubsetOf high)
      else case intersectSlices t (mo_SubsetOf high) (mo_SubsetOf low) of
        Inl OpPanic \<Rightarrow> Inl OpPanic
      | Inl (OpError _) \<Rightarrow> Inl (OpError ''cannot merge operator subset_of'')
      | Inr x \<Rightarrow> if x = zero_of t then Inl (OpError ''cannot merge operator subset_of'') else Inr x)"

definition mergeSupersetOf :: "gotype \<Rightarrow> metadataOperators \<Rightarrow> metadataOperators \<Rightarrow> op_error + json" where
  "mergeSupersetOf t high low =
     (if \<not> isSupersetOfSet t high then Inr (mo_SupersetOf low)
      else if \<not> isSupersetOfSet t low then Inr (mo_SupersetOf high)
      else case mergeSlices t (mo_SupersetOf high) (mo_SupersetOf low) of
        Inl OpPanic \<Rightarrow> Inl OpPanic
      | Inl (OpError _) \<Rightarrow> Inl (OpError ''could not merge operator superset_of'')
      | Inr x \<Rightarrow> Inr x)"

definition mergeEssential :: "metadataOperators \<Rightarrow> metadataOperators \<Rightarrow> op_error + bool" where
  "mergeEssential high low = Inr (mo_Essential high \<or> mo_Essential low)"

text \<open>Each field is merged after the previous one was stored in the receiver.\<close>

definition Merge :: "gotype \<Rightarrow> metadataOperators \<Rightarrow> metadataOperators \<Rightarrow> op_error + metadataOperators" where
  "Merge t high low =
     bindE (mergeValue t high low) (\<lambda>x. let high = high\<lparr>mo_Value := x\<rparr> in
     bindE (mergeAdd t high low) (\<lambda>x. let high = high\<lparr>mo_Add := x\<rparr> in
     bindE (mergeDefault t high low) (\<lambda>x. let high = high\<lparr>mo_Default := x\<rparr> in
     bindE (mergeOneOf t high low) (\<lambda>x. let high = high\<lparr>mo_OneOf := x\<rparr> in
     bindE (mergeSubsetOf t high low) (\<lambda>x. let high = high\<lparr>mo_SubsetOf := x\<rparr> in
     bindE (mergeSupersetOf t high low) (\<lambda>x. let high = high\<lparr>mo_SupersetOf := x\<rparr> in
     bindE (mergeEssential high low) (\<lambda>x.
     Inr (high\<lparr>mo_Essential := x\<rparr>))))))))"

section \<open>Lemmas on slices\<close>

lemma bindE_Inr [simp]: "bindE (Inr x) k = k x"
  by (simp add: bindE_def)

lemma bindE_Inl [simp]: "bindE (Inl e) k = Inl e"
  by (simp add: bindE_def)

lemma bindE_ok: "bindE r k = Inr y \<longleftrightarrow> (\<exists>x. r = Inr x \<and> k x = Inr y)"
  by (cases r) simp_all

lemma guardE_ok [simp]: "guardE b msg = Inr u \<longleftrightarrow> \<not> b"
  by (simp add: guardE_def)

lemma demand_ok [simp]: "demand b c msg = Inr u \<longleftrightarrow> (b \<longrightarrow> c = Inr True)"
  by (auto simp: demand_def bindE_ok)

lemma elem_type_not_pointer [simp]: "elem_type t \<noteq> TPointer" "elem_type t \<noteq> TSlice"
  by (simp_all add: elem_type_def)

lemma same_key_eq [simp]: "t \<noteq> TPointer \<Longrightarrow> same_key t = (=)"
  by (simp add: same_key_def fun_eq_iff)

lemma same_keyD: "same_key t v w \<Longrightarrow> v = w"
  by (simp add: same_key_def split: if_splits)

lemma elements_simps [simp]: "elements (JArr xs) = xs" "elements JNull = []"
  by (simp_all add: elements_def)

lemma isSlice_JArr [simp]: "isSlice t (JArr xs) \<longleftrightarrow> t = TSlice \<or> t = TAny"
  by (auto simp: isSlice_def)

lemma zero_not_JArr [simp]: "zero_of t \<noteq> JArr xs" "JArr xs \<noteq> zero_of t"
  by (cases t; simp)+

lemma isSlice_type: "isSlice t v \<Longrightarrow> t = TSlice \<or> t = TAny"
  by (auto simp: isSlice_def)

lemma add_unique_ok:
  assumes "add_unique t res xs = Inr ys" and "t \<noteq> TPointer"
  shows "set ys = set res \<union> set xs" and "distinct res \<Longrightarrow> distinct ys" and "list_all (hashable t) xs"
  using assms by (induction t res xs rule: add_unique.induct) (auto simp: list_ex_iff split: if_splits)

lemma add_unique_fresh:
  "t \<noteq> TPointer \<Longrightarrow> distinct (res @ xs) \<Longrightarrow> list_all (hashable t) xs \<Longrightarrow> add_unique t res xs = Inr (res @ xs)"
  by (induction t res xs rule: add_unique.induct) (auto simp: list_ex_iff)

lemma add_unique_known:
  "t \<noteq> TPointer \<Longrightarrow> set xs \<subseteq> set res \<Longrightarrow> list_all (hashable t) xs \<Longrightarrow> add_unique t res xs = Inr res"
  by (induction t res xs rule: add_unique.induct) (auto simp: list_ex_iff)

lemma common_ok: "common t xs ys = Inr zs \<Longrightarrow> set zs \<subseteq> set xs \<inter> set ys"
  by (induction t xs ys arbitrary: zs rule: common.induct)
    (auto simp: bindE_ok list_ex_iff split: if_splits dest: same_keyD)

lemma all_in_ok: "t \<noteq> TPointer \<Longrightarrow> all_in t ks xs = Inr b \<Longrightarrow> b \<longleftrightarrow> set xs \<subseteq> set ks"
  by (induction t ks xs rule: all_in.induct) (auto simp: list_ex_iff split: if_splits)

lemma intersect_ok: "intersect t xs ys = Inr zs \<Longrightarrow> set zs \<subseteq> set xs \<inter> set ys"
  by (auto simp: intersect_def split: if_splits dest: common_ok)

lemma mergeSlices_ok:
  assumes "mergeSlices t v w = Inr u"
  shows "isSlice t v" and "isSlice t w" and "\<exists>us. u = JArr us \<and> set us = set (elements v) \<union> set (elements w) \<and> distinct us \<and>
      list_all (hashable (elem_type t)) us"
proof -
  show "isSlice t v" "isSlice t w"
    using assms by (simp_all add: mergeSlices_def split: if_splits)
  obtain r us where r: "add_unique (elem_type t) [] (elements v) = Inr r" "add_unique (elem_type t) r (elements w) = Inr us"
    and u: "u = JArr us"
    using assms by (auto simp: mergeSlices_def bindE_ok split: if_splits)
  show "\<exists>us. u = JArr us \<and> set us = set (elements v) \<union> set (elements w) \<and> distinct us \<and> list_all (hashable (elem_type t)) us"
    using add_unique_ok [OF r(1)] add_unique_ok [OF r(2)] u by (auto simp: list_all_iff)
qed

lemma intersectSlices_ok:
  assumes "intersectSlices t v w = Inr u" and "u \<noteq> zero_of t"
  shows "\<exists>us. u = JArr us \<and> set us \<subseteq> set (elements v) \<inter> set (elements w)" and "isSlice t v" and "isSlice t w"
  using assms by (auto simp: intersectSlices_def bindE_ok split: if_splits dest!: intersect_ok)

lemma isSubset_ok:
  "isSubset t v w = Inr True \<Longrightarrow> isSlice t v \<and> isSlice t w \<and> set (elements v) \<subseteq> set (elements w)"
  by (auto simp: isSubset_def split: if_splits dest: all_in_ok [rotated])

lemma compare_ok:
  assumes "compare t x y = Inr True"
  shows "x = y \<or> isSlice t x \<and> isSlice t y \<and> length (elements x) = length (elements y) \<and> set (elements y) \<subseteq> set (elements x)"
  using assms by (auto simp: compare_def compareSlices_def split: if_splits dest: all_in_ok [rotated])

section \<open>What a policy demands\<close>

text \<open>The comparison of the operator \<^verbatim>\<open>value\<close> as the code makes it: slices agree when they have the same length and the one in
  force has all the elements of the other.\<close>

definition agrees :: "gotype \<Rightarrow> json \<Rightarrow> json \<Rightarrow> bool" where
  "agrees t v x \<longleftrightarrow> v = x \<or>
     isSlice t v \<and> isSlice t x \<and> length (elements v) = length (elements x) \<and> set (elements x) \<subseteq> set (elements v)"

definition within :: "gotype \<Rightarrow> json \<Rightarrow> json \<Rightarrow> bool" where
  "within t v w \<longleftrightarrow> isSlice t v \<and> isSlice t w \<and> set (elements v) \<subseteq> set (elements w)"

text \<open>The abstract meaning of the operators of one parameter: a predicate on the resolved value.\<close>

definition meets :: "gotype \<Rightarrow> metadataOperators \<Rightarrow> json \<Rightarrow> bool" where
  "meets t ops v \<longleftrightarrow>
     (\<forall>x. mo_Value ops = Some x \<longrightarrow> agrees t v x) \<and>
     (isAddSet t ops \<longrightarrow> within t (mo_Add ops) v) \<and>
     (isDefaultSet t ops \<longrightarrow> v \<noteq> zero_of t) \<and>
     (\<forall>xs. mo_OneOf ops = Some xs \<longrightarrow> v \<in> set xs) \<and>
     (isSubsetOfSet t ops \<longrightarrow> within t v (mo_SubsetOf ops)) \<and>
     (isSupersetOfSet t ops \<longrightarrow> within t (mo_SupersetOf ops) v) \<and>
     (mo_Essential ops \<longrightarrow> v \<noteq> zero_of t)"

section \<open>Application enforces the policy\<close>

lemma apply_checks:
  "applyOneOf ops v = Inr w \<Longrightarrow> w = v" "applySubsetOf t ops v = Inr w \<Longrightarrow> w = v"
  "applySupersetOf t ops v = Inr w \<Longrightarrow> w = v" "applyEssential t ops v = Inr w \<Longrightarrow> w = v"
  by (auto simp: bindE_ok applyOneOf_def applySubsetOf_def applySupersetOf_def applyEssential_def split: option.splits if_splits)

lemma apply_steps:
  "Apply t ops v = Inr v' \<longleftrightarrow>
     (\<exists>a b. applyValue ops v = Inr a \<and> applyAdd t ops a = Inr b \<and> applyDefault t ops b = Inr v' \<and> applyOneOf ops v' = Inr v' \<and>
       applySubsetOf t ops v' = Inr v' \<and> applySupersetOf t ops v' = Inr v' \<and> applyEssential t ops v' = Inr v')"
  by (simp add: Apply_def bindE_ok) (metis apply_checks)

lemma applyOneOf_ok: "applyOneOf ops v = Inr w \<longleftrightarrow> w = v \<and> (\<forall>xs. mo_OneOf ops = Some xs \<longrightarrow> v \<in> set xs)"
  by (auto simp: applyOneOf_def deepContains_def list_ex_iff split: option.splits)

lemma applySubsetOf_ok: "applySubsetOf t ops v = Inr w \<Longrightarrow> isSubsetOfSet t ops \<Longrightarrow> within t v (mo_SubsetOf ops)"
  by (auto simp: applySubsetOf_def within_def bindE_ok split: if_splits dest: isSubset_ok)

lemma applySupersetOf_ok: "applySupersetOf t ops v = Inr w \<Longrightarrow> isSupersetOfSet t ops \<Longrightarrow> within t (mo_SupersetOf ops) v"
  by (auto simp: applySupersetOf_def isSuperset_def within_def bindE_ok split: if_splits dest: isSubset_ok)

lemma applyEssential_ok: "applyEssential t ops v = Inr w \<Longrightarrow> mo_Essential ops \<Longrightarrow> v \<noteq> zero_of t"
  by (simp add: applyEssential_def split: if_splits)

lemma applyDefault_ok: "applyDefault t ops v = Inr w \<Longrightarrow> isDefaultSet t ops \<Longrightarrow> w \<noteq> zero_of t"
  by (auto simp: applyDefault_def isDefaultSet_def split: if_splits)

lemma applyAdd_ok:
  assumes "applyAdd t ops v = Inr w" and "isAddSet t ops"
  shows "\<exists>us. w = JArr us \<and> within t (mo_Add ops) w \<and> distinct us \<and> list_all (hashable (elem_type t)) us"
  using assms mergeSlices_ok [of t v "mo_Add ops"]
  by (auto simp: applyAdd_def within_def isSlice_type split: sum.splits op_error.splits)

lemma applyDefault_array [simp]: "applyDefault t ops (JArr us) = Inr (JArr us)"
  by (simp add: applyDefault_def)

lemma validated_value:
  assumes "Validate t ops = Inr ()" and "mo_Value ops = Some x"
  shows "\<not> isAddSet t ops" and "\<not> isDefaultSet t ops"
  using assms by (auto simp: Validate_def bindE_ok validateValue_def isValueSet_def)

lemma apply_meets:
  assumes "Validate t ops = Inr ()" and "Apply t ops v = Inr v'"
  shows "meets t ops v'"
proof -
  obtain a b where *: "applyValue ops v = Inr a" "applyAdd t ops a = Inr b" "applyDefault t ops b = Inr v'"
    and **: "applyOneOf ops v' = Inr v'" "applySubsetOf t ops v' = Inr v'" "applySupersetOf t ops v' = Inr v'"
      "applyEssential t ops v' = Inr v'"
    using assms(2) by (auto simp: apply_steps)
  have "agrees t v' x" if "mo_Value ops = Some x" for x
    using * that validated_value [OF assms(1) that]
    by (simp add: applyValue_def applyAdd_def applyDefault_def agrees_def)
  moreover have "within t (mo_Add ops) v'" if "isAddSet t ops"
    using applyAdd_ok [OF *(2) that] *(3) by auto
  ultimately show ?thesis
    using applyDefault_ok [OF *(3)] applyOneOf_ok applySubsetOf_ok [OF **(2)] applySupersetOf_ok [OF **(3)]
      applyEssential_ok [OF **(4)] **(1)
    by (auto simp: meets_def)
qed

text \<open>Whatever value an entity publishes for a metadata parameter, once a validated policy has been applied to it without an
  error the result satisfies every operator of the policy: it is the prescribed value, contains the added values, is
  present when essential or defaulted, and lies within the bounds of one_of, subset_of and superset_of.\<close>

theorem policy_enforced:
  assumes "Validate t ops = Inr ()" and "Apply t ops v = Inr v'"
  shows "meets t ops v'"
  using apply_meets [OF assms] .

definition example_ops :: metadataOperators where
  "example_ops = (no_operators TSlice)\<lparr>mo_Add := JArr [JStr ''openid''],
     mo_SubsetOf := JArr [JStr ''openid'', JStr ''email'', JStr ''phone''], mo_SupersetOf := JArr [JStr ''openid''],
     mo_Essential := True\<rparr>"

lemmas op_eval = example_ops_def no_operators_def Validate_def validateEssential_def validateSupersetOf_def validateSubsetOf_def
  validateOneOf_def validateDefault_def validateAdd_def validateValue_def isValueSet_def isAddSet_def isDefaultSet_def
  isOneOfSet_def isSubsetOfSet_def isSupersetOfSet_def Apply_def applyValue_def applyAdd_def applyDefault_def applyOneOf_def
  applySubsetOf_def applySupersetOf_def applyEssential_def guardE_def demand_def isSubset_def isSuperset_def isSlice_def
  elem_type_def hashable_def mergeSlices_def intersectSlices_def intersect_def compare_def compareSlices_def
  deepContains_def

theorem policy_enforced_witness:
  "Apply TSlice example_ops (JArr [JStr ''email'']) = Inr (JArr [JStr ''email'', JStr ''openid'']) \<and>
   meets TSlice example_ops (JArr [JStr ''email'', JStr ''openid''])"
proof
  show *: "Apply TSlice example_ops (JArr [JStr ''email'']) = Inr (JArr [JStr ''email'', JStr ''openid''])"
    by (simp add: op_eval)
  show "meets TSlice example_ops (JArr [JStr ''email'', JStr ''openid''])"
    by (rule policy_enforced [OF _ *]) (simp add: op_eval)
qed

section \<open>Merging refines both policies\<close>

lemma agrees_compare: "agrees t v x \<Longrightarrow> compare t x y = Inr True \<Longrightarrow> agrees t v y"
  by (drule compare_ok) (auto simp: agrees_def)

lemma mergeValue_ok:
  assumes "mergeValue t high low = Inr z" and "\<And>x. z = Some x \<Longrightarrow> agrees t v x"
  shows "mo_Value high = Some x \<Longrightarrow> agrees t v x" and "mo_Value low = Some x \<Longrightarrow> agrees t v x"
  using assms by (cases "mo_Value high"; cases "mo_Value low";
      auto simp: mergeValue_def bindE_ok split: if_splits intro: agrees_compare)+

lemma mergeAdd_ok:
  assumes "mergeAdd t high low = Inr z" and "z \<noteq> zero_of t \<Longrightarrow> within t z v"
  shows "isAddSet t high \<Longrightarrow> within t (mo_Add high) v" and "isAddSet t low \<Longrightarrow> within t (mo_Add low) v"
  using assms mergeSlices_ok [of t "mo_Add high" "mo_Add low" z]
  by (auto simp: mergeAdd_def within_def isAddSet_def split: if_splits sum.splits op_error.splits)

lemma mergeSupersetOf_ok:
  assumes "mergeSupersetOf t high low = Inr z" and "z \<noteq> zero_of t \<Longrightarrow> within t z v"
  shows "isSupersetOfSet t high \<Longrightarrow> within t (mo_SupersetOf high) v"
    and "isSupersetOfSet t low \<Longrightarrow> within t (mo_SupersetOf low) v"
  using assms mergeSlices_ok [of t "mo_SupersetOf high" "mo_SupersetOf low" z]
  by (auto simp: mergeSupersetOf_def within_def isSupersetOfSet_def split: if_splits sum.splits op_error.splits)

lemma mergeSubsetOf_ok:
  assumes "mergeSubsetOf t high low = Inr z" and "z \<noteq> zero_of t \<Longrightarrow> within t v z"
  shows "isSubsetOfSet t high \<Longrightarrow> within t v (mo_SubsetOf high)" and "isSubsetOfSet t low \<Longrightarrow> within t v (mo_SubsetOf low)"
proof -
  have "within t v (mo_SubsetOf high) \<and> within t v (mo_SubsetOf low)" if "isSubsetOfSet t high" "isSubsetOfSet t low"
  proof -
    have z: "intersectSlices t (mo_SubsetOf high) (mo_SubsetOf low) = Inr z" "z \<noteq> zero_of t"
      using assms(1) that
      by (cases "intersectSlices t (mo_SubsetOf high) (mo_SubsetOf low)"; simp add: mergeSubsetOf_def split: if_splits op_error.splits)+
    obtain us where "z = JArr us" "set us \<subseteq> set (elements (mo_SubsetOf high)) \<inter> set (elements (mo_SubsetOf low))"
      using intersectSlices_ok(1) [OF z] by blast
    then show ?thesis
      using intersectSlices_ok(2,3) [OF z] assms(2) z(2) by (simp add: within_def) blast
  qed
  then show "isSubsetOfSet t high \<Longrightarrow> within t v (mo_SubsetOf high)" "isSubsetOfSet t low \<Longrightarrow> within t v (mo_SubsetOf low)"
    using assms by (auto simp: mergeSubsetOf_def isSubsetOfSet_def split: if_splits)
qed

lemma mergeDefault_ok:
  assumes "mergeDefault t high low = Inr z" and "z \<noteq> zero_of t \<Longrightarrow> v \<noteq> zero_of t"
  shows "isDefaultSet t high \<Longrightarrow> v \<noteq> zero_of t" and "isDefaultSet t low \<Longrightarrow> v \<noteq> zero_of t"
  using assms by (auto simp: mergeDefault_def isDefaultSet_def bindE_ok split: if_splits)

lemma mergeOneOf_ok:
  assumes "mergeOneOf t high low = Inr z" and "\<And>xs. z = Some xs \<Longrightarrow> v \<in> set xs"
  shows "mo_OneOf high = Some xs \<Longrightarrow> v \<in> set xs" and "mo_OneOf low = Some xs \<Longrightarrow> v \<in> set xs"
  using assms by (auto simp: mergeOneOf_def bindE_ok split: option.splits if_splits dest!: intersect_ok)

lemma merge_updates [simp]:
  "mergeAdd t (ops\<lparr>mo_Value := a\<rparr>) low = mergeAdd t ops low"
  "mergeDefault t (ops\<lparr>mo_Value := a, mo_Add := b\<rparr>) low = mergeDefault t ops low"
  "mergeOneOf t (ops\<lparr>mo_Value := a, mo_Add := b, mo_Default := c\<rparr>) low = mergeOneOf t ops low"
  "mergeSubsetOf t (ops\<lparr>mo_Value := a, mo_Add := b, mo_Default := c, mo_OneOf := d\<rparr>) low = mergeSubsetOf t ops low"
  "mergeSupersetOf t (ops\<lparr>mo_Value := a, mo_Add := b, mo_Default := c, mo_OneOf := d, mo_SubsetOf := e\<rparr>) low =
     mergeSupersetOf t ops low"
  by (simp_all add: mergeAdd_def isAddSet_def mergeDefault_def isDefaultSet_def mergeOneOf_def mergeSubsetOf_def
      isSubsetOfSet_def mergeSupersetOf_def isSupersetOfSet_def cong: if_cong option.case_cong)

lemma merge_fields:
  assumes "Merge t high low = Inr m"
  shows "mergeValue t high low = Inr (mo_Value m)" and "mergeAdd t high low = Inr (mo_Add m)"
    and "mergeDefault t high low = Inr (mo_Default m)" and "mergeOneOf t high low = Inr (mo_OneOf m)"
    and "mergeSubsetOf t high low = Inr (mo_SubsetOf m)" and "mergeSupersetOf t high low = Inr (mo_SupersetOf m)"
    and "mo_Essential m \<longleftrightarrow> mo_Essential high \<or> mo_Essential low"
  using assms
  by (auto simp: Merge_def bindE_ok Let_def mergeEssential_def)

lemma merge_meets:
  assumes "Merge t high low = Inr m" and "meets t m v"
  shows "meets t high v \<and> meets t low v"
proof -
  note f = merge_fields [OF assms(1)]
  have m: "mo_Value m = Some x \<Longrightarrow> agrees t v x" "mo_Add m \<noteq> zero_of t \<Longrightarrow> within t (mo_Add m) v"
    "mo_Default m \<noteq> zero_of t \<Longrightarrow> v \<noteq> zero_of t" "mo_OneOf m = Some xs \<Longrightarrow> v \<in> set xs"
    "mo_SubsetOf m \<noteq> zero_of t \<Longrightarrow> within t v (mo_SubsetOf m)" "mo_SupersetOf m \<noteq> zero_of t \<Longrightarrow> within t (mo_SupersetOf m) v"
    "mo_Essential m \<Longrightarrow> v \<noteq> zero_of t" for x xs
    using assms(2) by (auto simp: meets_def isAddSet_def isDefaultSet_def isSubsetOfSet_def isSupersetOfSet_def)
  have essential: "mo_Essential high \<Longrightarrow> v \<noteq> zero_of t" "mo_Essential low \<Longrightarrow> v \<noteq> zero_of t"
    using f(7) m(7) by simp_all
  note high = mergeValue_ok(1) [OF f(1) m(1)] mergeAdd_ok(1) [OF f(2) m(2)] mergeDefault_ok(1) [OF f(3) m(3)]
    mergeOneOf_ok(1) [OF f(4) m(4)] mergeSubsetOf_ok(1) [OF f(5) m(5)] mergeSupersetOf_ok(1) [OF f(6) m(6)]
  note low = mergeValue_ok(2) [OF f(1) m(1)] mergeAdd_ok(2) [OF f(2) m(2)] mergeDefault_ok(2) [OF f(3) m(3)]
    mergeOneOf_ok(2) [OF f(4) m(4)] mergeSubsetOf_ok(2) [OF f(5) m(5)] mergeSupersetOf_ok(2) [OF f(6) m(6)]
  show ?thesis
    unfolding meets_def by (intro conjI allI impI; (rule high low essential; assumption))
qed

text \<open>C12: Merging the policy of a superior with that of its subordinate never loosens either: a value that meets the merged
  operators meets the operators of the superior and those of the subordinate (lists given by two \<^verbatim>\<open>value\<close> operators
  agree in the sense of \<^verbatim>\<open>compare\<close>).\<close>

theorem merge_refines_both:
  assumes "Merge t high low = Inr m" and "meets t m v"
  shows "meets t high v \<and> meets t low v"
  using merge_meets [OF assms] .

theorem merge_refines_both_witness:
  "meets TSlice example_ops (JArr [JStr ''email'', JStr ''openid'']) \<and>
   meets TSlice ((no_operators TSlice)\<lparr>mo_SubsetOf := JArr [JStr ''email'', JStr ''openid'']\<rparr>)
     (JArr [JStr ''email'', JStr ''openid''])"
proof (rule merge_refines_both)
  show "Merge TSlice example_ops ((no_operators TSlice)\<lparr>mo_SubsetOf := JArr [JStr ''email'', JStr ''openid'']\<rparr>) =
      Inr (example_ops\<lparr>mo_SubsetOf := JArr [JStr ''email'', JStr ''openid'']\<rparr>)"
    by (simp add: op_eval Merge_def mergeValue_def mergeAdd_def mergeDefault_def mergeOneOf_def mergeSubsetOf_def
        mergeSupersetOf_def mergeEssential_def)
  show "meets TSlice (example_ops\<lparr>mo_SubsetOf := JArr [JStr ''email'', JStr ''openid'']\<rparr>) (JArr [JStr ''email'', JStr ''openid''])"
    by (simp add: op_eval meets_def within_def)
qed

section \<open>Application is idempotent\<close>

lemma applyAdd_again:
  assumes "applyAdd t ops v = Inr w"
  shows "applyAdd t ops w = Inr w"
proof (cases "isAddSet t ops")
  case True
  obtain us where w: "w = JArr us" "within t (mo_Add ops) w" "distinct us" "list_all (hashable (elem_type t)) us"
    using applyAdd_ok [OF assms True] by blast
  have add: "list_all (hashable (elem_type t)) (elements (mo_Add ops))" "set (elements (mo_Add ops)) \<subseteq> set us"
    using w by (auto simp: within_def list_all_iff)
  have "mergeSlices t w (mo_Add ops) = Inr w"
    using w add add_unique_fresh [of "elem_type t" "[]" us] add_unique_known [of "elem_type t" "elements (mo_Add ops)" us]
    by (simp add: mergeSlices_def within_def)
  then show ?thesis
    using True by (simp add: applyAdd_def)
qed (simp add: applyAdd_def)

text \<open>Applying a validated policy a second time changes nothing: the resolved value of a parameter is a fixed point of
  the policy.\<close>

theorem apply_idempotent:
  assumes "Validate t ops = Inr ()" and "Apply t ops v = Inr v'"
  shows "Apply t ops v' = Inr v'"
proof -
  obtain a b where *: "applyValue ops v = Inr a" "applyAdd t ops a = Inr b" "applyDefault t ops b = Inr v'"
    and checks: "applyOneOf ops v' = Inr v'" "applySubsetOf t ops v' = Inr v'" "applySupersetOf t ops v' = Inr v'"
      "applyEssential t ops v' = Inr v'"
    using assms(2) by (auto simp: apply_steps)
  have "applyValue ops v' = Inr v'"
    using * validated_value [OF assms(1)]
    by (cases "mo_Value ops") (auto simp: applyValue_def applyAdd_def applyDefault_def)
  moreover have "applyAdd t ops v' = Inr v'"
  proof (cases "isAddSet t ops")
    case True
    then have "v' = b"
      using applyAdd_ok [OF *(2)] *(3) by auto
    then show ?thesis
      using applyAdd_again [OF *(2)] by simp
  qed (simp add: applyAdd_def)
  moreover have "applyDefault t ops v' = Inr v'"
    using applyDefault_ok [OF *(3)] by (simp add: applyDefault_def)
  ultimately show ?thesis
    using checks apply_steps by blast
qed

theorem apply_idempotent_witness:
  "Apply TSlice example_ops (JArr [JStr ''email'', JStr ''openid'']) = Inr (JArr [JStr ''email'', JStr ''openid''])"
  by (rule apply_idempotent [of _ _ "JArr [JStr ''email'']"]) (simp_all add: op_eval)

section \<open>Lists that differ are merged\<close>

text \<open>The comparison of two lists is not symmetric: a superior prescribes the value [a, b], its subordinate prescribes
  [a, a], the two are merged without an error although the values differ, while the other way round the merge is refused.\<close>

theorem merge_value_mismatch:
  "Merge TSlice ((no_operators TSlice)\<lparr>mo_Value := Some (JArr [JStr ''a'', JStr ''b''])\<rparr>)
       ((no_operators TSlice)\<lparr>mo_Value := Some (JArr [JStr ''a'', JStr ''a''])\<rparr>) =
     Inr ((no_operators TSlice)\<lparr>mo_Value := Some (JArr [JStr ''a'', JStr ''b''])\<rparr>) \<and>
   Merge TSlice ((no_operators TSlice)\<lparr>mo_Value := Some (JArr [JStr ''a'', JStr ''a''])\<rparr>)
       ((no_operators TSlice)\<lparr>mo_Value := Some (JArr [JStr ''a'', JStr ''b''])\<rparr>) =
     Inl (OpError ''cannot merge operator value with mismatch'')"
  by (simp add: op_eval Merge_def mergeValue_def mergeAdd_def mergeDefault_def mergeOneOf_def mergeSubsetOf_def
      mergeSupersetOf_def mergeEssential_def)

text \<open>Merging one_of on a parameter that is a list ends in a panic, because the candidate lists become keys of a Go map.\<close>

lemma merge_one_of_panics:
  assumes "mo_OneOf high = Some (x # xs)" and "mo_OneOf low = Some ys"
  shows "mergeOneOf TSlice high low = Inl OpPanic"
  using assms by (simp add: mergeOneOf_def intersect_def hashable_def)

end
