(* ===== verification/MetadataPolicy.thy ===== *)
theory MetadataPolicy
  imports MetadataOperators "HOL-Library.AList"
begin

text \<open>
  Metadata policies and metadata of entities, \<^verbatim>\<open>internal/federation/policy.go\<close> and \<^verbatim>\<open>metadata.go\<close>.

  The source spells the same step out for every parameter of \<^verbatim>\<open>client.Meta\<close> (73 parameters) and of
  \<^verbatim>\<open>goidc.Configuration\<close> (59 parameters). Here a metadata struct is a function from the JSON names of its fields to their
  values, a policy struct is a function from the same names to operators, and the parameters with their types are the
  lists \<open>clientFields\<close> and \<open>providerFields\<close>, in the order in which the source treats them. Custom attributes are Go maps;
  they are association lists here, in the order an iteration happens to visit them.
\<close>

type_synonym params = "string \<Rightarrow> json"
type_synonym policies = "string \<Rightarrow> metadataOperators"

section \<open>The parameters\<close>

definition clientFields :: "(string \<times> gotype) list" where
  "clientFields =
    [(''client_name'', TString), (''application_type'', TString), (''logo_uri'', TString), (''contacts'', TSlice),
      (''policy_uri'', TString), (''tos_uri'', TString), (''redirect_uris'', TSlice), (''request_uris'', TSlice),
      (''grant_types'', TSlice), (''response_types'', TSlice), (''jwks_uri'', TString), (''jwks'', TPointer),
      (''scope'', TSlice), (''subject_type'', TString), (''sector_identifier_uri'', TString),
      (''id_token_signed_response_alg'', TString), (''id_token_encrypted_response_alg'', TString),
      (''id_token_encrypted_response_enc'', TString), (''userinfo_signed_response_alg'', TString),
      (''userinfo_encrypted_response_alg'', TString), (''userinfo_encrypted_response_enc'', TString),
      (''require_signed_request_object'', TBool), (''request_object_signing_alg'', TString),
      (''request_object_encryption_alg'', TString), (''request_object_encryption_enc'', TString),
      (''authorization_signed_response_alg'', TString), (''authorization_encrypted_response_alg'', TString),
      (''authorization_encrypted_response_enc'', TString), (''token_endpoint_auth_method'', TString),
      (''token_endpoint_auth_signing_alg'', TString), (''introspection_endpoint_auth_method'', TString),
      (''introspection_endpoint_auth_signing_alg'', TString), (''revocation_endpoint_auth_method'', TString),
      (''revocation_endpoint_auth_signing_alg'', TString), (''dpop_bound_access_tokens'', TBool),
      (''tls_client_auth_subject_dn'', TString), (''tls_client_auth_san_dns'', TString),
      (''tls_client_auth_san_ip'', TString), (''tls_client_certificate_bound_access_tokens'', TBool),
      (''authorization_details_types'', TSlice), (''default_max_age'', TPointer), (''default_acr_values'', TString),
      (''require_pushed_authorization_requests'', TBool), (''backchannel_token_delivery_mode'', TString),
      (''backchannel_client_notification_endpoint'', TString),
      (''backchannel_authentication_request_signing_alg'', TString), (''backchannel_user_code_parameter'', TBool),
      (''signed_jwks_uri'', TString), (''organization_name'', TString), (''client_registration_types'', TSlice),
      (''post_logout_redirect_uris'', TSlice), (''display_name'', TString), (''description'', TString),
      (''keywords'', TSlice), (''information_uri'', TString), (''organization_uri'', TString),
      (''credential_offer_endpoint'', TString), (''subject_types_supported'', TSlice),
      (''id_token_signing_alg_values_supported'', TSlice), (''id_token_encryption_alg_values_supported'', TSlice),
      (''id_token_encryption_enc_values_supported'', TSlice), (''userinfo_signing_alg_values_supported'', TSlice),
      (''userinfo_encryption_alg_values_supported'', TSlice), (''userinfo_encryption_enc_values_supported'', TSlice),
      (''request_object_signing_alg_values_supported'', TSlice),
      (''request_object_encryption_alg_values_supported'', TSlice),
      (''request_object_encryption_enc_values_supported'', TSlice), (''token_endpoint_auth_methods_supported'', TSlice),
      (''token_endpoint_auth_signing_alg_values_supported'', TSlice),
      (''backchannel_authentication_request_signing_alg_values_supported'', TSlice),
      (''authorization_signing_alg_values_supported'', TSlice), (''authorization_encryption_alg_values_supported'', TSlice),
      (''authorization_encryption_enc_values_supported'', TSlice)]"

definition providerFields :: "(string \<times> gotype) list" where
  "providerFields =
    [(''issuer'', TString), (''registration_endpoint'', TString), (''authorization_endpoint'', TString),
      (''token_endpoint'', TString), (''userinfo_endpoint'', TString), (''jwks_uri'', TString),
      (''pushed_authorization_request_endpoint'', TString), (''require_pushed_authorization_requests'', TBool),
      (''response_types_supported'', TSlice), (''response_modes_supported'', TSlice), (''grant_types_supported'', TSlice),
      (''scopes_supported'', TSlice), (''claims_supported'', TSlice), (''claim_types_supported'', TSlice),
      (''subject_types_supported'', TSlice), (''id_token_signing_alg_values_supported'', TSlice),
      (''id_token_encryption_alg_values_supported'', TSlice), (''id_token_encryption_enc_values_supported'', TSlice),
      (''userinfo_encryption_alg_values_supported'', TSlice), (''userinfo_encryption_enc_values_supported'', TSlice),
      (''userinfo_signing_alg_values_supported'', TSlice), (''token_endpoint_auth_methods_supported'', TSlice),
      (''token_endpoint_auth_signing_alg_values_supported'', TSlice), (''request_parameter_supported'', TBool),
      (''require_signed_request_object'', TBool), (''request_object_signing_alg_values_supported'', TSlice),
      (''request_object_encryption_alg_values_supported'', TSlice),
      (''request_object_encryption_enc_values_supported'', TSlice), (''request_uri_parameter_supported'', TBool),
      (''require_request_uri_registration'', TBool), (''authorization_signing_alg_values_supported'', TSlice),
      (''authorization_encryption_alg_values_supported'', TSlice),
      (''authorization_encryption_enc_values_supported'', TSlice),
      (''authorization_response_iss_parameter_supported'', TBool), (''claims_parameter_supported'', TBool),
      (''authorization_details_supported'', TBool), (''authorization_details_types_supported'', TSlice),
      (''dpop_signing_alg_values_supported'', TSlice), (''introspection_endpoint'', TString),
      (''introspection_endpoint_auth_methods_supported'', TSlice),
      (''introspection_endpoint_auth_signing_alg_values_supported'', TSlice), (''revocation_endpoint'', TString),
      (''revocation_endpoint_auth_methods_supported'', TSlice),
      (''revocation_endpoint_auth_signing_alg_values_supported'', TSlice), (''device_authorization_endpoint'', TString),
      (''backchannel_token_delivery_modes_supported'', TSlice), (''backchannel_authentication_endpoint'', TString),
      (''backchannel_authentication_request_signing_alg_values_supported'', TSlice),
      (''backchannel_user_code_parameter_supported'', TBool), (''tls_client_certificate_bound_access_tokens'', TBool),
      (''acr_values_supported'', TSlice), (''display_values_supported'', TSlice),
      (''code_challenge_methods_supported'', TSlice), (''end_session_endpoint'', TString),
      (''client_registration_types_supported'', TSlice), (''organization_name'', TString),
      (''federation_registration_endpoint'', TString), (''signed_jwks_uri'', TString),
      (''pre-authorized_grant_anonymous_access_supported'', TBool)]"

text \<open>The parameters \<^verbatim>\<open>metadata.Merge\<close> copies, with their types in the metadata: two more for a provider, and the scope of
  a client is a string here.\<close>

definition providerMergeFields :: "(string \<times> gotype) list" where
  "providerMergeFields = providerFields @ [(''mtls_endpoint_aliases'', TPointer), (''jwks'', TPointer)]"

definition clientMergeFields :: "(string \<times> gotype) list" where
  "clientMergeFields = map (\<lambda>(k, t). if k = ''scope'' then (k, TString) else (k, t)) clientFields"

section \<open>One step per parameter\<close>

fun validateFields :: "(string \<times> gotype) list \<Rightarrow> policies \<Rightarrow> op_error + unit" where
  "validateFields [] p = Inr ()"
| "validateFields ((k, t) # fs) p = bindE (Validate t (p k)) (\<lambda>_. validateFields fs p)"

fun mergeFields :: "(string \<times> gotype) list \<Rightarrow> policies \<Rightarrow> policies \<Rightarrow> op_error + policies" where
  "mergeFields [] high low = Inr high"
| "mergeFields ((k, t) # fs) high low = bindE (Merge t (high k) (low k)) (\<lambda>ops. mergeFields fs (high(k := ops)) low)"

text \<open>The scope of a client is split into a list before its operators are applied, and joined again afterwards.\<close>

definition applyField :: "string \<Rightarrow> gotype \<Rightarrow> metadataOperators \<Rightarrow> json \<Rightarrow> op_error + json" where
  "applyField k t ops v =
     (if k = ''scope''
      then
        (let scopeIDs = (case v of JStr s \<Rightarrow> strings_Fields s | _ \<Rightarrow> [])
         in bindE (Apply t ops (JArr (map JStr scopeIDs))) (\<lambda>scopeIDs.
           Inr (JStr (join '' '' (map (\<lambda>s. case s of JStr s \<Rightarrow> s | _ \<Rightarrow> '''') (elements scopeIDs))))))
      else Apply t ops v)"

fun applyFields :: "(string \<times> gotype) list \<Rightarrow> policies \<Rightarrow> params \<Rightarrow> op_error + params" where
  "applyFields [] p c = Inr c"
| "applyFields ((k, t) # fs) p c = bindE (applyField k t (p k) (c k)) (\<lambda>v. applyFields fs p (c(k := v)))"

section \<open>Providers\<close>

definition providerPolicy_Validate :: "policies \<Rightarrow> op_error + unit" where
  "providerPolicy_Validate p = validateFields providerFields p"

definition providerPolicy_Merge :: "policies \<Rightarrow> policies \<Rightarrow> op_error + policies" where
  "providerPolicy_Merge high low = mergeFields providerFields high low"

definition providerPolicy_Apply :: "policies \<Rightarrow> params \<Rightarrow> op_error + params" where
  "providerPolicy_Apply p c = applyFields providerFields p c"

definition zero_providerPolicy :: policies where
  "zero_providerPolicy k = no_operators (case map_of providerFields k of None \<Rightarrow> TAny | Some t \<Rightarrow> t)"

section \<open>Clients\<close>

record clientPolicy =
  cp_Fields :: policies
  cp_CustomAttributes :: "(string \<times> metadataOperators) list"

definition zero_clientPolicy :: clientPolicy where
  "zero_clientPolicy =
    \<lparr>cp_Fields = (\<lambda>k. no_operators (case map_of clientFields k of None \<Rightarrow> TAny | Some t \<Rightarrow> t)), cp_CustomAttributes = []\<rparr>"

text \<open>\<^verbatim>\<open>client.Meta\<close>; its custom attributes are a map that may be nil.\<close>

record clientMeta =
  cm_Fields :: params
  cm_CustomAttributes :: "(string \<times> json) list option"

definition setCustomAttribute :: "clientPolicy \<Rightarrow> string \<Rightarrow> metadataOperators \<Rightarrow> clientPolicy" where
  "setCustomAttribute p att v = p\<lparr>cp_CustomAttributes := AList.update att v (cp_CustomAttributes p)\<rparr>"

definition customAttribute :: "clientPolicy \<Rightarrow> string \<Rightarrow> metadataOperators" where
  "customAttribute p att = (case map_of (cp_CustomAttributes p) att of None \<Rightarrow> no_operators TAny | Some ops \<Rightarrow> ops)"

fun validateCustom :: "(string \<times> metadataOperators) list \<Rightarrow> op_error + unit" where
  "validateCustom [] = Inr ()"
| "validateCustom ((att, ops) # xs) = bindE (Validate TAny ops) (\<lambda>_. validateCustom xs)"

fun mergeCustom :: "(string \<times> metadataOperators) list \<Rightarrow> clientPolicy \<Rightarrow> op_error + clientPolicy" where
  "mergeCustom [] high = Inr high"
| "mergeCustom ((att, lowOps) # xs) high =
     bindE (Merge TAny (customAttribute high att) lowOps) (\<lambda>ops. mergeCustom xs (setCustomAttribute high att ops))"

fun applyCustom :: "(string \<times> metadataOperators) list \<Rightarrow> (string \<times> json) list \<Rightarrow> op_error + (string \<times> json) list" where
  "applyCustom [] c = Inr c"
| "applyCustom ((att, ops) # xs) c =
     bindE (Apply TAny ops (case map_of c att of None \<Rightarrow> JNull | Some v \<Rightarrow> v)) (\<lambda>v. applyCustom xs (AList.update att v c))"

definition clientPolicy_Validate :: "clientPolicy \<Rightarrow> op_error + unit" where
  "clientPolicy_Validate p = bindE (validateFields clientFields (cp_Fields p)) (\<lambda>_. validateCustom (cp_CustomAttributes p))"

definition clientPolicy_Merge :: "clientPolicy \<Rightarrow> clientPolicy \<Rightarrow> op_error + clientPolicy" where
  "clientPolicy_Merge high low =
     bindE (mergeFields clientFields (cp_Fields high) (cp_Fields low)) (\<lambda>fs.
     mergeCustom (cp_CustomAttributes low) (high\<lparr>cp_Fields := fs\<rparr>))"

definition clientPolicy_Apply :: "clientPolicy \<Rightarrow> clientMeta \<Rightarrow> op_error + clientMeta" where
  "clientPolicy_Apply p c =
     bindE (applyFields clientFields (cp_Fields p) (cm_Fields c)) (\<lambda>fs.
     bindE (applyCustom (cp_CustomAttributes p) (elems (cm_CustomAttributes c))) (\<lambda>custom.
     Inr \<lparr>cm_Fields = fs, cm_CustomAttributes = Some custom\<rparr>))"

section \<open>Policies and metadata of an entity\<close>

record metadataPolicy =
  mp_OpenIDProvider :: "policies option"
  mp_OpenIDClient :: "clientPolicy option"

definition zero_metadataPolicy :: metadataPolicy where
  "zero_metadataPolicy = \<lparr>mp_OpenIDProvider = None, mp_OpenIDClient = None\<rparr>"

definition metadataPolicy_Validate :: "metadataPolicy \<Rightarrow> op_error + unit" where
  "metadataPolicy_Validate policy =
     bindE (case mp_OpenIDProvider policy of None \<Rightarrow> Inr () | Some p \<Rightarrow> providerPolicy_Validate p) (\<lambda>_.
     case mp_OpenIDClient policy of None \<Rightarrow> Inr () | Some p \<Rightarrow> clientPolicy_Validate p)"

definition metadataPolicy_Merge :: "metadataPolicy \<Rightarrow> metadataPolicy \<Rightarrow> op_error + metadataPolicy" where
  "metadataPolicy_Merge high low =
     bindE (case mp_OpenIDProvider low of
        None \<Rightarrow> Inr high
      | Some l \<Rightarrow>
          bindE (providerPolicy_Merge (case mp_OpenIDProvider high of None \<Rightarrow> zero_providerPolicy | Some h \<Rightarrow> h) l) (\<lambda>r.
          Inr (high\<lparr>mp_OpenIDProvider := Some r\<rparr>))) (\<lambda>high.
     case mp_OpenIDClient low of
        None \<Rightarrow> Inr high
      | Some l \<Rightarrow>
          bindE (clientPolicy_Merge (case mp_OpenIDClient high of None \<Rightarrow> zero_clientPolicy | Some h \<Rightarrow> h) l) (\<lambda>r.
          Inr (high\<lparr>mp_OpenIDClient := Some r\<rparr>)))"

text \<open>The part of \<^verbatim>\<open>goidc.FederationAuthority\<close> the program reads.\<close>

record FederationAuthority =
  fa_FetchEndpoint :: string
  fa_FetchEndpointAuthMethods :: "string list"
  fa_TrustMarkEndpoint :: string
  fa_TrustMarkEndpointAuthMethods :: "string list"
  fa_EndpointAuthSigAlgValuesSupported :: "string list"

record metadata =
  md_FederationAuthority :: "FederationAuthority option"
  md_OpenIDProvider :: "params option"
  md_OpenIDClient :: "clientMeta option"

text \<open>\<^verbatim>\<open>metadataPolicy.Apply\<close> changes only the metadata of the statement.\<close>

definition metadataPolicy_Apply :: "metadataPolicy \<Rightarrow> metadata \<Rightarrow> op_error + metadata" where
  "metadataPolicy_Apply policy md =
     bindE (case (md_OpenIDProvider md, mp_OpenIDProvider policy) of
        (Some original, Some p) \<Rightarrow>
          bindE (providerPolicy_Apply p original) (\<lambda>m. Inr (md\<lparr>md_OpenIDProvider := Some m\<rparr>))
      | _ \<Rightarrow> Inr md) (\<lambda>md.
     case (md_OpenIDClient md, mp_OpenIDClient policy) of
        (Some original, Some p) \<Rightarrow>
          bindE (clientPolicy_Apply p original) (\<lambda>m. Inr (md\<lparr>md_OpenIDClient := Some m\<rparr>))
      | _ \<Rightarrow> Inr md)"

text \<open>\<^verbatim>\<open>metadata.Merge\<close>: the values a superior gives replace those of the entity, but a superior cannot make an entity a
  provider or a client.\<close>

definition overrideFields :: "(string \<times> gotype) list \<Rightarrow> params \<Rightarrow> params \<Rightarrow> params" where
  "overrideFields fs sub merged =
     fold (\<lambda>(k, t) merged. if sub k \<noteq> zero_of t then merged(k := sub k) else merged) fs merged"

definition mergeProviderMeta :: "params option \<Rightarrow> params option \<Rightarrow> params option" where
  "mergeProviderMeta sub config =
     (case config of
        None \<Rightarrow> None
      | Some merged \<Rightarrow> Some (case sub of None \<Rightarrow> merged | Some s \<Rightarrow> overrideFields providerMergeFields s merged))"

definition mergeClientMeta :: "clientMeta option \<Rightarrow> clientMeta option \<Rightarrow> clientMeta option" where
  "mergeClientMeta sub config =
     (case config of
        None \<Rightarrow> None
      | Some merged \<Rightarrow>
          Some (case sub of
             None \<Rightarrow> merged
           | Some s \<Rightarrow>
               \<lparr>cm_Fields = overrideFields clientMergeFields (cm_Fields s) (cm_Fields merged),
                cm_CustomAttributes =
                  (if cm_CustomAttributes s \<noteq> None then cm_CustomAttributes s else cm_CustomAttributes merged)\<rparr>))"

definition metadata_Merge :: "metadata \<Rightarrow> metadata \<Rightarrow> metadata" where
  "metadata_Merge subordinate config =
     subordinate\<lparr>md_OpenIDProvider := mergeProviderMeta (md_OpenIDProvider subordinate) (md_OpenIDProvider config),
       md_OpenIDClient := mergeClientMeta (md_OpenIDClient subordinate) (md_OpenIDClient config)\<rparr>"

section \<open>Policies that can be merged and applied\<close>

text \<open>The loop that merges the policies of a trust chain, from the most superior entity down.\<close>

fun merge_all :: "('p \<Rightarrow> 'p \<Rightarrow> op_error + 'p) \<Rightarrow> ('p \<Rightarrow> op_error + unit) \<Rightarrow> 'p \<Rightarrow> 'p list \<Rightarrow> op_error + 'p" where
  "merge_all mg vd p [] = Inr p"
| "merge_all mg vd p (q # qs) = bindE (mg p q) (\<lambda>r. bindE (vd r) (\<lambda>_. merge_all mg vd r qs))"

text \<open>What the resolution of metadata relies on, whatever the policies are about: a validated policy is enforced by its
  application, and merging is a refinement of both sides.\<close>

locale enforceable =
  fixes good :: "'p \<Rightarrow> bool"
    and validate :: "'p \<Rightarrow> op_error + unit"
    and merge :: "'p \<Rightarrow> 'p \<Rightarrow> op_error + 'p"
    and apply_to :: "'p \<Rightarrow> 'm \<Rightarrow> op_error + 'm"
    and satisfied :: "'p \<Rightarrow> 'm \<Rightarrow> bool"
  assumes enforced: "good p \<Longrightarrow> validate p = Inr () \<Longrightarrow> apply_to p m = Inr m' \<Longrightarrow> satisfied p m'"
    and refined: "merge p q = Inr r \<Longrightarrow> satisfied r m \<Longrightarrow> satisfied p m \<and> satisfied q m"
    and kept: "good p \<Longrightarrow> merge p q = Inr r \<Longrightarrow> good r"
begin

lemma merge_all_good:
  "merge_all merge validate p qs = Inr r \<Longrightarrow> good p \<Longrightarrow> validate p = Inr () \<Longrightarrow> good r \<and> validate r = Inr ()"
  by (induction qs arbitrary: p) (auto simp: bindE_ok dest: kept)

lemma merge_all_satisfied:
  "merge_all merge validate p qs = Inr r \<Longrightarrow> satisfied r m \<Longrightarrow> satisfied p m \<and> (\<forall>q\<in>set qs. satisfied q m)"
proof (induction qs arbitrary: p)
  case (Cons q qs)
  then obtain s where "merge p q = Inr s" "merge_all merge validate s qs = Inr r"
    by (auto simp: bindE_ok)
  then show ?case
    using Cons.IH [of s] Cons.prems(2) refined [of p q s m] by simp
qed simp

lemma all_enforced:
  assumes "merge_all merge validate p qs = Inr r" and "good p" and "validate p = Inr ()" and "apply_to r m = Inr m'"
  shows "\<forall>q\<in>set qs. satisfied q m'"
  using merge_all_good [OF assms(1-3)] merge_all_satisfied [OF assms(1)] enforced assms(4) by blast

end

section \<open>Parameters\<close>

interpretation operators: enforceable "\<lambda>_. True" "Validate t" "Merge t" "Apply t" "meets t" for t
  by unfold_locales (auto dest: apply_meets merge_meets)

lemma validateFields_ok: "validateFields fs p = Inr () \<longleftrightarrow> (\<forall>(k, t)\<in>set fs. Validate t (p k) = Inr ())"
  by (induction fs p rule: validateFields.induct) (auto simp: bindE_ok)

lemma mergeFields_ok:
  "mergeFields fs high low = Inr m \<Longrightarrow> distinct (map fst fs) \<Longrightarrow>
     (\<forall>(k, t)\<in>set fs. Merge t (high k) (low k) = Inr (m k)) \<and> (\<forall>k. k \<notin> fst ` set fs \<longrightarrow> m k = high k)"
proof (induction fs arbitrary: high)
  case (Cons kt fs)
  obtain k t where kt: "kt = (k, t)"
    by (cases kt)
  then obtain ops where *: "Merge t (high k) (low k) = Inr ops" "mergeFields fs (high(k := ops)) low = Inr m"
    using Cons.prems(1) by (auto simp: bindE_ok)
  have "k' \<noteq> k" if "(k', t') \<in> set fs" for k' t'
    using Cons.prems(2) kt that by force
  then show ?case
    using Cons.IH [OF *(2)] Cons.prems(2) * kt by fastforce
qed auto

lemma applyFields_ok:
  "applyFields fs p c = Inr c' \<Longrightarrow> distinct (map fst fs) \<Longrightarrow>
     (\<forall>(k, t)\<in>set fs. applyField k t (p k) (c k) = Inr (c' k)) \<and> (\<forall>k. k \<notin> fst ` set fs \<longrightarrow> c' k = c k)"
proof (induction fs arbitrary: c)
  case (Cons kt fs)
  obtain k t where kt: "kt = (k, t)"
    by (cases kt)
  then obtain v where *: "applyField k t (p k) (c k) = Inr v" "applyFields fs p (c(k := v)) = Inr c'"
    using Cons.prems(1) by (auto simp: bindE_ok)
  have "k' \<noteq> k" if "(k', t') \<in> set fs" for k' t'
    using Cons.prems(2) kt that by force
  then show ?case
    using Cons.IH [OF *(2)] Cons.prems(2) * kt by fastforce
qed auto

text \<open>What the operators of one parameter demand; of the scope, they demand it of a list of which the value is the join.\<close>

definition field_meets :: "string \<Rightarrow> gotype \<Rightarrow> metadataOperators \<Rightarrow> json \<Rightarrow> bool" where
  "field_meets k t ops v \<longleftrightarrow>
     (if k = ''scope''
      then \<exists>l. meets t ops l \<and> v = JStr (join '' '' (map (\<lambda>s. case s of JStr s \<Rightarrow> s | _ \<Rightarrow> '''') (elements l)))
      else meets t ops v)"

definition fields_meet :: "(string \<times> gotype) list \<Rightarrow> policies \<Rightarrow> params \<Rightarrow> bool" where
  "fields_meet fs p c \<longleftrightarrow> (\<forall>(k, t)\<in>set fs. field_meets k t (p k) (c k))"

lemma applyField_meets: "Validate t ops = Inr () \<Longrightarrow> applyField k t ops v = Inr v' \<Longrightarrow> field_meets k t ops v'"
  by (auto simp: applyField_def field_meets_def Let_def bindE_ok split: if_splits dest: apply_meets)

lemma merge_field_meets: "Merge t high low = Inr m \<Longrightarrow> field_meets k t m v \<Longrightarrow> field_meets k t high v \<and> field_meets k t low v"
  by (auto simp: field_meets_def split: if_splits dest: merge_meets)

lemma applyFields_meet:
  assumes "distinct (map fst fs)" and "validateFields fs p = Inr ()" and "applyFields fs p c = Inr c'"
  shows "fields_meet fs p c'"
  using applyFields_ok [OF assms(3,1)] assms(2)
  by (fastforce simp: fields_meet_def validateFields_ok intro: applyField_meets)

lemma mergeFields_meet:
  assumes "distinct (map fst fs)" and "mergeFields fs high low = Inr m" and "fields_meet fs m c"
  shows "fields_meet fs high c \<and> fields_meet fs low c"
  using mergeFields_ok [OF assms(2,1)] assms(3) merge_field_meets
  unfolding fields_meet_def by fastforce

lemma providerFields_distinct: "distinct (map fst providerFields)"
  by code_simp

lemma clientFields_distinct: "distinct (map fst clientFields)"
  by code_simp

section \<open>Custom attributes\<close>

definition custom_value :: "(string \<times> json) list \<Rightarrow> string \<Rightarrow> json" where
  "custom_value c att = (case map_of c att of None \<Rightarrow> JNull | Some v \<Rightarrow> v)"

lemma custom_value_update: "custom_value (AList.update att v c) att' = (if att' = att then v else custom_value c att')"
  by (simp add: custom_value_def update_conv)

lemma customAttribute_set:
  "customAttribute (setCustomAttribute p att v) att' = (if att' = att then v else customAttribute p att')"
  by (simp add: customAttribute_def setCustomAttribute_def update_conv)

lemma no_operators_meets [simp]: "meets t (no_operators t) v"
  by (simp add: meets_def no_operators_def isAddSet_def isDefaultSet_def isSubsetOfSet_def isSupersetOfSet_def)

lemma mergeCustom_meets:
  "mergeCustom xs high = Inr m \<Longrightarrow> meets TAny (customAttribute m att) v \<Longrightarrow>
     meets TAny (customAttribute high att) v \<and> (\<forall>ops. (att, ops) \<in> set xs \<longrightarrow> meets TAny ops v)"
proof (induction xs arbitrary: high)
  case (Cons x xs)
  obtain a lowOps where x: "x = (a, lowOps)"
    by (cases x)
  then obtain ops where *: "Merge TAny (customAttribute high a) lowOps = Inr ops"
    "mergeCustom xs (setCustomAttribute high a ops) = Inr m"
    using Cons.prems(1) by (auto simp: bindE_ok)
  show ?case
    using Cons.IH [OF *(2) Cons.prems(2)] merge_meets [OF *(1)] x by (auto simp: customAttribute_set split: if_splits)
qed simp

lemma mergeCustom_keeps:
  "mergeCustom xs high = Inr m \<Longrightarrow>
     cp_Fields m = cp_Fields high \<and> (distinct (map fst (cp_CustomAttributes high)) \<longrightarrow> distinct (map fst (cp_CustomAttributes m))) \<and>
     fst ` set (cp_CustomAttributes m) = fst ` set (cp_CustomAttributes high) \<union> fst ` set xs"
proof (induction xs arbitrary: high)
  case (Cons x xs)
  obtain a lowOps where x: "x = (a, lowOps)"
    by (cases x)
  then obtain ops where *: "mergeCustom xs (setCustomAttribute high a ops) = Inr m"
    using Cons.prems(1) by (auto simp: bindE_ok)
  show ?case
    using Cons.IH [OF *] x by (auto simp: setCustomAttribute_def distinct_update dom_update)
qed simp

lemma applyCustom_ok:
  "applyCustom xs c = Inr c' \<Longrightarrow> distinct (map fst xs) \<Longrightarrow>
     (\<forall>(att, ops)\<in>set xs. Apply TAny ops (custom_value c att) = Inr (custom_value c' att)) \<and>
     (\<forall>att. att \<notin> fst ` set xs \<longrightarrow> custom_value c' att = custom_value c att)"
proof (induction xs arbitrary: c)
  case (Cons x xs)
  obtain a ops where x: "x = (a, ops)"
    by (cases x)
  then obtain v where *: "Apply TAny ops (custom_value c a) = Inr v" "applyCustom xs (AList.update a v c) = Inr c'"
    using Cons.prems(1) by (auto simp: bindE_ok custom_value_def)
  have "k \<noteq> a" if "(k, t) \<in> set xs" for k t
    using Cons.prems(2) x that by force
  then show ?case
    using Cons.IH [OF *(2)] Cons.prems(2) * x by (fastforce simp: custom_value_update)
qed auto

lemma validateCustom_ok: "validateCustom xs = Inr () \<longleftrightarrow> (\<forall>(att, ops)\<in>set xs. Validate TAny ops = Inr ())"
  by (induction xs rule: validateCustom.induct) (auto simp: bindE_ok)

section \<open>Providers, clients and entities\<close>

interpretation providers: enforceable "\<lambda>_. True" providerPolicy_Validate providerPolicy_Merge providerPolicy_Apply
  "fields_meet providerFields"
  using applyFields_meet [OF providerFields_distinct] mergeFields_meet [OF providerFields_distinct]
  by unfold_locales (auto simp: providerPolicy_Validate_def providerPolicy_Merge_def providerPolicy_Apply_def)

definition client_good :: "clientPolicy \<Rightarrow> bool" where
  "client_good p \<longleftrightarrow> distinct (map fst (cp_CustomAttributes p))"

definition client_meets :: "clientPolicy \<Rightarrow> clientMeta \<Rightarrow> bool" where
  "client_meets p m \<longleftrightarrow> fields_meet clientFields (cp_Fields p) (cm_Fields m) \<and>
     (\<forall>att\<in>fst ` set (cp_CustomAttributes p). meets TAny (customAttribute p att) (custom_value (elems (cm_CustomAttributes m)) att))"

lemma clientPolicy_enforced:
  assumes "client_good p" and "clientPolicy_Validate p = Inr ()" and "clientPolicy_Apply p m = Inr m'"
  shows "client_meets p m'"
proof -
  obtain fs custom where *: "applyFields clientFields (cp_Fields p) (cm_Fields m) = Inr fs"
    "applyCustom (cp_CustomAttributes p) (elems (cm_CustomAttributes m)) = Inr custom"
    and m': "m' = \<lparr>cm_Fields = fs, cm_CustomAttributes = Some custom\<rparr>"
    using assms(3) by (auto simp: clientPolicy_Apply_def bindE_ok)
  have v: "validateFields clientFields (cp_Fields p) = Inr ()" "validateCustom (cp_CustomAttributes p) = Inr ()"
    using assms(2) by (auto simp: clientPolicy_Validate_def bindE_ok)
  have "meets TAny ops (custom_value custom att)" if "(att, ops) \<in> set (cp_CustomAttributes p)" for att ops
    using applyCustom_ok [OF *(2)] assms(1) v(2) that apply_meets
    by (fastforce simp: client_good_def validateCustom_ok)
  then have "\<forall>att\<in>fst ` set (cp_CustomAttributes p). meets TAny (customAttribute p att) (custom_value custom att)"
    using assms(1) by (auto simp: customAttribute_def client_good_def)
  then show ?thesis
    using applyFields_meet [OF clientFields_distinct v(1) *(1)] m' by (simp add: client_meets_def)
qed

lemma clientPolicy_refined:
  assumes "clientPolicy_Merge p q = Inr r" and "client_meets r m"
  shows "client_meets p m \<and> client_meets q m"
proof -
  obtain fs where *: "mergeFields clientFields (cp_Fields p) (cp_Fields q) = Inr fs"
    "mergeCustom (cp_CustomAttributes q) (p\<lparr>cp_Fields := fs\<rparr>) = Inr r"
    using assms(1) by (auto simp: clientPolicy_Merge_def bindE_ok)
  note k = mergeCustom_keeps [OF *(2)]
  have "fields_meet clientFields (cp_Fields p) (cm_Fields m) \<and> fields_meet clientFields (cp_Fields q) (cm_Fields m)"
    using mergeFields_meet [OF clientFields_distinct *(1)] assms(2) k by (simp add: client_meets_def)
  moreover have "meets TAny (customAttribute p att) (custom_value (elems (cm_CustomAttributes m)) att) \<and>
      (\<forall>ops. (att, ops) \<in> set (cp_CustomAttributes q) \<longrightarrow> meets TAny ops (custom_value (elems (cm_CustomAttributes m)) att))"
    if "att \<in> fst ` set (cp_CustomAttributes p) \<union> fst ` set (cp_CustomAttributes q)" for att
    using mergeCustom_meets [OF *(2), of att] assms(2) k that by (simp add: client_meets_def customAttribute_def)
  ultimately show ?thesis
    by (auto simp: client_meets_def customAttribute_def split: option.splits dest: map_of_SomeD)
qed


interpretation clients: enforceable client_good clientPolicy_Validate clientPolicy_Merge clientPolicy_Apply client_meets
proof unfold_locales
  show "client_good r" if "client_good p" "clientPolicy_Merge p q = Inr r" for p q r
    using that by (auto simp: clientPolicy_Merge_def bindE_ok client_good_def dest: mergeCustom_keeps)
qed (auto dest: clientPolicy_enforced clientPolicy_refined)

definition policy_good :: "metadataPolicy \<Rightarrow> bool" where
  "policy_good policy \<longleftrightarrow> (case mp_OpenIDClient policy of None \<Rightarrow> True | Some p \<Rightarrow> client_good p)"

text \<open>Metadata satisfies a policy when the provider part and the client part do, as far as both exist.\<close>

definition satisfies :: "metadataPolicy \<Rightarrow> metadata \<Rightarrow> bool" where
  "satisfies policy md \<longleftrightarrow>
     (\<forall>p m. mp_OpenIDProvider policy = Some p \<longrightarrow> md_OpenIDProvider md = Some m \<longrightarrow> fields_meet providerFields p m) \<and>
     (\<forall>p m. mp_OpenIDClient policy = Some p \<longrightarrow> md_OpenIDClient md = Some m \<longrightarrow> client_meets p m)"

lemma client_good_zero [simp]: "client_good zero_clientPolicy"
  by (simp add: client_good_def zero_clientPolicy_def)

lemma metadataPolicy_Merge_parts:
  assumes "metadataPolicy_Merge p q = Inr r"
  shows "case mp_OpenIDProvider q of None \<Rightarrow> mp_OpenIDProvider r = mp_OpenIDProvider p
      | Some l \<Rightarrow> \<exists>h x. providerPolicy_Merge h l = Inr x \<and> mp_OpenIDProvider r = Some x \<and> (\<forall>y. mp_OpenIDProvider p = Some y \<longrightarrow> h = y)"
    and "case mp_OpenIDClient q of None \<Rightarrow> mp_OpenIDClient r = mp_OpenIDClient p
      | Some l \<Rightarrow> \<exists>h x. clientPolicy_Merge h l = Inr x \<and> mp_OpenIDClient r = Some x \<and> (\<forall>y. mp_OpenIDClient p = Some y \<longrightarrow> h = y) \<and>
          (mp_OpenIDClient p = None \<longrightarrow> h = zero_clientPolicy)"
  using assms by (cases "mp_OpenIDProvider q"; cases "mp_OpenIDClient q"; cases "mp_OpenIDClient p"; cases "mp_OpenIDProvider p";
      auto simp: metadataPolicy_Merge_def bindE_ok)+

interpretation entities: enforceable policy_good metadataPolicy_Validate metadataPolicy_Merge metadataPolicy_Apply satisfies
proof unfold_locales
  show "satisfies p m'" if "policy_good p" "metadataPolicy_Validate p = Inr ()" "metadataPolicy_Apply p m = Inr m'" for p m m'
    using that
    by (auto simp: metadataPolicy_Apply_def metadataPolicy_Validate_def satisfies_def policy_good_def bindE_ok
        split: option.splits dest: clients.enforced providers.enforced [OF TrueI])
  show "satisfies p m \<and> satisfies q m" if "metadataPolicy_Merge p q = Inr r" "satisfies r m" for p q r m
    using metadataPolicy_Merge_parts [OF that(1)] that(2)
    by (cases "mp_OpenIDProvider q"; cases "mp_OpenIDClient q"; fastforce simp: satisfies_def dest: clients.refined providers.refined)
  show "policy_good r" if "policy_good p" "metadataPolicy_Merge p q = Inr r" for p q r
    using metadataPolicy_Merge_parts(2) [OF that(2)] that(1)
    by (auto simp: policy_good_def split: option.splits dest: clients.kept [rotated])
qed

end
