(* ===== verification/EntityStatement.thy ===== *)
theory EntityStatement
  imports MetadataPolicy External
begin

text \<open>
  The data of OpenID Federation, \<^verbatim>\<open>internal/federation/model.go\<close>: entity statements, constraints, trust marks, and the parts of
  the context that federation uses, the record \<open>FedEnv\<close>. The network, the decoding of statements and the encoding of forms
  are functions of it; calls whose answers may change in time take the number of the call, which is the state
  the federation programs run in. A Go panic and a search that never returns are errors that no handler of the
  program catches.
\<close>

section \<open>Errors\<close>

datatype fed_error = FedErr go_error | FedWrap ErrorCode string "fed_error list" | FedPanic | FedDiverges

definition fatal :: "fed_error \<Rightarrow> bool" where
  "fatal e \<longleftrightarrow> e = FedPanic \<or> e = FedDiverges"

text \<open>\<^verbatim>\<open>goidc.WrapError(code, desc, err)\<close>; a panic unwinds through it.\<close>

definition wrap :: "ErrorCode \<Rightarrow> string \<Rightarrow> fed_error \<Rightarrow> fed_error" where
  "wrap code desc e = (if fatal e then e else FedWrap code desc [e])"

definition invalid_chain :: "string \<Rightarrow> fed_error" where
  "invalid_chain msg = FedWrap ErrorCodeInvalidTrustChain ''invalid trust chain'' [FedErr (ErrNew msg)]"

definition invalid_statement :: "string \<Rightarrow> fed_error" where
  "invalid_statement msg = FedWrap ErrorCodeInvalidRequest ''invalid entity statement'' [FedErr (ErrNew msg)]"

definition invalid_mark :: "string \<Rightarrow> fed_error" where
  "invalid_mark msg = FedWrap ErrorCodeInvalidRequest ''invalid trust mark'' [FedErr (ErrNew msg)]"

definition ErrCircularDependency :: go_error where
  "ErrCircularDependency = ErrNew ''circular dependency detected in trust chain''"

definition of_op :: "op_error + 'a \<Rightarrow> fed_error + 'a" where
  "of_op r = (case r of Inl OpPanic \<Rightarrow> Inl FedPanic | Inl (OpError msg) \<Rightarrow> Inl (FedErr (ErrNew msg)) | Inr x \<Rightarrow> Inr x)"

definition of_go :: "go_error + 'a \<Rightarrow> fed_error + 'a" where
  "of_go r = (case r of Inl e \<Rightarrow> Inl (FedErr e) | Inr x \<Rightarrow> Inr x)"

section \<open>Data\<close>

record namingConstraints =
  nc_Permitted :: "string slice"
  nc_Excluded :: "string list"

record constraints =
  co_MaxPathLength :: "int option"
  co_NamingConstraints :: "namingConstraints option"
  co_AllowedEntityTypes :: "string slice"

record trustMarkInfo =
  ti_Type :: string
  ti_TrustMark :: string

record trustMarkOwner =
  to_Subject :: string
  to_JWKS :: "JSONWebKey list"

text \<open>\<^verbatim>\<open>entityStatement\<close>. The key set is nil when the claim is absent. The chain of the header \<^verbatim>\<open>trust_chain\<close> is returned beside the
  statement, not inside it.\<close>

record entityStatement =
  es_Issuer :: string
  es_Audience :: string
  es_Subject :: string
  es_IssuedAt :: int
  es_ExpiresAt :: int
  es_JWKS :: "JSONWebKey slice"
  es_AuthorityHints :: "string slice"
  es_TrustAnchorHints :: "string slice"
  es_Metadata :: metadata
  es_MetadataPolicy :: "metadataPolicy option"
  es_MetadataPolicyCritical :: "string slice"
  es_Constraints :: "constraints option"
  es_Critical :: "string slice"
  es_SourceEndpoint :: string
  es_TrustMarks :: "trustMarkInfo slice"
  es_TrustMarkIssuers :: "(string \<times> string list) list option"
  es_TrustMarkOwners :: "(string \<times> trustMarkOwner) list option"
  es_TrustAnchor :: string
  es_signed :: string

definition zero_metadata :: metadata where
  "zero_metadata = \<lparr>md_FederationAuthority = None, md_OpenIDProvider = None, md_OpenIDClient = None\<rparr>"

definition zero_entityStatement :: entityStatement where
  "zero_entityStatement =
    \<lparr>es_Issuer = '''', es_Audience = '''', es_Subject = '''', es_IssuedAt = 0, es_ExpiresAt = 0, es_JWKS = None,
     es_AuthorityHints = None, es_TrustAnchorHints = None, es_Metadata = zero_metadata, es_MetadataPolicy = None,
     es_MetadataPolicyCritical = None, es_Constraints = None, es_Critical = None, es_SourceEndpoint = '''',
     es_TrustMarks = None, es_TrustMarkIssuers = None, es_TrustMarkOwners = None, es_TrustAnchor = '''', es_signed = ''''\<rparr>"

type_synonym trustChain = "entityStatement list"

record trustMark =
  tm_Issuer :: string
  tm_Subject :: string
  tm_Type :: string
  tm_Delegation :: string

record parseOptions =
  po_jwks :: "JSONWebKey list"
  po_issuer :: string
  po_subject :: string
  po_explicitRegistration :: bool

record parseTrustMarkOptions =
  pt_subject :: string
  pt_markType :: string

record FedRequest =
  fr_Method :: string
  fr_URL :: string
  fr_ContentType :: string
  fr_Body :: string

text \<open>A response: its media type is that of the header \<^verbatim>\<open>Content-Type\<close>; reading the body may fail.\<close>

record FedResponse =
  fp_StatusCode :: int
  fp_MediaType :: string
  fp_ContentLength :: int
  fp_Body :: "go_error + string"

record FedEnv =
  fe_Lib :: Lib
  fe_Issuer :: string
  fe_SigAlgs :: "SignatureAlgorithm list"
  fe_TrustedAnchors :: "string list"
  fe_TrustChainMaxDepth :: int
  fe_JWTLeewayTimeSecs :: int
  fe_NewRequest :: "string \<Rightarrow> string \<Rightarrow> go_error option"
  fe_Do :: "nat \<Rightarrow> FedRequest \<Rightarrow> go_error + FedResponse"
  fe_Encode :: "(string \<times> string) list \<Rightarrow> string"
  fe_Sign :: "nat \<Rightarrow> claims \<Rightarrow> string list \<Rightarrow> go_error + string"
  fe_JWTID :: "nat \<Rightarrow> string"
  fe_DecodeStatement :: "string \<Rightarrow> go_error + entityStatement"
  fe_DecodeTrustMark :: "string \<Rightarrow> go_error + trustMark"
  fe_HasAudience :: "string \<Rightarrow> bool"

type_synonym 'a fedprog = "(fed_error, nat, 'a) prog"

text \<open>A call of the world outside, numbered; and a computation without effects.\<close>

definition outside :: "(nat \<Rightarrow> 'a) \<Rightarrow> 'a fedprog" where
  "outside f n = (Inr (f n), Suc n)"

definition outsideE :: "(nat \<Rightarrow> go_error + 'a) \<Rightarrow> 'a fedprog" where
  "outsideE f n = (of_go (f n), Suc n)"

definition pureE :: "fed_error + 'a \<Rightarrow> 'a fedprog" where
  "pureE r n = (r, n)"

definition goE :: "go_error + 'a \<Rightarrow> 'a fedprog" where
  "goE r = pureE (of_go r)"

end
