(* ===== verification/TrustChain.thy ===== *)
theory TrustChain
  imports EntityStatement
begin

text \<open>
  Trust chains, \<^verbatim>\<open>internal/federation/util.go\<close> and the resolution of \<^verbatim>\<open>model.go\<close>: how entity statements are fetched and parsed, the
  search for a chain from an entity to a trust anchor, the check of a chain that a client presents, and the
  resolution of a chain into the metadata of its subject. The search is written with fuel: \<open>FedDiverges\<close> is the result when the
  fuel is spent, and the theorems say when it cannot be.
\<close>

section \<open>Parsing statements\<close>

definition header_value :: "JoseHeader \<Rightarrow> string \<Rightarrow> json" where
  "header_value h k = (case map_of (jh_ExtraHeaders h) k of None \<Rightarrow> JNull | Some v \<Rightarrow> v)"

definition jwtTypeEntityStatement :: string where [const_defs]: "jwtTypeEntityStatement = ''entity-statement+jwt''"
definition contentTypeEntityStatementJWT :: string where
  [const_defs]: "contentTypeEntityStatementJWT = ''application/entity-statement+jwt''"
definition federationEndpointPath :: string where
  [const_defs]: "federationEndpointPath = ''/.well-known/openid-federation''"
definition maxResponseByteSize :: int where "maxResponseByteSize = 1000000"

definition wrap_statement :: "fed_error \<Rightarrow> fed_error" where
  "wrap_statement = wrap ErrorCodeInvalidRequest ''invalid entity statement''"

definition wrap_chain :: "fed_error \<Rightarrow> fed_error" where
  "wrap_chain = wrap ErrorCodeInvalidTrustChain ''invalid trust chain''"

definition parse_signed :: "FedEnv \<Rightarrow> string \<Rightarrow> JSONWebToken fedprog" where
  "parse_signed env s = goE (l_ParseSigned (fe_Lib env) s (fe_SigAlgs env))"

text \<open>\<^verbatim>\<open>UnsafeClaimsWithoutVerification\<close> into an entity statement.\<close>

definition unverified :: "FedEnv \<Rightarrow> JSONWebToken \<Rightarrow> entityStatement fedprog" where
  "unverified env parsed = goE (fe_DecodeStatement env (l_Payload (fe_Lib env) parsed))"

text \<open>The statements and headers that hold for every entity statement. The chain of the header \<^verbatim>\<open>trust_chain\<close> is parsed by
  \<open>chainOf\<close>, which is \<^verbatim>\<open>parseTrustChain\<close>: it is called for explicit registrations only, and itself parses
  statements that are none.\<close>

definition header_chain ::
  "(string list \<Rightarrow> trustChain fedprog) \<Rightarrow> parseOptions \<Rightarrow> JoseHeader \<Rightarrow> entityStatement \<Rightarrow> trustChain option fedprog" where
  "header_chain chainOf opts h statement =
     (let chain = header_value h ''trust_chain'' in
      if chain = JNull then okM None
      else
        guardM (\<not> po_explicitRegistration opts) (invalid_statement ''trust_chain is not allowed'')
        (case chain of
           JArr vs \<Rightarrow>
             tryM (mapErrM wrap_chain (chainOf (map (\<lambda>v. case v of JStr s \<Rightarrow> s | _ \<Rightarrow> '''') vs))) (\<lambda>chainHeader.
             case chainHeader of
               [] \<Rightarrow> failM FedPanic
             | subjectConfig # _ \<Rightarrow>
                 guardM (es_Subject subjectConfig \<noteq> es_Subject statement)
                   (invalid_chain ''the trust chain subject does not match the entity statement'')
                 (okM (Some chainHeader)))
         | _ \<Rightarrow> failM (invalid_statement ''trust_chain must be an array'')))"

definition parseEntityStatement0 ::
  "(string list \<Rightarrow> trustChain fedprog) \<Rightarrow> FedEnv \<Rightarrow> string \<Rightarrow> parseOptions \<Rightarrow> (entityStatement \<times> trustChain option) fedprog" where
  "parseEntityStatement0 chainOf env signedStatement opts =
     tryM (mapErrM wrap_statement (parse_signed env signedStatement)) (\<lambda>parsed.
     tryM (mapErrM wrap_statement (goE (l_Verify (fe_Lib env) parsed (VKeySet (po_jwks opts))))) (\<lambda>payload.
     tryM (mapErrM wrap_statement (goE (l_DecodeClaims (fe_Lib env) payload))) (\<lambda>claims.
     tryM (mapErrM wrap_statement (goE (fe_DecodeStatement env payload))) (\<lambda>statement.
     case jwt_Headers parsed of
       [] \<Rightarrow> failM FedPanic
     | h # _ \<Rightarrow>
       guardM (jh_KeyID h = '''') (invalid_statement ''entity statements must contain a kid header'') (
       guardM (jh_Algorithm h = '''' \<or> jh_Algorithm h = SigAlgNone)
         (invalid_statement ''entity statements must contain a valid alg header'') (
       guardM (header_value h ''typ'' \<noteq> JStr jwtTypeEntityStatement) (invalid_statement ''the typ header is invalid'') (
       guardM (header_value h ''peer_trust_chain'' \<noteq> JNull \<and> \<not> po_explicitRegistration opts)
         (invalid_statement ''peer_trust_chain is not allowed'') (
       tryM (header_chain chainOf opts h statement) (\<lambda>chainHeader.
       guardM (jc_IssuedAt claims = None) (invalid_statement ''the iat claim is required'') (
       guardM (jc_Expiry claims = None) (invalid_statement ''the exp claim is required'') (
       guardM (fe_HasAudience env payload \<and> \<not> po_explicitRegistration opts) (invalid_statement ''the aud claim is not allowed'') (
       tryM (outside (\<lambda>n. l_ValidateWithLeeway (fe_Lib env) n claims
         \<lparr>ex_Issuer = po_issuer opts, ex_Subject = po_subject opts,
          ex_AnyAudience = (if po_explicitRegistration opts then [fe_Issuer env] else [])\<rparr> (fe_JWTLeewayTimeSecs env))) (\<lambda>err.
       tryM (checkM (map_option (\<lambda>e. wrap_statement (FedErr e)) err)) (\<lambda>_.
       guardM (es_JWKS statement = None) (invalid_statement ''the jwks claim is required'') (
       guardM (es_TrustAnchor statement \<noteq> '''') (invalid_statement ''the trust_anchor claim is not allowed'') (
       okM (statement\<lparr>es_signed := signedStatement\<rparr>, chainHeader)))))))))))))))))"

definition parseEntityConfiguration0 ::
  "(string list \<Rightarrow> trustChain fedprog) \<Rightarrow> FedEnv \<Rightarrow> string \<Rightarrow> bool \<Rightarrow> (entityStatement \<times> trustChain option) fedprog" where
  "parseEntityConfiguration0 chainOf env signedStatement explicit =
     tryM (mapErrM wrap_statement (parse_signed env signedStatement)) (\<lambda>parsed.
     tryM (mapErrM wrap_statement (unverified env parsed)) (\<lambda>self.
     tryM (parseEntityStatement0 chainOf env signedStatement
       \<lparr>po_jwks = elems (es_JWKS self), po_issuer = es_Issuer self, po_subject = es_Issuer self,
        po_explicitRegistration = explicit\<rparr>) (\<lambda>(entityConfig, chainHeader).
     guardM (es_AuthorityHints entityConfig = Some []) (invalid_statement ''authority_hints cannot be an empty array'') (
     guardM (es_TrustAnchorHints entityConfig = Some []) (invalid_statement ''trust_anchor_hints cannot be an empty array'') (
     guardM (es_MetadataPolicy entityConfig \<noteq> None)
       (invalid_statement ''entity configurations cannot contain metadata_policy'') (
     guardM (es_MetadataPolicyCritical entityConfig \<noteq> None)
       (invalid_statement ''entity configurations cannot contain metadata_policy_crit'') (
     guardM (es_Constraints entityConfig \<noteq> None) (invalid_statement ''entity configurations cannot contain constraints'') (
     guardM (es_SourceEndpoint entityConfig \<noteq> '''')
       (invalid_statement ''entity configurations cannot contain source_endpoint'') (
     okM (entityConfig, chainHeader))))))))))"

text \<open>Without explicit registration no chain header is parsed.\<close>

definition no_chain :: "string list \<Rightarrow> trustChain fedprog" where
  "no_chain ss = failM FedPanic"

definition parseEntityStatement :: "FedEnv \<Rightarrow> string \<Rightarrow> JSONWebKey list \<Rightarrow> string \<Rightarrow> string \<Rightarrow> entityStatement fedprog" where
  "parseEntityStatement env signedStatement jwks issuer subject =
     tryM (parseEntityStatement0 no_chain env signedStatement
       \<lparr>po_jwks = jwks, po_issuer = issuer, po_subject = subject, po_explicitRegistration = False\<rparr>) (\<lambda>(statement, _).
     okM statement)"

definition parseEntityConfiguration :: "FedEnv \<Rightarrow> string \<Rightarrow> entityStatement fedprog" where
  "parseEntityConfiguration env signedStatement =
     tryM (parseEntityConfiguration0 no_chain env signedStatement False) (\<lambda>(config, _). okM config)"

definition parseAuthorityConfiguration :: "FedEnv \<Rightarrow> string \<Rightarrow> entityStatement fedprog" where
  "parseAuthorityConfiguration env signedStatement =
     tryM (parseEntityConfiguration env signedStatement) (\<lambda>config.
     guardM (md_FederationAuthority (es_Metadata config) = None)
       (FedWrap ErrorCodeInvalidRequest ''invalid authority metadata'' [FedErr (ErrNew ''entity is not a federation authority'')])
     (okM config))"

definition parseSubordinateStatement :: "FedEnv \<Rightarrow> string \<Rightarrow> JSONWebKey list \<Rightarrow> string \<Rightarrow> string \<Rightarrow> entityStatement fedprog" where
  "parseSubordinateStatement env signedStatement jwks issuer subject =
     tryM (parseEntityStatement env signedStatement jwks issuer subject) (\<lambda>s.
     guardM (es_AuthorityHints s \<noteq> None) (invalid_statement ''subordinate statements cannot contain authority_hints'') (
     guardM (es_TrustAnchorHints s \<noteq> None) (invalid_statement ''subordinate statements cannot contain trust_anchor_hints'') (
     guardM (es_TrustMarks s \<noteq> None) (invalid_statement ''subordinate statements cannot contain trust_marks'') (
     guardM (es_TrustMarkIssuers s \<noteq> None) (invalid_statement ''subordinate statements cannot contain trust_mark_issuers'') (
     guardM (es_TrustMarkOwners s \<noteq> None) (invalid_statement ''subordinate statements cannot contain trust_mark_owners'') (
     tryM (mapErrM wrap_statement (pureE (of_op
       (case es_MetadataPolicy s of None \<Rightarrow> Inr () | Some policy \<Rightarrow> metadataPolicy_Validate policy)))) (\<lambda>_.
     tryM (mapErrM wrap_statement (goE
       (if es_SourceEndpoint s = '''' then Inr ()
        else case l_url_Parse (fe_Lib env) (es_SourceEndpoint s) of Inl e \<Rightarrow> Inl e | Inr _ \<Rightarrow> Inr ()))) (\<lambda>_.
     okM s))))))))"

section \<open>Fetching statements\<close>

definition fetchEntityStatement :: "FedEnv \<Rightarrow> FedRequest \<Rightarrow> string fedprog" where
  "fetchEntityStatement env r =
     (let failed = (\<lambda>msg. FedWrap ErrorCodeInvalidRequest ''could not fetch the entity statement'' [FedErr (ErrNew msg)]);
          unread = wrap ErrorCodeInvalidRequest ''could not read the entity statement'' in
      tryM (mapErrM (wrap ErrorCodeInvalidRequest ''could not fetch the entity statement'') (outsideE (\<lambda>n. fe_Do env n r))) (\<lambda>resp.
      guardM (fp_StatusCode resp \<noteq> 200) (failed ''the federation endpoint returned another status'') (
      guardM (fp_MediaType resp \<noteq> contentTypeEntityStatementJWT) (failed ''the federation endpoint returned another content type'') (
      guardM (fp_ContentLength resp > maxResponseByteSize) (failed ''statement exceeds max size'') (
      tryM (mapErrM unread (goE (fp_Body resp))) (\<lambda>body.
      let signedStatement = take (nat (maxResponseByteSize + 1)) body in
      guardM (int (length signedStatement) > maxResponseByteSize) (unread (FedErr (ErrNew ''statement exceeds max size'')))
      (okM signedStatement)))))))"

text \<open>\<^verbatim>\<open>fmt.Errorf\<close> with a cause: a wrapping without a code.\<close>

definition wrapf :: "string \<Rightarrow> fed_error \<Rightarrow> fed_error" where
  "wrapf msg e = wrap '''' msg e"

definition newRequest :: "FedEnv \<Rightarrow> string \<Rightarrow> string \<Rightarrow> string \<Rightarrow> string \<Rightarrow> string \<Rightarrow> FedRequest fedprog" where
  "newRequest env msg method uri contentType body =
     (case fe_NewRequest env method uri of
        Some e \<Rightarrow> failM (wrapf msg (FedErr e))
      | None \<Rightarrow> okM \<lparr>fr_Method = method, fr_URL = uri, fr_ContentType = contentType, fr_Body = body\<rparr>)"

definition privateKeyJWTRequest :: "FedEnv \<Rightarrow> entityStatement \<Rightarrow> string \<Rightarrow> (string \<times> string) list \<Rightarrow> FedRequest fedprog" where
  "privateKeyJWTRequest env authority uri params =
     tryM (outside (l_Now (fe_Lib env))) (\<lambda>iat.
     tryM (outside (l_Now (fe_Lib env))) (\<lambda>now.
     tryM (outside (fe_JWTID env)) (\<lambda>jti.
     let assertionClaims =
       [(''iss'', JStr (fe_Issuer env)), (''sub'', JStr (fe_Issuer env)), (''aud'', JStr (es_Issuer authority)),
        (''iat'', JInt iat), (''exp'', JInt (now + 600)), (''jti'', JStr jti)];
         algs = (case md_FederationAuthority (es_Metadata authority) of
           None \<Rightarrow> [] | Some fa \<Rightarrow> fa_EndpointAuthSigAlgValuesSupported fa) in
     tryM (mapErrM (wrapf ''could not sign the federation endpoint client assertion'') (outsideE (\<lambda>n. fe_Sign env n assertionClaims algs))) (\<lambda>assertion.
     newRequest env ''could not create the federation endpoint request'' ''POST'' uri ''application/x-www-form-urlencoded''
       (fe_Encode env (params @ [(''client_id'', fe_Issuer env), (''client_assertion'', assertion),
          (''client_assertion_type'', ''urn:ietf:params:oauth:client-assertion-type:jwt-bearer'')]))))))"

definition unauthenticatedRequest :: "FedEnv \<Rightarrow> string \<Rightarrow> (string \<times> string) list \<Rightarrow> FedRequest fedprog" where
  "unauthenticatedRequest env uri params =
     tryM (mapErrM (wrap ErrorCodeInvalidRequest ''invalid uri'') (goE (l_url_Parse (fe_Lib env) uri))) (\<lambda>u.
     newRequest env ''could not create the federation endpoint request'' ''GET''
       (l_url_String (fe_Lib env) (u\<lparr>u_RawQuery := fe_Encode env params\<rparr>)) '''' '''')"

definition fetchAuthorityConfiguration :: "FedEnv \<Rightarrow> string \<Rightarrow> entityStatement fedprog" where
  "fetchAuthorityConfiguration env i =
     tryM (newRequest env ''could not create the federation authority configuration request'' ''GET'' (i @ federationEndpointPath) '''' '''') (\<lambda>r.
     tryM (fetchEntityStatement env r) (\<lambda>signedStatement.
     parseAuthorityConfiguration env signedStatement))"

definition fetchEntityConfiguration :: "FedEnv \<Rightarrow> string \<Rightarrow> entityStatement fedprog" where
  "fetchEntityConfiguration env i =
     tryM (newRequest env ''could not create the federation entity configuration request'' ''GET'' (i @ federationEndpointPath) '''' '''') (\<lambda>r.
     tryM (fetchEntityStatement env r) (\<lambda>signedStatement.
     parseEntityConfiguration env signedStatement))"

definition fetchSubordinateStatement :: "FedEnv \<Rightarrow> string \<Rightarrow> entityStatement \<Rightarrow> entityStatement fedprog" where
  "fetchSubordinateStatement env sub authority =
     (let invalid = (\<lambda>msg. FedWrap ErrorCodeInvalidRequest ''invalid authority metadata'' [FedErr (ErrNew msg)]) in
      case md_FederationAuthority (es_Metadata authority) of
        None \<Rightarrow> failM (invalid ''entity is not a federation authority'')
      | Some fa \<Rightarrow>
          let fetchEndpoint = fa_FetchEndpoint fa in
          guardM (fetchEndpoint = '''' \<or> (case l_url_Parse (fe_Lib env) fetchEndpoint of Inl _ \<Rightarrow> True | Inr _ \<Rightarrow> False))
            (invalid ''the federation_fetch_endpoint is invalid'') (
          tryM (if AuthnMethodPrivateKeyJWT \<in> set (fa_FetchEndpointAuthMethods fa)
                then mapErrM (wrapf ''could not create the authenticated federation fetch request'')
                  (privateKeyJWTRequest env authority fetchEndpoint [(''sub'', sub)])
                else mapErrM (wrapf ''could not create the federation fetch request'')
                  (unauthenticatedRequest env fetchEndpoint [(''sub'', sub)])) (\<lambda>r.
          tryM (mapErrM (wrap ErrorCodeInvalidRequest ''could not fetch subordinate statement'') (fetchEntityStatement env r)) (\<lambda>signedStatement.
          parseSubordinateStatement env signedStatement (elems (es_JWKS authority)) (es_Issuer authority) sub))))"

section \<open>Searching a chain\<close>

definition buildTrustChainBranch ::
  "(entityStatement \<Rightarrow> string list \<Rightarrow> trustChain fedprog) \<Rightarrow> FedEnv \<Rightarrow> entityStatement \<Rightarrow> entityStatement \<Rightarrow> string list \<Rightarrow>
     trustChain fedprog" where
  "buildTrustChainBranch fromConfig env entityConfig authorityConfig entityMap =
     tryM (fetchSubordinateStatement env (es_Subject entityConfig) authorityConfig) (\<lambda>subordinateStatement.
     tryM (mapErrM wrap_statement (parse_signed env (es_signed entityConfig))) (\<lambda>parsedConfig.
     tryM (mapErrM wrap_statement (goE (l_Verify (fe_Lib env) parsedConfig (VKeySet (elems (es_JWKS subordinateStatement)))))) (\<lambda>_.
     if es_Issuer authorityConfig \<in> set (fe_TrustedAnchors env) then okM [subordinateStatement, authorityConfig]
     else
       tryM (fromConfig authorityConfig entityMap) (\<lambda>chain.
       let chain = subordinateStatement # chain in
       guardM (int (length chain) > fe_TrustChainMaxDepth env) (invalid_chain ''the trust chain maximum depth was reached'')
       (okM chain)))))"

text \<open>The loop over the authority hints. The map of visited entities is cloned for every branch, so it is a plain value.\<close>

fun tryHints ::
  "(entityStatement \<Rightarrow> string list \<Rightarrow> trustChain fedprog) \<Rightarrow> FedEnv \<Rightarrow> entityStatement \<Rightarrow> string list \<Rightarrow> string list \<Rightarrow>
     fed_error list \<Rightarrow> trustChain fedprog" where
  "tryHints fromConfig env entityConfig entityMap [] errs = failM (FedWrap ErrorCodeInvalidTrustChain ''invalid trust chain'' errs)"
| "tryHints fromConfig env entityConfig entityMap (authorityID # hints) errs =
     (if authorityID \<in> set entityMap
      then tryHints fromConfig env entityConfig entityMap hints (errs @ [wrap_chain (FedErr ErrCircularDependency)])
      else
        runM (tryM (fetchAuthorityConfiguration env authorityID) (\<lambda>authorityConfig.
          buildTrustChainBranch fromConfig env entityConfig authorityConfig (authorityID # entityMap))) (\<lambda>r.
        case r of
          Inr chain \<Rightarrow> okM chain
        | Inl e \<Rightarrow> if fatal e then failM e else tryHints fromConfig env entityConfig entityMap hints (errs @ [e])))"

primrec buildTrustChainFromConfig :: "nat \<Rightarrow> FedEnv \<Rightarrow> entityStatement \<Rightarrow> string list \<Rightarrow> trustChain fedprog" where
  "buildTrustChainFromConfig 0 env entityConfig entityMap = failM FedDiverges"
| "buildTrustChainFromConfig (Suc fuel) env entityConfig entityMap =
     (case es_AuthorityHints entityConfig of
        None \<Rightarrow> failM (invalid_chain ''authority_hints is required to build a trust chain'')
      | Some hints \<Rightarrow> tryHints (buildTrustChainFromConfig fuel env) env entityConfig entityMap hints [])"

definition buildTrustChain :: "nat \<Rightarrow> FedEnv \<Rightarrow> entityStatement \<Rightarrow> trustChain fedprog" where
  "buildTrustChain fuel env entityConfig =
     tryM (buildTrustChainFromConfig fuel env entityConfig [es_Subject entityConfig]) (\<lambda>chain.
     okM (entityConfig # chain))"

section \<open>Checking a chain\<close>

text \<open>The loop over the subordinate statements: the previous statement gives the subject, the unverified next one the issuer
  and its keys.\<close>

fun parseChainStatements :: "FedEnv \<Rightarrow> entityStatement \<Rightarrow> string list \<Rightarrow> trustChain fedprog" where
  "parseChainStatements env prevStatement (statement # nextStatement # rest) =
     tryM (mapErrM wrap_chain (parse_signed env nextStatement)) (\<lambda>nextStatementParsed.
     tryM (mapErrM wrap_chain (unverified env nextStatementParsed)) (\<lambda>nextStatementClaims.
     tryM (mapErrM wrap_chain (parseSubordinateStatement env statement (elems (es_JWKS nextStatementClaims))
       (es_Subject nextStatementClaims) (es_Issuer prevStatement))) (\<lambda>subordinateStatement.
     tryM (parseChainStatements env subordinateStatement (nextStatement # rest)) (\<lambda>chain.
     okM (subordinateStatement # chain)))))"
| "parseChainStatements env prevStatement _ = okM []"

definition anchorError :: "fed_error \<Rightarrow> fed_error" where
  "anchorError = wrap ErrorCodeInvalidTrustAnchor ''invalid trust anchor''"

text \<open>The statements of a chain as given, completed by the configuration of the trust anchor when the chain ends without it.\<close>

definition completeChain :: "FedEnv \<Rightarrow> string list \<Rightarrow> entityStatement \<Rightarrow> entityStatement \<Rightarrow> string list fedprog" where
  "completeChain env chainStatements lastStatement originalTrustAnchorConfig =
     (if es_Subject lastStatement \<noteq> es_Issuer lastStatement
      then okM (chainStatements @ [es_signed originalTrustAnchorConfig])
      else
        tryM (mapErrM wrap_chain (parseAuthorityConfiguration env (last chainStatements))) (\<lambda>trustAnchorConfig.
        tryM (mapErrM wrap_chain (parseEntityStatement env (es_signed trustAnchorConfig) (elems (es_JWKS originalTrustAnchorConfig))
          (es_Issuer trustAnchorConfig) (es_Issuer trustAnchorConfig))) (\<lambda>_.
        okM chainStatements)))"

definition parseTrustChain :: "FedEnv \<Rightarrow> string list \<Rightarrow> trustChain fedprog" where
  "parseTrustChain env chainStatements =
     guardM (length chainStatements < 2) (invalid_chain ''at least two statements are required'') (
     tryM (mapErrM wrap_chain (parse_signed env (last chainStatements))) (\<lambda>parsedLastStatement.
     tryM (mapErrM wrap_chain (unverified env parsedLastStatement)) (\<lambda>lastStatement.
     guardM (es_Issuer lastStatement \<notin> set (fe_TrustedAnchors env)) (anchorError (FedErr (ErrNew ''trust anchor is not trusted''))) (
     tryM (mapErrM anchorError (fetchAuthorityConfiguration env (es_Issuer lastStatement))) (\<lambda>originalTrustAnchorConfig.
     tryM (completeChain env chainStatements lastStatement originalTrustAnchorConfig) (\<lambda>chainStatements.
     tryM (mapErrM wrap_chain (parseEntityConfiguration env (hd chainStatements))) (\<lambda>entityConfig.
     tryM (parseChainStatements env entityConfig (tl chainStatements)) (\<lambda>subs.
     case subs of
       [] \<Rightarrow> failM FedPanic
     | firstSubordinateStatement # _ \<Rightarrow>
         tryM (mapErrM (\<lambda>e. if fatal e then e
             else invalid_chain ''the entity configuration signature is not authorized by the immediate superior'')
           (parseEntityStatement env (es_signed entityConfig) (elems (es_JWKS firstSubordinateStatement))
             (es_Issuer entityConfig) (es_Subject entityConfig))) (\<lambda>_.
         okM (entityConfig # subs @ [originalTrustAnchorConfig]))))))))))"

section \<open>Resolving a chain\<close>

definition matchesNamespace :: "Lib \<Rightarrow> string \<Rightarrow> string \<Rightarrow> bool" where
  "matchesNamespace lib entityID namespace =
     (case (l_url_Parse lib entityID, l_url_Parse lib namespace) of
        (Inr entityURL, Inr namespaceURL) \<Rightarrow>
          if strings_HasPrefix (u_Host namespaceURL) ''.'' then strings_HasSuffix (u_Host entityURL) (u_Host namespaceURL)
          else u_Host entityURL = u_Host namespaceURL
      | _ \<Rightarrow> False)"

definition namingAllows :: "Lib \<Rightarrow> namingConstraints \<Rightarrow> string \<Rightarrow> bool" where
  "namingAllows lib nc entityID \<longleftrightarrow>
     (case nc_Permitted nc of None \<Rightarrow> True | Some ps \<Rightarrow> list_ex (matchesNamespace lib entityID) ps) \<and>
     \<not> list_ex (matchesNamespace lib entityID) (nc_Excluded nc)"

text \<open>The constraints of the statement at position \<open>i\<close>, on the statements from there down to the subject.\<close>

definition checkConstraints :: "Lib \<Rightarrow> entityStatement list \<Rightarrow> nat \<Rightarrow> fed_error + unit" where
  "checkConstraints lib subs i =
     (case es_Constraints (subs ! i) of
        None \<Rightarrow> Inr ()
      | Some c \<Rightarrow>
          if (case co_MaxPathLength c of None \<Rightarrow> False | Some m \<Rightarrow> int i > m)
          then Inl (invalid_chain ''the max_path_length constraint was exceeded'')
          else
            (case co_NamingConstraints c of
               None \<Rightarrow> Inr ()
             | Some nc \<Rightarrow>
                 if list_all (\<lambda>j. namingAllows lib nc (es_Subject (subs ! j))) [0..<Suc i] then Inr ()
                 else Inl (invalid_chain ''the naming constraints are not satisfied'')))"

text \<open>The loop from the most superior statement down; it carries the expiry and the merged policy.\<close>

primrec resolveStatements ::
  "Lib \<Rightarrow> entityStatement list \<Rightarrow> nat \<Rightarrow> int \<Rightarrow> metadataPolicy \<Rightarrow> fed_error + (int \<times> metadataPolicy)" where
  "resolveStatements lib subs 0 expiresAt policy = Inr (expiresAt, policy)"
| "resolveStatements lib subs (Suc i) expiresAt policy =
     (let subStatement = subs ! i;
          expiresAt = (if es_ExpiresAt subStatement < expiresAt then es_ExpiresAt subStatement else expiresAt) in
      bindE (checkConstraints lib subs i) (\<lambda>_.
      case es_MetadataPolicy subStatement of
        None \<Rightarrow> resolveStatements lib subs i expiresAt policy
      | Some p \<Rightarrow>
          bindE (of_op (metadataPolicy_Merge policy p)) (\<lambda>policy.
          bindE (of_op (metadataPolicy_Validate policy)) (\<lambda>_.
          resolveStatements lib subs i expiresAt policy))))"

definition restrictEntityTypes :: "entityStatement \<Rightarrow> metadata \<Rightarrow> metadata" where
  "restrictEntityTypes first md =
     (case es_Constraints first of
        None \<Rightarrow> md
      | Some c \<Rightarrow>
          (case co_AllowedEntityTypes c of
             None \<Rightarrow> md
           | Some types \<Rightarrow>
               let md = (if ''openid_relying_party'' \<in> set types then md else md\<lparr>md_OpenIDClient := None\<rparr>) in
               (if ''openid_provider'' \<in> set types then md else md\<lparr>md_OpenIDProvider := None\<rparr>)))"

definition subordinateStatements :: "trustChain \<Rightarrow> entityStatement list" where
  "subordinateStatements chain = butlast (tl chain)"

definition resolve_chain :: "Lib \<Rightarrow> trustChain \<Rightarrow> fed_error + entityStatement" where
  "resolve_chain lib chain =
     (case chain of
        config # first # _ \<Rightarrow>
          let md = metadata_Merge (es_Metadata first) (es_Metadata config);
              subs = subordinateStatements chain in
          bindE (resolveStatements lib subs (length subs) (es_ExpiresAt config) zero_metadataPolicy) (\<lambda>(expiresAt, policy).
          bindE (of_op (metadataPolicy_Apply policy (restrictEntityTypes first md))) (\<lambda>md.
          Inr (config\<lparr>es_Metadata := md, es_ExpiresAt := expiresAt, es_TrustAnchor := es_Issuer (last chain)\<rparr>)))
      | _ \<Rightarrow> Inl FedPanic)"

definition resolve :: "nat \<Rightarrow> FedEnv \<Rightarrow> string \<Rightarrow> (entityStatement \<times> trustChain) fedprog" where
  "resolve fuel env i =
     tryM (fetchEntityConfiguration env i) (\<lambda>entityConfig.
     tryM (buildTrustChain fuel env entityConfig) (\<lambda>chain.
     tryM (pureE (resolve_chain (fe_Lib env) chain)) (\<lambda>config.
     okM (config, chain))))"

section \<open>Resolution enforces every policy and constraint of the chain\<close>

lemma of_op_ok: "of_op r = Inr x \<longleftrightarrow> r = Inr x"
  by (auto simp: of_op_def split: sum.splits op_error.splits)

text \<open>The policies of the statements below position \<open>i\<close>, in the order of the loop.\<close>

definition policies_below :: "entityStatement list \<Rightarrow> nat \<Rightarrow> metadataPolicy list" where
  "policies_below subs i = List.map_filter es_MetadataPolicy (map ((!) subs) (rev [0..<i]))"

lemma policies_below_simps [simp]:
  "policies_below subs 0 = []"
  "policies_below subs (Suc i) =
     (case es_MetadataPolicy (subs ! i) of None \<Rightarrow> policies_below subs i | Some p \<Rightarrow> p # policies_below subs i)"
  by (simp_all add: policies_below_def List.map_filter_simps split: option.splits)

lemma resolveStatements_ok:
  "resolveStatements lib subs i e p = Inr (e', q) \<Longrightarrow>
     merge_all metadataPolicy_Merge metadataPolicy_Validate p (policies_below subs i) = Inr q \<and>
     e' \<le> e \<and> (\<forall>j<i. e' \<le> es_ExpiresAt (subs ! j) \<and> checkConstraints lib subs j = Inr ())"
proof (induction i arbitrary: e p)
  case (Suc i)
  define e1 where "e1 = (if es_ExpiresAt (subs ! i) < e then es_ExpiresAt (subs ! i) else e)"
  have e1: "e1 \<le> e" "e1 \<le> es_ExpiresAt (subs ! i)"
    by (simp_all add: e1_def)
  have c: "checkConstraints lib subs i = Inr ()"
    using Suc.prems by (auto simp: bindE_ok Let_def)
  have step: "\<exists>p1. resolveStatements lib subs i e1 p1 = Inr (e', q) \<and>
      merge_all metadataPolicy_Merge metadataPolicy_Validate p (policies_below subs (Suc i)) =
        merge_all metadataPolicy_Merge metadataPolicy_Validate p1 (policies_below subs i)"
    using Suc.prems by (auto simp: bindE_ok Let_def of_op_ok e1_def split: option.splits)
  then obtain p1 where p1: "resolveStatements lib subs i e1 p1 = Inr (e', q)"
    "merge_all metadataPolicy_Merge metadataPolicy_Validate p (policies_below subs (Suc i)) =
        merge_all metadataPolicy_Merge metadataPolicy_Validate p1 (policies_below subs i)"
    by blast
  have ih: "merge_all metadataPolicy_Merge metadataPolicy_Validate p1 (policies_below subs i) = Inr q"
    "e' \<le> e1" "\<forall>j<i. e' \<le> es_ExpiresAt (subs ! j) \<and> checkConstraints lib subs j = Inr ()"
    using Suc.IH [OF p1(1)] by auto
  show ?case
    unfolding p1(2) using ih e1 c less_Suc_eq by auto
qed simp

lemma policies_below_all:
  "s \<in> set subs \<Longrightarrow> es_MetadataPolicy s = Some p \<Longrightarrow> p \<in> set (policies_below subs (length subs))"
  by (force simp: policies_below_def List.map_filter_def in_set_conv_nth)

lemma resolve_chain_ok:
  assumes "resolve_chain lib chain = Inr s"
  obtains config first rest e q where "chain = config # first # rest"
    "resolveStatements lib (subordinateStatements chain) (length (subordinateStatements chain)) (es_ExpiresAt config)
       zero_metadataPolicy = Inr (e, q)"
    "metadataPolicy_Apply q (restrictEntityTypes first (metadata_Merge (es_Metadata first) (es_Metadata config))) = Inr (es_Metadata s)"
    "es_ExpiresAt s = e" "es_TrustAnchor s = es_Issuer (last chain)" "es_Subject s = es_Subject config"
    "es_JWKS s = es_JWKS config"
  using assms that
  by (auto simp: resolve_chain_def bindE_ok Let_def of_op_ok split: list.splits)

section \<open>An example chain\<close>

lemma Merge_no_operators: "Merge t (no_operators t) low = Inr low"
  by (simp add: Merge_def no_operators_def mergeValue_def mergeAdd_def mergeDefault_def mergeOneOf_def mergeSubsetOf_def
      mergeSupersetOf_def mergeEssential_def isAddSet_def isDefaultSet_def isSubsetOfSet_def isSupersetOfSet_def)

lemma Apply_no_operators: "Apply t (no_operators t) v = Inr v"
  by (simp add: Apply_def no_operators_def applyValue_def applyAdd_def applyDefault_def applyOneOf_def applySubsetOf_def
      applySupersetOf_def applyEssential_def isAddSet_def isDefaultSet_def isSubsetOfSet_def isSupersetOfSet_def)

lemma Validate_no_operators: "Validate t (no_operators t) = Inr ()"
  by (simp add: op_eval)

lemma mergeFields_intro:
  "distinct (map fst fs) \<Longrightarrow> (\<And>k t. (k, t) \<in> set fs \<Longrightarrow> Merge t (h k) (l k) = Inr (m k)) \<Longrightarrow>
     (\<And>k. k \<notin> fst ` set fs \<Longrightarrow> m k = h k) \<Longrightarrow> mergeFields fs h l = Inr m"
proof (induction fs arbitrary: h)
  case (Cons x fs)
  obtain k t where x: "x = (k, t)"
    by (cases x)
  have "mergeFields fs (h(k := m k)) l = Inr m"
  proof (rule Cons.IH)
    show "Merge t' ((h(k := m k)) k') (l k') = Inr (m k')" if "(k', t') \<in> set fs" for k' t'
      using that Cons.prems(1) Cons.prems(2) [of k' t'] x by force
  qed (use Cons.prems(1,3) x in auto)
  then show ?case
    using Cons.prems(2) [of k t] x by simp
qed (simp add: fun_eq_iff)

lemma applyFields_intro:
  "distinct (map fst fs) \<Longrightarrow> (\<And>k t. (k, t) \<in> set fs \<Longrightarrow> applyField k t (p k) (c k) = Inr (c' k)) \<Longrightarrow>
     (\<And>k. k \<notin> fst ` set fs \<Longrightarrow> c' k = c k) \<Longrightarrow> applyFields fs p c = Inr c'"
proof (induction fs arbitrary: c)
  case (Cons x fs)
  obtain k t where x: "x = (k, t)"
    by (cases x)
  have "applyFields fs p (c(k := c' k)) = Inr c'"
  proof (rule Cons.IH)
    show "applyField k' t' (p k') ((c(k := c' k)) k') = Inr (c' k')" if "(k', t') \<in> set fs" for k' t'
      using that Cons.prems(1) Cons.prems(2) [of k' t'] x by force
  qed (use Cons.prems(1,3) x in auto)
  then show ?case
    using Cons.prems(2) [of k t] x by simp
qed (simp add: fun_eq_iff)

lemma zero_providerPolicy_field: "(k, t) \<in> set providerFields \<Longrightarrow> zero_providerPolicy k = no_operators t"
  using map_of_is_SomeI [OF providerFields_distinct] by (simp add: zero_providerPolicy_def)

text \<open>A policy with operators for one parameter of a provider.\<close>

lemma one_parameter:
  assumes "(k0, t0) \<in> set providerFields" and "k0 \<noteq> ''scope''" and "''scope'' \<notin> fst ` set providerFields"
    and "Validate t0 ops = Inr ()" and "Apply t0 ops (c k0) = Inr v"
  shows "providerPolicy_Merge zero_providerPolicy (zero_providerPolicy(k0 := ops)) = Inr (zero_providerPolicy(k0 := ops))"
    and "providerPolicy_Validate (zero_providerPolicy(k0 := ops)) = Inr ()"
    and "providerPolicy_Apply (zero_providerPolicy(k0 := ops)) c = Inr (c(k0 := v))"
proof -
  have uniq: "t = t0" if "(k0, t) \<in> set providerFields" for t
    using that assms(1) providerFields_distinct eq_key_imp_eq_value by metis
  show "providerPolicy_Merge zero_providerPolicy (zero_providerPolicy(k0 := ops)) = Inr (zero_providerPolicy(k0 := ops))"
    unfolding providerPolicy_Merge_def
  proof (rule mergeFields_intro [OF providerFields_distinct])
    show "(zero_providerPolicy(k0 := ops)) k = zero_providerPolicy k" if "k \<notin> fst ` set providerFields" for k
      using that assms(1) by force
  qed (simp add: zero_providerPolicy_field Merge_no_operators)
  show "providerPolicy_Validate (zero_providerPolicy(k0 := ops)) = Inr ()"
    using assms(4) uniq by (auto simp: providerPolicy_Validate_def validateFields_ok zero_providerPolicy_field Validate_no_operators)
  show "providerPolicy_Apply (zero_providerPolicy(k0 := ops)) c = Inr (c(k0 := v))"
    unfolding providerPolicy_Apply_def
  proof (rule applyFields_intro [OF providerFields_distinct])
    show "applyField k t ((zero_providerPolicy(k0 := ops)) k) (c k) = Inr ((c(k0 := v)) k)" if "(k, t) \<in> set providerFields" for k t
      using that uniq [of t] assms(2,3,5) by (force simp: applyField_def zero_providerPolicy_field Apply_no_operators)
    show "(c(k0 := v)) k = c k" if "k \<notin> fst ` set providerFields" for k
      using that assms(1) by force
  qed
qed

definition example_config :: entityStatement where
  "example_config = zero_entityStatement\<lparr>es_Issuer := ''https://op'', es_Subject := ''https://op'', es_ExpiresAt := 100,
     es_Metadata := zero_metadata\<lparr>md_OpenIDProvider := Some ((\<lambda>_. JNull)(''scopes_supported'' := JArr [JStr ''email'']))\<rparr>\<rparr>"

definition example_sub :: entityStatement where
  "example_sub = zero_entityStatement\<lparr>es_Issuer := ''https://ta'', es_Subject := ''https://op'', es_ExpiresAt := 50,
     es_Constraints := Some \<lparr>co_MaxPathLength = Some 0, co_NamingConstraints = None, co_AllowedEntityTypes = None\<rparr>,
     es_MetadataPolicy := Some (zero_metadataPolicy\<lparr>mp_OpenIDProvider := Some (zero_providerPolicy(''scopes_supported'' := example_ops))\<rparr>)\<rparr>"

definition example_anchor :: entityStatement where
  "example_anchor = zero_entityStatement\<lparr>es_Issuer := ''https://ta'', es_Subject := ''https://ta''\<rparr>"

definition example_resolved :: entityStatement where
  "example_resolved = example_config\<lparr>es_ExpiresAt := 50, es_TrustAnchor := ''https://ta'',
     es_Metadata := zero_metadata\<lparr>md_OpenIDProvider :=
       Some ((\<lambda>_. JNull)(''scopes_supported'' := JArr [JStr ''email'', JStr ''openid'']))\<rparr>\<rparr>"

lemma example_field: "(''scopes_supported'', TSlice) \<in> set providerFields" "''scope'' \<notin> fst ` set providerFields"
  by (simp_all add: providerFields_def)

lemma example_resolves: "resolve_chain lib [example_config, example_sub, example_anchor] = Inr example_resolved"
proof -
  have ops: "Validate TSlice example_ops = Inr ()"
    "Apply TSlice example_ops (((\<lambda>_. JNull)(''scopes_supported'' := JArr [JStr ''email''])) ''scopes_supported'') =
       Inr (JArr [JStr ''email'', JStr ''openid''])"
    by (simp_all add: op_eval)
  note one = one_parameter [where c = "(\<lambda>_. JNull)(''scopes_supported'' := JArr [JStr ''email''])",
      OF example_field(1) _ example_field(2) ops]
  show ?thesis
    by (simp add: resolve_chain_def subordinateStatements_def example_config_def example_sub_def example_anchor_def
        example_resolved_def zero_entityStatement_def zero_metadata_def zero_metadataPolicy_def checkConstraints_def
        metadataPolicy_Merge_def metadataPolicy_Validate_def metadataPolicy_Apply_def one metadata_Merge_def
        mergeProviderMeta_def mergeClientMeta_def restrictEntityTypes_def of_op_def)
qed

text \<open>C8: The metadata an entity is resolved to satisfies the metadata policy of every subordinate statement in its trust chain,
  from the trust anchor down to its immediate superior, however the policies were merged on the way.\<close>

theorem resolution_enforces_policies:
  assumes "resolve_chain lib chain = Inr s" and "sub \<in> set (subordinateStatements chain)"
    and "es_MetadataPolicy sub = Some policy"
  shows "satisfies policy (es_Metadata s)"
proof -
  from assms(1) obtain config first rest e q where
    *: "resolveStatements lib (subordinateStatements chain) (length (subordinateStatements chain)) (es_ExpiresAt config)
       zero_metadataPolicy = Inr (e, q)" and "chain = config # first # rest"
    and "metadataPolicy_Apply q (restrictEntityTypes first (metadata_Merge (es_Metadata first) (es_Metadata config))) = Inr (es_Metadata s)"
    by (rule resolve_chain_ok)
  moreover have "policy_good zero_metadataPolicy" "metadataPolicy_Validate zero_metadataPolicy = Inr ()"
    by (simp_all add: policy_good_def zero_metadataPolicy_def metadataPolicy_Validate_def)
  ultimately have "\<forall>p\<in>set (policies_below (subordinateStatements chain) (length (subordinateStatements chain))). satisfies p (es_Metadata s)"
    using resolveStatements_ok [OF *] entities.all_enforced by blast
  then show ?thesis
    using policies_below_all [OF assms(2,3)] by blast
qed

theorem resolution_enforces_policies_witness:
  "satisfies (zero_metadataPolicy\<lparr>mp_OpenIDProvider := Some (zero_providerPolicy(''scopes_supported'' := example_ops))\<rparr>)
     (es_Metadata example_resolved)"
  by (rule resolution_enforces_policies [OF example_resolves, of example_sub])
    (simp_all add: subordinateStatements_def example_sub_def)



section \<open>Chains that clients present\<close>

text \<open>What the program relies on of the JOSE library: a verified token has the payload it shows unverified; validated claims
  have the expected issuer and subject, where these are not empty; and the claims of a payload agree however they are
  decoded.\<close>

definition jose_laws :: "FedEnv \<Rightarrow> bool" where
  "jose_laws env \<longleftrightarrow>
     (\<forall>t k p. l_Verify (fe_Lib env) t k = Inr p \<longrightarrow> p = l_Payload (fe_Lib env) t) \<and>
     (\<forall>n c ex l. l_ValidateWithLeeway (fe_Lib env) n c ex l = None \<longrightarrow>
        (ex_Issuer ex \<noteq> '''' \<longrightarrow> jc_Issuer c = ex_Issuer ex) \<and> (ex_Subject ex \<noteq> '''' \<longrightarrow> jc_Subject c = ex_Subject ex)) \<and>
     (\<forall>p c s. l_DecodeClaims (fe_Lib env) p = Inr c \<longrightarrow> fe_DecodeStatement env p = Inr s \<longrightarrow>
        jc_Issuer c = es_Issuer s \<and> jc_Subject c = es_Subject s)"

text \<open>The statement is what a token says that verifies under one of the keys; and what a token says at all.\<close>

definition signed_by :: "FedEnv \<Rightarrow> entityStatement \<Rightarrow> JSONWebKey list \<Rightarrow> bool" where
  "signed_by env s jwks \<longleftrightarrow>
     (\<exists>t p s0. l_ParseSigned (fe_Lib env) (es_signed s) (fe_SigAlgs env) = Inr t \<and> l_Verify (fe_Lib env) t (VKeySet jwks) = Inr p \<and>
       fe_DecodeStatement env p = Inr s0 \<and> s = s0\<lparr>es_signed := es_signed s\<rparr>)"

definition says :: "FedEnv \<Rightarrow> string \<Rightarrow> entityStatement \<Rightarrow> bool" where
  "says env str s \<longleftrightarrow>
     (\<exists>t. l_ParseSigned (fe_Lib env) str (fe_SigAlgs env) = Inr t \<and> fe_DecodeStatement env (l_Payload (fe_Lib env) t) = Inr s)"

text \<open>\<open>s\<close> is a statement of the subject of \<open>t\<close>, under the keys \<open>t\<close> gives it, about the issuer of \<open>prev\<close>.\<close>

definition superior_says :: "FedEnv \<Rightarrow> entityStatement \<Rightarrow> entityStatement \<Rightarrow> entityStatement \<Rightarrow> bool" where
  "superior_says env prev s t \<longleftrightarrow>
     signed_by env s (elems (es_JWKS t)) \<and> (es_Subject t \<noteq> '''' \<longrightarrow> es_Issuer s = es_Subject t) \<and>
     (es_Issuer prev \<noteq> '''' \<longrightarrow> es_Subject s = es_Issuer prev)"

fun vouched :: "FedEnv \<Rightarrow> entityStatement \<Rightarrow> entityStatement list \<Rightarrow> bool" where
  "vouched env prev (s # t # rest) \<longleftrightarrow> superior_says env prev s t \<and> vouched env s (t # rest)"
| "vouched env prev _ \<longleftrightarrow> True"

lemma pureE_ok [ok_simps]: "pureE r n = (Inr x, n') \<longleftrightarrow> r = Inr x \<and> n' = n"
  by (auto simp: pureE_def)

lemma goE_ok [ok_simps]: "goE r n = (Inr x, n') \<longleftrightarrow> r = Inr x \<and> n' = n"
  by (auto simp: goE_def pureE_def of_go_def split: sum.splits)

lemma outside_ok [ok_simps]: "outside f n = (Inr x, n') \<longleftrightarrow> x = f n \<and> n' = Suc n"
  by (auto simp: outside_def)

lemma outsideE_ok [ok_simps]: "outsideE f n = (Inr x, n') \<longleftrightarrow> f n = Inr x \<and> n' = Suc n"
  by (auto simp: outsideE_def of_go_def split: sum.splits)

lemma case_list_ok [ok_simps]:
  "(case xs of [] \<Rightarrow> failM e | h # r \<Rightarrow> k h r) w = (Inr y, w') \<longleftrightarrow> (\<exists>h r. xs = h # r \<and> k h r w = (Inr y, w'))"
  by (cases xs) simp_all

lemma parseEntityStatement0_ok:
  assumes "parseEntityStatement0 chainOf env str opts n = (Inr (s, ch), n')"
  shows "\<exists>t p c s0 m. l_ParseSigned (fe_Lib env) str (fe_SigAlgs env) = Inr t \<and> l_Verify (fe_Lib env) t (VKeySet (po_jwks opts)) = Inr p \<and>
    l_DecodeClaims (fe_Lib env) p = Inr c \<and> fe_DecodeStatement env p = Inr s0 \<and> s = s0\<lparr>es_signed := str\<rparr> \<and>
    l_ValidateWithLeeway (fe_Lib env) m c \<lparr>ex_Issuer = po_issuer opts, ex_Subject = po_subject opts,
      ex_AnyAudience = (if po_explicitRegistration opts then [fe_Issuer env] else [])\<rparr> (fe_JWTLeewayTimeSecs env) = None"
  using assms
  by (auto simp: parseEntityStatement0_def parse_signed_def ok_simps)

lemma parseEntityStatement_ok:
  assumes "jose_laws env" and "parseEntityStatement env str jwks iss sub n = (Inr s, n')"
  shows "signed_by env s jwks" and "es_signed s = str" and "iss \<noteq> '''' \<Longrightarrow> es_Issuer s = iss" and "sub \<noteq> '''' \<Longrightarrow> es_Subject s = sub"
proof -
  obtain ch n1 where "parseEntityStatement0 no_chain env str \<lparr>po_jwks = jwks, po_issuer = iss, po_subject = sub,
      po_explicitRegistration = False\<rparr> n = (Inr (s, ch), n1)"
    using assms(2) by (auto simp: parseEntityStatement_def ok_simps)
  from parseEntityStatement0_ok [OF this] obtain t p c s0 m where
    *: "l_ParseSigned (fe_Lib env) str (fe_SigAlgs env) = Inr t" "l_Verify (fe_Lib env) t (VKeySet jwks) = Inr p"
      "l_DecodeClaims (fe_Lib env) p = Inr c" "fe_DecodeStatement env p = Inr s0" "s = s0\<lparr>es_signed := str\<rparr>"
      "l_ValidateWithLeeway (fe_Lib env) m c \<lparr>ex_Issuer = iss, ex_Subject = sub, ex_AnyAudience = []\<rparr> (fe_JWTLeewayTimeSecs env) = None"
    by auto
  show "signed_by env s jwks" "es_signed s = str"
    using * by (auto simp: signed_by_def)
  have "jc_Issuer c = es_Issuer s0 \<and> jc_Subject c = es_Subject s0"
    using assms(1) *(3,4) unfolding jose_laws_def by blast
  moreover have "(iss \<noteq> '''' \<longrightarrow> jc_Issuer c = iss) \<and> (sub \<noteq> '''' \<longrightarrow> jc_Subject c = sub)"
    using assms(1) *(6) unfolding jose_laws_def by fastforce
  ultimately show "iss \<noteq> '''' \<Longrightarrow> es_Issuer s = iss" "sub \<noteq> '''' \<Longrightarrow> es_Subject s = sub"
    using *(5) by auto
qed

lemma parseSubordinateStatement_ok:
  "parseSubordinateStatement env str jwks iss sub n = (Inr s, n') \<Longrightarrow> \<exists>n1. parseEntityStatement env str jwks iss sub n = (Inr s, n1)"
  by (auto simp: parseSubordinateStatement_def ok_simps)

lemma signed_says:
  assumes "jose_laws env" and "signed_by env s jwks" and "es_signed s = str" and "says env str s0"
  shows "s = s0\<lparr>es_signed := str\<rparr>"
  using assms unfolding signed_by_def says_def jose_laws_def by fastforce

lemma unverified_says:
  "parse_signed env str n = (Inr t, n1) \<Longrightarrow> unverified env t n1 = (Inr s, n2) \<Longrightarrow> says env str s"
  by (auto simp: parse_signed_def unverified_def says_def ok_simps)

lemma says_unique: "says env str s \<Longrightarrow> says env str s' \<Longrightarrow> s = s'"
  by (auto simp: says_def)

lemma parseChainStatements_vouched:
  assumes "jose_laws env" and "says env (last ss) anchor" and "ss \<noteq> []"
    and "parseChainStatements env prev ss n = (Inr subs, n')"
  shows "(subs \<noteq> [] \<longrightarrow> es_signed (hd subs) = hd ss \<and> (\<exists>jwks. signed_by env (hd subs) jwks)) \<and> length subs = length ss - 1 \<and>
    (\<forall>a. es_JWKS a = es_JWKS anchor \<longrightarrow> es_Subject a = es_Subject anchor \<longrightarrow> vouched env prev (subs @ [a]))"
  using assms(2-4)
proof (induction ss arbitrary: prev n n' subs)
  case (Cons str ss)
  show ?case
  proof (cases ss)
    case Nil
    then show ?thesis
      using Cons.prems(3) by auto
  next
    case (Cons nxt rest)
    obtain t c s subs' n1 n2 n3 n4 where
      1: "parse_signed env nxt n = (Inr t, n1)" "unverified env t n1 = (Inr c, n2)"
      and 2: "parseSubordinateStatement env str (elems (es_JWKS c)) (es_Subject c) (es_Issuer prev) n2 = (Inr s, n3)"
      and 3: "parseChainStatements env s ss n3 = (Inr subs', n4)" and subs: "subs = s # subs'"
      using Cons.prems(3) Cons by (auto simp: ok_simps)
    have c: "says env nxt c"
      using unverified_says [OF 1] .
    obtain m where p: "parseEntityStatement env str (elems (es_JWKS c)) (es_Subject c) (es_Issuer prev) n2 = (Inr s, m)"
      using parseSubordinateStatement_ok [OF 2] by blast
    note s = parseEntityStatement_ok [OF assms(1) p]
    have ih: "subs' \<noteq> [] \<longrightarrow> es_signed (hd subs') = nxt \<and> (\<exists>jwks. signed_by env (hd subs') jwks)" "length subs' = length ss - 1"
      "\<And>a. es_JWKS a = es_JWKS anchor \<Longrightarrow> es_Subject a = es_Subject anchor \<Longrightarrow> vouched env s (subs' @ [a])"
      using Cons.IH [OF _ _ 3] Cons.prems(1) Cons by auto
    have "vouched env prev (subs @ [a])" if a: "es_JWKS a = es_JWKS anchor" "es_Subject a = es_Subject anchor" for a
    proof (cases subs')
      case Nil
      then have "c = anchor"
        using ih(2) Cons Cons.prems(1) c says_unique by (cases rest) auto
      then show ?thesis
        using s a Nil subs by (simp add: superior_says_def)
    next
      case (Cons s' subs'')
      then have "s' = c\<lparr>es_signed := nxt\<rparr>"
        using signed_says [OF assms(1) _ _ c, of s'] ih(1) by auto
      then show ?thesis
        using ih(3) [OF a] s subs Cons by (simp add: superior_says_def)
    qed
    then show ?thesis
      using subs s(1,2) ih(2) Cons by auto
  qed
qed simp

lemma parseEntityConfiguration_ok:
  assumes "parseEntityConfiguration env str n = (Inr s, n')"
  shows "jose_laws env \<Longrightarrow> signed_by env s (elems (es_JWKS s))" and "es_signed s = str" and "\<exists>s0. says env str s0"
proof -
  obtain t self n1 n2 ch n3 where 1: "parse_signed env str n = (Inr t, n1)" "unverified env t n1 = (Inr self, n2)"
    and 2: "parseEntityStatement0 no_chain env str \<lparr>po_jwks = elems (es_JWKS self), po_issuer = es_Issuer self,
      po_subject = es_Issuer self, po_explicitRegistration = False\<rparr> n2 = (Inr (s, ch), n3)"
    using assms by (auto simp: parseEntityConfiguration_def parseEntityConfiguration0_def ok_simps mapErrM_ok)
  have self: "says env str self"
    using unverified_says [OF 1] .
  then show "\<exists>s0. says env str s0"
    by blast
  obtain t p s0 where *: "l_ParseSigned (fe_Lib env) str (fe_SigAlgs env) = Inr t"
    "l_Verify (fe_Lib env) t (VKeySet (elems (es_JWKS self))) = Inr p" "fe_DecodeStatement env p = Inr s0" "s = s0\<lparr>es_signed := str\<rparr>"
    using parseEntityStatement0_ok [OF 2] by auto
  then show "es_signed s = str"
    by simp
  assume laws: "jose_laws env"
  have "signed_by env s (elems (es_JWKS self))"
    using * by (auto simp: signed_by_def)
  moreover from this have "s = self\<lparr>es_signed := str\<rparr>"
    by (rule signed_says [OF laws]) (simp_all add: * self)
  ultimately show "signed_by env s (elems (es_JWKS s))"
    by simp
qed

lemma parseAuthorityConfiguration_ok:
  "parseAuthorityConfiguration env str n = (Inr s, n') \<Longrightarrow> \<exists>n1. parseEntityConfiguration env str n = (Inr s, n1)"
  by (auto simp: parseAuthorityConfiguration_def ok_simps)

lemma completeChain_ok:
  assumes "jose_laws env" and "ss \<noteq> []" and "es_signed anchor = str" and "says env str a0"
    and "signed_by env anchor (elems (es_JWKS anchor))"
    and "completeChain env ss l anchor n = (Inr ss', n')"
  shows "\<exists>a. hd ss' = hd ss \<and> ss' \<noteq> [] \<and> tl ss' \<noteq> [] = (tl ss \<noteq> [] \<or> ss' \<noteq> ss) \<and> says env (last ss') a \<and>
    signed_by env (a\<lparr>es_signed := last ss'\<rparr>) (elems (es_JWKS anchor))"
proof (cases "es_Subject l \<noteq> es_Issuer l")
  case True
  then have "ss' = ss @ [str]"
    using assms by (auto simp: completeChain_def ok_simps)
  moreover have "anchor = a0\<lparr>es_signed := str\<rparr>"
    using signed_says [OF assms(1,5,3,4)] .
  ultimately show ?thesis
    using assms by (intro exI [of _ a0]) (auto simp: hd_append)
next
  case False
  then obtain c n1 x n2 where c: "parseAuthorityConfiguration env (last ss) n = (Inr c, n1)"
    and x: "parseEntityStatement env (es_signed c) (elems (es_JWKS anchor)) (es_Issuer c) (es_Issuer c) n1 = (Inr x, n2)"
    and ss': "ss' = ss"
    using assms(6) by (auto simp: completeChain_def ok_simps)
  obtain m where "parseEntityConfiguration env (last ss) n = (Inr c, m)"
    using parseAuthorityConfiguration_ok [OF c] by blast
  then obtain a where a: "says env (last ss) a" "es_signed c = last ss"
    using parseEntityConfiguration_ok by blast
  note x = parseEntityStatement_ok [OF assms(1) x]
  have "x = a\<lparr>es_signed := last ss\<rparr>"
    using signed_says [OF assms(1) x(1) _ a(1)] x(2) a(2) by simp
  then show ?thesis
    using x(1) a ss' assms(2) by (intro exI [of _ a]) auto
qed

lemma parseTrustChain_vouched:
  assumes "jose_laws env" and "parseTrustChain env ss n = (Inr chain, n')"
  shows "\<exists>config subs anchor anchor' m m'. chain = config # subs @ [anchor] \<and> subs \<noteq> [] \<and>
    (\<exists>i\<in>set (fe_TrustedAnchors env). fetchAuthorityConfiguration env i m = (Inr anchor, m')) \<and>
    signed_by env config (elems (es_JWKS (hd subs))) \<and> vouched env config (subs @ [anchor']) \<and>
    signed_by env anchor' (elems (es_JWKS anchor))"
proof -
  obtain l anchor ss' config subs m m' m1 m2 m3 m4 m5 m6 x where
    anchor: "es_Issuer l \<in> set (fe_TrustedAnchors env)" "fetchAuthorityConfiguration env (es_Issuer l) m = (Inr anchor, m')"
    and complete: "completeChain env ss l anchor m' = (Inr ss', m1)" and len: "\<not> length ss < 2"
    and config: "parseEntityConfiguration env (hd ss') m1 = (Inr config, m2)"
    and subs: "parseChainStatements env config (tl ss') m2 = (Inr subs, m3)" "subs \<noteq> []"
    and x: "parseEntityStatement env (es_signed config) (elems (es_JWKS (hd subs))) (es_Issuer config) (es_Subject config) m3 = (Inr x, m4)"
    and chain: "chain = config # subs @ [anchor]"
    using assms(2) unfolding parseTrustChain_def by (auto simp: ok_simps)
  obtain str k k' where "parseEntityConfiguration env str k = (Inr anchor, k')"
    using anchor(2) by (auto simp: fetchAuthorityConfiguration_def ok_simps dest!: parseAuthorityConfiguration_ok)
  note a = parseEntityConfiguration_ok [OF this]
  obtain a0 where "says env str a0"
    using a(3) by blast
  from completeChain_ok [OF assms(1) _ a(2) this a(1) [OF assms(1)] complete] len
  obtain a' where a': "says env (last ss') a'" "signed_by env (a'\<lparr>es_signed := last ss'\<rparr>) (elems (es_JWKS anchor))" "tl ss' \<noteq> []"
    by (cases ss; cases "tl ss") auto
  then have "says env (last (tl ss')) a'"
    by (cases ss') auto
  from parseChainStatements_vouched [OF assms(1) this a'(3) subs(1)]
  have "vouched env config (subs @ [a'\<lparr>es_signed := last ss'\<rparr>])"
    by simp
  moreover have "signed_by env config (elems (es_JWKS (hd subs)))"
  proof -
    note x' = parseEntityStatement_ok [OF assms(1) x]
    obtain c0 where "says env (hd ss') c0" "es_signed config = hd ss'"
      using parseEntityConfiguration_ok [OF config] by blast
    then have "x = config"
      using signed_says [OF assms(1) x'(1)] signed_says [OF assms(1) parseEntityConfiguration_ok(1) [OF config assms(1)]] x'(2)
      by simp
    then show ?thesis
      using x'(1) by simp
  qed
  ultimately show ?thesis
    using chain subs(2) anchor a'(2) by blast
qed

end
