(* ===== verification/Federation.thy ===== *)
theory Federation
  imports TrustChain
begin

text \<open>
  Properties of trust chains: what an accepted chain guarantees, when the search for one returns, and two ways in which a
  forged chain is accepted, shown on a small federation.
\<close>

section \<open>A small federation\<close>

text \<open>Concrete federations for the examples: a table of tokens with their statements, signing keys and chain headers, and a table of
  what is served where.\<close>

record token =
  tk_Statement :: entityStatement
  tk_Key :: JSONWebKey
  tk_Headers :: "(string \<times> json) list"

definition token_header :: "token option \<Rightarrow> JoseHeader" where
  "token_header tk = \<lparr>jh_KeyID = ''k'', jh_Algorithm = ''ES256'', jh_JSONWebKey = None,
     jh_ExtraHeaders = (''typ'', JStr jwtTypeEntityStatement) # (case tk of None \<Rightarrow> [] | Some t \<Rightarrow> tk_Headers t)\<rparr>"

definition small_lib :: "(string \<Rightarrow> token option) \<Rightarrow> Lib" where
  "small_lib tokens = base_Lib\<lparr>
     l_ParseSigned := (\<lambda>s _. case tokens s of None \<Rightarrow> Inl (ErrNew ''malformed'')
       | Some t \<Rightarrow> Inr \<lparr>jwt_Headers = [token_header (tokens s)], jwt_Raw = s\<rparr>),
     l_Verify := (\<lambda>t k. case (tokens (jwt_Raw t), k) of
       (Some tk, VKeySet ks) \<Rightarrow> if tk_Key tk \<in> set ks then Inr (jwt_Raw t) else Inl (ErrNew ''signature'') | _ \<Rightarrow> Inl (ErrNew ''key'')),
     l_DecodeClaims := (\<lambda>s. case tokens s of None \<Rightarrow> Inl (ErrNew ''claims'')
       | Some t \<Rightarrow> Inr \<lparr>jc_Issuer = es_Issuer (tk_Statement t), jc_Subject = es_Subject (tk_Statement t), jc_Audience = [],
           jc_Expiry = Some 100, jc_NotBefore = None, jc_IssuedAt = Some 1, jc_ID = ''''\<rparr>),
     l_ValidateWithLeeway := (\<lambda>_ c ex _.
       if ex_Issuer ex \<noteq> '''' \<and> jc_Issuer c \<noteq> ex_Issuer ex \<or> ex_Subject ex \<noteq> '''' \<and> jc_Subject c \<noteq> ex_Subject ex
       then Some (ErrNew ''claims'') else None),
     l_url_Parse := (\<lambda>s. Inr \<lparr>u_Scheme = ''https'', u_Opaque = '''', u_User = None, u_Host = s, u_Path = '''', u_RawPath = '''',
       u_OmitHost = False, u_ForceQuery = False, u_RawQuery = '''', u_Fragment = '''', u_RawFragment = ''''\<rparr>),
     l_url_String := (\<lambda>u. u_Host u @ ''?'' @ u_RawQuery u)\<rparr>"

definition small_env :: "(string \<Rightarrow> token option) \<Rightarrow> (string \<Rightarrow> string option) \<Rightarrow> string list \<Rightarrow> FedEnv" where
  "small_env tokens served anchors =
    \<lparr>fe_Lib = small_lib tokens, fe_Issuer = ''https://op'', fe_SigAlgs = [''ES256''], fe_TrustedAnchors = anchors,
     fe_TrustChainMaxDepth = 5, fe_JWTLeewayTimeSecs = 0, fe_NewRequest = (\<lambda>_ _. None),
     fe_Do = (\<lambda>_ r. case served (fr_URL r) of None \<Rightarrow> Inl (ErrNew ''unreachable'')
       | Some s \<Rightarrow> Inr \<lparr>fp_StatusCode = 200, fp_MediaType = contentTypeEntityStatementJWT, fp_ContentLength = -1, fp_Body = Inr s\<rparr>),
     fe_Encode = (\<lambda>ps. concat (map (\<lambda>(k, v). k @ ''='' @ v) ps)), fe_Sign = (\<lambda>_ _ _. Inl (ErrNew ''no key'')), fe_JWTID = (\<lambda>_. ''id''),
     fe_DecodeStatement = (\<lambda>s. case tokens s of None \<Rightarrow> Inl (ErrNew ''statement'') | Some t \<Rightarrow> Inr (tk_Statement t)),
     fe_DecodeTrustMark = (\<lambda>_. Inl (ErrNew ''mark'')), fe_HasAudience = (\<lambda>_. False)\<rparr>"

lemma small_laws: "jose_laws (small_env tokens served anchors)"
  by (auto simp: jose_laws_def small_env_def small_lib_def base_Lib_def split: option.splits VerificationKey.splits if_splits)

text \<open>A statement that every parser takes: one without the claims that one of the two kinds must not have.\<close>

definition plain :: "entityStatement \<Rightarrow> bool" where
  "plain s \<longleftrightarrow> es_JWKS s \<noteq> None \<and> es_TrustAnchor s = '''' \<and> es_TrustAnchorHints s = None \<and> es_MetadataPolicy s = None \<and>
     es_MetadataPolicyCritical s = None \<and> es_Constraints s = None \<and> es_SourceEndpoint s = '''' \<and> es_TrustMarks s = None \<and>
     es_TrustMarkIssuers s = None \<and> es_TrustMarkOwners s = None \<and> es_AuthorityHints s \<noteq> Some []"

lemmas small_defs = small_env_def small_lib_def base_Lib_def

lemma small_parse:
  assumes "tokens str = Some t" and "tk_Headers t = []" and "plain (tk_Statement t)"
    and "tk_Key t \<in> set jwks" and "es_Issuer (tk_Statement t) = iss" and "es_Subject (tk_Statement t) = sub"
  shows "parseEntityStatement (small_env tokens served anchors) str jwks iss sub n =
    (Inr ((tk_Statement t)\<lparr>es_signed := str\<rparr>), Suc n)"
  using assms
  by (auto simp: parseEntityStatement_def parseEntityStatement0_def parse_signed_def small_defs goE_def pureE_def of_go_def plain_def
      tryM_def mapErrM_def guardM_run header_chain_def header_value_def token_header_def outside_def checkM_def const_defs Let_def)

lemma small_config:
  assumes "tokens str = Some t" and "tk_Headers t = []" and "plain (tk_Statement t)"
    and "tk_Key t \<in> set (elems (es_JWKS (tk_Statement t)))" and "es_Issuer (tk_Statement t) = es_Subject (tk_Statement t)"
  shows "parseEntityConfiguration (small_env tokens served anchors) str n = (Inr ((tk_Statement t)\<lparr>es_signed := str\<rparr>), Suc n)"
  using assms
  by (auto simp: parseEntityConfiguration_def parseEntityConfiguration0_def unverified_def parseEntityStatement0_def parse_signed_def
      small_defs goE_def pureE_def of_go_def plain_def tryM_def mapErrM_def guardM_run header_chain_def header_value_def
      token_header_def outside_def checkM_def const_defs Let_def)

lemma small_sub:
  assumes "tokens str = Some t" and "tk_Headers t = []" and "plain (tk_Statement t)"
    and "tk_Key t \<in> set jwks" and "es_Issuer (tk_Statement t) = iss" and "es_Subject (tk_Statement t) = sub"
    and "es_AuthorityHints (tk_Statement t) = None"
  shows "parseSubordinateStatement (small_env tokens served anchors) str jwks iss sub n =
    (Inr ((tk_Statement t)\<lparr>es_signed := str\<rparr>), Suc n)"
  using small_parse [of tokens str t jwks iss sub served anchors n] assms
  by (simp add: parseSubordinateStatement_def guardM_run plain_def goE_def pureE_def of_go_def of_op_def tryM_def mapErrM_def)

lemma small_unverified:
  assumes "tokens str = Some t"
  shows "tryM (mapErrM f (parse_signed (small_env tokens served anchors) str)) (\<lambda>p. tryM (mapErrM f (unverified (small_env tokens served anchors) p)) k) n =
    k (tk_Statement t) n"
  using assms by (simp add: parse_signed_def unverified_def small_defs goE_def pureE_def of_go_def tryM_def mapErrM_def)

lemma small_fetch:
  assumes "served (fr_URL r) = Some str" and "length str \<le> 1000"
  shows "fetchEntityStatement (small_env tokens served anchors) r n = (Inr str, Suc n)"
  using assms by (simp add: fetchEntityStatement_def small_env_def outsideE_def of_go_def tryM_def mapErrM_def guardM_run
      goE_def pureE_def maxResponseByteSize_def Let_def)

lemma small_authority:
  assumes "served (i @ federationEndpointPath) = Some str" and "length str \<le> 1000" and "tokens str = Some t" and "tk_Headers t = []"
    and "plain (tk_Statement t)" and "tk_Key t \<in> set (elems (es_JWKS (tk_Statement t)))"
    and "es_Issuer (tk_Statement t) = es_Subject (tk_Statement t)" and "md_FederationAuthority (es_Metadata (tk_Statement t)) \<noteq> None"
  shows "fetchAuthorityConfiguration (small_env tokens served anchors) i n = (Inr ((tk_Statement t)\<lparr>es_signed := str\<rparr>), Suc (Suc n))"
proof -
  let ?r = "\<lparr>fr_Method = ''GET'', fr_URL = i @ federationEndpointPath, fr_ContentType = '''', fr_Body = ''''\<rparr>"
  have "fetchEntityStatement (small_env tokens served anchors) ?r n = (Inr str, Suc n)"
    by (rule small_fetch) (simp_all add: assms)
  moreover have "parseAuthorityConfiguration (small_env tokens served anchors) str (Suc n) = (Inr ((tk_Statement t)\<lparr>es_signed := str\<rparr>), Suc (Suc n))"
    using small_config [of tokens str t served anchors "Suc n"] assms by (simp add: parseAuthorityConfiguration_def guardM_run)
  ultimately show ?thesis
    by (simp add: fetchAuthorityConfiguration_def newRequest_def small_env_def)
qed

definition key_of :: "string \<Rightarrow> JSONWebKey" where
  "key_of name = zero_JSONWebKey\<lparr>jwk_KeyID := name\<rparr>"

definition authority_at :: "string \<Rightarrow> metadata" where
  "authority_at endpoint = zero_metadata\<lparr>md_FederationAuthority := Some \<lparr>fa_FetchEndpoint = endpoint, fa_FetchEndpointAuthMethods = [],
     fa_TrustMarkEndpoint = '''', fa_TrustMarkEndpointAuthMethods = [], fa_EndpointAuthSigAlgValuesSupported = []\<rparr>\<rparr>"

definition statement_of :: "string \<Rightarrow> string \<Rightarrow> string \<Rightarrow> entityStatement" where
  "statement_of iss sub key = zero_entityStatement\<lparr>es_Issuer := iss, es_Subject := sub, es_ExpiresAt := 100, es_JWKS := Some [key_of key]\<rparr>"

definition signed :: "entityStatement \<Rightarrow> string \<Rightarrow> token" where
  "signed s key = \<lparr>tk_Statement = s, tk_Key = key_of key, tk_Headers = []\<rparr>"

text \<open>An anchor, a client below it, and an intruder who serves a configuration in the name of the anchor from an address of its
  own, and who signs a configuration in the name of the client and attaches the client's genuine chain. Its keys are its
  own.\<close>

definition cast :: "string \<Rightarrow> token option" where
  "cast = map_of
    [(''ta'', signed ((statement_of ''https://ta'' ''https://ta'' ''kta'')\<lparr>es_Metadata := authority_at ''https://ta/fetch''\<rparr>) ''kta''),
     (''rp'', signed ((statement_of ''https://rp'' ''https://rp'' ''krp'')\<lparr>es_AuthorityHints := Some [''https://ta'']\<rparr>) ''krp''),
     (''ta-rp'', signed (statement_of ''https://ta'' ''https://rp'' ''krp'') ''kta''),
     (''evil'', signed ((statement_of ''https://evil'' ''https://evil'' ''kevil'')\<lparr>es_AuthorityHints := Some [''https://evil-ta'']\<rparr>) ''kevil''),
     (''fake-ta'', signed ((statement_of ''https://ta'' ''https://ta'' ''kevil'')\<lparr>es_Metadata := authority_at ''https://evil/fetch''\<rparr>) ''kevil''),
     (''fake-sub'', signed (statement_of ''https://ta'' ''https://evil'' ''kevil'') ''kevil''),
     (''fake-rp'', (signed (statement_of ''https://rp'' ''https://rp'' ''kevil'') ''kevil'')
        \<lparr>tk_Headers := [(''trust_chain'', JArr [JStr ''rp'', JStr ''ta-rp''])]\<rparr>)]"

definition sites :: "string \<Rightarrow> string option" where
  "sites = map_of
    [(''https://ta/.well-known/openid-federation'', ''ta''), (''https://rp/.well-known/openid-federation'', ''rp''),
     (''https://ta/fetch?sub=https://rp'', ''ta-rp''), (''https://evil/.well-known/openid-federation'', ''evil''),
     (''https://evil-ta/.well-known/openid-federation'', ''fake-ta''), (''https://evil/fetch?sub=https://evil'', ''fake-sub'')]"

definition fed :: FedEnv where
  "fed = small_env cast sites [''https://ta'']"

text \<open>The statement a token of the table parses to.\<close>

definition parsed :: "string \<Rightarrow> entityStatement" where
  "parsed str = (tk_Statement (the (cast str)))\<lparr>es_signed := str\<rparr>"

lemma plain_cast: "cast str = Some t \<Longrightarrow> plain (tk_Statement t)"
  by (auto simp: cast_def signed_def statement_of_def zero_entityStatement_def plain_def split: if_splits)

lemma fed_config:
  assumes "cast str = Some t" and "tk_Key t \<in> set (elems (es_JWKS (tk_Statement t)))" and "es_Issuer (tk_Statement t) = es_Subject (tk_Statement t)"
    and "tk_Headers t = []"
  shows "parseEntityConfiguration fed str n = (Inr (parsed str), Suc n)"
  unfolding fed_def parsed_def using small_config [of cast str t sites "[''https://ta'']" n] plain_cast [OF assms(1)] assms by simp

lemma fed_authority:
  assumes "sites (i @ federationEndpointPath) = Some str" and "length str \<le> 1000" and "cast str = Some t"
    and "tk_Key t \<in> set (elems (es_JWKS (tk_Statement t)))" and "es_Issuer (tk_Statement t) = es_Subject (tk_Statement t)"
    and "md_FederationAuthority (es_Metadata (tk_Statement t)) \<noteq> None" and "tk_Headers t = []"
  shows "fetchAuthorityConfiguration fed i n = (Inr (parsed str), Suc (Suc n))"
  unfolding fed_def parsed_def
  using small_authority [of sites i str cast t "[''https://ta'']" n] plain_cast [OF assms(3)] assms by simp

lemma fed_parse:
  assumes "cast str = Some t" and "tk_Key t \<in> set jwks" and "es_Issuer (tk_Statement t) = iss" and "es_Subject (tk_Statement t) = sub"
    and "tk_Headers t = []"
  shows "parseEntityStatement fed str jwks iss sub n = (Inr (parsed str), Suc n)"
  unfolding fed_def parsed_def
  using small_parse [of cast str t jwks iss sub sites "[''https://ta'']" n] plain_cast [OF assms(1)] assms by simp

lemma fed_sub:
  assumes "cast str = Some t" and "tk_Key t \<in> set jwks" and "es_Issuer (tk_Statement t) = iss" and "es_Subject (tk_Statement t) = sub"
    and "es_AuthorityHints (tk_Statement t) = None" and "tk_Headers t = []"
  shows "parseSubordinateStatement fed str jwks iss sub n = (Inr (parsed str), Suc n)"
  unfolding fed_def parsed_def
  using small_sub [of cast str t jwks iss sub sites "[''https://ta'']" n] plain_cast [OF assms(1)] assms by simp

lemma fed_unverified:
  "cast str = Some t \<Longrightarrow> tryM (mapErrM f (parse_signed fed str)) (\<lambda>p. tryM (mapErrM f (unverified fed p)) k) n = k (tk_Statement t) n"
  unfolding fed_def by (rule small_unverified)

lemmas cast_simps = cast_def signed_def statement_of_def key_of_def authority_at_def zero_metadata_def zero_entityStatement_def

lemma ta_config: "parseEntityConfiguration fed ''ta'' n = (Inr (parsed ''ta''), Suc n)"
  by (rule fed_config [where t = "the (cast ''ta'')"]) (simp_all add: cast_simps)

lemma ta_authority: "fetchAuthorityConfiguration fed ''https://ta'' n = (Inr (parsed ''ta''), Suc (Suc n))"
  by (rule fed_authority [where t = "the (cast ''ta'')"]) (simp_all add: cast_simps sites_def federationEndpointPath_def)

lemma rp_config: "parseEntityConfiguration fed ''rp'' n = (Inr (parsed ''rp''), Suc n)"
  by (rule fed_config [where t = "the (cast ''rp'')"]) (simp_all add: cast_simps)

lemma presented_chain: "parseTrustChain fed [''rp'', ''ta-rp''] 0 = (Inr [parsed ''rp'', parsed ''ta-rp'', parsed ''ta''], 5)"
proof -
  have c: "cast ''ta-rp'' = Some (signed (statement_of ''https://ta'' ''https://rp'' ''krp'') ''kta'')"
    "cast ''ta'' = Some (signed ((statement_of ''https://ta'' ''https://ta'' ''kta'')\<lparr>es_Metadata := authority_at ''https://ta/fetch''\<rparr>) ''kta'')"
    by (simp_all add: cast_def)
  have sub: "parseSubordinateStatement fed ''ta-rp'' [key_of ''kta''] ''https://ta'' ''https://rp'' n = (Inr (parsed ''ta-rp''), Suc n)" for n
    by (rule fed_sub [OF c(1)]) (simp_all add: cast_simps)
  have rp: "parseEntityStatement fed ''rp'' [key_of ''krp''] ''https://rp'' ''https://rp'' n = (Inr (parsed ''rp''), Suc n)" for n
    by (rule fed_parse [where t = "the (cast ''rp'')"]) (simp_all add: cast_simps)
  have fields: "es_signed (parsed ''ta'') = ''ta''" "es_signed (parsed ''rp'') = ''rp''" "es_Issuer (parsed ''rp'') = ''https://rp''"
    "es_Subject (parsed ''rp'') = ''https://rp''" "es_JWKS (parsed ''ta-rp'') = Some [key_of ''krp'']"
    by (simp_all add: parsed_def cast_simps)
  have anchors: "fe_TrustedAnchors fed = [''https://ta'']"
    by (simp add: fed_def small_env_def)
  show ?thesis
    by (simp add: parseTrustChain_def guardM_run fed_unverified [OF c(1)] fed_unverified [OF c(2)] anchors completeChain_def ta_authority rp_config
        fields sub rp signed_def statement_of_def)
qed

text \<open>C7: A trust chain that a client presents and the provider accepts starts with the subject's configuration, signed by a key
  its immediate superior vouches for; every subordinate statement is signed by keys the next one
  gives and is about the issuer of the one before; and the last one is signed by keys of a configuration that the
  trust anchor signed, where the anchor is one of the configured anchors and its configuration was fetched from
  the anchor itself.\<close>

theorem presented_chain_vouched:
  assumes "jose_laws env" and "parseTrustChain env ss n = (Inr chain, n')"
  shows "\<exists>config subs anchor anchor' m m'. chain = config # subs @ [anchor] \<and> subs \<noteq> [] \<and>
    (\<exists>i\<in>set (fe_TrustedAnchors env). fetchAuthorityConfiguration env i m = (Inr anchor, m')) \<and>
    signed_by env config (elems (es_JWKS (hd subs))) \<and> vouched env config (subs @ [anchor']) \<and>
    signed_by env anchor' (elems (es_JWKS anchor))"
  using parseTrustChain_vouched [OF assms] .

lemma fed_laws: "jose_laws fed"
  unfolding fed_def by (rule small_laws)

theorem presented_chain_vouched_witness:
  "\<exists>config subs anchor anchor' m m'. [parsed ''rp'', parsed ''ta-rp'', parsed ''ta''] = config # subs @ [anchor] \<and> subs \<noteq> [] \<and>
    (\<exists>i\<in>set (fe_TrustedAnchors fed). fetchAuthorityConfiguration fed i m = (Inr anchor, m')) \<and>
    signed_by fed config (elems (es_JWKS (hd subs))) \<and> vouched fed config (subs @ [anchor']) \<and>
    signed_by fed anchor' (elems (es_JWKS anchor))"
  by (rule presented_chain_vouched [OF fed_laws presented_chain])

section \<open>Chains the provider searches\<close>

text \<open>The entity \<open>e\<close> is vouched for by the chain: its immediate superior \<open>a\<close>, whose configuration is self-signed, made the
  statement \<open>s\<close> about it, and a key of \<open>s\<close> verifies the configuration of \<open>e\<close>; and \<open>a\<close> is, by its own account, a trust anchor or is vouched
  for by the rest.\<close>

inductive trusted_path :: "FedEnv \<Rightarrow> entityStatement \<Rightarrow> trustChain \<Rightarrow> bool" for env where
  anchor: "trusted_path env e [s, a]"
    if "signed_by env a (elems (es_JWKS a))" "signed_by env s (elems (es_JWKS a))"
      "es_Issuer a \<noteq> '''' \<longrightarrow> es_Issuer s = es_Issuer a" "es_Subject e \<noteq> '''' \<longrightarrow> es_Subject s = es_Subject e"
      "\<exists>t p. l_ParseSigned (fe_Lib env) (es_signed e) (fe_SigAlgs env) = Inr t \<and> l_Verify (fe_Lib env) t (VKeySet (elems (es_JWKS s))) = Inr p"
      "es_Issuer a \<in> set (fe_TrustedAnchors env)"
| superior: "trusted_path env e (s # chain)"
    if "signed_by env a (elems (es_JWKS a))" "signed_by env s (elems (es_JWKS a))"
      "es_Issuer a \<noteq> '''' \<longrightarrow> es_Issuer s = es_Issuer a" "es_Subject e \<noteq> '''' \<longrightarrow> es_Subject s = es_Subject e"
      "\<exists>t p. l_ParseSigned (fe_Lib env) (es_signed e) (fe_SigAlgs env) = Inr t \<and> l_Verify (fe_Lib env) t (VKeySet (elems (es_JWKS s))) = Inr p"
      "trusted_path env a chain" "int (length (s # chain)) \<le> fe_TrustChainMaxDepth env"

inductive_cases trusted_pathE: "trusted_path env e chain"

lemma fetchSubordinateStatement_ok:
  assumes "fetchSubordinateStatement env sub a n = (Inr s, n')"
  shows "\<exists>str m m'. parseEntityStatement env str (elems (es_JWKS a)) (es_Issuer a) sub m = (Inr s, m')"
  using assms
  by (auto simp: fetchSubordinateStatement_def ok_simps Let_def split: option.splits if_splits dest!: parseSubordinateStatement_ok)

lemma fetchAuthorityConfiguration_ok:
  assumes "fetchAuthorityConfiguration env i n = (Inr a, n')"
  shows "\<exists>str m m'. parseEntityConfiguration env str m = (Inr a, m')"
  using assms by (auto simp: fetchAuthorityConfiguration_def ok_simps dest!: parseAuthorityConfiguration_ok)

lemma buildTrustChainBranch_sound:
  assumes "jose_laws env" and "\<And>m chain m'. rec a visited m = (Inr chain, m') \<Longrightarrow> trusted_path env a chain"
    and "fetchAuthorityConfiguration env i k = (Inr a, k')" and "buildTrustChainBranch rec env e a visited n = (Inr chain, n')"
  shows "trusted_path env e chain"
proof -
  obtain s t p n1 where s: "fetchSubordinateStatement env (es_Subject e) a n = (Inr s, n1)"
    and key: "l_ParseSigned (fe_Lib env) (es_signed e) (fe_SigAlgs env) = Inr t" "l_Verify (fe_Lib env) t (VKeySet (elems (es_JWKS s))) = Inr p"
    and body: "(if es_Issuer a \<in> set (fe_TrustedAnchors env) then okM [s, a]
      else tryM (rec a visited) (\<lambda>chain. guardM (int (length (s # chain)) > fe_TrustChainMaxDepth env)
        (invalid_chain ''the trust chain maximum depth was reached'') (okM (s # chain)))) n1 = (Inr chain, n')"
    using assms(4) unfolding buildTrustChainBranch_def parse_signed_def tryM_ok mapErrM_ok goE_ok Let_def by blast
  obtain str m m' where "parseEntityStatement env str (elems (es_JWKS a)) (es_Issuer a) (es_Subject e) m = (Inr s, m')"
    using fetchSubordinateStatement_ok [OF s] by blast
  note s = parseEntityStatement_ok [OF assms(1) this]
  obtain str2 l l' where "parseEntityConfiguration env str2 l = (Inr a, l')"
    using fetchAuthorityConfiguration_ok [OF assms(3)] by blast
  note a = parseEntityConfiguration_ok(1) [OF this assms(1)]
  show ?thesis
  proof (cases "es_Issuer a \<in> set (fe_TrustedAnchors env)")
    case True
    then show ?thesis
      using trusted_path.anchor [OF a s(1) _ _ _ True] s(3,4) key body by simp
  next
    case False
    then obtain c n2 where "rec a visited n1 = (Inr c, n2)" "chain = s # c" "int (length (s # c)) \<le> fe_TrustChainMaxDepth env"
      using body by (auto simp: ok_simps)
    then show ?thesis
      using trusted_path.superior [OF a s(1) _ _ _ assms(2)] s(3,4) key by simp
  qed
qed

lemma tryHints_sound:
  assumes "jose_laws env" and "\<And>a visited m chain m'. rec a visited m = (Inr chain, m') \<Longrightarrow> trusted_path env a chain"
    and "tryHints rec env e visited hints errs n = (Inr chain, n')"
  shows "trusted_path env e chain"
  using assms(3)
proof (induction hints arbitrary: errs n)
  case (Cons i hints)
  show ?case
  proof (cases "i \<in> set visited")
    case False
    let ?m = "tryM (fetchAuthorityConfiguration env i) (\<lambda>a. buildTrustChainBranch rec env e a (i # visited))"
    obtain r n1 where r: "?m n = (r, n1)"
      by (cases "?m n")
    show ?thesis
    proof (cases r)
      case (Inl err)
      then show ?thesis
        using Cons.IH Cons.prems r False by (auto split: if_splits)
    next
      case (Inr c)
      then obtain a n2 where "fetchAuthorityConfiguration env i n = (Inr a, n2)" "buildTrustChainBranch rec env e a (i # visited) n2 = (Inr c, n1)"
        using r by (auto simp: ok_simps)
      then show ?thesis
        using buildTrustChainBranch_sound [OF assms(1,2)] Cons.prems r False Inr by simp
    qed
  qed (use Cons in auto)
qed simp

lemma buildTrustChainFromConfig_sound:
  "jose_laws env \<Longrightarrow> buildTrustChainFromConfig fuel env e visited n = (Inr chain, n') \<Longrightarrow> trusted_path env e chain"
proof (induction fuel arbitrary: e visited n chain n')
  case (Suc fuel)
  then obtain hints where "tryHints (buildTrustChainFromConfig fuel env) env e visited hints [] n = (Inr chain, n')"
    by (cases "es_AuthorityHints e") auto
  then show ?case
    by (rule tryHints_sound [OF Suc.prems(1) Suc.IH [OF Suc.prems(1)], rotated])
qed simp


section \<open>The search ends when hints are finitely many\<close>

lemma fails_pureE [fail_intros]: "(\<And>e. r = Inl e \<Longrightarrow> P e) \<Longrightarrow> fails_in P (pureE r)"
  by (auto simp: fails_in_def pureE_def)

lemma fails_goE [fail_intros]: "(\<And>e. P (FedErr e)) \<Longrightarrow> fails_in P (goE r)"
  by (auto simp: fails_in_def goE_def pureE_def of_go_def split: sum.splits)

lemma fails_outside [fail_intros]: "fails_in P (outside f)"
  by (simp add: fails_in_def outside_def)

lemma fails_outsideE [fail_intros]: "(\<And>e. P (FedErr e)) \<Longrightarrow> fails_in P (outsideE f)"
  by (auto simp: fails_in_def outsideE_def of_go_def split: sum.splits)

lemma fails_case_list [fail_intros]:
  "fails_in P m \<Longrightarrow> (\<And>x xs. fails_in P (k x xs)) \<Longrightarrow> fails_in P (case l of [] \<Rightarrow> m | x # xs \<Rightarrow> k x xs)"
  by (cases l) simp_all

text \<open>Errors of a computation that returns.\<close>

definition returned :: "fed_error \<Rightarrow> bool" where
  "returned e \<longleftrightarrow> e \<noteq> FedDiverges"

lemma returned_simps [simp]:
  "returned (FedErr g)" "returned FedPanic" "returned (FedWrap c d es)" "\<not> returned FedDiverges"
  "returned (invalid_chain msg)" "returned (invalid_statement msg)" "returned (wrap c d e) = returned e"
  "returned (wrap_statement e) = returned e" "returned (wrap_chain e) = returned e" "returned (wrapf msg e) = returned e"
  by (auto simp: returned_def invalid_chain_def invalid_statement_def wrap_def fatal_def wrap_statement_def wrap_chain_def wrapf_def)

lemma mapErr_returned: "fails_in returned m \<Longrightarrow> (\<And>e. returned (f e) = returned e) \<Longrightarrow> fails_in returned (mapErrM f m)"
  unfolding fails_in_def by (auto simp: mapErrM_def split: prod.splits sum.splits)

lemma of_op_returned: "of_op r = Inl e \<Longrightarrow> returned e"
  by (auto simp: of_op_def split: sum.splits op_error.splits)

lemmas returned_intros = mapErr_returned fails_ok fails_fail fails_check fails_try fails_guard fails_if fails_case_option fails_case_sum
  fails_case_prod fails_case_list fails_pureE fails_goE fails_outside fails_outsideE

lemma fails_case_json:
  "(\<And>vs. fails_in P (m vs)) \<Longrightarrow> fails_in P n \<Longrightarrow> fails_in P (case v of JArr vs \<Rightarrow> m vs | _ \<Rightarrow> n)"
  by (cases v) simp_all

lemma parse_returned: "fails_in returned (parseEntityStatement0 no_chain env str opts)"
  unfolding parseEntityStatement0_def parse_signed_def header_chain_def no_chain_def Let_def
  by (intro returned_intros fails_case_json; auto)

lemma config_returned: "fails_in returned (parseEntityConfiguration env str)"
  unfolding parseEntityConfiguration_def parseEntityConfiguration0_def parse_signed_def unverified_def
  by (intro returned_intros parse_returned; auto)

lemma sub_returned: "fails_in returned (parseSubordinateStatement env str jwks iss sub)"
  unfolding parseSubordinateStatement_def parseEntityStatement_def
  by (intro returned_intros parse_returned; auto dest: of_op_returned)

lemma fetch_returned: "fails_in returned (fetchEntityStatement env r)"
  unfolding fetchEntityStatement_def Let_def by (intro returned_intros; auto)

lemma request_returned: "fails_in returned (newRequest env msg method uri ct body)"
  unfolding newRequest_def by (intro returned_intros; auto)

lemma fetchAuthority_returned: "fails_in returned (fetchAuthorityConfiguration env i)"
  unfolding fetchAuthorityConfiguration_def parseAuthorityConfiguration_def
  by (intro returned_intros fetch_returned config_returned request_returned; auto)

lemma fetchSubordinate_returned: "fails_in returned (fetchSubordinateStatement env sub a)"
  unfolding fetchSubordinateStatement_def privateKeyJWTRequest_def unauthenticatedRequest_def Let_def
  by (intro returned_intros fetch_returned sub_returned request_returned; auto)

text \<open>The authorities that any configuration fetched in the federation names as its superiors.\<close>

definition hints_within :: "FedEnv \<Rightarrow> string set \<Rightarrow> bool" where
  "hints_within env A \<longleftrightarrow>
     (\<forall>i n a n'. fetchAuthorityConfiguration env i n = (Inr a, n') \<longrightarrow> set (elems (es_AuthorityHints a)) \<subseteq> A)"

lemma fails_try_dep:
  "fails_in P m \<Longrightarrow> (\<And>x w w'. m w = (Inr x, w') \<Longrightarrow> fails_in P (k x)) \<Longrightarrow> fails_in P (tryM m k)"
  unfolding fails_in_def by (auto simp: tryM_def split: prod.splits sum.splits)

lemma branch_returned: "fails_in returned (rec a visited) \<Longrightarrow> fails_in returned (buildTrustChainBranch rec env e a visited)"
  unfolding buildTrustChainBranch_def parse_signed_def Let_def
  by (intro returned_intros fetchSubordinate_returned; auto)

lemma tryHints_returned:
  assumes "\<And>i a n n'. i \<in> set hints \<Longrightarrow> i \<notin> set visited \<Longrightarrow> fetchAuthorityConfiguration env i n = (Inr a, n') \<Longrightarrow>
      fails_in returned (rec a (i # visited))"
  shows "fails_in returned (tryHints rec env e visited hints errs)"
  using assms
proof (induction hints arbitrary: errs)
  case (Cons i hints)
  have ih: "fails_in returned (tryHints rec env e visited hints errs')" for errs'
    using Cons.prems by (intro Cons.IH) auto
  show ?case
  proof (cases "i \<in> set visited")
    case False
    let ?m = "tryM (fetchAuthorityConfiguration env i) (\<lambda>a. buildTrustChainBranch rec env e a (i # visited))"
    have m: "fails_in returned ?m"
      using Cons.prems False by (intro fails_try_dep fetchAuthority_returned branch_returned) auto
    show ?thesis
      unfolding fails_in_def
    proof (intro allI impI)
      fix w err w'
      assume *: "tryHints rec env e visited (i # hints) errs w = (Inl err, w')"
      obtain r w1 where r: "?m w = (r, w1)"
        by (cases "?m w")
      show "returned err"
        using * r False ih fails_inD [OF m r [THEN trans]]
        by (cases r) (auto simp: fails_in_def split: if_splits)
    qed
  qed (use ih in simp)
qed (simp add: fails_in_def)

lemma buildTrustChainFromConfig_returned:
  "finite A \<Longrightarrow> hints_within env A \<Longrightarrow> set (elems (es_AuthorityHints e)) \<subseteq> A \<Longrightarrow> card (A - set visited) < fuel \<Longrightarrow>
     fails_in returned (buildTrustChainFromConfig fuel env e visited)"
proof (induction fuel arbitrary: e visited)
  case (Suc fuel)
  show ?case
  proof (cases "es_AuthorityHints e")
    case (Some hints)
    have "fails_in returned (buildTrustChainFromConfig fuel env a (i # visited))"
      if "i \<in> set hints" "i \<notin> set visited" "fetchAuthorityConfiguration env i n = (Inr a, n')" for i a n n'
    proof (rule Suc.IH [OF Suc.prems(1,2)])
      show "set (elems (es_AuthorityHints a)) \<subseteq> A"
        using Suc.prems(2) that(3) unfolding hints_within_def by blast
      have "A - set (i # visited) \<subset> A - set visited"
        using that(1,2) Suc.prems(3) Some by auto
      then show "card (A - set (i # visited)) < fuel"
        using psubset_card_mono [of "A - set visited"] Suc.prems(1,4) by fastforce
    qed
    then show ?thesis
      using Some tryHints_returned [of hints visited env "buildTrustChainFromConfig fuel env" e] by auto
  qed (simp add: fails_in_def)
qed simp

text \<open>C13: When the configurations of a federation name finitely many authorities, the search for a trust chain returns,
  with a chain or with an error; no authority is visited twice on a branch, so a depth of one more than the number of
  authorities is enough.\<close>

theorem chain_search_terminates:
  assumes "finite A" and "hints_within env A" and "set (elems (es_AuthorityHints e)) \<subseteq> A" and "card A < fuel"
  shows "fst (buildTrustChain fuel env e n) \<noteq> Inl FedDiverges"
proof -
  have "card (A - set [es_Subject e]) < fuel"
    using assms(1,4) card_mono [of A "A - set [es_Subject e]"] by auto
  then have "fails_in returned (buildTrustChain fuel env e)"
    unfolding buildTrustChain_def by (intro fails_try fails_ok buildTrustChainFromConfig_returned [OF assms(1-3)])
  then show ?thesis
    using fails_inD [of returned "buildTrustChain fuel env e" n] by (cases "buildTrustChain fuel env e n") fastforce
qed

lemma fed_hints: "hints_within fed {''https://ta'', ''https://evil-ta''}"
  unfolding hints_within_def
proof (intro allI impI)
  fix i n a n'
  assume "fetchAuthorityConfiguration fed i n = (Inr a, n')"
  then obtain str m m' where "parseEntityConfiguration fed str m = (Inr a, m')"
    using fetchAuthorityConfiguration_ok by blast
  then obtain p s0 where "fe_DecodeStatement fed p = Inr s0" "a = s0\<lparr>es_signed := es_signed a\<rparr>"
    using parseEntityConfiguration_ok(1) [OF _ fed_laws] unfolding signed_by_def by blast
  then obtain t where "cast p = Some t" "es_AuthorityHints a = es_AuthorityHints (tk_Statement t)"
    by (cases a; cases s0) (auto simp: fed_def small_env_def split: option.splits)
  then show "set (elems (es_AuthorityHints a)) \<subseteq> {''https://ta'', ''https://evil-ta''}"
    by (auto simp: cast_simps split: if_splits)
qed

theorem chain_search_terminates_witness: "fst (buildTrustChain 3 fed (parsed ''evil'') 0) \<noteq> Inl FedDiverges"
  by (rule chain_search_terminates [OF _ fed_hints]) (simp_all add: parsed_def cast_simps)

section \<open>Forged chains that are accepted\<close>

lemma fake_anchor: "fetchAuthorityConfiguration fed ''https://evil-ta'' n = (Inr (parsed ''fake-ta''), Suc (Suc n))"
  by (rule fed_authority [where t = "the (cast ''fake-ta'')"]) (simp_all add: cast_simps sites_def federationEndpointPath_def)

lemma fake_subordinate:
  "fetchSubordinateStatement fed ''https://evil'' (parsed ''fake-ta'') n = (Inr (parsed ''fake-sub''), Suc (Suc n))"
proof -
  have fields: "es_JWKS (parsed ''fake-ta'') = Some [key_of ''kevil'']" "es_Issuer (parsed ''fake-ta'') = ''https://ta''"
    "es_Metadata (parsed ''fake-ta'') = authority_at ''https://evil/fetch''"
    by (simp_all add: parsed_def cast_simps)
  let ?r = "\<lparr>fr_Method = ''GET'', fr_URL = ''https://evil/fetch?sub=https://evil'', fr_ContentType = '''', fr_Body = ''''\<rparr>"
  have r: "unauthenticatedRequest fed ''https://evil/fetch'' [(''sub'', ''https://evil'')] n = (Inr ?r, n)"
    by (simp add: unauthenticatedRequest_def fed_def small_defs goE_def pureE_def of_go_def newRequest_def tryM_def mapErrM_def)
  have f: "fetchEntityStatement fed ?r n = (Inr ''fake-sub'', Suc n)"
    unfolding fed_def by (rule small_fetch) (simp_all add: sites_def)
  have p: "parseSubordinateStatement fed ''fake-sub'' [key_of ''kevil''] ''https://ta'' ''https://evil'' (Suc n) = (Inr (parsed ''fake-sub''), Suc (Suc n))"
    by (rule fed_sub [where t = "the (cast ''fake-sub'')"]) (simp_all add: cast_simps)
  have u: "(case l_url_Parse (fe_Lib fed) x of Inl _ \<Rightarrow> True | Inr _ \<Rightarrow> False) = False" for x
    by (simp add: fed_def small_defs)
  show ?thesis
    by (simp add: fetchSubordinateStatement_def fields authority_at_def guardM_run Let_def u r f p)
qed

lemma evil_key:
  "mapErrM g (parse_signed fed ''evil'') n = (Inr \<lparr>jwt_Headers = [token_header (cast ''evil'')], jwt_Raw = ''evil''\<rparr>, n)"
  "l_Verify (fe_Lib fed) \<lparr>jwt_Headers = hs, jwt_Raw = ''evil''\<rparr> (VKeySet [key_of ''kevil'']) = Inr ''evil''"
  by (simp_all add: parse_signed_def goE_def pureE_def of_go_def fed_def small_defs mapErrM_def cast_simps)

lemma forged_chain:
  "buildTrustChain 1 fed (parsed ''evil'') 0 = (Inr [parsed ''evil'', parsed ''fake-sub'', parsed ''fake-ta''], 4)"
proof -
  have fields: "es_Subject (parsed ''evil'') = ''https://evil''" "es_AuthorityHints (parsed ''evil'') = Some [''https://evil-ta'']"
    "es_signed (parsed ''evil'') = ''evil''" "es_JWKS (parsed ''fake-sub'') = Some [key_of ''kevil'']"
    "es_Issuer (parsed ''fake-ta'') = ''https://ta''" "fe_TrustedAnchors fed = [''https://ta'']"
    by (simp_all add: parsed_def cast_simps fed_def small_env_def)
  have "buildTrustChainBranch rec fed (parsed ''evil'') (parsed ''fake-ta'') vs n =
      (Inr [parsed ''fake-sub'', parsed ''fake-ta''], Suc (Suc n))" for rec vs n
    by (simp add: buildTrustChainBranch_def fields fake_subordinate evil_key goE_def pureE_def of_go_def)
  then show ?thesis
    by (simp add: buildTrustChain_def fields fake_anchor)
qed


lemma fed_not_signed: "tk_Key (the (cast str)) \<noteq> k \<Longrightarrow> cast str \<noteq> None \<Longrightarrow> \<not> signed_by fed (parsed str) [k]"
  by (auto simp: signed_by_def parsed_def fed_def small_defs split: option.splits)

text \<open>C28: The search does not check that a configuration fetched from an authority names that authority. An entity that
  refers to an authority of its own, which serves a configuration with the identifier of a trusted anchor and
  keys of its own, is given a trust chain ending in that anchor, although the anchor's genuine configuration has
  other keys and signed nothing in the chain.\<close>

theorem forged_anchor_accepted:
  "buildTrustChain 1 fed (parsed ''evil'') 0 = (Inr [parsed ''evil'', parsed ''fake-sub'', parsed ''fake-ta''], 4) \<and>
   fetchAuthorityConfiguration fed ''https://ta'' 4 = (Inr (parsed ''ta''), 6) \<and> es_JWKS (parsed ''ta'') = Some [key_of ''kta''] \<and>
   \<not> signed_by fed (parsed ''evil'') [key_of ''kta''] \<and> \<not> signed_by fed (parsed ''fake-sub'') [key_of ''kta''] \<and>
   \<not> signed_by fed (parsed ''fake-ta'') [key_of ''kta'']"
proof -
  have "key_of ''kevil'' \<noteq> key_of ''kta''"
    by (simp add: key_of_def zero_JSONWebKey_def)
  then have "\<not> signed_by fed (parsed str) [key_of ''kta'']" if "str \<in> {''evil'', ''fake-sub'', ''fake-ta''}" for str
    using that by (intro fed_not_signed) (auto simp: cast_def signed_def)
  moreover have "es_JWKS (parsed ''ta'') = Some [key_of ''kta'']"
    by (simp add: parsed_def cast_def signed_def statement_of_def)
  ultimately show ?thesis
    using forged_chain ta_authority [of 4] by simp
qed

section \<open>Explicit registration\<close>

text \<open>\<^verbatim>\<open>registerEntityConfiguration\<close> up to the chain it registers the client from: the chain of the header with the posted
  configuration in the place of its subject, or a searched one.\<close>

definition registrationChain :: "nat \<Rightarrow> FedEnv \<Rightarrow> string \<Rightarrow> trustChain fedprog" where
  "registrationChain fuel env signedStatement =
     tryM (parseEntityConfiguration0 (parseTrustChain env) env signedStatement True) (\<lambda>(entityConfig, chainHeader).
     case chainHeader of
       Some chain \<Rightarrow> okM (chain[0 := entityConfig])
     | None \<Rightarrow> buildTrustChain fuel env entityConfig)"

lemma fake_rp_parses:
  "parseEntityConfiguration0 (parseTrustChain fed) fed ''fake-rp'' True 0 =
     (Inr (parsed ''fake-rp'', Some [parsed ''rp'', parsed ''ta-rp'', parsed ''ta'']), 6)"
proof -
  define h where "h = token_header (cast ''fake-rp'')"
  have fake: "l_ParseSigned (fe_Lib fed) ''fake-rp'' (fe_SigAlgs fed) = Inr \<lparr>jwt_Headers = [h], jwt_Raw = ''fake-rp''\<rparr>"
    "l_Verify (fe_Lib fed) \<lparr>jwt_Headers = [h], jwt_Raw = ''fake-rp''\<rparr> (VKeySet [key_of ''kevil'']) = Inr ''fake-rp''"
    "l_Payload (fe_Lib fed) \<lparr>jwt_Headers = [h], jwt_Raw = ''fake-rp''\<rparr> = ''fake-rp''"
    "fe_DecodeStatement fed ''fake-rp'' = Inr (statement_of ''https://rp'' ''https://rp'' ''kevil'')"
    by (simp_all add: h_def fed_def small_defs cast_def signed_def)
  have h: "header_value h ''trust_chain'' = JArr [JStr ''rp'', JStr ''ta-rp'']" "header_value h ''typ'' = JStr jwtTypeEntityStatement"
    "jh_KeyID h = ''k''" "jh_Algorithm h = ''ES256''"
    by (simp_all add: h_def token_header_def header_value_def cast_def signed_def)
  have chain: "header_chain (parseTrustChain fed) opts h (statement_of ''https://rp'' ''https://rp'' ''kevil'') 0 =
      (Inr (Some [parsed ''rp'', parsed ''ta-rp'', parsed ''ta'']), 5)" if "po_explicitRegistration opts" for opts
    using that by (simp add: header_chain_def h presented_chain guardM_run) (simp add: parsed_def cast_simps)
  have claims: "\<exists>c. l_DecodeClaims (fe_Lib fed) ''fake-rp'' = Inr c \<and> jc_IssuedAt c = Some 1 \<and> jc_Expiry c = Some 100 \<and>
      (\<forall>n ex l. ex_Issuer ex = ''https://rp'' \<longrightarrow> ex_Subject ex = ''https://rp'' \<longrightarrow> l_ValidateWithLeeway (fe_Lib fed) n c ex l = None)"
    by (simp add: fed_def small_defs cast_simps)
  then obtain c where c: "l_DecodeClaims (fe_Lib fed) ''fake-rp'' = Inr c" "jc_IssuedAt c = Some 1" "jc_Expiry c = Some 100"
    "\<And>n ex l. ex_Issuer ex = ''https://rp'' \<Longrightarrow> ex_Subject ex = ''https://rp'' \<Longrightarrow> l_ValidateWithLeeway (fe_Lib fed) n c ex l = None"
    by blast
  have p: "parsed ''fake-rp'' = (statement_of ''https://rp'' ''https://rp'' ''kevil'')\<lparr>es_signed := ''fake-rp''\<rparr>"
    by (simp add: parsed_def cast_def signed_def)
  have s: "es_JWKS (statement_of iss sub k) = Some [key_of k]" "es_Issuer (statement_of iss sub k) = iss"
    "es_TrustAnchor (statement_of iss sub k) = ''''" "es_AuthorityHints (statement_of iss sub k) = None"
    "es_TrustAnchorHints (statement_of iss sub k) = None" "es_MetadataPolicy (statement_of iss sub k) = None"
    "es_MetadataPolicyCritical (statement_of iss sub k) = None" "es_Constraints (statement_of iss sub k) = None"
    "es_SourceEndpoint (statement_of iss sub k) = ''''" for iss sub k
    by (simp_all add: statement_of_def zero_entityStatement_def)
  show ?thesis
    by (simp add: parseEntityConfiguration0_def parseEntityStatement0_def parse_signed_def unverified_def goE_def pureE_def of_go_def
        fake s h c chain guardM_run outside_def SigAlgNone_def p)
qed

text \<open>C29: When a client registers explicitly with a chain in the header, its posted configuration takes the place of the
  subject's configuration in the verified chain, without a check that the superior vouches for the key that signed
  it. Whoever knows the genuine chain of a client registers in its name with a configuration and keys of their
  own.\<close>

theorem forged_registration_accepted:
  "registrationChain 0 fed ''fake-rp'' 0 = (Inr [parsed ''fake-rp'', parsed ''ta-rp'', parsed ''ta''], 6) \<and>
   es_Subject (parsed ''fake-rp'') = ''https://rp'' \<and> es_JWKS (parsed ''ta-rp'') = Some [key_of ''krp''] \<and>
   \<not> signed_by fed (parsed ''fake-rp'') (elems (es_JWKS (parsed ''ta-rp'')))"
proof -
  have jwks: "es_JWKS (parsed ''ta-rp'') = Some [key_of ''krp'']"
    by (simp add: parsed_def cast_def signed_def statement_of_def)
  have "key_of ''kevil'' \<noteq> key_of ''krp''"
    by (simp add: key_of_def zero_JSONWebKey_def)
  then have "\<not> signed_by fed (parsed ''fake-rp'') (elems (es_JWKS (parsed ''ta-rp'')))"
    unfolding jwks elems_simps by (intro fed_not_signed) (auto simp: cast_def signed_def)
  then show ?thesis
    using jwks by (simp add: registrationChain_def fake_rp_parses) (simp add: parsed_def cast_simps)
qed

end
