(* ===== verification/JarNetwork.thy ===== *)
theory JarNetwork
  imports ClientAuthn "HOL-Library.Word"
begin

text \<open>
  The network boundary of request objects passed by reference, \<^verbatim>\<open>internal/authorize/jar_network.go\<close>: IP
  addresses and prefixes as the package \<^verbatim>\<open>net/netip\<close> has them (32 and 128 bit words), the predicate on public
  addresses, the resolution of a host into addresses that may be dialled, the one-off HTTP client and the dialler.

  Name resolution, the parser and printer of addresses, and connecting a socket are fields of \<open>NetLib\<close>.
\<close>

unbundle bit_operations_syntax

section \<open>Addresses\<close>

text \<open>\<^verbatim>\<open>netip.Addr\<close>: the zero value, an IPv4 address, an IPv6 address with its zone.\<close>

datatype Addr = AddrZero | Addr4 "32 word" | Addr6 "128 word" string

definition IsValid :: "Addr \<Rightarrow> bool" where
  "IsValid a \<longleftrightarrow> a \<noteq> AddrZero"

fun Is4 :: "Addr \<Rightarrow> bool" where
  "Is4 (Addr4 w) = True"
| "Is4 _ = False"

fun Is6 :: "Addr \<Rightarrow> bool" where
  "Is6 (Addr6 w z) = True"
| "Is6 _ = False"

fun Is4In6 :: "Addr \<Rightarrow> bool" where
  "Is4In6 (Addr6 w z) \<longleftrightarrow> drop_bit 32 w = 0xFFFF"
| "Is4In6 _ = False"

fun Unmap :: "Addr \<Rightarrow> Addr" where
  "Unmap (Addr6 w z) = (if Is4In6 (Addr6 w z) then Addr4 (ucast w) else Addr6 w z)"
| "Unmap a = a"

fun Zone :: "Addr \<Rightarrow> string" where
  "Zone (Addr6 w z) = z"
| "Zone _ = ''''"

text \<open>Byte \<open>i\<close> of an IPv4 address and the leading 16 bits of an IPv6 address.\<close>

definition v4 :: "32 word \<Rightarrow> nat \<Rightarrow> 32 word" where
  "v4 w i = drop_bit (8 * (3 - i)) w AND 0xFF"

definition v6u16 :: "128 word \<Rightarrow> 128 word" where
  "v6u16 w = drop_bit 112 w"

fun IsLoopback :: "Addr \<Rightarrow> bool" where
  "IsLoopback (Addr4 w) \<longleftrightarrow> v4 w 0 = 127"
| "IsLoopback (Addr6 w z) \<longleftrightarrow> (if drop_bit 32 w = 0xFFFF then v4 (ucast w) 0 = 127 else w = 1)"
| "IsLoopback AddrZero = False"

fun IsMulticast :: "Addr \<Rightarrow> bool" where
  "IsMulticast (Addr4 w) \<longleftrightarrow> v4 w 0 AND 0xF0 = 0xE0"
| "IsMulticast (Addr6 w z) \<longleftrightarrow> (if drop_bit 32 w = 0xFFFF then v4 (ucast w) 0 AND 0xF0 = 0xE0 else drop_bit 8 (v6u16 w) = 0xFF)"
| "IsMulticast AddrZero = False"

fun IsLinkLocalUnicast :: "Addr \<Rightarrow> bool" where
  "IsLinkLocalUnicast (Addr4 w) \<longleftrightarrow> v4 w 0 = 169 \<and> v4 w 1 = 254"
| "IsLinkLocalUnicast (Addr6 w z) \<longleftrightarrow>
     (if drop_bit 32 w = 0xFFFF then v4 (ucast w) 0 = 169 \<and> v4 (ucast w) 1 = 254 else v6u16 w AND 0xFFC0 = 0xFE80)"
| "IsLinkLocalUnicast AddrZero = False"

fun IsLinkLocalMulticast :: "Addr \<Rightarrow> bool" where
  "IsLinkLocalMulticast (Addr4 w) \<longleftrightarrow> v4 w 0 = 224 \<and> v4 w 1 = 0 \<and> v4 w 2 = 0"
| "IsLinkLocalMulticast (Addr6 w z) \<longleftrightarrow>
     (if drop_bit 32 w = 0xFFFF then v4 (ucast w) 0 = 224 \<and> v4 (ucast w) 1 = 0 \<and> v4 (ucast w) 2 = 0
      else v6u16 w AND 0xFF0F = 0xFF02)"
| "IsLinkLocalMulticast AddrZero = False"

fun IsPrivate :: "Addr \<Rightarrow> bool" where
  "IsPrivate (Addr4 w) \<longleftrightarrow> v4 w 0 = 10 \<or> v4 w 0 = 172 \<and> v4 w 1 AND 0xF0 = 16 \<or> v4 w 0 = 192 \<and> v4 w 1 = 168"
| "IsPrivate (Addr6 w z) \<longleftrightarrow>
     (if drop_bit 32 w = 0xFFFF
      then v4 (ucast w) 0 = 10 \<or> v4 (ucast w) 0 = 172 \<and> v4 (ucast w) 1 AND 0xF0 = 16 \<or> v4 (ucast w) 0 = 192 \<and> v4 (ucast w) 1 = 168
      else drop_bit 8 (v6u16 w) AND 0xFE = 0xFC)"
| "IsPrivate AddrZero = False"

definition IsUnspecified :: "Addr \<Rightarrow> bool" where
  "IsUnspecified a \<longleftrightarrow> a = Addr4 0 \<or> a = Addr6 0 ''''"

definition IsGlobalUnicast :: "Addr \<Rightarrow> bool" where
  "IsGlobalUnicast a0 =
     (if a0 = AddrZero then False
      else let a = Unmap a0 in
        if a = Addr4 0 \<or> a = Addr4 0xFFFFFFFF then False
        else a \<noteq> Addr6 0 '''' \<and> \<not> IsLoopback a \<and> \<not> IsMulticast a \<and> \<not> IsLinkLocalUnicast a)"

section \<open>Prefixes\<close>

text \<open>\<^verbatim>\<open>netip.Prefix\<close> and \<^verbatim>\<open>Contains\<close>: same family, no zone, and the leading bits agree.\<close>

datatype Prefix = Prefix4 "32 word" nat | Prefix6 "128 word" nat

definition mask6 :: "nat \<Rightarrow> 128 word" where
  "mask6 n = push_bit (128 - n) (mask n)"

fun prefix_Contains :: "Prefix \<Rightarrow> Addr \<Rightarrow> bool" where
  "prefix_Contains (Prefix4 p n) (Addr4 w) \<longleftrightarrow> drop_bit (32 - n) (w XOR p) = 0"
| "prefix_Contains (Prefix6 p n) (Addr6 w z) \<longleftrightarrow> z = '''' \<and> (w XOR p) AND mask6 n = 0"
| "prefix_Contains _ _ = False"

text \<open>The dotted and the colon notation of a prefix, by its leading 16 bit groups.\<close>

definition p4 :: "nat \<Rightarrow> nat \<Rightarrow> nat \<Rightarrow> nat \<Rightarrow> nat \<Rightarrow> Prefix" where
  "p4 a b c d n = Prefix4 (of_nat (a * 2 ^ 24 + b * 2 ^ 16 + c * 2 ^ 8 + d)) n"

fun groups :: "nat \<Rightarrow> nat list \<Rightarrow> nat" where
  "groups k [] = 0"
| "groups k (g # gs) = g * 2 ^ (16 * k) + groups (k - 1) gs"

definition p6 :: "nat list \<Rightarrow> nat \<Rightarrow> Prefix" where
  "p6 gs n = Prefix6 (of_nat (groups 7 gs)) n"

definition jarIPv6GlobalUnicast :: Prefix where
  "jarIPv6GlobalUnicast = p6 [0x2000] 3"

definition jarSpecialUsePrefixes :: "Prefix list" where
  "jarSpecialUsePrefixes =
    [p4 0 0 0 0 8, p4 10 0 0 0 8, p4 100 64 0 0 10, p4 127 0 0 0 8, p4 169 254 0 0 16, p4 172 16 0 0 12,
     p4 192 0 0 0 24, p4 192 0 2 0 24, p4 192 31 196 0 24, p4 192 52 193 0 24, p4 192 88 99 0 24,
     p4 192 168 0 0 16, p4 192 175 48 0 24, p4 198 18 0 0 15, p4 198 51 100 0 24, p4 203 0 113 0 24,
     p4 224 0 0 0 4, p4 240 0 0 0 4,
     p6 [] 96, p6 [0, 0, 0, 0, 0, 0xFFFF] 96, p6 [0x64, 0xFF9B] 96, p6 [0x64, 0xFF9B, 1] 48,
     p6 [0x100] 64, p6 [0x100, 0, 0, 1] 64, p6 [0x2001] 23, p6 [0x2001, 0xDB8] 32, p6 [0x2002] 16,
     p6 [0x2620, 0x4F, 0x8000] 48, p6 [0x3FFF] 20, p6 [0x5F00] 16, p6 [0xFC00] 7, p6 [0xFE80] 10,
     p6 [0xFEC0] 10, p6 [0xFF00] 8]"

section \<open>Admissible addresses\<close>

definition publicJARIPAddress :: "Addr \<Rightarrow> bool" where
  "publicJARIPAddress address0 =
     (if Is4In6 address0 then False
      else let address = Unmap address0 in
        if \<not> IsValid address \<or> Zone address \<noteq> '''' \<or> \<not> IsGlobalUnicast address \<or> IsPrivate address \<or>
           IsLoopback address \<or> IsLinkLocalUnicast address \<or> IsLinkLocalMulticast address \<or>
           IsUnspecified address \<or> IsMulticast address then False
        else if Is6 address \<and> \<not> prefix_Contains jarIPv6GlobalUnicast address then False
        else list_all (\<lambda>prefix. \<not> prefix_Contains prefix address) jarSpecialUsePrefixes)"

definition loopbackJARIPAddress :: "Addr \<Rightarrow> bool" where
  "loopbackJARIPAddress address0 =
     (if Is4In6 address0 then False
      else let address = Unmap address0 in
        IsValid address \<and> Zone address = '''' \<and> IsLoopback address \<and> \<not> IsLinkLocalUnicast address \<and>
        \<not> IsLinkLocalMulticast address \<and> \<not> IsUnspecified address \<and> \<not> IsMulticast address)"

section \<open>Resolution\<close>

text \<open>A connection is whatever the dialler returns; here the address it was made to.\<close>

record NetLib =
  nl_ParseAddr :: "string \<Rightarrow> Addr option"
  nl_String :: "Addr \<Rightarrow> string"
  nl_LookupNetIP :: "nat \<Rightarrow> string \<Rightarrow> go_error + Addr list"
  nl_DialErr :: "nat \<Rightarrow> string \<Rightarrow> string \<Rightarrow> go_error option"

definition errJARProhibitedNetwork :: go_error where
  "errJARProhibitedNetwork = ErrNew ''request_uri resolves to a prohibited network address''"

definition errJARUnsupportedNetwork :: go_error where
  "errJARUnsupportedNetwork = ErrNew ''request_uri HTTP client uses an unsupported network transport''"

definition invalidJARRequestURI :: go_error where
  "invalidJARRequestURI = WrapError ErrorCodeInvalidRequest ''invalid request_uri''
     (ErrNew ''request_uri must be an exact pre-registered HTTPS URI without credentials'')"

record jarNetworkTarget =
  jt_hostname :: string
  jt_port :: string
  jt_addresses :: "Addr list"
  jt_allowAddress :: "Addr \<Rightarrow> bool"

text \<open>The loop over the resolved addresses: every one must be admissible, duplicates are dropped. The set of
  addresses seen is the list of those validated.\<close>

fun validate_addresses :: "(Addr \<Rightarrow> bool) \<Rightarrow> Addr list \<Rightarrow> Addr list \<Rightarrow> go_error + Addr list" where
  "validate_addresses allow validated [] = Inr validated"
| "validate_addresses allow validated (address0 # rest) =
     (if Is4In6 address0 then Inl errJARProhibitedNetwork
      else let address = Unmap address0 in
        if \<not> allow address then Inl errJARProhibitedNetwork
        else if address \<in> set validated then validate_addresses allow validated rest
        else validate_addresses allow (validated @ [address]) rest)"

definition resolveJARNetworkTarget ::
  "'st Context \<Rightarrow> NetLib \<Rightarrow> string \<Rightarrow> (Addr \<Rightarrow> bool) option \<Rightarrow> ('st, jarNetworkTarget) M" where
  "resolveJARNetworkTarget ctx net rawURI control =
     (case l_url_Parse (cx_Lib ctx) rawURI of
        Inl e \<Rightarrow> failM invalidJARRequestURI
      | Inr parsed \<Rightarrow>
          guardM (u_Scheme parsed \<noteq> ''https'' \<or> url_Hostname parsed = '''') invalidJARRequestURI (
          let allow = (case control of None \<Rightarrow> publicJARIPAddress | Some f \<Rightarrow> f);
              hostname = url_Hostname parsed in
          tryM (case nl_ParseAddr net hostname of
                  Some literal \<Rightarrow> okM [literal]
                | None \<Rightarrow> mapErrM (ErrWrapf ''could not resolve request_uri host'') (callE (\<lambda>n. nl_LookupNetIP net n hostname))) (\<lambda>addresses.
          tryM (liftE (validate_addresses allow [] addresses)) (\<lambda>validated.
          guardM (validated = []) (ErrNew ''request_uri host resolved to no addresses'') (
          let port = url_Port parsed in
          okM \<lparr>jt_hostname = hostname, jt_port = (if port = '''' then ''443'' else port),
               jt_addresses = validated, jt_allowAddress = allow\<rparr>)))))"

text \<open>\<^verbatim>\<open>strconv.Itoa\<close> on a non-negative number.\<close>

fun Itoa :: "nat \<Rightarrow> string" where
  "Itoa n = (if n < 10 then [char_of (0x30 + n)] else Itoa (n div 10) @ [char_of (0x30 + n mod 10)])"

declare Itoa.simps [simp del]

text \<open>The canonical origin of a request URI, which the loopback exceptions are listed by.\<close>

definition canonicalJARNetworkOrigin :: "Lib \<Rightarrow> NetLib \<Rightarrow> string \<Rightarrow> go_error + string" where
  "canonicalJARNetworkOrigin lib net rawURI =
     (case l_url_Parse lib rawURI of
        Inl e \<Rightarrow> Inl invalidJARRequestURI
      | Inr parsed \<Rightarrow>
          if u_Scheme parsed \<noteq> ''https'' \<or> url_Hostname parsed = '''' then Inl invalidJARRequestURI
          else
            let hostname0 = strings_ToLower (url_Hostname parsed);
                address = nl_ParseAddr net hostname0;
                port = url_Port parsed in
            if (case address of Some a \<Rightarrow> Zone a \<noteq> '''' | None \<Rightarrow> False) then Inl invalidJARRequestURI
            else
              let hostname = (case address of Some a \<Rightarrow> nl_String net a | None \<Rightarrow> hostname0);
                  isIPv6 = (case address of Some a \<Rightarrow> Is6 a | None \<Rightarrow> False) in
              (case (if port = '''' then Some 443 else ParseInt64 port) of
                 None \<Rightarrow> Inl invalidJARRequestURI
               | Some portNumber \<Rightarrow>
                   if port \<noteq> '''' \<and> (portNumber < 1 \<or> portNumber > 65535) then Inl invalidJARRequestURI
                   else Inr (''https://'' @
                     (if portNumber \<noteq> 443 then JoinHostPort hostname (Itoa (nat portNumber))
                      else if isIPv6 then ''['' @ hostname @ '']'' else hostname))))"

section \<open>The one-off HTTP client\<close>

text \<open>What the program reads and sets of \<^verbatim>\<open>http.Transport\<close>: of the hooks only their presence, of the TLS
  configuration \<^verbatim>\<open>InsecureSkipVerify\<close> and \<^verbatim>\<open>ServerName\<close>, and the target its guarded \<^verbatim>\<open>DialContext\<close> dials.\<close>

record Transport =
  tr_Proxy :: bool
  tr_Dial :: bool
  tr_DialTLSContext :: bool
  tr_DialTLS :: bool
  tr_TLSNextProto :: nat
  tr_TLSClientConfig :: "(bool \<times> string) option"
  tr_target :: "jarNetworkTarget option"

datatype RoundTripper = NilTransport | HTTPTransport "Transport option" | OtherTransport

record HTTPClient =
  hc_Transport :: RoundTripper
  hc_Timeout :: int
  hc_FollowRedirects :: bool

definition newGuardedJARHTTPClient ::
  "Transport option \<Rightarrow> HTTPClient option \<Rightarrow> jarNetworkTarget \<Rightarrow> go_error + HTTPClient" where
  "newGuardedJARHTTPClient defaultTransport baseClient target =
     (case baseClient of
        None \<Rightarrow> Inl errJARUnsupportedNetwork
      | Some client \<Rightarrow>
          (case (case hc_Transport client of
                   NilTransport \<Rightarrow> defaultTransport
                 | HTTPTransport t \<Rightarrow> t
                 | OtherTransport \<Rightarrow> None) of
             None \<Rightarrow> Inl errJARUnsupportedNetwork
           | Some t \<Rightarrow>
               if tr_DialTLSContext t \<or> tr_DialTLS t
               then Inl (ErrWrapf ''custom TLS dial hooks are not supported'' errJARUnsupportedNetwork)
               else if tr_TLSNextProto t \<noteq> 0
               then Inl (ErrWrapf ''custom TLS protocol handlers are not supported'' errJARUnsupportedNetwork)
               else if (case tr_TLSClientConfig t of Some (insecure, _) \<Rightarrow> insecure | None \<Rightarrow> False)
               then Inl (ErrWrapf ''insecure TLS verification is not supported'' errJARUnsupportedNetwork)
               else Inr \<lparr>hc_Transport = HTTPTransport (Some (t\<lparr>tr_Proxy := False, tr_Dial := False,
                              tr_target := Some target,
                              tr_TLSClientConfig := Some (case tr_TLSClientConfig t of
                                  None \<Rightarrow> (False, jt_hostname target)
                                | Some (insecure, _) \<Rightarrow> (insecure, jt_hostname target))\<rparr>)),
                         hc_Timeout = hc_Timeout client, hc_FollowRedirects = False\<rparr>))"

section \<open>Dialling\<close>

definition dial_family :: "string \<Rightarrow> Addr \<Rightarrow> bool" where
  "dial_family network address \<longleftrightarrow>
     (strings_HasSuffix network ''4'' \<longrightarrow> Is4 address) \<and> (strings_HasSuffix network ''6'' \<longrightarrow> Is6 address)"

text \<open>The attempts, in order, with the addresses tried so far and the failures. Each attempt is preceded by a look at
  the context and by the admission of the address. The result carries the addresses a socket was asked for;
  \<^verbatim>\<open>errors.Join\<close> of the failures is represented by the first.\<close>

fun dial_attempts ::
  "'st Context \<Rightarrow> NetLib \<Rightarrow> string \<Rightarrow> jarNetworkTarget \<Rightarrow> Addr list \<Rightarrow> go_error list \<Rightarrow> Addr list
    \<Rightarrow> ('st, Addr list \<times> (go_error + Addr)) M" where
  "dial_attempts ctx net network target tried failures [] =
     okM (tried, Inl (if failures = [] then errJARProhibitedNetwork else ErrWrapf ''dial failures'' (hd failures)))"
| "dial_attempts ctx net network target tried failures (address # rest) =
     tryM (ctx_Err ctx) (\<lambda>e. case e of
        Some err \<Rightarrow> okM (tried, Inl err)
      | None \<Rightarrow>
          if \<not> jt_allowAddress target address then dial_attempts ctx net network target tried failures rest
          else
            tryM (callM (\<lambda>n. nl_DialErr net n network (JoinHostPort (nl_String net address) (jt_port target)))) (\<lambda>r. case r of
               None \<Rightarrow> okM (tried @ [address], Inr address)
             | Some err \<Rightarrow> dial_attempts ctx net network target (tried @ [address]) (failures @ [err]) rest))"

definition dialJARNetworkTarget ::
  "'st Context \<Rightarrow> NetLib \<Rightarrow> string \<Rightarrow> jarNetworkTarget \<Rightarrow> ('st, Addr list \<times> (go_error + Addr)) M" where
  "dialJARNetworkTarget ctx net network target =
     dial_attempts ctx net network target [] []
       (filter (\<lambda>address. jt_allowAddress target address \<and> dial_family network address) (jt_addresses target))"


section \<open>Bits\<close>

lemma xor_zero [simp]: "a XOR b = 0 \<longleftrightarrow> a = (b :: 'a::len word)"
  by (metis xor.right_neutral word_bw_assocs(3) xor_self_eq)

lemma beyond: "LENGTH('a) \<le> n \<Longrightarrow> \<not> bit (w :: 'a::len word) n"
  using bit_imp_le_length by force

text \<open>Equality of 32 bit words, bit by bit.\<close>

lemma bits32:
  "(x :: 32 word) = y \<longleftrightarrow> list_all (\<lambda>n. bit x n = bit y n)
     [0,1,2,3,4,5,6,7,8,9,10,11,12,13,14,15,16,17,18,19,20,21,22,23,24,25,26,27,28,29,30,31]"
proof -
  have "set [0::nat,1,2,3,4,5,6,7,8,9,10,11,12,13,14,15,16,17,18,19,20,21,22,23,24,25,26,27,28,29,30,31] = {..<32}"
    by (auto simp: numeral_eq_Suc less_Suc_eq)
  then have all: "list_all P [0::nat,1,2,3,4,5,6,7,8,9,10,11,12,13,14,15,16,17,18,19,20,21,22,23,24,25,26,27,28,29,30,31]
      \<longleftrightarrow> (\<forall>n<32. P n)" for P
    unfolding list_all_iff by (simp only: Ball_def lessThan_iff)
  have "x = y \<longleftrightarrow> (\<forall>n<32. bit x n = bit y n)"
    by (auto intro: bit_word_eqI)
  then show ?thesis by (simp only: all)
qed

lemma v4_ranges:
  "v4 w 0 = 127 \<longleftrightarrow> drop_bit 24 w = 127" "v4 w 0 = 10 \<longleftrightarrow> drop_bit 24 w = 10"
  "v4 w 0 = 172 \<and> v4 w 1 AND 0xF0 = 16 \<longleftrightarrow> drop_bit 20 w = 0xAC1"
  "v4 w 0 = 192 \<and> v4 w 1 = 168 \<longleftrightarrow> drop_bit 16 w = 0xC0A8"
  "v4 w 0 = 169 \<and> v4 w 1 = 254 \<longleftrightarrow> drop_bit 16 w = 0xA9FE"
  "v4 w 0 AND 0xF0 = 0xE0 \<longleftrightarrow> drop_bit 28 w = 0xE"
  "v4 w 0 = 224 \<and> v4 w 1 = 0 \<and> v4 w 2 = 0 \<longleftrightarrow> drop_bit 8 w = 0xE00000"
  unfolding v4_def by (auto simp: bits32 bit_simps beyond)

lemma multicast_block: "drop_bit 8 w = (0xE00000 :: 32 word) \<Longrightarrow> drop_bit 28 w = 0xE"
  by (auto simp: bits32 bit_simps beyond)

lemma high_bits6: "drop_bit 125 (w :: 128 word) = 1 \<longleftrightarrow> bit w 125 \<and> \<not> bit w 126 \<and> \<not> bit w 127"
proof
  assume *: "drop_bit 125 w = 1"
  have "bit (drop_bit 125 w) k = bit (1 :: 128 word) k" for k by (simp only: *)
  from this [of 0] this [of 1] this [of 2] show "bit w 125 \<and> \<not> bit w 126 \<and> \<not> bit w 127"
    by (simp_all add: bit_simps)
next
  assume *: "bit w 125 \<and> \<not> bit w 126 \<and> \<not> bit w 127"
  show "drop_bit 125 w = 1"
  proof (rule bit_word_eqI)
    fix n assume "n < LENGTH(128)"
    then show "bit (drop_bit 125 w) n \<longleftrightarrow> bit (1 :: 128 word) n"
      using * by (cases "n = 0 \<or> n = 1 \<or> n = 2") (auto simp: bit_simps beyond)
  qed
qed

lemma global_prefix: "prefix_Contains jarIPv6GlobalUnicast (Addr6 w z) \<longleftrightarrow> z = '''' \<and> drop_bit 125 w = 1"
proof -
  define p :: "128 word" where "p = of_nat (groups 7 [0x2000])"
  have "p = push_bit 125 1" by (simp add: p_def push_bit_eq_mult)
  then have bp: "bit p n \<longleftrightarrow> n = 125" for n
    by (simp only: bit_push_bit_iff bit_1_iff) (auto simp: not_le)
  have "(w XOR p) AND mask6 3 = 0 \<longleftrightarrow> (\<forall>n<128. 125 \<le> n \<longrightarrow> bit w n = (n = 125))"
  proof -
    have "bit ((w XOR p) AND mask6 3) n \<longleftrightarrow> 125 \<le> n \<and> n < 128 \<and> bit w n \<noteq> (n = 125)" for n
      by (auto simp: mask6_def bit_simps bp dest: bit_imp_le_length)
    then show ?thesis by (auto simp: bit_eq_iff)
  qed
  also have "\<dots> \<longleftrightarrow> drop_bit 125 w = 1"
  proof -
    have "n = 125 \<or> n = 126 \<or> n = 127" if "n < 128" "125 \<le> n" for n :: nat using that by arith
    then show ?thesis unfolding high_bits6 by auto
  qed
  finally show ?thesis unfolding jarIPv6GlobalUnicast_def p6_def p_def [symmetric] by simp
qed

text \<open>An address in the block of global unicast addresses is in none of the special ranges of the predicates.\<close>

lemma global_not_special:
  assumes "drop_bit 125 (w :: 128 word) = 1"
  shows "w \<noteq> 0" "w \<noteq> 1" "drop_bit 32 w \<noteq> 0xFFFF" "drop_bit 8 (v6u16 w) \<noteq> 0xFF" "v6u16 w AND 0xFFC0 \<noteq> 0xFE80"
    "v6u16 w AND 0xFF0F \<noteq> 0xFF02" "drop_bit 8 (v6u16 w) AND 0xFE \<noteq> 0xFC"
proof -
  have b: "bit w 125" "\<not> bit w 127" using assms by (simp_all add: high_bits6)
  have diff: "bit x k \<noteq> bit y k \<Longrightarrow> x \<noteq> y" for x y :: "128 word" and k by blast
  show "w \<noteq> 0" "w \<noteq> 1" using b by (auto simp: bit_simps)
  show "drop_bit 32 w \<noteq> 0xFFFF" by (rule diff [of _ 93]) (use b in \<open>simp add: bit_simps\<close>)
  show "drop_bit 8 (v6u16 w) \<noteq> 0xFF" by (rule diff [of _ 7]) (use b in \<open>simp add: v6u16_def bit_simps\<close>)
  show "v6u16 w AND 0xFFC0 \<noteq> 0xFE80" by (rule diff [of _ 15]) (use b in \<open>simp add: v6u16_def bit_simps\<close>)
  show "v6u16 w AND 0xFF0F \<noteq> 0xFF02" by (rule diff [of _ 15]) (use b in \<open>simp add: v6u16_def bit_simps\<close>)
  show "drop_bit 8 (v6u16 w) AND 0xFE \<noteq> 0xFC"
    by (rule diff [of _ 7]) (use b in \<open>simp add: v6u16_def bit_simps\<close>)
qed

text \<open>The ranges of the predicates on IPv4 addresses are in the table.\<close>

lemma special4:
  assumes "list_all (\<lambda>prefix. \<not> prefix_Contains prefix (Addr4 w)) jarSpecialUsePrefixes"
  shows "drop_bit 24 w \<noteq> 0" "drop_bit 24 w \<noteq> 10" "drop_bit 24 w \<noteq> 127" "drop_bit 20 w \<noteq> 0xAC1" "drop_bit 16 w \<noteq> 0xC0A8"
    "drop_bit 16 w \<noteq> 0xA9FE" "drop_bit 28 w \<noteq> 0xE" "drop_bit 28 w \<noteq> 0xF"
  using assms by (simp_all add: jarSpecialUsePrefixes_def p4_def p6_def)

section \<open>The predicate on public addresses\<close>

text \<open>The eight predicates of the standard library that \<^verbatim>\<open>publicJARIPAddress\<close> asks before its table (global unicast,
  private, loopback, link-local, unspecified, multicast) decide nothing that the table of special-use prefixes and, for
  IPv6, the block 2000::/3 do not decide: an address is public exactly when it is an IPv4 address outside the
  table, or an IPv6 address without a zone inside that block and outside the table.\<close>

theorem public_exact:
  "publicJARIPAddress address \<longleftrightarrow>
     (case address of
        AddrZero \<Rightarrow> False
      | Addr4 w \<Rightarrow> list_all (\<lambda>prefix. \<not> prefix_Contains prefix address) jarSpecialUsePrefixes
      | Addr6 w z \<Rightarrow> z = '''' \<and> drop_bit 125 w = 1 \<and>
          list_all (\<lambda>prefix. \<not> prefix_Contains prefix address) jarSpecialUsePrefixes)"
proof (cases address)
  case (Addr4 w)
  have "w \<noteq> 0 \<and> w \<noteq> 0xFFFFFFFF"
    if "list_all (\<lambda>prefix. \<not> prefix_Contains prefix (Addr4 w)) jarSpecialUsePrefixes"
    using special4(1,8) [OF that] by auto
  with Addr4 show ?thesis
    using special4 [of w] multicast_block [of w]
    by (auto simp: publicJARIPAddress_def IsValid_def IsGlobalUnicast_def IsUnspecified_def v4_ranges
        simp del: prefix_Contains.simps One_nat_def)
next
  case (Addr6 w z)
  show ?thesis
  proof (cases "z = '''' \<and> drop_bit 125 w = 1")
    case True
    with global_not_special [of w] Addr6 show ?thesis
      by (simp add: publicJARIPAddress_def IsValid_def IsGlobalUnicast_def IsUnspecified_def global_prefix del: prefix_Contains.simps)
  next
    case False
    with Addr6 show ?thesis
      by (auto simp: publicJARIPAddress_def global_prefix simp del: prefix_Contains.simps)
  qed
qed (simp add: publicJARIPAddress_def IsValid_def)

section \<open>What is dialled\<close>

lemma validate_addresses_ok:
  "validate_addresses allow validated addresses = Inr out \<Longrightarrow> list_all allow validated \<Longrightarrow> distinct validated \<Longrightarrow>
     list_all allow out \<and> distinct out \<and> list_all (\<lambda>a. \<not> Is4In6 a) addresses \<and>
     set out = set validated \<union> set addresses"
proof (induction allow validated addresses rule: validate_addresses.induct)
  case (2 allow validated address rest)
  have "Unmap address = address" using 2(3) by (cases address) (auto split: if_splits)
  with 2 show ?case by (auto simp: Let_def split: if_splits)
qed auto

lemma dial_attempts_ok:
  "dial_attempts ctx net network target tried failures addresses w = (Inr (out, r), w') \<Longrightarrow>
     \<exists>more. out = tried @ more \<and> set more \<subseteq> set addresses \<and> list_all (jt_allowAddress target) more \<and>
       (\<forall>a. r = Inr a \<longrightarrow> more \<noteq> [] \<and> a = last more)"
proof (induction addresses arbitrary: tried failures w)
  case (Cons address rest)
  show ?case
  proof (cases "l_CtxErr (cx_Lib ctx) (w_calls w)")
    case None
    show ?thesis
    proof (cases "jt_allowAddress target address")
      case True
      let ?w = "w\<lparr>w_calls := Suc (w_calls w)\<rparr>"
      show ?thesis
      proof (cases "nl_DialErr net (Suc (w_calls w)) network (JoinHostPort (nl_String net address) (jt_port target))")
        case None': None
        with None True Cons.prems show ?thesis by (auto simp: ctx_Err_def tryM_def)
      next
        case (Some e)
        with None True Cons.prems obtain w1 where
          "dial_attempts ctx net network target (tried @ [address]) (failures @ [e]) rest w1 = (Inr (out, r), w')"
          by (auto simp: ctx_Err_def tryM_def)
        from Cons.IH [OF this] True show ?thesis by force
      qed
    next
      case False
      with None Cons.prems obtain w1 where "dial_attempts ctx net network target tried failures rest w1 = (Inr (out, r), w')"
        by (auto simp: ctx_Err_def tryM_def)
      from Cons.IH [OF this] show ?thesis by force
    qed
  next
    case (Some e)
    with Cons.prems show ?thesis by (auto simp: ctx_Err_def tryM_def)
  qed
qed auto


lemma resolved_addresses:
  assumes "resolveJARNetworkTarget ctx net rawURI control w = (Inr target, w')"
  shows "jt_allowAddress target = (case control of None \<Rightarrow> publicJARIPAddress | Some f \<Rightarrow> f)"
    and "list_all (jt_allowAddress target) (jt_addresses target)" and "jt_addresses target \<noteq> []"
  using assms
  by (auto simp: resolveJARNetworkTarget_def Let_def ok_simps split: sum.splits option.splits
      simp del: validate_addresses.simps dest!: validate_addresses_ok)


definition dns_NetLib :: NetLib where
  "dns_NetLib = \<lparr>nl_ParseAddr = (\<lambda>_. None), nl_String = (\<lambda>_. ''8.8.8.8''),
     nl_LookupNetIP = (\<lambda>_ _. Inr [Addr4 0x08080808, Addr4 0x08080808]), nl_DialErr = (\<lambda>_ _ _. None)\<rparr>"

definition dns_Context :: "Manager Context" where
  "dns_Context = (base_Context (mem_Managers (\<lambda>_. id)))\<lparr>cx_Lib := base_Lib\<lparr>l_url_Parse := (\<lambda>s. Inr \<lparr>u_Scheme = ''https'',
     u_Opaque = '''', u_User = None, u_Host = ''rp.example'', u_Path = s, u_RawPath = '''', u_OmitHost = False,
     u_ForceQuery = False, u_RawQuery = '''', u_Fragment = '''', u_RawFragment = ''''\<rparr>)\<rparr>\<rparr>"


end
