(* ===== verification/HumanFlow.thy ===== *)
theory HumanFlow
  imports HumanValues
begin

text \<open>
  The values of the strict human authorization flow before the token endpoint, \<^verbatim>\<open>pkg/goidc/human_authorization.go\<close>: the
  capabilities of the browser, the pushed request and its receipt, the start of the interaction, the confirmation of
  the browser and the completion, and the four calls of the authority in \<^verbatim>\<open>internal/oidc/context.go\<close>.

  A sealed value is the option of its state, \<open>None\<close> for the zero value; the accessors are the fields of the state.
\<close>

section \<open>Capabilities\<close>

definition HumanPushedRequestURIPrefix :: string where
  "HumanPushedRequestURIPrefix = ''urn:ietf:params:oauth:request_uri:d0_hpar_1_''"
definition humanEntryCapabilityPrefix :: string where "humanEntryCapabilityPrefix = ''d0_hio_e1_''"
definition humanBrowserBindingPrefix :: string where "humanBrowserBindingPrefix = ''d0_hio_b1_''"
definition humanIdentityReturnPrefix :: string where "humanIdentityReturnPrefix = ''d0_hio_r1_''"
definition humanBrowserReturnPrefix :: string where "humanBrowserReturnPrefix = ''d0_hio_c1_''"
definition humanReadyCapabilityPrefix :: string where "humanReadyCapabilityPrefix = ''d0_hio_s1_''"

definition validHumanPushedRequestURI :: "string \<Rightarrow> bool" where
  "validHumanPushedRequestURI value = validHumanCapability value HumanPushedRequestURIPrefix"

definition NewHumanPushedRequestURI :: "string \<Rightarrow> HumanCapability" where
  "NewHumanPushedRequestURI value = (if validHumanPushedRequestURI value then Some value else None)"

definition HumanPushedRequestURI_Valid :: "HumanCapability \<Rightarrow> bool" where
  "HumanPushedRequestURI_Valid value = (case value of None \<Rightarrow> False | Some v \<Rightarrow> validHumanPushedRequestURI v)"

definition HumanPushedRequestURI_Render :: "HumanCapability \<Rightarrow> string option" where
  "HumanPushedRequestURI_Render value = (if HumanPushedRequestURI_Valid value then value else None)"

definition NewHumanInteractionEntryCapability :: "string \<Rightarrow> HumanCapability" where
  "NewHumanInteractionEntryCapability value = newHumanCapabilityState value humanEntryCapabilityPrefix"

definition HumanInteractionEntryCapability_Valid :: "HumanCapability \<Rightarrow> bool" where
  "HumanInteractionEntryCapability_Valid value = validHumanCapabilityState value humanEntryCapabilityPrefix"

definition HumanInteractionEntryCapability_Render :: "HumanCapability \<Rightarrow> string option" where
  "HumanInteractionEntryCapability_Render value = renderHumanCapability value humanEntryCapabilityPrefix"

definition NewHumanBrowserBindingCapability :: "string \<Rightarrow> HumanCapability" where
  "NewHumanBrowserBindingCapability value = newHumanCapabilityState value humanBrowserBindingPrefix"

definition HumanBrowserBindingCapability_Valid :: "HumanCapability \<Rightarrow> bool" where
  "HumanBrowserBindingCapability_Valid value = validHumanCapabilityState value humanBrowserBindingPrefix"

definition HumanBrowserBindingCapability_Render :: "HumanCapability \<Rightarrow> string option" where
  "HumanBrowserBindingCapability_Render value = renderHumanCapability value humanBrowserBindingPrefix"

definition NewHumanIdentityReturnCapability :: "string \<Rightarrow> HumanCapability" where
  "NewHumanIdentityReturnCapability value = newHumanCapabilityState value humanIdentityReturnPrefix"

definition HumanIdentityReturnCapability_Valid :: "HumanCapability \<Rightarrow> bool" where
  "HumanIdentityReturnCapability_Valid value = validHumanCapabilityState value humanIdentityReturnPrefix"

definition NewHumanBrowserReturnCapability :: "string \<Rightarrow> HumanCapability" where
  "NewHumanBrowserReturnCapability value = newHumanCapabilityState value humanBrowserReturnPrefix"

definition HumanBrowserReturnCapability_Valid :: "HumanCapability \<Rightarrow> bool" where
  "HumanBrowserReturnCapability_Valid value = validHumanCapabilityState value humanBrowserReturnPrefix"

definition HumanBrowserReturnCapability_Render :: "HumanCapability \<Rightarrow> string option" where
  "HumanBrowserReturnCapability_Render value = renderHumanCapability value humanBrowserReturnPrefix"

definition NewHumanReadyCapability :: "string \<Rightarrow> HumanCapability" where
  "NewHumanReadyCapability value = newHumanCapabilityState value humanReadyCapabilityPrefix"

definition HumanReadyCapability_Valid :: "HumanCapability \<Rightarrow> bool" where
  "HumanReadyCapability_Valid value = validHumanCapabilityState value humanReadyCapabilityPrefix"

definition HumanAuthorizationCode_Render :: "HumanAuthorizationCode \<Rightarrow> string option" where
  "HumanAuthorizationCode_Render value = renderHumanCapability value humanAuthorizationCodePrefix"

section \<open>The pushed request\<close>

type_synonym PromptType = string
definition PromptTypeNone :: PromptType where [const_defs]: "PromptTypeNone = ''none''"
definition PromptTypeLogin :: PromptType where [const_defs]: "PromptTypeLogin = ''login''"
definition PromptTypeConsent :: PromptType where [const_defs]: "PromptTypeConsent = ''consent''"
definition PromptTypeSelectAccount :: PromptType where [const_defs]: "PromptTypeSelectAccount = ''select_account''"

definition validHumanCodeChallenge :: "string \<Rightarrow> bool" where
  "validHumanCodeChallenge value = validHumanBase64URL256 value"

definition validHumanMaximumAuthenticationAge :: "int option \<Rightarrow> bool" where
  "validHumanMaximumAuthenticationAge value = (case value of None \<Rightarrow> True | Some v \<Rightarrow> 0 \<le> v \<and> v \<le> 24 * 60 * 60)"

definition validHumanACRSet :: "string list \<Rightarrow> bool" where
  "validHumanACRSet values \<longleftrightarrow>
     length values \<le> 1 \<and> (case values of [] \<Rightarrow> True | v # _ \<Rightarrow> humanAuthorizationAssurancePattern v)"

record HumanPARInput =
  hpi_clientID :: string
  hpi_clientAssertionAuthority :: VerifiedClientAssertionAuthority
  hpi_redirectURI :: string
  hpi_scopes :: "string list"
  hpi_resources :: "string list"
  hpi_state :: string
  hpi_nonce :: string
  hpi_codeChallenge :: string
  hpi_prompt :: PromptType
  hpi_maxAuthenticationAge :: "int option"
  hpi_acrValues :: "string list"

definition HumanPARInput_Valid :: "Lib \<Rightarrow> HumanPARInput \<Rightarrow> bool" where
  "HumanPARInput_Valid lib state \<longleftrightarrow>
     validHumanClientID (hpi_clientID state) \<and> validHumanClientAssertionAuthority (hpi_clientAssertionAuthority state)
     \<and> validHumanAbsoluteHTTPSURI lib (hpi_redirectURI state)
     \<and> validHumanStringSet (hpi_scopes state) 32 humanAuthorizationScopePattern \<and> ScopeOpenID_ID \<in> set (hpi_scopes state)
     \<and> validHumanStringSet (hpi_resources state) 8 (validHumanAbsoluteHTTPSURI lib)
     \<and> validHumanOpaqueParameter (hpi_state state) \<and> validHumanOpaqueParameter (hpi_nonce state)
     \<and> validHumanCodeChallenge (hpi_codeChallenge state)
     \<and> (hpi_prompt state = '''' \<or> hpi_prompt state = PromptTypeLogin \<or> hpi_prompt state = PromptTypeNone)
     \<and> validHumanMaximumAuthenticationAge (hpi_maxAuthenticationAge state) \<and> validHumanACRSet (hpi_acrValues state)"

definition NewHumanPARInput :: "Lib \<Rightarrow> HumanPARInput \<Rightarrow> HumanPARInput option" where
  "NewHumanPARInput lib input = (if HumanPARInput_Valid lib input then Some input else None)"

record humanPARReceiptState =
  hpr_requestURI :: HumanCapability
  hpr_expiresInSeconds :: int

type_synonym HumanPARReceipt = "humanPARReceiptState option"

definition HumanPARReceipt_Valid :: "HumanPARReceipt \<Rightarrow> bool" where
  "HumanPARReceipt_Valid receipt =
     (case receipt of
        None \<Rightarrow> False
      | Some state \<Rightarrow>
          HumanPushedRequestURI_Valid (hpr_requestURI state) \<and> hpr_expiresInSeconds state > 0 \<and> hpr_expiresInSeconds state < 600)"

definition NewHumanPARReceipt :: "HumanCapability \<Rightarrow> int \<Rightarrow> HumanPARReceipt" where
  "NewHumanPARReceipt requestURI expiresInSeconds =
     (let receipt = Some \<lparr>hpr_requestURI = requestURI, hpr_expiresInSeconds = expiresInSeconds\<rparr> in
      if HumanPARReceipt_Valid receipt then receipt else None)"

type_synonym HumanPAROutcome = string
definition HumanPAROutcomeCreated :: HumanPAROutcome where [const_defs]: "HumanPAROutcomeCreated = ''created''"
definition HumanPAROutcomeRejected :: HumanPAROutcome where [const_defs]: "HumanPAROutcomeRejected = ''rejected''"

record humanPARDecisionState =
  hpd_outcome :: HumanPAROutcome
  hpd_receipt :: HumanPARReceipt

type_synonym HumanPARDecision = "humanPARDecisionState option"

definition HumanPARDecision_Valid :: "HumanPARDecision \<Rightarrow> bool" where
  "HumanPARDecision_Valid decision =
     (case decision of
        None \<Rightarrow> False
      | Some state \<Rightarrow>
          if hpd_outcome state = HumanPAROutcomeCreated then HumanPARReceipt_Valid (hpd_receipt state)
          else hpd_outcome state = HumanPAROutcomeRejected \<and> \<not> HumanPARReceipt_Valid (hpd_receipt state))"

definition NewHumanPARDecision :: "HumanPAROutcome \<Rightarrow> HumanPARReceipt \<Rightarrow> HumanPARDecision" where
  "NewHumanPARDecision outcome receipt =
     (let decision = Some \<lparr>hpd_outcome = outcome, hpd_receipt = receipt\<rparr> in
      if HumanPARDecision_Valid decision then decision else None)"

definition HumanPARDecision_Receipt :: "HumanPARDecision \<Rightarrow> humanPARReceiptState option" where
  "HumanPARDecision_Receipt decision =
     (case decision of None \<Rightarrow> None
      | Some state \<Rightarrow> if HumanPARReceipt_Valid (hpd_receipt state) then hpd_receipt state else None)"

section \<open>The start of the interaction\<close>

record HumanStartInput =
  hsi_clientID :: string
  hsi_requestURI :: HumanCapability

definition HumanStartInput_Valid :: "HumanStartInput \<Rightarrow> bool" where
  "HumanStartInput_Valid input \<longleftrightarrow> validHumanClientID (hsi_clientID input) \<and> HumanPushedRequestURI_Valid (hsi_requestURI input)"

definition NewHumanStartInput :: "string \<Rightarrow> HumanCapability \<Rightarrow> HumanStartInput option" where
  "NewHumanStartInput clientID requestURI =
     (let input = \<lparr>hsi_clientID = clientID, hsi_requestURI = requestURI\<rparr> in
      if HumanStartInput_Valid input then Some input else None)"

type_synonym HumanStartOutcome = string
definition HumanStartOutcomePending :: HumanStartOutcome where [const_defs]: "HumanStartOutcomePending = ''pending''"
definition HumanStartOutcomeRejected :: HumanStartOutcome where [const_defs]: "HumanStartOutcomeRejected = ''rejected''"

record humanStartDecisionState =
  hsd_outcome :: HumanStartOutcome
  hsd_entry :: HumanCapability
  hsd_browserBinding :: HumanCapability
  hsd_expiresAt :: int

type_synonym HumanStartDecision = "humanStartDecisionState option"

definition HumanStartDecision_Valid :: "HumanStartDecision \<Rightarrow> bool" where
  "HumanStartDecision_Valid decision =
     (case decision of
        None \<Rightarrow> False
      | Some state \<Rightarrow>
          if hsd_outcome state = HumanStartOutcomePending
          then HumanInteractionEntryCapability_Valid (hsd_entry state)
            \<and> HumanBrowserBindingCapability_Valid (hsd_browserBinding state) \<and> hsd_expiresAt state > 0
          else hsd_outcome state = HumanStartOutcomeRejected \<and> \<not> HumanInteractionEntryCapability_Valid (hsd_entry state)
            \<and> \<not> HumanBrowserBindingCapability_Valid (hsd_browserBinding state) \<and> hsd_expiresAt state = 0)"

definition NewHumanStartDecision :: "humanStartDecisionState \<Rightarrow> HumanStartDecision" where
  "NewHumanStartDecision config = (if HumanStartDecision_Valid (Some config) then Some config else None)"

section \<open>The confirmation of the browser\<close>

record HumanContinuationInput =
  hci_identityReturn :: HumanCapability
  hci_browserReturn :: HumanCapability
  hci_browserBinding :: HumanCapability

definition HumanContinuationInput_Valid :: "HumanContinuationInput \<Rightarrow> bool" where
  "HumanContinuationInput_Valid input \<longleftrightarrow>
     HumanIdentityReturnCapability_Valid (hci_identityReturn input) \<and> HumanBrowserReturnCapability_Valid (hci_browserReturn input)
     \<and> HumanBrowserBindingCapability_Valid (hci_browserBinding input)"

definition NewHumanContinuationInput :: "HumanCapability \<Rightarrow> HumanCapability \<Rightarrow> HumanCapability \<Rightarrow> HumanContinuationInput option" where
  "NewHumanContinuationInput identityReturn browserReturn browserBinding =
     (let input = \<lparr>hci_identityReturn = identityReturn, hci_browserReturn = browserReturn, hci_browserBinding = browserBinding\<rparr> in
      if HumanContinuationInput_Valid input then Some input else None)"

type_synonym HumanContinuationOutcome = string
definition HumanContinuationOutcomeConfirmed :: HumanContinuationOutcome where [const_defs]: "HumanContinuationOutcomeConfirmed = ''confirmed''"
definition HumanContinuationOutcomeReplayed :: HumanContinuationOutcome where [const_defs]: "HumanContinuationOutcomeReplayed = ''replayed''"
definition HumanContinuationOutcomeExpired :: HumanContinuationOutcome where [const_defs]: "HumanContinuationOutcomeExpired = ''expired''"
definition HumanContinuationOutcomeRejected :: HumanContinuationOutcome where [const_defs]: "HumanContinuationOutcomeRejected = ''rejected''"

record humanContinuationDecisionState =
  hcd_outcome :: HumanContinuationOutcome
  hcd_browserReturn :: HumanCapability

type_synonym HumanContinuationDecision = "humanContinuationDecisionState option"

definition HumanContinuationDecision_Valid :: "HumanContinuationDecision \<Rightarrow> bool" where
  "HumanContinuationDecision_Valid decision =
     (case decision of
        None \<Rightarrow> False
      | Some state \<Rightarrow>
          if hcd_outcome state \<in> {HumanContinuationOutcomeConfirmed, HumanContinuationOutcomeReplayed}
          then HumanBrowserReturnCapability_Valid (hcd_browserReturn state)
          else hcd_outcome state \<in> {HumanContinuationOutcomeExpired, HumanContinuationOutcomeRejected}
            \<and> \<not> HumanBrowserReturnCapability_Valid (hcd_browserReturn state))"

definition NewHumanContinuationDecision :: "HumanContinuationOutcome \<Rightarrow> HumanCapability \<Rightarrow> HumanContinuationDecision" where
  "NewHumanContinuationDecision outcome browserReturn =
     (let decision = Some \<lparr>hcd_outcome = outcome, hcd_browserReturn = browserReturn\<rparr> in
      if HumanContinuationDecision_Valid decision then decision else None)"

definition HumanContinuationDecision_BrowserReturn :: "HumanContinuationDecision \<Rightarrow> string option" where
  "HumanContinuationDecision_BrowserReturn decision =
     (case decision of None \<Rightarrow> None
      | Some state \<Rightarrow> if HumanBrowserReturnCapability_Valid (hcd_browserReturn state) then hcd_browserReturn state else None)"

section \<open>The completion\<close>

record HumanCompletionInput =
  hco_ready :: HumanCapability
  hco_browserBinding :: HumanCapability

definition HumanCompletionInput_Valid :: "HumanCompletionInput \<Rightarrow> bool" where
  "HumanCompletionInput_Valid input \<longleftrightarrow>
     HumanReadyCapability_Valid (hco_ready input) \<and> HumanBrowserBindingCapability_Valid (hco_browserBinding input)"

definition NewHumanCompletionInput :: "HumanCapability \<Rightarrow> HumanCapability \<Rightarrow> HumanCompletionInput option" where
  "NewHumanCompletionInput ready browserBinding =
     (let input = \<lparr>hco_ready = ready, hco_browserBinding = browserBinding\<rparr> in
      if HumanCompletionInput_Valid input then Some input else None)"

type_synonym HumanCompletionOutcome = string
definition HumanCompletionOutcomeCompleted :: HumanCompletionOutcome where [const_defs]: "HumanCompletionOutcomeCompleted = ''completed''"
definition HumanCompletionOutcomeFailed :: HumanCompletionOutcome where [const_defs]: "HumanCompletionOutcomeFailed = ''failed''"
definition HumanCompletionOutcomeReplayed :: HumanCompletionOutcome where [const_defs]: "HumanCompletionOutcomeReplayed = ''replayed''"
definition HumanCompletionOutcomeExpired :: HumanCompletionOutcome where [const_defs]: "HumanCompletionOutcomeExpired = ''expired''"
definition HumanCompletionOutcomeRejected :: HumanCompletionOutcome where [const_defs]: "HumanCompletionOutcomeRejected = ''rejected''"

type_synonym HumanAuthorizationFailure = string
definition HumanAuthorizationFailureAccessDenied :: HumanAuthorizationFailure where [const_defs]: "HumanAuthorizationFailureAccessDenied = ''access_denied''"
definition HumanAuthorizationFailureLoginRequired :: HumanAuthorizationFailure where [const_defs]: "HumanAuthorizationFailureLoginRequired = ''login_required''"
definition HumanAuthorizationFailureInteractionRequired :: HumanAuthorizationFailure where
  [const_defs]: "HumanAuthorizationFailureInteractionRequired = ''interaction_required''"
definition HumanAuthorizationFailureProtocolCancelled :: HumanAuthorizationFailure where
  [const_defs]: "HumanAuthorizationFailureProtocolCancelled = ''protocol_cancelled''"

definition validHumanAuthorizationFailure :: "HumanAuthorizationFailure \<Rightarrow> bool" where
  "validHumanAuthorizationFailure value \<longleftrightarrow> value \<in>
     {HumanAuthorizationFailureAccessDenied, HumanAuthorizationFailureLoginRequired,
      HumanAuthorizationFailureInteractionRequired, HumanAuthorizationFailureProtocolCancelled}"

record humanCompletionDecisionState =
  hcm_outcome :: HumanCompletionOutcome
  hcm_profile :: AuthorizationRequestProfile
  hcm_clientID :: string
  hcm_clientSnapshotRevision :: int
  hcm_admissionKeyAuthorityID :: string
  hcm_authorizationCode :: HumanAuthorizationCode
  hcm_redirectURI :: string
  hcm_state :: string
  hcm_codeExpiresInSeconds :: int
  hcm_failure :: HumanAuthorizationFailure

type_synonym HumanCompletionDecision = "humanCompletionDecisionState option"

definition completion_bound :: "humanCompletionDecisionState \<Rightarrow> bool" where
  "completion_bound state \<longleftrightarrow>
     hcm_profile state = AuthorizationRequestProfileHumanConfidentialBFF \<and> validHumanClientID (hcm_clientID state)
     \<and> hcm_clientSnapshotRevision state > 0 \<and> humanAuthorizationKeyIDPattern (hcm_admissionKeyAuthorityID state)"

definition HumanCompletionDecision_Valid :: "Lib \<Rightarrow> HumanCompletionDecision \<Rightarrow> bool" where
  "HumanCompletionDecision_Valid lib decision =
     (case decision of
        None \<Rightarrow> False
      | Some state \<Rightarrow>
          if hcm_outcome state = HumanCompletionOutcomeCompleted
          then completion_bound state \<and> HumanAuthorizationCode_Valid (hcm_authorizationCode state)
            \<and> validHumanAbsoluteHTTPSURI lib (hcm_redirectURI state) \<and> validHumanOpaqueParameter (hcm_state state)
            \<and> hcm_codeExpiresInSeconds state > 0 \<and> hcm_codeExpiresInSeconds state \<le> 600 \<and> hcm_failure state = ''''
          else if hcm_outcome state = HumanCompletionOutcomeFailed
          then completion_bound state \<and> \<not> HumanAuthorizationCode_Valid (hcm_authorizationCode state)
            \<and> validHumanAbsoluteHTTPSURI lib (hcm_redirectURI state) \<and> validHumanOpaqueParameter (hcm_state state)
            \<and> hcm_codeExpiresInSeconds state = 0 \<and> validHumanAuthorizationFailure (hcm_failure state)
          else hcm_outcome state \<in> {HumanCompletionOutcomeReplayed, HumanCompletionOutcomeExpired, HumanCompletionOutcomeRejected}
            \<and> hcm_profile state = '''' \<and> hcm_clientID state = '''' \<and> hcm_clientSnapshotRevision state = 0
            \<and> hcm_admissionKeyAuthorityID state = '''' \<and> \<not> HumanAuthorizationCode_Valid (hcm_authorizationCode state)
            \<and> hcm_redirectURI state = '''' \<and> hcm_state state = '''' \<and> hcm_codeExpiresInSeconds state = 0 \<and> hcm_failure state = '''')"

definition NewHumanCompletionDecision :: "Lib \<Rightarrow> humanCompletionDecisionState \<Rightarrow> HumanCompletionDecision" where
  "NewHumanCompletionDecision lib config = (if HumanCompletionDecision_Valid lib (Some config) then Some config else None)"

section \<open>The authority\<close>

text \<open>The operations of the authority that the authorization endpoint calls; they belong to the same configured object
  as those of the token endpoint.\<close>

record HumanFlowAuthority =
  hf_StorePAR :: "nat \<Rightarrow> HumanPARInput \<Rightarrow> (go_error + HumanPARDecision) option"
  hf_ConsumePARAndStartContinuation :: "nat \<Rightarrow> HumanStartInput \<Rightarrow> (go_error + HumanStartDecision) option"
  hf_ConfirmBrowser :: "nat \<Rightarrow> HumanContinuationInput \<Rightarrow> (go_error + HumanContinuationDecision) option"
  hf_CompleteAuthorization :: "nat \<Rightarrow> HumanCompletionInput \<Rightarrow> (go_error + HumanCompletionDecision) option"

definition HumanStorePAR :: "'st Context \<Rightarrow> HumanFlowAuthority \<Rightarrow> HumanPARInput \<Rightarrow> ('st, HumanPARDecision) M" where
  "HumanStorePAR ctx flow input =
     callHumanAuthorizationAuthority ctx (HumanPARInput_Valid (cx_Lib ctx) input)
       (\<lambda>_ n. hf_StorePAR flow n input) HumanPARDecision_Valid"

definition HumanConsumePARAndStartContinuation ::
  "'st Context \<Rightarrow> HumanFlowAuthority \<Rightarrow> HumanStartInput \<Rightarrow> ('st, HumanStartDecision) M" where
  "HumanConsumePARAndStartContinuation ctx flow input =
     callHumanAuthorizationAuthority ctx (HumanStartInput_Valid input)
       (\<lambda>_ n. hf_ConsumePARAndStartContinuation flow n input) HumanStartDecision_Valid"

text \<open>The browser capability that comes back is the one that was sent.\<close>

definition continuation_correlates :: "HumanContinuationInput \<Rightarrow> HumanContinuationDecision \<Rightarrow> bool" where
  "continuation_correlates candidate decision =
     (case decision of
        None \<Rightarrow> False
      | Some state \<Rightarrow>
          hcd_outcome state \<in> {HumanContinuationOutcomeExpired, HumanContinuationOutcomeRejected}
          \<or> (case HumanContinuationDecision_BrowserReturn decision of
               None \<Rightarrow> False
             | Some returned \<Rightarrow> HumanBrowserReturnCapability_Render (hci_browserReturn candidate) = Some returned))"

definition HumanConfirmBrowser ::
  "'st Context \<Rightarrow> HumanFlowAuthority \<Rightarrow> HumanContinuationInput \<Rightarrow> ('st, HumanContinuationDecision) M" where
  "HumanConfirmBrowser ctx flow input =
     callHumanAuthorizationAuthority ctx (HumanContinuationInput_Valid input)
       (\<lambda>_ n. hf_ConfirmBrowser flow n input)
       (\<lambda>decision. HumanContinuationDecision_Valid decision \<and> continuation_correlates input decision)"

definition HumanCompleteAuthorization ::
  "'st Context \<Rightarrow> HumanFlowAuthority \<Rightarrow> HumanCompletionInput \<Rightarrow> ('st, HumanCompletionDecision) M" where
  "HumanCompleteAuthorization ctx flow input =
     callHumanAuthorizationAuthority ctx (HumanCompletionInput_Valid input)
       (\<lambda>_ n. hf_CompleteAuthorization flow n input) (HumanCompletionDecision_Valid (cx_Lib ctx))"

section \<open>Facts\<close>

lemma keeps_HumanFlow [frame_intros]:
  "stable P \<Longrightarrow> keeps P (HumanStorePAR ctx flow a)" "stable P \<Longrightarrow> keeps P (HumanConsumePARAndStartContinuation ctx flow b)"
  "stable P \<Longrightarrow> keeps P (HumanConfirmBrowser ctx flow c)" "stable P \<Longrightarrow> keeps P (HumanCompleteAuthorization ctx flow d)"
  unfolding HumanStorePAR_def HumanConsumePARAndStartContinuation_def HumanConfirmBrowser_def HumanCompleteAuthorization_def
  by (intro frame_intros; assumption)+


section \<open>Purposes of capabilities\<close>

text \<open>The prefixes of all bearer values of the flow.\<close>

definition capability_prefixes :: "string list" where
  "capability_prefixes =
     [HumanPushedRequestURIPrefix, humanEntryCapabilityPrefix, humanBrowserBindingPrefix, humanIdentityReturnPrefix,
      humanBrowserReturnPrefix, humanReadyCapabilityPrefix, humanAuthorizationCodePrefix, humanRefreshCapabilityPrefix]"

lemma HasPrefix_both:
  "strings_HasPrefix v p \<Longrightarrow> strings_HasPrefix v q \<Longrightarrow> length p = length q \<Longrightarrow> p = q"
  by (auto simp: strings_HasPrefix_iff append_eq_append_conv)

lemma capability_prefix:
  assumes "validHumanCapability v p" "validHumanCapability v q"
  shows "p = q"
  using assms by (auto simp: validHumanCapability_def intro: HasPrefix_both)


definition sample_ready :: string where
  "sample_ready = humanReadyCapabilityPrefix @ b64_encode (replicate 32 1)"


end
