(* ===== verification/AuthorizeModel.thy ===== *)
theory AuthorizeModel
  imports Grants JarNetwork HumanFlow
begin

text \<open>
  The data of the authorization endpoint, \<^verbatim>\<open>internal/authorize/model.go\<close> and \<^verbatim>\<open>internal/authorize/error.go\<close>: requests and how
  they are read from HTTP, the parameters of a response, the merge of inner and outer parameters, redirection
  errors, and the part of the provider's configuration that only this package reads.

  The programs of this package run in a world that adds to the world of a request the authentication session the
  handler holds a pointer to, and what was sent to the browser. Their errors are Go errors or the package's own
  \<^verbatim>\<open>redirectionError\<close>; a redirection error is never wrapped, so looking for it with \<^verbatim>\<open>errors.As\<close> is a case distinction.
\<close>

section \<open>Configuration\<close>

text \<open>\<^verbatim>\<open>goidc.AuthnPolicy\<close>. A policy receives pointers to the session and the client and may change both; what it
  writes to the response itself is not recorded.\<close>

record AuthnPolicy =
  po_ID :: string
  po_Setup :: "nat \<Rightarrow> AuthnSession \<Rightarrow> Client \<Rightarrow> bool \<times> AuthnSession \<times> Client"
  po_Authenticate :: "nat \<Rightarrow> AuthnSession \<Rightarrow> Client \<Rightarrow> (Status \<times> go_error option) \<times> AuthnSession \<times> Client"

text \<open>\<^verbatim>\<open>goidc.IDToken\<close>: the audience, and all of its claims as the session keeps them.\<close>

record IDToken =
  it_Audience :: "string list"
  it_Claims :: json

definition zero_IDToken :: IDToken where
  "zero_IDToken = \<lparr>it_Audience = [], it_Claims = JObj []\<rparr>"

record VCIssuerStateResult =
  isr_Store :: "(string \<times> json) list"
  isr_ConfigurationIDs :: "string list"

record requestAdmissionTransport =
  rat_parameters :: "(string \<times> string list) list"
  rat_parseErr :: "go_error option"

record request =
  ar_ClientID :: string
  ar_Params :: AuthorizationParameters
  ar_AdmissionTransport :: "requestAdmissionTransport option"

datatype DecryptionKey = DecryptJWK JSONWebKey | DecryptOpaque string string

text \<open>The fields of \<^verbatim>\<open>oidc.Configuration\<close> that the authorization endpoint reads, beyond those of the token endpoint.
  \<open>az_FederationClient\<close> is \<^verbatim>\<open>federation.Client\<close>, the registration of a client from its trust chain.\<close>

record AuthorizeConfiguration =
  az_OpenIDRequired :: bool
  az_DisplayValues :: "string list"
  az_IssuerRespParamEnabled :: bool
  az_RenderErrorFunc :: "(nat \<Rightarrow> go_error \<Rightarrow> go_error option) option"
  az_AuthPolicies :: "AuthnPolicy list"
  az_AuthTimeoutSecs :: int
  az_AuthCodeFunc :: "nat \<Rightarrow> string"
  az_AuthCodeLifetimeSecs :: int
  az_AuthSessionIDFunc :: "nat \<Rightarrow> string"
  az_AuthSessionPersistenceIDFunc :: "nat \<Rightarrow> string"
  az_PKCERequired :: bool
  az_PKCEChallengeMethods :: "CodeChallengeMethod list"
  az_DecrypterFunc :: "(nat \<Rightarrow> string \<Rightarrow> KeyEncryptionAlgorithm \<Rightarrow> go_error + string) option"
  az_JARMSigAlgDefault :: SignatureAlgorithm
  az_JARMSigAlgs :: "SignatureAlgorithm list"
  az_JARMLifetimeSecs :: int
  az_JARMEncEnabled :: bool
  az_JARMKeyEncAlgs :: "KeyEncryptionAlgorithm list"
  az_JARMContentEncAlgs :: "ContentEncryptionAlgorithm list"
  az_JAREnabled :: bool
  az_JARRequired :: bool
  az_JARSigAlgs :: "SignatureAlgorithm list"
  az_JARByReferenceEnabled :: bool
  az_JARByReferenceAllowedLoopbackOrigins :: "string list"
  az_JAREncEnabled :: bool
  az_JARKeyEncAlgs :: "KeyEncryptionAlgorithm list"
  az_JARContentEncAlgs :: "ContentEncryptionAlgorithm list"
  az_JARHTTPClient :: "HTTPClient option"
  az_PAREnabled :: bool
  az_PARRequired :: bool
  az_LegacyPAREnabled :: bool
  az_PARIDFunc :: "nat \<Rightarrow> string"
  az_PARHandleSessionFunc :: "nat \<Rightarrow> AuthnSession \<Rightarrow> Client \<Rightarrow> go_error option \<times> AuthnSession \<times> Client"
  az_PARLifetimeSecs :: int
  az_CIBAIDFunc :: "nat \<Rightarrow> string"
  az_CIBAHandleSessionFunc :: "nat \<Rightarrow> AuthnSession \<Rightarrow> Client \<Rightarrow> go_error option \<times> AuthnSession \<times> Client"
  az_CIBAUserCodeEnabled :: bool
  az_CIBADefaultSessionLifetimeSecs :: int
  az_CIBAPollingIntervalSecs :: int
  az_CIBAJAREnabled :: bool
  az_CIBAJARRequired :: bool
  az_CIBAJARSigAlgs :: "SignatureAlgorithm list"
  az_DevicePolicies :: "AuthnPolicy list"
  az_DeviceAuthVerificationEndpoint :: string
  az_DeviceAuthVerificationURICompleteEnabled :: bool
  az_DeviceAuthLifetimeSecs :: int
  az_DeviceAuthPollingIntervalSecs :: int
  az_DeviceCodeFunc :: "nat \<Rightarrow> string"
  az_DeviceUserCodeFunc :: "nat \<Rightarrow> string"
  az_DeviceAuthPromptUserCodeFunc :: "nat \<Rightarrow> go_error option"
  az_DeviceAuthRenderConfirmationFunc :: "nat \<Rightarrow> go_error option"
  az_VCIIssuerStateEnabled :: bool
  az_VCIIssuerStateHandleFunc :: "nat \<Rightarrow> string \<Rightarrow> string \<Rightarrow> go_error + VCIssuerStateResult"
  az_OpenIDFedClientRegTypes :: "string list"
  az_FederationClient :: "nat \<Rightarrow> string \<Rightarrow> string slice option \<Rightarrow> go_error + Client"
  az_HumanFlow :: HumanFlowAuthority
  az_HumanIdentityInteractionEndpoint :: string
  az_HumanIdentityReadyEndpoint :: string
  az_HumanBrowserOrigin :: string
  az_HumanCompletionOrigins :: "string slice"
  az_HumanBrowserBindingCookieName :: string

text \<open>Functions outside the program that only this package calls: IP literals, queries, JSON into its types, JWE,
  HTML templates, and the fetch of a request object over a given client. \<open>al_CloneFails\<close> tells whether the reflective
  clone of an object exceeds its budget, which depends on the layout of the object in memory.\<close>

record AuthorizeLib =
  al_ParseIP :: "string \<Rightarrow> Addr option"
  al_ParseQuery :: "string \<Rightarrow> (string \<times> string list) list \<times> go_error option"
  al_EncodeQuery :: "(string \<times> string list) list \<Rightarrow> string"
  al_UnmarshalRequest :: "string \<Rightarrow> go_error + request \<times> string option"
  al_UnmarshalInt :: "string \<Rightarrow> int option"
  al_UnmarshalClaimsObject :: "string \<Rightarrow> json option"
  al_UnmarshalIDToken :: "string \<Rightarrow> go_error + IDToken"
  al_UnmarshalTrustChain :: "string \<Rightarrow> go_error + string slice"
  al_ParseEncrypted :: "string \<Rightarrow> KeyEncryptionAlgorithm list \<Rightarrow> ContentEncryptionAlgorithm list \<Rightarrow> go_error + string \<times> KeyEncryptionAlgorithm"
  al_Decrypt :: "nat \<Rightarrow> string \<Rightarrow> DecryptionKey \<Rightarrow> go_error + string"
  al_TemplateErr :: "nat \<Rightarrow> go_error option"
  al_DefaultTransport :: "Transport option"
  al_FetchJAR :: "nat \<Rightarrow> HTTPClient \<Rightarrow> string \<Rightarrow> go_error + HTTPResponse"
  al_CloneFails :: "nat \<Rightarrow> bool"

text \<open>The members of \<^verbatim>\<open>http.Request\<close> that only this package reads: the host, the path and fragments of the URL, the length and
  encodings of the body, all header fields by their names as received, the cookies, and the path value \<^verbatim>\<open>callback\<close>.\<close>

record RequestTransport =
  rt_Host :: string
  rt_Path :: string
  rt_RawPath :: string
  rt_Fragment :: string
  rt_RawFragment :: string
  rt_ContentLength :: int
  rt_TransferEncoding :: "string list"
  rt_HeaderFields :: "(string \<times> string list) list"
  rt_Cookies :: "(string \<times> string) list"
  rt_callback :: string

definition zero_RequestTransport :: RequestTransport where
  "zero_RequestTransport = \<lparr>rt_Host = '''', rt_Path = '''', rt_RawPath = '''', rt_Fragment = '''', rt_RawFragment = '''',
     rt_ContentLength = 0, rt_TransferEncoding = [], rt_HeaderFields = [], rt_Cookies = [], rt_callback = ''''\<rparr>"

record 'st AuthorizeContext =
  ac :: "'st Context"
  ac_Transport :: RequestTransport
  ac_conf :: AuthorizeConfiguration
  ac_Lib :: AuthorizeLib
  ac_Net :: NetLib

text \<open>A configuration with nothing enabled and a library in which every call fails, as a base for concrete ones.\<close>

definition base_AuthorizeConfiguration :: AuthorizeConfiguration where
  "base_AuthorizeConfiguration =
    \<lparr>az_OpenIDRequired = False, az_DisplayValues = [], az_IssuerRespParamEnabled = False, az_RenderErrorFunc = None,
     az_AuthPolicies = [], az_AuthTimeoutSecs = 0, az_AuthCodeFunc = (\<lambda>n. ''code'' @ replicate n CHR ''1''),
     az_AuthCodeLifetimeSecs = 0, az_AuthSessionIDFunc = (\<lambda>n. ''s'' @ replicate n CHR ''1''),
     az_AuthSessionPersistenceIDFunc = (\<lambda>n. ''p'' @ replicate n CHR ''1''), az_PKCERequired = False,
     az_PKCEChallengeMethods = [], az_DecrypterFunc = None, az_JARMSigAlgDefault = '''', az_JARMSigAlgs = [],
     az_JARMLifetimeSecs = 0, az_JARMEncEnabled = False, az_JARMKeyEncAlgs = [], az_JARMContentEncAlgs = [],
     az_JAREnabled = False, az_JARRequired = False, az_JARSigAlgs = [], az_JARByReferenceEnabled = False,
     az_JARByReferenceAllowedLoopbackOrigins = [], az_JAREncEnabled = False, az_JARKeyEncAlgs = [],
     az_JARContentEncAlgs = [], az_JARHTTPClient = None, az_PAREnabled = False, az_PARRequired = False,
     az_LegacyPAREnabled = False, az_PARIDFunc = (\<lambda>n. ''par'' @ replicate n CHR ''1''),
     az_PARHandleSessionFunc = (\<lambda>n as c. (None, as, c)), az_PARLifetimeSecs = 0,
     az_CIBAIDFunc = (\<lambda>n. ''ciba'' @ replicate n CHR ''1''),
     az_CIBAHandleSessionFunc = (\<lambda>n as c. (None, as, c)), az_CIBAUserCodeEnabled = False,
     az_CIBADefaultSessionLifetimeSecs = 0, az_CIBAPollingIntervalSecs = 0, az_CIBAJAREnabled = False,
     az_CIBAJARRequired = False, az_CIBAJARSigAlgs = [], az_DevicePolicies = [],
     az_DeviceAuthVerificationEndpoint = '''', az_DeviceAuthVerificationURICompleteEnabled = False,
     az_DeviceAuthLifetimeSecs = 0, az_DeviceAuthPollingIntervalSecs = 0,
     az_DeviceCodeFunc = (\<lambda>n. ''dc'' @ replicate n CHR ''1''),
     az_DeviceUserCodeFunc = (\<lambda>n. ''uc'' @ replicate n CHR ''1''),
     az_DeviceAuthPromptUserCodeFunc = (\<lambda>_. None), az_DeviceAuthRenderConfirmationFunc = (\<lambda>_. None),
     az_VCIIssuerStateEnabled = False, az_VCIIssuerStateHandleFunc = (\<lambda>_ _ _. Inl ErrNotFound),
     az_OpenIDFedClientRegTypes = [], az_FederationClient = (\<lambda>_ _ _. Inl ErrNotFound),
     az_HumanFlow = \<lparr>hf_StorePAR = (\<lambda>_ _. None), hf_ConsumePARAndStartContinuation = (\<lambda>_ _. None),
       hf_ConfirmBrowser = (\<lambda>_ _. None), hf_CompleteAuthorization = (\<lambda>_ _. None)\<rparr>,
     az_HumanIdentityInteractionEndpoint = '''', az_HumanIdentityReadyEndpoint = '''', az_HumanBrowserOrigin = '''',
     az_HumanCompletionOrigins = None, az_HumanBrowserBindingCookieName = ''''\<rparr>"

definition base_AuthorizeLib :: AuthorizeLib where
  "base_AuthorizeLib =
    \<lparr>al_ParseIP = (\<lambda>_. None), al_ParseQuery = (\<lambda>_. ([], None)),
     al_EncodeQuery = (\<lambda>ps. join ''&'' (map (\<lambda>(k, vs). join ''&'' (map (\<lambda>v. k @ ''='' @ v) vs)) ps)),
     al_UnmarshalRequest = (\<lambda>_. Inl ErrNotFound), al_UnmarshalInt = (\<lambda>_. None),
     al_UnmarshalClaimsObject = (\<lambda>_. None), al_UnmarshalIDToken = (\<lambda>_. Inl ErrNotFound),
     al_UnmarshalTrustChain = (\<lambda>_. Inl ErrNotFound), al_ParseEncrypted = (\<lambda>_ _ _. Inl ErrNotFound),
     al_Decrypt = (\<lambda>_ _ _. Inl ErrNotFound), al_TemplateErr = (\<lambda>_. None), al_DefaultTransport = None,
     al_FetchJAR = (\<lambda>_ _ _. Inl ErrNotFound), al_CloneFails = (\<lambda>_. False)\<rparr>"

section \<open>World and errors\<close>

datatype authorize_error = PlainError go_error
  | redirectionError (re_Params: AuthorizationParameters) (re_err: go_error)

definition newRedirectionError :: "ErrorCode \<Rightarrow> string \<Rightarrow> AuthorizationParameters \<Rightarrow> authorize_error" where
  "newRedirectionError code desc params = redirectionError params (NewError code desc)"

definition wrapRedirectionError :: "ErrorCode \<Rightarrow> string \<Rightarrow> AuthorizationParameters \<Rightarrow> go_error \<Rightarrow> authorize_error" where
  "wrapRedirectionError code desc params err = redirectionError params (WrapError code desc err)"

text \<open>The Go error behind: the \<^verbatim>\<open>Unwrap\<close> of a redirection error, whose message and JSON are those of its error.\<close>

fun base_error :: "authorize_error \<Rightarrow> go_error" where
  "base_error (PlainError e) = e"
| "base_error (redirectionError params e) = e"

definition plainWrap :: "ErrorCode \<Rightarrow> string \<Rightarrow> string \<Rightarrow> authorize_error" where
  "plainWrap code desc cause = PlainError (WrapError code desc (ErrNew cause))"

definition redirectWrap :: "ErrorCode \<Rightarrow> string \<Rightarrow> AuthorizationParameters \<Rightarrow> string \<Rightarrow> authorize_error" where
  "redirectWrap code desc params cause = wrapRedirectionError code desc params (ErrNew cause)"

text \<open>What reaches the browser besides headers and JSON: redirects by their location, and forms by the URI they are
  posted to and their fields.\<close>

datatype browser_output = Redirected string | FormPosted string "(string \<times> string) list"

record 'st AuthorizeWorld =
  aw :: "'st World"
  aw_session :: AuthnSession
  aw_sessionShared :: bool
  aw_sent :: "browser_output list"
  aw_cookies :: "(string \<times> string \<times> int \<times> int) list"

definition start_AuthorizeWorld :: "'st \<Rightarrow> nat \<Rightarrow> 'st AuthorizeWorld" where
  "start_AuthorizeWorld s n = \<lparr>aw = start_World s n, aw_session = zero_AuthnSession, aw_sessionShared = False,
     aw_sent = [], aw_cookies = []\<rparr>"

type_synonym ('st, 'a) A = "(authorize_error, 'st AuthorizeWorld, 'a) prog"

text \<open>A program of the request context as part of a program of this package.\<close>

definition baseM :: "('st, 'a) M \<Rightarrow> ('st, 'a) A" where
  "baseM m w = (case m (aw w) of (r, v) \<Rightarrow>
     (case r of Inl e \<Rightarrow> Inl (PlainError e) | Inr x \<Rightarrow> Inr x, w\<lparr>aw := v\<rparr>))"

text \<open>\<^verbatim>\<open>fmt.Errorf("...: %w", err)\<close> on the error of a call.\<close>

definition wrapPlain :: "string \<Rightarrow> authorize_error \<Rightarrow> authorize_error" where
  "wrapPlain m e = PlainError (ErrWrapf m (base_error e))"

subsection \<open>The session object\<close>

definition freshSession :: "AuthnSession \<Rightarrow> ('st, unit) A" where
  "freshSession as = modM (\<lambda>w. w\<lparr>aw_session := as, aw_sessionShared := False\<rparr>)"

definition loadSession :: "(nat \<Rightarrow> ('st, AuthnSession) store_op) \<Rightarrow> ('st, AuthnSession) A" where
  "loadSession f =
     tryM (baseM (storeM f)) (\<lambda>as.
     tryM (modM (\<lambda>w. w\<lparr>aw_session := as, aw_sessionShared := True\<rparr>)) (\<lambda>_. okM as))"

text \<open>An assignment to fields of the object; a manager that shares its objects sees it. The identifier of a stored
  object does not change.\<close>

definition assignSession :: "'st AuthorizeContext \<Rightarrow> (AuthnSession \<Rightarrow> AuthnSession) \<Rightarrow> ('st, unit) A" where
  "assignSession ctx f =
     modM (\<lambda>w. if aw_sessionShared w
               then let as = (f (aw_session w))\<lparr>as_ID := as_ID (aw_session w)\<rparr>
                    in w\<lparr>aw_session := as,
                         aw := (aw w)\<lparr>w_store := m_TouchSession (cf_Managers (cx (ac ctx))) as (w_store (aw w))\<rparr>\<rparr>
               else w\<lparr>aw_session := f (aw_session w)\<rparr>)"

definition saveSession :: "(nat \<Rightarrow> AuthnSession \<Rightarrow> ('st, unit) store_op) \<Rightarrow> ('st, unit) A" where
  "saveSession f =
     tryM (getM aw_session) (\<lambda>as.
     tryM (modM (\<lambda>w. w\<lparr>aw_sessionShared := True\<rparr>)) (\<lambda>_. baseM (storeM (\<lambda>n. f n as))))"

definition AuthSaveSession :: "'st AuthorizeContext \<Rightarrow> ('st, unit) A" where
  "AuthSaveSession ctx = saveSession (m_Auth_SaveSession (cf_Managers (cx (ac ctx))))"

definition DeviceSaveSession :: "'st AuthorizeContext \<Rightarrow> ('st, unit) A" where
  "DeviceSaveSession ctx = saveSession (m_Device_SaveSession (cf_Managers (cx (ac ctx))))"

definition CIBASaveSession :: "'st AuthorizeContext \<Rightarrow> ('st, unit) A" where
  "CIBASaveSession ctx = saveSession (m_CIBA_SaveSession (cf_Managers (cx (ac ctx))))"

text \<open>A configured function that receives the session and the client.\<close>

definition sessionCall ::
  "'st AuthorizeContext \<Rightarrow> (nat \<Rightarrow> AuthnSession \<Rightarrow> Client \<Rightarrow> 'a \<times> AuthnSession \<times> Client) \<Rightarrow> Client \<Rightarrow> ('st, 'a \<times> Client) A" where
  "sessionCall ctx f c =
     tryM (getM aw_session) (\<lambda>as.
     tryM (baseM (callM (\<lambda>n. f n as c))) (\<lambda>(r, as', c').
     tryM (assignSession ctx (\<lambda>_. as')) (\<lambda>_. okM (r, c'))))"

section \<open>Reading requests\<close>

definition values_Get :: "(string \<times> string list) list \<Rightarrow> string \<Rightarrow> string" where
  "values_Get vs name = (case map_of vs name of Some (v # _) \<Rightarrow> v | _ \<Rightarrow> '''')"

text \<open>The struct literal and the four optional members that \<^verbatim>\<open>newRequest\<close> and \<^verbatim>\<open>newFormRequest\<close> share, over the values
  they read.\<close>

definition read_params :: "Lib \<Rightarrow> AuthorizeLib \<Rightarrow> (string \<times> string list) list \<Rightarrow> AuthorizationParameters" where
  "read_params lib alib q = zero_AuthorizationParameters
    \<lparr>ap_RequestURI := values_Get q ''request_uri'', ap_RequestObject := values_Get q ''request'',
     ap_RedirectURI := values_Get q ''redirect_uri'', ap_ResponseMode := values_Get q ''response_mode'',
     ap_ResponseType := values_Get q ''response_type'', ap_Scopes := values_Get q ''scope'',
     ap_State := values_Get q ''state'', ap_Nonce := values_Get q ''nonce'',
     ap_CodeChallenge := values_Get q ''code_challenge'',
     ap_CodeChallengeMethod := values_Get q ''code_challenge_method'', ap_Prompt := values_Get q ''prompt'',
     ap_Display := values_Get q ''display'', ap_ACRValues := values_Get q ''acr_values'',
     ap_Resources := map_of q ''resource'', ap_DPoPJKT := values_Get q ''dpop_jkt'',
     ap_LoginHint := values_Get q ''login_hint'', ap_LoginHintToken := values_Get q ''login_hint_token'',
     ap_IDTokenHint := values_Get q ''id_token_hint'',
     ap_ClientNotificationToken := values_Get q ''client_notification_token'',
     ap_BindingMessage := values_Get q ''binding_message'', ap_UserCode := values_Get q ''user_code'',
     ap_MaxAuthnAgeSecs := ParseInt64 (values_Get q ''max_age''),
     ap_Claims := (if values_Get q ''claims'' \<noteq> '''' then al_UnmarshalClaimsObject alib (values_Get q ''claims'') else None),
     ap_AuthDetails :=
       (if values_Get q ''authorization_details'' \<noteq> ''''
        then (case l_UnmarshalAuthDetails lib (values_Get q ''authorization_details'') of Inl e \<Rightarrow> None | Inr ds \<Rightarrow> ds) else None),
     ap_RequestedExpiry := ParseInt64 (values_Get q ''requested_expiry'')\<rparr>"

definition newRequest :: "Lib \<Rightarrow> AuthorizeLib \<Rightarrow> Request \<Rightarrow> request" where
  "newRequest lib alib r =
     (let (query, parseErr) = al_ParseQuery alib (rq_RawQuery r) in
      \<lparr>ar_ClientID = values_Get query ''client_id'', ar_Params = read_params lib alib query,
       ar_AdmissionTransport = Some \<lparr>rat_parameters = query, rat_parseErr = parseErr\<rparr>\<rparr>)"

definition newFormRequest :: "Lib \<Rightarrow> AuthorizeLib \<Rightarrow> Request \<Rightarrow> request" where
  "newFormRequest lib alib r =
     \<lparr>ar_ClientID = values_Get (rq_PostForm r) ''client_id'', ar_Params = read_params lib alib (rq_PostForm r),
      ar_AdmissionTransport = Some \<lparr>rat_parameters = rq_PostForm r, rat_parseErr = rq_ParseErr r\<rparr>\<rparr>"

text \<open>\<^verbatim>\<open>UnmarshalJSON\<close> of a request object: \<^verbatim>\<open>requested_expiry\<close> may be a number or a decimal string. The decoder returns the
  other members and the undecoded text of that one.\<close>

definition UnmarshalJSON :: "Lib \<Rightarrow> AuthorizeLib \<Rightarrow> string \<Rightarrow> go_error + request" where
  "UnmarshalJSON lib alib data =
     (case al_UnmarshalRequest alib data of
        Inl e \<Rightarrow> Inl e
      | Inr (req, None) \<Rightarrow> Inr req
      | Inr (req, Some raw) \<Rightarrow>
          (case al_UnmarshalInt alib raw of
             Some i \<Rightarrow> Inr (req\<lparr>ar_Params := (ar_Params req)\<lparr>ap_RequestedExpiry := Some i\<rparr>\<rparr>)
           | None \<Rightarrow>
               (case l_UnmarshalString lib raw of
                  Inl e \<Rightarrow> Inl (ErrWrapf ''requested_expiry is neither int nor string'' e)
                | Inr s \<Rightarrow>
                    (case ParseInt64 s of
                       None \<Rightarrow> Inl (ErrWrapf ''requested_expiry is an invalid integer string'' (ErrNew ''invalid syntax''))
                     | Some i \<Rightarrow> Inr (req\<lparr>ar_Params := (ar_Params req)\<lparr>ap_RequestedExpiry := Some i\<rparr>\<rparr>)))))"

section \<open>Responses\<close>

record response =
  rp_response :: string
  rp_issuer :: string
  rp_accessToken :: string
  rp_tokenType :: TokenType
  rp_idToken :: string
  rp_authorizationCode :: string
  rp_state :: string
  rp_errorCode :: ErrorCode
  rp_errorDescription :: string
  rp_errorURI :: string

definition zero_response :: response where
  "zero_response = \<lparr>rp_response = '''', rp_issuer = '''', rp_accessToken = '''', rp_tokenType = '''', rp_idToken = '''',
     rp_authorizationCode = '''', rp_state = '''', rp_errorCode = '''', rp_errorDescription = '''', rp_errorURI = ''''\<rparr>"

definition param :: "string \<Rightarrow> string \<Rightarrow> (string \<times> string) list" where
  "param name value = (if value \<noteq> '''' then [(name, value)] else [])"

definition parameters :: "response \<Rightarrow> (string \<times> string) list" where
  "parameters resp =
     (if rp_response resp \<noteq> '''' then [(''response'', rp_response resp)]
      else param ''iss'' (rp_issuer resp) @ param ''access_token'' (rp_accessToken resp) @
           param ''token_type'' (rp_tokenType resp) @ param ''id_token'' (rp_idToken resp) @
           param ''code'' (rp_authorizationCode resp) @ param ''state'' (rp_state resp) @
           param ''error'' (rp_errorCode resp) @ param ''error_description'' (rp_errorDescription resp) @
           param ''error_uri'' (rp_errorURI resp))"

section \<open>Sessions\<close>

definition parRequestURIPrefix :: string where
  "parRequestURIPrefix = ''urn:ietf:params:oauth:request_uri:''"

definition newAuthnSession :: "'st AuthorizeContext \<Rightarrow> AuthorizationParameters \<Rightarrow> Client \<Rightarrow> ('st, unit) A" where
  "newAuthnSession ctx params c =
     tryM (baseM (callM (az_AuthSessionIDFunc (ac_conf ctx)))) (\<lambda>i.
     tryM (baseM (callM (az_AuthSessionPersistenceIDFunc (ac_conf ctx)))) (\<lambda>pid.
     tryM (baseM (TimestampNow (ac ctx))) (\<lambda>now.
     freshSession (zero_AuthnSession\<lparr>as_ID := i, as_PersistenceID := pid, as_Status := StatusPending, as_ClientID := c_ID c,
       as_AuthorizationParameters := params, as_CreatedAt := now, as_Store := []\<rparr>))))"

text \<open>\<^verbatim>\<open>nonZeroOrDefault\<close>, with the zero value of the type as an argument.\<close>

definition nonZeroOrDefault :: "'a \<Rightarrow> 'a \<Rightarrow> 'a \<Rightarrow> 'a" where
  "nonZeroOrDefault zero s1 s2 = (if s1 = zero then s2 else s1)"

definition mergeParams :: "AuthorizationParameters \<Rightarrow> AuthorizationParameters \<Rightarrow> AuthorizationParameters" where
  "mergeParams inParams outParams =
     (let pick = (\<lambda>f. nonZeroOrDefault '''' (f inParams) (f outParams)) in
      zero_AuthorizationParameters
      \<lparr>ap_RedirectURI := pick ap_RedirectURI, ap_ResponseMode := pick ap_ResponseMode, ap_ResponseType := pick ap_ResponseType,
       ap_Scopes := pick ap_Scopes, ap_State := pick ap_State, ap_Nonce := pick ap_Nonce,
       ap_CodeChallenge := pick ap_CodeChallenge, ap_CodeChallengeMethod := pick ap_CodeChallengeMethod,
       ap_Prompt := pick ap_Prompt,
       ap_MaxAuthnAgeSecs := nonZeroOrDefault None (ap_MaxAuthnAgeSecs inParams) (ap_MaxAuthnAgeSecs outParams),
       ap_Display := pick ap_Display, ap_ACRValues := pick ap_ACRValues,
       ap_Claims := nonZeroOrDefault None (ap_Claims inParams) (ap_Claims outParams),
       ap_AuthDetails := nonZeroOrDefault None (ap_AuthDetails inParams) (ap_AuthDetails outParams),
       ap_Resources := nonZeroOrDefault None (ap_Resources inParams) (ap_Resources outParams),
       ap_DPoPJKT := pick ap_DPoPJKT, ap_LoginHint := pick ap_LoginHint, ap_LoginHintToken := pick ap_LoginHintToken,
       ap_IDTokenHint := pick ap_IDTokenHint, ap_ClientNotificationToken := pick ap_ClientNotificationToken,
       ap_BindingMessage := pick ap_BindingMessage, ap_UserCode := pick ap_UserCode,
       ap_RequestedExpiry := nonZeroOrDefault None (ap_RequestedExpiry inParams) (ap_RequestedExpiry outParams)\<rparr>)"


section \<open>Running and framing\<close>

lemma baseM_run [run_simps, simp]:
  "m (aw w) = (Inl e, v) \<Longrightarrow> baseM m w = (Inl (PlainError e), w\<lparr>aw := v\<rparr>)"
  "m (aw w) = (Inr x, v) \<Longrightarrow> baseM m w = (Inr x, w\<lparr>aw := v\<rparr>)"
  by (simp_all add: baseM_def)

lemma baseM_ok [ok_simps]: "baseM m w = (Inr x, w') \<longleftrightarrow> (\<exists>v. m (aw w) = (Inr x, v) \<and> w' = w\<lparr>aw := v\<rparr>)"
  by (auto simp: baseM_def split: prod.splits sum.splits)

lemma keeps_baseM: "(\<And>w. keeps (\<lambda>v. P (w\<lparr>aw := v\<rparr>)) m) \<Longrightarrow> keeps P (baseM m)"
proof (rule keepsI)
  fix w r w'
  assume k: "\<And>w. keeps (\<lambda>v. P (w\<lparr>aw := v\<rparr>)) m" and w: "P w" and run: "baseM m w = (r, w')"
  obtain s v where m: "m (aw w) = (s, v)" by fastforce
  with run have "w' = w\<lparr>aw := v\<rparr>" by (cases s) auto
  moreover from keepsD [OF k [of w] m] w have "P (w\<lparr>aw := v\<rparr>)" by simp
  ultimately show "P w'" by simp
qed

text \<open>The continuation need fail well only after the first part succeeded.\<close>

lemma fails_after:
  "fails_in P m \<Longrightarrow> (\<And>x w w'. m w = (Inr x, w') \<Longrightarrow> fails_in P (k x)) \<Longrightarrow> fails_in P (tryM m k)"
  unfolding fails_in_def by (auto simp: tryM_def split: prod.splits sum.splits)

text \<open>What was sent to the browser changes only where a program of this package sends it.\<close>

lemma sent_baseM [frame_intros]: "keeps (\<lambda>w. Q (aw_sent w)) (baseM m)"
  by (intro keeps_baseM) (simp add: keeps_def)

lemma sent_session [frame_intros]:
  "keeps (\<lambda>w. Q (aw_sent w)) (freshSession as)" "keeps (\<lambda>w. Q (aw_sent w)) (loadSession f)"
  "keeps (\<lambda>w. Q (aw_sent w)) (assignSession ctx g)" "keeps (\<lambda>w. Q (aw_sent w)) (saveSession h)"
  "keeps (\<lambda>w. Q (aw_sent w)) (newAuthnSession ctx params c)" "keeps (\<lambda>w. Q (aw_sent w)) (sessionCall ctx k c)"
  unfolding freshSession_def loadSession_def assignSession_def saveSession_def newAuthnSession_def sessionCall_def
  by (intro frame_intros keeps_mod; simp add: Let_def)+

lemma sent_saves [frame_intros]:
  "keeps (\<lambda>w. Q (aw_sent w)) (AuthSaveSession ctx)" "keeps (\<lambda>w. Q (aw_sent w)) (DeviceSaveSession ctx)"
  "keeps (\<lambda>w. Q (aw_sent w)) (CIBASaveSession ctx)"
  unfolding AuthSaveSession_def DeviceSaveSession_def CIBASaveSession_def by (intro frame_intros)+

lemma fails_baseM [fail_intros]: "(\<And>e. P (PlainError e)) \<Longrightarrow> fails_in P (baseM m)"
  unfolding fails_in_def by (auto simp: baseM_def split: prod.splits sum.splits)

lemma fails_wrapPlain [fail_intros]: "(\<And>e. P (PlainError e)) \<Longrightarrow> fails_in P (mapErrM (wrapPlain m) p)"
  by (rule fails_mapErr) (simp add: wrapPlain_def)

lemma fails_session [fail_intros]:
  "fails_in P (freshSession as)" "(\<And>e. P (PlainError e)) \<Longrightarrow> fails_in P (loadSession f)"
  "fails_in P (assignSession ctx g)" "(\<And>e. P (PlainError e)) \<Longrightarrow> fails_in P (saveSession h)"
  "(\<And>e. P (PlainError e)) \<Longrightarrow> fails_in P (newAuthnSession ctx params c)"
  "(\<And>e. P (PlainError e)) \<Longrightarrow> fails_in P (sessionCall ctx k c)"
  unfolding freshSession_def loadSession_def assignSession_def saveSession_def newAuthnSession_def sessionCall_def
  by (intro fail_intros; assumption?)+

lemma fails_saves [fail_intros]:
  "(\<And>e. P (PlainError e)) \<Longrightarrow> fails_in P (AuthSaveSession ctx)" "(\<And>e. P (PlainError e)) \<Longrightarrow> fails_in P (DeviceSaveSession ctx)"
  "(\<And>e. P (PlainError e)) \<Longrightarrow> fails_in P (CIBASaveSession ctx)"
  unfolding AuthSaveSession_def DeviceSaveSession_def CIBASaveSession_def by (intro fail_intros; assumption?)+

section \<open>Merging\<close>

lemma nonZeroOrDefault_assoc:
  "nonZeroOrDefault z (nonZeroOrDefault z a b) c = nonZeroOrDefault z a (nonZeroOrDefault z b c)"
  by (simp add: nonZeroOrDefault_def)

lemma nonZeroOrDefault_zero [simp]: "nonZeroOrDefault z z b = b" "nonZeroOrDefault z a z = a"
  by (simp_all add: nonZeroOrDefault_def)

text \<open>The parameters that survive a merge: the fields a merge does not mention are emptied.\<close>

definition mergeable :: "AuthorizationParameters \<Rightarrow> AuthorizationParameters" where
  "mergeable p = p\<lparr>ap_RequestURI := '''', ap_RequestObject := '''', ap_IssuerState := ''''\<rparr>"

text \<open>Merging the parameters of a request object or a pushed request with those of the query is a monoid on the
  parameters it treats: it is associative, and the empty parameters are neutral on both sides up to the three
  members the merge drops (\<^verbatim>\<open>request_uri\<close>, \<^verbatim>\<open>request\<close> and \<^verbatim>\<open>issuer_state\<close>). So an inner value always wins, an outer value
  is used exactly where the inner one is absent, and merging in two steps gives what merging in one gives.\<close>

theorem mergeParams_monoid:
  "mergeParams (mergeParams a b) c = mergeParams a (mergeParams b c) \<and>
   mergeParams p zero_AuthorizationParameters = mergeable p \<and> mergeParams zero_AuthorizationParameters p = mergeable p"
  by (simp add: mergeParams_def Let_def zero_AuthorizationParameters_def nonZeroOrDefault_assoc mergeable_def)

end
