(* ===== verification/AuthorizeValidation.thy ===== *)
theory AuthorizeValidation
  imports AuthorizeModel
begin

text \<open>
  Validation of authorization requests, \<^verbatim>\<open>internal/authorize/validation.go\<close>, with \<^verbatim>\<open>token.IDToken\<close> which reads an ID token
  hint, and \<^verbatim>\<open>validateCIBARequest\<close> of \<^verbatim>\<open>internal/authorize/ciba.go\<close>. A check without effects is an optional error; the
  checks that call configured functions or read the clock are programs.

  The lemmas show what a validated request satisfies, and that every redirection error the validation produces
  carries parameters whose redirect URI passed the check against the client's registration.
\<close>

section \<open>Single parameters\<close>

definition ApplicationTypeNative :: string where [const_defs]: "ApplicationTypeNative = ''native''"

text \<open>Whether a parsed host is a loopback literal, and the host written without its port.\<close>

definition loopback_host :: "AuthorizeLib \<Rightarrow> string \<Rightarrow> bool" where
  "loopback_host alib host = (case al_ParseIP alib host of None \<Rightarrow> False | Some ip \<Rightarrow> IsLoopback ip)"

definition bare_host :: "string \<Rightarrow> string" where
  "bare_host host = (if host = ''::1'' then ''[::1]'' else host)"

definition validateRedirectURIAsOptional ::
  "'st AuthorizeContext \<Rightarrow> AuthorizationParameters \<Rightarrow> Client \<Rightarrow> authorize_error option" where
  "validateRedirectURIAsOptional ctx params c =
     (if ap_RedirectURI params = '''' then None
      else case l_url_Parse (cx_Lib (ac ctx)) (ap_RedirectURI params) of
        Inl err \<Rightarrow> Some (PlainError (WrapError ErrorCodeInvalidRequest ''invalid redirect_uri'' err))
      | Inr parsed \<Rightarrow>
          let host = url_Hostname parsed;
              parsedURI = (if c_ApplicationType c = ApplicationTypeNative \<and> loopback_host (ac_Lib ctx) host
                           then parsed\<lparr>u_Host := bare_host host\<rparr> else parsed) in
          if l_url_String (cx_Lib (ac ctx)) parsedURI \<notin> set (c_RedirectURIs c)
          then Some (plainWrap ErrorCodeInvalidRequest ''invalid redirect_uri'' ''redirect_uri is not registered for the client'')
          else None)"

definition validateRequestURIAsOptional ::
  "'st AuthorizeContext \<Rightarrow> AuthorizationParameters \<Rightarrow> Client \<Rightarrow> authorize_error option" where
  "validateRequestURIAsOptional ctx params c =
     (let uri = ap_RequestURI params in
      if uri = '''' \<or> strings_HasPrefix uri parRequestURIPrefix then None
      else if \<not> az_JARByReferenceEnabled (ac_conf ctx)
      then Some (plainWrap ErrorCodeRequestURINotSupported ''request_uri_not_supported'' ''request_uri is not supported'')
      else if uri \<notin> set (c_RequestURIs c)
      then Some (plainWrap ErrorCodeInvalidRequest ''invalid request_uri'' ''request_uri is not registered for the client'')
      else if (case l_url_Parse (cx_Lib (ac ctx)) uri of Inl _ \<Rightarrow> True | Inr parsed \<Rightarrow> u_Scheme parsed \<noteq> ''https'')
      then Some (plainWrap ErrorCodeInvalidRequest ''invalid request_uri'' ''request_uri must be a valid https URL'')
      else None)"

definition validateCodeChallengeMethodAsOptional ::
  "'st AuthorizeContext \<Rightarrow> AuthorizationParameters \<Rightarrow> authorize_error option" where
  "validateCodeChallengeMethodAsOptional ctx params =
     (if ap_CodeChallengeMethod params = '''' then None
      else if ap_CodeChallengeMethod params \<notin> set (az_PKCEChallengeMethods (ac_conf ctx))
      then Some (redirectWrap ErrorCodeInvalidRequest ''invalid request'' params ''code_challenge_method is not supported'')
      else None)"

definition validateDisplayValueAsOptional ::
  "'st AuthorizeContext \<Rightarrow> AuthorizationParameters \<Rightarrow> authorize_error option" where
  "validateDisplayValueAsOptional ctx params =
     (if ap_Display params = '''' then None
      else if ap_Display params \<notin> set (az_DisplayValues (ac_conf ctx))
      then Some (redirectWrap ErrorCodeInvalidRequest ''invalid request'' params ''display is not supported'')
      else None)"

primrec check_request_scopes ::
  "'st AuthorizeContext \<Rightarrow> AuthorizationParameters \<Rightarrow> Client \<Rightarrow> string list \<Rightarrow> authorize_error option" where
  "check_request_scopes ctx params c [] = None"
| "check_request_scopes ctx params c (s # rest) =
     (case Scope_of (ac ctx) s of
        None \<Rightarrow> Some (redirectWrap ErrorCodeInvalidScope ''invalid scope'' params ''the scope does not match any available scope'')
      | Some scope \<Rightarrow>
          if sc_ID scope \<notin> set (strings_Fields (c_ScopeIDs c))
          then Some (redirectWrap ErrorCodeInvalidScope ''invalid scope'' params ''the scope is not allowed for the client'')
          else check_request_scopes ctx params c rest)"

definition openid_missing :: "AuthorizationParameters \<Rightarrow> authorize_error" where
  "openid_missing params = redirectWrap ErrorCodeInvalidRequest ''scope openid is required'' params ''scope openid is required''"

definition validateScopesAsOptional ::
  "'st AuthorizeContext \<Rightarrow> AuthorizationParameters \<Rightarrow> Client \<Rightarrow> authorize_error option" where
  "validateScopesAsOptional ctx params c =
     (if ap_Scopes params = '''' then None
      else case check_request_scopes ctx params c (strings_Fields (ap_Scopes params)) of
        Some e \<Rightarrow> Some e
      | None \<Rightarrow>
          if az_OpenIDRequired (ac_conf ctx) \<and> \<not> ContainsOpenID (ap_Scopes params) then Some (openid_missing params) else None)"

definition validatePKCE :: "'st AuthorizeContext \<Rightarrow> AuthorizationParameters \<Rightarrow> Client \<Rightarrow> authorize_error option" where
  "validatePKCE ctx params c =
     (if cf_PKCEEnabled (cx (ac ctx)) \<and> IsPublic c \<and> ap_CodeChallenge params = ''''
      then Some (redirectWrap ErrorCodeInvalidRequest ''invalid request'' params ''pkce is required for public clients'')
      else if az_PKCERequired (ac_conf ctx) \<and> ap_CodeChallenge params = ''''
      then Some (redirectWrap ErrorCodeInvalidRequest ''invalid request'' params ''code_challenge is required'')
      else None)"

definition validateResponseTypeAsOptional ::
  "'st AuthorizeContext \<Rightarrow> AuthorizationParameters \<Rightarrow> Client \<Rightarrow> authorize_error option" where
  "validateResponseTypeAsOptional ctx params c =
     (let rt = ap_ResponseType params in
      if rt = '''' then None
      else if rt \<notin> set (cf_ResponseTypes (cx (ac ctx)))
      then Some (newRedirectionError ErrorCodeInvalidRequest ''invalid response_type'' params)
      else if rt \<notin> set (c_ResponseTypes c)
      then Some (newRedirectionError ErrorCodeInvalidRequest ''invalid response_type'' params)
      else if ResponseType_Contains rt ResponseTypeCode \<and> GrantAuthorizationCode \<notin> set (c_GrantTypes c)
      then Some (redirectWrap ErrorCodeInvalidGrant ''invalid grant'' params
        ''response_type includes code but the client is not allowed to use the authorization_code grant'')
      else if ResponseType_IsImplicit rt \<and> GrantImplicit \<notin> set (c_GrantTypes c)
      then Some (redirectWrap ErrorCodeInvalidRequest ''invalid response_type'' params
        ''the implicit response types are not allowed for the client'')
      else None)"

definition validateResponseModeAsOptional ::
  "'st AuthorizeContext \<Rightarrow> AuthorizationParameters \<Rightarrow> Client \<Rightarrow> authorize_error option" where
  "validateResponseModeAsOptional ctx params c =
     (let rm = ap_ResponseMode params in
      if rm = '''' then None
      else if rm \<notin> set (cf_ResponseModes (cx (ac ctx)))
      then Some (newRedirectionError ErrorCodeInvalidRequest ''invalid response_mode'' params)
      else if ResponseMode_IsQuery rm \<and> ResponseType_IsImplicit (ap_ResponseType params)
      then Some (redirectWrap ErrorCodeInvalidRequest ''invalid response_mode'' params
        ''response_mode query is not allowed with implicit or hybrid response types'')
      else if c_JARMSigAlg c \<noteq> '''' \<and> ResponseMode_IsPlain rm
      then Some (redirectWrap ErrorCodeInvalidRequest ''invalid response_mode'' params
        ''the client requires a JWT-secured authorization response mode'')
      else None)"

definition invalid_detail :: "AuthorizationParameters \<Rightarrow> go_error \<Rightarrow> authorize_error" where
  "invalid_detail params e = wrapRedirectionError ErrorCodeInvalidAuthDetails ''invalid authorization details'' params e"

primrec check_request_details ::
  "'st AuthorizeContext \<Rightarrow> AuthorizationParameters \<Rightarrow> Client \<Rightarrow> AuthDetail list \<Rightarrow> ('st, unit) A" where
  "check_request_details ctx params c [] = okM ()"
| "check_request_details ctx params c (detail # rest) =
     (let typ = AuthDetail_Type detail in
      guardM (typ = '''') (invalid_detail params (ErrNew ''authorization detail type is required'')) (
      guardM (typ \<notin> set (cf_RARDetailTypes (cx (ac ctx)))) (invalid_detail params (ErrNew ''authorization detail type is not supported'')) (
      guardM (case c_AuthDetailTypes c of None \<Rightarrow> False | Some types \<Rightarrow> typ \<notin> set types)
        (invalid_detail params (ErrNew ''authorization detail type is not allowed for the client'')) (
      tryM (mapErrM (\<lambda>e. invalid_detail params (base_error e)) (baseM (callO (\<lambda>n. cf_RARValidateDetailFunc (cx (ac ctx)) n detail)))) (\<lambda>_.
      check_request_details ctx params c rest)))))"

definition validateAuthDetailsAsOptional :: "'st AuthorizeContext \<Rightarrow> AuthorizationParameters \<Rightarrow> Client \<Rightarrow> ('st, unit) A" where
  "validateAuthDetailsAsOptional ctx params c =
     (if \<not> cf_RAREnabled (cx (ac ctx)) then okM ()
      else case ap_AuthDetails params of None \<Rightarrow> okM () | Some details \<Rightarrow> check_request_details ctx params c details)"

definition validateACRValuesAsOptional :: "'st AuthorizeContext \<Rightarrow> AuthorizationParameters \<Rightarrow> authorize_error option" where
  "validateACRValuesAsOptional ctx params =
     (if ap_ACRValues params = '''' then None
      else if list_ex (\<lambda>acr. acr \<notin> set (cf_ACRs (cx (ac ctx)))) (strings_Fields (ap_ACRValues params))
      then Some (redirectWrap ErrorCodeInvalidRequest ''invalid request'' params ''an acr value is not supported'')
      else None)"

definition validateResourcesAsOptional :: "'st AuthorizeContext \<Rightarrow> AuthorizationParameters \<Rightarrow> authorize_error option" where
  "validateResourcesAsOptional ctx params =
     (if \<not> cf_ResourceIndicatorsEnabled (cx (ac ctx)) then None
      else case ap_Resources params of
        None \<Rightarrow> None
      | Some resources \<Rightarrow>
          if list_ex (\<lambda>resource. resource \<notin> set (cf_ResourceIndicators (cx (ac ctx)))) resources
          then Some (redirectWrap ErrorCodeInvalidTarget ''invalid target'' params ''a resource is not configured by the server'')
          else None)"

text \<open>\<^verbatim>\<open>token.IDToken\<close> of \<^verbatim>\<open>internal/token/introspection.go\<close>.\<close>

definition IDToken_of :: "'st AuthorizeContext \<Rightarrow> string \<Rightarrow> ('st, IDToken) M" where
  "IDToken_of ctx rawToken =
     tryM (mapErrM (ErrWrapf ''could not parse id token'')
       (liftE (l_ParseSigned (cx_Lib (ac ctx)) rawToken (cf_IDTokenSigAlgs (cx (ac ctx)))))) (\<lambda>parsedToken.
     let bad = failM (ErrNew ''id token must contain exactly one JOSE header with a key ID'') in
     case jwt_Headers parsedToken of
       [header] \<Rightarrow>
         if jh_KeyID header = '''' then bad
         else
           tryM (mapErrM (ErrWrapf ''could not fetch signing key for id token'') (PublicJWK (ac ctx) (jh_KeyID header))) (\<lambda>publicKey.
           tryM (mapErrM (ErrWrapf ''could not verify id token claims'')
             (tryM (liftE (l_Verify (cx_Lib (ac ctx)) parsedToken (VKey (jwk_Key publicKey)))) (\<lambda>payload.
              tryM (liftE (l_DecodeClaims (cx_Lib (ac ctx)) payload)) (\<lambda>claims.
              tryM (liftE (al_UnmarshalIDToken (ac_Lib ctx) payload)) (\<lambda>idToken. okM (claims, idToken)))))) (\<lambda>(claims, idToken).
           tryM (mapErrM (ErrWrapf ''id token validation failed'')
             (callO (\<lambda>n. l_ValidateWithLeeway (cx_Lib (ac ctx)) n claims (zero_Expected\<lparr>ex_Issuer := Issuer (ac ctx)\<rparr>)
                (cf_JWTLeewayTimeSecs (cx (ac ctx)) * second)))) (\<lambda>_.
           okM idToken)))
     | _ \<Rightarrow> bad)"

definition invalid_hint :: "go_error \<Rightarrow> go_error" where
  "invalid_hint e = WrapError ErrorCodeInvalidRequest ''invalid id_token_hint'' e"

definition validateIDTokenHintAsOptional :: "'st AuthorizeContext \<Rightarrow> AuthorizationParameters \<Rightarrow> Client \<Rightarrow> ('st, unit) A" where
  "validateIDTokenHintAsOptional ctx params c =
     (if ap_IDTokenHint params = '''' then okM ()
      else baseM (
        tryM (mapErrM invalid_hint (IDToken_of ctx (ap_IDTokenHint params))) (\<lambda>idTkn.
        guardM (c_ID c \<notin> set (it_Audience idTkn))
          (invalid_hint (ErrNew ''the id_token_hint audience does not match the client'')) (okM ()))))"

definition vc_request :: "AuthorizationParameters \<Rightarrow> VCRequest" where
  "vc_request params = \<lparr>vr_Scopes = ap_Scopes params, vr_Details = ap_AuthDetails params, vr_Resources = ap_Resources params\<rparr>"

definition validateVerifiableCredentialsAsOptional ::
  "'st AuthorizeContext \<Rightarrow> AuthorizationParameters \<Rightarrow> authorize_error option" where
  "validateVerifiableCredentialsAsOptional ctx params =
     (if \<not> cf_VCIEnabled (cx (ac ctx)) then None
      else case Resolve (ac ctx) (vc_request params) of
        Inl err \<Rightarrow> Some (wrapRedirectionError ErrorCodeInvalidRequest ''invalid verifiable credentials request'' params err)
      | Inr _ \<Rightarrow> None)"

definition validateCodeBindingDPoP :: "'st AuthorizeContext \<Rightarrow> AuthorizationParameters \<Rightarrow> ('st, unit) A" where
  "validateCodeBindingDPoP ctx params =
     (if \<not> cf_DPoPEnabled (cx (ac ctx)) then okM ()
      else case DPoP_JWT (ac ctx) of
        None \<Rightarrow> okM ()
      | Some dpopJWT \<Rightarrow>
          baseM (ValidateJWT (ac ctx) dpopJWT
            \<lparr>vo_AccessToken = '''', vo_JWKThumbprint = ap_DPoPJKT params, vo_NonceScope = DPoPNonceScopeAuthorizationServer,
             vo_TokenEndpoint = False, vo_OnProofValidated = None\<rparr>))"

section \<open>Parameter sets\<close>

definition validateParamsAsOptionals :: "'st AuthorizeContext \<Rightarrow> AuthorizationParameters \<Rightarrow> Client \<Rightarrow> ('st, unit) A" where
  "validateParamsAsOptionals ctx params c =
     tryM (checkM (validateRedirectURIAsOptional ctx params c)) (\<lambda>_.
     tryM (checkM (validateRequestURIAsOptional ctx params c)) (\<lambda>_.
     tryM (checkM (validateScopesAsOptional ctx params c)) (\<lambda>_.
     tryM (checkM (validateResponseTypeAsOptional ctx params c)) (\<lambda>_.
     tryM (checkM (validateResponseModeAsOptional ctx params c)) (\<lambda>_.
     tryM (checkM (validateCodeChallengeMethodAsOptional ctx params)) (\<lambda>_.
     tryM (validateAuthDetailsAsOptional ctx params c) (\<lambda>_.
     tryM (checkM (validateACRValuesAsOptional ctx params)) (\<lambda>_.
     tryM (checkM (validateResourcesAsOptional ctx params)) (\<lambda>_.
     tryM (checkM (validateVerifiableCredentialsAsOptional ctx params)) (\<lambda>_.
     tryM (validateIDTokenHintAsOptional ctx params c) (\<lambda>_.
     tryM (checkM (validateDisplayValueAsOptional ctx params)) (\<lambda>_.
     guardM (ap_RequestURI params \<noteq> '''' \<and> ap_RequestObject params \<noteq> '''')
       (redirectWrap ErrorCodeInvalidRequest ''invalid request'' params ''request and request_uri cannot be used at the same time'')
       (okM ())))))))))))))"

text \<open>The checks of \<^verbatim>\<open>validateParams\<close> after the optional ones.\<close>

definition required_params :: "'st AuthorizeContext \<Rightarrow> AuthorizationParameters \<Rightarrow> Client \<Rightarrow> authorize_error option" where
  "required_params ctx params c =
     (let rt = ap_ResponseType params; openid = ContainsOpenID (ap_Scopes params); profile = cf_Profile (cx (ac ctx));
          bad = (\<lambda>desc. redirectWrap ErrorCodeInvalidRequest desc params) in
      if rt = '''' then Some (bad ''invalid request'' ''response_type is required'')
      else if cf_ResourceIndicatorsRequired (cx (ac ctx)) \<and> ap_Resources params = None
      then Some (redirectWrap ErrorCodeInvalidTarget ''invalid target'' params ''the resource parameter is required'')
      else if az_OpenIDRequired (ac_conf ctx) \<and> \<not> openid then Some (openid_missing params)
      else if ResponseType_Contains rt ResponseTypeIDToken \<and> \<not> openid
      then Some (bad ''invalid request'' ''id_token requires the openid scope'')
      else if ResponseType_Contains rt ResponseTypeIDToken \<and> ap_Nonce params = ''''
      then Some (bad ''invalid request'' ''nonce is required when response_type includes id_token'')
      else case validatePKCE ctx params c of
        Some e \<Rightarrow> Some e
      | None \<Rightarrow>
          if profile = ProfileFAPI1 \<and> rt \<notin> {ResponseTypeCode, ResponseTypeCodeAndIDToken}
          then Some (bad ''invalid response_type'' ''response_type is not supported by this FAPI profile'')
          else if profile = ProfileFAPI1 \<and> rt = ResponseTypeCode \<and> ap_ResponseMode params \<noteq> ResponseModeJWT
          then Some (bad ''invalid response_mode'' ''response_mode jwt is required when response_type is code'')
          else if profile = ProfileFAPI1 \<and> openid \<and> ap_Nonce params = ''''
          then Some (bad ''invalid request'' ''nonce is required for OpenID requests in this FAPI profile'')
          else if profile = ProfileFAPI2 \<and> rt \<noteq> ResponseTypeCode
          then Some (bad ''invalid response_type'' ''response_type code is required by this FAPI profile'')
          else None)"

definition validateParams :: "'st AuthorizeContext \<Rightarrow> AuthorizationParameters \<Rightarrow> Client \<Rightarrow> ('st, unit) A" where
  "validateParams ctx params c =
     guardM (ap_RedirectURI params = '''') (plainWrap ErrorCodeInvalidRequest ''invalid request'' ''redirect_uri is required'') (
     tryM (validateParamsAsOptionals ctx params c) (\<lambda>_. checkM (required_params ctx params c)))"

definition validateInWithOutParams ::
  "'st AuthorizeContext \<Rightarrow> AuthorizationParameters \<Rightarrow> AuthorizationParameters \<Rightarrow> Client \<Rightarrow> ('st, unit) A" where
  "validateInWithOutParams ctx inParams outParams c =
     tryM (checkM (validateRedirectURIAsOptional ctx outParams c)) (\<lambda>_.
     tryM (validateParams ctx (mergeParams inParams outParams) c) (\<lambda>_.
     validateParamsAsOptionals ctx outParams c))"

section \<open>Requests\<close>

definition validateRequest :: "'st AuthorizeContext \<Rightarrow> request \<Rightarrow> Client \<Rightarrow> ('st, unit) A" where
  "validateRequest ctx req c = validateParams ctx (ar_Params req) c"

definition validateRequestWithPAR :: "'st AuthorizeContext \<Rightarrow> request \<Rightarrow> AuthnSession \<Rightarrow> Client \<Rightarrow> ('st, unit) A" where
  "validateRequestWithPAR ctx req as c =
     guardM (as_ClientID as \<noteq> ar_ClientID req)
       (plainWrap ErrorCodeAccessDenied ''access denied'' ''the request_uri belongs to a different client'') (
     guardM (as_Status as \<noteq> StatusPending)
       (plainWrap ErrorCodeInvalidRequest ''invalid request'' ''the request_uri has already been used'') (
     tryM (baseM (TimestampNow (ac ctx))) (\<lambda>now.
     guardM (now \<ge> as_ExpiresAt as)
       (plainWrap ErrorCodeInvalidRequest ''invalid request'' ''the request_uri has expired'') (
     validateInWithOutParams ctx (as_AuthorizationParameters as) (ar_Params req) c))))"

definition validateRequestWithJAR :: "'st AuthorizeContext \<Rightarrow> request \<Rightarrow> request \<Rightarrow> Client \<Rightarrow> ('st, unit) A" where
  "validateRequestWithJAR ctx req jar client =
     guardM (ar_ClientID jar \<noteq> c_ID client) (PlainError (NewError ErrorCodeInvalidClient ''invalid client_id'')) (
     tryM (if Profile_IsFAPI (cf_Profile (cx (ac ctx))) then validateParams ctx (ar_Params jar) client else okM ()) (\<lambda>_.
     tryM (validateInWithOutParams ctx (ar_Params jar) (ar_Params req) client) (\<lambda>_.
     let mergedParams = mergeParams (ar_Params jar) (ar_Params req) in
     guardM (ap_RequestURI (ar_Params jar) \<noteq> '''') (redirectWrap ErrorCodeInvalidRequest ''invalid request'' mergedParams
       ''request_uri is not allowed inside the request object'') (
     guardM (ap_RequestObject (ar_Params jar) \<noteq> '''') (redirectWrap ErrorCodeInvalidRequest ''invalid request'' mergedParams
       ''request is not allowed inside the request object'') (okM ())))))"

definition validatePushedRequest :: "'st AuthorizeContext \<Rightarrow> request \<Rightarrow> Client \<Rightarrow> ('st, unit) A" where
  "validatePushedRequest ctx req c =
     (let params = ar_Params req; profile = cf_Profile (cx (ac ctx)) in
      guardM (ap_RequestURI params \<noteq> '''')
        (plainWrap ErrorCodeInvalidRequest ''invalid request'' ''request_uri is not allowed during PAR'') (
      tryM (if Profile_IsFAPI profile then validateParams ctx params c else validateParamsAsOptionals ctx params c) (\<lambda>_.
      guardM (profile = ProfileFAPI1 \<and> c_TokenAuthnMethod c = AuthnMethodNone)
        (plainWrap ErrorCodeInvalidClient ''invalid client'' ''public clients are not allowed to use pushed authorization requests'') (
      guardM (profile = ProfileFAPI1 \<and> cf_PKCEEnabled (cx (ac ctx)) \<and> ap_CodeChallenge params = '''')
        (plainWrap ErrorCodeInvalidRequest ''invalid request'' ''code_challenge is required for PAR in this profile'') (
      validateCodeBindingDPoP ctx params)))))"

definition validatePushedRequestWithJAR :: "'st AuthorizeContext \<Rightarrow> request \<Rightarrow> request \<Rightarrow> Client \<Rightarrow> ('st, unit) A" where
  "validatePushedRequestWithJAR ctx req jar c =
     guardM (ap_RequestURI (ar_Params req) \<noteq> '''')
       (plainWrap ErrorCodeInvalidRequest ''invalid request'' ''request_uri is not allowed during PAR'') (
     guardM (ar_ClientID jar \<noteq> c_ID c) (plainWrap ErrorCodeInvalidRequestObject ''invalid request object''
       ''client_id in the request object does not match the authenticated client'') (
     guardM (ap_RequestObject (ar_Params jar) \<noteq> '''' \<or> ap_RequestURI (ar_Params jar) \<noteq> '''')
       (plainWrap ErrorCodeInvalidRequestObject ''invalid request object''
         ''nested request objects and request_uri are not allowed inside JAR'') (
     validatePushedRequest ctx (req\<lparr>ar_Params := ar_Params jar\<rparr>) c)))"

definition validateSimplePushedRequest :: "'st AuthorizeContext \<Rightarrow> request \<Rightarrow> Client \<Rightarrow> ('st, unit) A" where
  "validateSimplePushedRequest ctx req c = validatePushedRequest ctx req c"

section \<open>Backchannel requests\<close>

definition validateCIBAHints :: "request \<Rightarrow> authorize_error option" where
  "validateCIBAHints req =
     (let p = ar_Params req;
          numberOfHints = (if ap_LoginHint p \<noteq> '''' then 1 else 0) + (if ap_LoginHintToken p \<noteq> '''' then 1 else 0)
            + (if ap_IDTokenHint p \<noteq> '''' then 1 else (0 :: nat)) in
      if numberOfHints \<noteq> 1
      then Some (plainWrap ErrorCodeInvalidRequest ''invalid request''
        ''exactly one of login_hint, login_hint_token, or id_token_hint must be provided'')
      else None)"

definition validateCIBARequest :: "'st AuthorizeContext \<Rightarrow> request \<Rightarrow> Client \<Rightarrow> ('st, unit) A" where
  "validateCIBARequest ctx req c =
     (let p = ar_Params req in
      guardM (GrantCIBA \<notin> set (c_GrantTypes c))
        (plainWrap ErrorCodeUnauthorizedClient ''unauthorized client'' ''the client is not allowed to use the CIBA grant type'') (
      guardM (az_OpenIDRequired (ac_conf ctx) \<and> \<not> ContainsOpenID (ap_Scopes p))
        (plainWrap ErrorCodeInvalidRequest ''scope openid is required'' ''scope openid is required'') (
      guardM (ap_ClientNotificationToken p = '''' \<and> CIBA_IsNotificationMode (c_CIBATokenDeliveryMode c))
        (plainWrap ErrorCodeInvalidRequest ''invalid request'' ''client_notification_token is required for ping and push delivery modes'') (
      guardM (length (ap_ClientNotificationToken p) > 1024)
        (plainWrap ErrorCodeInvalidRequest ''invalid request'' ''client_notification_token exceeds the maximum allowed length'') (
      guardM (ap_UserCode p \<noteq> '''' \<and> (\<not> az_CIBAUserCodeEnabled (ac_conf ctx) \<or> \<not> c_CIBAUserCodeEnabled c))
        (plainWrap ErrorCodeInvalidRequest ''invalid request'' ''user_code is not allowed for this client or server configuration'') (
      tryM (checkM (validateCIBAHints req)) (\<lambda>_.
      tryM (validateParamsAsOptionals ctx p c) (\<lambda>_.
      if c_CIBATokenDeliveryMode c = CIBADeliveryModePush then baseM (ValidateBinding (ac ctx) c zero_binding) else okM ()))))))))"


section \<open>Registered redirect URIs\<close>

text \<open>The redirect URIs a client may use: those it registered, and for a native application a registered loopback
  URI on any port.\<close>

definition registered_redirect :: "'st AuthorizeContext \<Rightarrow> Client \<Rightarrow> string \<Rightarrow> bool" where
  "registered_redirect ctx c uri \<longleftrightarrow>
     (\<exists>parsed. l_url_Parse (cx_Lib (ac ctx)) uri = Inr parsed \<and>
        (l_url_String (cx_Lib (ac ctx)) parsed \<in> set (c_RedirectURIs c) \<or>
         c_ApplicationType c = ApplicationTypeNative \<and> loopback_host (ac_Lib ctx) (url_Hostname parsed) \<and>
         l_url_String (cx_Lib (ac ctx)) (parsed\<lparr>u_Host := bare_host (url_Hostname parsed)\<rparr>) \<in> set (c_RedirectURIs c)))"

lemma validateRedirectURI_ok:
  "validateRedirectURIAsOptional ctx params c = None \<Longrightarrow> ap_RedirectURI params \<noteq> '''' \<Longrightarrow> registered_redirect ctx c (ap_RedirectURI params)"
  by (auto simp: validateRedirectURIAsOptional_def registered_redirect_def Let_def split: sum.splits if_splits)

text \<open>An error that would be redirected names a redirect URI of the client, or none at all.\<close>

definition redirects_safely :: "'st AuthorizeContext \<Rightarrow> Client \<Rightarrow> authorize_error \<Rightarrow> bool" where
  "redirects_safely ctx c e =
     (case e of PlainError _ \<Rightarrow> True
      | redirectionError params _ \<Rightarrow> ap_RedirectURI params = '''' \<or> registered_redirect ctx c (ap_RedirectURI params))"

lemma redirects_safely_plain [simp]:
  "redirects_safely ctx c (PlainError e)" "redirects_safely ctx c (plainWrap code desc m)"
  by (simp_all add: redirects_safely_def plainWrap_def)

lemma redirects_safely_redirect [simp]:
  "redirects_safely ctx c (newRedirectionError code desc p) \<longleftrightarrow> ap_RedirectURI p = '''' \<or> registered_redirect ctx c (ap_RedirectURI p)"
  "redirects_safely ctx c (wrapRedirectionError code desc p e) \<longleftrightarrow> ap_RedirectURI p = '''' \<or> registered_redirect ctx c (ap_RedirectURI p)"
  "redirects_safely ctx c (redirectWrap code desc p m) \<longleftrightarrow> ap_RedirectURI p = '''' \<or> registered_redirect ctx c (ap_RedirectURI p)"
  "redirects_safely ctx c (openid_missing p) \<longleftrightarrow> ap_RedirectURI p = '''' \<or> registered_redirect ctx c (ap_RedirectURI p)"
  "redirects_safely ctx c (invalid_detail p e) \<longleftrightarrow> ap_RedirectURI p = '''' \<or> registered_redirect ctx c (ap_RedirectURI p)"
  by (simp_all add: redirects_safely_def newRedirectionError_def wrapRedirectionError_def redirectWrap_def openid_missing_def
      invalid_detail_def)

text \<open>Each single check fails safely when the redirect URI is acceptable.\<close>

lemma check_scopes_safe:
  "redirects_safely ctx c (redirectWrap code desc params m) \<Longrightarrow> check_request_scopes ctx params c ss = Some e \<Longrightarrow> redirects_safely ctx c e"
  by (induction ss) (auto split: option.splits if_splits)

lemma check_details_safe:
  "ap_RedirectURI params = '''' \<or> registered_redirect ctx c (ap_RedirectURI params) \<Longrightarrow>
     fails_in (redirects_safely ctx c) (check_request_details ctx params c ds)"
  by (induction ds) (auto simp: Let_def intro!: fail_intros)

lemma pure_checks_safe:
  assumes "ap_RedirectURI params = '''' \<or> registered_redirect ctx c (ap_RedirectURI params)"
  shows "validateRequestURIAsOptional ctx params c = Some e \<Longrightarrow> redirects_safely ctx c e"
    "validateScopesAsOptional ctx params c = Some e \<Longrightarrow> redirects_safely ctx c e"
    "validateResponseTypeAsOptional ctx params c = Some e \<Longrightarrow> redirects_safely ctx c e"
    "validateResponseModeAsOptional ctx params c = Some e \<Longrightarrow> redirects_safely ctx c e"
    "validateCodeChallengeMethodAsOptional ctx params = Some e \<Longrightarrow> redirects_safely ctx c e"
    "validateACRValuesAsOptional ctx params = Some e \<Longrightarrow> redirects_safely ctx c e"
    "validateResourcesAsOptional ctx params = Some e \<Longrightarrow> redirects_safely ctx c e"
    "validateVerifiableCredentialsAsOptional ctx params = Some e \<Longrightarrow> redirects_safely ctx c e"
    "validateDisplayValueAsOptional ctx params = Some e \<Longrightarrow> redirects_safely ctx c e"
    "validatePKCE ctx params c = Some e \<Longrightarrow> redirects_safely ctx c e"
  using assms
  by (auto simp: validateRequestURIAsOptional_def validateScopesAsOptional_def validateResponseTypeAsOptional_def
      validateResponseModeAsOptional_def validateCodeChallengeMethodAsOptional_def validateACRValuesAsOptional_def
      validateResourcesAsOptional_def validateVerifiableCredentialsAsOptional_def validateDisplayValueAsOptional_def
      validatePKCE_def Let_def split: if_splits option.splits sum.splits intro: check_scopes_safe)

lemma required_params_safe:
  "ap_RedirectURI params = '''' \<or> registered_redirect ctx c (ap_RedirectURI params) \<Longrightarrow>
     required_params ctx params c = Some e \<Longrightarrow> redirects_safely ctx c e"
  using pure_checks_safe(10) [of params ctx c e]
  by (auto simp: required_params_def Let_def split: if_splits option.splits)

lemma redirectURI_check_safe: "validateRedirectURIAsOptional ctx params c = Some e \<Longrightarrow> redirects_safely ctx c e"
  by (auto simp: validateRedirectURIAsOptional_def Let_def split: if_splits sum.splits)


lemma details_safe:
  "ap_RedirectURI params = '''' \<or> registered_redirect ctx c (ap_RedirectURI params) \<Longrightarrow>
     fails_in (redirects_safely ctx c) (validateAuthDetailsAsOptional ctx params c)"
  unfolding validateAuthDetailsAsOptional_def by (auto intro!: fail_intros check_details_safe)

lemma hint_safe: "fails_in (redirects_safely ctx c) (validateIDTokenHintAsOptional ctx params c)"
  unfolding validateIDTokenHintAsOptional_def by (auto intro!: fail_intros)

lemma optionals_safe: "fails_in (redirects_safely ctx c) (validateParamsAsOptionals ctx params c)"
  unfolding validateParamsAsOptionals_def
proof (rule fails_after)
  show "fails_in (redirects_safely ctx c) (checkM (validateRedirectURIAsOptional ctx params c) :: ('a, unit) A)"
    by (rule fails_check) (rule redirectURI_check_safe)
next
  fix x :: unit and w w' :: "'a AuthorizeWorld"
  assume "checkM (validateRedirectURIAsOptional ctx params c) w = (Inr x, w')"
  then have ok: "ap_RedirectURI params = [] \<or> registered_redirect ctx c (ap_RedirectURI params)"
    using validateRedirectURI_ok by (auto simp: ok_simps)
  note checks = pure_checks_safe [OF ok]
  show "fails_in (redirects_safely ctx c)
     (tryM (checkM (validateRequestURIAsOptional ctx params c)) (\<lambda>_.
     tryM (checkM (validateScopesAsOptional ctx params c)) (\<lambda>_.
     tryM (checkM (validateResponseTypeAsOptional ctx params c)) (\<lambda>_.
     tryM (checkM (validateResponseModeAsOptional ctx params c)) (\<lambda>_.
     tryM (checkM (validateCodeChallengeMethodAsOptional ctx params)) (\<lambda>_.
     tryM (validateAuthDetailsAsOptional ctx params c) (\<lambda>_.
     tryM (checkM (validateACRValuesAsOptional ctx params)) (\<lambda>_.
     tryM (checkM (validateResourcesAsOptional ctx params)) (\<lambda>_.
     tryM (checkM (validateVerifiableCredentialsAsOptional ctx params)) (\<lambda>_.
     tryM (validateIDTokenHintAsOptional ctx params c) (\<lambda>_.
     tryM (checkM (validateDisplayValueAsOptional ctx params)) (\<lambda>_.
     guardM (ap_RequestURI params \<noteq> [] \<and> ap_RequestObject params \<noteq> [])
       (redirectWrap ErrorCodeInvalidRequest ''invalid request'' params ''request and request_uri cannot be used at the same time'')
       (okM ())))))))))))) :: ('a, unit) A)"
    by (intro fail_intros details_safe [OF ok] hint_safe; (erule checks)?) (use ok in auto)
qed

lemma optionals_redirect:
  "validateParamsAsOptionals ctx params c w = (Inr u, w') \<Longrightarrow> ap_RedirectURI params \<noteq> '''' \<Longrightarrow>
     registered_redirect ctx c (ap_RedirectURI params)"
  unfolding validateParamsAsOptionals_def by (auto simp: ok_simps dest: validateRedirectURI_ok)

lemma params_safe: "fails_in (redirects_safely ctx c) (validateParams ctx params c)"
  unfolding validateParams_def
proof (intro fails_guard fails_after [OF optionals_safe] fails_check)
  fix x :: unit and w w' :: "'a AuthorizeWorld" and e
  assume "validateParamsAsOptionals ctx params c w = (Inr x, w')" "required_params ctx params c = Some e"
  then show "redirects_safely ctx c e"
    using optionals_redirect required_params_safe by blast
qed simp

text \<open>The redirect URI of the merged parameters is validated, so an error found later may name it.\<close>

lemma validateParams_redirect:
  "validateParams ctx params c w = (Inr u, w') \<Longrightarrow> ap_RedirectURI params \<noteq> '''' \<and> registered_redirect ctx c (ap_RedirectURI params)"
  unfolding validateParams_def by (auto simp: ok_simps dest: optionals_redirect)

lemma in_out_safe [fail_intros]: "fails_in (redirects_safely ctx c) (validateInWithOutParams ctx i out c)"
  unfolding validateInWithOutParams_def
  by (intro fail_intros params_safe optionals_safe) (auto elim: redirectURI_check_safe)

lemma in_out_redirect:
  "validateInWithOutParams ctx i out c w = (Inr u, w') \<Longrightarrow> registered_redirect ctx c (ap_RedirectURI (mergeParams i out))"
  unfolding validateInWithOutParams_def by (auto simp: ok_simps dest: validateParams_redirect)

section \<open>Errors that may be redirected\<close>

lemma request_safe [fail_intros]:
  "fails_in (redirects_safely ctx c) (validateRequest ctx req c)"
  "fails_in (redirects_safely ctx c) (validateRequestWithPAR ctx req as c)"
  unfolding validateRequest_def validateRequestWithPAR_def
  by (intro fail_intros params_safe; simp)+

lemma jar_request_safe [fail_intros]: "fails_in (redirects_safely ctx c) (validateRequestWithJAR ctx req jar c)"
  unfolding validateRequestWithJAR_def
  by (intro fail_intros params_safe fails_after [OF in_out_safe]; (drule in_out_redirect)?)
    (auto simp: Let_def intro!: fail_intros)

end
