(* ===== verification/AuthorizeRedirect.thy ===== *)
theory AuthorizeRedirect
  imports AuthorizeValidation
begin

text \<open>
  Responses of the authorization endpoint, \<^verbatim>\<open>internal/authorize/redirect.go\<close>, with the operations of the request context
  that send something to the browser (\<^verbatim>\<open>Redirect\<close>, \<^verbatim>\<open>WriteHTML\<close>, \<^verbatim>\<open>RenderError\<close>) and the two functions of
  \<^verbatim>\<open>internal/strutil\<close> that add parameters to a URL.

  Which URI a response goes to is decided from the registration of the client alone: \<open>server_redirect\<close> says which URIs
  those are, and the lemmas show that nothing is sent anywhere else.
\<close>

section \<open>URLs with parameters\<close>

text \<open>\<^verbatim>\<open>query.Set(param, value)\<close> on the values of a parsed query.\<close>

definition values_Set :: "(string \<times> string) \<Rightarrow> (string \<times> string list) list \<Rightarrow> (string \<times> string list) list" where
  "values_Set p vs = AList.update (fst p) [snd p] vs"

text \<open>An unparsable URL gives a nil pointer, which is dereferenced: no value.\<close>

definition URLWithQueryParams :: "Lib \<Rightarrow> AuthorizeLib \<Rightarrow> string \<Rightarrow> (string \<times> string) list \<Rightarrow> string option" where
  "URLWithQueryParams lib alib redirectURI params =
     (if params = [] then Some redirectURI
      else case l_url_Parse lib redirectURI of
        Inl _ \<Rightarrow> None
      | Inr parsedURL \<Rightarrow>
          let query = fold values_Set params (fst (al_ParseQuery alib (u_RawQuery parsedURL))) in
          Some (l_url_String lib (parsedURL\<lparr>u_RawQuery := al_EncodeQuery alib query\<rparr>)))"

definition URLWithFragmentParams :: "AuthorizeLib \<Rightarrow> string \<Rightarrow> (string \<times> string) list \<Rightarrow> string" where
  "URLWithFragmentParams alib redirectURI params =
     (if params = [] then redirectURI
      else redirectURI @ ''#'' @ al_EncodeQuery alib (fold values_Set params []))"

section \<open>Sending\<close>

text \<open>\<^verbatim>\<open>ctx.Redirect\<close>; the location is recorded as the program passes it to \<^verbatim>\<open>http.Redirect\<close>.\<close>

definition Redirect :: "string \<Rightarrow> ('st, unit) A" where
  "Redirect redirectURL =
     tryM (modM (\<lambda>w. w\<lparr>aw_sent := aw_sent w @ [Redirected redirectURL]\<rparr>)) (\<lambda>_. baseM (WriteHeader 303 None))"

text \<open>\<^verbatim>\<open>ctx.WriteHTML\<close> with the form of the \<^verbatim>\<open>form_post\<close> mode. After cancellation nothing is written and nothing is reported.\<close>

definition WriteHTML :: "'st AuthorizeContext \<Rightarrow> string \<Rightarrow> (string \<times> string) list \<Rightarrow> ('st, unit) A" where
  "WriteHTML ctx uri members =
     tryM (baseM (ctx_Err (ac ctx))) (\<lambda>e. case e of
        Some _ \<Rightarrow> okM ()
      | None \<Rightarrow>
          tryM (baseM (tryM (set_header ''Content-Type'' ''text/html'') (\<lambda>_.
                       tryM (set_header ''Cache-Control'' ''no-cache, no-store'') (\<lambda>_.
                       tryM (set_header ''Pragma'' ''no-cache'') (\<lambda>_. WriteHeader 200 None))))) (\<lambda>_.
          tryM (modM (\<lambda>w. w\<lparr>aw_sent := aw_sent w @ [FormPosted uri members]\<rparr>)) (\<lambda>_.
          baseM (callO (al_TemplateErr (ac_Lib ctx))))))"

definition RenderError :: "'st AuthorizeContext \<Rightarrow> authorize_error \<Rightarrow> ('st, unit) A" where
  "RenderError ctx err =
     (case az_RenderErrorFunc (ac_conf ctx) of
        None \<Rightarrow> failM err
      | Some f \<Rightarrow> tryM (baseM (HandleError (base_error err))) (\<lambda>_. baseM (callO (\<lambda>n. f n (base_error err)))))"

section \<open>The destination\<close>

definition invalidCurrentAuthorizationRedirectURI :: go_error where
  "invalidCurrentAuthorizationRedirectURI =
     WrapError ErrorCodeServerError ''server error'' (ErrNew ''redirect_uri is not registered for the current client'')"

text \<open>\<^verbatim>\<open>strconv.ParseUint(s, 10, 16)\<close>.\<close>

definition ParseUint16 :: "string \<Rightarrow> nat option" where
  "ParseUint16 s =
     (if s = [] \<or> \<not> list_all is_digit s \<or> digits_value 0 s > 65535 then None else Some (digits_value 0 s))"

text \<open>The URI a registered loopback URI becomes on the given port.\<close>

definition rebuilt_loopback :: "Lib \<Rightarrow> string \<Rightarrow> nat \<Rightarrow> string option" where
  "rebuilt_loopback lib registered port =
     (case l_url_ParseRequestURI lib registered of
        Inl _ \<Rightarrow> None
      | Inr registeredURL \<Rightarrow>
          if u_Host registeredURL = '''' then None
          else Some (l_url_String lib (registeredURL\<lparr>u_Host := JoinHostPort (url_Hostname registeredURL) (Itoa port)\<rparr>)))"

definition currentAuthorizationRedirectURI :: "'st AuthorizeContext \<Rightarrow> Client \<Rightarrow> string \<Rightarrow> go_error + string" where
  "currentAuthorizationRedirectURI ctx c requested =
     (let lib = cx_Lib (ac ctx); bad = Inl invalidCurrentAuthorizationRedirectURI in
      if requested = '''' then bad
      else if requested \<in> set (c_RedirectURIs c) then Inr requested
      else if c_ApplicationType c \<noteq> ApplicationTypeNative then bad
      else case l_url_ParseRequestURI lib requested of
        Inl _ \<Rightarrow> bad
      | Inr requestedURL \<Rightarrow>
          let hostname = url_Hostname requestedURL in
          if u_Scheme requestedURL = '''' \<or> u_Host requestedURL = '''' \<or> \<not> loopback_host (ac_Lib ctx) hostname then bad
          else case ParseUint16 (url_Port requestedURL) of
            None \<Rightarrow> bad
          | Some port \<Rightarrow>
              let registered = l_url_String lib (requestedURL\<lparr>u_Host := bare_host hostname\<rparr>) in
              if registered \<notin> set (c_RedirectURIs c) then bad
              else case rebuilt_loopback lib registered port of None \<Rightarrow> bad | Some uri \<Rightarrow> Inr uri)"

section \<open>Signed responses\<close>

definition jarm_claims :: "'st AuthorizeContext \<Rightarrow> Client \<Rightarrow> response \<Rightarrow> int \<Rightarrow> claims" where
  "jarm_claims ctx c redirectParams now =
     maps_Copy [(ClaimIssuer, JStr (Issuer (ac ctx))), (ClaimAudience, JStr (c_ID c)), (ClaimIssuedAt, JInt now),
       (ClaimExpiry, JInt (now + az_JARMLifetimeSecs (ac_conf ctx)))]
       (map (\<lambda>(k, v). (k, JStr v)) (parameters redirectParams))"

definition jarm_alg :: "'st AuthorizeContext \<Rightarrow> Client \<Rightarrow> SignatureAlgorithm" where
  "jarm_alg ctx c =
     (if c_JARMSigAlg c \<in> set (az_JARMSigAlgs (ac_conf ctx)) \<and> c_JARMSigAlg c \<noteq> '''' then c_JARMSigAlg c
      else az_JARMSigAlgDefault (ac_conf ctx))"

definition createJARMResponse :: "'st AuthorizeContext \<Rightarrow> Client \<Rightarrow> response \<Rightarrow> ('st, string) M" where
  "createJARMResponse ctx c redirectParams =
     tryM (TimestampNow (ac ctx)) (\<lambda>now.
     tryM (mapErrM (ErrWrapf ''could not sign the response object'')
        (Sign (ac ctx) (jarm_claims ctx c redirectParams now) (jarm_alg ctx c) None)) (\<lambda>responseJWT.
     if \<not> az_JARMEncEnabled (ac_conf ctx) \<or> c_JARMKeyEncAlg c = '''' \<or> c_JARMKeyEncAlg c \<notin> set (az_JARMKeyEncAlgs (ac_conf ctx))
     then okM responseJWT
     else
       tryM (mapErrM (WrapError ErrorCodeInvalidRequest ''could not fetch the client encryption jwk for jarm'')
          (JWKByAlg (ac ctx) c (c_JARMKeyEncAlg c))) (\<lambda>(jwk, c').
       case az_JARMContentEncAlgs (ac_conf ctx) of
         [] \<Rightarrow> failM (ErrNew ''runtime error: index out of range'')
       | first # _ \<Rightarrow>
           mapErrM (ErrWrapf ''could not encrypt the response object'')
             (callE (\<lambda>n. l_Encrypt (cx_Lib (ac ctx)) n responseJWT jwk
                (if c_JARMContentEncAlg c \<in> set (az_JARMContentEncAlgs (ac_conf ctx)) \<and> c_JARMContentEncAlg c \<noteq> ''''
                 then c_JARMContentEncAlg c else first))))))"

section \<open>The response\<close>

definition effective_mode :: "AuthorizationParameters \<Rightarrow> ResponseMode" where
  "effective_mode params =
     (if ap_ResponseMode params = ''''
      then (if ResponseType_IsImplicit (ap_ResponseType params) then ResponseModeFragment else ResponseModeQuery)
      else if ap_ResponseMode params = ResponseModeJWT
      then (if ResponseType_IsImplicit (ap_ResponseType params) then ResponseModeFragmentJWT else ResponseModeQueryJWT)
      else ap_ResponseMode params)"

text \<open>The switch on the response mode.\<close>

definition deliver :: "'st AuthorizeContext \<Rightarrow> ResponseMode \<Rightarrow> string \<Rightarrow> (string \<times> string) list \<Rightarrow> ('st, unit) A" where
  "deliver ctx mode redirectURI params =
     (if mode \<in> {ResponseModeFragment, ResponseModeFragmentJWT}
      then Redirect (URLWithFragmentParams (ac_Lib ctx) redirectURI params)
      else if mode \<in> {ResponseModeFormPost, ResponseModeFormPostJWT}
      then mapErrM (wrapPlain ''could not render the html for the form_post response mode'')
        (WriteHTML ctx redirectURI (params @ [(''redirect_uri'', redirectURI)]))
      else if mode \<in> {ResponseModeJSON, ResponseModeJSONJWT}
      then mapErrM (wrapPlain ''could not write the json response'')
        (baseM (Write (ac ctx) (JObj (map (\<lambda>(k, v). (k, JStr v)) params)) 200))
      else case URLWithQueryParams (cx_Lib (ac ctx)) (ac_Lib ctx) redirectURI params of
        None \<Rightarrow> failM (PlainError (ErrNew ''runtime error: nil pointer dereference''))
      | Some redirectURL \<Rightarrow> Redirect redirectURL)"

definition redirectResponse ::
  "'st AuthorizeContext \<Rightarrow> Client \<Rightarrow> AuthorizationParameters \<Rightarrow> response \<Rightarrow> ('st, unit) A" where
  "redirectResponse ctx c params redirectParams =
     (case currentAuthorizationRedirectURI ctx c (ap_RedirectURI params) of
        Inl err \<Rightarrow> failM (PlainError err)
      | Inr redirectURI \<Rightarrow>
          let issued = (if az_IssuerRespParamEnabled (ac_conf ctx) then redirectParams\<lparr>rp_issuer := Issuer (ac ctx)\<rparr> else redirectParams);
              mode = effective_mode params in
          tryM (if ResponseMode_IsJARM mode \<or> c_JARMSigAlg c \<noteq> ''''
                then tryM (baseM (createJARMResponse ctx c issued)) (\<lambda>jwt. okM (issued\<lparr>rp_response := jwt\<rparr>))
                else okM issued) (\<lambda>final.
          deliver ctx mode redirectURI (parameters final)))"

text \<open>\<^verbatim>\<open>redirectError\<close>: an error that is not a redirection error is handed back.\<close>

definition redirectError :: "'st AuthorizeContext \<Rightarrow> Client \<Rightarrow> authorize_error \<Rightarrow> ('st, unit) A" where
  "redirectError ctx c err =
     (case err of
        PlainError e \<Rightarrow> failM err
      | redirectionError params e \<Rightarrow>
          tryM (baseM (HandleError e)) (\<lambda>_.
          redirectResponse ctx c params (zero_response
            \<lparr>rp_errorCode := err_Code e, rp_errorDescription := err_Description e, rp_state := ap_State params,
             rp_errorURI := cf_ErrorURI (cx (ac ctx))\<rparr>)))"

section \<open>Destinations are registered\<close>

text \<open>A URI of the client's registration, or a registered loopback URI of a native application on a port of sixteen
  bits.\<close>

definition server_redirect :: "'st AuthorizeContext \<Rightarrow> Client \<Rightarrow> string \<Rightarrow> bool" where
  "server_redirect ctx c uri \<longleftrightarrow>
     uri \<in> set (c_RedirectURIs c) \<or>
     c_ApplicationType c = ApplicationTypeNative \<and>
       (\<exists>registered \<in> set (c_RedirectURIs c). \<exists>port < 65536. rebuilt_loopback (cx_Lib (ac ctx)) registered port = Some uri)"

lemma ParseUint16_bound: "ParseUint16 s = Some n \<Longrightarrow> n < 65536"
  by (auto simp: ParseUint16_def split: if_splits)

lemma current_redirect_registered:
  "currentAuthorizationRedirectURI ctx c requested = Inr uri \<Longrightarrow> server_redirect ctx c uri"
  unfolding currentAuthorizationRedirectURI_def server_redirect_def
  by (auto simp: Let_def split: if_splits sum.splits option.splits dest: ParseUint16_bound)

text \<open>What was sent goes to such a URI: with parameters added to its query or its fragment, or as the target of a form.\<close>

fun sent_to_client :: "'st AuthorizeContext \<Rightarrow> Client \<Rightarrow> browser_output \<Rightarrow> bool" where
  "sent_to_client ctx c (Redirected url) =
     (\<exists>base ps. server_redirect ctx c base \<and>
        (URLWithQueryParams (cx_Lib (ac ctx)) (ac_Lib ctx) base ps = Some url \<or> url = URLWithFragmentParams (ac_Lib ctx) base ps))"
| "sent_to_client ctx c (FormPosted uri members) = server_redirect ctx c uri"

text \<open>Everything sent so far satisfies a predicate.\<close>

abbreviation all_sent :: "(browser_output \<Rightarrow> bool) \<Rightarrow> 'st AuthorizeWorld \<Rightarrow> bool" where
  "all_sent R \<equiv> \<lambda>w. list_all R (aw_sent w)"

lemma sends_Redirect: "R (Redirected url) \<Longrightarrow> keeps (all_sent R) (Redirect url)"
  unfolding Redirect_def by (intro frame_intros keeps_mod) simp

lemma sends_WriteHTML: "R (FormPosted uri members) \<Longrightarrow> keeps (all_sent R) (WriteHTML ctx uri members)"
  unfolding WriteHTML_def by (intro frame_intros keeps_mod) simp

lemma to_client_urls:
  "server_redirect ctx c uri \<Longrightarrow> sent_to_client ctx c (Redirected (URLWithFragmentParams (ac_Lib ctx) uri params))"
  "server_redirect ctx c uri \<Longrightarrow> URLWithQueryParams (cx_Lib (ac ctx)) (ac_Lib ctx) uri params = Some url \<Longrightarrow>
     sent_to_client ctx c (Redirected url)"
  by auto

lemma sends_deliver:
  assumes "server_redirect ctx c uri"
  shows "keeps (all_sent (sent_to_client ctx c)) (deliver ctx mode uri params)"
  using assms unfolding deliver_def
  by (cases "URLWithQueryParams (cx_Lib (ac ctx)) (ac_Lib ctx) uri params")
    (simp_all only: option.case if_cancel,
      (intro keeps_if keeps_mapErr sends_Redirect sends_WriteHTML sent_baseM keeps_fail to_client_urls; simp)+)

lemma sends_redirectResponse [frame_intros]:
  "keeps (all_sent (sent_to_client ctx c)) (redirectResponse ctx c params resp)"
  unfolding redirectResponse_def Let_def
  by (cases "currentAuthorizationRedirectURI ctx c (ap_RedirectURI params)")
    (auto intro!: frame_intros sends_deliver current_redirect_registered)

lemma sends_redirectError [frame_intros]:
  "keeps (all_sent (sent_to_client ctx c)) (redirectError ctx c err)"
  unfolding redirectError_def by (cases err) (auto intro!: frame_intros)
end
