(* ===== verification/RequestObject.thy ===== *)
theory RequestObject
  imports AuthorizeRedirect
begin

text \<open>
  Request objects, \<^verbatim>\<open>internal/authorize/jar.go\<close>: by value (decryption, unsigned objects, signature, claims, single use) and
  by reference (registration of the URI, resolution and admission of its addresses, the guarded client, the size of
  the body), with \<^verbatim>\<open>ctx.Decrypt\<close> and the shapes of \<^verbatim>\<open>internal/joseutil\<close>. The public key of a client may be fetched on
  the way and is then cached in the client, so these programs return the client too.
\<close>

section \<open>Shapes and decryption\<close>

definition IsUnsignedJWT :: "string \<Rightarrow> bool" where
  "IsUnsignedJWT tkn \<longleftrightarrow>
     (case split_on CHR ''.'' tkn of
        [h, p, s] \<Rightarrow> h \<noteq> [] \<and> list_all word_char h \<and> p \<noteq> [] \<and> list_all word_char p \<and> s = []
      | _ \<Rightarrow> False)"

definition IsJWE :: "string \<Rightarrow> bool" where
  "IsJWE tkn \<longleftrightarrow>
     (let parts = split_on CHR ''.'' tkn in length parts = 5 \<and> list_all (\<lambda>p. p \<noteq> [] \<and> list_all word_char p) parts)"

definition Decrypt ::
  "'st AuthorizeContext \<Rightarrow> string \<Rightarrow> KeyEncryptionAlgorithm list \<Rightarrow> ContentEncryptionAlgorithm list \<Rightarrow> ('st, string) M" where
  "Decrypt ctx jwe keyAlgs cntAlgs =
     tryM (mapErrM (ErrWrapf ''could not parse the jwe'') (liftE (al_ParseEncrypted (ac_Lib ctx) jwe keyAlgs cntAlgs))) (\<lambda>(keyID, alg).
     guardM (keyID = '''') (ErrNew ''invalid jwe key ID'') (
     tryM (case az_DecrypterFunc (ac_conf ctx) of
             Some f \<Rightarrow>
               tryM (mapErrM (ErrWrapf ''could not load the decrypter'') (callE (\<lambda>n. f n keyID alg))) (\<lambda>decrypter.
               okM (DecryptOpaque alg decrypter))
           | None \<Rightarrow>
               tryM (mapErrM (\<lambda>_. ErrNew ''invalid jwk used for encryption'') (JWK (ac ctx) keyID)) (\<lambda>jwk.
               guardM (KeyUsage_of jwk \<noteq> KeyUsageEncryption) (ErrNew ''invalid jwk used for encryption'') (okM (DecryptJWK jwk)))) (\<lambda>key.
     mapErrM (ErrWrapf ''could not decrypt the jwe'') (callE (\<lambda>n. al_Decrypt (ac_Lib ctx) n jwe key)))))"

section \<open>Request objects by value\<close>

definition invalid_object :: "go_error \<Rightarrow> go_error" where
  "invalid_object e = WrapError ErrorCodeInvalidRequestObject ''invalid request object'' e"

definition object_error :: "string \<Rightarrow> go_error" where
  "object_error m = invalid_object (ErrNew m)"

definition object_wrap :: "string \<Rightarrow> go_error \<Rightarrow> go_error" where
  "object_wrap m e = invalid_object (ErrWrapf m e)"

definition hour :: int where
  "hour = 3600 * second"

text \<open>The zero \<^verbatim>\<open>time.Time\<close>, the first of January of the year 1.\<close>

definition zero_Time :: int where
  "zero_Time = - 62135596800 * second"

definition jar_signature_algs :: "'st AuthorizeContext \<Rightarrow> Client \<Rightarrow> SignatureAlgorithm list" where
  "jar_signature_algs ctx c =
     (if c_JARSigAlg c \<noteq> '''' \<and> c_JARSigAlg c \<in> set (az_JARSigAlgs (ac_conf ctx)) then [c_JARSigAlg c]
      else az_JARSigAlgs (ac_conf ctx))"

definition jar_content_algs :: "'st AuthorizeContext \<Rightarrow> Client \<Rightarrow> ContentEncryptionAlgorithm list" where
  "jar_content_algs ctx c =
     (if c_JARContentEncAlg c \<noteq> '''' \<and> c_JARContentEncAlg c \<in> set (az_JARContentEncAlgs (ac_conf ctx)) then [c_JARContentEncAlg c]
      else az_JARContentEncAlgs (ac_conf ctx))"

text \<open>The lifetime the FAPI profiles require.\<close>

definition check_fapi_window :: "'st AuthorizeContext \<Rightarrow> JWTClaims \<Rightarrow> ('st, unit) M" where
  "check_fapi_window ctx claims =
     (if \<not> Profile_IsFAPI (cf_Profile (cx (ac ctx))) then okM ()
      else case jc_NotBefore claims of
        None \<Rightarrow> failM (object_error ''claim nbf is required in the request object'')
      | Some nbf \<Rightarrow>
          tryM (Now (ac ctx)) (\<lambda>now.
          guardM (nbf * second < now - hour) (object_error ''claim nbf is too far in the past'') (
          case jc_Expiry claims of
            None \<Rightarrow> failM (object_error ''claim exp is required in the request object'')
          | Some ex \<Rightarrow>
              tryM (Now (ac ctx)) (\<lambda>now2.
              guardM (ex * second > now2 + hour) (object_error ''claim exp is too far in the future'') (okM ())))))"

definition jar_use :: "'st AuthorizeContext \<Rightarrow> JWTClaims \<Rightarrow> JTIUse" where
  "jar_use ctx claims =
     \<lparr>ju_ID = jc_ID claims, ju_Issuer = jc_Issuer claims, ju_Purpose = JTIUsePurposeRequestObject,
      ju_ExpiresAt = (case jc_Expiry claims of
          None \<Rightarrow> zero_Time | Some e \<Rightarrow> e * second + cf_JWTLeewayTimeSecs (cx (ac ctx)) * second)\<rparr>"

text \<open>The checks on the claims, in the source's order.\<close>

definition check_jar_claims :: "'st AuthorizeContext \<Rightarrow> Client \<Rightarrow> bool \<Rightarrow> JWTClaims \<Rightarrow> ('st, unit) M" where
  "check_jar_claims ctx c federation claims =
     tryM (check_fapi_window ctx claims) (\<lambda>_.
     guardM (federation \<and> jc_Expiry claims = None) (object_error ''claim exp is required in the request object'') (
     guardM (federation \<and> jc_ID claims = '''') (object_error ''claim jti is missing in the request object'') (
     guardM (jc_Subject claims \<noteq> '''') (object_error ''claim sub is not allowed in the request object'') (
     tryM (mapErrM (WrapError ErrorCodeInvalidRequestObject ''the request object contains invalid claims'')
        (callO (\<lambda>n. l_ValidateWithLeeway (cx_Lib (ac ctx)) n claims
           \<lparr>ex_Issuer = c_ID c, ex_Subject = '''', ex_AnyAudience = [Issuer (ac ctx)]\<rparr>
           (cf_JWTLeewayTimeSecs (cx (ac ctx)) * second)))) (\<lambda>_.
     if jc_ID claims \<noteq> ''''
     then ReserveJTI (ac ctx) (jar_use ctx claims) ErrorCodeInvalidRequestObject ''invalid request object''
     else okM ())))))"

definition jarFromRequestObject ::
  "'st AuthorizeContext \<Rightarrow> string \<Rightarrow> Client \<Rightarrow> bool \<Rightarrow> ('st, request \<times> Client) M" where
  "jarFromRequestObject ctx reqObject0 c federation =
     (let lib = cx_Lib (ac ctx); algs = jar_signature_algs ctx c in
      tryM (if az_JAREncEnabled (ac_conf ctx) \<and> IsJWE reqObject0
            then mapErrM (object_wrap ''could not decrypt the encrypted request object'')
              (Decrypt ctx reqObject0 (az_JARKeyEncAlgs (ac_conf ctx)) (jar_content_algs ctx c))
            else okM reqObject0) (\<lambda>reqObject.
      if SigAlgNone \<in> set (az_JARSigAlgs (ac_conf ctx)) \<and> IsUnsignedJWT reqObject
      then
        tryM (mapErrM (object_wrap ''could not parse the unsigned request object'') (liftE (l_ParseSigned lib reqObject algs))) (\<lambda>parsedJWT.
        tryM (mapErrM (object_wrap ''could not extract claims from the unsigned request object'')
          (liftE (UnmarshalJSON lib (ac_Lib ctx) (l_Payload lib parsedJWT)))) (\<lambda>jarReq. okM (jarReq, c)))
      else
        tryM (mapErrM (object_wrap ''could not parse the request object'') (liftE (l_ParseSigned lib reqObject algs))) (\<lambda>parsedToken.
        case jwt_Headers parsedToken of
          [header] \<Rightarrow>
            tryM (mapErrM (object_wrap ''could not resolve the client public key for the request object header'')
              (JWKMatchingHeader (ac ctx) c header)) (\<lambda>(jwk, c').
            tryM (mapErrM (object_wrap ''could not extract claims from the request object'')
              (tryM (liftE (l_Verify lib parsedToken (VKey (jwk_Key jwk)))) (\<lambda>payload.
               tryM (liftE (l_DecodeClaims lib payload)) (\<lambda>claims.
               tryM (liftE (UnmarshalJSON lib (ac_Lib ctx) payload)) (\<lambda>jarReq. okM (claims, jarReq)))))) (\<lambda>(claims, jarReq).
            tryM (check_jar_claims ctx c' federation claims) (\<lambda>_. okM (jarReq, c'))))
        | _ \<Rightarrow> failM (object_error ''the request object must contain exactly one JOSE header''))))"

section \<open>Request objects by reference\<close>

definition maxJARResponseByteSize :: int where
  "maxJARResponseByteSize = 1000000"

text \<open>The first registered URI equal to the requested one, without its fragment.\<close>

definition registeredJARRequestURI :: "Lib \<Rightarrow> string \<Rightarrow> Client \<Rightarrow> go_error + string" where
  "registeredJARRequestURI lib reqURI client =
     (if reqURI \<notin> set (c_RequestURIs client) then Inl invalidJARRequestURI
      else case l_url_Parse lib reqURI of
        Inl _ \<Rightarrow> Inl invalidJARRequestURI
      | Inr parsed \<Rightarrow>
          if u_Scheme parsed \<noteq> ''https'' \<or> url_Hostname parsed = '''' \<or> u_User parsed \<noteq> None \<or> u_Opaque parsed \<noteq> ''''
          then Inl invalidJARRequestURI
          else Inr (l_url_String lib (parsed\<lparr>u_Fragment := '''', u_RawFragment := ''''\<rparr>)))"

definition invalid_request_uri :: "go_error \<Rightarrow> go_error" where
  "invalid_request_uri e = WrapError ErrorCodeInvalidRequest ''invalid request_uri'' e"

definition uri_error :: "string \<Rightarrow> go_error" where
  "uri_error m = invalid_request_uri (ErrNew m)"

text \<open>Which addresses may be dialled: the given control, or the loopback addresses for an origin on the list of
  exceptions, or the public ones (no control).\<close>

definition jar_network_control ::
  "'st AuthorizeContext \<Rightarrow> (Addr \<Rightarrow> bool) option \<Rightarrow> string \<Rightarrow> go_error + (Addr \<Rightarrow> bool) option" where
  "jar_network_control ctx control registeredURI =
     (case control of
        Some allow \<Rightarrow> Inr (Some allow)
      | None \<Rightarrow>
          (case canonicalJARNetworkOrigin (cx_Lib (ac ctx)) (ac_Net ctx) registeredURI of
             Inl e \<Rightarrow> Inl (invalid_request_uri e)
           | Inr origin \<Rightarrow>
               Inr (if origin \<in> set (az_JARByReferenceAllowedLoopbackOrigins (ac_conf ctx)) then Some loopbackJARIPAddress else None)))"

text \<open>Everything up to the request: the URI, the target and the guarded client that fetches it. Creating the HTTP
  request cannot fail, since the URI was parsed.\<close>

definition jar_fetch_plan ::
  "'st AuthorizeContext \<Rightarrow> string \<Rightarrow> Client \<Rightarrow> (Addr \<Rightarrow> bool) option \<Rightarrow> ('st, string \<times> jarNetworkTarget \<times> HTTPClient) M" where
  "jar_fetch_plan ctx reqURI client control =
     tryM (liftE (registeredJARRequestURI (cx_Lib (ac ctx)) reqURI client)) (\<lambda>registeredURI.
     guardM (az_JARHTTPClient (ac_conf ctx) = None) (uri_error ''the request_uri HTTP client is not configured'') (
     tryM (liftE (jar_network_control ctx control registeredURI)) (\<lambda>allow.
     tryM (mapErrM invalid_request_uri (resolveJARNetworkTarget (ac ctx) (ac_Net ctx) registeredURI allow)) (\<lambda>target.
     tryM (mapErrM invalid_request_uri
       (liftE (newGuardedJARHTTPClient (al_DefaultTransport (ac_Lib ctx)) (az_JARHTTPClient (ac_conf ctx)) target))) (\<lambda>guarded.
     okM (registeredURI, target, guarded))))))"

definition jarFromRequestURIWithNetworkControl ::
  "'st AuthorizeContext \<Rightarrow> string \<Rightarrow> Client \<Rightarrow> (Addr \<Rightarrow> bool) option \<Rightarrow> ('st, request \<times> Client) M" where
  "jarFromRequestURIWithNetworkControl ctx reqURI client control =
     tryM (jar_fetch_plan ctx reqURI client control) (\<lambda>(registeredURI, target, guarded).
     tryM (mapErrM (\<lambda>e. invalid_request_uri (ErrWrapf ''could not fetch the request object from request_uri'' e))
       (callE (\<lambda>n. al_FetchJAR (ac_Lib ctx) n guarded registeredURI))) (\<lambda>resp.
     guardM (hr_StatusCode resp \<noteq> 200) (uri_error ''request_uri returned an HTTP status'') (
     guardM (hr_ContentLength resp > maxJARResponseByteSize) (uri_error ''request object exceeds max size'') (
     let reqObject = take (nat maxJARResponseByteSize + 1) (hr_Body resp) in
     guardM (int (length reqObject) > maxJARResponseByteSize) (uri_error ''request object exceeds max size'') (
     jarFromRequestObject ctx reqObject client False)))))"

definition jarFromRequestURI :: "'st AuthorizeContext \<Rightarrow> string \<Rightarrow> Client \<Rightarrow> ('st, request \<times> Client) M" where
  "jarFromRequestURI ctx reqURI client = jarFromRequestURIWithNetworkControl ctx reqURI client None"

section \<open>The trust chain of a request object\<close>

fun string_items :: "json list \<Rightarrow> string list option" where
  "string_items [] = Some []"
| "string_items (JStr s # rest) = map_option (Cons s) (string_items rest)"
| "string_items _ = None"

definition jarTrustChain :: "Lib \<Rightarrow> AuthorizeLib \<Rightarrow> string \<Rightarrow> SignatureAlgorithm list \<Rightarrow> string slice" where
  "jarTrustChain lib alib reqObject sigAlgs =
     (case l_ParseSigned lib reqObject sigAlgs of
        Inl _ \<Rightarrow> None
      | Inr parsed \<Rightarrow>
          (case jwt_Headers parsed of
             [] \<Rightarrow> None
           | header # _ \<Rightarrow>
               (case map_of (jh_ExtraHeaders header) ''trust_chain'' of
                  None \<Rightarrow> (case al_UnmarshalTrustChain alib (l_Payload lib parsed) of Inl _ \<Rightarrow> None | Inr chain \<Rightarrow> chain)
                | Some (JArr items) \<Rightarrow> string_items items
                | Some _ \<Rightarrow> None)))"


section \<open>What an accepted request object guarantees\<close>

lemma JWKS_same_client: "JWKS ctx c w = (Inr (jwks, c'), w') \<Longrightarrow> c_ID c' = c_ID c"
  unfolding JWKS_def Let_def
  by (auto simp: ok_simps CacheJWKS_def split: option.splits if_splits)

text \<open>The algorithms a request object of the client is parsed with are those of the server.\<close>

lemma jar_signature_algs_subset: "set (jar_signature_algs ctx c) \<subseteq> set (az_JARSigAlgs (ac_conf ctx))"
  by (simp add: jar_signature_algs_def)

lemma fapi_window_ok:
  assumes "check_fapi_window ctx claims w = (Inr u, w')" and "Profile_IsFAPI (cf_Profile (cx (ac ctx)))"
  shows "\<exists>nbf ex n m. jc_NotBefore claims = Some nbf \<and> jc_Expiry claims = Some ex \<and>
        l_Now (cx_Lib (ac ctx)) n - hour \<le> nbf * second \<and> ex * second \<le> l_Now (cx_Lib (ac ctx)) m + hour"
  using assms unfolding check_fapi_window_def Now_def
  by (auto simp: ok_simps not_less split: option.splits)

lemma check_jar_claims_ok:
  assumes "check_jar_claims ctx c fed claims w = (Inr u, w')"
  shows "jc_Subject claims = ''''" "fed \<Longrightarrow> jc_Expiry claims \<noteq> None \<and> jc_ID claims \<noteq> ''''"
    and "\<exists>n. l_ValidateWithLeeway (cx_Lib (ac ctx)) n claims
           \<lparr>ex_Issuer = c_ID c, ex_Subject = '''', ex_AnyAudience = [Issuer (ac ctx)]\<rparr> (cf_JWTLeewayTimeSecs (cx (ac ctx)) * second) = None"
    and "jc_ID claims \<noteq> '''' \<Longrightarrow> \<exists>n. jti_accepted (ac ctx) n (jar_use ctx claims)"
    and "Profile_IsFAPI (cf_Profile (cx (ac ctx))) \<Longrightarrow>
      \<exists>nbf ex n m. jc_NotBefore claims = Some nbf \<and> jc_Expiry claims = Some ex \<and>
        l_Now (cx_Lib (ac ctx)) n - hour \<le> nbf * second \<and> ex * second \<le> l_Now (cx_Lib (ac ctx)) m + hour"
  using assms unfolding check_jar_claims_def
  by (auto simp: ok_simps dest!: ReserveJTI_ok fapi_window_ok split: if_splits)

text \<open>A signed request object, its claims and the request in it, verified with a key of the client.\<close>

definition signed_object ::
  "'st AuthorizeContext \<Rightarrow> Client \<Rightarrow> string \<Rightarrow> JWTClaims \<Rightarrow> request \<Rightarrow> bool" where
  "signed_object ctx c jws claims req \<longleftrightarrow>
     (\<exists>t header jwk jwks c' v v' payload.
        l_ParseSigned (cx_Lib (ac ctx)) jws (jar_signature_algs ctx c) = Inr t \<and> jwt_Headers t = [header] \<and>
        JWKS (ac ctx) c v = (Inr (jwks, c'), v') \<and> jwk \<in> set jwks \<and>
        l_Verify (cx_Lib (ac ctx)) t (VKey (jwk_Key jwk)) = Inr payload \<and>
        l_DecodeClaims (cx_Lib (ac ctx)) payload = Inr claims \<and> UnmarshalJSON (cx_Lib (ac ctx)) (ac_Lib ctx) payload = Inr req)"

lemma jarFromRequestObject_ok:
  assumes "jarFromRequestObject ctx obj c fed w = (Inr (req, c'), w')"
    and "SigAlgNone \<notin> set (az_JARSigAlgs (ac_conf ctx))"
  shows "\<exists>jws claims v v'. (jws = obj \<or> az_JAREncEnabled (ac_conf ctx) \<and> IsJWE obj) \<and>
     signed_object ctx c jws claims req \<and> c_ID c' = c_ID c \<and> check_jar_claims ctx c' fed claims v = (Inr (), v')"
proof -
  obtain jws t header jwk payload claims v v1 v2 where
    jws: "jws = obj \<or> az_JAREncEnabled (ac_conf ctx) \<and> IsJWE obj"
    and p: "l_ParseSigned (cx_Lib (ac ctx)) jws (jar_signature_algs ctx c) = Inr t" "jwt_Headers t = [header]"
      "l_Verify (cx_Lib (ac ctx)) t (VKey (jwk_Key jwk)) = Inr payload" "l_DecodeClaims (cx_Lib (ac ctx)) payload = Inr claims"
      "UnmarshalJSON (cx_Lib (ac ctx)) (ac_Lib ctx) payload = Inr req"
    and k: "JWKMatchingHeader (ac ctx) c header v = (Inr (jwk, c'), v1)"
    and ch: "check_jar_claims ctx c' fed claims v1 = (Inr (), v2)"
    using assms unfolding jarFromRequestObject_def Let_def
    by (auto simp: ok_simps case_single_ok split: if_splits)
  obtain jwks v3 where "JWKS (ac ctx) c v = (Inr (jwks, c'), v3)" "jwk \<in> set jwks"
    using JWKMatchingHeader_ok [OF k] by blast
  with p have "signed_object ctx c jws claims req" "c_ID c' = c_ID c"
    unfolding signed_object_def by (blast, simp add: JWKS_same_client)
  with jws ch show ?thesis by blast
qed


section \<open>What fetching a request object guarantees\<close>

lemma newGuarded_ok:
  "newGuardedJARHTTPClient d b target = Inr guarded \<Longrightarrow>
     \<not> hc_FollowRedirects guarded \<and>
     (\<exists>t. hc_Transport guarded = HTTPTransport (Some t) \<and> \<not> tr_Proxy t \<and> \<not> tr_Dial t \<and> \<not> tr_DialTLSContext t \<and> \<not> tr_DialTLS t \<and>
        tr_TLSNextProto t = 0 \<and> tr_target t = Some target \<and> tr_TLSClientConfig t = Some (False, jt_hostname target))"
  by (auto simp: newGuardedJARHTTPClient_def split: option.splits RoundTripper.splits if_splits)

lemma registeredJARRequestURI_ok:
  "registeredJARRequestURI lib uri c = Inr out \<Longrightarrow>
     uri \<in> set (c_RequestURIs c) \<and>
     (\<exists>parsed. l_url_Parse lib uri = Inr parsed \<and> u_Scheme parsed = ''https'' \<and> u_User parsed = None \<and>
        out = l_url_String lib (parsed\<lparr>u_Fragment := '''', u_RawFragment := ''''\<rparr>))"
  by (auto simp: registeredJARRequestURI_def split: sum.splits if_splits)

text \<open>A target all of whose addresses are public, or loopback addresses for a listed origin.\<close>

definition admitted_target :: "'st AuthorizeContext \<Rightarrow> string \<Rightarrow> jarNetworkTarget \<Rightarrow> bool" where
  "admitted_target ctx uri target \<longleftrightarrow>
     jt_addresses target \<noteq> [] \<and>
     (list_all publicJARIPAddress (jt_addresses target) \<or>
      list_all loopbackJARIPAddress (jt_addresses target) \<and>
        (\<exists>origin \<in> set (az_JARByReferenceAllowedLoopbackOrigins (ac_conf ctx)).
           canonicalJARNetworkOrigin (cx_Lib (ac ctx)) (ac_Net ctx) uri = Inr origin))"

lemma plan_ok:
  assumes "jar_fetch_plan ctx uri c None w = (Inr (registered, target, guarded), w')"
  shows "registeredJARRequestURI (cx_Lib (ac ctx)) uri c = Inr registered" "admitted_target ctx registered target"
    "newGuardedJARHTTPClient (al_DefaultTransport (ac_Lib ctx)) (az_JARHTTPClient (ac_conf ctx)) target = Inr guarded"
proof -
  obtain allow v v' where r: "registeredJARRequestURI (cx_Lib (ac ctx)) uri c = Inr registered"
    and a: "jar_network_control ctx None registered = Inr allow"
    and t: "resolveJARNetworkTarget (ac ctx) (ac_Net ctx) registered allow v = (Inr target, v')"
    and g: "newGuardedJARHTTPClient (al_DefaultTransport (ac_Lib ctx)) (az_JARHTTPClient (ac_conf ctx)) target = Inr guarded"
    using assms unfolding jar_fetch_plan_def by (auto simp: ok_simps)
  from r g show "registeredJARRequestURI (cx_Lib (ac ctx)) uri c = Inr registered"
    "newGuardedJARHTTPClient (al_DefaultTransport (ac_Lib ctx)) (az_JARHTTPClient (ac_conf ctx)) target = Inr guarded" .
  show "admitted_target ctx registered target"
    using a resolved_addresses [OF t]
    by (auto simp: jar_network_control_def admitted_target_def split: sum.splits if_splits)
qed



subsection \<open>A concrete request object\<close>

definition jar_client :: Client where
  "jar_client = sample_client\<lparr>c_RequestURIs := [''/jar'']\<rparr>"

definition jar_request :: request where
  "jar_request = \<lparr>ar_ClientID = ''c1'', ar_Params = zero_AuthorizationParameters\<lparr>ap_Scopes := ''openid''\<rparr>, ar_AdmissionTransport = None\<rparr>"

definition jar_Context :: "Manager AuthorizeContext" where
  "jar_Context =
    \<lparr>ac = assertion_Context\<lparr>cx := (cx assertion_Context)\<lparr>cf_ConsumeJTIUseFunc := None\<rparr>, cx_Lib := (cx_Lib assertion_Context)\<lparr>l_url_Parse := l_url_Parse (cx_Lib dns_Context),
        l_DecodeClaims := (\<lambda>p. Inr \<lparr>jc_Issuer = ''c1'', jc_Subject = '''', jc_Audience = [''https://op''], jc_Expiry = Some 5,
          jc_NotBefore = None, jc_IssuedAt = Some 5, jc_ID = ''x''\<rparr>)\<rparr>\<rparr>,
     ac_Transport = zero_RequestTransport,
     ac_conf = base_AuthorizeConfiguration\<lparr>az_JARSigAlgs := [SigAlgPS256], az_JARHTTPClient :=
        Some \<lparr>hc_Transport = NilTransport, hc_Timeout = 0, hc_FollowRedirects = True\<rparr>\<rparr>,
     ac_Lib = base_AuthorizeLib\<lparr>al_UnmarshalRequest := (\<lambda>_. Inr (jar_request, None)),
        al_DefaultTransport := Some \<lparr>tr_Proxy = True, tr_Dial = False, tr_DialTLSContext = False, tr_DialTLS = False,
          tr_TLSNextProto = 0, tr_TLSClientConfig = None, tr_target = None\<rparr>,
        al_FetchJAR := (\<lambda>_ _ _. Inr \<lparr>hr_StatusCode = 200, hr_ContentLength = 6, hr_Body = ''h.YQ.s''\<rparr>)\<rparr>,
     ac_Net = dns_NetLib\<rparr>"

lemma jar_accepted:
  "fst (jarFromRequestObject jar_Context ''h.YQ.s'' jar_client False (start_World (NewManager 1) 0)) = Inr (jar_request, jar_client)"
  "fst (jarFromRequestObject jar_Context ''h.YQ.s'' jar_client False (start_World (NewManager 1) 2)) = Inr (jar_request, jar_client)"
  by code_simp+

lemma jar_planned:
  "\<exists>target guarded. jar_fetch_plan jar_Context ''/jar'' jar_client None (start_World (NewManager 1) 0)
     = (Inr (''/jar'', target, guarded), start_World (NewManager 1) 1)"
proof -
  have pub: "publicJARIPAddress (Addr4 0x08080808)"
    by (simp add: publicJARIPAddress_def IsValid_def IsGlobalUnicast_def IsUnspecified_def v4_def
        jarSpecialUsePrefixes_def p4_def p6_def)
  have parse: "l_url_Parse (cx_Lib (ac jar_Context)) ''/jar'' = Inr \<lparr>u_Scheme = ''https'',
     u_Opaque = '''', u_User = None, u_Host = ''rp.example'', u_Path = ''/jar'', u_RawPath = '''', u_OmitHost = False,
     u_ForceQuery = False, u_RawQuery = '''', u_Fragment = '''', u_RawFragment = ''''\<rparr>"
    and str: "l_url_String (cx_Lib (ac jar_Context)) = u_Path"
    and conf: "az_JARByReferenceAllowedLoopbackOrigins (ac_conf jar_Context) = []"
      "az_JARHTTPClient (ac_conf jar_Context) = Some \<lparr>hc_Transport = NilTransport, hc_Timeout = 0, hc_FollowRedirects = True\<rparr>"
      "ac_Net jar_Context = dns_NetLib"
    by (simp_all add: jar_Context_def assertion_Context_def dns_Context_def sample_Context_def sample_Lib_def base_Context_def
        base_Lib_def base_AuthorizeConfiguration_def)
  have host: "split_host_port ''rp.example'' = (''rp.example'', '''')" by code_simp
  have reg: "registeredJARRequestURI (cx_Lib (ac jar_Context)) ''/jar'' jar_client = Inr ''/jar''"
    by (simp add: registeredJARRequestURI_def parse str jar_client_def url_Hostname_def host)
  have ctl: "jar_network_control jar_Context None ''/jar'' = Inr None"
    by (simp add: jar_network_control_def canonicalJARNetworkOrigin_def parse conf url_Hostname_def url_Port_def host dns_NetLib_def
        Let_def)
  have res: "\<exists>target. resolveJARNetworkTarget (ac jar_Context) dns_NetLib ''/jar'' None (start_World (NewManager 1) 0)
      = (Inr target, start_World (NewManager 1) 1)"
    using pub by (simp add: resolveJARNetworkTarget_def parse dns_NetLib_def tryM_def liftE_def Let_def guardM_def mapErrM_def
        url_Hostname_def url_Port_def host start_World_def)
  then obtain target where t: "resolveJARNetworkTarget (ac jar_Context) dns_NetLib ''/jar'' None (start_World (NewManager 1) 0)
      = (Inr target, start_World (NewManager 1) 1)" by blast
  have "\<exists>guarded. newGuardedJARHTTPClient (al_DefaultTransport (ac_Lib jar_Context)) (az_JARHTTPClient (ac_conf jar_Context)) target = Inr guarded"
    by (simp add: newGuardedJARHTTPClient_def conf) (simp add: jar_Context_def)
  then obtain guarded where
    "newGuardedJARHTTPClient (al_DefaultTransport (ac_Lib jar_Context)) (az_JARHTTPClient (ac_conf jar_Context)) target = Inr guarded" by blast
  with t show ?thesis
    by (simp add: jar_fetch_plan_def reg ctl conf liftE_def guardM_run)
qed

lemma jar_fetched:
  "\<exists>w'. jarFromRequestURI jar_Context ''/jar'' jar_client (start_World (NewManager 1) 0) = (Inr (jar_request, jar_client), w')"
proof -
  obtain target guarded where p: "jar_fetch_plan jar_Context ''/jar'' jar_client None (start_World (NewManager 1) 0)
     = (Inr (''/jar'', target, guarded), start_World (NewManager 1) 1)" using jar_planned by blast
  have f: "al_FetchJAR (ac_Lib jar_Context) n g u = Inr \<lparr>hr_StatusCode = 200, hr_ContentLength = 6, hr_Body = ''h.YQ.s''\<rparr>" for n g u
    by (simp add: jar_Context_def)
  have w: "(start_World (NewManager 1) 1)\<lparr>w_calls := Suc (w_calls (start_World (NewManager 1) 1))\<rparr> = start_World (NewManager 1) 2"
    by (simp add: start_World_def)
  have "jarFromRequestURI jar_Context ''/jar'' jar_client (start_World (NewManager 1) 0)
      = jarFromRequestObject jar_Context ''h.YQ.s'' jar_client False (start_World (NewManager 1) 2)"
    unfolding jarFromRequestURI_def jarFromRequestURIWithNetworkControl_def
    by (simp add: p f w guardM_run Let_def maxJARResponseByteSize_def del: One_nat_def)
  with jar_accepted(2) show ?thesis by (metis prod.collapse)
qed



end
