(* ===== verification/StrictAdmission.thy ===== *)
theory StrictAdmission
  imports RequestObject HumanToken
begin

text \<open>
  The strict admission of human clients, \<^verbatim>\<open>internal/authorize/strict_admission.go\<close>: which clients, requests and sessions the
  profile admits, and what a callback may change of a session.

  The source isolates clients and sessions from callbacks by cloning them reflectively under a budget. A clone has the
  value of its original, so it is the value itself here, and \<open>al_CloneFails\<close> says when the budget is exceeded. A panic
  inside a predicate, which the source turns into a refusal, does not occur in the model.
\<close>

section \<open>Grammar\<close>

definition ApplicationTypeWeb :: string where [const_defs]: "ApplicationTypeWeb = ''web''"

definition humanConfidentialBFFClientIDPattern :: "string \<Rightarrow> bool" where
  "humanConfidentialBFFClientIDPattern = matches alnum humanAuthorizationUnreserved 0 127"

definition humanConfidentialBFFSessionIDPattern :: "string \<Rightarrow> bool" where
  "humanConfidentialBFFSessionIDPattern = matches alnum humanAuthorizationUnreserved 15 127"

definition humanConfidentialBFFPolicyIDPattern :: "string \<Rightarrow> bool" where
  "humanConfidentialBFFPolicyIDPattern = matches alnum humanAuthorizationUnreserved 0 127"

definition humanConfidentialBFFScopePattern :: "string \<Rightarrow> bool" where
  "humanConfidentialBFFScopePattern = matches lower_letter scope_char 0 127"

definition humanConfidentialBFFJWKKeyIDPattern :: "string \<Rightarrow> bool" where
  "humanConfidentialBFFJWKKeyIDPattern = matches word_char word_char 0 127"

definition humanConfidentialBFFKeyAuthorityIDPattern :: "string \<Rightarrow> bool" where
  "humanConfidentialBFFKeyAuthorityIDPattern = matches alnum humanAuthorizationUnreserved 0 127"

definition humanConfidentialBFFAssurancePattern :: "string \<Rightarrow> bool" where
  "humanConfidentialBFFAssurancePattern =
     matches alnum (\<lambda>c. alnum c \<or> c = CHR ''.'' \<or> c = CHR ''_'' \<or> c = CHR '':'' \<or> c = CHR ''/'' \<or> c = CHR ''-'') 0 127"

definition invalidHumanConfidentialBFFRequest :: "string \<Rightarrow> go_error" where
  "invalidHumanConfidentialBFFRequest reason = WrapError ErrorCodeInvalidRequest ''invalid request'' (ErrNew reason)"

definition strict_server_error :: "string \<Rightarrow> go_error" where
  "strict_server_error reason = WrapError ErrorCodeServerError ''server error'' (ErrNew reason)"

definition printable :: "string \<Rightarrow> bool" where
  "printable value = list_all (\<lambda>c. 0x21 \<le> byte c \<and> byte c \<le> 0x7E) value"

definition validHumanConfidentialBFFOpaqueParameter :: "string \<Rightarrow> bool" where
  "validHumanConfidentialBFFOpaqueParameter value \<longleftrightarrow> 16 \<le> length value \<and> length value \<le> 512 \<and> printable value"

definition validHumanConfidentialBFFSubject :: "string \<Rightarrow> bool" where
  "validHumanConfidentialBFFSubject value \<longleftrightarrow> value \<noteq> '''' \<and> length value \<le> 128 \<and> printable value"

text \<open>The loop over a sorted set, with the element before.\<close>

fun sorted_after :: "(string \<Rightarrow> bool) \<Rightarrow> string option \<Rightarrow> string list \<Rightarrow> bool" where
  "sorted_after validate previous [] = True"
| "sorted_after validate previous (value # rest) =
     (validate value \<and> (case previous of None \<Rightarrow> True | Some p \<Rightarrow> string_less p value) \<and> sorted_after validate (Some value) rest)"

definition validHumanConfidentialBFFSortedSet :: "string list \<Rightarrow> nat \<Rightarrow> nat \<Rightarrow> (string \<Rightarrow> bool) \<Rightarrow> bool" where
  "validHumanConfidentialBFFSortedSet values minimum maximum validate \<longleftrightarrow>
     minimum \<le> length values \<and> length values \<le> maximum \<and> sorted_after validate None values"

definition validHumanConfidentialBFFCanonicalSpaceSet :: "string \<Rightarrow> nat \<Rightarrow> nat \<Rightarrow> (string \<Rightarrow> bool) \<Rightarrow> bool" where
  "validHumanConfidentialBFFCanonicalSpaceSet value minimum maximum validate =
     (if value = '''' then minimum = 0
      else validHumanConfidentialBFFSortedSet (split_on CHR '' '' value) minimum maximum validate)"

text \<open>The merge of two sorted lists: the elements admitted before a candidate are skipped.\<close>

fun humanConfidentialBFFSortedSubset :: "string list \<Rightarrow> string list \<Rightarrow> bool" where
  "humanConfidentialBFFSortedSubset [] admitted = True"
| "humanConfidentialBFFSortedSubset (value # rest) admitted =
     (case dropWhile (\<lambda>a. string_less a value) admitted of
        [] \<Rightarrow> False
      | a # later \<Rightarrow> a = value \<and> humanConfidentialBFFSortedSubset rest later)"

text \<open>The conditions of \<^verbatim>\<open>validHumanAbsoluteHTTPSURI\<close> and \<^verbatim>\<open>validHumanBase64URL256\<close> in \<^verbatim>\<open>pkg/goidc\<close>, which the source repeats.\<close>

definition validHumanConfidentialBFFAbsoluteHTTPSURI :: "Lib \<Rightarrow> string \<Rightarrow> bool" where
  "validHumanConfidentialBFFAbsoluteHTTPSURI lib value = validHumanAbsoluteHTTPSURI lib value"

definition validHumanConfidentialBFFCodeChallenge :: "string \<Rightarrow> bool" where
  "validHumanConfidentialBFFCodeChallenge value = validHumanBase64URL256 value"

definition humanConfidentialBFFASCII :: "string \<Rightarrow> bool" where
  "humanConfidentialBFFASCII value = list_all (\<lambda>c. byte c \<le> 0x7F) value"

definition validHumanConfidentialBFFResources :: "Lib \<Rightarrow> string list \<Rightarrow> bool" where
  "validHumanConfidentialBFFResources lib values =
     validHumanConfidentialBFFSortedSet values 1 8 (validHumanConfidentialBFFAbsoluteHTTPSURI lib)"

definition maxHumanConfidentialBFFMaxAge :: int where
  "maxHumanConfidentialBFFMaxAge = 86400"

definition validHumanConfidentialBFFMaxAge :: "string \<Rightarrow> int option \<Rightarrow> bool" where
  "validHumanConfidentialBFFMaxAge raw parsed =
     (case parsed of None \<Rightarrow> False | Some v \<Rightarrow> 0 \<le> v \<and> v \<le> maxHumanConfidentialBFFMaxAge \<and> Itoa (nat v) = raw)"

definition humanConfidentialBFFPARParameter :: "string \<Rightarrow> bool" where
  "humanConfidentialBFFPARParameter name \<longleftrightarrow> name \<in> set
     [''client_id'', ''client_assertion'', ''client_assertion_type'', ''redirect_uri'', ''response_mode'', ''response_type'', ''scope'',
      ''state'', ''nonce'', ''code_challenge'', ''code_challenge_method'', ''prompt'', ''max_age'', ''acr_values'', ''resource'']"

text \<open>The scope set of a client or a request: sorted, and with \<^verbatim>\<open>openid\<close>. On a list of words, the substring test of the
  source is membership.\<close>

definition strict_scopes :: "string \<Rightarrow> bool" where
  "strict_scopes scopes \<longleftrightarrow>
     validHumanConfidentialBFFCanonicalSpaceSet scopes 1 32 humanConfidentialBFFScopePattern \<and>
     ScopeOpenID_ID \<in> set (split_on CHR '' '' scopes)"

section \<open>Clients\<close>

text \<open>\<^verbatim>\<open>strings.TrimSpace(value) == value\<close>.\<close>

definition trimmed :: "string \<Rightarrow> bool" where
  "trimmed value \<longleftrightarrow> space_rest value = None \<and> list_all (\<lambda>n. space_rest (drop n value) \<noteq> Some []) [0..<length value]"

definition validHumanConfidentialBFFClientName :: "string \<Rightarrow> bool" where
  "validHumanConfidentialBFFClientName value \<longleftrightarrow>
     value = '''' \<or> length value \<le> 128 \<and> utf8_ValidString value \<and> trimmed value \<and> CHR 0x00 \<notin> set value"

definition humanConfidentialBFFClientMetadataIsClosed :: "Client \<Rightarrow> bool" where
  "humanConfidentialBFFClientMetadataIsClosed c \<longleftrightarrow>
     c_Secret c = '''' \<and> c_SecretExpiresAt c = 0 \<and> c_RegistrationToken c = '''' \<and> c_CreatedAt c = 0 \<and> c_ExpiresAt c = 0 \<and>
     c_Federation c = None \<and> c_LogoURI c = '''' \<and> c_Contacts c = [] \<and> c_PolicyURI c = '''' \<and> c_TermsOfServiceURI c = '''' \<and>
     c_RequestURIs c = [] \<and> c_JWKSURI c = '''' \<and> c_JWKS c = None \<and> c_SignedJWKSURI c = '''' \<and> c_cachedJWKS c = None \<and>
     c_SectorIdentifierURI c = '''' \<and> c_IDTokenKeyEncAlg c = '''' \<and> c_IDTokenContentEncAlg c = '''' \<and> c_UserInfoSigAlg c = '''' \<and>
     c_UserInfoKeyEncAlg c = '''' \<and> c_UserInfoContentEncAlg c = '''' \<and> \<not> c_JARRequired c \<and> c_JARSigAlg c = '''' \<and>
     c_JARKeyEncAlg c = '''' \<and> c_JARContentEncAlg c = '''' \<and> c_JARMSigAlg c = '''' \<and> c_JARMKeyEncAlg c = '''' \<and>
     c_JARMContentEncAlg c = '''' \<and> c_TokenIntrospectionAuthnMethod c = '''' \<and> c_TokenIntrospectionAuthnSigAlg c = '''' \<and>
     c_TokenRevocationAuthnMethod c = '''' \<and> c_TokenRevocationAuthnSigAlg c = '''' \<and> \<not> c_DPoPTokenBindingRequired c \<and>
     c_TLSSubjectDistinguishedName c = '''' \<and> c_TLSSubjectAlternativeName c = '''' \<and> c_TLSSubjectAlternativeNameIP c = '''' \<and>
     \<not> c_TLSTokenBindingRequired c \<and> elems (c_AuthDetailTypes c) = [] \<and> c_DefaultMaxAgeSecs c = None \<and>
     c_DefaultACRValues c = '''' \<and> c_CIBATokenDeliveryMode c = '''' \<and> c_CIBANotificationEndpoint c = '''' \<and>
     c_CIBAJARSigAlg c = '''' \<and> \<not> c_CIBAUserCodeEnabled c \<and> c_PostLogoutRedirectURIs c = [] \<and>
     c_ClientRegistrationTypes c = [] \<and> c_OrganizationName c = '''' \<and> c_DisplayName c = '''' \<and> c_Description c = '''' \<and>
     c_Keywords c = [] \<and> c_InformationURI c = '''' \<and> c_OrganizationURI c = '''' \<and> c_CredentialOfferEndpoint c = '''' \<and>
     c_CustomAttributes c = None"

definition humanConfidentialBFFRedirectsShareHost :: "Lib \<Rightarrow> string list \<Rightarrow> bool" where
  "humanConfidentialBFFRedirectsShareHost lib redirects =
     (case redirects of
        [] \<Rightarrow> False
      | first # rest \<Rightarrow>
          (case l_url_Parse lib first of
             Inl _ \<Rightarrow> False
           | Inr f \<Rightarrow> list_all (\<lambda>redirect. case l_url_Parse lib redirect of
                Inl _ \<Rightarrow> False | Inr parsed \<Rightarrow> url_Hostname parsed = url_Hostname f) rest))"

text \<open>The conditions on one key of the authority snapshot.\<close>

definition strict_authority_key :: "Lib \<Rightarrow> PrivateKeyJWTAuthorityKey \<Rightarrow> bool" where
  "strict_authority_key lib authorityKey \<longleftrightarrow>
     (let key = pak_Key authorityKey in
      humanConfidentialBFFKeyAuthorityIDPattern (pak_KeyAuthorityID authorityKey) \<and>
      humanConfidentialBFFJWKKeyIDPattern (jwk_KeyID key) \<and> jwk_Algorithm key = SigAlgPS256 \<and>
      jwk_Use key = KeyUsageSignature \<and> l_Valid lib key \<and> l_IsPublic lib key \<and>
      (case jwk_Key key of
         Some (RSAPublic N e) \<Rightarrow> 2 ^ 2047 \<le> N \<and> N < 2 ^ 4096 \<and> odd N \<and> e = 65537
       | _ \<Rightarrow> False) \<and>
      jwk_Certificates key = [] \<and> jwk_CertificatesURL key = None \<and> jwk_CertificateThumbprintSHA1 key = '''' \<and>
      jwk_CertificateThumbprintSHA256 key = '''')"

text \<open>The loop over the keys, with the identifiers and thumbprints seen so far.\<close>

fun strict_authority_keys ::
  "Lib \<Rightarrow> string option \<Rightarrow> string list \<Rightarrow> string list \<Rightarrow> string list \<Rightarrow> PrivateKeyJWTAuthorityKey list \<Rightarrow> bool" where
  "strict_authority_keys lib previous kids aids tps [] = True"
| "strict_authority_keys lib previous kids aids tps (k # rest) =
     (let kid = jwk_KeyID (pak_Key k) in
      strict_authority_key lib k \<and> (case previous of None \<Rightarrow> True | Some p \<Rightarrow> string_less p kid) \<and>
      kid \<notin> set kids \<and> pak_KeyAuthorityID k \<notin> set aids \<and>
      (case l_Thumbprint lib (pak_Key k) of
         Inl _ \<Rightarrow> False
       | Inr tp \<Rightarrow> tp \<notin> set tps \<and>
           strict_authority_keys lib (Some kid) (kid # kids) (pak_KeyAuthorityID k # aids) (tp # tps) rest))"

definition validHumanConfidentialBFFPrivateKeyAuthority :: "Lib \<Rightarrow> PrivateKeyJWTAuthority option \<Rightarrow> bool" where
  "validHumanConfidentialBFFPrivateKeyAuthority lib authority =
     (case authority of
        None \<Rightarrow> False
      | Some a \<Rightarrow> 1 \<le> pka_SnapshotRevision a \<and> pka_Keys a \<noteq> [] \<and> length (pka_Keys a) \<le> 16 \<and>
          strict_authority_keys lib None [] [] [] (pka_Keys a))"

definition validHumanConfidentialBFFClient :: "Lib \<Rightarrow> Client \<Rightarrow> bool" where
  "validHumanConfidentialBFFClient lib c \<longleftrightarrow>
     humanConfidentialBFFClientIDPattern (c_ID c) \<and> validHumanConfidentialBFFClientName (c_Name c) \<and>
     c_ApplicationType c = ApplicationTypeWeb \<and> c_SubIdentifierType c = SubIdentifierPairwise \<and>
     c_IDTokenSigAlg c = SigAlgPS256 \<and> c_TokenAuthnMethod c = AuthnMethodPrivateKeyJWT \<and> c_TokenAuthnSigAlg c = SigAlgPS256 \<and>
     humanConfidentialBFFClientMetadataIsClosed c \<and> c_GrantTypes c = [GrantAuthorizationCode, GrantRefreshToken] \<and>
     c_ResponseTypes c = [ResponseTypeCode] \<and>
     validHumanConfidentialBFFSortedSet (c_RedirectURIs c) 1 16 (validHumanConfidentialBFFAbsoluteHTTPSURI lib) \<and>
     humanConfidentialBFFRedirectsShareHost lib (c_RedirectURIs c) \<and> strict_scopes (c_ScopeIDs c) \<and>
     validHumanConfidentialBFFPrivateKeyAuthority lib (c_PrivateKeyJWTAuthority c)"

subsection \<open>Isolation\<close>

definition cloneHumanConfidentialBFFClient :: "'st AuthorizeContext \<Rightarrow> Client \<Rightarrow> ('st, Client) M" where
  "cloneHumanConfidentialBFFClient ctx source =
     tryM (callM (al_CloneFails (ac_Lib ctx))) (\<lambda>fails.
     guardM fails (ErrNew ''invalid strict client authority clone'') (okM source))"

definition cloneHumanConfidentialBFFAuthenticationSession :: "'st AuthorizeContext \<Rightarrow> AuthnSession \<Rightarrow> ('st, AuthnSession) M" where
  "cloneHumanConfidentialBFFAuthenticationSession ctx source =
     tryM (callM (al_CloneFails (ac_Lib ctx))) (\<lambda>fails.
     guardM fails (ErrNew ''invalid strict authentication session clone'') (okM source))"

definition authorizationAdmissionClient :: "'st AuthorizeContext \<Rightarrow> Client \<Rightarrow> ('st, Client \<times> bool) M" where
  "authorizationAdmissionClient ctx c =
     (if c_AuthorizationRequestProfile c = AuthorizationRequestProfileDefault then okM (c, False)
      else if c_AuthorizationRequestProfile c = AuthorizationRequestProfileHumanConfidentialBFF then
        guardM (\<not> validHumanConfidentialBFFClient (cx_Lib (ac ctx)) c)
          (strict_server_error ''the human confidential-BFF client authority is misconfigured'') (
        tryM (mapErrM (\<lambda>_. strict_server_error ''the human confidential-BFF client authority could not be isolated'')
          (cloneHumanConfidentialBFFClient ctx c)) (\<lambda>clone. okM (clone, True)))
      else failM (strict_server_error ''the client has an unsupported authorization request profile''))"

definition isolatedHumanConfidentialBFFCallbackClient :: "'st AuthorizeContext \<Rightarrow> Client \<Rightarrow> ('st, Client) M" where
  "isolatedHumanConfidentialBFFCallbackClient ctx c =
     tryM (authorizationAdmissionClient ctx c) (\<lambda>(clone, strict).
     guardM (\<not> strict) (strict_server_error ''strict callback client lost its authorization request profile'') (okM clone))"


section \<open>Requests\<close>

definition completeHumanConfidentialBFFAuthorizationParameters :: "Lib \<Rightarrow> AuthorizationParameters \<Rightarrow> bool" where
  "completeHumanConfidentialBFFAuthorizationParameters lib p \<longleftrightarrow>
     validHumanConfidentialBFFAbsoluteHTTPSURI lib (ap_RedirectURI p) \<and> ap_RequestURI p = '''' \<and> ap_RequestObject p = '''' \<and>
     ap_Display p = '''' \<and> ap_Claims p = None \<and> ap_AuthDetails p = None \<and> ap_DPoPJKT p = '''' \<and> ap_LoginHint p = '''' \<and>
     ap_LoginHintToken p = '''' \<and> ap_IDTokenHint p = '''' \<and> ap_ClientNotificationToken p = '''' \<and> ap_BindingMessage p = '''' \<and>
     ap_UserCode p = '''' \<and> ap_RequestedExpiry p = None \<and> ap_IssuerState p = '''' \<and> ap_ResponseType p = ResponseTypeCode \<and>
     ap_ResponseMode p = ResponseModeQuery \<and> validHumanConfidentialBFFOpaqueParameter (ap_State p) \<and>
     validHumanConfidentialBFFOpaqueParameter (ap_Nonce p) \<and> ap_CodeChallengeMethod p = CodeChallengeMethodSHA256 \<and>
     validHumanConfidentialBFFCodeChallenge (ap_CodeChallenge p) \<and> strict_scopes (ap_Scopes p) \<and>
     validHumanConfidentialBFFCanonicalSpaceSet (ap_ACRValues p) 0 1 humanConfidentialBFFAssurancePattern \<and>
     validHumanConfidentialBFFResources lib (elems (ap_Resources p)) \<and>
     (ap_Prompt p = '''' \<or> ap_Prompt p = PromptTypeLogin \<or> ap_Prompt p = PromptTypeNone) \<and>
     (case ap_MaxAuthnAgeSecs p of None \<Rightarrow> True | Some v \<Rightarrow> 0 \<le> v \<and> v \<le> maxHumanConfidentialBFFMaxAge)"

definition form_transport :: "'st AuthorizeContext \<Rightarrow> bool" where
  "form_transport ctx \<longleftrightarrow>
     rq_RawQuery (cx_Request (ac ctx)) = '''' \<and> MediaType (ac ctx) = ''application/x-www-form-urlencoded'' \<and>
     length (rq_Header (cx_Request (ac ctx)) ''Content-Type'') = 1"

text \<open>The parameters of the outer request, each with exactly one value. The map of the source has every name once.\<close>

definition exact_outer_parameters :: "requestAdmissionTransport \<Rightarrow> request \<Rightarrow> bool" where
  "exact_outer_parameters t req \<longleftrightarrow>
     length (rat_parameters t) = 2 \<and> map_of (rat_parameters t) ''client_id'' = Some [ar_ClientID req] \<and>
     map_of (rat_parameters t) ''request_uri'' = Some [ap_RequestURI (ar_Params req)]"

definition strings_TrimPrefix :: "string \<Rightarrow> string \<Rightarrow> string" where
  "strings_TrimPrefix s p = (if strings_HasPrefix s p then drop (length p) s else s)"

definition validateHumanConfidentialBFFOuterRequest :: "'st AuthorizeContext \<Rightarrow> request \<Rightarrow> go_error option" where
  "validateHumanConfidentialBFFOuterRequest ctx req =
     (let r = cx_Request (ac ctx); t = ac_Transport ctx; bad = (\<lambda>m. Some (invalidHumanConfidentialBFFRequest m));
          uri = ap_RequestURI (ar_Params req) in
      if \<not> az_PAREnabled (ac_conf ctx) then bad ''pushed authorization requests are unavailable''
      else if rq_Method r = ''GET'' \<and> (rt_ContentLength t \<noteq> 0 \<or> rt_TransferEncoding t \<noteq> [])
      then bad ''GET authorization requests must use the query transport only''
      else if rq_Method r = ''POST'' \<and> \<not> form_transport ctx then bad ''POST authorization requests must use one form transport only''
      else if rq_Method r \<noteq> ''GET'' \<and> rq_Method r \<noteq> ''POST'' then bad ''authorization request method is unsupported''
      else case ar_AdmissionTransport req of
        None \<Rightarrow> bad ''the authorization request transport could not be parsed exactly''
      | Some transport \<Rightarrow>
          if rat_parseErr transport \<noteq> None then bad ''the authorization request transport could not be parsed exactly''
          else if \<not> exact_outer_parameters transport req
          then bad ''the outer authorization request must contain exactly one client_id and one request_uri''
          else if \<not> strings_HasPrefix uri parRequestURIPrefix \<or>
            \<not> humanConfidentialBFFSessionIDPattern (strings_TrimPrefix uri parRequestURIPrefix)
          then bad ''request_uri must identify a pushed authorization request''
          else None)"

primrec check_pushed_parameters :: "Lib \<Rightarrow> (string \<times> string list) list \<Rightarrow> go_error option" where
  "check_pushed_parameters lib [] = None"
| "check_pushed_parameters lib (p # rest) =
     (let (name, values) = p in
      if \<not> humanConfidentialBFFPARParameter name
      then Some (invalidHumanConfidentialBFFRequest ''the pushed authorization request form is not within the closed parameter surface'')
      else if name = ''resource'' then
        (if \<not> validHumanConfidentialBFFResources lib values
         then Some (invalidHumanConfidentialBFFRequest ''the pushed authorization request resource parameters are invalid'')
         else check_pushed_parameters lib rest)
      else if length values \<noteq> 1
      then Some (invalidHumanConfidentialBFFRequest ''the pushed authorization request contains a duplicate parameter'')
      else check_pushed_parameters lib rest)"

definition validateHumanConfidentialBFFPushedRequest :: "'st AuthorizeContext \<Rightarrow> request \<Rightarrow> go_error option" where
  "validateHumanConfidentialBFFPushedRequest ctx req =
     (let r = cx_Request (ac ctx); lib = cx_Lib (ac ctx); bad = (\<lambda>m. Some (invalidHumanConfidentialBFFRequest m));
          invalid = bad ''the pushed authorization request form is invalid'' in
      if \<not> az_PAREnabled (ac_conf ctx) then bad ''pushed authorization requests are unavailable''
      else if ap_RequestObject (ar_Params req) \<noteq> '''' then bad ''request objects are not admitted during pushed authorization''
      else if rq_Method r \<noteq> ''POST'' \<or> \<not> form_transport ctx then bad ''pushed authorization requests must use one form body transport''
      else if list_ex (\<lambda>h. rq_Header r h \<noteq> []) [''Authorization'', ''DPoP'', headerAttestion, headerAttestionPoP]
      then bad ''alternate client authentication headers are not admitted''
      else case ar_AdmissionTransport req of
        None \<Rightarrow> invalid
      | Some transport \<Rightarrow>
          if rat_parseErr transport \<noteq> None \<or> rat_parameters transport = [] then invalid
          else case check_pushed_parameters lib (rat_parameters transport) of
            Some e \<Rightarrow> Some e
          | None \<Rightarrow>
              if \<not> completeHumanConfidentialBFFAuthorizationParameters lib (ar_Params req)
              then bad ''the pushed authorization request is not a complete human authorization request''
              else (case map_of (rat_parameters transport) ''max_age'' of
                 None \<Rightarrow> None
               | Some raw \<Rightarrow>
                   if \<not> validHumanConfidentialBFFMaxAge (hd raw) (ap_MaxAuthnAgeSecs (ar_Params req))
                   then bad ''the pushed authorization request max_age is invalid'' else None))"

section \<open>Sessions\<close>

datatype humanConfidentialBFFSessionPhase = humanConfidentialBFFSessionPhasePushedRequest | humanConfidentialBFFSessionPhaseContinuation

text \<open>The conditions of \<^verbatim>\<open>humanConfidentialBFFSessionMatchesPhase\<close> before and after it looks at the clock.\<close>

definition phase_identifiers :: "AuthnSession \<Rightarrow> bool" where
  "phase_identifiers s \<longleftrightarrow>
     humanConfidentialBFFSessionIDPattern (as_ID s) \<and> humanConfidentialBFFSessionIDPattern (as_PersistenceID s) \<and>
     humanConfidentialBFFSessionIDPattern (as_PushedAuthReqID s) \<and> as_ID s \<noteq> as_PersistenceID s \<and>
     as_ID s \<noteq> as_PushedAuthReqID s \<and> as_PersistenceID s \<noteq> as_PushedAuthReqID s \<and> 1 \<le> as_CreatedAt s \<and>
     as_CreatedAt s < as_ExpiresAt s"

definition phase_no_outputs :: "AuthnSession \<Rightarrow> bool" where
  "phase_no_outputs s \<longleftrightarrow>
     as_Subject s = '''' \<and> as_Username s = '''' \<and> as_GrantedScopes s = '''' \<and> as_GrantedAuthDetails s = None \<and>
     as_GrantedResources s = None"

definition humanConfidentialBFFSessionMatchesPhase ::
  "'st AuthorizeContext \<Rightarrow> AuthnSession \<Rightarrow> humanConfidentialBFFSessionPhase \<Rightarrow> ('st, bool) M" where
  "humanConfidentialBFFSessionMatchesPhase ctx s phase =
     (if \<not> phase_identifiers s then okM False
      else tryM (TimestampNow (ac ctx)) (\<lambda>now1.
        if as_CreatedAt s > now1 then okM False
        else tryM (TimestampNow (ac ctx)) (\<lambda>now2.
          if now2 \<ge> as_ExpiresAt s \<or> \<not> phase_no_outputs s then okM False
          else case phase of
            humanConfidentialBFFSessionPhasePushedRequest \<Rightarrow>
              okM (as_PolicyID s = '''' \<and> as_Store s = [] \<and> az_PARLifetimeSecs (ac_conf ctx) > 0 \<and>
                as_ExpiresAt s - as_CreatedAt s = az_PARLifetimeSecs (ac_conf ctx))
          | humanConfidentialBFFSessionPhaseContinuation \<Rightarrow>
              if \<not> humanConfidentialBFFPolicyIDPattern (as_PolicyID s) \<or> az_AuthTimeoutSecs (ac_conf ctx) \<le> 0 then okM False
              else tryM (TimestampNow (ac ctx)) (\<lambda>now3.
                okM (as_ExpiresAt s \<le> now3 + az_AuthTimeoutSecs (ac_conf ctx))))))"

definition authority_has_key :: "Client \<Rightarrow> string \<Rightarrow> bool" where
  "authority_has_key c keyID =
     (case c_PrivateKeyJWTAuthority c of None \<Rightarrow> False | Some a \<Rightarrow> list_ex (\<lambda>k. pak_KeyAuthorityID k = keyID) (pka_Keys a))"

definition authority_revision_is :: "Client \<Rightarrow> int \<Rightarrow> bool" where
  "authority_revision_is c revision =
     (case c_PrivateKeyJWTAuthority c of None \<Rightarrow> False | Some a \<Rightarrow> pka_SnapshotRevision a = revision)"

definition humanConfidentialBFFSessionMatchesCurrentClient :: "AuthnSession \<Rightarrow> Client \<Rightarrow> bool" where
  "humanConfidentialBFFSessionMatchesCurrentClient s c \<longleftrightarrow>
     as_Status s = StatusPending \<and> as_PushedAuthReqID s \<noteq> '''' \<and> as_AuthReqID s = '''' \<and> as_DeviceCode s = '''' \<and>
     as_UserCode s = '''' \<and> as_JWKThumbprint s = '''' \<and> as_ClientCertThumbprint s = '''' \<and> as_IDTokenHintClaims s = None \<and>
     as_VCInfo s = None \<and> as_GrantedAuthDetails s = None \<and> as_ClientID s = c_ID c \<and>
     ap_RedirectURI (as_AuthorizationParameters s) \<in> set (c_RedirectURIs c) \<and>
     humanConfidentialBFFSortedSubset (split_on CHR '' '' (ap_Scopes (as_AuthorizationParameters s))) (split_on CHR '' '' (c_ScopeIDs c)) \<and>
     (case as_ClientAssertionAuthority s of
        None \<Rightarrow> False
      | Some v \<Rightarrow> authority_revision_is c (vca_SnapshotRevision v) \<and> authority_has_key c (vca_KeyAuthorityID v))"

text \<open>The part on the server's configuration that sessions and pushed requests share.\<close>

definition strict_server :: "'st AuthorizeContext \<Rightarrow> bool" where
  "strict_server ctx \<longleftrightarrow>
     (let cf = cx (ac ctx) in
      az_PAREnabled (ac_conf ctx) \<and> cf_PKCEEnabled cf \<and> CodeChallengeMethodSHA256 \<in> set (az_PKCEChallengeMethods (ac_conf ctx)) \<and>
      GrantAuthorizationCode \<in> set (cf_GrantTypes cf) \<and> GrantRefreshToken \<in> set (cf_GrantTypes cf) \<and>
      ResponseTypeCode \<in> set (cf_ResponseTypes cf) \<and> ResponseModeQuery \<in> set (cf_ResponseModes cf) \<and>
      SubIdentifierPairwise \<in> set (cf_SubIdentifierTypes cf) \<and> SigAlgPS256 \<in> set (cf_IDTokenSigAlgs cf) \<and>
      AuthnMethodPrivateKeyJWT \<in> set (cf_AuthnMethods cf) \<and> SigAlgPS256 \<in> set (cf_AuthnMethodPrivateKeyJWTSigAlgs cf))"

text \<open>The parameters are within what the server offers.\<close>

definition strict_parameters_offered :: "'st AuthorizeContext \<Rightarrow> AuthorizationParameters \<Rightarrow> bool" where
  "strict_parameters_offered ctx p \<longleftrightarrow>
     list_all (\<lambda>scopeID. case Scope_of (ac ctx) scopeID of None \<Rightarrow> False | Some scope \<Rightarrow> sc_ID scope = scopeID) (strings_Fields (ap_Scopes p)) \<and>
     (ap_ACRValues p = '''' \<or> ap_ACRValues p \<in> set (cf_ACRs (cx (ac ctx)))) \<and> elems (ap_Resources p) \<noteq> [] \<and>
     cf_ResourceIndicatorsEnabled (cx (ac ctx)) \<and>
     list_all (\<lambda>resource. resource \<in> set (cf_ResourceIndicators (cx (ac ctx)))) (elems (ap_Resources p))"

text \<open>The pairwise subject function is always set in the model.\<close>

definition humanConfidentialBFFSessionMatchesCurrentServer :: "'st AuthorizeContext \<Rightarrow> AuthnSession \<Rightarrow> bool" where
  "humanConfidentialBFFSessionMatchesCurrentServer ctx s \<longleftrightarrow>
     strict_server ctx \<and> strict_parameters_offered ctx (as_AuthorizationParameters s)"

definition validateAuthorizationProfileBinding ::
  "'st AuthorizeContext \<Rightarrow> AuthnSession \<Rightarrow> Client \<Rightarrow> humanConfidentialBFFSessionPhase \<Rightarrow> ('st, unit) M" where
  "validateAuthorizationProfileBinding ctx session c phase =
     guardM (as_AuthorizationRequestProfile session \<noteq> c_AuthorizationRequestProfile c)
       (strict_server_error ''the authorization session admission profile no longer matches client authority'') (
     if c_AuthorizationRequestProfile c \<noteq> AuthorizationRequestProfileHumanConfidentialBFF then okM ()
     else
       guardM (\<not> completeHumanConfidentialBFFAuthorizationParameters (cx_Lib (ac ctx)) (as_AuthorizationParameters session))
         (strict_server_error ''the strict authorization parameters are outside the admitted profile'') (
       tryM (humanConfidentialBFFSessionMatchesPhase ctx session phase) (\<lambda>inPhase.
       guardM (\<not> inPhase) (strict_server_error ''the strict authorization session is outside its admitted lifecycle phase'') (
       guardM (\<not> humanConfidentialBFFSessionMatchesCurrentClient session c)
         (strict_server_error ''the strict authorization session no longer matches current client authority'') (
       guardM (\<not> humanConfidentialBFFSessionMatchesCurrentServer ctx session)
         (strict_server_error ''the strict authorization session no longer matches current server authority'') (okM ()))))))"

definition validateAuthorizationRequestProfileBinding :: "'st AuthorizeContext \<Rightarrow> AuthnSession \<Rightarrow> Client \<Rightarrow> ('st, unit) M" where
  "validateAuthorizationRequestProfileBinding ctx session c =
     validateAuthorizationProfileBinding ctx session c humanConfidentialBFFSessionPhasePushedRequest"

definition validateAuthorizationContinuationProfileBinding :: "'st AuthorizeContext \<Rightarrow> AuthnSession \<Rightarrow> Client \<Rightarrow> ('st, unit) M" where
  "validateAuthorizationContinuationProfileBinding ctx session c =
     validateAuthorizationProfileBinding ctx session c humanConfidentialBFFSessionPhaseContinuation"

section \<open>Pushed requests, the start, and callbacks\<close>

definition humanConfidentialBFFAtomicPARMatchesCurrentAuthority ::
  "'st AuthorizeContext \<Rightarrow> AuthorizationParameters \<Rightarrow> Client \<Rightarrow> VerifiedClientAssertionAuthority option \<Rightarrow> bool" where
  "humanConfidentialBFFAtomicPARMatchesCurrentAuthority ctx p c clientAssertionAuthority \<longleftrightarrow>
     cf_HumanConfidentialBFFAuthorizationEnabled (cx (ac ctx)) \<and> cf_HumanAuthorizationAuthority (cx (ac ctx)) \<noteq> None \<and>
     c_AuthorizationRequestProfile c = AuthorizationRequestProfileHumanConfidentialBFF \<and>
     (case clientAssertionAuthority of
        None \<Rightarrow> False
      | Some v \<Rightarrow> authority_revision_is c (vca_SnapshotRevision v) \<and> authority_has_key c (vca_KeyAuthorityID v)) \<and>
     completeHumanConfidentialBFFAuthorizationParameters (cx_Lib (ac ctx)) p \<and> ap_RedirectURI p \<in> set (c_RedirectURIs c) \<and>
     humanConfidentialBFFSortedSubset (split_on CHR '' '' (ap_Scopes p)) (split_on CHR '' '' (c_ScopeIDs c)) \<and>
     0 < az_PARLifetimeSecs (ac_conf ctx) \<and> az_PARLifetimeSecs (ac_conf ctx) < 600 \<and> strict_server ctx \<and>
     strict_parameters_offered ctx p"

definition cookie_name_chars :: "string \<Rightarrow> bool" where
  "cookie_name_chars name =
     list_all (\<lambda>c. 0x20 < byte c \<and> byte c < 0x7F \<and>
        c \<notin> set (map char_of [0x28, 0x29, 0x3C, 0x3E, 0x40, 0x2C, 0x3B, 0x3A, 0x22, 0x2F, 0x5B, 0x5D, 0x3F, 0x3D, 0x7B, 0x7D, 0x5C :: nat])) name"

definition validHumanConfidentialBFFStartConfiguration :: "'st AuthorizeContext \<Rightarrow> bool" where
  "validHumanConfidentialBFFStartConfiguration ctx \<longleftrightarrow>
     cf_HumanConfidentialBFFAuthorizationEnabled (cx (ac ctx)) \<and> cf_HumanAuthorizationAuthority (cx (ac ctx)) \<noteq> None \<and>
     cx_Response (ac ctx) \<and> HumanAuthorizationClockSkewSeconds (cf_JWTLeewayTimeSecs (cx (ac ctx))) \<noteq> None \<and>
     (case l_url_ParseRequestURI (cx_Lib (ac ctx)) (az_HumanIdentityInteractionEndpoint (ac_conf ctx)) of
        Inl _ \<Rightarrow> False
      | Inr endpoint \<Rightarrow>
          u_Scheme endpoint = ''https'' \<and> u_Host endpoint \<noteq> '''' \<and> u_User endpoint = None \<and> u_Fragment endpoint = '''' \<and>
          u_RawFragment endpoint = '''' \<and> u_RawQuery endpoint = '''' \<and> \<not> u_ForceQuery endpoint \<and> u_Opaque endpoint = '''' \<and>
          u_RawPath endpoint = '''' \<and> u_Path endpoint \<noteq> '''' \<and> url_Port endpoint = '''' \<and>
          u_Host endpoint = strings_ToLower (u_Host endpoint) \<and>
          l_url_String (cx_Lib (ac ctx)) endpoint = az_HumanIdentityInteractionEndpoint (ac_conf ctx)) \<and>
     (let name = az_HumanBrowserBindingCookieName (ac_conf ctx) in
      strings_HasPrefix name ''__Host-'' \<and> length name \<le> 128 \<and> cookie_name_chars name)"

definition validHumanConfidentialBFFAuthenticationOutputs :: "Lib \<Rightarrow> AuthnSession \<Rightarrow> AuthnSession \<Rightarrow> Status \<Rightarrow> bool" where
  "validHumanConfidentialBFFAuthenticationOutputs lib target callback status \<longleftrightarrow>
     as_Username callback = '''' \<and> as_GrantedAuthDetails callback = None \<and>
     (if status \<noteq> StatusSuccess
      then as_Subject callback = '''' \<and> as_GrantedScopes callback = '''' \<and> as_GrantedResources callback = None
      else validHumanConfidentialBFFSubject (as_Subject callback) \<and> as_GrantedScopes callback \<noteq> '''' \<and>
        strict_scopes (as_GrantedScopes callback) \<and>
        humanConfidentialBFFSortedSubset (split_on CHR '' '' (as_GrantedScopes callback))
          (split_on CHR '' '' (ap_Scopes (as_AuthorizationParameters target))) \<and>
        (elems (as_GrantedResources callback) = [] \<or>
          validHumanConfidentialBFFResources lib (elems (as_GrantedResources callback)) \<and>
          humanConfidentialBFFSortedSubset (elems (as_GrantedResources callback)) (elems (ap_Resources (as_AuthorizationParameters target)))))"

text \<open>\<^verbatim>\<open>applyHumanConfidentialBFFAuthenticationOutputs\<close>: the assignment to the target that a successful call makes.\<close>

definition strict_outputs :: "AuthnSession \<Rightarrow> AuthnSession \<Rightarrow> AuthnSession" where
  "strict_outputs detached target = target\<lparr>as_Subject := as_Subject detached, as_Username := as_Username detached,
     as_GrantedScopes := as_GrantedScopes detached, as_GrantedAuthDetails := as_GrantedAuthDetails detached,
     as_GrantedResources := as_GrantedResources detached, as_Store := as_Store detached\<rparr>"

definition applyHumanConfidentialBFFAuthenticationOutputs ::
  "'st AuthorizeContext \<Rightarrow> AuthnSession \<Rightarrow> Status \<Rightarrow> ('st, unit) A" where
  "applyHumanConfidentialBFFAuthenticationOutputs ctx callbackSession status =
     tryM (baseM (cloneHumanConfidentialBFFAuthenticationSession ctx callbackSession)) (\<lambda>detached.
     tryM (getM aw_session) (\<lambda>target.
     guardM (\<not> validHumanConfidentialBFFAuthenticationOutputs (cx_Lib (ac ctx)) target detached status)
       (PlainError (ErrNew ''the strict authentication callback returned unauthorized grant outputs'')) (
     assignSession ctx (strict_outputs detached))))"

definition validHumanConfidentialBFFPairwiseSubject :: "'st AuthorizeContext \<Rightarrow> AuthnSession \<Rightarrow> Client \<Rightarrow> ('st, bool) M" where
  "validHumanConfidentialBFFPairwiseSubject ctx session c =
     (if \<not> validHumanConfidentialBFFSubject (as_Subject session) then okM False
      else runM (cloneHumanConfidentialBFFClient ctx c) (\<lambda>r1. case r1 of
        Inl _ \<Rightarrow> okM False
      | Inr firstClient \<Rightarrow>
          runM (cloneHumanConfidentialBFFClient ctx c) (\<lambda>r2. case r2 of
            Inl _ \<Rightarrow> okM False
          | Inr secondClient \<Rightarrow>
              tryM (callM (\<lambda>n. cf_PairwiseSubjectFunc (cx (ac ctx)) n (as_Subject session) firstClient)) (\<lambda>first.
              tryM (callM (\<lambda>n. cf_PairwiseSubjectFunc (cx (ac ctx)) n (as_Subject session) secondClient)) (\<lambda>second.
              okM (first \<noteq> as_Subject session \<and> first = second \<and> validHumanConfidentialBFFSubject first))))))"


section \<open>Sorted sets\<close>

lemma string_less_irrefl [simp]: "\<not> string_less s s"
  by (induction s) auto

lemma string_less_trans: "string_less a b \<Longrightarrow> string_less b c \<Longrightarrow> string_less a c"
proof (induction a b arbitrary: c rule: string_less.induct)
  case (2 y ys)
  then show ?case by (cases c) auto
next
  case (3 x xs y ys)
  then show ?case by (cases c) (auto dest: less_trans)
qed simp

lemma string_less_total: "string_less a b \<or> a = b \<or> string_less b a"
proof (induction a b rule: string_less.induct)
  case (1 s)
  then show ?case by (cases s) auto
next
  case (3 x xs y ys)
  then show ?case using nat_neq_iff [of "byte x" "byte y"] by auto
qed auto

text \<open>The loop accepts exactly the strictly increasing lists of valid elements.\<close>

lemma sorted_after_iff:
  "sorted_after validate previous xs \<longleftrightarrow>
     list_all validate xs \<and> sorted_wrt string_less ((case previous of None \<Rightarrow> [] | Some p \<Rightarrow> [p]) @ xs)"
proof (induction xs arbitrary: previous)
  case (Cons x xs)
  have "string_less p y" if "string_less p x" "string_less x y" for p y using string_less_trans [OF that] .
  then show ?case by (cases previous) (auto simp: Cons.IH)
qed (auto split: option.splits)

lemma sorted_set_iff:
  "validHumanConfidentialBFFSortedSet xs lo hi validate \<longleftrightarrow>
     lo \<le> length xs \<and> length xs \<le> hi \<and> list_all validate xs \<and> sorted_wrt string_less xs"
  by (simp add: validHumanConfidentialBFFSortedSet_def sorted_after_iff)

lemma strict_scopes_ok: "strict_scopes s \<Longrightarrow> sorted_wrt string_less (split_on CHR '' '' s)"
  by (auto simp: strict_scopes_def validHumanConfidentialBFFCanonicalSpaceSet_def sorted_set_iff split: if_splits)

lemma sorted_subset_iff:
  "sorted_wrt string_less admitted \<Longrightarrow>
     humanConfidentialBFFSortedSubset candidate admitted \<longleftrightarrow> sorted_wrt string_less candidate \<and> set candidate \<subseteq> set admitted"
proof (induction candidate arbitrary: admitted)
  case (Cons v rest)
  define before later where "before = takeWhile (\<lambda>a. string_less a v) admitted" and "later = dropWhile (\<lambda>a. string_less a v) admitted"
  have split: "admitted = before @ later" by (simp add: before_def later_def)
  have before: "string_less a v" if "a \<in> set before" for a using that set_takeWhileD unfolding before_def by fastforce
  have v: "v \<notin> set before" using before by fastforce
  show ?case
  proof (cases later)
    case Nil
    then have "dropWhile (\<lambda>a. string_less a v) admitted = []" by (simp add: later_def)
    moreover have "v \<notin> set admitted" using v split Nil by simp
    ultimately show ?thesis by (simp only: humanConfidentialBFFSortedSubset.simps list.case) simp
  next
    case (Cons a tail)
    then have a: "\<not> string_less a v" using hd_dropWhile [of "\<lambda>a. string_less a v" admitted] by (simp flip: later_def)
    have s: "sorted_wrt string_less tail" "\<forall>x \<in> set tail. string_less a x"
      using Cons.prems unfolding split Cons by (auto simp: sorted_wrt_append)
    have run: "humanConfidentialBFFSortedSubset (v # rest) admitted \<longleftrightarrow> a = v \<and> humanConfidentialBFFSortedSubset rest tail"
      by (simp add: Cons flip: later_def)
    have "a = v \<and> sorted_wrt string_less rest \<and> set rest \<subseteq> set tail \<longleftrightarrow>
        (\<forall>y\<in>set rest. string_less v y) \<and> sorted_wrt string_less rest \<and> v \<in> set admitted \<and> set rest \<subseteq> set admitted"
    proof (intro iffI conjI; (elim conjE)?)
      assume "\<forall>y\<in>set rest. string_less v y" "v \<in> set admitted" "set rest \<subseteq> set admitted"
      then have "v \<in> set (a # tail)" using v split Cons by auto
      then show "a = v" using s(2) a by auto
      have "y \<in> set tail" if "y \<in> set rest" for y
      proof -
        have "string_less v y" "y \<in> set admitted" using that \<open>\<forall>y\<in>set rest. string_less v y\<close> \<open>set rest \<subseteq> set admitted\<close> by auto
        moreover have "y \<notin> set before" using before string_less_trans calculation(1) string_less_irrefl by blast
        ultimately show ?thesis using split Cons \<open>a = v\<close> by auto
      qed
      then show "set rest \<subseteq> set tail" by blast
    qed (use s split Cons in auto)
    with run Cons.IH [OF s(1)] show ?thesis by auto
  qed
qed simp

text \<open>The merge that compares two sorted lists decides inclusion: against a strictly increasing list of admitted values it accepts
  exactly the strictly increasing lists whose elements are all admitted, so no value outside the admitted set passes and
  no canonical subset is refused.\<close>

theorem sorted_subset_exact:
  assumes "sorted_wrt string_less admitted"
  shows "humanConfidentialBFFSortedSubset candidate admitted \<longleftrightarrow> sorted_wrt string_less candidate \<and> set candidate \<subseteq> set admitted"
  using assms by (rule sorted_subset_iff)

theorem sorted_subset_exact_witness:
  "sorted_wrt string_less [''email'', ''openid'', ''profile''] \<and>
   humanConfidentialBFFSortedSubset [''email'', ''profile''] [''email'', ''openid'', ''profile''] \<and>
   \<not> humanConfidentialBFFSortedSubset [''email'', ''phone''] [''email'', ''openid'', ''profile'']"
proof -
  have s: "sorted_wrt string_less [''email'', ''openid'', ''profile'']" "sorted_wrt string_less [''email'', ''profile'']" by code_simp+
  show ?thesis using s sorted_subset_exact [OF s(1)] by simp
qed

end
