(* ===== verification/AuthorizeFlow.thy ===== *)
theory AuthorizeFlow
  imports StrictAdmission
begin

text \<open>
  The authorization endpoint, \<^verbatim>\<open>internal/authorize/authorize.go\<close> and the handlers \<^verbatim>\<open>handler\<close> and \<^verbatim>\<open>handlerCallback\<close> of
  \<^verbatim>\<open>internal/authorize/api.go\<close>: how a request becomes an authentication session, how a policy authenticates the user, and how
  the result is turned into a grant and a response.

  Callbacks receive pointers to the session and the client and may change both, so these programs hand the client on as the
  callbacks left it. An error that the endpoint redirects is returned as a value where the client may have changed before; the
  other errors never reach the browser as a redirect.
\<close>

section \<open>Authentication\<close>

text \<open>\<^verbatim>\<open>ctx.Policy\<close>: an unknown identifier fails with \<^verbatim>\<open>ErrNotFound\<close>.\<close>

definition Policy :: "AuthnPolicy list \<Rightarrow> string \<Rightarrow> AuthnPolicy" where
  "Policy policies i =
     (case find (\<lambda>p. po_ID p = i) policies of
        Some p \<Rightarrow> p
      | None \<Rightarrow> \<lparr>po_ID = '''', po_Setup = (\<lambda>n as c. (False, as, c)),
                 po_Authenticate = (\<lambda>n as c. ((StatusFailure, Some ErrNotFound), as, c))\<rparr>)"

definition clearHumanConfidentialBFFAuthenticationOutputs :: "AuthnSession \<Rightarrow> AuthnSession" where
  "clearHumanConfidentialBFFAuthenticationOutputs session = session\<lparr>as_Subject := '''', as_Username := '''', as_GrantedScopes := '''',
     as_GrantedAuthDetails := None, as_GrantedResources := None, as_Store := []\<rparr>"

text \<open>The session is marked and saved.\<close>

definition saveAs :: "'st AuthorizeContext \<Rightarrow> Status \<Rightarrow> string \<Rightarrow> ('st, unit) A" where
  "saveAs ctx status message =
     tryM (assignSession ctx (\<lambda>as. as\<lparr>as_Status := status\<rparr>)) (\<lambda>_. mapErrM (wrapPlain message) (AuthSaveSession ctx))"

definition failHumanConfidentialBFFAuthentication :: "'st AuthorizeContext \<Rightarrow> go_error \<Rightarrow> ('st, 'a) A" where
  "failHumanConfidentialBFFAuthentication ctx cause =
     tryM (assignSession ctx clearHumanConfidentialBFFAuthenticationOutputs) (\<lambda>_.
     tryM (saveAs ctx StatusFailure ''could not terminalize the rejected strict authentication session'') (\<lambda>_.
     failM (PlainError (WrapError ErrorCodeServerError ''server error'' cause))))"

text \<open>The callback of the policy on the session and the client themselves, or, for a strict client, on isolated copies whose
  outputs are admitted one by one. The result is the status, the error and the client.\<close>

definition legacy_callback :: "'st AuthorizeContext \<Rightarrow> AuthnPolicy \<Rightarrow> Client \<Rightarrow> ('st, (Status \<times> go_error option) \<times> Client) A" where
  "legacy_callback ctx policy c =
     tryM (sessionCall ctx (po_Authenticate policy) c) (\<lambda>((status, authErr), c').
     okM ((if authErr \<noteq> None then StatusFailure else status, authErr), c'))"

definition strict_callback :: "'st AuthorizeContext \<Rightarrow> AuthnPolicy \<Rightarrow> Client \<Rightarrow> ('st, (Status \<times> go_error option) \<times> Client) A" where
  "strict_callback ctx policy c =
     tryM (getM aw_session) (\<lambda>as.
     tryM (baseM (mapErrM (WrapError ErrorCodeServerError ''server error'') (cloneHumanConfidentialBFFAuthenticationSession ctx as))) (\<lambda>callbackSession.
     tryM (baseM (isolatedHumanConfidentialBFFCallbackClient ctx c)) (\<lambda>callbackClient.
     tryM (baseM (callM (\<lambda>n. po_Authenticate policy n callbackSession callbackClient))) (\<lambda>((status0, authErr), callbackSession', _).
     let status = (if authErr \<noteq> None then StatusFailure else status0) in
     tryM (if authErr \<noteq> None then assignSession ctx clearHumanConfidentialBFFAuthenticationOutputs
           else runM (applyHumanConfidentialBFFAuthenticationOutputs ctx callbackSession' status) (\<lambda>r. case r of
              Inl e \<Rightarrow> failHumanConfidentialBFFAuthentication ctx (base_error e)
            | Inr _ \<Rightarrow> okM ())) (\<lambda>_.
     tryM (getM aw_session) (\<lambda>as'.
     tryM (if status = StatusSuccess
           then (if \<not> humanConfidentialBFFSessionMatchesCurrentServer ctx as' then okM False
                 else baseM (validHumanConfidentialBFFPairwiseSubject ctx as' c))
           else okM True) (\<lambda>admitted.
     if admitted then okM ((status, authErr), c)
     else failHumanConfidentialBFFAuthentication ctx (ErrNew ''the strict authentication result is outside current server authority''))))))))"

section \<open>Success\<close>

text \<open>The options of the grant. The code and its expiry are those of a response type with a code.\<close>

definition auth_grant_options :: "'st AuthorizeContext \<Rightarrow> AuthnSession \<Rightarrow> string \<Rightarrow> int \<Rightarrow> GrantOptions" where
  "auth_grant_options ctx as code expiresAt = zero_GrantOptions
     \<lparr>go_Type := (if \<not> ResponseType_Contains (ap_ResponseType (as_AuthorizationParameters as)) ResponseTypeCode
                  then GrantImplicit else GrantAuthorizationCode),
      go_Subject := as_Subject as, go_Username := as_Username as, go_ClientID := as_ClientID as, go_Scopes := as_GrantedScopes as,
      go_Nonce := ap_Nonce (as_AuthorizationParameters as), go_AuthDetails := as_GrantedAuthDetails as, go_Resources := as_GrantedResources as,
      go_JWKThumbprint := (if \<not> cf_DPoPEnabled (cx (ac ctx)) then ''''
         else if as_JWKThumbprint as \<noteq> '''' then as_JWKThumbprint as else ap_DPoPJKT (as_AuthorizationParameters as)),
      go_AuthCode := code, go_AuthCodeExpiresAt := expiresAt,
      go_AuthParams := as_AuthorizationParameters as, go_Store := as_Store as\<rparr>"

definition auth_code :: "'st AuthorizeContext \<Rightarrow> AuthnSession \<Rightarrow> ('st, string \<times> int) M" where
  "auth_code ctx as =
     (if \<not> ResponseType_Contains (ap_ResponseType (as_AuthorizationParameters as)) ResponseTypeCode then okM ('''', 0)
      else tryM (callM (az_AuthCodeFunc (ac_conf ctx))) (\<lambda>code.
           tryM (TimestampNow (ac ctx)) (\<lambda>now. okM (code, now + az_AuthCodeLifetimeSecs (ac_conf ctx)))))"

text \<open>The tokens of an implicit response.\<close>

definition implicit_token :: "'st AuthorizeContext \<Rightarrow> AuthnSession \<Rightarrow> Client \<Rightarrow> response \<Rightarrow> ('st, response \<times> Client) M" where
  "implicit_token ctx as c resp =
     (if \<not> ResponseType_Contains (ap_ResponseType (as_AuthorizationParameters as)) ResponseTypeToken then okM (resp, c)
      else tryM (mapErrM (ErrWrapf ''could not generate the access token for the authentication session'')
             (Issue (ac ctx) c zero_IssuanceOptions)) (\<lambda>(tkn, tokenValue, c').
           okM (resp\<lparr>rp_accessToken := tokenValue, rp_tokenType := t_Type tkn\<rparr>, c')))"

definition implicit_id_token :: "'st AuthorizeContext \<Rightarrow> AuthnSession \<Rightarrow> Client \<Rightarrow> response \<Rightarrow> ('st, response) M" where
  "implicit_id_token ctx as c resp =
     (let p = as_AuthorizationParameters as in
      if \<not> (ContainsOpenID (as_GrantedScopes as) \<and> ResponseType_Contains (ap_ResponseType p) ResponseTypeIDToken) then okM resp
      else
        tryM (getM w_grant) (\<lambda>grant.
        tryM (callM (\<lambda>n. cf_IDTokenClaimsFunc (cx (ac ctx)) n grant)) (\<lambda>claims.
        tryM (mapErrM (ErrWrapf ''could not generate the id token for the authentication session'')
          (MakeIDToken (ac ctx) c (zero_IDTokenOptions\<lparr>id_Subject := as_Subject as, id_Nonce := ap_Nonce p,
             id_AccessToken := rp_accessToken resp, id_AuthorizationCode := g_AuthCode grant, id_State := ap_State p,
             id_Claims := claims\<rparr>))) (\<lambda>idToken.
        okM (resp\<lparr>rp_idToken := idToken\<rparr>)))))"

definition finishSuccess :: "'st AuthorizeContext \<Rightarrow> Client \<Rightarrow> ('st, unit) A" where
  "finishSuccess ctx c =
     tryM (saveAs ctx StatusSuccess ''could not save the completed authentication session'') (\<lambda>_.
     tryM (getM aw_session) (\<lambda>as.
     tryM (baseM (auth_code ctx as)) (\<lambda>(code, expiresAt).
     tryM (mapErrM (wrapPlain ''could not generate the grant for the authentication session'')
       (baseM (NewGrant (ac ctx) c (auth_grant_options ctx as code expiresAt)))) (\<lambda>_.
     tryM (baseM (getM w_grant)) (\<lambda>grant.
     let resp = zero_response\<lparr>rp_authorizationCode := g_AuthCode grant, rp_state := ap_State (as_AuthorizationParameters as)\<rparr> in
     tryM (baseM (implicit_token ctx as c resp)) (\<lambda>(resp', c').
     tryM (baseM (implicit_id_token ctx as c' resp')) (\<lambda>resp''.
     redirectResponse ctx c' (as_AuthorizationParameters as) resp'')))))))"

text \<open>What a failed authentication is redirected with.\<close>

definition authentication_failure :: "AuthorizationParameters \<Rightarrow> go_error option \<Rightarrow> authorize_error" where
  "authentication_failure params authErr =
     (case authErr of
        None \<Rightarrow> newRedirectionError ErrorCodeAccessDenied ''access denied'' params
      | Some err \<Rightarrow>
          (case errors_As err of
             Some oidcErr \<Rightarrow> redirectionError params oidcErr
           | None \<Rightarrow> wrapRedirectionError ErrorCodeAccessDenied ''access denied'' params err))"

text \<open>\<^verbatim>\<open>authenticate\<close>: the value is the error to redirect, if any, with the client.\<close>

definition authenticate :: "'st AuthorizeContext \<Rightarrow> Client \<Rightarrow> ('st, authorize_error option \<times> Client) A" where
  "authenticate ctx c =
     tryM (getM aw_session) (\<lambda>as.
     if as_PolicyID as = '''' then
       tryM (saveAs ctx StatusFailure ''could not delete the authentication session with a missing policy id'') (\<lambda>_.
       failM (PlainError (ErrNew ''the authentication session is missing the policy id'')))
     else
       let policy = Policy (az_AuthPolicies (ac_conf ctx)) (as_PolicyID as) in
       tryM (if c_AuthorizationRequestProfile c = AuthorizationRequestProfileHumanConfidentialBFF then strict_callback ctx policy c
             else legacy_callback ctx policy c) (\<lambda>((status, authErr), c').
       if status = StatusSuccess then tryM (finishSuccess ctx c') (\<lambda>_. okM (None, c'))
       else if status = StatusPending then
         tryM (saveAs ctx StatusPending ''could not save the in-progress authentication session'') (\<lambda>_. okM (None, c'))
       else
         tryM (saveAs ctx StatusFailure ''could not save the failed authentication session'') (\<lambda>_.
         tryM (getM aw_session) (\<lambda>as'.
         okM (Some (authentication_failure (as_AuthorizationParameters as') authErr), c')))))"

text \<open>A redirectable outcome is redirected.\<close>

definition redirecting :: "'st AuthorizeContext \<Rightarrow> ('st, authorize_error option \<times> Client) A \<Rightarrow> ('st, unit) A" where
  "redirecting ctx m = tryM m (\<lambda>(e, c'). case e of None \<Rightarrow> okM () | Some err \<Rightarrow> redirectError ctx c' err)"

section \<open>Continuing a session\<close>

definition not_found_as :: "go_error \<Rightarrow> string \<Rightarrow> authorize_error \<Rightarrow> authorize_error" where
  "not_found_as missing message e =
     PlainError (if errors_Is (base_error e) ErrNotFound then missing else ErrWrapf message (base_error e))"

definition invalid_request :: "string \<Rightarrow> go_error" where
  "invalid_request m = WrapError ErrorCodeInvalidRequest ''invalid request'' (ErrNew m)"

definition continueAuth :: "'st AuthorizeContext \<Rightarrow> string \<Rightarrow> ('st, unit) A" where
  "continueAuth ctx i =
     tryM (mapErrM (not_found_as (invalid_request ''the authentication session was not found'') ''could not load the authentication session'')
       (loadSession (\<lambda>n. m_Auth_Session (cf_Managers (cx (ac ctx))) n i))) (\<lambda>as.
     tryM (baseM (TimestampNow (ac ctx))) (\<lambda>now.
     guardM (now \<ge> as_ExpiresAt as) (PlainError (invalid_request ''the authentication session has expired'')) (
     guardM (ResponseMode_IsJSON (ap_ResponseMode (as_AuthorizationParameters as)) \<and> rq_Method (cx_Request (ac ctx)) \<noteq> ''POST'')
       (PlainError (invalid_request ''json response mode requires an HTTP POST callback request'')) (
     tryM (mapErrM (wrapPlain ''could not load the client for the authentication session'') (baseM (Client_of (ac ctx) (as_ClientID as)))) (\<lambda>c.
     tryM (baseM (authorizationAdmissionClient ctx c)) (\<lambda>(c', _).
     tryM (baseM (validateAuthorizationContinuationProfileBinding ctx as c')) (\<lambda>_.
     redirecting ctx (authenticate ctx c'))))))))"


section \<open>The client of a request\<close>

definition ClientRegistrationTypeAutomatic :: string where [const_defs]: "ClientRegistrationTypeAutomatic = ''automatic''"

definition not_automatic :: go_error where
  "not_automatic = invalid_request ''the client is not registered for automatic federation registration''"

definition federationClient :: "'st AuthorizeContext \<Rightarrow> request \<Rightarrow> ('st, Client) M" where
  "federationClient ctx req =
     guardM (\<not> (az_JAREnabled (ac_conf ctx) \<and> ap_RequestObject (ar_Params req) \<noteq> ''''))
       (WrapError ErrorCodeAccessDenied ''access denied'' (ErrNew ''automatic federation registration requires a signed request object'')) (
     tryM (callE (\<lambda>n. az_FederationClient (ac_conf ctx) n (ar_ClientID req)
       (Some (jarTrustChain (cx_Lib (ac ctx)) (ac_Lib ctx) (ap_RequestObject (ar_Params req)) (az_JARSigAlgs (ac_conf ctx)))))) (\<lambda>c.
     guardM (ClientRegistrationTypeAutomatic \<notin> set (c_ClientRegistrationTypes c)) not_automatic (okM c)))"

text \<open>Whether identifiers that are URLs may be registered on the fly.\<close>

definition automatic_registration :: "'st AuthorizeContext \<Rightarrow> string \<Rightarrow> bool" where
  "automatic_registration ctx i \<longleftrightarrow>
     cf_OpenIDFedEnabled (cx (ac ctx)) \<and> ClientRegistrationTypeAutomatic \<in> set (az_OpenIDFedClientRegTypes (ac_conf ctx)) \<and>
     IsURL (cx_Lib (ac ctx)) i"

text \<open>The client, and whether it was registered from the federation.\<close>

definition request_client :: "'st AuthorizeContext \<Rightarrow> request \<Rightarrow> ('st, Client \<times> bool) M" where
  "request_client ctx req =
     (if \<not> automatic_registration ctx (ar_ClientID req)
      then tryM (Client_of (ac ctx) (ar_ClientID req)) (\<lambda>c. okM (c, False))
      else runM (Client_of (ac ctx) (ar_ClientID req)) (\<lambda>r. case r of
        Inl err \<Rightarrow> guardM (\<not> errors_Is err ErrNotFound) err (tryM (federationClient ctx req) (\<lambda>c. okM (c, True)))
      | Inr c \<Rightarrow>
          tryM (if c_ExpiresAt c \<noteq> 0 then tryM (TimestampNow (ac ctx)) (\<lambda>now. okM (now \<ge> c_ExpiresAt c)) else okM False) (\<lambda>expired.
          if expired then tryM (federationClient ctx req) (\<lambda>c'. okM (c', True)) else okM (c, False))))"

definition client_error :: "'st AuthorizeContext \<Rightarrow> go_error \<Rightarrow> go_error" where
  "client_error ctx err =
     (let loaded = ErrWrapf ''could not load the client'' err in
      if cf_ResolveClientFunc (cx (ac ctx)) \<noteq> None \<and> \<not> errors_Is err ErrNotFound then loaded
      else WrapError ErrorCodeInvalidClient ''invalid client_id'' loaded)"

section \<open>The session of a request\<close>

text \<open>Each of these leaves the session in the world and returns the client, or an error that may be redirected.\<close>

type_synonym ('st) acquisition = "('st, authorize_error option \<times> Client) A"

definition attempted :: "Client \<Rightarrow> ('st, unit) A \<Rightarrow> ('st, unit) A \<Rightarrow> 'st acquisition" where
  "attempted c m k = runM m (\<lambda>r. case r of Inl e \<Rightarrow> okM (Some e, c) | Inr _ \<Rightarrow> tryM k (\<lambda>_. okM (None, c)))"

definition merge_session :: "'st AuthorizeContext \<Rightarrow> request \<Rightarrow> ('st, unit) A" where
  "merge_session ctx req =
     (if Profile_IsFAPI (cf_Profile (cx (ac ctx))) then okM ()
      else assignSession ctx (\<lambda>as. as\<lparr>as_AuthorizationParameters := mergeParams (as_AuthorizationParameters as) (ar_Params req)\<rparr>))"

definition session_from_PAR :: "'st AuthorizeContext \<Rightarrow> request \<Rightarrow> Client \<Rightarrow> 'st acquisition" where
  "session_from_PAR ctx req c =
     (let uri = ap_RequestURI (ar_Params req) in
      guardM (uri = '''') (PlainError (invalid_request ''request_uri is required'')) (
      tryM (mapErrM (not_found_as (invalid_request ''the pushed authorization request identified by request_uri was not found'')
              ''could not load the pushed authorization request session'')
        (loadSession (\<lambda>n. m_SessionByPushedAuthReqID (cf_Managers (cx (ac ctx))) n (strings_TrimPrefix uri parRequestURIPrefix)))) (\<lambda>as.
      tryM (baseM (validateAuthorizationRequestProfileBinding ctx as c)) (\<lambda>_.
      runM (validateRequestWithPAR ctx req as c) (\<lambda>r. case r of
         Inl e \<Rightarrow>
           tryM (saveAs ctx StatusFailure ''could not save the invalid pushed authorization request session'') (\<lambda>_. okM (Some e, c))
       | Inr _ \<Rightarrow> tryM (merge_session ctx req) (\<lambda>_. okM (None, c)))))))"

definition session_from_JAR :: "'st AuthorizeContext \<Rightarrow> request \<Rightarrow> Client \<Rightarrow> bool \<Rightarrow> 'st acquisition" where
  "session_from_JAR ctx req c federated =
     (let p = ar_Params req in
      tryM (baseM (
        if ap_RequestObject p \<noteq> '''' then jarFromRequestObject ctx (ap_RequestObject p) c federated
        else if az_JARByReferenceEnabled (ac_conf ctx) \<and> ap_RequestURI p \<noteq> '''' then jarFromRequestURI ctx (ap_RequestURI p) c
        else failM (invalid_request ''request object is required when JAR is enabled''))) (\<lambda>(jar, c').
      attempted c' (validateRequestWithJAR ctx req jar c') (
        tryM (newAuthnSession ctx (ar_Params jar) c') (\<lambda>_. merge_session ctx req))))"

definition session_from_request :: "'st AuthorizeContext \<Rightarrow> request \<Rightarrow> Client \<Rightarrow> 'st acquisition" where
  "session_from_request ctx req c = attempted c (validateRequest ctx req c) (newAuthnSession ctx (ar_Params req) c)"

definition uses_PAR :: "'st AuthorizeContext \<Rightarrow> request \<Rightarrow> Client \<Rightarrow> bool" where
  "uses_PAR ctx req c \<longleftrightarrow> az_PAREnabled (ac_conf ctx) \<and>
     (az_PARRequired (ac_conf ctx) \<or> c_PARRequired c \<or> strings_HasPrefix (ap_RequestURI (ar_Params req)) parRequestURIPrefix)"

definition uses_JAR :: "'st AuthorizeContext \<Rightarrow> request \<Rightarrow> Client \<Rightarrow> bool" where
  "uses_JAR ctx req c \<longleftrightarrow> az_JAREnabled (ac_conf ctx) \<and>
     (az_JARRequired (ac_conf ctx) \<or> c_JARRequired c \<or> ap_RequestObject (ar_Params req) \<noteq> '''' \<or>
      az_JARByReferenceEnabled (ac_conf ctx) \<and> ap_RequestURI (ar_Params req) \<noteq> '''')"

definition acquire_session :: "'st AuthorizeContext \<Rightarrow> request \<Rightarrow> Client \<Rightarrow> bool \<Rightarrow> 'st acquisition" where
  "acquire_session ctx req c federated =
     (if uses_PAR ctx req c then session_from_PAR ctx req c
      else if uses_JAR ctx req c then session_from_JAR ctx req c federated
      else session_from_request ctx req c)"

section \<open>Preparing the session\<close>

primrec setup_policy :: "'st AuthorizeContext \<Rightarrow> AuthnPolicy list \<Rightarrow> Client \<Rightarrow> ('st, string \<times> Client) A" where
  "setup_policy ctx [] c = okM ('''', c)"
| "setup_policy ctx (candidate # rest) c =
     tryM (sessionCall ctx (po_Setup candidate) c) (\<lambda>(ok, c').
     if ok then okM (po_ID candidate, c') else setup_policy ctx rest c')"

text \<open>\<^verbatim>\<open>idTkn, _ := token.IDToken(ctx, as.IDTokenHint)\<close>.\<close>

definition hint_claims :: "'st AuthorizeContext \<Rightarrow> ('st, unit) A" where
  "hint_claims ctx =
     tryM (getM aw_session) (\<lambda>as.
     if ap_IDTokenHint (as_AuthorizationParameters as) = '''' then okM ()
     else tryM (baseM (attemptM (IDToken_of ctx (ap_IDTokenHint (as_AuthorizationParameters as))))) (\<lambda>r.
       assignSession ctx (\<lambda>as. as\<lparr>as_IDTokenHintClaims :=
         Some (it_Claims (case r of Inl _ \<Rightarrow> zero_IDToken | Inr idTkn \<Rightarrow> idTkn))\<rparr>)))"

text \<open>The credentials a session is about; an error with the client is redirected.\<close>

definition issuer_state :: "'st AuthorizeContext \<Rightarrow> VCIssuer \<Rightarrow> string list \<Rightarrow> ('st, authorize_error option) A" where
  "issuer_state ctx issuer configIDs =
     tryM (getM aw_session) (\<lambda>as.
     let p = as_AuthorizationParameters as; bad = wrapRedirectionError ErrorCodeInvalidRequest ''invalid request'' p in
     if \<not> az_VCIIssuerStateEnabled (ac_conf ctx) \<or> ap_IssuerState p = '''' then okM None
     else tryM (baseM (callM (\<lambda>n. az_VCIIssuerStateHandleFunc (ac_conf ctx) n (ap_IssuerState p) (vci_Issuer issuer)))) (\<lambda>r. case r of
        Inl err \<Rightarrow> okM (Some (bad err))
      | Inr result \<Rightarrow>
          tryM (assignSession ctx (\<lambda>as. as\<lparr>as_Store := isr_Store result\<rparr>)) (\<lambda>_.
          okM (if list_ex (\<lambda>i. i \<notin> set (isr_ConfigurationIDs result)) configIDs
               then Some (bad (ErrNew ''a credential configuration is not authorized by issuer_state'')) else None))))"

definition credential_info :: "'st AuthorizeContext \<Rightarrow> ('st, authorize_error option) A" where
  "credential_info ctx =
     (if \<not> cf_VCIEnabled (cx (ac ctx)) then okM None
      else tryM (getM aw_session) (\<lambda>as.
        let p = as_AuthorizationParameters as in
        case Resolve (ac ctx) (vc_request p) of
          Inl err \<Rightarrow>
            (case errors_As err of
               Some oidcErr \<Rightarrow> okM (Some (wrapRedirectionError (err_Code oidcErr) (err_Description oidcErr) p err))
             | None \<Rightarrow> failM (PlainError (ErrWrapf ''could not resolve verifiable credential metadata for the authorization request'' err)))
        | Inr (issuer, configIDs) \<Rightarrow>
            if configIDs = [] then okM None
            else tryM (issuer_state ctx issuer configIDs) (\<lambda>e. case e of
               Some err \<Rightarrow> okM (Some err)
             | None \<Rightarrow>
                 tryM (assignSession ctx (\<lambda>as. as\<lparr>as_VCInfo := Some (vci_Issuer issuer, configIDs)\<rparr>)) (\<lambda>_. okM None))))"

text \<open>From an acquired session to the authentication of the user.\<close>

definition begin_session :: "'st AuthorizeContext \<Rightarrow> Client \<Rightarrow> bool \<Rightarrow> ('st, authorize_error option \<times> Client) A" where
  "begin_session ctx c federated =
     tryM (setup_policy ctx (az_AuthPolicies (ac_conf ctx)) c) (\<lambda>(policyID, c').
     tryM (getM aw_session) (\<lambda>as.
     if policyID = '''' then
       okM (Some (redirectWrap ErrorCodeInvalidRequest ''invalid request'' (as_AuthorizationParameters as)
         ''no authentication policy is available for the authorization request''), c')
     else
       tryM (assignSession ctx (\<lambda>as. as\<lparr>as_PolicyID := policyID\<rparr>)) (\<lambda>_.
       tryM (baseM (TimestampNow (ac ctx))) (\<lambda>now.
       tryM (assignSession ctx (\<lambda>as. as\<lparr>as_ExpiresAt := now + az_AuthTimeoutSecs (ac_conf ctx)\<rparr>)) (\<lambda>_.
       tryM (hint_claims ctx) (\<lambda>_.
       tryM (credential_info ctx) (\<lambda>e. case e of
          Some err \<Rightarrow> okM (Some err, c')
        | None \<Rightarrow>
            tryM (if federated then mapErrM (wrapPlain ''could not save the federated client'')
                    (baseM (storeM (\<lambda>n. m_Fed_SaveClient (cf_Managers (cx (ac ctx))) n c'))) else okM ()) (\<lambda>_.
            authenticate ctx c'))))))))"

section \<open>The strict start\<close>

definition humanConfidentialBFFStartDeadline :: "int \<Rightarrow> int \<Rightarrow> int \<Rightarrow> int option" where
  "humanConfidentialBFFStartDeadline expiresAt now configuredSkew =
     (case HumanAuthorizationClockSkewSeconds configuredSkew of
        None \<Rightarrow> None
      | Some skew \<Rightarrow>
          if now < 1 \<or> expiresAt \<le> now then None
          else let remaining = expiresAt - now in
            if remaining > 300 + skew then None else Some (if remaining > 300 then 300 else remaining))"

text \<open>\<^verbatim>\<open>http.SetCookie\<close> with the attributes of the binding cookie (path, \<^verbatim>\<open>Secure\<close>, \<^verbatim>\<open>HttpOnly\<close>, \<^verbatim>\<open>SameSite=Strict\<close>): its name, value, expiry
  and maximal age are recorded.\<close>

definition SetCookie :: "string \<Rightarrow> string \<Rightarrow> int \<Rightarrow> int \<Rightarrow> ('st, unit) A" where
  "SetCookie name value expires maxAge = modM (\<lambda>w. w\<lparr>aw_cookies := aw_cookies w @ [(name, value, expires, maxAge)]\<rparr>)"

definition seeOther :: "string \<Rightarrow> ('st, unit) A" where
  "seeOther location =
     tryM (baseM (tryM (set_header ''Location'' location) (\<lambda>_. tryM (set_header ''Cache-Control'' ''no-store'') (\<lambda>_.
           tryM (set_header ''Pragma'' ''no-cache'') (\<lambda>_. set_header ''Referrer-Policy'' ''no-referrer''))))) (\<lambda>_.
     tryM (modM (\<lambda>w. w\<lparr>aw_sent := aw_sent w @ [Redirected location]\<rparr>)) (\<lambda>_. baseM (WriteHeader 303 None)))"

definition startHumanConfidentialBFFAuthorization :: "'st AuthorizeContext \<Rightarrow> request \<Rightarrow> Client \<Rightarrow> ('st, unit) A" where
  "startHumanConfidentialBFFAuthorization ctx req c =
     guardM (\<not> validHumanConfidentialBFFStartConfiguration ctx) (PlainError (strict_server_error ''the human authorization continuation is unavailable'')) (
     case NewHumanPushedRequestURI (ap_RequestURI (ar_Params req)) of
       None \<Rightarrow> failM (PlainError (invalidHumanConfidentialBFFRequest ''request_uri is not a valid human pushed-request capability''))
     | Some requestURI \<Rightarrow>
         (case NewHumanStartInput (c_ID c) (Some requestURI) of
            None \<Rightarrow> failM (PlainError (strict_server_error ''the human authorization start input could not be sealed''))
          | Some input \<Rightarrow>
              tryM (baseM (HumanConsumePARAndStartContinuation (ac ctx) (az_HumanFlow (ac_conf ctx)) input)) (\<lambda>decision. case decision of
                 None \<Rightarrow> failM (PlainError (strict_server_error ''the human authorization start decision was invalid''))
               | Some d \<Rightarrow>
                   guardM (hsd_outcome d = HumanStartOutcomeRejected)
                     (PlainError (invalidHumanConfidentialBFFRequest ''the human pushed authorization request was rejected'')) (
                   guardM (hsd_outcome d \<noteq> HumanStartOutcomePending)
                     (PlainError (strict_server_error ''the human authorization start decision was invalid'')) (
                   tryM (baseM (TimestampNow (ac ctx))) (\<lambda>now.
                   case humanConfidentialBFFStartDeadline (hsd_expiresAt d) now (cf_JWTLeewayTimeSecs (cx (ac ctx))) of
                     None \<Rightarrow> failM (PlainError (strict_server_error ''the human authorization interaction deadline was invalid''))
                   | Some maxAge \<Rightarrow>
                       (case (HumanInteractionEntryCapability_Render (hsd_entry d), HumanBrowserBindingCapability_Render (hsd_browserBinding d)) of
                          (Some entry, Some browserBinding) \<Rightarrow>
                            tryM (SetCookie (az_HumanBrowserBindingCookieName (ac_conf ctx)) browserBinding (hsd_expiresAt d) maxAge) (\<lambda>_.
                            seeOther (az_HumanIdentityInteractionEndpoint (ac_conf ctx) @ ''#'' @ entry))
                        | _ \<Rightarrow> failM (PlainError (strict_server_error ''invalid human authorization value'')))))))))"

section \<open>Starting an authorization\<close>

definition initAuth :: "'st AuthorizeContext \<Rightarrow> request \<Rightarrow> ('st, unit) A" where
  "initAuth ctx req =
     guardM (ar_ClientID req = '''') (plainWrap ErrorCodeInvalidClient ''invalid client_id'' ''client_id is required'') (
     tryM (baseM (mapErrM (client_error ctx) (request_client ctx req))) (\<lambda>(c0, federated).
     tryM (baseM (authorizationAdmissionClient ctx c0)) (\<lambda>(c, strict).
     tryM (checkM (if strict then map_option PlainError (validateHumanConfidentialBFFOuterRequest ctx req) else None)) (\<lambda>_.
     guardM (GrantAuthorizationCode \<notin> set (c_GrantTypes c) \<and> GrantImplicit \<notin> set (c_GrantTypes c))
       (plainWrap ErrorCodeUnauthorizedClient ''unauthorized client'' ''the client is not allowed to use the authorization endpoint grant types'') (
     if strict then startHumanConfidentialBFFAuthorization ctx req c
     else
       guardM (cf_HumanConfidentialBFFAuthorizationEnabled (cx (ac ctx)) \<and>
           strings_HasPrefix (ap_RequestURI (ar_Params req)) HumanPushedRequestURIPrefix)
         (PlainError (strict_server_error ''a strict human request_uri cannot enter legacy authorization dispatch'')) (
       guardM (\<not> cf_LegacyAuthorizationCodeEnabled (cx (ac ctx)))
         (PlainError (strict_server_error ''legacy authorization-session persistence is unavailable'')) (
       redirecting ctx (
         tryM (acquire_session ctx req c federated) (\<lambda>(e, c'). case e of
            Some err \<Rightarrow> okM (Some err, c')
          | None \<Rightarrow> begin_session ctx c' federated)))))))))"

section \<open>Handlers\<close>

definition authorize_WriteError :: "'st AuthorizeContext \<Rightarrow> authorize_error \<Rightarrow> ('st, unit) A" where
  "authorize_WriteError ctx err = runM (baseM (writeError (ac ctx) (base_error err))) (\<lambda>_. okM ())"

text \<open>\<^verbatim>\<open>if err := ctx.RenderError(err); err != nil { ctx.WriteError(err) }\<close>.\<close>

definition render_or_write :: "'st AuthorizeContext \<Rightarrow> ('st, unit) A \<Rightarrow> ('st, unit) A" where
  "render_or_write ctx m =
     runM m (\<lambda>r. case r of
        Inr _ \<Rightarrow> okM ()
      | Inl err \<Rightarrow> runM (RenderError ctx err) (\<lambda>r2. case r2 of Inr _ \<Rightarrow> okM () | Inl err2 \<Rightarrow> authorize_WriteError ctx err2))"

definition bad_form :: "'st AuthorizeContext \<Rightarrow> go_error option" where
  "bad_form ctx =
     (if rq_FormParseFailed (cx_Request (ac ctx)) then Some (NewError ErrorCodeInvalidRequest ''invalid request'')
      else if MediaType (ac ctx) \<noteq> '''' \<and> MediaType (ac ctx) \<noteq> ''application/x-www-form-urlencoded''
      then Some (WithStatusCode (NewError ErrorCodeInvalidRequest ''invalid content type'') 415)
      else None)"

text \<open>The limit on the size of the form applies while the body is read, before the request of the model exists.\<close>

definition handler :: "'st AuthorizeContext \<Rightarrow> ('st, unit) A" where
  "handler ctx =
     (let r = cx_Request (ac ctx); lib = cx_Lib (ac ctx) in
      if rq_Method r = ''POST'' then
        (case bad_form ctx of
           Some err \<Rightarrow> authorize_WriteError ctx (PlainError err)
         | None \<Rightarrow> render_or_write ctx (initAuth ctx (newFormRequest lib (ac_Lib ctx) r)))
      else render_or_write ctx (initAuth ctx (newRequest lib (ac_Lib ctx) r)))"

definition handlerCallback :: "'st AuthorizeContext \<Rightarrow> ('st, unit) A" where
  "handlerCallback ctx = render_or_write ctx (continueAuth ctx (rt_callback (ac_Transport ctx)))"

end
