(* ===== verification/AuthorizeSafety.thy ===== *)
theory AuthorizeSafety
  imports AuthorizeFlow
begin

text \<open>
  Where the authorization endpoint sends the browser. The callbacks of an application receive the client object; as long as
  they leave its redirect URIs and its application type alone (\<open>respectful\<close>), every redirect and every form of the endpoint
  goes to a URI registered for the client the request or the session names, or to the configured interaction endpoint.
\<close>

section \<open>What keeps the registration\<close>

definition same_redirects :: "Client \<Rightarrow> Client \<Rightarrow> bool" where
  "same_redirects c c' \<longleftrightarrow> c_RedirectURIs c' = c_RedirectURIs c \<and> c_ApplicationType c' = c_ApplicationType c"

lemma same_redirects_refl [simp]: "same_redirects c c"
  by (simp add: same_redirects_def)

lemma same_redirects_trans: "same_redirects a b \<Longrightarrow> same_redirects b c \<Longrightarrow> same_redirects a c"
  by (simp add: same_redirects_def)

lemma sent_to_same: "same_redirects c c' \<Longrightarrow> sent_to_client ctx c' = sent_to_client ctx c"
proof
  fix out assume "same_redirects c c'"
  then show "sent_to_client ctx c' out = sent_to_client ctx c out"
    by (cases out) (simp_all add: same_redirects_def server_redirect_def)
qed

definition respectful :: "'st AuthorizeContext \<Rightarrow> bool" where
  "respectful ctx \<longleftrightarrow>
     (\<forall>p \<in> set (az_AuthPolicies (ac_conf ctx)). \<forall>n as c.
        same_redirects c (snd (snd (po_Setup p n as c))) \<and> same_redirects c (snd (snd (po_Authenticate p n as c)))) \<and>
     (\<forall>n g c. same_redirects c (snd (snd (cf_TokenOptionsFunc (cx (ac ctx)) n g c))))"

text \<open>The values a program returns.\<close>

definition gives :: "('a \<Rightarrow> bool) \<Rightarrow> ('e, 'w, 'a) prog \<Rightarrow> bool" where
  "gives Q m \<longleftrightarrow> (\<forall>w x w'. m w = (Inr x, w') \<longrightarrow> Q x)"

lemma givesD: "gives Q m \<Longrightarrow> m w = (Inr x, w') \<Longrightarrow> Q x"
  unfolding gives_def by blast

named_theorems give_intros \<open>rules on the values a program returns\<close>

lemma gives_try: "gives R m \<Longrightarrow> (\<And>x. R x \<Longrightarrow> gives Q (k x)) \<Longrightarrow> gives Q (tryM m k)"
  unfolding gives_def by (simp add: ok_simps) blast

lemma gives_then [give_intros]: "(\<And>x. gives Q (k x)) \<Longrightarrow> gives Q (tryM m k)"
  unfolding gives_def by (simp add: ok_simps) blast

lemma gives_mono: "gives R m \<Longrightarrow> (\<And>x. R x \<Longrightarrow> Q x) \<Longrightarrow> gives Q m"
  unfolding gives_def by blast

lemma keeps_gives: "keeps P m \<Longrightarrow> gives R m \<Longrightarrow> (\<And>x. R x \<Longrightarrow> keeps P (k x)) \<Longrightarrow> keeps P (tryM m k)"
  unfolding gives_def keeps_def by (auto simp: tryM_def split: prod.splits sum.splits) (metis snd_conv)+

lemma gives_any: "gives (\<lambda>_. True) m"
  by (simp add: gives_def)

lemma gives_ok [give_intros]: "Q x \<Longrightarrow> gives Q (okM x)" and gives_fail [give_intros]: "gives Q (failM e)"
  by (simp_all add: gives_def)

lemma gives_baseM: "gives Q m \<Longrightarrow> gives Q (baseM m)" and gives_mapErr: "gives Q m' \<Longrightarrow> gives Q (mapErrM f m')"
  unfolding gives_def by (auto simp: ok_simps)

lemma gives_guard [give_intros]: "gives Q k \<Longrightarrow> gives Q (guardM b e k)"
  by (simp add: guardM_def gives_fail)

lemma gives_run [give_intros]: "(\<And>r. gives Q (k r)) \<Longrightarrow> gives Q (runM m k)"
  unfolding gives_def by (auto simp: runM_def split: prod.splits)

lemma gives_cases [give_intros]:
  "gives Q m \<Longrightarrow> gives Q n \<Longrightarrow> gives Q (if b then m else n)"
  "(\<And>x y. p = (x, y) \<Longrightarrow> gives Q (f x y)) \<Longrightarrow> gives Q (case p of (x, y) \<Rightarrow> f x y)"
  "gives Q m \<Longrightarrow> (\<And>y. gives Q (g y)) \<Longrightarrow> gives Q (case o' of None \<Rightarrow> m | Some y \<Rightarrow> g y)"
  "(\<And>y. gives Q (l y)) \<Longrightarrow> (\<And>y. gives Q (r y)) \<Longrightarrow> gives Q (case s of Inl y \<Rightarrow> l y | Inr y \<Rightarrow> r y)"
  by (cases p; cases o'; cases s; simp)+

lemma gives_case_applied [give_intros]:
  "(\<And>x y. p = (x, y) \<Longrightarrow> gives Q (f x y z)) \<Longrightarrow> gives Q ((case p of (x, y) \<Rightarrow> f x y) z)"
  by (cases p) simp

lemma gives_sessionCall:
  "(\<And>n as. Q (fst (f n as c), snd (snd (f n as c)))) \<Longrightarrow> gives Q (sessionCall ctx f c)"
  unfolding gives_def sessionCall_def by (auto simp: ok_simps split: prod.splits) (metis fst_conv snd_conv)
lemma JWKS_redirects: "JWKS ctx c w = (Inr (jwks, c'), w') \<Longrightarrow> same_redirects c c'"
  unfolding JWKS_def Let_def same_redirects_def
  by (auto simp: ok_simps CacheJWKS_def split: option.splits if_splits)

lemma header_redirects: "gives (\<lambda>(jwk, c'). same_redirects c c') (JWKMatchingHeader ctx c header)"
  unfolding gives_def by (auto dest!: JWKMatchingHeader_ok JWKS_redirects)

lemma jar_redirects: "gives (\<lambda>(req, c'). same_redirects c c') (jarFromRequestObject ctx obj c fed)"
  unfolding jarFromRequestObject_def gives_def Let_def
  by (auto simp: ok_simps case_single_ok split: if_splits dest!: givesD [OF header_redirects])

lemma jar_uri_redirects: "gives (\<lambda>(req, c'). same_redirects c c') (jarFromRequestURI ctx uri c)"
  unfolding jarFromRequestURI_def jarFromRequestURIWithNetworkControl_def Let_def
  by (rule gives_try [OF gives_any], clarsimp, rule gives_try [OF gives_any], intro gives_guard jar_redirects)

lemma setup_redirects:
  "(\<forall>p \<in> set ps. \<forall>n as c. same_redirects c (snd (snd (po_Setup p n as c)))) \<Longrightarrow>
     gives (\<lambda>(i, c'). same_redirects c c') (setup_policy ctx ps c)"
proof (induction ps arbitrary: c)
  case (Cons p ps)
  show ?case unfolding setup_policy.simps
  proof (rule gives_try)
    show "gives (\<lambda>(ok, c'). same_redirects c c') (sessionCall ctx (po_Setup p) c)"
      using Cons.prems by (intro gives_sessionCall) simp
    fix x :: "bool \<times> Client" assume "case x of (ok, c') \<Rightarrow> same_redirects c c'"
    then obtain ok c' where x: "x = (ok, c')" "same_redirects c c'" by (cases x) auto
    have "gives (\<lambda>(i, c''). same_redirects c' c'') (setup_policy ctx ps c')" using Cons.IH Cons.prems by simp
    then have "gives (\<lambda>(i, c''). same_redirects c c'') (setup_policy ctx ps c')"
      by (rule gives_mono) (auto intro: same_redirects_trans [OF x(2)])
    with x show "gives (\<lambda>(i, c'). same_redirects c c') (case x of (ok, c') \<Rightarrow> if ok then okM (po_ID p, c') else setup_policy ctx ps c')"
      by (simp add: gives_ok)
  qed
qed (simp add: gives_ok)

lemma issue_redirects:
  assumes "respectful ctx"
  shows "gives (\<lambda>(tkn, v, c'). same_redirects c c') (Issue (ac ctx) c opts)"
proof -
  have t: "gives (\<lambda>(o', c'). same_redirects c c') (TokenOptions_of (ac ctx) c)"
    using assms unfolding TokenOptions_of_def respectful_def gives_def
    by (auto simp: ok_simps split: prod.splits) (metis snd_conv)
  show ?thesis
    unfolding Issue_def Let_def
    by (rule gives_then, intro gives_guard, rule gives_try [OF t], rule gives_cases(2), simp only: prod.case,
      intro gives_then gives_guard gives_cases(2) gives_ok, simp only: prod.case)
qed

lemma implicit_redirects: "respectful ctx \<Longrightarrow> gives (\<lambda>(r, c'). same_redirects c c') (implicit_token ctx as c resp)"
  unfolding implicit_token_def
  by (auto intro!: gives_ok gives_try [OF gives_mapErr [OF issue_redirects]])

lemma callback_redirects:
  assumes "respectful ctx"
  shows "gives (\<lambda>(r, c'). same_redirects c c') (legacy_callback ctx (Policy (az_AuthPolicies (ac_conf ctx)) i) c)"
proof -
  have "same_redirects c (snd (snd (po_Authenticate (Policy (az_AuthPolicies (ac_conf ctx)) i) n as c)))" for n as
    using assms unfolding respectful_def Policy_def by (auto split: option.splits dest: find_SomeD)
  then have "gives (\<lambda>(r, c'). same_redirects c c') (sessionCall ctx (po_Authenticate (Policy (az_AuthPolicies (ac_conf ctx)) i)) c)"
    by (intro gives_sessionCall) simp
  then show ?thesis
    unfolding legacy_callback_def by (rule gives_try) (auto intro!: give_intros)
qed

lemma strict_callback_redirects: "gives (\<lambda>(r, c'). c' = c) (strict_callback ctx policy c)"
  unfolding strict_callback_def failHumanConfidentialBFFAuthentication_def Let_def
  by (intro give_intros; simp only: prod.case)

lemma attempted_client: "gives (\<lambda>(e, c'). c' = c) (attempted c m k)"
  unfolding attempted_def by (intro give_intros; simp only: prod.case)

lemma acquired_client: "gives (\<lambda>(e, c'). same_redirects c c') (acquire_session ctx req c federated)"
proof -
  have jar: "gives (\<lambda>(e, c'). same_redirects c c') (session_from_JAR ctx req c federated)"
    unfolding session_from_JAR_def Let_def
    by (rule gives_try [of "\<lambda>(jar, c'). same_redirects c c'"], intro gives_baseM gives_cases jar_redirects jar_uri_redirects gives_fail)
      (auto intro!: gives_mono [OF attempted_client])
  have par: "gives (\<lambda>(e, c'). same_redirects c c') (session_from_PAR ctx req c)"
    unfolding session_from_PAR_def Let_def by (intro give_intros; simp only: prod.case same_redirects_refl)
  have plain: "gives (\<lambda>(e, c'). same_redirects c c') (session_from_request ctx req c)"
    unfolding session_from_request_def by (rule gives_mono [OF attempted_client]) auto
  show ?thesis unfolding acquire_session_def by (intro gives_cases par jar plain)
qed

section \<open>What leaves the browser alone\<close>

text \<open>The validation of a request changes nothing but the world of the request context.\<close>

definition off_base :: "('st AuthorizeWorld \<Rightarrow> bool) \<Rightarrow> bool" where
  "off_base P \<longleftrightarrow> (\<forall>w v. P w \<longrightarrow> P (w\<lparr>aw := v\<rparr>))"

lemma off_base_fields [frame_intros]:
  "off_base (\<lambda>w. Q (aw_sent w))" "off_base (\<lambda>w. R (aw_session w) (aw_sessionShared w))"
  by (simp_all add: off_base_def)

lemma off_base_baseM: "off_base P \<Longrightarrow> keeps P (baseM m)"
  unfolding keeps_def off_base_def baseM_def by (auto split: prod.splits)

lemma validation_frame [frame_intros]:
  assumes off: "off_base P"
  shows "keeps P (validateParamsAsOptionals ctx params c)" "keeps P (validateParams ctx params c)"
    "keeps P (validateInWithOutParams ctx ps params c)"
proof -
  note base = off_base_baseM [OF off]
  have details: "keeps P (check_request_details ctx params c ds)" for params ds
    by (induction ds) (simp only: check_request_details.simps Let_def, intro frame_intros base; assumption?)+
  have hint: "keeps P (validateIDTokenHintAsOptional ctx params c)" for params
    unfolding validateIDTokenHintAsOptional_def by (intro frame_intros base)
  have optional: "keeps P (validateParamsAsOptionals ctx params c)" for params
    unfolding validateParamsAsOptionals_def validateAuthDetailsAsOptional_def by (intro frame_intros details hint)
  have all: "keeps P (validateParams ctx params c)" for params
    unfolding validateParams_def by (intro frame_intros optional)
  show "keeps P (validateParamsAsOptionals ctx params c)" "keeps P (validateParams ctx params c)"
    "keeps P (validateInWithOutParams ctx ps params c)"
    unfolding validateInWithOutParams_def by (intro frame_intros optional all)+
qed
lemma quiet_parts [frame_intros]:
  "keeps (\<lambda>w. Q (aw_sent w)) (saveAs ctx status message)"
  "keeps (\<lambda>w. Q (aw_sent w)) (merge_session ctx req)"
  "keeps (\<lambda>w. Q (aw_sent w)) (hint_claims ctx)"
  "keeps (\<lambda>w. Q (aw_sent w)) (issuer_state ctx issuer ids)"
  "keeps (\<lambda>w. Q (aw_sent w)) (RenderError ctx err)"
  "keeps (\<lambda>w. Q (aw_sent w)) (authorize_WriteError ctx err)"
  "keeps (\<lambda>w. Q (aw_sent w)) (SetCookie name v expires age)"
  unfolding saveAs_def merge_session_def hint_claims_def issuer_state_def Let_def RenderError_def authorize_WriteError_def SetCookie_def
  by (intro frame_intros keeps_mod; simp)+

lemma quiet_failure [frame_intros]: "keeps (\<lambda>w. Q (aw_sent w)) (failHumanConfidentialBFFAuthentication ctx e)"
  unfolding failHumanConfidentialBFFAuthentication_def by (intro frame_intros)

lemma keeps_case_applied [frame_intros]:
  "(\<And>x y. keeps P (f x y z)) \<Longrightarrow> keeps P ((case p of (x, y) \<Rightarrow> f x y) z)"
  by (cases p) simp

lemma quiet_callbacks [frame_intros]:
  "keeps (\<lambda>w. Q (aw_sent w)) (legacy_callback ctx policy c)"
  "keeps (\<lambda>w. Q (aw_sent w)) (strict_callback ctx policy c)"
  unfolding legacy_callback_def strict_callback_def applyHumanConfidentialBFFAuthenticationOutputs_def Let_def
  by (intro frame_intros)+

lemma quiet_setup [frame_intros]: "keeps (\<lambda>w. Q (aw_sent w)) (setup_policy ctx ps c)"
  by (induction ps arbitrary: c) (auto intro!: frame_intros)

lemma quiet_credentials [frame_intros]: "keeps (\<lambda>w. Q (aw_sent w)) (credential_info ctx)"
  unfolding credential_info_def Let_def by (intro frame_intros)

lemma quiet_acquisition [frame_intros]: "keeps (\<lambda>w. Q (aw_sent w)) (acquire_session ctx req c federated)"
  unfolding acquire_session_def session_from_PAR_def session_from_JAR_def session_from_request_def attempted_def
    validateRequest_def validateRequestWithPAR_def validateRequestWithJAR_def Let_def
  by (intro frame_intros)

section \<open>What is sent\<close>

lemma sends_finishSuccess:
  assumes "respectful ctx"
  shows "keeps (all_sent (sent_to_client ctx c)) (finishSuccess ctx c)"
proof -
  have last: "keeps (all_sent (sent_to_client ctx c))
      (case x of (resp', c') \<Rightarrow> tryM (baseM (implicit_id_token ctx as c' resp')) (redirectResponse ctx c' params))"
    if "case x of (r, c') \<Rightarrow> same_redirects c c'" for x as params
    using that by (cases x) (auto simp: sent_to_same [symmetric] intro!: frame_intros)
  show ?thesis
    unfolding finishSuccess_def Let_def
    by (intro keeps_try quiet_parts sent_baseM keeps_get keeps_mapErr keeps_case_prod
      keeps_gives [OF sent_baseM gives_baseM [OF implicit_redirects [OF assms]]] last)
qed

lemma authenticated_client:
  assumes "respectful ctx"
  shows "keeps (all_sent (sent_to_client ctx c)) (authenticate ctx c)"
    and "gives (\<lambda>(e, c'). same_redirects c c') (authenticate ctx c)"
proof -
  let ?call = "\<lambda>i. if c_AuthorizationRequestProfile c = AuthorizationRequestProfileHumanConfidentialBFF
      then strict_callback ctx (Policy (az_AuthPolicies (ac_conf ctx)) i) c
      else legacy_callback ctx (Policy (az_AuthPolicies (ac_conf ctx)) i) c"
  have call: "gives (\<lambda>(r, c'). same_redirects c c') (?call i)" for i
    by (intro gives_cases callback_redirects assms gives_mono [OF strict_callback_redirects]) auto
  show "keeps (all_sent (sent_to_client ctx c)) (authenticate ctx c)"
    unfolding authenticate_def Let_def
    by (rule keeps_try [OF keeps_get], rule keeps_if, (intro frame_intros)[1], rule keeps_gives [OF _ call], (intro frame_intros)[1])
      (clarsimp simp: sent_to_same [symmetric]; intro conjI impI frame_intros sends_finishSuccess assms)
  show "gives (\<lambda>(e, c'). same_redirects c c') (authenticate ctx c)"
    unfolding authenticate_def Let_def
    by (rule gives_then, rule gives_cases(1), (intro give_intros)[1], rule gives_try [OF call]) (auto intro!: give_intros)
qed

text \<open>A client that a first part hands on unchanged in its redirects.\<close>

lemma keeps_same:
  assumes "keeps (all_sent (sent_to_client ctx c)) m" "gives (\<lambda>(x, c'). same_redirects c c') m"
    and "\<And>x c'. same_redirects c c' \<Longrightarrow> keeps (all_sent (sent_to_client ctx c')) (k x c')"
  shows "keeps (all_sent (sent_to_client ctx c)) (tryM m (\<lambda>(x, c'). k x c'))"
  using assms(1,2) by (rule keeps_gives) (auto simp: sent_to_same [symmetric] intro: assms(3))

lemma gives_same:
  assumes "gives (\<lambda>(x, c'). same_redirects c c') m"
    and "\<And>x c'. same_redirects c c' \<Longrightarrow> gives (\<lambda>(y, c''). same_redirects c' c'') (k x c')"
  shows "gives (\<lambda>(y, c''). same_redirects c c'') (tryM m (\<lambda>(x, c'). k x c'))"
  using assms(1) by (rule gives_try) (auto intro!: gives_mono [OF assms(2)] intro: same_redirects_trans)

lemma begun_session:
  assumes "respectful ctx"
  shows "keeps (all_sent (sent_to_client ctx c)) (begin_session ctx c federated)"
    and "gives (\<lambda>(e, c'). same_redirects c c') (begin_session ctx c federated)"
proof -
  have prepared: "gives (\<lambda>(i, c'). same_redirects c c') (setup_policy ctx (az_AuthPolicies (ac_conf ctx)) c)"
    using assms by (intro setup_redirects) (simp add: respectful_def)
  show "keeps (all_sent (sent_to_client ctx c)) (begin_session ctx c federated)"
    unfolding begin_session_def
    by (rule keeps_same [OF quiet_setup prepared], intro frame_intros authenticated_client(1) assms)
  show "gives (\<lambda>(e, c'). same_redirects c c') (begin_session ctx c federated)"
    unfolding begin_session_def
    by (rule gives_same [OF prepared], intro gives_then [of _ _ "getM aw_session"] gives_cases(1); (intro gives_ok)?)
      (simp, intro gives_then gives_cases(3) authenticated_client(2) assms gives_ok, simp)
qed

lemma sends_redirecting:
  assumes "keeps (all_sent (sent_to_client ctx c)) m" "gives (\<lambda>(e, c'). same_redirects c c') m"
  shows "keeps (all_sent (sent_to_client ctx c)) (redirecting ctx m)"
  unfolding redirecting_def using assms by (rule keeps_same) (intro frame_intros)

lemma sends_session:
  assumes "respectful ctx"
  shows "keeps (all_sent (sent_to_client ctx c)) (redirecting ctx (
    tryM (acquire_session ctx req c federated) (\<lambda>(e, c'). case e of
       Some err \<Rightarrow> okM (Some err, c')
     | None \<Rightarrow> begin_session ctx c' federated)))"
  by (rule sends_redirecting, rule keeps_same [OF quiet_acquisition acquired_client], intro frame_intros begun_session(1) assms)
    (rule gives_same [OF acquired_client], rule gives_cases(3), intro begun_session(2) assms, intro gives_ok, simp)
text \<open>From a browser that was sent nothing.\<close>

definition emits :: "(browser_output \<Rightarrow> bool) \<Rightarrow> ('st, 'a) A \<Rightarrow> bool" where
  "emits R m \<longleftrightarrow> (\<forall>w r w'. m w = (r, w') \<longrightarrow> aw_sent w = [] \<longrightarrow> list_all R (aw_sent w'))"

lemma emits_keeps: "keeps (all_sent S) m \<Longrightarrow> (\<And>out. S out \<Longrightarrow> R out) \<Longrightarrow> emits R m"
proof -
  assume k: "keeps (all_sent S) m" and mono: "\<And>out. S out \<Longrightarrow> R out"
  have "list_all R (aw_sent w')" if "m w = (r, w')" "aw_sent w = []" for w r w'
    using keepsD [OF k that(1)] that(2) mono by (simp add: list.pred_mono_strong)
  then show ?thesis unfolding emits_def by blast
qed

lemma emits_try:
  "keeps (\<lambda>w. aw_sent w = []) m \<Longrightarrow> gives S m \<Longrightarrow> (\<And>x. S x \<Longrightarrow> emits R (k x)) \<Longrightarrow> emits R (tryM m k)"
proof -
  assume k: "keeps (\<lambda>w. aw_sent w = []) m" and g: "gives S m" and rest: "\<And>x. S x \<Longrightarrow> emits R (k x)"
  have "list_all R (aw_sent w')" if run: "tryM m k w = (r, w')" and none: "aw_sent w = []" for w r w'
  proof -
    obtain s v where m: "m w = (s, v)" by fastforce
    then have v: "aw_sent v = []" using keepsD [OF k] none by simp
    show ?thesis
    proof (cases s)
      case (Inl e)
      then show ?thesis using run m v by (simp add: tryM_def)
    next
      case (Inr x)
      then have "k x v = (r, w')" "S x" using run m givesD [OF g] by (auto simp: tryM_def)
      then show ?thesis using rest v unfolding emits_def by blast
    qed
  qed
  then show ?thesis unfolding emits_def by blast
qed

lemma emits_pair:
  "keeps (\<lambda>w. aw_sent w = []) m \<Longrightarrow> gives (\<lambda>(x, y). S x y) m \<Longrightarrow> (\<And>x y. S x y \<Longrightarrow> emits R (k x y)) \<Longrightarrow>
     emits R (tryM m (\<lambda>(x, y). k x y))"
  by (erule (1) emits_try) auto

lemma emits_run:
  "emits R m \<Longrightarrow> (\<And>r. keeps (all_sent R) (k r)) \<Longrightarrow> emits R (runM m k)"
  unfolding emits_def by (auto simp: runM_def split: prod.splits) (metis keepsD)

lemma emits_guard: "emits R k \<Longrightarrow> emits R (guardM b e k)"
  by (simp add: emits_def guardM_def)


lemma emits_option: "emits R m \<Longrightarrow> (\<And>y. emits R (g y)) \<Longrightarrow> emits R (case o' of None \<Rightarrow> m | Some y \<Rightarrow> g y)"
  by (cases o') simp_all

lemma emits_quiet: "keeps (\<lambda>w. aw_sent w = []) m \<Longrightarrow> emits R m"
  unfolding emits_def keeps_def by auto

section \<open>Destinations\<close>

text \<open>The clients an identifier may stand for: the configured, resolved or registered one, or the one the federation vouches
  for.\<close>

definition resolves :: "'st AuthorizeContext \<Rightarrow> string \<Rightarrow> Client \<Rightarrow> bool" where
  "resolves ctx i c \<longleftrightarrow>
     (\<exists>w w'. Client_of (ac ctx) i w = (Inr c, w')) \<or> (\<exists>n chain. az_FederationClient (ac_conf ctx) n i chain = Inr c)"

definition destination :: "'st AuthorizeContext \<Rightarrow> string \<Rightarrow> browser_output \<Rightarrow> bool" where
  "destination ctx i out \<longleftrightarrow>
     (\<exists>c. resolves ctx i c \<and> sent_to_client ctx c out) \<or>
     (\<exists>entry. out = Redirected (az_HumanIdentityInteractionEndpoint (ac_conf ctx) @ ''#'' @ entry))"

lemma to_destination: "resolves ctx i c \<Longrightarrow> sent_to_client ctx c out \<Longrightarrow> destination ctx i out"
  unfolding destination_def by blast

lemma admitted_client: "gives (\<lambda>(c', strict). c' = c) (authorizationAdmissionClient ctx c)"
  unfolding authorizationAdmissionClient_def cloneHumanConfidentialBFFClient_def gives_def
  by (auto simp: ok_simps split: if_splits)

lemma admitted_resolves: "resolves ctx i c \<Longrightarrow> gives (\<lambda>(c', strict). resolves ctx i c') (authorizationAdmissionClient ctx c)"
  by (rule gives_mono [OF admitted_client]) auto

lemma federation_client: "gives (resolves ctx (ar_ClientID req)) (federationClient ctx req)"
  unfolding federationClient_def gives_def resolves_def by (auto simp: ok_simps)

lemma loaded_client: "gives (resolves ctx i) (Client_of (ac ctx) i)"
  unfolding gives_def resolves_def by blast

lemma requested_client: "gives (\<lambda>(c, federated). resolves ctx (ar_ClientID req) c) (request_client ctx req)"
proof -
  have fed: "gives (\<lambda>(c, f). resolves ctx (ar_ClientID req) c) (tryM (federationClient ctx req) (\<lambda>c. okM (c, True)))"
    by (rule gives_try [OF federation_client]) (simp add: gives_ok)
  have "gives (\<lambda>(c, f). resolves ctx (ar_ClientID req) c) (runM (Client_of (ac ctx) (ar_ClientID req)) (\<lambda>r. case r of
        Inl err \<Rightarrow> guardM (\<not> errors_Is err ErrNotFound) err (tryM (federationClient ctx req) (\<lambda>c. okM (c, True)))
      | Inr c \<Rightarrow>
          tryM (if c_ExpiresAt c \<noteq> 0 then tryM (TimestampNow (ac ctx)) (\<lambda>now. okM (now \<ge> c_ExpiresAt c)) else okM False) (\<lambda>expired.
          if expired then tryM (federationClient ctx req) (\<lambda>c'. okM (c', True)) else okM (c, False))))"
    (is "gives ?R (runM ?m ?k)")
  proof -
    have "?R x" if run: "runM ?m ?k w = (Inr x, w')" for w x w'
    proof -
      obtain s v where m: "?m w = (s, v)" by fastforce
      have "gives ?R (?k s)"
      proof (cases s)
        case (Inl e)
        then show ?thesis by (simp add: gives_guard fed)
      next
        case (Inr c)
        then have "resolves ctx (ar_ClientID req) c" using givesD [OF loaded_client] m by simp
        then show ?thesis using Inr by (simp add: gives_then gives_cases(1) gives_ok fed)
      qed
      then show ?thesis using run m givesD by (fastforce simp: runM_def)
    qed
    then show ?thesis unfolding gives_def by blast
  qed
  then show ?thesis
    unfolding request_client_def
    by (intro gives_cases(1) gives_try [OF loaded_client]) (simp add: gives_ok)
qed

lemma emits_seeOther:
  "emits (destination ctx i) (seeOther (az_HumanIdentityInteractionEndpoint (ac_conf ctx) @ ''#'' @ entry))"
proof (rule emits_keeps)
  show "keeps (all_sent (destination ctx i)) (seeOther (az_HumanIdentityInteractionEndpoint (ac_conf ctx) @ ''#'' @ entry))"
    unfolding seeOther_def by (intro frame_intros keeps_mod) (auto simp: destination_def)
qed

lemma emits_start: "emits (destination ctx i) (startHumanConfidentialBFFAuthorization ctx req c)"
proof -
  have quiet: "emits (destination ctx i) (failM e)" for e :: authorize_error
    by (rule emits_quiet) (rule keeps_fail)
  show ?thesis
    unfolding startHumanConfidentialBFFAuthorization_def prod.case
    by (intro emits_guard emits_option quiet emits_try [OF sent_baseM gives_any] emits_try [OF quiet_parts(7) gives_any] emits_seeOther)
qed

lemma emits_initAuth:
  assumes "respectful ctx"
  shows "emits (destination ctx (ar_ClientID req)) (initAuth ctx req)"
proof -
  have strict_or_session: "emits (destination ctx (ar_ClientID req)) (
      if strict then startHumanConfidentialBFFAuthorization ctx req c
      else guardM b1 e1 (guardM b2 e2 (redirecting ctx (
         tryM (acquire_session ctx req c federated) (\<lambda>(e, c'). case e of
            Some err \<Rightarrow> okM (Some err, c')
          | None \<Rightarrow> begin_session ctx c' federated)))))"
    if "resolves ctx (ar_ClientID req) c" for strict c b1 e1 b2 e2 federated
    using that by (auto intro!: emits_start emits_guard emits_keeps [OF sends_session [OF assms]] to_destination)
  show ?thesis
    unfolding initAuth_def
    by (intro emits_guard, rule emits_pair [OF sent_baseM gives_baseM [OF gives_mapErr [OF requested_client]]],
      erule emits_pair [OF sent_baseM gives_baseM [OF admitted_resolves]],
      intro emits_try [OF keeps_check gives_any] emits_guard strict_or_session)
qed

lemma emits_render: "emits R m \<Longrightarrow> emits R (render_or_write ctx m)"
  unfolding render_or_write_def by (erule emits_run) (intro frame_intros)

text \<open>The request that a call of the authorization endpoint carries.\<close>

definition endpoint_request :: "'st AuthorizeContext \<Rightarrow> request" where
  "endpoint_request ctx =
     (let r = cx_Request (ac ctx); lib = cx_Lib (ac ctx) in
      if rq_Method r = ''POST'' then newFormRequest lib (ac_Lib ctx) r else newRequest lib (ac_Lib ctx) r)"

lemma emits_handler: "respectful ctx \<Longrightarrow> emits (destination ctx (ar_ClientID (endpoint_request ctx))) (handler ctx)"
  unfolding handler_def endpoint_request_def Let_def
  by (auto intro!: emits_render emits_initAuth intro: emits_quiet frame_intros split: option.splits)


text \<open>A request without a response type is answered by a redirect to the registered URI.\<close>

definition browser_client :: Client where
  "browser_client = sample_client\<lparr>c_RedirectURIs := [''cb''], c_GrantTypes := [GrantAuthorizationCode]\<rparr>"

definition browser_Context :: "Manager AuthorizeContext" where
  "browser_Context = jar_Context
    \<lparr>ac := (ac jar_Context)\<lparr>cx := (cx (ac jar_Context))\<lparr>cf_StaticClients := [browser_client], cf_LegacyAuthorizationCodeEnabled := True\<rparr>,
       cx_Request := zero_Request\<lparr>rq_Method := ''POST'',
         rq_PostForm := [(''client_id'', [''c1'']), (''redirect_uri'', [''cb'']), (''state'', [''xyz''])]\<rparr>\<rparr>,
     ac_conf := base_AuthorizeConfiguration\<rparr>"

lemma browser_sent:
  "aw_sent (snd (handler browser_Context (start_AuthorizeWorld (NewManager 1) 0))) = [Redirected ''cb'']"
  by code_simp

lemma browser_respectful: "respectful browser_Context"
  by (simp add: respectful_def browser_Context_def jar_Context_def assertion_Context_def sample_Context_def base_Configuration_def
      base_AuthorizeConfiguration_def)


section \<open>The callback\<close>

definition stored_session :: "'st AuthorizeContext \<Rightarrow> string \<Rightarrow> AuthnSession \<Rightarrow> bool" where
  "stored_session ctx i as \<longleftrightarrow> (\<exists>n st st'. m_Auth_Session (cf_Managers (cx (ac ctx))) n i st = (Inr as, st'))"

lemma loaded_session:
  "gives (stored_session ctx i) (loadSession (\<lambda>n. m_Auth_Session (cf_Managers (cx (ac ctx))) n i))"
  unfolding gives_def stored_session_def loadSession_def by (auto simp: ok_simps storeM_def split: prod.splits)

lemma emits_continueAuth:
  assumes "respectful ctx"
  shows "emits (\<lambda>out. \<exists>as. stored_session ctx i as \<and> destination ctx (as_ClientID as) out) (continueAuth ctx i)"
proof -
  have session: "emits (\<lambda>out. \<exists>as. stored_session ctx i as \<and> destination ctx (as_ClientID as) out) (redirecting ctx (authenticate ctx c))"
    if "stored_session ctx i as" "resolves ctx (as_ClientID as) c" for as c
    by (rule emits_keeps [OF sends_redirecting [OF authenticated_client [OF assms]]]) (use that in \<open>blast intro: to_destination\<close>)
  show ?thesis
    unfolding continueAuth_def
    by (rule emits_try [OF keeps_mapErr [OF sent_session(2)] gives_mapErr [OF loaded_session]],
      intro emits_try [OF sent_baseM gives_any] emits_guard,
      rule emits_try [OF keeps_mapErr [OF sent_baseM] gives_mapErr [OF gives_baseM [OF loaded_client]]],
      erule emits_pair [OF sent_baseM gives_baseM [OF admitted_resolves]],
      intro emits_try [OF sent_baseM gives_any] session)
qed

text \<open>The same for the callback that continues an interaction: what it sends goes to a redirect URI of the client to which
  the stored authentication session belongs.\<close>

theorem callback_destinations:
  assumes "respectful ctx" "handlerCallback ctx w = (r, w')" "aw_sent w = []" "out \<in> set (aw_sent w')"
  shows "\<exists>as. stored_session ctx (rt_callback (ac_Transport ctx)) as \<and> destination ctx (as_ClientID as) out"
  using emits_render [OF emits_continueAuth [OF assms(1)]] assms(2-4)
  unfolding handlerCallback_def emits_def list_all_iff by blast

text \<open>A stored session whose policy is no longer configured ends with access denied at the registered URI.\<close>

definition callback_Context :: "Manager AuthorizeContext" where
  "callback_Context = browser_Context
    \<lparr>ac := (ac browser_Context)\<lparr>cx := (cx (ac browser_Context))\<lparr>cf_Managers := (cf_Managers (cx (ac browser_Context)))
       \<lparr>m_Auth_Session := (\<lambda>n i st. (Inr (zero_AuthnSession\<lparr>as_ClientID := ''c1'', as_PolicyID := ''gone'', as_ExpiresAt := 9,
          as_AuthorizationParameters := zero_AuthorizationParameters\<lparr>ap_RedirectURI := ''cb''\<rparr>\<rparr>), st))\<rparr>\<rparr>\<rparr>\<rparr>"

lemma callback_sent:
  "aw_sent (snd (handlerCallback callback_Context (start_AuthorizeWorld (NewManager 1) 0))) = [Redirected ''cb'']"
  by code_simp

theorem callback_destinations_witness:
  "\<exists>as. stored_session callback_Context (rt_callback (ac_Transport callback_Context)) as \<and>
     destination callback_Context (as_ClientID as) (Redirected ''cb'')"
proof (rule callback_destinations)
  show "respectful callback_Context" using browser_respectful by (simp add: callback_Context_def respectful_def)
  show "handlerCallback callback_Context (start_AuthorizeWorld (NewManager 1) 0)
    = (fst (handlerCallback callback_Context (start_AuthorizeWorld (NewManager 1) 0)),
       snd (handlerCallback callback_Context (start_AuthorizeWorld (NewManager 1) 0)))" by simp
  show "Redirected ''cb'' \<in> set (aw_sent (snd (handlerCallback callback_Context (start_AuthorizeWorld (NewManager 1) 0))))"
    by (simp add: callback_sent)
qed (simp add: start_AuthorizeWorld_def)
end
