(* ===== verification/PushedRequests.thy ===== *)
theory PushedRequests
  imports AuthorizeSafety
begin

text \<open>
  Pushed authorization requests, \<^verbatim>\<open>internal/authorize/par.go\<close> and \<^verbatim>\<open>handlerPAR\<close> of \<^verbatim>\<open>internal/authorize/api.go\<close>. A client
  authenticates, its request is validated, and either the authority of the human flow stores it (strict clients) or a session of
  the provider does. A strict client has left \<^verbatim>\<open>pushAuth\<close> before the session is built, so the branches of the rest on
  \<^verbatim>\<open>strictHumanAdmission\<close> are not reachable and have no counterpart here.
\<close>

section \<open>Parts\<close>

record parResponse =
  par_RequestURI :: string
  par_ExpiresIn :: int

definition parRequestContextError :: "'st AuthorizeContext \<Rightarrow> ('st, unit) M" where
  "parRequestContextError ctx =
     tryM (ctx_Err (ac ctx)) (\<lambda>e. case e of
        Some err \<Rightarrow> failM (WrapError ErrorCodeServerError ''server error'' err)
      | None \<Rightarrow> okM ())"

definition clientAssertionAuthoritiesEqual ::
  "VerifiedClientAssertionAuthority option \<Rightarrow> VerifiedClientAssertionAuthority option \<Rightarrow> bool" where
  "clientAssertionAuthoritiesEqual left right =
     (case (left, right) of (Some l, Some r) \<Rightarrow> l = r | (None, None) \<Rightarrow> True | _ \<Rightarrow> False)"

definition dpopThumbprintForPAR :: "'st AuthorizeContext \<Rightarrow> request \<Rightarrow> string" where
  "dpopThumbprintForPAR ctx req =
     (if \<not> cf_DPoPEnabled (cx (ac ctx)) then ''''
      else case DPoP_JWT (ac ctx) of
        Some dpopJWT \<Rightarrow> JWKThumbprint (cx_Lib (ac ctx)) dpopJWT (cf_DPoPSigAlgs (cx (ac ctx)))
      | None \<Rightarrow> ap_DPoPJKT (ar_Params req))"

text \<open>The \<^verbatim>\<open>tlsThumbprint\<close> of this package has the body of the one of the token package.\<close>

definition federationClientForPAR :: "'st AuthorizeContext \<Rightarrow> string \<Rightarrow> request \<Rightarrow> ('st, Client) M" where
  "federationClientForPAR ctx i req =
     (let jar = az_JAREnabled (ac_conf ctx) \<and> ap_RequestObject (ar_Params req) \<noteq> '''' in
      tryM (callE (\<lambda>n. az_FederationClient (ac_conf ctx) n i
        (if jar then Some (jarTrustChain (cx_Lib (ac ctx)) (ac_Lib ctx) (ap_RequestObject (ar_Params req)) (az_JARSigAlgs (ac_conf ctx)))
         else None))) (\<lambda>c.
      guardM (\<not> (jar \<or> c_TokenAuthnMethod c = AuthnMethodPrivateKeyJWT \<or> c_TokenAuthnMethod c = AuthnMethodSelfSignedTLS))
        (WrapError ErrorCodeAccessDenied ''access denied''
          (ErrNew ''automatic federation registration during PAR requires asymmetric client authentication or a signed request object'')) (
      guardM (ClientRegistrationTypeAutomatic \<notin> set (c_ClientRegistrationTypes c)) not_automatic (
      Authenticate (ac ctx) c AuthnContextPAR))))"

text \<open>The authenticated client, and whether it is registered from the federation.\<close>

definition par_client :: "'st AuthorizeContext \<Rightarrow> request \<Rightarrow> ('st, Client \<times> bool) M" where
  "par_client ctx req =
     (let plain = tryM (Authenticated (ac ctx) AuthnContextPAR) (\<lambda>c. okM (c, False)) in
      if \<not> cf_OpenIDFedEnabled (cx (ac ctx)) \<or> ClientRegistrationTypeAutomatic \<notin> set (az_OpenIDFedClientRegTypes (ac_conf ctx))
      then plain
      else
        tryM (liftE (ExtractID (ac ctx))) (\<lambda>i.
        if \<not> IsURL (cx_Lib (ac ctx)) i then plain
        else runM (Authenticated (ac ctx) AuthnContextPAR) (\<lambda>r. case r of
          Inl err \<Rightarrow> guardM (\<not> errors_Is err ErrNotFound) err (tryM (federationClientForPAR ctx i req) (\<lambda>c. okM (c, True)))
        | Inr c \<Rightarrow>
            tryM (if c_ExpiresAt c \<noteq> 0 then tryM (TimestampNow (ac ctx)) (\<lambda>now. okM (now \<ge> c_ExpiresAt c)) else okM False) (\<lambda>expired.
            if expired then tryM (federationClientForPAR ctx i req) (\<lambda>c'. okM (c', True)) else okM (c, False)))))"

section \<open>The strict request\<close>

definition strict_par_input :: "AuthorizationParameters \<Rightarrow> Client \<Rightarrow> VerifiedClientAssertionAuthority \<Rightarrow> HumanPARInput" where
  "strict_par_input p c authority =
     \<lparr>hpi_clientID = c_ID c, hpi_clientAssertionAuthority = authority, hpi_redirectURI = ap_RedirectURI p,
      hpi_scopes = strings_Fields (ap_Scopes p), hpi_resources = elems (ap_Resources p), hpi_state = ap_State p,
      hpi_nonce = ap_Nonce p, hpi_codeChallenge = ap_CodeChallenge p, hpi_prompt = ap_Prompt p,
      hpi_maxAuthenticationAge = ap_MaxAuthnAgeSecs p, hpi_acrValues = strings_Fields (ap_ACRValues p)\<rparr>"

definition pushHumanConfidentialBFFAuthorization ::
  "'st AuthorizeContext \<Rightarrow> request \<Rightarrow> Client \<Rightarrow> VerifiedClientAssertionAuthority option \<Rightarrow> ('st, parResponse) A" where
  "pushHumanConfidentialBFFAuthorization ctx req c clientAssertionAuthority =
     (let p = ar_Params req; refused = (\<lambda>m. PlainError (strict_server_error m)) in
      tryM (validateSimplePushedRequest ctx req c) (\<lambda>_.
      tryM (validateParams ctx p c) (\<lambda>_.
      case clientAssertionAuthority of
        None \<Rightarrow> failM (refused ''the strict pushed request is outside current authorization authority'')
      | Some authority \<Rightarrow>
          guardM (\<not> humanConfidentialBFFAtomicPARMatchesCurrentAuthority ctx p c clientAssertionAuthority)
            (refused ''the strict pushed request is outside current authorization authority'') (
          case NewHumanPARInput (cx_Lib (ac ctx)) (strict_par_input p c authority) of
            None \<Rightarrow> failM (refused ''invalid human authorization value'')
          | Some input \<Rightarrow>
              tryM (baseM (parRequestContextError ctx)) (\<lambda>_.
              tryM (baseM (HumanStorePAR (ac ctx) (az_HumanFlow (ac_conf ctx)) input)) (\<lambda>decision.
              guardM (\<not> HumanPARDecision_Valid decision)
                (refused ''the strict pushed-request authority returned a malformed decision'') (
              guardM (case decision of None \<Rightarrow> False | Some d \<Rightarrow> hpd_outcome d = HumanPAROutcomeRejected)
                (PlainError (invalidHumanConfidentialBFFRequest ''the pushed authorization request was rejected'')) (
              case HumanPARDecision_Receipt decision of
                None \<Rightarrow> failM (refused ''the strict pushed-request authority omitted its committed receipt'')
              | Some receipt \<Rightarrow>
                  (case HumanPushedRequestURI_Render (hpr_requestURI receipt) of
                     None \<Rightarrow> failM (refused ''invalid human authorization value'')
                   | Some requestURI \<Rightarrow> okM \<lparr>par_RequestURI = requestURI, par_ExpiresIn = hpr_expiresInSeconds receipt\<rparr>)))))))))"

section \<open>The session of a pushed request\<close>

text \<open>The session is built from the parameters of the request object or of the form. The struct literal of the first reads the
  clock twice, that of the second once and before the identifiers.\<close>

definition pushed_session ::
  "'st AuthorizeContext \<Rightarrow> request \<Rightarrow> Client \<Rightarrow> VerifiedClientAssertionAuthority option \<Rightarrow> AuthorizationParameters \<Rightarrow> string \<Rightarrow> string
    \<Rightarrow> string \<Rightarrow> int \<Rightarrow> int \<Rightarrow> string \<Rightarrow> AuthnSession" where
  "pushed_session ctx req c authority params i pid parID created expires cert =
     zero_AuthnSession\<lparr>as_ID := i, as_PersistenceID := pid, as_Status := StatusPending, as_PushedAuthReqID := parID,
       as_ClientID := c_ID c, as_AuthorizationRequestProfile := c_AuthorizationRequestProfile c,
       as_ClientAssertionAuthority := authority, as_AuthorizationParameters := params, as_CreatedAt := created, as_ExpiresAt := expires,
       as_JWKThumbprint := dpopThumbprintForPAR ctx req, as_ClientCertThumbprint := cert, as_Store := []\<rparr>"

definition par_session ::
  "'st AuthorizeContext \<Rightarrow> request \<Rightarrow> Client \<Rightarrow> VerifiedClientAssertionAuthority option \<Rightarrow> bool \<Rightarrow> ('st, Client) A" where
  "par_session ctx req c authority federated =
     (let conf = ac_conf ctx; p = ar_Params req;
          sessionID = callM (az_AuthSessionIDFunc conf); persistenceID = callM (az_AuthSessionPersistenceIDFunc conf);
          parID = callM (az_PARIDFunc conf) in
      if az_JAREnabled conf \<and> (az_JARRequired conf \<or> c_JARRequired c \<or> ap_RequestObject p \<noteq> '''') then
        guardM (ap_RequestObject p = '''') (PlainError (invalid_request ''request object is required'')) (
        tryM (baseM (jarFromRequestObject ctx (ap_RequestObject p) c federated)) (\<lambda>(jar, c').
        tryM (validatePushedRequestWithJAR ctx req jar c') (\<lambda>_.
        tryM (baseM sessionID) (\<lambda>i. tryM (baseM persistenceID) (\<lambda>pid. tryM (baseM parID) (\<lambda>rid.
        tryM (baseM (TimestampNow (ac ctx))) (\<lambda>created. tryM (baseM (TimestampNow (ac ctx))) (\<lambda>now.
        tryM (baseM (tlsThumbprint (ac ctx))) (\<lambda>cert.
        tryM (freshSession (pushed_session ctx req c' authority (ar_Params jar) i pid rid created (now + az_PARLifetimeSecs conf) cert)) (\<lambda>_.
        okM c'))))))))))
      else
        tryM (validateSimplePushedRequest ctx req c) (\<lambda>_.
        tryM (baseM (TimestampNow (ac ctx))) (\<lambda>created.
        tryM (baseM sessionID) (\<lambda>i. tryM (baseM persistenceID) (\<lambda>pid. tryM (baseM parID) (\<lambda>rid.
        tryM (baseM (tlsThumbprint (ac ctx))) (\<lambda>cert.
        tryM (freshSession (pushed_session ctx req c authority p i pid rid created (created + az_PARLifetimeSecs conf) cert)) (\<lambda>_.
        okM c))))))))"

definition handled_session_error :: "go_error \<Rightarrow> authorize_error" where
  "handled_session_error err =
     PlainError (case errors_As err of Some oidcErr \<Rightarrow> oidcErr
       | None \<Rightarrow> ErrWrapf ''could not handle the pushed authorization request session'' err)"

text \<open>From the built session to the stored one: the handler of the application may change the session and the client, but not
  the evidence of the client's authentication.\<close>

definition store_pushed ::
  "'st AuthorizeContext \<Rightarrow> Client \<Rightarrow> VerifiedClientAssertionAuthority option \<Rightarrow> bool \<Rightarrow> ('st, parResponse) A" where
  "store_pushed ctx c clientAssertionAuthority federated =
     tryM (baseM (parRequestContextError ctx)) (\<lambda>_.
     tryM (sessionCall ctx (az_PARHandleSessionFunc (ac_conf ctx)) c) (\<lambda>(err, c').
     tryM (checkM (map_option handled_session_error err)) (\<lambda>_.
     tryM (getM aw_session) (\<lambda>as.
     guardM (\<not> clientAssertionAuthoritiesEqual (as_ClientAssertionAuthority as) clientAssertionAuthority)
       (PlainError (strict_server_error ''the PAR session handler modified authenticated client assertion authority evidence'')) (
     tryM (assignSession ctx (\<lambda>as. as\<lparr>as_ClientAssertionAuthority := clientAssertionAuthority\<rparr>)) (\<lambda>_.
     tryM (baseM (parRequestContextError ctx)) (\<lambda>_.
     tryM (if federated then mapErrM (wrapPlain ''could not save the federated client for the pushed authorization request'')
             (baseM (storeM (\<lambda>n. m_Fed_SaveClient (cf_Managers (cx (ac ctx))) n c'))) else okM ()) (\<lambda>_.
     tryM (baseM (parRequestContextError ctx)) (\<lambda>_.
     tryM (mapErrM (wrapPlain ''could not save the pushed authorization request session'') (AuthSaveSession ctx)) (\<lambda>_.
     tryM (getM aw_session) (\<lambda>persisted.
     okM \<lparr>par_RequestURI = parRequestURIPrefix @ as_PushedAuthReqID persisted, par_ExpiresIn = az_PARLifetimeSecs (ac_conf ctx)\<rparr>)))))))))))"

section \<open>Pushing\<close>

definition pushAuth :: "'st AuthorizeContext \<Rightarrow> request \<Rightarrow> ('st, parResponse) A" where
  "pushAuth ctx req =
     tryM (baseM BeginClientAssertionAuthentication) (\<lambda>_.
     tryM (baseM (par_client ctx req)) (\<lambda>(c0, federated).
     tryM (baseM (parRequestContextError ctx)) (\<lambda>_.
     tryM (baseM (authorizationAdmissionClient ctx c0)) (\<lambda>(c, strict).
     tryM (checkM (if strict then map_option PlainError (validateHumanConfidentialBFFPushedRequest ctx req) else None)) (\<lambda>_.
     tryM (baseM (mapErrM (WrapError ErrorCodeServerError ''server error'') (ClientAssertionAuthority c))) (\<lambda>authority.
     if strict then pushHumanConfidentialBFFAuthorization ctx req c authority
     else
       guardM (\<not> az_LegacyPAREnabled (ac_conf ctx)) (PlainError (strict_server_error ''legacy pushed-request persistence is unavailable'')) (
       tryM (par_session ctx req c authority federated) (\<lambda>c'. store_pushed ctx c' authority federated))))))))"

definition par_json :: "parResponse \<Rightarrow> json" where
  "par_json resp = JObj [(''request_uri'', JStr (par_RequestURI resp)), (''expires_in'', JInt (par_ExpiresIn resp))]"

text \<open>\<^verbatim>\<open>if err := ctx.Write(resp, status); err != nil { ctx.WriteError(err) }\<close>.\<close>

definition write_or_error :: "'st AuthorizeContext \<Rightarrow> json \<Rightarrow> int \<Rightarrow> ('st, unit) A" where
  "write_or_error ctx obj status =
     runM (baseM (Write (ac ctx) obj status)) (\<lambda>r. case r of Inr _ \<Rightarrow> okM () | Inl err \<Rightarrow> authorize_WriteError ctx err)"

definition handlerPAR :: "'st AuthorizeContext \<Rightarrow> ('st, unit) A" where
  "handlerPAR ctx =
     (case bad_form ctx of
        Some err \<Rightarrow> authorize_WriteError ctx (PlainError err)
      | None \<Rightarrow>
          runM (pushAuth ctx (newFormRequest (cx_Lib (ac ctx)) (ac_Lib ctx) (cx_Request (ac ctx)))) (\<lambda>r. case r of
             Inl err \<Rightarrow> authorize_WriteError ctx err
           | Inr resp \<Rightarrow>
               tryM (baseM (tryM (set_header ''Cache-Control'' ''no-store'') (\<lambda>_. set_header ''Pragma'' ''no-cache''))) (\<lambda>_.
               write_or_error ctx (par_json resp) 201)))"


section \<open>What a pushed request leaves behind\<close>

definition authenticated_for_PAR :: "'st AuthorizeContext \<Rightarrow> Client \<Rightarrow> bool" where
  "authenticated_for_PAR ctx c \<longleftrightarrow>
     (\<exists>v v'. Authenticated (ac ctx) AuthnContextPAR v = (Inr c, v')) \<or> (\<exists>c0 v v'. Authenticate (ac ctx) c0 AuthnContextPAR v = (Inr c, v'))"

lemma federation_PAR_authenticated: "gives (authenticated_for_PAR ctx) (federationClientForPAR ctx i req)"
  unfolding federationClientForPAR_def Let_def gives_def authenticated_for_PAR_def by (auto simp: ok_simps)

lemma gives_run_value:
  assumes "\<And>w r w'. m w = (r, w') \<Longrightarrow> gives Q (k r)"
  shows "gives Q (runM m k)"
  using assms unfolding gives_def runM_def by (auto split: prod.splits)

lemma par_client_authenticated: "gives (\<lambda>(c, federated). authenticated_for_PAR ctx c) (par_client ctx req)"
proof -
  have fed: "gives (\<lambda>(c, federated). authenticated_for_PAR ctx c) (tryM (federationClientForPAR ctx i req) (\<lambda>c. okM (c, True)))" for i
    by (rule gives_try [OF federation_PAR_authenticated]) (simp add: gives_ok)
  have known: "authenticated_for_PAR ctx c" if "Authenticated (ac ctx) AuthnContextPAR v = (Inr c, v')" for c v v'
    using that unfolding authenticated_for_PAR_def by blast
  have plain: "gives (\<lambda>(c, federated). authenticated_for_PAR ctx c) (tryM (Authenticated (ac ctx) AuthnContextPAR) (\<lambda>c. okM (c, False)))"
    unfolding gives_def by (auto simp: ok_simps known)
  show ?thesis
    unfolding par_client_def Let_def
    by (intro gives_cases(1) plain gives_then gives_run_value)
      (auto intro!: gives_guard fed gives_then gives_cases(1) gives_ok known split: sum.split)
qed

text \<open>The two ways a request is stored: by the authority of the human flow, within the authority of the client, or as a session
  that only the application's handler may have changed after it was built for the client.\<close>

definition stored_by_authority :: "'st AuthorizeContext \<Rightarrow> Client \<Rightarrow> parResponse \<Rightarrow> bool" where
  "stored_by_authority ctx c resp \<longleftrightarrow>
     (\<exists>n input d receipt. HumanPARInput_Valid (cx_Lib (ac ctx)) input \<and> hpi_clientID input = c_ID c \<and>
        hpi_redirectURI input \<in> set (c_RedirectURIs c) \<and>
        authority_has_key c (vca_KeyAuthorityID (hpi_clientAssertionAuthority input)) \<and>
        hf_StorePAR (az_HumanFlow (ac_conf ctx)) n input = Some (Inr d) \<and> HumanPARDecision_Receipt d = Some receipt \<and>
        hpr_requestURI receipt = Some (par_RequestURI resp) \<and> validHumanPushedRequestURI (par_RequestURI resp) \<and>
        0 < par_ExpiresIn resp \<and> par_ExpiresIn resp < 600)"

definition stored_as_session ::
  "'st AuthorizeContext \<Rightarrow> Client \<Rightarrow> VerifiedClientAssertionAuthority option \<Rightarrow> parResponse \<Rightarrow> bool" where
  "stored_as_session ctx c authority resp \<longleftrightarrow>
     (\<exists>n built c1 handled c2 m st st'. as_ClientID built = c_ID c \<and> as_Status built = StatusPending \<and>
        as_ClientAssertionAuthority built = authority \<and>
        az_PARHandleSessionFunc (ac_conf ctx) n built c1 = (None, handled, c2) \<and> as_ClientAssertionAuthority handled = authority \<and>
        m_Auth_SaveSession (cf_Managers (cx (ac ctx))) m handled st = (Inr (), st') \<and>
        par_RequestURI resp = parRequestURIPrefix @ as_PushedAuthReqID handled \<and> par_ExpiresIn resp = az_PARLifetimeSecs (ac_conf ctx))"

lemma strict_push_ok:
  assumes "pushHumanConfidentialBFFAuthorization ctx req c authority w = (Inr resp, w')"
  shows "stored_by_authority ctx c resp"
proof -
  let ?p = "ar_Params req"
  have "\<exists>v d u u' receipt. humanConfidentialBFFAtomicPARMatchesCurrentAuthority ctx ?p c (Some v) \<and>
      HumanPARInput_Valid (cx_Lib (ac ctx)) (strict_par_input ?p c v) \<and>
      HumanStorePAR (ac ctx) (az_HumanFlow (ac_conf ctx)) (strict_par_input ?p c v) u = (Inr d, u') \<and>
      HumanPARDecision_Receipt d = Some receipt \<and> HumanPushedRequestURI_Render (hpr_requestURI receipt) = Some (par_RequestURI resp) \<and>
      par_ExpiresIn resp = hpr_expiresInSeconds receipt"
    using assms unfolding pushHumanConfidentialBFFAuthorization_def Let_def
    by (auto simp: ok_simps case_option_ok NewHumanPARInput_def split: if_splits) blast+
  then obtain v d u u' receipt where m: "humanConfidentialBFFAtomicPARMatchesCurrentAuthority ctx ?p c (Some v)"
    and valid: "HumanPARInput_Valid (cx_Lib (ac ctx)) (strict_par_input ?p c v)"
    and s: "HumanStorePAR (ac ctx) (az_HumanFlow (ac_conf ctx)) (strict_par_input ?p c v) u = (Inr d, u')"
    "HumanPARDecision_Receipt d = Some receipt" "HumanPushedRequestURI_Render (hpr_requestURI receipt) = Some (par_RequestURI resp)"
    "par_ExpiresIn resp = hpr_expiresInSeconds receipt" by blast
  obtain n where "hf_StorePAR (az_HumanFlow (ac_conf ctx)) n (strict_par_input ?p c v) = Some (Inr d)"
    using callHuman_ok [OF s(1) [unfolded HumanStorePAR_def]] by blast
  moreover have "hpr_requestURI receipt = Some (par_RequestURI resp)" "validHumanPushedRequestURI (par_RequestURI resp)"
    using s(3) by (auto simp: HumanPushedRequestURI_Render_def HumanPushedRequestURI_Valid_def split: if_splits option.splits)
  moreover have "0 < par_ExpiresIn resp \<and> par_ExpiresIn resp < 600"
    using s(2,4) by (auto simp: HumanPARDecision_Receipt_def HumanPARReceipt_Valid_def split: option.splits if_splits)
  moreover have "ap_RedirectURI ?p \<in> set (c_RedirectURIs c)" "authority_has_key c (vca_KeyAuthorityID v)"
    using m by (auto simp: humanConfidentialBFFAtomicPARMatchesCurrentAuthority_def)
  ultimately show ?thesis
    unfolding stored_by_authority_def using valid s(2)
    by (intro exI [of _ n] exI [of _ "strict_par_input ?p c v"] exI [of _ d] exI [of _ receipt]) (simp add: strict_par_input_def)
qed

lemma jar_client_id: "gives (\<lambda>(req, c'). c_ID c' = c_ID c) (jarFromRequestObject ctx obj c fed)"
  unfolding jarFromRequestObject_def gives_def Let_def
  by (auto simp: ok_simps case_single_ok JWKS_same_client split: if_splits dest!: JWKMatchingHeader_ok)

lemma par_session_ok:
  assumes "par_session ctx req c authority federated w = (Inr c', w')"
  shows "as_ClientID (aw_session w') = c_ID c \<and> as_Status (aw_session w') = StatusPending \<and>
     as_ClientAssertionAuthority (aw_session w') = authority \<and> \<not> aw_sessionShared w'"
  using assms unfolding par_session_def Let_def
  by (auto simp: ok_simps freshSession_def pushed_session_def split: if_splits dest: givesD [OF jar_client_id])

lemma equal_authorities: "clientAssertionAuthoritiesEqual a b \<longleftrightarrow> a = b"
  by (auto simp: clientAssertionAuthoritiesEqual_def split: option.splits)

lemma sessionCall_ok:
  "sessionCall ctx f c w = (Inr (r, c'), w') \<Longrightarrow> \<not> aw_sessionShared w \<Longrightarrow>
     (\<exists>n. f n (aw_session w) c = (r, aw_session w', c')) \<and> \<not> aw_sessionShared w'"
  unfolding sessionCall_def by (auto simp: ok_simps assignSession_def callM_def split: prod.splits)

lemma AuthSaveSession_ok:
  "AuthSaveSession ctx w = (Inr x, w') \<Longrightarrow> aw_session w' = aw_session w \<and>
     (\<exists>n st st'. m_Auth_SaveSession (cf_Managers (cx (ac ctx))) n (aw_session w) st = (Inr (), st'))"
  unfolding AuthSaveSession_def saveSession_def by (auto simp: ok_simps storeM_def split: prod.splits)

lemma store_pushed_ok:
  assumes "store_pushed ctx c authority federated w = (Inr resp, w')" and "\<not> aw_sessionShared w"
  shows "\<exists>n handled c2 m st st'. az_PARHandleSessionFunc (ac_conf ctx) n (aw_session w) c = (None, handled, c2) \<and>
     as_ClientAssertionAuthority handled = authority \<and> m_Auth_SaveSession (cf_Managers (cx (ac ctx))) m handled st = (Inr (), st') \<and>
     par_RequestURI resp = parRequestURIPrefix @ as_PushedAuthReqID handled \<and> par_ExpiresIn resp = az_PARLifetimeSecs (ac_conf ctx)"
proof -
  have "\<exists>v w1 c' w2 u. sessionCall ctx (az_PARHandleSessionFunc (ac_conf ctx)) c (w\<lparr>aw := v\<rparr>) = (Inr (None, c'), w1) \<and>
      as_ClientAssertionAuthority (aw_session w1) = authority \<and>
      assignSession ctx (\<lambda>as. as\<lparr>as_ClientAssertionAuthority := authority\<rparr>) w1 = (Inr (), w2) \<and>
      AuthSaveSession ctx (w2\<lparr>aw := u\<rparr>) = (Inr (), w') \<and>
      resp = \<lparr>par_RequestURI = parRequestURIPrefix @ as_PushedAuthReqID (aw_session w'), par_ExpiresIn = az_PARLifetimeSecs (ac_conf ctx)\<rparr>"
    using assms(1) unfolding store_pushed_def
    by (auto simp: ok_simps equal_authorities split: if_splits) blast+
  then obtain v w1 c' w2 u where c: "sessionCall ctx (az_PARHandleSessionFunc (ac_conf ctx)) c (w\<lparr>aw := v\<rparr>) = (Inr (None, c'), w1)"
    and a: "as_ClientAssertionAuthority (aw_session w1) = authority"
    and w2: "assignSession ctx (\<lambda>as. as\<lparr>as_ClientAssertionAuthority := authority\<rparr>) w1 = (Inr (), w2)"
    and s: "AuthSaveSession ctx (w2\<lparr>aw := u\<rparr>) = (Inr (), w')"
    and resp: "resp = \<lparr>par_RequestURI = parRequestURIPrefix @ as_PushedAuthReqID (aw_session w'), par_ExpiresIn = az_PARLifetimeSecs (ac_conf ctx)\<rparr>"
    by blast
  obtain n where n: "az_PARHandleSessionFunc (ac_conf ctx) n (aw_session w) c = (None, aw_session w1, c')" and sh: "\<not> aw_sessionShared w1"
    using sessionCall_ok [OF c] assms(2) by auto
  have "aw_session w2 = aw_session w1" using w2 sh a by (auto simp: assignSession_def ok_simps)
  with AuthSaveSession_ok [OF s] n a resp show ?thesis by fastforce
qed

definition pushed_for :: "'st AuthorizeContext \<Rightarrow> Client \<Rightarrow> VerifiedClientAssertionAuthority option \<Rightarrow> parResponse \<Rightarrow> bool" where
  "pushed_for ctx c authority resp \<longleftrightarrow>
     authenticated_for_PAR ctx c \<and> (\<exists>v v' :: 'st World. ClientAssertionAuthority c v = (Inr authority, v')) \<and>
     (if c_AuthorizationRequestProfile c = AuthorizationRequestProfileDefault then stored_as_session ctx c authority resp
      else stored_by_authority ctx c resp)"

lemma legacy_push_ok:
  "gives (stored_as_session ctx c authority) (tryM (par_session ctx req c authority federated) (\<lambda>c'. store_pushed ctx c' authority federated))"
  unfolding gives_def
proof (intro allI impI)
  fix w resp w'
  assume "tryM (par_session ctx req c authority federated) (\<lambda>c'. store_pushed ctx c' authority federated) w = (Inr resp, w')"
  then obtain c' w2 where s: "par_session ctx req c authority federated w = (Inr c', w2)"
    and st: "store_pushed ctx c' authority federated w2 = (Inr resp, w')" by (auto simp: ok_simps)
  from par_session_ok [OF s] store_pushed_ok [OF st] show "stored_as_session ctx c authority resp"
    unfolding stored_as_session_def by blast
qed

lemma admitted_profile:
  "gives (\<lambda>(c', strict). c' = c \<and> (strict \<longleftrightarrow> c_AuthorizationRequestProfile c \<noteq> AuthorizationRequestProfileDefault))
     (authorizationAdmissionClient ctx c)"
  unfolding authorizationAdmissionClient_def cloneHumanConfidentialBFFClient_def gives_def
  by (auto simp: ok_simps const_defs split: if_splits)

lemma pushed:
  fixes ctx :: "'st AuthorizeContext"
  shows "gives (\<lambda>resp. \<exists>c authority. pushed_for ctx c authority resp) (pushAuth ctx req)"
proof -
  have evidence: "gives (\<lambda>authority. \<exists>v v' :: 'st World. ClientAssertionAuthority c v = (Inr authority, v'))
      (baseM (mapErrM e (ClientAssertionAuthority c)) :: ('st, VerifiedClientAssertionAuthority option) A)" for c e
    by (intro gives_baseM gives_mapErr) (auto simp: gives_def)
  have last: "gives (\<lambda>resp. \<exists>c authority. pushed_for ctx c authority resp)
      (if strict then pushHumanConfidentialBFFAuthorization ctx req c authority
       else guardM b e (tryM (par_session ctx req c authority federated) (\<lambda>c'. store_pushed ctx c' authority federated)))"
    if "authenticated_for_PAR ctx c" "\<exists>v v' :: 'st World. ClientAssertionAuthority c v = (Inr authority, v')"
      "strict \<longleftrightarrow> c_AuthorizationRequestProfile c \<noteq> AuthorizationRequestProfileDefault" for c authority strict federated b e
  proof (cases strict)
    case True
    have "gives (stored_by_authority ctx c) (pushHumanConfidentialBFFAuthorization ctx req c authority)"
      unfolding gives_def using strict_push_ok by blast
    then have "gives (\<lambda>resp. \<exists>c authority. pushed_for ctx c authority resp) (pushHumanConfidentialBFFAuthorization ctx req c authority)"
      by (rule gives_mono) (use True that in \<open>auto simp: pushed_for_def\<close>)
    then show ?thesis using True by simp
  next
    case False
    have "gives (\<lambda>resp. \<exists>c authority. pushed_for ctx c authority resp)
        (tryM (par_session ctx req c authority federated) (\<lambda>c'. store_pushed ctx c' authority federated))"
      by (rule gives_mono [OF legacy_push_ok]) (use False that in \<open>auto simp: pushed_for_def\<close>)
    then show ?thesis using False by (simp add: gives_guard)
  qed
  show ?thesis
    unfolding pushAuth_def
    by (rule gives_then, rule gives_try [OF gives_baseM [OF par_client_authenticated]], rule gives_cases(2), simp only: prod.case,
      rule gives_then, rule gives_try [OF gives_baseM [OF admitted_profile]], rule gives_cases(2), simp only: prod.case,
      rule gives_then, rule gives_try [OF evidence], rule last) auto
qed

section \<open>Using a pushed request\<close>

lemma TimestampNow_ok: "TimestampNow ctx w = (Inr now, w') \<Longrightarrow> \<exists>n. now = l_Now (cx_Lib ctx) n div second"
  unfolding TimestampNow_def by (auto simp: ok_simps)

lemma with_PAR_ok:
  assumes "validateRequestWithPAR ctx req as c w = (Inr u, w')"
  shows "as_ClientID as = ar_ClientID req \<and> as_Status as = StatusPending \<and>
     (\<exists>n. l_Now (cx_Lib (ac ctx)) n div second < as_ExpiresAt as) \<and>
     registered_redirect ctx c (ap_RedirectURI (mergeParams (as_AuthorizationParameters as) (ar_Params req)))"
  using assms unfolding validateRequestWithPAR_def
  by (auto simp: ok_simps not_le dest!: TimestampNow_ok dest: in_out_redirect)

lemma loaded_pushed:
  "loadSession f w = (Inr as, w') \<Longrightarrow> aw_session w' = as \<and> aw_sessionShared w' \<and> (\<exists>n st st'. f n st = (Inr as, st'))"
  unfolding loadSession_def by (auto simp: ok_simps storeM_def split: prod.splits)

lemma with_PAR_frame: "off_base P \<Longrightarrow> keeps P (validateRequestWithPAR ctx req as c)"
  unfolding validateRequestWithPAR_def by (intro frame_intros off_base_baseM; assumption)

lemma saved_failed:
  assumes "saveAs ctx StatusFailure message w = (Inr (), w')" "aw_sessionShared w"
  shows "\<exists>n st st'. m_Auth_SaveSession (cf_Managers (cx (ac ctx))) n (aw_session w\<lparr>as_Status := StatusFailure\<rparr>) st = (Inr (), st')"
proof -
  obtain w1 where "assignSession ctx (\<lambda>as. as\<lparr>as_Status := StatusFailure\<rparr>) w = (Inr (), w1)" and s: "AuthSaveSession ctx w1 = (Inr (), w')"
    using assms(1) unfolding saveAs_def by (auto simp: ok_simps)
  then have "aw_session w1 = aw_session w\<lparr>as_Status := StatusFailure\<rparr>" using assms(2) by (auto simp: assignSession_def Let_def)
  with AuthSaveSession_ok [OF s] show ?thesis by auto
qed

text \<open>The parameters a pushed request is continued with.\<close>

definition pushed_parameters :: "'st AuthorizeContext \<Rightarrow> request \<Rightarrow> AuthnSession \<Rightarrow> AuthorizationParameters" where
  "pushed_parameters ctx req as =
     (if Profile_IsFAPI (cf_Profile (cx (ac ctx))) then as_AuthorizationParameters as
      else mergeParams (as_AuthorizationParameters as) (ar_Params req))"

lemma merged_session:
  assumes "merge_session ctx req w = (Inr (), w')" "aw_sessionShared w"
  shows "as_AuthorizationParameters (aw_session w') = pushed_parameters ctx req (aw_session w)"
  using assms by (auto simp: merge_session_def pushed_parameters_def assignSession_def Let_def split: if_splits)


subsection \<open>Concrete requests\<close>

definition push_client :: Client where
  "push_client = browser_client\<lparr>c_AuthorizationRequestProfile := AuthorizationRequestProfileDefault\<rparr>"

definition push_Context :: "Manager AuthorizeContext" where
  "push_Context = browser_Context
    \<lparr>ac := (ac browser_Context)\<lparr>cx := (cx (ac browser_Context))\<lparr>cf_StaticClients := [push_client]\<rparr>,
       cx_Lib := cx_Lib assertion_Context,
       cx_Request := zero_Request\<lparr>rq_Method := ''POST'',
         rq_PostForm := [(''client_assertion'', [''h.YQ.s'']), (''client_assertion_type'', [AssertionTypeJWTBearer]),
           (''redirect_uri'', [''cb'']), (''state'', [''xyz''])]\<rparr>\<rparr>,
     ac_conf := base_AuthorizeConfiguration\<lparr>az_LegacyPAREnabled := True, az_PAREnabled := True, az_PARLifetimeSecs := 60\<rparr>\<rparr>"

definition push_request :: request where
  "push_request = newFormRequest (cx_Lib (ac push_Context)) (ac_Lib push_Context) (cx_Request (ac push_Context))"

lemma push_accepted:
  "map_sum (\<lambda>_. ()) par_ExpiresIn (fst (pushAuth push_Context push_request (start_AuthorizeWorld (NewManager 1) 0))) = Inr 60"
  by code_simp

definition pushed_sample :: AuthnSession where
  "pushed_sample = zero_AuthnSession\<lparr>as_ClientID := ''c1'', as_Status := StatusPending, as_PushedAuthReqID := ''x'', as_ExpiresAt := 9,
     as_AuthorizationParameters := zero_AuthorizationParameters\<lparr>ap_RedirectURI := ''cb'', ap_ResponseType := ResponseTypeCode\<rparr>\<rparr>"

definition used_client :: Client where
  "used_client = push_client\<lparr>c_ResponseTypes := [ResponseTypeCode]\<rparr>"

definition used_Context :: "Manager AuthorizeContext" where
  "used_Context = push_Context
    \<lparr>ac := (ac push_Context)\<lparr>cx := (cx (ac push_Context))\<lparr>cf_ResponseTypes := [ResponseTypeCode],
       cf_Managers := (cf_Managers (cx (ac push_Context)))\<lparr>m_SessionByPushedAuthReqID := (\<lambda>n i st. (Inr pushed_sample, st))\<rparr>\<rparr>\<rparr>\<rparr>"

definition used_request :: request where
  "used_request = \<lparr>ar_ClientID = ''c1'', ar_Params = zero_AuthorizationParameters\<lparr>ap_RequestURI := parRequestURIPrefix @ ''x''\<rparr>,
     ar_AdmissionTransport = None\<rparr>"

lemma push_used:
  "fst (session_from_PAR used_Context used_request used_client (start_AuthorizeWorld (NewManager 1) 0)) = Inr (None, used_client)"
  by code_simp


end
