(* ===== verification/DeviceAuthorization.thy ===== *)
theory DeviceAuthorization
  imports PushedRequests
begin

text \<open>
  Authorization away from the browser of the client: the device flow (\<^verbatim>\<open>internal/authorize/device.go\<close>) and the start of the
  backchannel flow (\<^verbatim>\<open>initBackAuth\<close> of \<^verbatim>\<open>internal/authorize/ciba.go\<close>), with their handlers of \<^verbatim>\<open>internal/authorize/api.go\<close>. The
  decisions on backchannel sessions are in the theory \<^verbatim>\<open>Ciba\<close>.
\<close>

section \<open>The device flow\<close>

record deviceResponse =
  dv_DeviceCode :: string
  dv_UserCode :: string
  dv_VerificationURI :: string
  dv_VerificationURIComplete :: string
  dv_ExpiresIn :: int
  dv_Interval :: int

definition device_response :: "'st AuthorizeContext \<Rightarrow> AuthnSession \<Rightarrow> deviceResponse" where
  "device_response ctx as =
     (let uri = BaseURL (ac ctx) @ az_DeviceAuthVerificationEndpoint (ac_conf ctx) in
      \<lparr>dv_DeviceCode = as_DeviceCode as, dv_UserCode = as_UserCode as, dv_VerificationURI = uri,
       dv_VerificationURIComplete = (if az_DeviceAuthVerificationURICompleteEnabled (ac_conf ctx)
          then uri @ ''?user_code='' @ as_UserCode as else ''''),
       dv_ExpiresIn = az_DeviceAuthLifetimeSecs (ac_conf ctx), dv_Interval = az_DeviceAuthPollingIntervalSecs (ac_conf ctx)\<rparr>)"

definition initDeviceAuth :: "'st AuthorizeContext \<Rightarrow> request \<Rightarrow> ('st, deviceResponse) A" where
  "initDeviceAuth ctx req =
     (let conf = ac_conf ctx; p = ar_Params req in
      tryM (baseM (Authenticated (ac ctx) AuthnContextDeviceAuth)) (\<lambda>c.
      guardM (GrantDeviceCode \<notin> set (c_GrantTypes c))
        (plainWrap ErrorCodeUnauthorizedClient ''unauthorized client'' ''the client is not allowed to use the device_code grant type'') (
      guardM (az_OpenIDRequired conf \<and> \<not> ContainsOpenID (ap_Scopes p))
        (plainWrap ErrorCodeInvalidRequest ''scope openid is required'' ''scope openid is required'') (
      tryM (validateParamsAsOptionals ctx p c) (\<lambda>_.
      tryM (newAuthnSession ctx p c) (\<lambda>_.
      tryM (setup_policy ctx (az_DevicePolicies conf) c) (\<lambda>(policyID, c').
      guardM (policyID = '''')
        (PlainError (invalid_request ''no authentication policy is available for the device request'')) (
      tryM (assignSession ctx (\<lambda>as. as\<lparr>as_ExpiresAt := as_CreatedAt as + az_DeviceAuthLifetimeSecs conf, as_PolicyID := policyID\<rparr>)) (\<lambda>_.
      tryM (baseM (callM (az_DeviceCodeFunc conf))) (\<lambda>deviceCode.
      tryM (baseM (callM (az_DeviceUserCodeFunc conf))) (\<lambda>userCode.
      tryM (assignSession ctx (\<lambda>as. as\<lparr>as_DeviceCode := deviceCode, as_UserCode := userCode\<rparr>)) (\<lambda>_.
      tryM (mapErrM (wrapPlain ''could not save the device session'') (DeviceSaveSession ctx)) (\<lambda>_.
      tryM (getM aw_session) (\<lambda>as.
      okM (device_response ctx as)))))))))))))))"

text \<open>The session is marked and saved.\<close>

definition saveDeviceAs :: "'st AuthorizeContext \<Rightarrow> Status \<Rightarrow> string \<Rightarrow> ('st, unit) A" where
  "saveDeviceAs ctx status message =
     tryM (assignSession ctx (\<lambda>as. as\<lparr>as_Status := status\<rparr>)) (\<lambda>_. mapErrM (wrapPlain message) (DeviceSaveSession ctx))"

definition device_grant_options :: "AuthnSession \<Rightarrow> GrantOptions" where
  "device_grant_options as = zero_GrantOptions
     \<lparr>go_Type := GrantDeviceCode, go_Subject := as_Subject as, go_Username := as_Username as, go_ClientID := as_ClientID as,
      go_Scopes := as_GrantedScopes as, go_Nonce := ap_Nonce (as_AuthorizationParameters as), go_AuthDetails := as_GrantedAuthDetails as, go_Resources := as_GrantedResources as,
      go_DeviceCode := as_DeviceCode as, go_DeviceCodeExpiresAt := as_ExpiresAt as,
      go_AuthParams := as_AuthorizationParameters as, go_Store := as_Store as\<rparr>"

definition device_failure :: "go_error option \<Rightarrow> go_error" where
  "device_failure authErr =
     (case authErr of
        None \<Rightarrow> WrapError ErrorCodeAccessDenied ''access denied'' (ErrNew ''authentication policy failed'')
      | Some err \<Rightarrow> (case errors_As err of Some oidcErr \<Rightarrow> oidcErr | None \<Rightarrow> WrapError ErrorCodeAccessDenied ''access denied'' err))"

definition authenticateDevice :: "'st AuthorizeContext \<Rightarrow> ('st, unit) A" where
  "authenticateDevice ctx =
     tryM (getM aw_session) (\<lambda>as.
     if as_PolicyID as = '''' then
       tryM (saveDeviceAs ctx StatusFailure ''could not save the failed device session with a missing policy id'') (\<lambda>_.
       failM (PlainError (ErrNew ''the device session is missing the policy id'')))
     else
       tryM (baseM (TimestampNow (ac ctx))) (\<lambda>now.
       guardM (now \<ge> as_ExpiresAt as) (PlainError (invalid_request ''the device authentication session has expired'')) (
       tryM (mapErrM (wrapPlain ''could not load the client for the device session'') (baseM (Client_of (ac ctx) (as_ClientID as)))) (\<lambda>c.
       tryM (sessionCall ctx (po_Authenticate (Policy (az_DevicePolicies (ac_conf ctx)) (as_PolicyID as))) c) (\<lambda>((status, authErr), c').
       if status = StatusSuccess then
         tryM (saveDeviceAs ctx StatusSuccess ''could not save the device session'') (\<lambda>_.
         tryM (getM aw_session) (\<lambda>as'.
         tryM (mapErrM (wrapPlain ''could not generate the grant for the device session'')
           (baseM (NewGrant (ac ctx) c' (device_grant_options as')))) (\<lambda>_.
         baseM (callO (az_DeviceAuthRenderConfirmationFunc (ac_conf ctx))))))
       else if status = StatusPending then
         saveDeviceAs ctx StatusPending ''could not save the pending device session''
       else
         tryM (saveDeviceAs ctx StatusFailure ''could not save the failed device session'') (\<lambda>_.
         failM (PlainError (device_failure authErr))))))))"

definition prompt_user_code :: "'st AuthorizeContext \<Rightarrow> ('st, unit) A" where
  "prompt_user_code ctx = baseM (callO (az_DeviceAuthPromptUserCodeFunc (ac_conf ctx)))"

definition initDeviceAuthVerification :: "'st AuthorizeContext \<Rightarrow> string \<Rightarrow> ('st, unit) A" where
  "initDeviceAuthVerification ctx userCode =
     (if userCode = '''' then prompt_user_code ctx
      else runM (loadSession (\<lambda>n. m_SessionByUserCode (cf_Managers (cx (ac ctx))) n userCode)) (\<lambda>r. case r of
         Inl err \<Rightarrow>
           if errors_Is (base_error err) ErrNotFound then prompt_user_code ctx
           else failM (wrapPlain ''could not load the device session by user code'' err)
       | Inr _ \<Rightarrow> authenticateDevice ctx))"

definition continueDeviceAuthVerification :: "'st AuthorizeContext \<Rightarrow> string \<Rightarrow> ('st, unit) A" where
  "continueDeviceAuthVerification ctx i =
     tryM (mapErrM (not_found_as (invalid_request ''the device authentication session was not found'') ''could not load the device session by id'')
       (loadSession (\<lambda>n. m_Device_Session (cf_Managers (cx (ac ctx))) n i))) (\<lambda>_.
     authenticateDevice ctx)"

section \<open>Backchannel requests\<close>

record cibaResponse =
  cb_AuthReqID :: string
  cb_ExpiresIn :: int
  cb_Interval :: int

definition ciba_object_error :: "go_error \<Rightarrow> go_error" where
  "ciba_object_error e = WrapError ErrorCodeInvalidRequest ''invalid request object'' e"

text \<open>The checks on the claims of a backchannel request object before the request itself is validated.\<close>

definition check_ciba_claims :: "'st AuthorizeContext \<Rightarrow> Client \<Rightarrow> JWTClaims \<Rightarrow> ('st, unit) M" where
  "check_ciba_claims ctx c claims =
     (let bad = (\<lambda>m. ciba_object_error (ErrNew m)) in
      guardM (jc_IssuedAt claims = None) (bad ''claim iat is required in the request object'') (
      case jc_NotBefore claims of
        None \<Rightarrow> failM (bad ''claim nbf is required in the request object'')
      | Some nbf \<Rightarrow>
          tryM (Now (ac ctx)) (\<lambda>now.
          guardM (nbf * second < now - hour) (bad ''claim nbf is too far in the past'') (
          case jc_Expiry claims of
            None \<Rightarrow> failM (bad ''claim exp is required in the request object'')
          | Some ex \<Rightarrow>
              tryM (Now (ac ctx)) (\<lambda>now2.
              guardM (ex * second > now2 + hour) (bad ''claim exp is too far in the future'') (
              guardM (jc_ID claims = '''') (bad ''claim jti is required in the request object'') (
              mapErrM (\<lambda>e. ciba_object_error (ErrWrapf ''the request object contains invalid claims'' e))
                (callO (\<lambda>n. l_ValidateWithLeeway (cx_Lib (ac ctx)) n claims
                   \<lparr>ex_Issuer = c_ID c, ex_Subject = '''', ex_AnyAudience = [Issuer (ac ctx)]\<rparr>
                   (cf_JWTLeewayTimeSecs (cx (ac ctx)) * second))))))))))"

definition ciba_algs :: "'st AuthorizeContext \<Rightarrow> Client \<Rightarrow> SignatureAlgorithm list" where
  "ciba_algs ctx c = (if c_CIBAJARSigAlg c \<noteq> '''' then [c_CIBAJARSigAlg c] else az_CIBAJARSigAlgs (ac_conf ctx))"

definition ciba_request_object :: "'st AuthorizeContext \<Rightarrow> string \<Rightarrow> Client \<Rightarrow> ('st, JWTClaims \<times> request \<times> Client) M" where
  "ciba_request_object ctx obj c =
     (let lib = cx_Lib (ac ctx); bad = (\<lambda>m e. ciba_object_error (ErrWrapf m e)) in
      tryM (mapErrM (bad ''could not parse request object'') (liftE (l_ParseSigned lib obj (ciba_algs ctx c)))) (\<lambda>parsedToken.
      case jwt_Headers parsedToken of
        [header] \<Rightarrow>
          guardM (jh_KeyID header = '''') (ciba_object_error (ErrNew ''kid header is required in the request object'')) (
          tryM (mapErrM (bad ''could not resolve the client public key'') (JWKByKeyID (ac ctx) c (jh_KeyID header))) (\<lambda>(jwk, c').
          tryM (mapErrM (bad ''could not extract claims from the request object'')
            (tryM (liftE (l_Verify lib parsedToken (VKey (jwk_Key jwk)))) (\<lambda>payload.
             tryM (liftE (l_DecodeClaims lib payload)) (\<lambda>claims.
             tryM (liftE (UnmarshalJSON lib (ac_Lib ctx) payload)) (\<lambda>requestObject. okM (claims, requestObject)))))) (\<lambda>(claims, requestObject).
          tryM (check_ciba_claims ctx c' claims) (\<lambda>_. okM (claims, requestObject, c')))))
      | _ \<Rightarrow> failM (ciba_object_error (ErrNew ''kid header is required in the request object''))))"

definition ciba_session :: "'st AuthorizeContext \<Rightarrow> request \<Rightarrow> Client \<Rightarrow> ('st, Client) A" where
  "ciba_session ctx req c =
     (let conf = ac_conf ctx; obj = ap_RequestObject (ar_Params req) in
      if az_CIBAJAREnabled conf \<and> (az_CIBAJARRequired conf \<or> c_CIBAJARSigAlg c \<noteq> '''' \<or> obj \<noteq> '''') then
        guardM (obj = '''') (PlainError (invalid_request ''request object is required'')) (
        tryM (baseM (ciba_request_object ctx obj c)) (\<lambda>(claims, requestObject, c').
        tryM (validateCIBARequest ctx requestObject c') (\<lambda>_.
        tryM (baseM (ReserveJTI (ac ctx) (jar_use ctx claims) ErrorCodeInvalidRequest ''invalid request object'')) (\<lambda>_.
        tryM (newAuthnSession ctx (ar_Params requestObject) c') (\<lambda>_. okM c')))))
      else
        tryM (validateCIBARequest ctx req c) (\<lambda>_.
        tryM (newAuthnSession ctx (ar_Params req) c) (\<lambda>_. okM c)))"

text \<open>The bindings of the push mode.\<close>

definition push_bindings :: "'st AuthorizeContext \<Rightarrow> Client \<Rightarrow> ('st, unit) A" where
  "push_bindings ctx c =
     (let conf = cx (ac ctx) in
      if c_CIBATokenDeliveryMode c \<noteq> CIBADeliveryModePush then okM ()
      else
        tryM (case (if cf_DPoPEnabled conf then DPoP_JWT (ac ctx) else None) of
            Some dpopJWT \<Rightarrow> assignSession ctx (\<lambda>as. as\<lparr>as_JWKThumbprint := JWKThumbprint (cx_Lib (ac ctx)) dpopJWT (cf_DPoPSigAlgs conf)\<rparr>)
          | None \<Rightarrow> okM ()) (\<lambda>_.
        if \<not> cf_MTLSTokenBindingEnabled conf then okM ()
        else tryM (baseM (attemptM (callE (cf_ClientCertFunc conf)))) (\<lambda>r. case r of
            Inl _ \<Rightarrow> okM ()
          | Inr cert \<Rightarrow> assignSession ctx (\<lambda>as. as\<lparr>as_ClientCertThumbprint := Thumbprint (cx_Lib (ac ctx)) (cert_Raw cert)\<rparr>))))"

definition initBackAuth :: "'st AuthorizeContext \<Rightarrow> request \<Rightarrow> ('st, cibaResponse) A" where
  "initBackAuth ctx req =
     (let conf = ac_conf ctx in
      tryM (baseM (Authenticated (ac ctx) AuthnContextCIBA)) (\<lambda>c0.
      tryM (ciba_session ctx req c0) (\<lambda>c.
      tryM (baseM (callM (az_CIBAIDFunc conf))) (\<lambda>authReqID.
      tryM (baseM (TimestampNow (ac ctx))) (\<lambda>now.
      tryM (assignSession ctx (\<lambda>as. as\<lparr>as_AuthReqID := authReqID, as_ExpiresAt := now +
        (case ap_RequestedExpiry (as_AuthorizationParameters as) of None \<Rightarrow> az_CIBADefaultSessionLifetimeSecs conf | Some e \<Rightarrow> e)\<rparr>)) (\<lambda>_.
      tryM (hint_claims ctx) (\<lambda>_.
      tryM (push_bindings ctx c) (\<lambda>_.
      tryM (sessionCall ctx (az_CIBAHandleSessionFunc conf) c) (\<lambda>(err, c').
      tryM (checkM (map_option (\<lambda>e. PlainError (ErrWrapf ''could not handle the pending CIBA session'' e)) err)) (\<lambda>_.
      tryM (mapErrM (wrapPlain ''could not save the pending CIBA session'') (CIBASaveSession ctx)) (\<lambda>_.
      tryM (getM aw_session) (\<lambda>as.
      tryM (baseM (TimestampNow (ac ctx))) (\<lambda>now2.
      okM \<lparr>cb_AuthReqID = as_AuthReqID as, cb_ExpiresIn = as_ExpiresAt as - now2,
           cb_Interval = (if CIBA_IsPollableMode (c_CIBATokenDeliveryMode c') then az_CIBAPollingIntervalSecs conf else 0)\<rparr>)))))))))))))"

section \<open>Handlers\<close>

definition backchannel_json :: "cibaResponse \<Rightarrow> json" where
  "backchannel_json resp = JObj [(''auth_req_id'', JStr (cb_AuthReqID resp)), (''expires_in'', JInt (cb_ExpiresIn resp)),
     (''interval'', JInt (cb_Interval resp))]"

definition omitzero :: "string \<Rightarrow> int \<Rightarrow> (string \<times> json) list" where
  "omitzero name v = (if v = 0 then [] else [(name, JInt v)])"

definition device_json :: "deviceResponse \<Rightarrow> json" where
  "device_json resp = JObj (omitempty ''device_code'' (dv_DeviceCode resp) @ omitempty ''user_code'' (dv_UserCode resp) @
     omitempty ''verification_uri'' (dv_VerificationURI resp) @ omitempty ''verification_uri_complete'' (dv_VerificationURIComplete resp) @
     omitzero ''expires_in'' (dv_ExpiresIn resp) @ omitzero ''interval'' (dv_Interval resp))"

definition answer_json :: "'st AuthorizeContext \<Rightarrow> ('a \<Rightarrow> json) \<Rightarrow> ('st, 'a) A \<Rightarrow> ('st, unit) A" where
  "answer_json ctx encode m =
     runM m (\<lambda>r. case r of Inl err \<Rightarrow> authorize_WriteError ctx err | Inr resp \<Rightarrow> write_or_error ctx (encode resp) 200)"

definition handlerCIBA :: "'st AuthorizeContext \<Rightarrow> ('st, unit) A" where
  "handlerCIBA ctx =
     (if MediaType (ac ctx) \<noteq> '''' \<and> MediaType (ac ctx) \<noteq> ''application/x-www-form-urlencoded''
      then authorize_WriteError ctx (PlainError (WithStatusCode (NewError ErrorCodeInvalidRequest ''invalid content type'') 415))
      else answer_json ctx backchannel_json (initBackAuth ctx (newFormRequest (cx_Lib (ac ctx)) (ac_Lib ctx) (cx_Request (ac ctx)))))"

definition handlerInitDeviceAuth :: "'st AuthorizeContext \<Rightarrow> ('st, unit) A" where
  "handlerInitDeviceAuth ctx =
     answer_json ctx device_json (initDeviceAuth ctx (newFormRequest (cx_Lib (ac ctx)) (ac_Lib ctx) (cx_Request (ac ctx))))"

definition handlerInitDeviceVerification :: "'st AuthorizeContext \<Rightarrow> ('st, unit) A" where
  "handlerInitDeviceVerification ctx =
     render_or_write ctx (initDeviceAuthVerification ctx
       (values_Get (fst (al_ParseQuery (ac_Lib ctx) (rq_RawQuery (cx_Request (ac ctx))))) ''user_code''))"

definition handlerContinueDeviceVerification :: "'st AuthorizeContext \<Rightarrow> ('st, unit) A" where
  "handlerContinueDeviceVerification ctx = render_or_write ctx (continueDeviceAuthVerification ctx (rt_callback (ac_Transport ctx)))"

section \<open>Accountability of backchannel requests\<close>

text \<open>A request object of a backchannel request with the parameters \<open>p\<close>: signed with a key the client publishes under the
  identifier in the header, valid from at most an hour ago until at most an hour ahead, issued by the client for this
  provider, with an identifier that was reserved.\<close>

definition signed_backchannel_object :: "'st AuthorizeContext \<Rightarrow> string \<Rightarrow> Client \<Rightarrow> AuthorizationParameters \<Rightarrow> bool" where
  "signed_backchannel_object ctx obj c p \<longleftrightarrow>
     (\<exists>token header jwk jwks c' payload claims req nbf ex k1 k2 k3 k4 u u'.
        l_ParseSigned (cx_Lib (ac ctx)) obj (ciba_algs ctx c) = Inr token \<and> jwt_Headers token = [header] \<and> jh_KeyID header \<noteq> '''' \<and>
        JWKS (ac ctx) c (u :: 'st World) = (Inr (jwks, c'), u') \<and> jwk \<in> set jwks \<and>
        l_Verify (cx_Lib (ac ctx)) token (VKey (jwk_Key jwk)) = Inr payload \<and>
        l_DecodeClaims (cx_Lib (ac ctx)) payload = Inr claims \<and> UnmarshalJSON (cx_Lib (ac ctx)) (ac_Lib ctx) payload = Inr req \<and>
        ar_Params req = p \<and> jc_IssuedAt claims \<noteq> None \<and>
        jc_NotBefore claims = Some nbf \<and> l_Now (cx_Lib (ac ctx)) k1 - hour \<le> nbf * second \<and>
        jc_Expiry claims = Some ex \<and> ex * second \<le> l_Now (cx_Lib (ac ctx)) k2 + hour \<and> jc_ID claims \<noteq> '''' \<and>
        l_ValidateWithLeeway (cx_Lib (ac ctx)) k3 claims \<lparr>ex_Issuer = c_ID c, ex_Subject = '''', ex_AnyAudience = [Issuer (ac ctx)]\<rparr>
          (cf_JWTLeewayTimeSecs (cx (ac ctx)) * second) = None \<and>
        jti_accepted (ac ctx) k4 (jar_use ctx claims))"

text \<open>What the validation of a backchannel request established, for the client object it was run with.\<close>

definition valid_backchannel :: "'st AuthorizeContext \<Rightarrow> AuthorizationParameters \<Rightarrow> Client \<Rightarrow> bool" where
  "valid_backchannel ctx p c \<longleftrightarrow>
     GrantCIBA \<in> set (c_GrantTypes c) \<and> (az_OpenIDRequired (ac_conf ctx) \<longrightarrow> ContainsOpenID (ap_Scopes p)) \<and>
     (CIBA_IsNotificationMode (c_CIBATokenDeliveryMode c) \<longrightarrow> ap_ClientNotificationToken p \<noteq> '''') \<and>
     length (ap_ClientNotificationToken p) \<le> 1024 \<and>
     length (filter (\<lambda>h. h \<noteq> '''') [ap_LoginHint p, ap_LoginHintToken p, ap_IDTokenHint p]) = 1"

lemma validateCIBARequest_ok: "validateCIBARequest ctx req c w = (Inr x, w') \<Longrightarrow> valid_backchannel ctx (ar_Params req) c"
  unfolding validateCIBARequest_def valid_backchannel_def Let_def validateCIBAHints_def
  by (auto simp: ok_simps split: if_splits)

lemma check_ciba_claims_ok:
  "check_ciba_claims ctx c claims w = (Inr x, w') \<Longrightarrow>
     \<exists>nbf ex k1 k2 k3. jc_IssuedAt claims \<noteq> None \<and> jc_NotBefore claims = Some nbf \<and> l_Now (cx_Lib (ac ctx)) k1 - hour \<le> nbf * second \<and>
        jc_Expiry claims = Some ex \<and> ex * second \<le> l_Now (cx_Lib (ac ctx)) k2 + hour \<and> jc_ID claims \<noteq> '''' \<and>
        l_ValidateWithLeeway (cx_Lib (ac ctx)) k3 claims \<lparr>ex_Issuer = c_ID c, ex_Subject = '''', ex_AnyAudience = [Issuer (ac ctx)]\<rparr>
          (cf_JWTLeewayTimeSecs (cx (ac ctx)) * second) = None"
  unfolding check_ciba_claims_def Let_def Now_def by (auto simp: ok_simps split: option.splits) (meson not_less)+

lemma ciba_object_ok:
  assumes "ciba_request_object ctx obj c u = (Inr (claims, req, c'), u')" and "jti_accepted (ac ctx) k (jar_use ctx claims)"
  shows "signed_backchannel_object ctx obj c (ar_Params req) \<and> c_ID c' = c_ID c"
proof -
  have "\<exists>token header jwk jwks payload u2 u3 u4 u5. l_ParseSigned (cx_Lib (ac ctx)) obj (ciba_algs ctx c) = Inr token \<and>
      jwt_Headers token = [header] \<and> jh_KeyID header \<noteq> '''' \<and> JWKS (ac ctx) c u2 = (Inr (jwks, c'), u3) \<and> jwk \<in> set jwks \<and>
      l_Verify (cx_Lib (ac ctx)) token (VKey (jwk_Key jwk)) = Inr payload \<and>
      l_DecodeClaims (cx_Lib (ac ctx)) payload = Inr claims \<and> UnmarshalJSON (cx_Lib (ac ctx)) (ac_Lib ctx) payload = Inr req \<and>
      check_ciba_claims ctx c' claims u4 = (Inr (), u5)"
    using assms(1) unfolding ciba_request_object_def Let_def JWKByKeyID_def
    by (auto simp: ok_simps case_single_ok JWKS_Key_ok) (metis find_SomeD(1))
  then obtain token header jwk jwks payload u2 u3 u4 u5 where
    o: "l_ParseSigned (cx_Lib (ac ctx)) obj (ciba_algs ctx c) = Inr token" "jwt_Headers token = [header]" "jh_KeyID header \<noteq> ''''"
      "JWKS (ac ctx) c u2 = (Inr (jwks, c'), u3)" "jwk \<in> set jwks" "l_Verify (cx_Lib (ac ctx)) token (VKey (jwk_Key jwk)) = Inr payload"
      "l_DecodeClaims (cx_Lib (ac ctx)) payload = Inr claims" "UnmarshalJSON (cx_Lib (ac ctx)) (ac_Lib ctx) payload = Inr req"
    and ch: "check_ciba_claims ctx c' claims u4 = (Inr (), u5)" by blast
  have i: "c_ID c' = c_ID c" using o(4) by (rule JWKS_same_client)
  show ?thesis
    unfolding signed_backchannel_object_def using o assms(2) check_ciba_claims_ok [OF ch] i by metis
qed

text \<open>The session a request leads to, before it is handled and saved.\<close>

definition backchannel_session :: "'st AuthorizeContext \<Rightarrow> request \<Rightarrow> Client \<Rightarrow> AuthnSession \<Rightarrow> bool" where
  "backchannel_session ctx req c as \<longleftrightarrow>
     as_ClientID as = c_ID c \<and> as_Status as = StatusPending \<and>
     (\<exists>c'. c_ID c' = c_ID c \<and> valid_backchannel ctx (as_AuthorizationParameters as) c') \<and>
     (if az_CIBAJAREnabled (ac_conf ctx) \<and> (az_CIBAJARRequired (ac_conf ctx) \<or> c_CIBAJARSigAlg c \<noteq> '''' \<or> ap_RequestObject (ar_Params req) \<noteq> '''')
      then signed_backchannel_object ctx (ap_RequestObject (ar_Params req)) c (as_AuthorizationParameters as)
      else as_AuthorizationParameters as = ar_Params req)"

lemma ciba_session_ok:
  assumes "ciba_session ctx req c w = (Inr c', w')"
  shows "backchannel_session ctx req c (aw_session w') \<and> \<not> aw_sessionShared w'"
  using assms unfolding ciba_session_def Let_def backchannel_session_def newAuthnSession_def freshSession_def
  by (auto simp: ok_simps split: if_splits dest!: ReserveJTI_ok ciba_object_ok validateCIBARequest_ok)

lemma CIBASaveSession_ok:
  "CIBASaveSession ctx w = (Inr x, w') \<Longrightarrow> aw_session w' = aw_session w \<and>
     (\<exists>n st st'. m_CIBA_SaveSession (cf_Managers (cx (ac ctx))) n (aw_session w) st = (Inr (), st'))"
  unfolding CIBASaveSession_def saveSession_def by (auto simp: ok_simps storeM_def split: prod.splits)

text \<open>The assignments between the creation of the session and the handler leave its client, status and parameters alone.\<close>

definition same_request :: "AuthnSession \<Rightarrow> 'st AuthorizeWorld \<Rightarrow> bool" where
  "same_request as w \<longleftrightarrow> \<not> aw_sessionShared w \<and> as_ClientID (aw_session w) = as_ClientID as \<and> as_Status (aw_session w) = as_Status as \<and>
     as_AuthorizationParameters (aw_session w) = as_AuthorizationParameters as"

lemma same_request_base [frame_intros]: "keeps (same_request as) (baseM m)"
  by (intro off_base_baseM) (simp add: off_base_def same_request_def)

lemma same_request_assign:
  "(\<And>s. as_ClientID (f s) = as_ClientID s \<and> as_Status (f s) = as_Status s \<and> as_AuthorizationParameters (f s) = as_AuthorizationParameters s) \<Longrightarrow>
     keeps (same_request as) (assignSession ctx f)"
  unfolding assignSession_def same_request_def by (rule keeps_mod) auto

lemma same_request_parts [frame_intros]:
  "keeps (same_request as) (hint_claims ctx)" "keeps (same_request as) (push_bindings ctx c)"
  unfolding hint_claims_def push_bindings_def Let_def
  by (intro frame_intros same_request_assign; simp)+

lemma backchannel_stored:
  assumes "initBackAuth ctx req w = (Inr resp, w')"
  shows "\<exists>c v v' built. Authenticated (ac ctx) AuthnContextCIBA v = (Inr c, v') \<and> backchannel_session ctx req c built \<and>
     (\<exists>n c1 handled c2 m st st'. az_CIBAHandleSessionFunc (ac_conf ctx) n built c1 = (None, handled, c2) \<and>
        m_CIBA_SaveSession (cf_Managers (cx (ac ctx))) m handled st = (Inr (), st') \<and> cb_AuthReqID resp = as_AuthReqID handled)"
proof -
  let ?exp = "\<lambda>i now as. as\<lparr>as_AuthReqID := i, as_ExpiresAt := now +
     (case ap_RequestedExpiry (as_AuthorizationParameters as) of None \<Rightarrow> az_CIBADefaultSessionLifetimeSecs (ac_conf ctx) | Some e \<Rightarrow> e)\<rparr>"
  have "\<exists>c v v' c1 w1 u i now w2 w3 w4 w5 c2 w6. Authenticated (ac ctx) AuthnContextCIBA v = (Inr c, v') \<and>
      ciba_session ctx req c (w\<lparr>aw := v'\<rparr>) = (Inr c1, w1) \<and> assignSession ctx (?exp i now) (w1\<lparr>aw := u\<rparr>) = (Inr (), w2) \<and>
      hint_claims ctx w2 = (Inr (), w3) \<and> push_bindings ctx c1 w3 = (Inr (), w4) \<and>
      sessionCall ctx (az_CIBAHandleSessionFunc (ac_conf ctx)) c1 w4 = (Inr (None, c2), w5) \<and>
      CIBASaveSession ctx w5 = (Inr (), w6) \<and> cb_AuthReqID resp = as_AuthReqID (aw_session w6)"
    using assms unfolding initBackAuth_def Let_def by (auto simp: ok_simps) blast
  then obtain c v v' c1 w1 u i now w2 w3 w4 w5 c2 w6 where
    a: "Authenticated (ac ctx) AuthnContextCIBA v = (Inr c, v')" and s: "ciba_session ctx req c (w\<lparr>aw := v'\<rparr>) = (Inr c1, w1)"
    and w2: "assignSession ctx (?exp i now) (w1\<lparr>aw := u\<rparr>) = (Inr (), w2)"
    and w3: "hint_claims ctx w2 = (Inr (), w3)" and w4: "push_bindings ctx c1 w3 = (Inr (), w4)"
    and h: "sessionCall ctx (az_CIBAHandleSessionFunc (ac_conf ctx)) c1 w4 = (Inr (None, c2), w5)"
    and sv: "CIBASaveSession ctx w5 = (Inr (), w6)" and r: "cb_AuthReqID resp = as_AuthReqID (aw_session w6)" by blast
  have "same_request (aw_session w1) (w1\<lparr>aw := u\<rparr>)"
    using ciba_session_ok [OF s] by (simp add: same_request_def)
  then have "same_request (aw_session w1) w2" by (intro keepsD [OF same_request_assign w2]) auto
  then have "same_request (aw_session w1) w3" by (rule keepsD [OF same_request_parts(1) w3])
  then have w: "same_request (aw_session w1) w4" by (rule keepsD [OF same_request_parts(2) w4])
  then have "backchannel_session ctx req c (aw_session w4)" "\<not> aw_sessionShared w4"
    using ciba_session_ok [OF s] by (auto simp: same_request_def backchannel_session_def)
  with a sessionCall_ok [OF h] CIBASaveSession_ok [OF sv] r show ?thesis by metis
qed


definition backchannel_client :: Client where
  "backchannel_client = push_client\<lparr>c_GrantTypes := [GrantCIBA], c_CIBATokenDeliveryMode := CIBADeliveryModePoll\<rparr>"

definition backchannel_Context :: "Manager AuthorizeContext" where
  "backchannel_Context = push_Context
    \<lparr>ac := (ac push_Context)\<lparr>cx := (cx (ac push_Context))\<lparr>cf_StaticClients := [backchannel_client]\<rparr>,
       cx_Request := zero_Request\<lparr>rq_Method := ''POST'',
         rq_PostForm := [(''client_assertion'', [''h.YQ.s'']), (''client_assertion_type'', [AssertionTypeJWTBearer]),
           (''login_hint'', [''alice''])]\<rparr>\<rparr>,
     ac_conf := base_AuthorizeConfiguration\<lparr>az_CIBAPollingIntervalSecs := 5, az_CIBADefaultSessionLifetimeSecs := 60\<rparr>\<rparr>"

definition backchannel_request :: request where
  "backchannel_request = newFormRequest (cx_Lib (ac backchannel_Context)) (ac_Lib backchannel_Context) (cx_Request (ac backchannel_Context))"

lemma backchannel_accepted:
  "map_sum (\<lambda>_. ()) cb_Interval (fst (initBackAuth backchannel_Context backchannel_request (start_AuthorizeWorld (NewManager 1) 0))) = Inr 5"
  by code_simp


end
