(* ===== verification/HumanInteraction.thy ===== *)
theory HumanInteraction
  imports PushedRequests
begin

text \<open>
  The browser's side of the strict human flow, \<^verbatim>\<open>internal/authorize/human_interaction.go\<close>: the page that confirms the browser and the page
  that consumes the ready capability, with their exact transports, forms, cookies, pages, headers and redirects, and
  how the completed authorization is bound again to the client before the browser is sent back to it.

  The embedded assets are a parameter. A body of text is recorded as a string. The panics that the completion recovers
  from are those of the configured client resolver, which the model does not have.
\<close>

section \<open>Constants and assets\<close>

definition humanBrowserInteractionRoute :: string where "humanBrowserInteractionRoute = ''/oidc/interaction/browser''"
definition humanConsumeInteractionRoute :: string where "humanConsumeInteractionRoute = ''/oidc/interaction/consume''"
definition humanIdentityReturnFormField :: string where "humanIdentityReturnFormField = ''identity_return''"
definition humanBrowserReturnFormField :: string where "humanBrowserReturnFormField = ''browser_return''"
definition humanReadyFormField :: string where "humanReadyFormField = ''ready''"
definition humanInteractionRejectedBody :: string where "humanInteractionRejectedBody = ''invalid interaction'' @ [CHR 0x0A]"
definition humanInteractionServerBody :: string where "humanInteractionServerBody = ''interaction unavailable'' @ [CHR 0x0A]"
definition humanInteractionMaxFormBytes :: int where "humanInteractionMaxFormBytes = 2048"

record InteractionAssets =
  ia_Style :: string
  ia_Logo :: string
  ia_Font :: string

definition humanInteractionPageStyle :: "string" where
  \<open>humanInteractionPageStyle =
   ''*{box-sizing:border-box}body{min-height:100vh;margin:0;display:grid;place-items:center;padding:1.5rem}main{width:min(100%,30rem);padding:2rem;border:1px solid var(--border);border-radius:var(--d0-radius-lg);background:var(--surface-1)}.brand{display:block;width:4rem;height:auto;margin-bottom:1.5rem;color:var(--foreground)}.brand svg{display:block;width:100%;height:auto}h1{margin:0 0 1rem;font-size:var(--d0-text-2xl);line-height:1.25}p[role=status]{display:flex;align-items:center;gap:.75rem;margin:0;color:var(--muted-foreground);line-height:1.5}p[role=status]::before{content:"";width:.65rem;height:.65rem;flex:none;border-radius:50%;background:var(--primary)}a{display:inline-flex;margin-top:1.5rem;color:var(--primary-emphasis);text-decoration:underline;text-underline-offset:.25rem}a[hidden]{display:none}noscript{display:block;margin-top:1.5rem;color:var(--danger)}''\<close>

definition humanBrowserInteractionScript :: "string" where
  \<open>humanBrowserInteractionScript =
   ''(function(){"use strict";let value=window.location.hash.slice(1);history.replaceState(null,"",window.location.pathname);const form=document.getElementById("human-interaction");const predecessor=document.getElementById("identity-return");const status=document.getElementById("human-interaction-status");const restart=document.getElementById("human-interaction-restart");window.addEventListener("pagehide",function(){value="";predecessor.value=""});window.addEventListener("pageshow",function(event){if(event.persisted){status.textContent="This sign-in was interrupted.";restart.hidden=false}});if(!/^d0_hio_r1_[A-Za-z0-9_-]{43}$/.test(value)){value="";status.textContent="This sign-in is invalid.";restart.hidden=false;return}predecessor.value=value;value="";form.submit()})();''\<close>

definition humanConsumeInteractionScript :: "string" where
  \<open>humanConsumeInteractionScript =
   ''(function(){"use strict";let value=window.location.hash.slice(1);history.replaceState(null,"",window.location.pathname);const form=document.getElementById("human-interaction");const predecessor=document.getElementById("ready");const status=document.getElementById("human-interaction-status");const restart=document.getElementById("human-interaction-restart");window.addEventListener("pagehide",function(){value="";predecessor.value=""});window.addEventListener("pageshow",function(event){if(event.persisted){status.textContent="This sign-in was interrupted.";restart.hidden=false}});if(!/^d0_hio_s1_[A-Za-z0-9_-]{43}$/.test(value)){value="";status.textContent="This sign-in is invalid.";restart.hidden=false;return}predecessor.value=value;value="";form.submit()})();''\<close>

definition humanInteractionStyle :: "InteractionAssets \<Rightarrow> string" where
  "humanInteractionStyle a = ia_Style a @ humanInteractionPageStyle"

definition humanInteractionRoute :: "'st AuthorizeContext \<Rightarrow> string \<Rightarrow> string" where
  "humanInteractionRoute ctx route = cf_EndpointPrefix (cx (ac ctx)) @ route"

section \<open>Standard library\<close>

text \<open>\<^verbatim>\<open>strings.EqualFold\<close> against an ASCII name: besides the letters of the other case, simple folding equates the long s with
  \<open>s\<close> and the Kelvin sign with \<open>k\<close>.\<close>

fun fold_ascii :: "string \<Rightarrow> string" where
  "fold_ascii (a # b # c # s) =
     (if byte a = 0xC5 \<and> byte b = 0xBF then CHR ''s'' # fold_ascii (c # s)
      else if byte a = 0xE2 \<and> byte b = 0x84 \<and> byte c = 0xAA then CHR ''k'' # fold_ascii s
      else to_lower_char a # fold_ascii (b # c # s))"
| "fold_ascii [a, b] = (if byte a = 0xC5 \<and> byte b = 0xBF then ''s'' else [to_lower_char a, to_lower_char b])"
| "fold_ascii [a] = [to_lower_char a]"
| "fold_ascii [] = []"

definition strings_EqualFold :: "string \<Rightarrow> string \<Rightarrow> bool" where
  "strings_EqualFold candidate name \<longleftrightarrow> fold_ascii candidate = map to_lower_char name"

text \<open>\<^verbatim>\<open>html.EscapeString\<close>.\<close>

definition html_escape_char :: "char \<Rightarrow> string" where
  "html_escape_char c =
     (if c = CHR ''&'' then ''&amp;'' else if c = CHR 0x27 then ''&#39;'' else if c = CHR ''<'' then ''&lt;''
      else if c = CHR ''>'' then ''&gt;'' else if c = CHR 0x22 then ''&#34;'' else [c])"

definition html_EscapeString :: "string \<Rightarrow> string" where
  "html_EscapeString s = concat (map html_escape_char s)"

text \<open>\<^verbatim>\<open>base64.StdEncoding\<close>: the alphabet with \<open>+\<close> and \<open>/\<close>, padded.\<close>

definition StdEncode :: "string \<Rightarrow> string" where
  "StdEncode s =
     map (\<lambda>c. if c = CHR ''-'' then CHR ''+'' else if c = CHR ''_'' then CHR ''/'' else c) (RawURLEncode s) @
     replicate ((3 - length s mod 3) mod 3) CHR ''=''"

section \<open>Pages\<close>

definition browser_page :: "InteractionAssets \<Rightarrow> 'st AuthorizeContext \<Rightarrow> string \<Rightarrow> string" where
  \<open>browser_page a ctx browserReturn =
   ''<!doctype html><html lang="en"><head><meta charset="utf-8"><meta name="referrer" content="same-origin"><meta name="viewport" content="width=device-width,initial-scale=1"><title>Continuing sign-in</title><style>'' @
   humanInteractionStyle a @
   ''</style></head><body class="d0-foundation"><main><span class="brand" aria-hidden="true">'' @
   ia_Logo a @
   ''</span><h1>Continuing sign-in</h1><p id="human-interaction-status" role="status">Checking this sign-in'' @ [CHR 0xE2, CHR 0x80, CHR 0xA6] @ ''</p><a id="human-interaction-restart" href="'' @
   html_EscapeString (az_HumanBrowserOrigin (ac_conf ctx) @ ''/login'') @
   ''" hidden>Start sign-in again</a><form id="human-interaction" method="post" action="'' @
   html_EscapeString (humanInteractionRoute ctx humanBrowserInteractionRoute) @
   ''"><input id="identity-return" type="hidden" name="identity_return" value=""><input type="hidden" name="browser_return" value="'' @
   html_EscapeString browserReturn @
   ''"></form><noscript>JavaScript is required to continue sign-in.</noscript></main><script>'' @
   humanBrowserInteractionScript @
   ''</script></body></html>''\<close>

definition consume_page :: "InteractionAssets \<Rightarrow> 'st AuthorizeContext \<Rightarrow> string" where
  \<open>consume_page a ctx =
   ''<!doctype html><html lang="en"><head><meta charset="utf-8"><meta name="referrer" content="same-origin"><meta name="viewport" content="width=device-width,initial-scale=1"><title>Finishing sign-in</title><style>'' @
   humanInteractionStyle a @
   ''</style></head><body class="d0-foundation"><main><span class="brand" aria-hidden="true">'' @
   ia_Logo a @
   ''</span><h1>Finishing sign-in</h1><p id="human-interaction-status" role="status">Returning to d0'' @ [CHR 0xE2, CHR 0x80, CHR 0xA6] @ ''</p><a id="human-interaction-restart" href="'' @
   html_EscapeString (az_HumanBrowserOrigin (ac_conf ctx) @ ''/login'') @
   ''" hidden>Start sign-in again</a><form id="human-interaction" method="post" action="'' @
   html_EscapeString (humanInteractionRoute ctx humanConsumeInteractionRoute) @
   ''"><input id="ready" type="hidden" name="ready" value=""></form><noscript>JavaScript is required to finish sign-in.</noscript></main><script>'' @
   humanConsumeInteractionScript @
   ''</script></body></html>''\<close>

definition restart_page :: "InteractionAssets \<Rightarrow> 'st AuthorizeContext \<Rightarrow> string" where
  \<open>restart_page a ctx =
   ''<!doctype html><html lang="en"><head><meta charset="utf-8"><meta name="referrer" content="same-origin"><meta name="viewport" content="width=device-width,initial-scale=1"><title>Sign-in interrupted</title><style>'' @
   humanInteractionStyle a @
   ''</style></head><body class="d0-foundation"><main><span class="brand" aria-hidden="true">'' @
   ia_Logo a @
   ''</span><h1>Sign-in interrupted</h1><p>This sign-in could not continue. Start a new sign-in to try again.</p><a href="'' @
   html_EscapeString (az_HumanBrowserOrigin (ac_conf ctx) @ ''/login'') @
   ''">Start sign-in again</a></main></body></html>''\<close>

section \<open>Writing\<close>

definition single_quoted :: "string \<Rightarrow> string" where
  "single_quoted s = [CHR 0x27] @ s @ [CHR 0x27]"

definition content_security_policy :: "Lib \<Rightarrow> string \<Rightarrow> string \<Rightarrow> string list \<Rightarrow> string" where
  "content_security_policy lib script style formActionOrigins =
     (let none = single_quoted ''none'';
          scriptPolicy = ''script-src '' @ (if script = '''' then none else single_quoted (''sha256-'' @ StdEncode (l_sha256 lib script)));
          stylePolicy = ''style-src '' @ (if style = '''' then none else single_quoted (''sha256-'' @ StdEncode (l_sha256 lib style)));
          fontPolicy = ''font-src '' @ (if style = '''' then none else single_quoted ''self'');
          formActionPolicy = ''form-action '' @ single_quoted ''self'' @ concat (map (\<lambda>origin. '' '' @ origin) formActionOrigins) in
      ''default-src '' @ none @ ''; '' @ scriptPolicy @ ''; '' @ stylePolicy @ ''; img-src '' @ none @ ''; '' @ fontPolicy @
      ''; media-src '' @ none @ ''; connect-src '' @ none @ ''; object-src '' @ none @ ''; base-uri '' @ none @ ''; '' @
      formActionPolicy @ ''; frame-ancestors '' @ none)"

primrec set_headers :: "(string \<times> string) list \<Rightarrow> ('st, unit) M" where
  "set_headers [] = okM ()"
| "set_headers (p # ps) = tryM (set_header (fst p) (snd p)) (\<lambda>_. set_headers ps)"

definition setHumanInteractionSecurityHeaders :: "'st AuthorizeContext \<Rightarrow> string \<Rightarrow> string \<Rightarrow> string list \<Rightarrow> ('st, unit) M" where
  "setHumanInteractionSecurityHeaders ctx script style formActionOrigins =
     set_headers
       [(''Cache-Control'', ''no-store''), (''Pragma'', ''no-cache''), (''Referrer-Policy'', ''same-origin''),
        (''X-Content-Type-Options'', ''nosniff''), (''X-Frame-Options'', ''DENY''),
        (''Cross-Origin-Opener-Policy'', ''same-origin''), (''Cross-Origin-Resource-Policy'', ''same-origin''),
        (''Permissions-Policy'', ''camera=(), microphone=(), geolocation=(), payment=(), usb=()''),
        (''Content-Security-Policy'', content_security_policy (cx_Lib (ac ctx)) script style formActionOrigins)]"

definition write_interaction ::
  "'st AuthorizeContext \<Rightarrow> string \<Rightarrow> string \<Rightarrow> string list \<Rightarrow> string \<Rightarrow> int \<Rightarrow> string \<Rightarrow> ('st, unit) A" where
  "write_interaction ctx script style origins contentType status body =
     baseM (tryM (setHumanInteractionSecurityHeaders ctx script style origins) (\<lambda>_.
            tryM (set_header ''Content-Type'' contentType) (\<lambda>_. WriteHeader status (Some (JStr body)))))"

definition writeHumanInteractionPage ::
  "'st AuthorizeContext \<Rightarrow> string \<Rightarrow> string \<Rightarrow> string \<Rightarrow> string list \<Rightarrow> ('st, unit) A" where
  "writeHumanInteractionPage ctx body script style formActionOrigins =
     write_interaction ctx script style formActionOrigins ''text/html; charset=utf-8'' 200 body"

definition writeHumanInteractionError :: "'st AuthorizeContext \<Rightarrow> int \<Rightarrow> string \<Rightarrow> ('st, unit) A" where
  "writeHumanInteractionError ctx status body = write_interaction ctx '''' '''' [] ''text/plain; charset=utf-8'' status body"

definition writeHumanInteractionRestart :: "InteractionAssets \<Rightarrow> 'st AuthorizeContext \<Rightarrow> int \<Rightarrow> ('st, unit) A" where
  "writeHumanInteractionRestart a ctx status =
     write_interaction ctx '''' (humanInteractionStyle a) [] ''text/html; charset=utf-8'' status (restart_page a ctx)"

definition writeHumanInteractionRedirect :: "'st AuthorizeContext \<Rightarrow> string \<Rightarrow> ('st, unit) A" where
  "writeHumanInteractionRedirect ctx location =
     tryM (baseM (tryM (setHumanInteractionSecurityHeaders ctx '''' '''' []) (\<lambda>_. set_header ''Location'' location))) (\<lambda>_.
     tryM (modM (\<lambda>w. w\<lparr>aw_sent := aw_sent w @ [Redirected location]\<rparr>)) (\<lambda>_. baseM (WriteHeader 303 None)))"

definition clearHumanBrowserBindingCookie :: "'st AuthorizeContext \<Rightarrow> ('st, unit) A" where
  "clearHumanBrowserBindingCookie ctx = SetCookie (az_HumanBrowserBindingCookieName (ac_conf ctx)) '''' 1 (-1)"

text \<open>The font is served outside the request context; its response is the headers, the status and the body.\<close>

definition serveHumanInteractionFont :: "InteractionAssets \<Rightarrow> Request \<Rightarrow> (string \<times> string) list \<times> int \<times> string" where
  "serveHumanInteractionFont a request =
     (let headers = [(''X-Content-Type-Options'', ''nosniff''), (''Cross-Origin-Resource-Policy'', ''same-origin''),
            (''Content-Security-Policy'', ''default-src '' @ single_quoted ''none''), (''Cache-Control'', ''public, max-age=86400'')] in
      if rq_Method request \<noteq> ''GET'' then (headers @ [(''Allow'', ''GET'')], 405, '''')
      else if rq_RawQuery request \<noteq> '''' then (headers, 404, '''')
      else (headers @ [(''Content-Type'', ''font/woff2'')], 200, ia_Font a))"

section \<open>Configuration\<close>

definition canonicalHumanInteractionIssuer :: "Lib \<Rightarrow> string \<Rightarrow> URL option" where
  "canonicalHumanInteractionIssuer lib value =
     (case l_url_ParseRequestURI lib value of
        Inl _ \<Rightarrow> None
      | Inr parsed \<Rightarrow>
          if value \<noteq> '''' \<and> length value \<le> 512 \<and> humanConfidentialBFFASCII value \<and> \<not> strings_Contains value CHR ''*'' \<and>
             u_Scheme parsed = ''https'' \<and> u_Host parsed \<noteq> '''' \<and> u_User parsed = None \<and> u_Fragment parsed = '''' \<and>
             u_RawFragment parsed = '''' \<and> u_RawQuery parsed = '''' \<and> \<not> u_ForceQuery parsed \<and> u_Opaque parsed = '''' \<and>
             u_RawPath parsed = '''' \<and> url_Port parsed = '''' \<and> u_Host parsed = strings_ToLower (u_Host parsed) \<and>
             url_Hostname parsed = u_Host parsed \<and> \<not> is_IPv4 (url_Hostname parsed) \<and>
             humanAuthorizationHostPattern (url_Hostname parsed) \<and>
             (u_Path parsed \<noteq> '''' \<longrightarrow> humanAuthorizationPathPattern (u_Path parsed) \<and> \<not> contains_double_slash (u_Path parsed)) \<and>
             l_url_String lib parsed = value \<and>
             list_all (\<lambda>segment. segment \<noteq> ''.'' \<and> segment \<noteq> ''..'') (split_on CHR ''/'' (u_Path parsed))
          then Some parsed else None)"

definition humanInteractionHTTPSOrigin :: "Lib \<Rightarrow> string \<Rightarrow> string option" where
  "humanInteractionHTTPSOrigin lib value =
     map_option (\<lambda>parsed. u_Scheme parsed @ ''://'' @ u_Host parsed) (canonicalHumanInteractionIssuer lib value)"

definition validHumanInteractionConfiguredOrigin :: "Lib \<Rightarrow> string \<Rightarrow> bool" where
  "validHumanInteractionConfiguredOrigin lib value =
     (case canonicalHumanInteractionIssuer lib value of None \<Rightarrow> False | Some parsed \<Rightarrow> u_Path parsed = '''')"

definition validHumanBrowserBindingCookieName :: "string \<Rightarrow> bool" where
  "validHumanBrowserBindingCookieName name \<longleftrightarrow>
     strings_HasPrefix name ''__Host-'' \<and> length name \<noteq> length ''__Host-'' \<and> length name \<le> 128 \<and> cookie_name_chars name"

text \<open>The loop over the configured origins, with those collected so far.\<close>

fun collect_origins :: "(string \<Rightarrow> bool) \<Rightarrow> string list \<Rightarrow> string list \<Rightarrow> string list option" where
  "collect_origins admitted origins [] = Some origins"
| "collect_origins admitted origins (origin # rest) =
     (if \<not> admitted origin \<or> origin \<in> set origins then None else collect_origins admitted (origins @ [origin]) rest)"

definition humanCompletionOriginSnapshot :: "'st AuthorizeContext \<Rightarrow> string list option" where
  "humanCompletionOriginSnapshot ctx =
     (let lib = cx_Lib (ac ctx); conf = ac_conf ctx; browser = az_HumanBrowserOrigin conf;
          configured = (case az_HumanCompletionOrigins conf of None \<Rightarrow> [browser] | Some os \<Rightarrow> os) in
      if \<not> validHumanInteractionConfiguredOrigin lib browser then None
      else case humanInteractionHTTPSOrigin lib (az_HumanIdentityInteractionEndpoint conf) of
        None \<Rightarrow> None
      | Some identityOrigin \<Rightarrow>
          if configured = [] \<or> length configured > 8 \<or> browser \<notin> set configured then None
          else collect_origins (\<lambda>origin. validHumanInteractionConfiguredOrigin lib origin \<and> origin \<noteq> cf_Host (cx (ac ctx)) \<and>
                 origin \<noteq> identityOrigin) [] configured)"

definition validHumanInteractionConfiguration :: "'st AuthorizeContext \<Rightarrow> bool" where
  "validHumanInteractionConfiguration ctx \<longleftrightarrow>
     (let lib = cx_Lib (ac ctx); conf = ac_conf ctx in
      cf_HumanConfidentialBFFAuthorizationEnabled (cx (ac ctx)) \<and> cf_HumanAuthorizationAuthority (cx (ac ctx)) \<noteq> None \<and>
      cx_Response (ac ctx) \<and> validHumanBrowserBindingCookieName (az_HumanBrowserBindingCookieName conf) \<and>
      validHumanInteractionConfiguredOrigin lib (az_HumanBrowserOrigin conf) \<and>
      validHumanConfidentialBFFAbsoluteHTTPSURI lib (az_HumanIdentityInteractionEndpoint conf) \<and>
      validHumanConfidentialBFFAbsoluteHTTPSURI lib (az_HumanIdentityReadyEndpoint conf) \<and>
      (case (canonicalHumanInteractionIssuer lib (cf_Host (cx (ac ctx))),
             l_url_ParseRequestURI lib (az_HumanIdentityInteractionEndpoint conf),
             l_url_ParseRequestURI lib (az_HumanIdentityReadyEndpoint conf),
             canonicalHumanInteractionIssuer lib (az_HumanBrowserOrigin conf)) of
         (Some issuer, Inr interaction, Inr ready, Some browser) \<Rightarrow>
           humanCompletionOriginSnapshot ctx \<noteq> None \<and> u_Scheme interaction = u_Scheme ready \<and> u_Host interaction = u_Host ready \<and>
           url_Hostname interaction \<noteq> url_Hostname issuer \<and> url_Hostname ready \<noteq> url_Hostname issuer \<and> u_Path browser = '''' \<and>
           url_Hostname browser \<noteq> url_Hostname issuer \<and> url_Hostname browser \<noteq> url_Hostname interaction
       | _ \<Rightarrow> False))"

section \<open>Transports\<close>

definition exact_target :: "'st AuthorizeContext \<Rightarrow> string \<Rightarrow> bool" where
  "exact_target ctx path \<longleftrightarrow>
     (let t = ac_Transport ctx; r = cx_Request (ac ctx) in
      rt_Path t = path \<and> rt_RawPath t = '''' \<and> rq_RawQuery r = '''' \<and> \<not> rq_ForceQuery r \<and> rt_Fragment t = '''' \<and>
      rt_RawFragment t = '''' \<and> rt_TransferEncoding t = [])"

definition validHumanInteractionGETTransport :: "'st AuthorizeContext \<Rightarrow> string \<Rightarrow> bool" where
  "validHumanInteractionGETTransport ctx path \<longleftrightarrow>
     rq_Method (cx_Request (ac ctx)) = ''GET'' \<and> exact_target ctx path \<and> rt_ContentLength (ac_Transport ctx) = 0"

text \<open>The values of a header under any spelling of its name, \<open>None\<close> when the header is absent. A field without values counts
  as one empty value.\<close>

definition humanInteractionHeaderValues :: "(string \<times> string list) list \<Rightarrow> string \<Rightarrow> string list option" where
  "humanInteractionHeaderValues header name =
     (let found = filter (\<lambda>(candidate, members). strings_EqualFold candidate name) header in
      if found = [] then None else Some (concat (map (\<lambda>(candidate, members). if members = [] then [''''] else members) found)))"

definition humanFetchMetadataIsSameOriginNavigation :: "(string \<times> string list) list \<Rightarrow> bool" where
  "humanFetchMetadataIsSameOriginNavigation header =
     list_all (\<lambda>(name, want). case humanInteractionHeaderValues header name of None \<Rightarrow> True | Some values \<Rightarrow> values = [want])
       [(''Sec-Fetch-Dest'', ''document''), (''Sec-Fetch-Mode'', ''navigate''), (''Sec-Fetch-Site'', ''same-origin''), (''Sec-Fetch-User'', ''?1'')]"

definition validHumanInteractionPOSTTransport :: "'st AuthorizeContext \<Rightarrow> string \<Rightarrow> string \<Rightarrow> bool" where
  "validHumanInteractionPOSTTransport ctx path issuer \<longleftrightarrow>
     (let t = ac_Transport ctx; field = humanInteractionHeaderValues (rt_HeaderFields t) in
      rq_Method (cx_Request (ac ctx)) = ''POST'' \<and> exact_target ctx path \<and>
      1 \<le> rt_ContentLength t \<and> rt_ContentLength t \<le> humanInteractionMaxFormBytes \<and>
      (case canonicalHumanInteractionIssuer (cx_Lib (ac ctx)) issuer of
         None \<Rightarrow> False
       | Some issuerURL \<Rightarrow>
           let wantOrigin = u_Scheme issuerURL @ ''://'' @ u_Host issuerURL in
           rt_Host t = u_Host issuerURL \<and>
           list_all (\<lambda>name. field name = None)
             [''Authorization'', ''Proxy-Authorization'', ''DPoP'', ''OAuth-Client-Attestation'', ''OAuth-Client-Attestation-PoP''] \<and>
           field ''Content-Type'' = Some [''application/x-www-form-urlencoded''] \<and> field ''Origin'' = Some [wantOrigin] \<and>
           field ''Referer'' = Some [wantOrigin @ path] \<and> humanFetchMetadataIsSameOriginNavigation (rt_HeaderFields t)))"

text \<open>The form with exactly the named fields, one value each. The limit on the body applies while it is read.\<close>

definition parseExactHumanInteractionForm :: "'st AuthorizeContext \<Rightarrow> string list \<Rightarrow> string list option" where
  "parseExactHumanInteractionForm ctx names =
     (let r = cx_Request (ac ctx); posted = remdups (map fst (rq_PostForm r));
          all = remdups (map fst (rq_PostForm r) @ map fst (fst (al_ParseQuery (ac_Lib ctx) (rq_RawQuery r)))) in
      if rq_FormParseFailed r \<or> rq_ParseErr r \<noteq> None \<or> length posted \<noteq> length names \<or> length all \<noteq> length names then None
      else those (map (\<lambda>name. case map_of (rq_PostForm r) name of
          Some [value] \<Rightarrow> if value = '''' then None else Some value | _ \<Rightarrow> None) names))"

definition humanBrowserBindingCookie :: "(string \<times> string) list \<Rightarrow> string \<Rightarrow> string option" where
  "humanBrowserBindingCookie cookies name =
     (case filter (\<lambda>cookie. fst cookie = name) cookies of
        [cookie] \<Rightarrow> if snd cookie = '''' then None else Some (snd cookie)
      | _ \<Rightarrow> None)"

section \<open>Confirming the browser\<close>

text \<open>One attempt to mint a capability, and the second one when the first is not of the sealed form.\<close>

definition mint_attempt :: "'st AuthorizeContext \<Rightarrow> ('st, string option) M" where
  "mint_attempt ctx =
     tryM (callE (l_Random (cx_Lib (ac ctx)))) (\<lambda>entropy.
     okM (HumanBrowserReturnCapability_Render (NewHumanBrowserReturnCapability (''d0_hio_c1_'' @ RawURLEncode entropy))))"

definition mintHumanBrowserReturnCapability :: "'st AuthorizeContext \<Rightarrow> ('st, string) M" where
  "mintHumanBrowserReturnCapability ctx =
     tryM (mint_attempt ctx) (\<lambda>first. case first of
       Some c \<Rightarrow> okM c
     | None \<Rightarrow> tryM (mint_attempt ctx) (\<lambda>second. case second of
           Some c \<Rightarrow> okM c
         | None \<Rightarrow> failM (ErrNew ''invalid human authorization value'')))"

definition server_unavailable :: "'st AuthorizeContext \<Rightarrow> ('st, unit) A" where
  "server_unavailable ctx = writeHumanInteractionError ctx 500 humanInteractionServerBody"

definition rejected_interaction :: "'st AuthorizeContext \<Rightarrow> int \<Rightarrow> ('st, unit) A" where
  "rejected_interaction ctx status = writeHumanInteractionError ctx status humanInteractionRejectedBody"

definition handleHumanBrowserInteractionGET :: "InteractionAssets \<Rightarrow> 'st AuthorizeContext \<Rightarrow> ('st, unit) A" where
  "handleHumanBrowserInteractionGET a ctx =
     (if \<not> validHumanInteractionConfiguration ctx then server_unavailable ctx
      else if \<not> validHumanInteractionGETTransport ctx (humanInteractionRoute ctx humanBrowserInteractionRoute)
      then rejected_interaction ctx 400
      else runM (baseM (mintHumanBrowserReturnCapability ctx)) (\<lambda>r. case r of
          Inl _ \<Rightarrow> server_unavailable ctx
        | Inr browserReturn \<Rightarrow>
            (case humanInteractionHTTPSOrigin (cx_Lib (ac ctx)) (az_HumanIdentityReadyEndpoint (ac_conf ctx)) of
               None \<Rightarrow> server_unavailable ctx
             | Some identityReadyOrigin \<Rightarrow>
                 writeHumanInteractionPage ctx (browser_page a ctx browserReturn) humanBrowserInteractionScript
                   (humanInteractionStyle a) [identityReadyOrigin])))"

text \<open>The input of the authority: the posted capabilities and the binding cookie, each of its sealed form.\<close>

definition continuation_input :: "'st AuthorizeContext \<Rightarrow> HumanContinuationInput option" where
  "continuation_input ctx =
     (case (parseExactHumanInteractionForm ctx [humanIdentityReturnFormField, humanBrowserReturnFormField],
            humanBrowserBindingCookie (rt_Cookies (ac_Transport ctx)) (az_HumanBrowserBindingCookieName (ac_conf ctx))) of
        (Some [identity, browser], Some cookie) \<Rightarrow>
          (case (NewHumanIdentityReturnCapability identity, NewHumanBrowserReturnCapability browser, NewHumanBrowserBindingCapability cookie) of
             (Some i, Some b, Some c) \<Rightarrow> NewHumanContinuationInput (Some i) (Some b) (Some c)
           | _ \<Rightarrow> None)
      | _ \<Rightarrow> None)"

definition confirmed_browser :: "InteractionAssets \<Rightarrow> 'st AuthorizeContext \<Rightarrow> HumanContinuationInput \<Rightarrow> ('st, unit) A" where
  "confirmed_browser a ctx input =
     runM (baseM (HumanConfirmBrowser (ac ctx) (az_HumanFlow (ac_conf ctx)) input)) (\<lambda>r. case r of
        Inl _ \<Rightarrow> writeHumanInteractionRestart a ctx 500
      | Inr decision \<Rightarrow>
          let outcome = (case decision of None \<Rightarrow> '''' | Some d \<Rightarrow> hcd_outcome d) in
          if outcome \<in> {HumanContinuationOutcomeConfirmed, HumanContinuationOutcomeReplayed} then
            (case (HumanBrowserReturnCapability_Render (HumanContinuationDecision_BrowserReturn decision),
                   HumanBrowserReturnCapability_Render (hci_browserReturn input)) of
               (Some confirmedText, Some expectedText) \<Rightarrow>
                 if confirmedText \<noteq> expectedText then server_unavailable ctx
                 else writeHumanInteractionRedirect ctx (az_HumanIdentityReadyEndpoint (ac_conf ctx) @ ''#'' @ confirmedText)
             | _ \<Rightarrow> server_unavailable ctx)
          else if outcome \<in> {HumanContinuationOutcomeExpired, HumanContinuationOutcomeRejected}
          then writeHumanInteractionRestart a ctx 400
          else server_unavailable ctx)"

definition handleHumanBrowserInteractionPOST :: "InteractionAssets \<Rightarrow> 'st AuthorizeContext \<Rightarrow> ('st, unit) A" where
  "handleHumanBrowserInteractionPOST a ctx =
     (if \<not> validHumanInteractionConfiguration ctx \<or>
         humanInteractionHTTPSOrigin (cx_Lib (ac ctx)) (az_HumanIdentityReadyEndpoint (ac_conf ctx)) = None
      then server_unavailable ctx
      else if \<not> validHumanInteractionPOSTTransport ctx (humanInteractionRoute ctx humanBrowserInteractionRoute) (cf_Host (cx (ac ctx)))
      then rejected_interaction ctx 400
      else case continuation_input ctx of
        None \<Rightarrow> writeHumanInteractionRestart a ctx 400
      | Some input \<Rightarrow> confirmed_browser a ctx input)"

definition handlerHumanBrowserInteraction :: "InteractionAssets \<Rightarrow> 'st AuthorizeContext \<Rightarrow> ('st, unit) A" where
  "handlerHumanBrowserInteraction a ctx =
     (if rq_Method (cx_Request (ac ctx)) = ''GET'' then handleHumanBrowserInteractionGET a ctx
      else if rq_Method (cx_Request (ac ctx)) = ''POST'' then handleHumanBrowserInteractionPOST a ctx
      else rejected_interaction ctx 405)"

section \<open>Consuming the ready capability\<close>

definition reboundHumanCompletionRedirect ::
  "'st AuthorizeContext \<Rightarrow> HumanCompletionDecision \<Rightarrow> string list \<Rightarrow> ('st, string) M" where
  "reboundHumanCompletionRedirect ctx decision completionOrigins =
     (let refused = ErrNew ''the completion is not bound to the current client'' in
      case decision of
        None \<Rightarrow> failM refused
      | Some d \<Rightarrow>
          guardM (\<not> HumanCompletionDecision_Valid (cx_Lib (ac ctx)) decision \<or>
              hcm_profile d \<noteq> AuthorizationRequestProfileHumanConfidentialBFF \<or> \<not> validHumanInteractionConfiguration ctx) refused (
          tryM (Client_of (ac ctx) (hcm_clientID d)) (\<lambda>resolved.
          tryM (authorizationAdmissionClient ctx resolved) (\<lambda>(isolated, strict).
          guardM (\<not> strict \<or> c_ID isolated \<noteq> hcm_clientID d \<or> \<not> authority_revision_is isolated (hcm_clientSnapshotRevision d) \<or>
              \<not> authority_has_key isolated (hcm_admissionKeyAuthorityID d) \<or> hcm_redirectURI d \<notin> set (c_RedirectURIs isolated)) refused (
          case humanInteractionHTTPSOrigin (cx_Lib (ac ctx)) (hcm_redirectURI d) of
            None \<Rightarrow> failM refused
          | Some redirectOrigin \<Rightarrow> guardM (redirectOrigin \<notin> set completionOrigins) refused (okM (hcm_redirectURI d)))))))"

definition humanCompletionRedirect :: "'st AuthorizeContext \<Rightarrow> string \<Rightarrow> (string \<times> string list) list \<Rightarrow> string" where
  "humanCompletionRedirect ctx base values =
     (case l_url_ParseRequestURI (cx_Lib (ac ctx)) base of
        Inl _ \<Rightarrow> ''''
      | Inr parsed \<Rightarrow> l_url_String (cx_Lib (ac ctx))
          (parsed\<lparr>u_RawQuery := al_EncodeQuery (ac_Lib ctx) values, u_ForceQuery := False\<rparr>))"

definition handleHumanConsumeInteractionGET :: "InteractionAssets \<Rightarrow> 'st AuthorizeContext \<Rightarrow> ('st, unit) A" where
  "handleHumanConsumeInteractionGET a ctx =
     (if \<not> validHumanInteractionConfiguration ctx then server_unavailable ctx
      else if \<not> validHumanInteractionGETTransport ctx (humanInteractionRoute ctx humanConsumeInteractionRoute)
      then rejected_interaction ctx 400
      else case humanCompletionOriginSnapshot ctx of
        None \<Rightarrow> server_unavailable ctx
      | Some completionOrigins \<Rightarrow>
          writeHumanInteractionPage ctx (consume_page a ctx) humanConsumeInteractionScript (humanInteractionStyle a) completionOrigins)"

definition completion_input :: "'st AuthorizeContext \<Rightarrow> HumanCompletionInput option" where
  "completion_input ctx =
     (case (parseExactHumanInteractionForm ctx [humanReadyFormField],
            humanBrowserBindingCookie (rt_Cookies (ac_Transport ctx)) (az_HumanBrowserBindingCookieName (ac_conf ctx))) of
        (Some [ready], Some cookie) \<Rightarrow>
          (case (NewHumanReadyCapability ready, NewHumanBrowserBindingCapability cookie) of
             (Some r, Some c) \<Rightarrow> NewHumanCompletionInput (Some r) (Some c)
           | _ \<Rightarrow> None)
      | _ \<Rightarrow> None)"

text \<open>The redirect of a completed and of a failed authorization.\<close>

definition return_to_client ::
  "'st AuthorizeContext \<Rightarrow> HumanCompletionDecision \<Rightarrow> string list \<Rightarrow> (string \<times> string list) list option \<Rightarrow> ('st, unit) A" where
  "return_to_client ctx decision completionOrigins values =
     runM (baseM (reboundHumanCompletionRedirect ctx decision completionOrigins)) (\<lambda>r. case r of
        Inl _ \<Rightarrow> server_unavailable ctx
      | Inr redirectBase \<Rightarrow>
          (case values of
             None \<Rightarrow> server_unavailable ctx
           | Some vs \<Rightarrow> writeHumanInteractionRedirect ctx (humanCompletionRedirect ctx redirectBase vs)))"

definition completed_values :: "'st AuthorizeContext \<Rightarrow> humanCompletionDecisionState \<Rightarrow> (string \<times> string list) list option" where
  "completed_values ctx d =
     map_option (\<lambda>codeText. [(''code'', [codeText]), (''state'', [hcm_state d]), (''iss'', [Issuer (ac ctx)])])
       (HumanAuthorizationCode_Render (hcm_authorizationCode d))"

definition failed_values :: "'st AuthorizeContext \<Rightarrow> humanCompletionDecisionState \<Rightarrow> (string \<times> string list) list" where
  "failed_values ctx d = [(''error'', [hcm_failure d]), (''state'', [hcm_state d]), (''iss'', [Issuer (ac ctx)])]"

definition completed_authorization ::
  "InteractionAssets \<Rightarrow> 'st AuthorizeContext \<Rightarrow> string list \<Rightarrow> HumanCompletionInput \<Rightarrow> ('st, unit) A" where
  "completed_authorization a ctx completionOrigins input =
     runM (baseM (HumanCompleteAuthorization (ac ctx) (az_HumanFlow (ac_conf ctx)) input)) (\<lambda>r.
     tryM (clearHumanBrowserBindingCookie ctx) (\<lambda>_. case r of
        Inl _ \<Rightarrow> writeHumanInteractionRestart a ctx 500
      | Inr None \<Rightarrow> server_unavailable ctx
      | Inr (Some d) \<Rightarrow>
          if hcm_outcome d = HumanCompletionOutcomeCompleted
          then return_to_client ctx (Some d) completionOrigins (completed_values ctx d)
          else if hcm_outcome d = HumanCompletionOutcomeFailed
          then return_to_client ctx (Some d) completionOrigins (Some (failed_values ctx d))
          else if hcm_outcome d \<in> {HumanCompletionOutcomeReplayed, HumanCompletionOutcomeExpired, HumanCompletionOutcomeRejected}
          then writeHumanInteractionRestart a ctx 400
          else server_unavailable ctx))"

definition handleHumanConsumeInteractionPOST :: "InteractionAssets \<Rightarrow> 'st AuthorizeContext \<Rightarrow> ('st, unit) A" where
  "handleHumanConsumeInteractionPOST a ctx =
     (if \<not> validHumanInteractionConfiguration ctx then server_unavailable ctx
      else case humanCompletionOriginSnapshot ctx of
        None \<Rightarrow> server_unavailable ctx
      | Some completionOrigins \<Rightarrow>
          if \<not> validHumanInteractionPOSTTransport ctx (humanInteractionRoute ctx humanConsumeInteractionRoute) (cf_Host (cx (ac ctx)))
          then rejected_interaction ctx 400
          else (case completion_input ctx of
             None \<Rightarrow> writeHumanInteractionRestart a ctx 400
           | Some input \<Rightarrow> completed_authorization a ctx completionOrigins input))"

definition handlerHumanConsumeInteraction :: "InteractionAssets \<Rightarrow> 'st AuthorizeContext \<Rightarrow> ('st, unit) A" where
  "handlerHumanConsumeInteraction a ctx =
     (if rq_Method (cx_Request (ac ctx)) = ''GET'' then handleHumanConsumeInteractionGET a ctx
      else if rq_Method (cx_Request (ac ctx)) = ''POST'' then handleHumanConsumeInteractionPOST a ctx
      else rejected_interaction ctx 405)"

section \<open>Safety\<close>

text \<open>A response without a redirect and without a cookie, for which nothing outside the program was called.\<close>

definition page_only :: "'st AuthorizeWorld \<Rightarrow> 'st AuthorizeWorld \<Rightarrow> bool" where
  "page_only w w' \<longleftrightarrow> aw_sent w' = aw_sent w \<and> aw_cookies w' = aw_cookies w \<and> w_calls (aw w') = w_calls (aw w)"

lemma page_run: "write_interaction ctx script style origins contentType status body w = (r, w') \<Longrightarrow> page_only w w'"
  by (auto simp: page_only_def write_interaction_def setHumanInteractionSecurityHeaders_def set_header_def WriteHeader_def baseM_def)

lemma redirect_run:
  "writeHumanInteractionRedirect ctx location w = (r, w') \<Longrightarrow>
     aw_sent w' = aw_sent w @ [Redirected location] \<and> aw_cookies w' = aw_cookies w"
  by (auto simp: writeHumanInteractionRedirect_def setHumanInteractionSecurityHeaders_def set_header_def WriteHeader_def baseM_def)

lemma page_pages:
  "writeHumanInteractionError ctx status body w = (r, w') \<Longrightarrow> page_only w w'"
  "writeHumanInteractionRestart a ctx status w = (r, w') \<Longrightarrow> page_only w w'"
  "writeHumanInteractionPage ctx body script style origins w = (r, w') \<Longrightarrow> page_only w w'"
  "server_unavailable ctx w = (r, w') \<Longrightarrow> page_only w w'"
  "rejected_interaction ctx status w = (r, w') \<Longrightarrow> page_only w w'"
  unfolding writeHumanInteractionError_def writeHumanInteractionRestart_def writeHumanInteractionPage_def server_unavailable_def
    rejected_interaction_def by (rule page_run, assumption)+

text \<open>A decision that may be returned to a client: the client it names still resolves to a valid strict client of the same
  authority snapshot and admission key, registers the redirect URI, and the URI has a configured completion origin.\<close>

definition bound_to_client :: "'st AuthorizeContext \<Rightarrow> humanCompletionDecisionState \<Rightarrow> bool" where
  "bound_to_client ctx d \<longleftrightarrow>
     (\<exists>c u u'. Client_of (ac ctx) (hcm_clientID d) (u :: 'st World) = (Inr c, u') \<and> c_ID c = hcm_clientID d \<and>
        c_AuthorizationRequestProfile c = AuthorizationRequestProfileHumanConfidentialBFF \<and>
        validHumanConfidentialBFFClient (cx_Lib (ac ctx)) c \<and> authority_revision_is c (hcm_clientSnapshotRevision d) \<and>
        authority_has_key c (hcm_admissionKeyAuthorityID d) \<and> hcm_redirectURI d \<in> set (c_RedirectURIs c)) \<and>
     (\<exists>origins origin. humanCompletionOriginSnapshot ctx = Some origins \<and> origin \<in> set origins \<and>
        humanInteractionHTTPSOrigin (cx_Lib (ac ctx)) (hcm_redirectURI d) = Some origin)"

lemma admitted_strict:
  "authorizationAdmissionClient ctx c u = (Inr (clone, True), u') \<Longrightarrow>
     clone = c \<and> c_AuthorizationRequestProfile c = AuthorizationRequestProfileHumanConfidentialBFF \<and>
     validHumanConfidentialBFFClient (cx_Lib (ac ctx)) c"
  unfolding authorizationAdmissionClient_def cloneHumanConfidentialBFFClient_def by (auto simp: ok_simps split: if_splits)

lemma rebound_ok:
  assumes "humanCompletionOriginSnapshot ctx = Some origins"
    and "reboundHumanCompletionRedirect ctx (Some d) origins u = (Inr base, u')"
  shows "base = hcm_redirectURI d \<and> bound_to_client ctx d"
  using assms unfolding reboundHumanCompletionRedirect_def bound_to_client_def Let_def
  by (auto simp: ok_simps split: option.splits dest!: admitted_strict) blast+

text \<open>The one redirect of a completion, and the cookie it clears.\<close>

definition returned_to_client :: "'st AuthorizeContext \<Rightarrow> HumanCompletionInput \<Rightarrow> 'st AuthorizeWorld \<Rightarrow> 'st AuthorizeWorld \<Rightarrow> bool" where
  "returned_to_client ctx input w w' \<longleftrightarrow>
     (\<exists>n d vs. hf_CompleteAuthorization (az_HumanFlow (ac_conf ctx)) n input = Some (Inr (Some d)) \<and>
        HumanCompletionDecision_Valid (cx_Lib (ac ctx)) (Some d) \<and> bound_to_client ctx d \<and>
        (hcm_outcome d = HumanCompletionOutcomeCompleted \<and> completed_values ctx d = Some vs \<or>
         hcm_outcome d = HumanCompletionOutcomeFailed \<and> vs = failed_values ctx d) \<and>
        aw_sent w' = aw_sent w @ [Redirected (humanCompletionRedirect ctx (hcm_redirectURI d) vs)])"

abbreviation cleared :: "'st AuthorizeContext \<Rightarrow> 'st AuthorizeWorld \<Rightarrow> 'st AuthorizeWorld \<Rightarrow> bool" where
  "cleared ctx w w' \<equiv> aw_cookies w' = aw_cookies w @ [(az_HumanBrowserBindingCookieName (ac_conf ctx), '''', 1, -1)]"

lemma return_run:
  assumes "humanCompletionOriginSnapshot ctx = Some origins" "return_to_client ctx (Some d) origins values w = (r, w')"
  shows "aw_cookies w' = aw_cookies w \<and> (aw_sent w' = aw_sent w \<or> bound_to_client ctx d \<and> (\<exists>vs. values = Some vs \<and>
     aw_sent w' = aw_sent w @ [Redirected (humanCompletionRedirect ctx (hcm_redirectURI d) vs)]))"
proof -
  obtain s v where m: "reboundHumanCompletionRedirect ctx (Some d) origins (aw w) = (s, v)" by fastforce
  show ?thesis
  proof (cases s)
    case Inl
    then show ?thesis
      using assms(2) m unfolding return_to_client_def by (auto dest!: page_pages simp: page_only_def)
  next
    case (Inr base)
    with m rebound_ok [OF assms(1)] have "base = hcm_redirectURI d" "bound_to_client ctx d" by auto
    with Inr m assms(2) show ?thesis
      unfolding return_to_client_def by (auto simp: page_only_def split: option.splits dest!: page_pages redirect_run)
  qed
qed

lemma completed_run:
  assumes "humanCompletionOriginSnapshot ctx = Some origins" "completed_authorization a ctx origins input w = (r, w')"
  shows "cleared ctx w w' \<and> (aw_sent w' = aw_sent w \<or> returned_to_client ctx input w w')"
proof -
  obtain s v where m: "HumanCompleteAuthorization (ac ctx) (az_HumanFlow (ac_conf ctx)) input (aw w) = (s, v)" by fastforce
  let ?w = "w\<lparr>aw := v, aw_cookies := aw_cookies w @ [(az_HumanBrowserBindingCookieName (ac_conf ctx), '''', 1, -1)]\<rparr>"
  show ?thesis
  proof (cases s)
    case Inl
    then show ?thesis
      using assms(2) m unfolding completed_authorization_def clearHumanBrowserBindingCookie_def SetCookie_def
      by (auto dest!: page_pages simp: page_only_def)
  next
    case (Inr decision)
    obtain n d where d: "decision = Some d" "hf_CompleteAuthorization (az_HumanFlow (ac_conf ctx)) n input = Some (Inr (Some d))"
        "HumanCompletionDecision_Valid (cx_Lib (ac ctx)) (Some d)"
      using callHuman_ok [OF m [unfolded Inr HumanCompleteAuthorization_def]]
      by (auto simp: HumanCompletionDecision_Valid_def split: option.splits)
    show ?thesis
      using assms(2) m Inr d return_run [OF assms(1), of d _ ?w r w']
      unfolding completed_authorization_def clearHumanBrowserBindingCookie_def SetCookie_def returned_to_client_def
      by (auto simp: page_only_def split: if_splits dest!: page_pages)
  qed
qed

text \<open>C5: The page that consumes the ready capability of the strict human flow. Whatever request it receives, it either only writes a
  page, setting no cookie and calling nothing outside the program; or the request was a same-origin form post of exactly
  the ready capability with exactly one binding cookie, the completion was attempted, and the binding cookie is cleared,
  whatever came of it. The browser leaves to at most one place: the redirect URI of the authority's decision,
  when the client the decision names still resolves to a valid strict client with the decision's snapshot revision,
  admission key and redirect URI, and the URI has one of the configured completion origins; it carries the code or the
  failure of that decision with its state and the issuer.\<close>

theorem completion_returns_to_client:
  "let w' = snd (handlerHumanConsumeInteraction a ctx w) in
    page_only w w' \<or>
    cleared ctx w w' \<and> validHumanInteractionConfiguration ctx \<and>
    validHumanInteractionPOSTTransport ctx (humanInteractionRoute ctx humanConsumeInteractionRoute) (cf_Host (cx (ac ctx))) \<and>
    (\<exists>input. completion_input ctx = Some input \<and> (aw_sent w' = aw_sent w \<or> returned_to_client ctx input w w'))"
proof -
  obtain r w' where run: "handlerHumanConsumeInteraction a ctx w = (r, w')" by fastforce
  show ?thesis unfolding run Let_def snd_conv using run
    unfolding handlerHumanConsumeInteraction_def handleHumanConsumeInteractionGET_def handleHumanConsumeInteractionPOST_def
    by (auto split: if_splits option.splits dest: page_pages completed_run)
qed

lemma confirmed_run:
  assumes "confirmed_browser a ctx input w = (r, w')"
  shows "aw_cookies w' = aw_cookies w \<and> (aw_sent w' = aw_sent w \<or>
    (\<exists>n d text. hf_ConfirmBrowser (az_HumanFlow (ac_conf ctx)) n input = Some (Inr (Some d)) \<and>
       hcd_outcome d \<in> {HumanContinuationOutcomeConfirmed, HumanContinuationOutcomeReplayed} \<and> hci_browserReturn input = Some text \<and>
       aw_sent w' = aw_sent w @ [Redirected (az_HumanIdentityReadyEndpoint (ac_conf ctx) @ ''#'' @ text)]))"
proof -
  obtain s v where m: "HumanConfirmBrowser (ac ctx) (az_HumanFlow (ac_conf ctx)) input (aw w) = (s, v)" by fastforce
  show ?thesis
  proof (cases s)
    case Inl
    then show ?thesis
      using assms m unfolding confirmed_browser_def by (auto dest!: page_pages simp: page_only_def)
  next
    case (Inr decision)
    obtain n d where d: "decision = Some d" "hf_ConfirmBrowser (az_HumanFlow (ac_conf ctx)) n input = Some (Inr (Some d))"
      using callHuman_ok [OF m [unfolded Inr HumanConfirmBrowser_def]]
      by (auto simp: HumanContinuationDecision_Valid_def split: option.splits)
    have render: "HumanBrowserReturnCapability_Render v = Some x \<Longrightarrow> v = Some x" for v x
      by (auto simp: HumanBrowserReturnCapability_Render_def renderHumanCapability_def split: if_splits)
    show ?thesis
      using assms m Inr d unfolding confirmed_browser_def Let_def
      by (auto simp: page_only_def split: if_splits option.splits dest!: page_pages redirect_run render)
  qed
qed

text \<open>C31: The page that confirms the browser of the strict human flow: it sets no cookie, and either only writes a page or
  sends the browser, after a same-origin post of exactly the two capabilities with exactly one binding cookie that the
  authority confirmed, to the configured ready endpoint with the very browser capability that was posted.\<close>

theorem confirmation_returns_capability:
  "let w' = snd (handlerHumanBrowserInteraction a ctx w) in
    aw_cookies w' = aw_cookies w \<and> (aw_sent w' = aw_sent w \<or>
    validHumanInteractionConfiguration ctx \<and>
    validHumanInteractionPOSTTransport ctx (humanInteractionRoute ctx humanBrowserInteractionRoute) (cf_Host (cx (ac ctx))) \<and>
    (\<exists>input n d text. continuation_input ctx = Some input \<and>
       hf_ConfirmBrowser (az_HumanFlow (ac_conf ctx)) n input = Some (Inr (Some d)) \<and>
       hcd_outcome d \<in> {HumanContinuationOutcomeConfirmed, HumanContinuationOutcomeReplayed} \<and> hci_browserReturn input = Some text \<and>
       aw_sent w' = aw_sent w @ [Redirected (az_HumanIdentityReadyEndpoint (ac_conf ctx) @ ''#'' @ text)]))"
proof -
  obtain r w' where run: "handlerHumanBrowserInteraction a ctx w = (r, w')" by fastforce
  have get: "handleHumanBrowserInteractionGET a ctx w = (r, w') \<Longrightarrow> aw_cookies w' = aw_cookies w \<and> aw_sent w' = aw_sent w"
    unfolding handleHumanBrowserInteractionGET_def baseM_def runM_def
    by (auto simp: page_only_def split: if_splits prod.splits sum.splits option.splits dest!: page_pages)
  show ?thesis unfolding run Let_def snd_conv using run
    unfolding handlerHumanBrowserInteraction_def handleHumanBrowserInteractionPOST_def
    by (auto simp: page_only_def split: if_splits option.splits dest!: get page_pages confirmed_run)
qed

end
