(* ===== verification/Spec2Isabelle.thy ===== *)
theory Spec2Isabelle
  imports Serving Federation DeviceAuthorization HumanInteraction
begin

text \<open>
  A verification development for go-oidc, an OpenID Connect provider written in Go.

  \<^bold>\<open>The program.\<close> A provider is a configuration (\<^verbatim>\<open>internal/oidc/config.go\<close>) and a set of HTTP handlers. Every
  request is served in a context (\<^verbatim>\<open>internal/oidc/context.go\<close>) that gives access to the configuration, to the
  request and response, to the managers that persist clients, sessions, grants and tokens, and to the functions
  the deployment configures. The token endpoint (\<^verbatim>\<open>internal/token\<close>) authenticates the client
  (\<^verbatim>\<open>internal/client\<close>), checks sender binding (\<^verbatim>\<open>internal/dpop\<close>, mutual TLS), and redeems one of nine grants.
  The authorization endpoint (\<^verbatim>\<open>internal/authorize\<close>) takes requests from the browser, from request objects that it may
  have to fetch, or from requests that were pushed before; it lets configured policies authenticate the user over
  several callbacks and sends the browser back to the client. Devices and backchannel clients start there as well. The
  strict flow for human authorization admits one closed client profile and delegates its state to a configured
  authority. Clients may be members of a federation (\<^verbatim>\<open>internal/federation\<close>): their metadata is resolved along a chain of
  signed statements up to a trust anchor. The in-memory storage (\<^verbatim>\<open>internal/storage\<close>) is the provider's own
  implementation of the managers.

  \<^bold>\<open>How the theories correspond to the code.\<close>
  \<^item> \<open>Prelude\<close>: generic lemmas and the program monad: a computation takes the world and returns an error or a value
    with the new world; \<open>tryM\<close> is the early return on error, \<open>attemptM\<close> the inspection of an error, \<open>guardM\<close> an
    \<^verbatim>\<open>if\<close> that returns. The collections \<open>frame_intros\<close>, \<open>ok_simps\<close> and \<open>fail_intros\<close> carry the proofs about what a
    computation keeps, what a success implies and which errors it may have.
  \<^item> \<open>Errors\<close>, \<open>Goidc\<close>: \<^verbatim>\<open>pkg/goidc\<close>, its error values and data types under the names of the source.
  \<^item> \<open>External\<close>: what the code calls and does not contain. Functions of the Go library are defined; the JOSE library,
    hashes, JSON decoding, the clock and randomness are fields of a record, an argument of the model.
  \<^item> \<open>Managers\<close>, \<open>Storage\<close>: the persistence interfaces, a locale with their contract, and the in-memory storage with the
    proof that it meets the contract.
  \<^item> \<open>Context\<close>: the request context: request-local authority evidence, token endpoint evidence, replay
    reservation, key selection and signing, responses. A pointer to a grant is modelled as a cell of the world, with
    a flag that says whether the store shares the object.
  \<^item> \<open>Dpop\<close>, \<open>ClientAuthn\<close>, \<open>VcUtil\<close>: proofs of possession, client authentication, resolution of credential requests.
  \<^item> \<open>TokenRequest\<close>, \<open>Issuance\<close>, \<open>CodeGrants\<close>, \<open>Grants\<close>, \<open>Ciba\<close>, \<open>Introspection\<close>, \<open>TokenEndpoint\<close>: the package
    \<^verbatim>\<open>internal/token\<close>, from the validation of requests to the handlers.
  \<^item> \<open>HumanValues\<close>, \<open>HumanToken\<close>: the values of the strict flow and its code grant.
  \<^item> \<open>Serving\<close>: sequences of served requests, and the properties that hold across them.
  \<^item> \<open>MetadataOperators\<close>, \<open>MetadataPolicy\<close>: the operators of federation metadata policies, and the policies and metadata of
    clients and providers (\<^verbatim>\<open>internal/federation/operator.go\<close>, \<^verbatim>\<open>policy.go\<close>, \<^verbatim>\<open>metadata.go\<close>). The locale \<open>enforceable\<close> states what the
    resolution of metadata needs of policies, and is interpreted for operators, providers, clients and entities.
  \<^item> \<open>EntityStatement\<close>, \<open>TrustChain\<close>, \<open>Federation\<close>: entity statements, fetching, parsing, the search for and the check of trust
    chains, and their resolution (\<^verbatim>\<open>internal/federation/model.go\<close>, \<^verbatim>\<open>util.go\<close>, \<^verbatim>\<open>registration.go\<close>).

  \<^item> \<open>JarNetwork\<close>: the addresses a request object may be fetched from, with the part of \<^verbatim>\<open>netip\<close> the code uses
    (\<^verbatim>\<open>internal/authorize/jar_network.go\<close>). \<open>HumanFlow\<close>: the sealed values of the strict flow before the token endpoint.
  \<^item> \<open>AuthorizeModel\<close>, \<open>AuthorizeValidation\<close>, \<open>AuthorizeRedirect\<close>, \<open>RequestObject\<close>, \<open>StrictAdmission\<close>, \<open>AuthorizeFlow\<close>: the authorization
    endpoint file by file: requests and sessions, validators, destinations and response modes, request objects, the closed
    profile, and the flow with its handlers. The world of these programs adds the session object, the cookies and what was
    sent to the browser. \<open>AuthorizeSafety\<close> proves where the browser is sent.
  \<^item> \<open>PushedRequests\<close>, \<open>DeviceAuthorization\<close>, \<open>HumanInteraction\<close>: \<^verbatim>\<open>par.go\<close>, \<^verbatim>\<open>device.go\<close> with \<^verbatim>\<open>ciba.go\<close>, and \<^verbatim>\<open>human_interaction.go\<close> of the same
    package.

  \<^bold>\<open>Conventions.\<close> Errors are values of \<open>go_error\<close>; their messages keep only their fixed part. Timestamps are
  unbounded integers except where the source guards against 64-bit overflow, where the wrap-around is written out.
  Every call of a configured function is numbered, so that it may answer differently each time; hypotheses about such
  functions are named in the theorems that need them. Requests are served one after the other; an operation of
  the storage is atomic, as its mutex makes it. Loops are structural recursion, so every definition is total; only
  the search for a trust chain has no bound in the code and takes fuel, with a theorem that says how much is enough.

  \<^bold>\<open>Results.\<close> An authorization code yields tokens once, a failed redemption revokes the grant, a revoked grant stays revoked,
  and tokens, refresh tokens, proofs of possession and client assertions are accepted only under the conditions the theorems
  state. What the authorization endpoint sends to the browser goes to a redirect URI registered for the client, as long
  as the configured policies leave the registration of the client object alone; request objects are authentic and are
  fetched from admitted addresses only; pushed, backchannel and strict requests are kept for authenticated clients and
  honoured for the same client. Every token request ends with exactly one evidence report that agrees with the response. Helper routines are
  equal to their specifications. Resolved federation metadata satisfies every policy of its chain, and accepted chains
  are vouched for link by link. Where the code falls short of that, a theorem gives the run: a forged trust anchor and a
  forged explicit registration are accepted, and a full storage drops an entry on an update.

  \<^bold>\<open>Not modelled.\<close> Dynamic registration, discovery documents, trust marks, logout, user information, the credential
  endpoints, the provider's options, the registration of routes, and the delivery of strict refresh tokens. The
  reflective deep copy of strict clients and sessions is a copy that may fail. What a policy writes to the response
  itself is not recorded, and time limits of outgoing connections are left out.
\<close>

end
